(* ===== verification/Go_Prelude.thy ===== *)
theory Go_Prelude
  imports Complex_Main "HOL-Library.Sublist" "HOL-Library.Char_ord" "HOL-Library.List_Lexorder"
    "HOL-Library.Multiset"
begin

section \<open>What the components share: errors, strings, numbers and time of Go\<close>

text \<open>
  The vocabulary of the model.  A Go \<^verbatim>\<open>error\<close> is a value of \<open>goerr\<close>: one
  constructor per sentinel error of the sources (\<open>errors.Is\<close> is then equality), \<open>Errorf\<close> for
  an error built from a message, and \<open>External\<close> for an error that a package outside the
  repository returns (a database driver, Redis, the JWT library).  A fallible function returns
  \<open>goerr + 'a\<close>; a function that also changes state returns the new state beside the result,
  because an early return of the source keeps the writes made before it.

  A Go string is its list of bytes (\<open>string\<close>); \<open>ToLower\<close>, \<open>TrimSpace\<close> and
  \<open>EqualFold\<close> act on the ASCII letters and ASCII white space, which is what the standard
  library does on ASCII input.  \<open>time.Time\<close> and \<open>time.Duration\<close> are integers counting
  nanoseconds.  A definition that reads the clock more than once takes a function
  \<open>clk\<close> whose value at \<open>i\<close> is the reading of its \<open>i\<close>-th call of \<open>time.Now\<close>.
\<close>

named_theorems go_simps "equations of the Go library functions the components use"
named_theorems db_simps "unfolding equations of the repository operations"

subsection \<open>Errors\<close>

datatype goerr =
    ErrRecordNotFound
  | ErrSessionNotFound
  | ErrRoleNotFound
  | ErrPermissionNotFound
  | ErrProductNotFound
  | ErrFeatureFlagNotFound
  | ErrFeatureFlagRuleNotFound
  | ErrVerificationTokenNotFound
  | ErrInvalidRefreshToken
  | ErrRefreshTokenReuseDetected
  | ErrGoogleAuthDisabled
  | ErrLocalAuthDisabled
  | ErrLocalEmailUnverified
  | ErrInvalidCredentials
  | ErrWeakPassword
  | ErrInvalidVerifyToken
  | ErrFeatureFlagInvalidRuleType
  | ErrFeatureFlagInvalidRuleValue
  | ErrProductInvalidName
  | ErrProductInvalidDescription
  | ErrProductInvalidPrice
  | ErrProductNoUpdates
  | ErrRetryableReadConflict
  | Errorf string
  | External string

type_synonym 'a result = "goerr + 'a"

text \<open>\<open>err.Error()\<close>.\<close>

fun Error_text :: "goerr \<Rightarrow> string" where
  "Error_text ErrRecordNotFound = ''record not found''"
| "Error_text ErrSessionNotFound = ''session not found''"
| "Error_text ErrRoleNotFound = ''role not found''"
| "Error_text ErrPermissionNotFound = ''permission not found''"
| "Error_text ErrProductNotFound = ''product not found''"
| "Error_text ErrFeatureFlagNotFound = ''feature flag not found''"
| "Error_text ErrFeatureFlagRuleNotFound = ''feature flag rule not found''"
| "Error_text ErrVerificationTokenNotFound = ''verification token not found''"
| "Error_text ErrInvalidRefreshToken = ''invalid refresh token''"
| "Error_text ErrRefreshTokenReuseDetected = ''refresh token reuse detected''"
| "Error_text ErrGoogleAuthDisabled = ''google auth is disabled''"
| "Error_text ErrLocalAuthDisabled = ''local auth is disabled''"
| "Error_text ErrLocalEmailUnverified = ''email verification required''"
| "Error_text ErrInvalidCredentials = ''invalid credentials''"
| "Error_text ErrWeakPassword = ''password does not meet policy requirements''"
| "Error_text ErrInvalidVerifyToken = ''invalid or expired verification token''"
| "Error_text ErrFeatureFlagInvalidRuleType = ''invalid feature flag rule type''"
| "Error_text ErrFeatureFlagInvalidRuleValue = ''invalid feature flag rule value''"
| "Error_text ErrProductInvalidName = ''name must be between 3 and 120 characters''"
| "Error_text ErrProductInvalidDescription = ''description must be <= 500 characters''"
| "Error_text ErrProductInvalidPrice = ''price must be greater than 0''"
| "Error_text ErrProductNoUpdates = ''no updates provided''"
| "Error_text ErrRetryableReadConflict = ''retryable read conflict''"
| "Error_text (Errorf s) = s"
| "Error_text (External s) = s"

type_synonym uint = nat
type_synonym gotime = int
type_synonym duration = int
type_synonym clock = "nat \<Rightarrow> gotime"

abbreviation seconds :: "int \<Rightarrow> duration" where
  "seconds n \<equiv> n * 1000000000"

abbreviation minutes :: "int \<Rightarrow> duration" where
  "minutes n \<equiv> n * 60000000000"

abbreviation milliseconds :: "int \<Rightarrow> duration" where
  "milliseconds n \<equiv> n * 1000000"

text \<open>The zero value of \<open>time.Time\<close> is the first second of the year 1.\<close>

definition zero_time :: gotime where
  "zero_time = seconds (- 62135596800)"

text \<open>The readings of \<open>time.Now\<close> within one call, from the \<open>k\<close>-th on.\<close>

definition later :: "nat \<Rightarrow> clock \<Rightarrow> clock" where
  "later k clk = (\<lambda>i. clk (k + i))"

lemma later_apply [simp]: "later k clk i = clk (k + i)"
  by (simp add: later_def)

lemma mono_later: "mono clk \<Longrightarrow> mono (later k clk)"
  by (simp add: mono_def)

subsection \<open>Strings\<close>

definition lower_char :: "char \<Rightarrow> char" where
  "lower_char c = (if CHR ''A'' \<le> c \<and> c \<le> CHR ''Z'' then char_of (of_char c + 32 :: nat) else c)"

definition ToLower :: "string \<Rightarrow> string" where
  "ToLower s = map lower_char s"

definition is_space :: "char \<Rightarrow> bool" where
  "is_space c \<longleftrightarrow> c = CHR '' '' \<or> (CHR 0x09 \<le> c \<and> c \<le> CHR 0x0D)"

definition TrimSpace :: "string \<Rightarrow> string" where
  "TrimSpace s = rev (dropWhile is_space (rev (dropWhile is_space s)))"

definition EqualFold :: "string \<Rightarrow> string \<Rightarrow> bool" where
  "EqualFold s t \<longleftrightarrow> ToLower s = ToLower t"

fun Split :: "string \<Rightarrow> char \<Rightarrow> string list" where
  "Split [] c = [[]]"
| "Split (x # xs) c =
     (if x = c then [] # Split xs c
      else (case Split xs c of [] \<Rightarrow> [[x]] | y # ys \<Rightarrow> (x # y) # ys))"

fun Join :: "string list \<Rightarrow> string \<Rightarrow> string" where
  "Join [] sep = []"
| "Join [x] sep = x"
| "Join (x # y # ys) sep = x @ sep @ Join (y # ys) sep"

definition HasPrefix :: "string \<Rightarrow> string \<Rightarrow> bool" where
  "HasPrefix s p \<longleftrightarrow> prefix p s"

definition Contains :: "string \<Rightarrow> string \<Rightarrow> bool" where
  "Contains s t \<longleftrightarrow> sublist t s"

lemma is_upper_of_char:
  "CHR ''A'' \<le> c \<and> c \<le> CHR ''Z'' \<longleftrightarrow> 65 \<le> (of_char c :: nat) \<and> (of_char c :: nat) \<le> 90"
  by (simp add: less_eq_char_def)

lemma lower_char_idem [simp]: "lower_char (lower_char c) = lower_char c"
proof (cases "CHR ''A'' \<le> c \<and> c \<le> CHR ''Z''")
  case True
  then have "65 \<le> (of_char c :: nat) \<and> (of_char c :: nat) \<le> 90"
    by (simp only: is_upper_of_char)
  then have "of_char (char_of (of_char c + 32 :: nat) :: char) = (of_char c + 32 :: nat)"
    by simp
  with True show ?thesis
    by (simp only: lower_char_def is_upper_of_char if_True) (simp add: less_eq_char_def)
next
  case False
  then show ?thesis by (simp only: lower_char_def if_False)
qed

lemma ToLower_idem [simp]: "ToLower (ToLower s) = ToLower s"
  by (simp add: ToLower_def)

lemma is_space_lower [simp]: "is_space (lower_char c) = is_space c"
proof (cases "CHR ''A'' \<le> c \<and> c \<le> CHR ''Z''")
  case True
  then have r: "65 \<le> (of_char c :: nat) \<and> (of_char c :: nat) \<le> 90"
    by (simp only: is_upper_of_char)
  then have "of_char (char_of (of_char c + 32 :: nat) :: char) = (of_char c + 32 :: nat)" by simp
  moreover have "is_space d \<longleftrightarrow> (of_char d :: nat) = 32 \<or> 9 \<le> (of_char d :: nat) \<and> (of_char d :: nat) \<le> 13" for d
    by (auto simp: is_space_def less_eq_char_def of_char_eq_iff [symmetric, where 'a = nat])
  ultimately show ?thesis using r True by (simp only: lower_char_def if_True) simp
next
  case False
  then show ?thesis by (simp only: lower_char_def if_False)
qed

lemma TrimSpace_ToLower: "TrimSpace (ToLower s) = ToLower (TrimSpace s)"
proof -
  have "is_space \<circ> lower_char = is_space" by (rule ext) simp
  then show ?thesis by (simp add: TrimSpace_def ToLower_def dropWhile_map rev_map)
qed

lemma TrimSpace_idem [simp]: "TrimSpace (TrimSpace s) = TrimSpace s"
proof -
  have hd: "dropWhile P (dropWhile P xs) = dropWhile P xs" for P :: "char \<Rightarrow> bool" and xs
    by (induction xs) auto
  have last: "dropWhile is_space (rev (dropWhile is_space (rev (dropWhile is_space s)))) =
      rev (dropWhile is_space (rev (dropWhile is_space s)))"
  proof (cases "dropWhile is_space s")
    case Nil
    show ?thesis unfolding Nil by simp
  next
    case (Cons c cs)
    then have "\<not> is_space c" by (metis dropWhile_eq_Cons_conv)
    then have "dropWhile is_space (rev (c # cs)) = dropWhile is_space (rev cs) @ [c]"
      by (cases "\<exists>x \<in> set (rev cs). \<not> is_space x") (auto simp: dropWhile_append1 dropWhile_append2 dropWhile_append)
    with Cons \<open>\<not> is_space c\<close> show ?thesis by simp
  qed
  show ?thesis by (simp add: TrimSpace_def last hd)
qed

lemma ToLower_TrimSpace_ToLower [simp]: "ToLower (TrimSpace (ToLower s)) = TrimSpace (ToLower s)"
  by (simp add: TrimSpace_ToLower)

lemma Split_not_Nil [simp]: "Split s c \<noteq> []"
  by (cases "(s, c)" rule: Split.cases) (auto split: list.splits)

lemma Split_no_sep: "c \<notin> set s \<Longrightarrow> Split s c = [s]"
  by (induction s) auto

lemma Split_append: "c \<notin> set s \<Longrightarrow> Split (s @ c # t) c = s # Split t c"
  by (induction s) auto

lemma Join_Split: "Join (Split s c) [c] = s"
proof (induction s)
  case Nil
  then show ?case by simp
next
  case (Cons x xs)
  then show ?case
    by (cases "Split xs c" rule: list.exhaust; cases "tl (Split xs c)") auto
qed

lemma set_Split: "\<forall>p \<in> set (Split s c). c \<notin> set p"
  by (induction s) (auto split: list.splits)

subsection \<open>Decimal numbers\<close>

fun FormatUint :: "nat \<Rightarrow> string" where
  "FormatUint n = (if n < 10 then [char_of (48 + n)] else FormatUint (n div 10) @ [char_of (48 + n mod 10)])"

declare FormatUint.simps [simp del]

definition is_digit :: "char \<Rightarrow> bool" where
  "is_digit c \<longleftrightarrow> 48 \<le> (of_char c :: nat) \<and> (of_char c :: nat) \<le> 57"

definition digits_value :: "string \<Rightarrow> nat" where
  "digits_value s = foldl (\<lambda>v c. 10 * v + (of_char c - 48)) 0 s"

text \<open>
  \<open>strconv.ParseUint(s, 10, 64)\<close>: at least one digit, only digits, and a value of 64 bits.
\<close>

definition ParseUint :: "string \<Rightarrow> uint option" where
  "ParseUint s = (if s \<noteq> [] \<and> list_all is_digit s \<and> digits_value s < 2 ^ 64
                  then Some (digits_value s) else None)"

lemma digits_value_snoc: "digits_value (s @ [c]) = 10 * digits_value s + (of_char c - 48)"
  by (simp add: digits_value_def)

lemma FormatUint_digits:
  "FormatUint n \<noteq> [] \<and> list_all is_digit (FormatUint n) \<and> digits_value (FormatUint n) = n"
proof (induction n rule: FormatUint.induct)
  case (1 n)
  show ?case
  proof (cases "n < 10")
    case True
    then show ?thesis
      by (simp add: FormatUint.simps [of n] is_digit_def digits_value_def)
  next
    case False
    with 1 show ?thesis
      by (simp add: FormatUint.simps [of n] digits_value_snoc is_digit_def)
  qed
qed

lemma ParseUint_FormatUint [go_simps]: "n < 2 ^ 64 \<Longrightarrow> ParseUint (FormatUint n) = Some n"
  using FormatUint_digits [of n] by (simp add: ParseUint_def)

lemma ParseUint_bound: "ParseUint s = Some n \<Longrightarrow> n < 2 ^ 64"
  by (simp add: ParseUint_def split: if_splits)

lemma FormatUint_inj: "FormatUint m = FormatUint n \<Longrightarrow> m = n"
  using FormatUint_digits by metis

lemma digit_not_sep:
  "c \<in> set (FormatUint n) \<Longrightarrow> is_digit c"
  using FormatUint_digits [of n] by (auto simp: list_all_iff)

lemma dec_first: "\<exists>c cs. FormatUint n = c # cs \<and> is_digit c"
  using FormatUint_digits [of n] by (cases "FormatUint n") auto

definition FormatInt :: "int \<Rightarrow> string" where
  "FormatInt i = (if i < 0 then CHR ''-'' # FormatUint (nat (- i)) else FormatUint (nat i))"

text \<open>\<open>strconv.Atoi\<close> and \<open>strconv.ParseInt(s, 10, 64)\<close>: an optional sign and digits, in the range of 64 bits.\<close>

definition Atoi :: "string \<Rightarrow> int option" where
  "Atoi s =
     (let neg = (s \<noteq> [] \<and> hd s = CHR ''-'');
          d = (if s \<noteq> [] \<and> (hd s = CHR ''-'' \<or> hd s = CHR ''+'') then tl s else s);
          v = (if neg then - int (digits_value d) else int (digits_value d))
      in if d \<noteq> [] \<and> list_all is_digit d \<and> - (2 ^ 63) \<le> v \<and> v < 2 ^ 63 then Some v else None)"

definition is_int64 :: "int \<Rightarrow> bool" where
  "is_int64 i \<longleftrightarrow> - (2 ^ 63) \<le> i \<and> i < 2 ^ 63"

lemma Atoi_FormatInt: "is_int64 i \<Longrightarrow> Atoi (FormatInt i) = Some i"
proof -
  obtain c d where f: "FormatUint (nat i) = c # d" "is_digit c" using dec_first by blast
  then have "c \<noteq> CHR ''-'' \<and> c \<noteq> CHR ''+''" by (auto simp: is_digit_def)
  with f FormatUint_digits [of "nat i"] FormatUint_digits [of "nat (- i)"]
  show "is_int64 i \<Longrightarrow> Atoi (FormatInt i) = Some i"
    by (auto simp: Atoi_def FormatInt_def is_int64_def Let_def)
qed

subsection \<open>Letters and digits\<close>

definition char_between :: "char \<Rightarrow> char \<Rightarrow> char \<Rightarrow> bool" where
  "char_between lo hi c \<longleftrightarrow> lo \<le> c \<and> c \<le> hi"

definition alphanumeric :: "char \<Rightarrow> bool" where
  "alphanumeric c \<longleftrightarrow> is_digit c \<or> char_between (CHR ''A'') (CHR ''Z'') c \<or> char_between (CHR ''a'') (CHR ''z'') c"

definition hex_digit :: "nat \<Rightarrow> char" where
  "hex_digit n = (if n < 10 then char_of (48 + n) else char_of (87 + n))"

text \<open>\<open>strings.SplitN(s, ":", 2)\<close>, with \<open>None\<close> when there is one part only.\<close>

definition split_colon :: "string \<Rightarrow> (string \<times> string) option" where
  "split_colon s = (if CHR '':'' \<in> set s
     then Some (takeWhile (\<lambda>c. c \<noteq> CHR '':'') s, tl (dropWhile (\<lambda>c. c \<noteq> CHR '':'') s)) else None)"

subsection \<open>Lists\<close>

lemma find_Some_iff_filter: "find P xs = (case filter P xs of [] \<Rightarrow> None | x # _ \<Rightarrow> Some x)"
  by (induction xs) auto

lemma filter_map_if:
  "(\<And>x. P x \<Longrightarrow> \<not> Q (f x)) \<Longrightarrow>
   filter Q (map (\<lambda>x. if P x then f x else x) xs) = filter (\<lambda>x. Q x \<and> \<not> P x) xs"
  by (induction xs) auto

text \<open>
  \<open>sort.SliceStable\<close> with the comparison \<open>lt\<close>: insertion of each element before the first one
  that it does not come after, so that equal elements keep their order.
\<close>

fun insert_by :: "('a \<Rightarrow> 'a \<Rightarrow> bool) \<Rightarrow> 'a \<Rightarrow> 'a list \<Rightarrow> 'a list" where
  "insert_by le x [] = [x]"
| "insert_by le x (y # ys) = (if le x y then x # y # ys else y # insert_by le x ys)"

definition sort_by :: "('a \<Rightarrow> 'a \<Rightarrow> bool) \<Rightarrow> 'a list \<Rightarrow> 'a list" where
  "sort_by le xs = foldr (insert_by le) xs []"

definition SliceStable :: "('a \<Rightarrow> 'a \<Rightarrow> bool) \<Rightarrow> 'a list \<Rightarrow> 'a list" where
  "SliceStable lt xs = sort_by (\<lambda>x y. \<not> lt y x) xs"

definition total_preorder :: "('a \<Rightarrow> 'a \<Rightarrow> bool) \<Rightarrow> bool" where
  "total_preorder le \<longleftrightarrow> (\<forall>x y. le x y \<or> le y x) \<and> (\<forall>x y z. le x y \<longrightarrow> le y z \<longrightarrow> le x z)"

lemma total_preorderI:
  "(\<And>x y. le x y \<or> le y x) \<Longrightarrow> (\<And>x y z. le x y \<Longrightarrow> le y z \<Longrightarrow> le x z) \<Longrightarrow> total_preorder le"
  by (simp add: total_preorder_def)

lemma mset_insert_by [simp]: "mset (insert_by le x ys) = add_mset x (mset ys)"
  by (induction ys) auto

lemma mset_sort_by [simp]: "mset (sort_by le xs) = mset xs"
  by (induction xs) (auto simp: sort_by_def)

lemma set_sort_by [simp]: "set (sort_by le xs) = set xs"
  by (metis mset_sort_by set_mset_mset)

lemma sorted_insert_by:
  assumes "total_preorder le" and "sorted_wrt le ys"
  shows "sorted_wrt le (insert_by le x ys)"
  using assms(2)
proof (induction ys)
  case Nil
  then show ?case by simp
next
  case (Cons y ys)
  have set: "set (insert_by le x ys) = insert x (set ys)"
    by (metis mset_insert_by set_mset_mset set_mset_add_mset_insert)
  show ?case
  proof (cases "le x y")
    case True
    with Cons.prems assms(1) show ?thesis by (auto simp: total_preorder_def)
  next
    case False
    with assms(1) have "le y x" by (auto simp: total_preorder_def)
    with False Cons show ?thesis by (simp add: set)
  qed
qed

lemma sorted_sort_by: "total_preorder le \<Longrightarrow> sorted_wrt le (sort_by le xs)"
  by (induction xs) (auto simp: sort_by_def sorted_insert_by)

lemma length_filter_mono:
  "(\<And>x. x \<in> set xs \<Longrightarrow> P x \<Longrightarrow> Q x) \<Longrightarrow> length (filter P xs) \<le> length (filter Q xs)"
  by (induction xs) auto

end
