(* ===== verification/Pagination.thy ===== *)
theory Pagination
  imports Go_Prelude
begin

section \<open>Paging of list queries: \<open>src/internal/repository/pagination.go\<close>\<close>

text \<open>
  \<open>normalizePageRequest\<close> puts any requested page and page size into range and \<open>calcTotalPages\<close>
  computes the number of pages.  \<open>page_of\<close> is what the queries of the repositories compute from
  them (\<open>OFFSET (page - 1) * size LIMIT size\<close>); the theorems say that the pages from 1 to
  the tot cover the whole list, each element once, and that no page is empty or too long.
\<close>

definition DefaultPage :: int where "DefaultPage = 1"
definition DefaultPageSize :: int where "DefaultPageSize = 20"
definition MaxPageSize :: int where "MaxPageSize = 100"

record PageRequest =
  pq_Page :: int
  pq_PageSize :: int

record 'a PageResult =
  pg_Items :: "'a list"
  pg_Page :: int
  pg_PageSize :: int
  pg_Total :: int
  pg_TotalPages :: int

definition normalizePageRequest :: "PageRequest \<Rightarrow> PageRequest" where
  "normalizePageRequest q =
     (let page = (if pq_Page q < 1 then DefaultPage else pq_Page q);
          psz = (if pq_PageSize q < 1 then DefaultPageSize else pq_PageSize q);
          psz = (if psz > MaxPageSize then MaxPageSize else psz)
      in \<lparr>pq_Page = page, pq_PageSize = psz\<rparr>)"

text \<open>
  \<open>tot\<close> is an \<open>int64\<close> and \<open>int\<close> has 64 bits; both divisions are of positive numbers.
\<close>

definition maxInt :: int where "maxInt = 2 ^ 63 - 1"

definition calcTotalPages :: "int \<Rightarrow> int \<Rightarrow> int" where
  "calcTotalPages tot pageSize =
     (if tot \<le> 0 \<or> pageSize \<le> 0 then 0
      else let pages = tot div pageSize;
               pages = (if tot mod pageSize \<noteq> 0 then pages + 1 else pages)
           in if pages > maxInt then maxInt else pages)"

definition page_offset :: "PageRequest \<Rightarrow> int" where
  "page_offset q = (pq_Page q - 1) * pq_PageSize q"

definition page_of :: "PageRequest \<Rightarrow> 'a list \<Rightarrow> 'a list" where
  "page_of q xs = take (nat (pq_PageSize q)) (drop (nat (page_offset q)) xs)"

lemmas page_consts = DefaultPage_def DefaultPageSize_def MaxPageSize_def

lemma normalizePageRequest_range:
  "1 \<le> pq_Page (normalizePageRequest q)"
  "1 \<le> pq_PageSize (normalizePageRequest q)"
  "pq_PageSize (normalizePageRequest q) \<le> 100"
  by (simp_all add: normalizePageRequest_def page_consts Let_def)

lemma normalizePageRequest_id:
  "1 \<le> pq_Page q \<Longrightarrow> 1 \<le> pq_PageSize q \<Longrightarrow> pq_PageSize q \<le> 100 \<Longrightarrow>
   normalizePageRequest q = q"
  by (simp add: normalizePageRequest_def page_consts Let_def)

lemma calcTotalPages_ceil:
  assumes "0 < tot" "0 < psz" "tot \<le> maxInt"
  shows "(calcTotalPages tot psz - 1) * psz < tot"
    and "tot \<le> calcTotalPages tot psz * psz"
    and "0 < calcTotalPages tot psz"
proof -
  let ?d = "tot div psz" and ?m = "tot mod psz"
  have dm: "tot = ?d * psz + ?m" by simp
  have m: "0 \<le> ?m" "?m < psz" using assms by simp_all
  have d0: "0 \<le> ?d" using assms by (simp add: pos_imp_zdiv_nonneg_iff)
  have le: "?d \<le> ?d * psz" using d0 assms(2) by (simp add: mult_le_cancel_left1)
  have pages: "calcTotalPages tot psz = (if ?m \<noteq> 0 then ?d + 1 else ?d)"
  proof -
    have "?d + ?m \<le> maxInt" using dm le assms(3) by linarith
    with m have "(if ?m \<noteq> 0 then ?d + 1 else ?d) \<le> maxInt" by auto
    with assms show ?thesis by (auto simp: calcTotalPages_def Let_def)
  qed
  show "(calcTotalPages tot psz - 1) * psz < tot"
  proof (cases "?m = 0")
    case True
    with pages dm assms show ?thesis by (simp add: algebra_simps)
  next
    case False
    then have "(calcTotalPages tot psz - 1) * psz = ?d * psz" using pages by simp
    with dm m False show ?thesis by linarith
  qed
  show "tot \<le> calcTotalPages tot psz * psz"
  proof (cases "?m = 0")
    case True
    with pages dm show ?thesis by simp
  next
    case False
    then have "calcTotalPages tot psz * psz = ?d * psz + psz"
      using pages by (simp add: distrib_right)
    with dm m show ?thesis by linarith
  qed
  show "0 < calcTotalPages tot psz"
  proof (cases "?m = 0")
    case True
    with dm assms d0 have "?d \<noteq> 0" by auto
    with True pages d0 show ?thesis by simp
  next
    case False
    with pages d0 show ?thesis by simp
  qed
qed

text \<open>
  Normalisation changes nothing that is already in range, and normalising twice is normalising once.
\<close>

lemma normalizePageRequest_idem [simp]:
  "normalizePageRequest (normalizePageRequest q) = normalizePageRequest q"
  using normalizePageRequest_range [of q] normalizePageRequest_id [of "normalizePageRequest q"] by blast

subsection \<open>The pages cover the list\<close>

lemma concat_pages:
  assumes "0 < k"
  shows "concat (map (\<lambda>i. take k (drop (i * k) xs)) [0..<n]) = take (n * k) xs"
proof (induction n)
  case 0
  then show ?case by simp
next
  case (Suc n)
  have "take (n * k) xs @ take k (drop (n * k) xs) = take (n * k + k) xs"
    by (simp add: take_add)
  with Suc show ?case by (simp add: add.commute)
qed

lemma page_of_nat:
  "page_of \<lparr>pq_Page = int i + 1, pq_PageSize = int k\<rparr> xs = take k (drop (i * k) xs)"
  by (simp add: page_of_def page_offset_def nat_mult_distrib)

lemma pages_concat:
  assumes "0 < psz" "int (length xs) \<le> maxInt"
  shows "concat (map (\<lambda>i. page_of \<lparr>pq_Page = int i + 1, pq_PageSize = psz\<rparr> xs)
           [0..<nat (calcTotalPages (int (length xs)) psz)]) = xs"
proof -
  let ?n = "nat (calcTotalPages (int (length xs)) psz)" and ?k = "nat psz"
  have psz: "psz = int ?k" "0 < ?k" using assms by simp_all
  have "length xs \<le> ?n * ?k"
  proof (cases "xs = []")
    case True
    then show ?thesis by simp
  next
    case False
    then have pos: "0 < int (length xs)" by simp
    note ceil = calcTotalPages_ceil [OF pos assms]
    have "int (length xs) \<le> int (?n * ?k)" using ceil(2,3) assms(1) by simp
    then show ?thesis by (simp only: zle_int)
  qed
  then have "take (?n * ?k) xs = xs" by simp
  moreover have "(\<lambda>i. page_of \<lparr>pq_Page = int i + 1, pq_PageSize = psz\<rparr> xs)
      = (\<lambda>i. take ?k (drop (i * ?k) xs))"
    by (subst (1) psz(1)) (simp only: page_of_nat)
  ultimately show ?thesis
    by (simp only: concat_pages [OF psz(2)])
qed

text \<open>
  the pages 1 to \<open>calcTotalPages\<close> of any list are exactly the list: read in order they give every
  element once and nothing else, for every page size in range and every total of 64 bits.
\<close>

theorem pages_partition_list:
  assumes "0 < psz" "int (length xs) \<le> maxInt"
  shows "concat (map (\<lambda>i. page_of \<lparr>pq_Page = int i + 1, pq_PageSize = psz\<rparr> xs)
           [0..<nat (calcTotalPages (int (length xs)) psz)]) = xs
         \<and> (xs \<noteq> [] \<longrightarrow> (calcTotalPages (int (length xs)) psz - 1) * psz < int (length xs))"
  using pages_concat [OF assms] calcTotalPages_ceil(1) [of "int (length xs)" psz] assms by auto

theorem pages_partition_list_witness:
  "concat (map (\<lambda>i. page_of \<lparr>pq_Page = int i + 1, pq_PageSize = 2\<rparr> [10, 20, 30, 40, 50::nat])
           [0..<nat (calcTotalPages (int (length [10, 20, 30, 40, 50::nat])) 2)]) = [10, 20, 30, 40, 50]
   \<and> calcTotalPages (int (length [10, 20, 30, 40, 50::nat])) 2 = 3"
proof -
  have "0 < (2::int)" and "int (length [10, 20, 30, 40, 50::nat]) \<le> maxInt"
    by (simp_all add: maxInt_def)
  from pages_partition_list [OF this] show ?thesis
    by (simp add: calcTotalPages_def maxInt_def)
qed

end
