(* ===== verification/Gorm_Table.thy ===== *)
theory Gorm_Table
  imports Go_Prelude
begin

section \<open>The database access layer as a parameter\<close>

text \<open>
  The repositories reach their tables through GORM, which is not part of the repository.  Its
  operations are therefore a parameter: a record \<open>'r gorm\<close> of the calls the repositories make
  on the table of one row type, over the contents of that table (the list of its rows).  A
  \<open>Where\<close> clause is a predicate on rows and the column map of \<open>Updates\<close> is a function on
  rows; both are written out from the SQL text of the source where the call stands.  Every
  call may fail at any time with an error of the driver.

  \<open>gorm_table\<close> states what the documentation of GORM promises of these calls, for rows with the
  primary key \<open>pk\<close>, a function \<open>stamp\<close> that fills in the columns GORM assigns on insertion (the
  primary key and the creation time) and the relation \<open>clash\<close> of the unique indexes declared in
  \<open>src/internal/domain\<close>.  The columns \<open>updated_at\<close> that GORM maintains are not modelled: no code
  of the repository reads them.

  \<open>mem_gorm\<close> is a reference implementation that never loses the connection; it discharges the
  laws and is what the witnesses run on.
\<close>

record 'r gorm =
  gorm_First :: "('r \<Rightarrow> bool) \<Rightarrow> 'r list \<Rightarrow> 'r result"
  gorm_Find :: "('r \<Rightarrow> bool) \<Rightarrow> 'r list \<Rightarrow> 'r list result"
  gorm_FindPage :: "('r \<Rightarrow> bool) \<Rightarrow> ('r \<Rightarrow> 'r \<Rightarrow> bool) \<Rightarrow> nat \<Rightarrow> nat \<Rightarrow> 'r list \<Rightarrow> 'r list result"
  gorm_FindOrder :: "('r \<Rightarrow> bool) \<Rightarrow> ('r \<Rightarrow> 'r \<Rightarrow> bool) \<Rightarrow> 'r list \<Rightarrow> 'r list result"
  gorm_Count :: "('r \<Rightarrow> bool) \<Rightarrow> 'r list \<Rightarrow> nat result"
  gorm_Create :: "'r \<Rightarrow> 'r list \<Rightarrow> ('r \<times> 'r list) result"
  gorm_Updates :: "('r \<Rightarrow> bool) \<Rightarrow> ('r \<Rightarrow> 'r) \<Rightarrow> 'r list \<Rightarrow> (nat \<times> 'r list) result"
  gorm_Delete :: "('r \<Rightarrow> bool) \<Rightarrow> 'r list \<Rightarrow> (nat \<times> 'r list) result"

text \<open>
  \<open>gorm_FindPage p le off lmt\<close> is \<open>Where(p).Order(le).Offset(off).Limit(lmt).Find\<close>, and
  \<open>gorm_FindOrder p le\<close> the same without offset and limit.
\<close>

text \<open>The effect of an \<open>UPDATE ... WHERE p SET f\<close> on the rows of a table.\<close>

definition upd_where :: "('r \<Rightarrow> bool) \<Rightarrow> ('r \<Rightarrow> 'r) \<Rightarrow> 'r list \<Rightarrow> 'r list" where
  "upd_where p f t = map (\<lambda>r. if p r then f r else r) t"

definition unique_rows :: "('r \<Rightarrow> 'r \<Rightarrow> bool) \<Rightarrow> 'r list \<Rightarrow> bool" where
  "unique_rows clash t \<longleftrightarrow> sorted_wrt (\<lambda>a b. \<not> clash a b) t"

lemma upd_where_Nil [simp]: "upd_where p f [] = []"
  and upd_where_Cons [simp]:
    "upd_where p f (r # t) = (if p r then f r else r) # upd_where p f t"
  by (simp_all add: upd_where_def)

lemma set_upd_where: "set (upd_where p f t) = f ` {r \<in> set t. p r} \<union> {r \<in> set t. \<not> p r}"
  by (auto simp: upd_where_def)

lemma in_upd_where_cases:
  assumes "r \<in> set (upd_where p f t)"
  obtains (updated) r0 where "r0 \<in> set t" and "p r0" and "r = f r0"
    | (kept) "r \<in> set t" and "\<not> p r"
  using assms by (auto simp: set_upd_where)

lemma map_upd_where:
  "(\<And>r. g (f r) = g r) \<Longrightarrow> map g (upd_where p f t) = map g t"
  by (simp add: upd_where_def)

lemma length_upd_where [simp]: "length (upd_where p f t) = length t"
  by (simp add: upd_where_def)

lemma upd_where_id: "(\<And>r. r \<in> set t \<Longrightarrow> \<not> p r) \<Longrightarrow> upd_where p f t = t"
  by (induction t) auto

lemma filter_upd_where:
  "(\<And>r. q (f r) = q r) \<Longrightarrow> filter q (upd_where p f t) = upd_where p f (filter q t)"
  by (induction t) auto

lemma unique_rows_append:
  "unique_rows clash (t @ [r]) \<longleftrightarrow> unique_rows clash t \<and> (\<forall>x \<in> set t. \<not> clash x r)"
  by (auto simp: unique_rows_def sorted_wrt_append)

lemma unique_rows_filter: "unique_rows clash t \<Longrightarrow> unique_rows clash (filter p t)"
  by (simp add: unique_rows_def sorted_wrt_filter)

lemma unique_rows_eq:
  "unique_rows clash t \<Longrightarrow> (\<And>a b. clash a b \<Longrightarrow> clash b a) \<Longrightarrow>
   a \<in> set t \<Longrightarrow> b \<in> set t \<Longrightarrow> clash a b \<Longrightarrow> a = b"
  by (induction t) (auto simp: unique_rows_def)

subsection \<open>The laws of the interface\<close>

locale gorm_table =
  fixes G :: "'r gorm"
    and pk :: "'r \<Rightarrow> uint"
    and stamp :: "uint \<Rightarrow> gotime \<Rightarrow> 'r \<Rightarrow> 'r"
    and clash :: "'r \<Rightarrow> 'r \<Rightarrow> bool"
  assumes first_found: "gorm_First G p t = Inr r \<Longrightarrow> r \<in> set t \<and> p r"
    and first_least: "gorm_First G p t = Inr r \<Longrightarrow> r' \<in> set t \<Longrightarrow> p r' \<Longrightarrow> pk r \<le> pk r'"
    and first_not_found: "gorm_First G p t = Inl ErrRecordNotFound \<Longrightarrow> r \<in> set t \<Longrightarrow> \<not> p r"
    and find_rows: "gorm_Find G p t = Inr rs \<Longrightarrow> mset rs = mset (filter p t)"
    and find_order: "gorm_FindOrder G p le t = Inr rs \<Longrightarrow> total_preorder le \<Longrightarrow>
      mset rs = mset (filter p t) \<and> sorted_wrt le rs"
    and find_page: "gorm_FindPage G p le off lmt t = Inr rs \<Longrightarrow> total_preorder le \<Longrightarrow>
      \<exists>xs. mset xs = mset (filter p t) \<and> sorted_wrt le xs \<and> rs = take lmt (drop off xs)"
    and count_rows: "gorm_Count G p t = Inr n \<Longrightarrow> n = length (filter p t)"
    and create_row: "gorm_Create G r t = Inr (r', t') \<Longrightarrow>
      (\<exists>i c. r' = stamp i c r \<and> i \<notin> pk ` set t) \<and> t' = t @ [r']"
    and create_unique: "gorm_Create G r t = Inr (r', t') \<Longrightarrow> unique_rows clash t \<Longrightarrow>
      unique_rows clash t'"
    and updates_rows: "gorm_Updates G p f t = Inr (n, t') \<Longrightarrow>
      t' = upd_where p f t \<and> n = length (filter p t)"
    and updates_unique: "gorm_Updates G p f t = Inr (n, t') \<Longrightarrow> unique_rows clash t \<Longrightarrow>
      unique_rows clash t'"
    and delete_rows: "gorm_Delete G p t = Inr (n, t') \<Longrightarrow>
      t' = filter (\<lambda>r. \<not> p r) t \<and> n = length (filter p t)"
    and first_error: "gorm_First G p t = Inl e \<Longrightarrow> e = ErrRecordNotFound \<or> (\<exists>msg. e = External msg)"
begin

lemma find_set: "gorm_Find G p t = Inr rs \<Longrightarrow> set rs = {r \<in> set t. p r}"
  by (metis find_rows mset_eq_setD set_filter)

lemma first_exists:
  "gorm_First G p t = Inl e \<Longrightarrow> r \<in> set t \<Longrightarrow> p r \<Longrightarrow> e \<noteq> ErrRecordNotFound"
  using first_not_found by blast

lemma create_new_key:
  assumes "gorm_Create G r t = Inr (r', t')" and "\<And>i c r. pk (stamp i c r) = i"
    and "distinct (map pk t)"
  shows "distinct (map pk t')"
  using create_row [OF assms(1)] assms(2,3) by auto

lemma updates_keys:
  assumes "gorm_Updates G p f t = Inr (n, t')" and "\<And>r. pk (f r) = pk r"
  shows "map pk t' = map pk t"
  using updates_rows [OF assms(1)] assms(2) by (simp add: map_upd_where)

lemma delete_keys:
  assumes "gorm_Delete G p t = Inr (n, t')" and "distinct (map pk t)"
  shows "distinct (map pk t')"
  using delete_rows [OF assms(1)] assms(2) by (simp add: distinct_map_filter)

lemma delete_unique:
  assumes "gorm_Delete G p t = Inr (n, t')" and "unique_rows clash t"
  shows "unique_rows clash t'"
  using delete_rows [OF assms(1)] assms(2) by (simp add: unique_rows_filter)

end

text \<open>
  A connection that is up: a row that is there is found, and an update that violates no unique
  index succeeds.  Only the properties that say that something \<open>will\<close> happen rely on it.
\<close>

locale gorm_available = gorm_table +
  assumes first_up: "r \<in> set t \<Longrightarrow> p r \<Longrightarrow> \<exists>r'. gorm_First G p t = Inr r'"
    and updates_up: "unique_rows clash (upd_where p f t) \<Longrightarrow> \<exists>n t'. gorm_Updates G p f t = Inr (n, t')"
begin

lemma updates_done:
  "unique_rows clash (upd_where p f t) \<Longrightarrow> \<exists>n. gorm_Updates G p f t = Inr (n, upd_where p f t)"
  using updates_up updates_rows by metis

lemma first_unique:
  assumes "r \<in> set t" "p r" "\<And>r'. r' \<in> set t \<Longrightarrow> p r' \<Longrightarrow> r' = r"
  shows "gorm_First G p t = Inr r"
  using first_up [of r t p] first_found [of p t] assms by metis

end

subsection \<open>A reference implementation\<close>

fun least_by :: "('r \<Rightarrow> uint) \<Rightarrow> 'r list \<Rightarrow> 'r option" where
  "least_by pk [] = None"
| "least_by pk (r # t) =
     (case least_by pk t of None \<Rightarrow> Some r | Some r' \<Rightarrow> Some (if pk r \<le> pk r' then r else r'))"

definition next_key :: "('r \<Rightarrow> uint) \<Rightarrow> 'r list \<Rightarrow> uint" where
  "next_key pk t = fold (\<lambda>r m. max m (Suc (pk r))) t 1"

definition mem_gorm ::
    "('r \<Rightarrow> uint) \<Rightarrow> (uint \<Rightarrow> gotime \<Rightarrow> 'r \<Rightarrow> 'r) \<Rightarrow> ('r \<Rightarrow> 'r \<Rightarrow> bool) \<Rightarrow> gotime \<Rightarrow> 'r gorm" where
  "mem_gorm pk stamp clash now =
     \<lparr>gorm_First = (\<lambda>p t. case least_by pk (filter p t) of
                            None \<Rightarrow> Inl ErrRecordNotFound | Some r \<Rightarrow> Inr r),
      gorm_Find = (\<lambda>p t. Inr (filter p t)),
      gorm_FindPage = (\<lambda>p le off lmt t. Inr (take lmt (drop off (sort_by le (filter p t))))),
      gorm_FindOrder = (\<lambda>p le t. Inr (sort_by le (filter p t))),
      gorm_Count = (\<lambda>p t. Inr (length (filter p t))),
      gorm_Create = (\<lambda>r t. let r' = stamp (next_key pk t) now r in
                       if unique_rows clash (t @ [r']) then Inr (r', t @ [r'])
                       else Inl (External ''duplicate key value violates unique constraint'')),
      gorm_Updates = (\<lambda>p f t. let t' = upd_where p f t in
                       if unique_rows clash t' then Inr (length (filter p t), t')
                       else Inl (External ''duplicate key value violates unique constraint'')),
      gorm_Delete = (\<lambda>p t. Inr (length (filter p t), filter (\<lambda>r. \<not> p r) t))\<rparr>"

lemma least_by_None [simp]: "least_by pk t = None \<longleftrightarrow> t = []"
  by (cases t) (auto split: option.splits)

lemma least_by_Some:
  "least_by pk t = Some r \<Longrightarrow> r \<in> set t \<and> (\<forall>r' \<in> set t. pk r \<le> pk r')"
  by (induction t arbitrary: r) (force split: option.splits if_splits)+

lemma fold_max_ge: "(m::nat) \<le> fold (\<lambda>r m. max m (Suc (pk r))) t m"
  by (induction t arbitrary: m) (auto intro: order_trans [OF max.cobounded1])

lemma fold_max_gt: "r \<in> set t \<Longrightarrow> pk r < fold (\<lambda>r m. max m (Suc (pk r))) t m"
proof (induction t arbitrary: m)
  case Nil
  then show ?case by simp
next
  case (Cons x t)
  have "Suc (pk x) \<le> fold (\<lambda>r m. max m (Suc (pk r))) t (max m (Suc (pk x)))"
    by (rule order_trans [OF max.cobounded2 fold_max_ge])
  with Cons show ?case by auto
qed

lemma next_key_fresh: "next_key pk t \<notin> pk ` set t"
  using fold_max_gt [of _ t pk 1] by (force simp: next_key_def)

lemma mem_gorm_table:
  "gorm_table (mem_gorm pk stamp clash now) pk stamp clash"
proof (unfold_locales, goal_cases)
  case (1 p t r)
  then show ?case
    by (auto simp: mem_gorm_def split: option.splits dest!: least_by_Some)
next
  case (2 p t r r')
  then show ?case
    by (auto simp: mem_gorm_def split: option.splits dest!: least_by_Some)
next
  case (3 p t r)
  then show ?case
    by (auto simp: mem_gorm_def filter_empty_conv split: option.splits)
next
  case (4 p t rs)
  then show ?case by (auto simp: mem_gorm_def)
next
  case (5 p le t rs)
  then show ?case by (auto simp: mem_gorm_def sorted_sort_by)
next
  case (6 p le off lmt t rs)
  then show ?case
    by (intro exI [of _ "sort_by le (filter p t)"]) (auto simp: mem_gorm_def sorted_sort_by)
next
  case (7 p t n)
  then show ?case by (simp add: mem_gorm_def)
next
  case (8 r t r' t')
  then show ?case
    using next_key_fresh [of pk t] by (auto simp: mem_gorm_def Let_def split: if_splits)
next
  case (9 r t r' t')
  then show ?case by (auto simp: mem_gorm_def Let_def split: if_splits)
next
  case (10 p f t n t')
  then show ?case by (auto simp: mem_gorm_def Let_def split: if_splits)
next
  case (11 p f t n t')
  then show ?case by (auto simp: mem_gorm_def Let_def split: if_splits)
next
  case (12 p t n t')
  then show ?case by (simp add: mem_gorm_def)
next
  case (13 p t e)
  then show ?case by (simp add: mem_gorm_def split: option.splits)
qed

lemma mem_gorm_available:
  "gorm_available (mem_gorm pk stamp clash now) pk stamp clash"
  by (intro gorm_available.intro gorm_available_axioms.intro mem_gorm_table)
    (auto simp: mem_gorm_def Let_def filter_empty_conv split: option.splits)

end
