(* ===== verification/Domain.thy ===== *)
theory Domain
  imports Gorm_Table
begin

section \<open>The rows of the database: \<open>src/internal/domain\<close>\<close>

text \<open>
  One record per struct of the domain package, with the struct's fields in order (a nil pointer is
  \<open>None\<close>), prefixed by the initials of the type because record fields are global names.  For each
  table there are the function \<open>stamp\<close> of the columns that are assigned on insertion and the
  relation \<open>clash\<close> of its unique indexes, as the \<open>gorm:"uniqueIndex"\<close> tags declare them, and
  the interpretation of the table's laws on the reference implementation.
\<close>

record permission =
  p_ID :: uint
  p_Resource :: string
  p_Action :: string
  p_CreatedAt :: gotime

record role =
  r_ID :: uint
  r_Name :: string
  r_Description :: string
  r_Permissions :: "permission list"
  r_CreatedAt :: gotime

record user_role =
  ur_UserID :: uint
  ur_RoleID :: uint

record role_permission =
  rp_RoleID :: uint
  rp_PermissionID :: uint

record user =
  u_ID :: uint
  u_Email :: string
  u_Name :: string
  u_AvatarURL :: string
  u_Status :: string
  u_LastLoginAt :: gotime
  u_CreatedAt :: gotime
  u_Roles :: "role list"

record session =
  s_ID :: uint
  s_UserID :: uint
  s_RefreshTokenHash :: string
  s_TokenID :: "string option"
  s_FamilyID :: "string option"
  s_ParentTokenID :: "string option"
  s_UserAgent :: string
  s_IP :: string
  s_ExpiresAt :: gotime
  s_RevokedAt :: "gotime option"
  s_RevokedReason :: "string option"
  s_ReuseDetectedAt :: "gotime option"
  s_CreatedAt :: gotime

record local_credential =
  lc_ID :: uint
  lc_UserID :: uint
  lc_PasswordHash :: string
  lc_EmailVerified :: bool
  lc_EmailVerifiedAt :: "gotime option"
  lc_CreatedAt :: gotime

record verification_token =
  vt_ID :: uint
  vt_UserID :: uint
  vt_TokenHash :: string
  vt_Purpose :: string
  vt_ExpiresAt :: gotime
  vt_UsedAt :: "gotime option"
  vt_CreatedAt :: gotime

record oauth_account =
  oa_ID :: uint
  oa_UserID :: uint
  oa_Provider :: string
  oa_ProviderUserID :: string
  oa_EmailVerified :: bool
  oa_CreatedAt :: gotime

record feature_flag_rule =
  fr_ID :: uint
  fr_FeatureFlagID :: uint
  fr_Type :: string
  fr_MatchValue :: string
  fr_Percentage :: int
  fr_Enabled :: bool
  fr_Priority :: int
  fr_CreatedAt :: gotime

record feature_flag =
  ff_ID :: uint
  ff_Key :: string
  ff_Description :: string
  ff_Enabled :: bool
  ff_Rules :: "feature_flag_rule list"
  ff_CreatedAt :: gotime

record product =
  pr_ID :: uint
  pr_Name :: string
  pr_Description :: string
  pr_Price :: rat
  pr_CreatedAt :: gotime

record idempotency_record =
  ir_ID :: uint
  ir_Scope :: string
  ir_IdempotencyKey :: string
  ir_FingerprintHash :: string
  ir_Status :: string
  ir_ResponseStatus :: int
  ir_ResponseBody :: string
  ir_ContentType :: string
  ir_ExpiresAt :: gotime
  ir_CreatedAt :: gotime

text \<open>The repositories turn GORM's \<open>ErrRecordNotFound\<close> into a sentinel of their own.\<close>

definition not_found :: "goerr \<Rightarrow> goerr \<Rightarrow> goerr" where
  "not_found sentinel e = (if e = ErrRecordNotFound then sentinel else e)"

subsection \<open>Columns assigned on insertion and unique indexes\<close>

definition stamp_session :: "uint \<Rightarrow> gotime \<Rightarrow> session \<Rightarrow> session" where
  "stamp_session i c s = s\<lparr>s_ID := i, s_CreatedAt := c\<rparr>"

definition clash_session :: "session \<Rightarrow> session \<Rightarrow> bool" where
  "clash_session a b \<longleftrightarrow> s_RefreshTokenHash a = s_RefreshTokenHash b
     \<or> (s_TokenID a \<noteq> None \<and> s_TokenID a = s_TokenID b)"

definition stamp_user :: "uint \<Rightarrow> gotime \<Rightarrow> user \<Rightarrow> user" where
  "stamp_user i c u = u\<lparr>u_ID := i, u_CreatedAt := c\<rparr>"

definition clash_user :: "user \<Rightarrow> user \<Rightarrow> bool" where
  "clash_user a b \<longleftrightarrow> u_Email a = u_Email b"

definition stamp_role :: "uint \<Rightarrow> gotime \<Rightarrow> role \<Rightarrow> role" where
  "stamp_role i c r = r\<lparr>r_ID := i, r_CreatedAt := c\<rparr>"

definition clash_role :: "role \<Rightarrow> role \<Rightarrow> bool" where
  "clash_role a b \<longleftrightarrow> r_Name a = r_Name b"

definition stamp_permission :: "uint \<Rightarrow> gotime \<Rightarrow> permission \<Rightarrow> permission" where
  "stamp_permission i c p = p\<lparr>p_ID := i, p_CreatedAt := c\<rparr>"

definition clash_permission :: "permission \<Rightarrow> permission \<Rightarrow> bool" where
  "clash_permission a b \<longleftrightarrow> p_Resource a = p_Resource b \<and> p_Action a = p_Action b"

definition stamp_credential :: "uint \<Rightarrow> gotime \<Rightarrow> local_credential \<Rightarrow> local_credential" where
  "stamp_credential i c l = l\<lparr>lc_ID := i, lc_CreatedAt := c\<rparr>"

definition clash_credential :: "local_credential \<Rightarrow> local_credential \<Rightarrow> bool" where
  "clash_credential a b \<longleftrightarrow> lc_UserID a = lc_UserID b"

definition stamp_vtoken :: "uint \<Rightarrow> gotime \<Rightarrow> verification_token \<Rightarrow> verification_token" where
  "stamp_vtoken i c v = v\<lparr>vt_ID := i, vt_CreatedAt := c\<rparr>"

definition clash_vtoken :: "verification_token \<Rightarrow> verification_token \<Rightarrow> bool" where
  "clash_vtoken a b \<longleftrightarrow> vt_TokenHash a = vt_TokenHash b"

definition stamp_oauth :: "uint \<Rightarrow> gotime \<Rightarrow> oauth_account \<Rightarrow> oauth_account" where
  "stamp_oauth i c a = a\<lparr>oa_ID := i, oa_CreatedAt := c\<rparr>"

definition clash_oauth :: "oauth_account \<Rightarrow> oauth_account \<Rightarrow> bool" where
  "clash_oauth a b \<longleftrightarrow> oa_Provider a = oa_Provider b \<and> oa_ProviderUserID a = oa_ProviderUserID b"

definition stamp_flag :: "uint \<Rightarrow> gotime \<Rightarrow> feature_flag \<Rightarrow> feature_flag" where
  "stamp_flag i c f = f\<lparr>ff_ID := i, ff_CreatedAt := c\<rparr>"

definition clash_flag :: "feature_flag \<Rightarrow> feature_flag \<Rightarrow> bool" where
  "clash_flag a b \<longleftrightarrow> ff_Key a = ff_Key b"

definition stamp_rule :: "uint \<Rightarrow> gotime \<Rightarrow> feature_flag_rule \<Rightarrow> feature_flag_rule" where
  "stamp_rule i c f = f\<lparr>fr_ID := i, fr_CreatedAt := c\<rparr>"

definition stamp_product :: "uint \<Rightarrow> gotime \<Rightarrow> product \<Rightarrow> product" where
  "stamp_product i c p = p\<lparr>pr_ID := i, pr_CreatedAt := c\<rparr>"

definition stamp_idem :: "uint \<Rightarrow> gotime \<Rightarrow> idempotency_record \<Rightarrow> idempotency_record" where
  "stamp_idem i c r = r\<lparr>ir_ID := i, ir_CreatedAt := c\<rparr>"

definition clash_idem :: "idempotency_record \<Rightarrow> idempotency_record \<Rightarrow> bool" where
  "clash_idem a b \<longleftrightarrow> ir_Scope a = ir_Scope b \<and> ir_IdempotencyKey a = ir_IdempotencyKey b"

definition no_clash :: "'r \<Rightarrow> 'r \<Rightarrow> bool" where
  "no_clash a b \<longleftrightarrow> False"

lemmas stamp_defs = stamp_session_def stamp_user_def stamp_role_def stamp_permission_def
  stamp_credential_def stamp_vtoken_def stamp_oauth_def stamp_flag_def stamp_rule_def
  stamp_product_def stamp_idem_def

lemmas clash_defs = clash_session_def clash_user_def clash_role_def clash_permission_def
  clash_credential_def clash_vtoken_def clash_oauth_def clash_flag_def clash_idem_def no_clash_def

text \<open>
  A stored user has no roles of its own: the association is the table of the pairs
  \<open>user_role\<close>, and \<open>u_Roles\<close> is filled in by \<open>Preload\<close> when a user is read.  The same holds
  for the permissions of a role and the rules of a feature flag.
\<close>

subsection \<open>The tables of the reference implementation\<close>

definition mem_sessions :: "gotime \<Rightarrow> session gorm" where
  "mem_sessions now = mem_gorm s_ID stamp_session clash_session now"

definition mem_users :: "gotime \<Rightarrow> user gorm" where
  "mem_users now = mem_gorm u_ID stamp_user clash_user now"

definition mem_roles :: "gotime \<Rightarrow> role gorm" where
  "mem_roles now = mem_gorm r_ID stamp_role clash_role now"

definition mem_permissions :: "gotime \<Rightarrow> permission gorm" where
  "mem_permissions now = mem_gorm p_ID stamp_permission clash_permission now"

definition mem_credentials :: "gotime \<Rightarrow> local_credential gorm" where
  "mem_credentials now = mem_gorm lc_ID stamp_credential clash_credential now"

definition mem_vtokens :: "gotime \<Rightarrow> verification_token gorm" where
  "mem_vtokens now = mem_gorm vt_ID stamp_vtoken clash_vtoken now"

definition mem_oauth :: "gotime \<Rightarrow> oauth_account gorm" where
  "mem_oauth now = mem_gorm oa_ID stamp_oauth clash_oauth now"

definition mem_products :: "gotime \<Rightarrow> product gorm" where
  "mem_products now = mem_gorm pr_ID stamp_product no_clash now"

definition mem_idem :: "gotime \<Rightarrow> idempotency_record gorm" where
  "mem_idem now = mem_gorm ir_ID stamp_idem clash_idem now"

definition mem_flags :: "gotime \<Rightarrow> feature_flag gorm" where
  "mem_flags now = mem_gorm ff_ID stamp_flag clash_flag now"

definition mem_rules :: "gotime \<Rightarrow> feature_flag_rule gorm" where
  "mem_rules now = mem_gorm fr_ID stamp_rule no_clash now"

abbreviation session_table :: "session gorm \<Rightarrow> bool" where
  "session_table G \<equiv> gorm_table G s_ID stamp_session clash_session"

abbreviation user_table :: "user gorm \<Rightarrow> bool" where
  "user_table G \<equiv> gorm_table G u_ID stamp_user clash_user"

abbreviation role_table :: "role gorm \<Rightarrow> bool" where
  "role_table G \<equiv> gorm_table G r_ID stamp_role clash_role"

abbreviation permission_table :: "permission gorm \<Rightarrow> bool" where
  "permission_table G \<equiv> gorm_table G p_ID stamp_permission clash_permission"

abbreviation credential_table :: "local_credential gorm \<Rightarrow> bool" where
  "credential_table G \<equiv> gorm_table G lc_ID stamp_credential clash_credential"

abbreviation vtoken_table :: "verification_token gorm \<Rightarrow> bool" where
  "vtoken_table G \<equiv> gorm_table G vt_ID stamp_vtoken clash_vtoken"

abbreviation oauth_table :: "oauth_account gorm \<Rightarrow> bool" where
  "oauth_table G \<equiv> gorm_table G oa_ID stamp_oauth clash_oauth"

abbreviation product_table :: "product gorm \<Rightarrow> bool" where
  "product_table G \<equiv> gorm_table G pr_ID stamp_product no_clash"

abbreviation idem_table :: "idempotency_record gorm \<Rightarrow> bool" where
  "idem_table G \<equiv> gorm_table G ir_ID stamp_idem clash_idem"

abbreviation flag_table :: "feature_flag gorm \<Rightarrow> bool" where
  "flag_table G \<equiv> gorm_table G ff_ID stamp_flag clash_flag"

abbreviation rule_table :: "feature_flag_rule gorm \<Rightarrow> bool" where
  "rule_table G \<equiv> gorm_table G fr_ID stamp_rule no_clash"

interpretation mem_sessions_table: gorm_available "mem_sessions now" s_ID stamp_session clash_session
  for now
  unfolding mem_sessions_def by (rule mem_gorm_available)

interpretation mem_users_table: gorm_table "mem_users now" u_ID stamp_user clash_user
  for now
  unfolding mem_users_def by (rule mem_gorm_table)

interpretation mem_roles_table: gorm_table "mem_roles now" r_ID stamp_role clash_role
  for now
  unfolding mem_roles_def by (rule mem_gorm_table)

interpretation mem_permissions_table:
  gorm_table "mem_permissions now" p_ID stamp_permission clash_permission for now
  unfolding mem_permissions_def by (rule mem_gorm_table)

interpretation mem_credentials_table:
  gorm_table "mem_credentials now" lc_ID stamp_credential clash_credential for now
  unfolding mem_credentials_def by (rule mem_gorm_table)

interpretation mem_vtokens_table: gorm_table "mem_vtokens now" vt_ID stamp_vtoken clash_vtoken
  for now
  unfolding mem_vtokens_def by (rule mem_gorm_table)

interpretation mem_oauth_table: gorm_table "mem_oauth now" oa_ID stamp_oauth clash_oauth
  for now
  unfolding mem_oauth_def by (rule mem_gorm_table)

interpretation mem_products_table: gorm_table "mem_products now" pr_ID stamp_product no_clash
  for now
  unfolding mem_products_def by (rule mem_gorm_table)

interpretation mem_idem_table: gorm_table "mem_idem now" ir_ID stamp_idem clash_idem
  for now
  unfolding mem_idem_def by (rule mem_gorm_table)

interpretation mem_flags_table: gorm_table "mem_flags now" ff_ID stamp_flag clash_flag
  for now
  unfolding mem_flags_def by (rule mem_gorm_table)

interpretation mem_rules_table: gorm_table "mem_rules now" fr_ID stamp_rule no_clash
  for now
  unfolding mem_rules_def by (rule mem_gorm_table)

lemmas mem_table_defs = mem_gorm_def mem_sessions_def mem_users_def mem_roles_def
  mem_permissions_def mem_credentials_def mem_vtokens_def mem_oauth_def mem_products_def
  mem_idem_def mem_flags_def mem_rules_def unique_rows_def upd_where_def next_key_def

end
