(* ===== verification/Go_Base64.thy ===== *)
theory Go_Base64
  imports Go_Prelude
begin

section \<open>The base64 encodings of the standard library\<close>

text \<open>
  \<open>encoding/base64\<close> as the sources use it: \<open>RawURLEncoding\<close> for random strings and signatures,
  \<open>RawStdEncoding\<close> for password hashes and the padded \<open>StdEncoding\<close> for response bodies kept in
  Redis.  Bytes are characters; three bytes become four sextets.  Decoding skips line breaks,
  refuses characters outside the alphabet and a lone last character, and ignores the unused bits of
  the last one, as the library does.  The lemmas are the round trips.
\<close>

fun enc6 :: "nat list \<Rightarrow> nat list" where
  "enc6 [] = []"
| "enc6 [a] = [a div 4, (a mod 4) * 16]"
| "enc6 [a, b] = [a div 4, (a mod 4) * 16 + b div 16, (b mod 16) * 4]"
| "enc6 (a # b # c # r) =
     [a div 4, (a mod 4) * 16 + b div 16, (b mod 16) * 4 + c div 64, c mod 64] @ enc6 r"

fun dec6 :: "nat list \<Rightarrow> nat list option" where
  "dec6 [] = Some []"
| "dec6 [p] = None"
| "dec6 [p, q] = Some [p * 4 + q div 16]"
| "dec6 [p, q, r] = Some [p * 4 + q div 16, (q mod 16) * 16 + r div 4]"
| "dec6 (p # q # r # s # t) =
     map_option (\<lambda>bs. [p * 4 + q div 16, (q mod 16) * 16 + r div 4, (r mod 4) * 64 + s] @ bs) (dec6 t)"

definition b64_char :: "char \<Rightarrow> char \<Rightarrow> nat \<Rightarrow> char" where
  "b64_char c62 c63 n =
     (if n < 26 then char_of (65 + n) else if n < 52 then char_of (97 + (n - 26))
      else if n < 62 then char_of (48 + (n - 52)) else if n = 62 then c62 else c63)"

definition b64_value :: "char \<Rightarrow> char \<Rightarrow> char \<Rightarrow> nat option" where
  "b64_value c62 c63 c =
     (let n = of_char c :: nat in
      if c = c62 then Some 62 else if c = c63 then Some 63
      else if 65 \<le> n \<and> n \<le> 90 then Some (n - 65) else if 97 \<le> n \<and> n \<le> 122 then Some (n - 97 + 26)
      else if 48 \<le> n \<and> n \<le> 57 then Some (n - 48 + 52) else None)"

definition b64_enc :: "char \<Rightarrow> char \<Rightarrow> string \<Rightarrow> string" where
  "b64_enc c62 c63 s = map (b64_char c62 c63) (enc6 (map of_char s))"

definition b64_dec :: "char \<Rightarrow> char \<Rightarrow> string \<Rightarrow> string option" where
  "b64_dec c62 c63 s =
     (let vs = map (b64_value c62 c63) (filter (\<lambda>c. c \<noteq> CHR 0x0A \<and> c \<noteq> CHR 0x0D) s)
      in if None \<in> set vs then None else map_option (map char_of) (dec6 (map the vs)))"

definition RawURLEncode :: "string \<Rightarrow> string" where
  "RawURLEncode = b64_enc (CHR ''-'') (CHR ''_'')"

definition RawStdEncode :: "string \<Rightarrow> string" where
  "RawStdEncode = b64_enc (CHR ''+'') (CHR ''/'')"

definition RawStdDecode :: "string \<Rightarrow> string option" where
  "RawStdDecode = b64_dec (CHR ''+'') (CHR ''/'')"

text \<open>The padded encoding: \<open>=\<close> up to a multiple of four characters.\<close>

definition pad_len :: "nat \<Rightarrow> nat" where
  "pad_len n = (4 - n mod 4) mod 4"

definition StdEncode :: "string \<Rightarrow> string" where
  "StdEncode s = (let e = RawStdEncode s in e @ replicate (pad_len (length e)) (CHR ''=''))"

definition StdDecode :: "string \<Rightarrow> string option" where
  "StdDecode s =
     (let cs = filter (\<lambda>c. c \<noteq> CHR 0x0A \<and> c \<noteq> CHR 0x0D) s;
          e = takeWhile (\<lambda>c. c \<noteq> CHR ''='') cs
      in if cs = e @ replicate (pad_len (length e)) (CHR ''='') then RawStdDecode e else None)"

subsection \<open>Round trips\<close>

lemma enc6_bound: "\<forall>b \<in> set bs. b < 256 \<Longrightarrow> \<forall>v \<in> set (enc6 bs). v < 64"
  by (induction bs rule: enc6.induct) auto

lemma four_div_mod: "(a::nat) div 4 * 4 + a mod 4 = a"
  by presburger

lemma dec6_enc6: "\<forall>b \<in> set bs. b < 256 \<Longrightarrow> dec6 (enc6 bs) = Some bs"
proof (induction bs rule: enc6.induct)
  case 1
  then show ?case by simp
next
  case (2 a)
  then show ?case by (simp add: four_div_mod)
next
  case (3 a b)
  have "((a mod 4) * 16 + b div 16) div 16 = a mod 4" "((a mod 4) * 16 + b div 16) mod 16 = b div 16"
    using 3 by auto
  then show ?case by (simp add: four_div_mod)
next
  case (4 a b c r)
  have "((a mod 4) * 16 + b div 16) div 16 = a mod 4" "((a mod 4) * 16 + b div 16) mod 16 = b div 16"
    "((b mod 16) * 4 + c div 64) div 4 = b mod 16" "((b mod 16) * 4 + c div 64) mod 4 = c div 64"
    using 4 by auto
  with 4 show ?case by (simp add: four_div_mod)
qed

text \<open>An alphabet: its last two characters are no letters or digits, and no line break or padding.\<close>

definition b64_alphabet :: "char \<Rightarrow> char \<Rightarrow> bool" where
  "b64_alphabet c62 c63 \<longleftrightarrow> (c62, c63) \<in> {(CHR ''-'', CHR ''_''), (CHR ''+'', CHR ''/'')}"

lemma b64_alphabets [simp]:
  "b64_alphabet (CHR ''-'') (CHR ''_'')" "b64_alphabet (CHR ''+'') (CHR ''/'')"
  by (simp_all add: b64_alphabet_def)

lemma char_eq_code: "c = d \<longleftrightarrow> (of_char c :: nat) = of_char d"
  by simp

lemma b64_char_code:
  "n < 64 \<Longrightarrow> of_char (b64_char c62 c63 n) =
     (if n < 26 then 65 + n else if n < 52 then 71 + n else if n < 62 then n - 4
      else if n = 62 then of_char c62 else (of_char c63 :: nat))"
  by (simp add: b64_char_def)

lemma b64_char_inverse:
  assumes "b64_alphabet c62 c63" "n < 64"
  shows "b64_value c62 c63 (b64_char c62 c63 n) = Some n"
    and "b64_char c62 c63 n \<notin> {CHR 0x0A, CHR 0x0D, CHR ''='', CHR ''.'', CHR ''$''}"
proof -
  have codes: "(of_char c62 :: nat) = 45 \<and> (of_char c63 :: nat) = 95
      \<or> (of_char c62 :: nat) = 43 \<and> (of_char c63 :: nat) = 47"
    using assms(1) by (auto simp: b64_alphabet_def)
  note eqs = char_eq_code [of "b64_char c62 c63 n"] b64_char_code [OF assms(2)]
  consider "n < 26" | "26 \<le> n" "n < 52" | "52 \<le> n" "n < 62" | "n = 62" | "n = 63"
    using assms(2) by linarith
  then show "b64_value c62 c63 (b64_char c62 c63 n) = Some n"
    using codes
    by cases (auto simp: b64_value_def Let_def eqs b64_char_def [of _ _ 62] b64_char_def [of _ _ 63]
        simp del: of_char_eq_iff)
  show "b64_char c62 c63 n \<notin> {CHR 0x0A, CHR 0x0D, CHR ''='', CHR ''.'', CHR ''$''}"
    using codes assms(2) by (auto simp: eqs simp del: of_char_eq_iff split: if_splits)
qed

lemma enc6_of_char: "v \<in> set (enc6 (map of_char s)) \<Longrightarrow> v < 64"
  using enc6_bound [of "map of_char s"] by simp

lemma b64_enc_chars:
  "b64_alphabet c62 c63 \<Longrightarrow> c \<in> set (b64_enc c62 c63 s) \<Longrightarrow>
   c \<notin> {CHR 0x0A, CHR 0x0D, CHR ''='', CHR ''.'', CHR ''$''}"
  unfolding b64_enc_def using b64_char_inverse(2) enc6_of_char by fastforce

lemma b64_dec_enc:
  assumes "b64_alphabet c62 c63"
  shows "b64_dec c62 c63 (b64_enc c62 c63 s) = Some s"
proof -
  let ?vs = "enc6 (map of_char s)"
  have "filter (\<lambda>c. c \<noteq> CHR 0x0A \<and> c \<noteq> CHR 0x0D) (b64_enc c62 c63 s) = b64_enc c62 c63 s"
    using b64_enc_chars [OF assms] by (auto intro!: filter_True)
  moreover have "map (b64_value c62 c63) (b64_enc c62 c63 s) = map Some ?vs"
    using b64_char_inverse(1) [OF assms] enc6_of_char by (auto simp: b64_enc_def)
  moreover have "dec6 ?vs = Some (map of_char s)"
    by (rule dec6_enc6) auto
  ultimately show ?thesis
    by (simp add: b64_dec_def Let_def comp_def)
qed

lemma RawStdDecode_Encode [simp, go_simps]: "RawStdDecode (RawStdEncode s) = Some s"
  by (simp add: RawStdDecode_def RawStdEncode_def b64_dec_enc)

lemma RawURLEncode_no_dot: "CHR ''.'' \<notin> set (RawURLEncode s)"
  using b64_enc_chars [of "CHR ''-''" "CHR ''_''" "CHR ''.''" s] by (auto simp: RawURLEncode_def)

lemma RawStdEncode_no_dollar: "CHR ''$'' \<notin> set (RawStdEncode s)"
  using b64_enc_chars [of "CHR ''+''" "CHR ''/''" "CHR ''$''" s] by (auto simp: RawStdEncode_def)

lemma StdDecode_Encode [simp, go_simps]: "StdDecode (StdEncode s) = Some s"
proof -
  let ?e = "RawStdEncode s"
  have no: "c \<in> set ?e \<Longrightarrow> c \<notin> {CHR 0x0A, CHR 0x0D, CHR ''=''}" for c
    using b64_enc_chars [of "CHR ''+''" "CHR ''/''" c s] by (auto simp: RawStdEncode_def)
  have f: "filter (\<lambda>c. c \<noteq> CHR 0x0A \<and> c \<noteq> CHR 0x0D) (StdEncode s) = StdEncode s"
    using no by (auto simp: StdEncode_def Let_def intro!: filter_True)
  have "takeWhile (\<lambda>c. c \<noteq> CHR ''='') (StdEncode s) = ?e"
    using no by (auto simp: StdEncode_def Let_def takeWhile_append takeWhile_eq_Nil_iff)
  with f show ?thesis
    by (simp add: StdDecode_def Let_def) (simp add: StdEncode_def Let_def)
qed

end
