(* ===== verification/Security.thy ===== *)
theory Security
  imports Go_Base64
begin

section \<open>Hashes, passwords, tokens, cookies and signed states: \<open>src/internal/security\<close>\<close>

text \<open>
  The cryptographic primitives are parameters: \<open>sha256\<close> (the digest as bytes), \<open>hmac key msg\<close>,
  \<open>idkey\<close> for \<open>argon2.IDKey\<close>, and the record \<open>jwtlib\<close> for the JWT library, whose documented
  behaviour is the locale \<open>jwt_library\<close>.  The encodings around them (base64, hexadecimal, the
  password hash format, the dot of a signed state) are modelled and proved to round-trip.
  Randomness is an argument: what \<open>rand.Read\<close> or \<open>uuid.NewString\<close> returned.
\<close>

subsection \<open>\<open>hash.go\<close>\<close>

definition hexEncode :: "string \<Rightarrow> string" where
  "hexEncode s = concat (map (\<lambda>c. [hex_digit (of_char c div 16), hex_digit (of_char c mod 16)]) s)"

definition HashRefreshToken :: "(string \<Rightarrow> string) \<Rightarrow> string \<Rightarrow> string \<Rightarrow> string" where
  "HashRefreshToken sha256 raw pepper = hexEncode (sha256 (raw @ '':'' @ pepper))"

subsection \<open>\<open>password.go\<close>\<close>

definition argonTime :: nat where "argonTime = 3"
definition argonMemory :: nat where "argonMemory = 64 * 1024"
definition argonThreads :: nat where "argonThreads = 2"
definition argonKeyLen :: nat where "argonKeyLen = 32"

text \<open>\<open>idkey password salt time memory threads keyLen\<close> is \<open>argon2.IDKey\<close>.\<close>

type_synonym idkey = "string \<Rightarrow> string \<Rightarrow> nat \<Rightarrow> nat \<Rightarrow> nat \<Rightarrow> nat \<Rightarrow> string"

definition HashPassword :: "idkey \<Rightarrow> string result \<Rightarrow> string \<Rightarrow> string result" where
  "HashPassword idkey rnd password =
     (case rnd of
        Inl e \<Rightarrow> Inl e
      | Inr salt \<Rightarrow>
          let hash = idkey password salt argonTime argonMemory argonThreads argonKeyLen
          in Inr (''$argon2id$v=19$m='' @ FormatUint argonMemory @ '',t='' @ FormatUint argonTime
                  @ '',p='' @ FormatUint argonThreads @ ''$'' @ RawStdEncode salt @ ''$''
                  @ RawStdEncode hash))"

text \<open>
  \<open>fmt.Sscanf(s, "m=%d,t=%d,p=%d", ...)\<close>: literals match exactly, \<open>%d\<close> skips blanks and takes the
  longest run of digits, whose value has to fit the width of the variable.
\<close>

fun scan_literal :: "string \<Rightarrow> string \<Rightarrow> string option" where
  "scan_literal [] s = Some s"
| "scan_literal (x # xs) [] = None"
| "scan_literal (x # xs) (c # cs) = (if x = c then scan_literal xs cs else None)"

definition scan_uint :: "nat \<Rightarrow> string \<Rightarrow> (nat \<times> string) option" where
  "scan_uint bits s =
     (let s = dropWhile (\<lambda>c. is_space c \<and> c \<noteq> CHR 0x0A) s; d = takeWhile is_digit s
      in if d = [] \<or> 2 ^ bits \<le> digits_value d then None
         else Some (digits_value d, dropWhile is_digit s))"

definition scan_field :: "string \<Rightarrow> nat \<Rightarrow> string \<Rightarrow> (nat \<times> string) option" where
  "scan_field lit bits s = Option.bind (scan_literal lit s) (scan_uint bits)"

definition scan_params :: "string \<Rightarrow> (nat \<times> nat \<times> nat) option" where
  "scan_params s =
     Option.bind (scan_field ''m='' 32 s) (\<lambda>(m, s).
     Option.bind (scan_field '',t='' 32 s) (\<lambda>(t, s).
     Option.bind (scan_field '',p='' 8 s) (\<lambda>(p, s). Some (m, t, p))))"

definition decodeHash :: "string \<Rightarrow> (nat \<times> nat \<times> nat \<times> string \<times> string) result" where
  "decodeHash encoded =
     (case Split encoded (CHR ''$'') of
        [p0, p1, p2, p3, p4, p5] \<Rightarrow>
          if p1 \<noteq> ''argon2id'' \<or> p2 \<noteq> ''v=19'' then Inl (Errorf ''invalid password hash format'')
          else (case scan_params p3 of
                  None \<Rightarrow> Inl (Errorf ''invalid hash params'')
                | Some (memory, timeCost, threads) \<Rightarrow>
                    (case RawStdDecode p4 of
                       None \<Rightarrow> Inl (Errorf ''invalid hash salt'')
                     | Some salt \<Rightarrow>
                         (case RawStdDecode p5 of
                            None \<Rightarrow> Inl (Errorf ''invalid hash payload'')
                          | Some hash \<Rightarrow> Inr (memory, timeCost, threads, salt, hash))))
      | _ \<Rightarrow> Inl (Errorf ''invalid password hash format''))"

definition VerifyPassword :: "idkey \<Rightarrow> string \<Rightarrow> string \<Rightarrow> bool result" where
  "VerifyPassword idkey encoded password =
     (case decodeHash encoded of
        Inl e \<Rightarrow> Inl e
      | Inr (memory, timeCost, threads, salt, expected) \<Rightarrow>
          if 2 ^ 32 - 1 < length expected then Inl (Errorf ''invalid hash length'')
          else Inr (idkey password salt timeCost memory threads (length expected) = expected))"

lemma scan_literal_append [simp]: "scan_literal l (l @ s) = Some s"
  by (induction l) auto

lemma dec_digits:
  "takeWhile is_digit (FormatUint n @ c # s) = (if is_digit c then FormatUint n @ c # takeWhile is_digit s else FormatUint n)"
  using FormatUint_digits [of n] by (auto simp: list_all_iff takeWhile_append)

lemma digit_not_space: "is_digit c \<Longrightarrow> \<not> is_space c"
  by (auto simp: is_digit_def is_space_def less_eq_char_def)

lemma scan_uint_dec:
  assumes "n < 2 ^ bits" and "rest = [] \<or> \<not> is_digit (hd rest)"
  shows "scan_uint bits (FormatUint n @ rest) = Some (n, rest)"
proof -
  obtain c cs where f: "FormatUint n = c # cs" "is_digit c" using dec_first by blast
  have "takeWhile is_digit (FormatUint n @ rest) = FormatUint n"
    using FormatUint_digits [of n] assms(2)
    by (cases rest) (auto simp: list_all_iff takeWhile_append)
  moreover have "dropWhile is_digit (FormatUint n @ rest) = rest"
    using FormatUint_digits [of n] assms(2)
    by (cases rest) (auto simp: list_all_iff dropWhile_append)
  moreover have "dropWhile (\<lambda>c. is_space c \<and> c \<noteq> CHR 0x0A) (FormatUint n @ rest) = FormatUint n @ rest"
    using f digit_not_space by simp
  ultimately show ?thesis
    using FormatUint_digits [of n] assms(1) by (simp add: scan_uint_def Let_def)
qed

lemma scan_params_dec:
  assumes "m < 2 ^ 32" "t < 2 ^ 32" "p < 2 ^ 8"
  shows "scan_params (''m='' @ FormatUint m @ '',t='' @ FormatUint t @ '',p='' @ FormatUint p) = Some (m, t, p)"
proof -
  have comma: "\<not> is_digit (CHR '','')" by (simp add: is_digit_def)
  have "scan_field ''m='' 32 (''m='' @ FormatUint m @ '',t='' @ FormatUint t @ '',p='' @ FormatUint p)
      = Some (m, '',t='' @ FormatUint t @ '',p='' @ FormatUint p)"
    unfolding scan_field_def scan_literal_append Option.bind.bind_lunit
    by (rule scan_uint_dec) (use assms comma in simp_all)
  moreover have "scan_field '',t='' 32 ('',t='' @ FormatUint t @ '',p='' @ FormatUint p)
      = Some (t, '',p='' @ FormatUint p)"
    unfolding scan_field_def scan_literal_append Option.bind.bind_lunit
    by (rule scan_uint_dec) (use assms comma in simp_all)
  moreover have "scan_field '',p='' 8 ('',p='' @ FormatUint p) = Some (p, [])"
    unfolding scan_field_def scan_literal_append Option.bind.bind_lunit
    using scan_uint_dec [of p 8 "[]"] assms by simp
  ultimately show ?thesis
    by (simp only: scan_params_def Option.bind.bind_lunit prod.case)
qed

lemma no_dollar_dec: "CHR ''$'' \<notin> set (FormatUint n)"
  using digit_not_sep [of "CHR ''$''" n] by (auto simp: is_digit_def)

lemma decodeHash_HashPassword:
  assumes "HashPassword idkey rnd pw = Inr enc"
  obtains salt where "rnd = Inr salt"
    and "decodeHash enc = Inr (argonMemory, argonTime, argonThreads, salt,
           idkey pw salt argonTime argonMemory argonThreads argonKeyLen)"
proof -
  from assms obtain salt where rnd: "rnd = Inr salt" by (auto simp: HashPassword_def split: sum.splits)
  define params where
    "params = ''m='' @ FormatUint argonMemory @ '',t='' @ FormatUint argonTime @ '',p='' @ FormatUint argonThreads"
  define hash where "hash = idkey pw salt argonTime argonMemory argonThreads argonKeyLen"
  have enc: "enc = [] @ CHR ''$'' # ''argon2id'' @ CHR ''$'' # ''v=19'' @ CHR ''$'' # params
      @ CHR ''$'' # RawStdEncode salt @ CHR ''$'' # RawStdEncode hash"
    using assms by (simp add: HashPassword_def rnd Let_def params_def hash_def)
  have "CHR ''$'' \<notin> set params"
    using no_dollar_dec by (simp add: params_def)
  then have split: "Split enc (CHR ''$'') = [[], ''argon2id'', ''v=19'', params, RawStdEncode salt, RawStdEncode hash]"
    unfolding enc using RawStdEncode_no_dollar by (simp add: Split_append Split_no_sep)
  have "scan_params params = Some (argonMemory, argonTime, argonThreads)"
    unfolding params_def
    by (rule scan_params_dec) (simp_all add: argonMemory_def argonTime_def argonThreads_def)
  with split have "decodeHash enc = Inr (argonMemory, argonTime, argonThreads, salt, hash)"
    by (simp add: decodeHash_def)
  with rnd that show ?thesis by (simp add: hash_def)
qed

text \<open>
  C6: checking a password against a stored hash succeeds exactly when Argon2 derives the same key from it
  as from the password that was hashed; in particular the hashed password itself is always
  accepted, and a hash written by \<open>HashPassword\<close> is never rejected as malformed.  The hypothesis on
  \<open>idkey\<close> is that \<open>argon2.IDKey\<close> returns as many bytes as it is asked for.
\<close>

theorem VerifyPassword_HashPassword:
  assumes len: "\<And>p s t m th k. length (idkey p s t m th k) = k"
    and hash: "HashPassword idkey rnd pw = Inr enc"
  shows "\<exists>salt. rnd = Inr salt \<and> VerifyPassword idkey enc pw'
      = Inr (idkey pw' salt argonTime argonMemory argonThreads argonKeyLen
             = idkey pw salt argonTime argonMemory argonThreads argonKeyLen)"
proof -
  obtain salt where "rnd = Inr salt" and "decodeHash enc = Inr (argonMemory, argonTime, argonThreads,
      salt, idkey pw salt argonTime argonMemory argonThreads argonKeyLen)"
    using hash by (rule decodeHash_HashPassword)
  then show ?thesis by (simp add: VerifyPassword_def len argonKeyLen_def)
qed

definition demo_idkey :: idkey where
  "demo_idkey p s t m th k = take k (p @ s @ replicate k (CHR ''0''))"

theorem VerifyPassword_HashPassword_witness:
  "\<exists>enc. HashPassword demo_idkey (Inr ''salt'') ''secret'' = Inr enc
     \<and> VerifyPassword demo_idkey enc ''secret'' = Inr True
     \<and> VerifyPassword demo_idkey enc ''guess'' = Inr False"
proof -
  obtain enc where enc: "HashPassword demo_idkey (Inr ''salt'') ''secret'' = Inr enc"
    by (simp add: HashPassword_def)
  have len: "\<And>p s t m th k. length (demo_idkey p s t m th k) = k" by (simp add: demo_idkey_def)
  note ok = VerifyPassword_HashPassword [OF len enc]
  have "VerifyPassword demo_idkey enc ''secret'' = Inr True" using ok [of "''secret''"] by simp
  moreover have "VerifyPassword demo_idkey enc ''guess'' = Inr False"
    using ok [of "''guess''"] by (simp add: demo_idkey_def argonKeyLen_def)
  ultimately show ?thesis using enc by blast
qed

subsection \<open>\<open>state.go\<close>\<close>

definition NewRandomString :: "string result \<Rightarrow> string result" where
  "NewRandomString rnd = (case rnd of Inl e \<Rightarrow> Inl e | Inr b \<Rightarrow> Inr (RawURLEncode b))"

definition NewCSRFToken :: "string result \<Rightarrow> string result" where
  "NewCSRFToken rnd = NewRandomString rnd"

definition SignState :: "(string \<Rightarrow> string \<Rightarrow> string) \<Rightarrow> string \<Rightarrow> string \<Rightarrow> string" where
  "SignState hmac state secret = state @ ''.'' @ RawURLEncode (hmac secret state)"

definition VerifySignedState :: "(string \<Rightarrow> string \<Rightarrow> string) \<Rightarrow> string \<Rightarrow> string \<Rightarrow> string option" where
  "VerifySignedState hmac raw secret =
     (case Split raw (CHR ''.'') of
        [p0, p1] \<Rightarrow> if SignState hmac p0 secret = raw then Some p0 else None
      | _ \<Rightarrow> None)"

lemma Split_two:
  assumes "Split s c = [a, b]"
  shows "s = a @ c # b"
  using Join_Split [of s c] assms by simp

text \<open>
  A signed OAuth state verifies exactly when it is the signature of a state without a dot: every state
  the login handler makes (a random base64 string) is accepted after signing, and nothing but a
  correctly signed value is accepted.
\<close>

lemma VerifySignedState_iff:
  "VerifySignedState hmac raw secret = Some state
     \<longleftrightarrow> raw = SignState hmac state secret \<and> CHR ''.'' \<notin> set state"
proof
  assume v: "VerifySignedState hmac raw secret = Some state"
  define ps where "ps = Split raw (CHR ''.'')"
  have "(case ps of [p0, p1] \<Rightarrow> if SignState hmac p0 secret = raw then Some p0 else None | _ \<Rightarrow> None)
      = Some state"
    using v by (simp only: VerifySignedState_def ps_def)
  then obtain b where ps: "ps = [state, b]" "raw = SignState hmac state secret"
    by (simp split: list.splits if_splits)
  have "CHR ''.'' \<notin> set state"
    using set_Split [of raw "CHR ''.''"] ps(1) by (simp only: ps_def [symmetric]) simp
  with ps(2) show "raw = SignState hmac state secret \<and> CHR ''.'' \<notin> set state"
    by blast
next
  assume raw: "raw = SignState hmac state secret \<and> CHR ''.'' \<notin> set state"
  have "Split (SignState hmac state secret) (CHR ''.'') = [state, RawURLEncode (hmac secret state)]"
    using raw by (simp add: SignState_def Split_append Split_no_sep RawURLEncode_no_dot)
  then have "VerifySignedState hmac (SignState hmac state secret) secret = Some state"
    by (simp add: VerifySignedState_def)
  with raw show "VerifySignedState hmac raw secret = Some state"
    by blast
qed

subsection \<open>\<open>jwt.go\<close>\<close>

record claims =
  cl_TokenType :: string
  cl_Roles :: "string list"
  cl_Permissions :: "string list"
  cl_Issuer :: string
  cl_Subject :: string
  cl_Audience :: "string list"
  cl_ExpiresAt :: "gotime option"
  cl_IssuedAt :: "gotime option"
  cl_ID :: string

record jwt_manager =
  jm_issuer :: string
  jm_audience :: string
  jm_accessSecret :: string
  jm_refreshSecret :: string

text \<open>
  The JWT library: \<open>NewNumericDate\<close>, \<open>NewWithClaims(HS256, c).SignedString(key)\<close>, and
  \<open>ParseWithClaims(raw, keyfunc, WithIssuer, WithAudience)\<close> at the time of the call, which returns
  the claims and the flag \<open>Valid\<close>.  The key function maps the name of the signing method to the key.
\<close>

record jwtlib =
  jl_NumericDate :: "gotime \<Rightarrow> gotime"
  jl_SignedString :: "claims \<Rightarrow> string \<Rightarrow> string result"
  jl_ParseWithClaims ::
    "string \<Rightarrow> (string \<Rightarrow> string result) \<Rightarrow> string \<Rightarrow> string \<Rightarrow> gotime \<Rightarrow> (claims \<times> bool) result"

definition SignAccessTokenWithJTI ::
    "jwtlib \<Rightarrow> jwt_manager \<Rightarrow> clock \<Rightarrow> string \<Rightarrow> uint \<Rightarrow> string list \<Rightarrow> string list \<Rightarrow> duration \<Rightarrow> string
     \<Rightarrow> string result" where
  "SignAccessTokenWithJTI L m clk uuid userID roles perms ttl jti =
     (let jti = (if jti = [] then uuid else jti)
      in jl_SignedString L
           \<lparr>cl_TokenType = ''access'', cl_Roles = roles, cl_Permissions = perms,
            cl_Issuer = jm_issuer m, cl_Subject = FormatUint userID, cl_Audience = [jm_audience m],
            cl_ExpiresAt = Some (jl_NumericDate L (clk 0 + ttl)),
            cl_IssuedAt = Some (jl_NumericDate L (clk 1)), cl_ID = jti\<rparr>
           (jm_accessSecret m))"

definition SignAccessToken ::
    "jwtlib \<Rightarrow> jwt_manager \<Rightarrow> clock \<Rightarrow> string \<Rightarrow> uint \<Rightarrow> string list \<Rightarrow> string list \<Rightarrow> duration
     \<Rightarrow> string result" where
  "SignAccessToken L m clk uuid userID roles perms ttl =
     SignAccessTokenWithJTI L m clk uuid userID roles perms ttl uuid"

definition refresh_claims ::
    "jwtlib \<Rightarrow> jwt_manager \<Rightarrow> clock \<Rightarrow> string \<Rightarrow> uint \<Rightarrow> duration \<Rightarrow> claims" where
  "refresh_claims L m clk uuid userID ttl =
     \<lparr>cl_TokenType = ''refresh'', cl_Roles = [], cl_Permissions = [],
      cl_Issuer = jm_issuer m, cl_Subject = FormatUint userID, cl_Audience = [jm_audience m],
      cl_ExpiresAt = Some (jl_NumericDate L (clk 0 + ttl)),
      cl_IssuedAt = Some (jl_NumericDate L (clk 1)), cl_ID = uuid\<rparr>"

definition SignRefreshToken ::
    "jwtlib \<Rightarrow> jwt_manager \<Rightarrow> clock \<Rightarrow> string \<Rightarrow> uint \<Rightarrow> duration \<Rightarrow> string result" where
  "SignRefreshToken L m clk uuid userID ttl =
     jl_SignedString L (refresh_claims L m clk uuid userID ttl) (jm_refreshSecret m)"

definition jwt_parse ::
    "jwtlib \<Rightarrow> jwt_manager \<Rightarrow> gotime \<Rightarrow> string \<Rightarrow> string \<Rightarrow> string \<Rightarrow> claims result" where
  "jwt_parse L m now raw secret tokenType =
     (case jl_ParseWithClaims L raw
             (\<lambda>alg. if alg \<noteq> ''HS256'' then Inl (Errorf ''unexpected signing algorithm'') else Inr secret)
             (jm_issuer m) (jm_audience m) now of
        Inl e \<Rightarrow> Inl e
      | Inr (claims, valid) \<Rightarrow>
          if \<not> valid then Inl (Errorf ''invalid token'')
          else if cl_TokenType claims \<noteq> tokenType
               then Inl (Errorf (''unexpected token type: '' @ cl_TokenType claims))
          else Inr claims)"

definition ParseAccessToken :: "jwtlib \<Rightarrow> jwt_manager \<Rightarrow> gotime \<Rightarrow> string \<Rightarrow> claims result" where
  "ParseAccessToken L m now raw = jwt_parse L m now raw (jm_accessSecret m) ''access''"

definition ParseRefreshToken :: "jwtlib \<Rightarrow> jwt_manager \<Rightarrow> gotime \<Rightarrow> string \<Rightarrow> claims result" where
  "ParseRefreshToken L m now raw = jwt_parse L m now raw (jm_refreshSecret m) ''refresh''"

locale jwt_library =
  fixes L :: jwtlib
  assumes sign_parse: "jl_SignedString L c k = Inr raw \<Longrightarrow> kf ''HS256'' = Inr k \<Longrightarrow>
      cl_Issuer c = iss \<Longrightarrow> aud \<in> set (cl_Audience c) \<Longrightarrow>
      (\<And>e. cl_ExpiresAt c = Some e \<Longrightarrow> now < e) \<Longrightarrow>
      jl_ParseWithClaims L raw kf iss aud now = Inr (c, True)"
    and parse_payload: "jl_SignedString L c k = Inr raw \<Longrightarrow>
      jl_ParseWithClaims L raw kf iss aud now = Inr (c', v) \<Longrightarrow> c' = c"
    and parse_checked: "jl_ParseWithClaims L raw kf iss aud now = Inr (c, v) \<Longrightarrow>
      cl_Issuer c = iss \<and> aud \<in> set (cl_Audience c) \<and> (\<forall>e. cl_ExpiresAt c = Some e \<longrightarrow> now < e)"
    and numeric_date: "jl_NumericDate L t \<le> t \<and> t - seconds 1 < jl_NumericDate L t"
begin

lemma jwt_parse_checked:
  assumes "jwt_parse L m now raw k ty = Inr c"
  shows "cl_TokenType c = ty" and "cl_Issuer c = jm_issuer m" and "jm_audience m \<in> set (cl_Audience c)"
    and "cl_ExpiresAt c = Some e \<Longrightarrow> now < e"
  using assms parse_checked by (auto simp: jwt_parse_def split: sum.splits prod.splits if_splits)

lemma jwt_parse_payload:
  "jl_SignedString L c k = Inr raw \<Longrightarrow> jwt_parse L m now raw k' ty = Inr c' \<Longrightarrow> c' = c"
  using parse_payload by (auto simp: jwt_parse_def split: sum.splits prod.splits if_splits)

lemma refresh_roundtrip:
  assumes sign: "SignRefreshToken L m clk uuid userID ttl = Inr raw" and now: "now + seconds 1 \<le> clk 0 + ttl"
  shows "ParseRefreshToken L m now raw = Inr (refresh_claims L m clk uuid userID ttl)"
proof -
  let ?c = "refresh_claims L m clk uuid userID ttl"
  have "now < jl_NumericDate L (clk 0 + ttl)"
    using numeric_date [of "clk 0 + ttl"] now by linarith
  then have "jl_ParseWithClaims L raw
      (\<lambda>alg. if alg \<noteq> ''HS256'' then Inl (Errorf ''unexpected signing algorithm'') else Inr (jm_refreshSecret m))
      (jm_issuer m) (jm_audience m) now = Inr (?c, True)"
    by (intro sign_parse [OF sign [unfolded SignRefreshToken_def]]) (auto simp: refresh_claims_def)
  then show ?thesis
    by (simp add: ParseRefreshToken_def jwt_parse_def) (simp add: refresh_claims_def)
qed

lemma refresh_not_access:
  assumes "SignRefreshToken L m clk uuid userID ttl = Inr raw"
  shows "\<exists>e. ParseAccessToken L m' now raw = Inl e"
proof (cases "ParseAccessToken L m' now raw")
  case (Inr c)
  then have "c = refresh_claims L m clk uuid userID ttl" and "cl_TokenType c = ''access''"
    using jwt_parse_payload [OF assms [unfolded SignRefreshToken_def]] jwt_parse_checked(1)
    by (auto simp: ParseAccessToken_def)
  then show ?thesis by (simp add: refresh_claims_def)
qed blast

lemma access_not_refresh:
  assumes "SignAccessTokenWithJTI L m clk uuid userID roles perms ttl jti = Inr raw"
  shows "\<exists>e. ParseRefreshToken L m' now raw = Inl e"
proof (cases "ParseRefreshToken L m' now raw")
  case (Inr c)
  then have "jwt_parse L m' now raw (jm_refreshSecret m') ''refresh'' = Inr c"
    by (simp add: ParseRefreshToken_def)
  from jwt_parse_payload [OF assms [unfolded SignAccessTokenWithJTI_def Let_def] this]
  have "cl_TokenType c = ''access''" by simp
  with Inr jwt_parse_checked(1) [of m' now raw _ "''refresh''" c] show ?thesis
    by (simp add: ParseRefreshToken_def)
qed blast

end

text \<open>
  A reference library for the witnesses: a token is the sequence of its claims and its key, each
  field terminated by an escape; parsing compares the key and checks issuer, audience and expiry.
\<close>

fun enc_field :: "string \<Rightarrow> string" where
  "enc_field [] = ''0''"
| "enc_field (c # cs) = CHR ''1'' # c # enc_field cs"

fun dec_field :: "string \<Rightarrow> (string \<times> string) option" where
  "dec_field [] = None"
| "dec_field [x] = (if x = CHR ''0'' then Some ([], []) else None)"
| "dec_field (x # c # r) =
     (if x = CHR ''0'' then Some ([], c # r)
      else map_option (\<lambda>(f, r). (c # f, r)) (dec_field r))"

fun dec_fields :: "nat \<Rightarrow> string \<Rightarrow> string list option" where
  "dec_fields fuel [] = Some []"
| "dec_fields 0 (c # s) = None"
| "dec_fields (Suc n) (c # s) =
     Option.bind (dec_field (c # s)) (\<lambda>(f, r). map_option ((#) f) (dec_fields n r))"

definition enc_time :: "gotime option \<Rightarrow> string" where
  "enc_time t = (case t of None \<Rightarrow> [] | Some i \<Rightarrow> (if i < 0 then ''-'' else ''+'') @ FormatUint (nat \<bar>i\<bar>))"

definition dec_time :: "string \<Rightarrow> gotime option" where
  "dec_time s = (case s of [] \<Rightarrow> None
     | c # d \<Rightarrow> Some (if c = CHR ''-'' then - int (digits_value d) else int (digits_value d)))"

definition tagged :: "char \<Rightarrow> string list \<Rightarrow> string list" where
  "tagged c xs = map tl (filter (\<lambda>f. f \<noteq> [] \<and> hd f = c) xs)"

definition claim_fields :: "claims \<Rightarrow> string \<Rightarrow> string list" where
  "claim_fields c k = [k, cl_TokenType c, cl_Issuer c, cl_Subject c, enc_time (cl_ExpiresAt c),
     enc_time (cl_IssuedAt c), cl_ID c] @ map ((#) (CHR ''r'')) (cl_Roles c)
     @ map ((#) (CHR ''p'')) (cl_Permissions c) @ map ((#) (CHR ''a'')) (cl_Audience c)"

definition fields_claims :: "string list \<Rightarrow> (claims \<times> string) option" where
  "fields_claims fs = (case fs of
       k # ty # iss # sb # ex # iat # jti # tags \<Rightarrow>
         Some (\<lparr>cl_TokenType = ty, cl_Roles = tagged (CHR ''r'') tags,
                cl_Permissions = tagged (CHR ''p'') tags, cl_Issuer = iss, cl_Subject = sb,
                cl_Audience = tagged (CHR ''a'') tags, cl_ExpiresAt = dec_time ex,
                cl_IssuedAt = dec_time iat, cl_ID = jti\<rparr>, k)
     | _ \<Rightarrow> None)"

definition mem_jwt :: jwtlib where
  "mem_jwt =
     \<lparr>jl_NumericDate = (\<lambda>t. t - t mod seconds 1),
      jl_SignedString = (\<lambda>c k. Inr (concat (map enc_field (claim_fields c k)))),
      jl_ParseWithClaims = (\<lambda>raw kf iss aud now.
        case Option.bind (dec_fields (length raw) raw) fields_claims of
          None \<Rightarrow> Inl (External ''token is malformed'')
        | Some (c, k) \<Rightarrow>
            (case kf ''HS256'' of
               Inl e \<Rightarrow> Inl e
             | Inr k' \<Rightarrow>
                 if k \<noteq> k' then Inl (External ''token signature is invalid'')
                 else if cl_Issuer c \<noteq> iss \<or> aud \<notin> set (cl_Audience c)
                   \<or> (case cl_ExpiresAt c of None \<Rightarrow> False | Some e \<Rightarrow> e \<le> now)
                   then Inl (External ''token has invalid claims'')
                 else Inr (c, True)))\<rparr>"

lemma dec_field_enc: "dec_field (enc_field f @ r) = Some (f, r)"
  by (induction f) (cases r; simp)+

lemma enc_field_Cons: "\<exists>c s. enc_field f = c # s"
  by (cases f) auto

lemma dec_fields_enc:
  "length (concat (map enc_field fs)) \<le> n \<Longrightarrow> dec_fields n (concat (map enc_field fs)) = Some fs"
proof (induction fs arbitrary: n)
  case Nil
  then show ?case by simp
next
  case (Cons f fs)
  obtain c s where cs: "enc_field f = c # s" using enc_field_Cons by blast
  with Cons.prems obtain m where n: "n = Suc m" and m: "length (concat (map enc_field fs)) \<le> m"
    by (cases n) auto
  have "dec_field (c # s @ concat (map enc_field fs)) = Some (f, concat (map enc_field fs))"
    using dec_field_enc [of f "concat (map enc_field fs)"] cs by simp
  with Cons.IH [OF m] show ?case by (simp add: cs n)
qed

lemma dec_time_enc: "dec_time (enc_time t) = t"
  using FormatUint_digits by (auto simp: dec_time_def enc_time_def split: option.splits)

lemma tagged_simps [simp]:
  "tagged c [] = []" "tagged c (xs @ ys) = tagged c xs @ tagged c ys"
  "tagged c (map ((#) d) xs) = (if c = d then xs else [])"
  by (induction xs) (auto simp: tagged_def)

lemma fields_claims_inverse: "fields_claims (claim_fields c k) = Some (c, k)"
  by (simp add: fields_claims_def claim_fields_def dec_time_enc)

lemma mem_jwt_parse:
  "jl_SignedString mem_jwt c k = Inr raw \<Longrightarrow>
   Option.bind (dec_fields (length raw) raw) fields_claims = Some (c, k)"
  using dec_fields_enc [OF order_refl, of "claim_fields c k"]
  by (auto simp: mem_jwt_def fields_claims_inverse)

interpretation mem_jwt: jwt_library mem_jwt
proof (unfold_locales, goal_cases)
  case (1 c k raw kf iss aud now)
  from mem_jwt_parse [OF 1(1)] 1(2-) show ?case
    by (auto simp: mem_jwt_def split: option.splits)
next
  case (2 c k raw kf iss aud now c' v)
  from mem_jwt_parse [OF 2(1)] 2(2) show ?case
    by (auto simp: mem_jwt_def split: option.splits sum.splits if_splits)
next
  case (3 raw kf iss aud now c v)
  then show ?case
    by (auto simp: mem_jwt_def split: option.splits sum.splits if_splits)
next
  case (4 t)
  have "0 \<le> t mod seconds 1 \<and> t mod seconds 1 < seconds 1" by simp
  then show ?case by (simp add: mem_jwt_def)
qed

text \<open>
  C7: a refresh token parses, until it expires, to exactly the claims it was signed with (its user, its
  token id), is never accepted where an access token is expected, and an access token is never accepted
  where a refresh token is expected, whatever the secrets and at whatever time.
\<close>

theorem jwt_token_types:
  assumes L: "jwt_library L"
    and refresh: "SignRefreshToken L m clk uuid userID ttl = Inr rt"
    and access: "SignAccessTokenWithJTI L m clk' uuid' userID roles perms ttl' jti = Inr atok"
    and now: "now + seconds 1 \<le> clk 0 + ttl"
  shows "(\<exists>c. ParseRefreshToken L m now rt = Inr c \<and> cl_ID c = uuid \<and> cl_Subject c = FormatUint userID
            \<and> cl_TokenType c = ''refresh'')
         \<and> (\<exists>e. ParseAccessToken L m t rt = Inl e) \<and> (\<exists>e. ParseRefreshToken L m t atok = Inl e)"
  using jwt_library.refresh_roundtrip [OF L refresh now] jwt_library.refresh_not_access [OF L refresh]
    jwt_library.access_not_refresh [OF L access]
  by (auto simp: refresh_claims_def)

definition demo_manager :: jwt_manager where
  "demo_manager = \<lparr>jm_issuer = ''iss'', jm_audience = ''aud'', jm_accessSecret = ''ka'',
     jm_refreshSecret = ''kr''\<rparr>"

theorem jwt_token_types_witness:
  "\<exists>rt atok c. SignRefreshToken mem_jwt demo_manager (\<lambda>_. 0) ''id-1'' 7 (seconds 60) = Inr rt
     \<and> SignAccessTokenWithJTI mem_jwt demo_manager (\<lambda>_. 0) ''x'' 7 [''user''] [] (seconds 60) ''id-1'' = Inr atok
     \<and> ParseRefreshToken mem_jwt demo_manager (seconds 5) rt = Inr c \<and> cl_ID c = ''id-1''
     \<and> (\<exists>e. ParseRefreshToken mem_jwt demo_manager 0 atok = Inl e)"
proof -
  obtain rt where rt: "SignRefreshToken mem_jwt demo_manager (\<lambda>_. 0) ''id-1'' 7 (seconds 60) = Inr rt"
    by (simp add: SignRefreshToken_def mem_jwt_def)
  obtain atok where atok: "SignAccessTokenWithJTI mem_jwt demo_manager (\<lambda>_. 0) ''x'' 7 [''user''] []
      (seconds 60) ''id-1'' = Inr atok"
    by (simp add: SignAccessTokenWithJTI_def mem_jwt_def)
  from jwt_token_types [OF mem_jwt.jwt_library_axioms rt atok, of "seconds 5" 0] rt atok
  show ?thesis by auto
qed

subsection \<open>Requests, and \<open>cookie.go\<close>\<close>

text \<open>
  A request as the handlers and the middleware read it.  Header names are in canonical form;
  \<open>rq_Claims\<close> is the value under the context key \<open>claims\<close> and \<open>rq_RoutePattern\<close> the pattern of
  chi's route context.
\<close>

record request =
  rq_Method :: string
  rq_Path :: string
  rq_Headers :: "(string \<times> string) list"
  rq_Cookies :: "(string \<times> string) list"
  rq_RemoteAddr :: string
  rq_TLS :: bool
  rq_Body :: "string result"
  rq_Claims :: "claims option"
  rq_RoutePattern :: string
  rq_Query :: "(string \<times> string list) list"
  rq_Params :: "(string \<times> string) list"

definition header_get :: "string \<Rightarrow> (string \<times> string) list \<Rightarrow> string" where
  "header_get name hs = (case map_of hs name of None \<Rightarrow> [] | Some v \<Rightarrow> v)"

definition GetCookie :: "request \<Rightarrow> string \<Rightarrow> string" where
  "GetCookie r name = (case map_of (rq_Cookies r) name of None \<Rightarrow> [] | Some v \<Rightarrow> v)"

datatype samesite = SameSiteLaxMode | SameSiteNoneMode | SameSiteStrictMode

record cookie =
  ck_Name :: string
  ck_Value :: string
  ck_Path :: string
  ck_HttpOnly :: bool
  ck_Secure :: bool
  ck_SameSite :: samesite
  ck_Domain :: string
  ck_MaxAge :: int

record cookie_manager =
  cm_Domain :: string
  cm_Secure :: bool
  cm_SameSite :: samesite

definition NewCookieManager :: "string \<Rightarrow> bool \<Rightarrow> string \<Rightarrow> cookie_manager" where
  "NewCookieManager dmn secure sameSite =
     \<lparr>cm_Domain = dmn, cm_Secure = secure,
      cm_SameSite = (if ToLower sameSite = ''none'' then SameSiteNoneMode
                     else if ToLower sameSite = ''strict'' then SameSiteStrictMode
                     else SameSiteLaxMode)\<rparr>"

definition cookie_of :: "cookie_manager \<Rightarrow> string \<Rightarrow> string \<Rightarrow> string \<Rightarrow> bool \<Rightarrow> int \<Rightarrow> cookie" where
  "cookie_of c name val path httpOnly maxAge =
     \<lparr>ck_Name = name, ck_Value = val, ck_Path = path, ck_HttpOnly = httpOnly, ck_Secure = cm_Secure c,
      ck_SameSite = cm_SameSite c, ck_Domain = cm_Domain c, ck_MaxAge = maxAge\<rparr>"

text \<open>\<open>int(d.Seconds())\<close> drops the fraction, towards zero.\<close>

definition whole_seconds :: "duration \<Rightarrow> int" where
  "whole_seconds d = sgn d * (\<bar>d\<bar> div seconds 1)"

definition SetTokenCookies :: "cookie_manager \<Rightarrow> string \<Rightarrow> string \<Rightarrow> string \<Rightarrow> duration \<Rightarrow> cookie list" where
  "SetTokenCookies c accessToken refreshToken csrf refreshTTL =
     [cookie_of c ''access_token'' accessToken ''/'' True 900,
      cookie_of c ''refresh_token'' refreshToken ''/api/v1/auth'' True (whole_seconds refreshTTL),
      cookie_of c ''csrf_token'' csrf ''/'' False (whole_seconds refreshTTL)]"

definition ClearTokenCookies :: "cookie_manager \<Rightarrow> cookie list" where
  "ClearTokenCookies c =
     [cookie_of c ''access_token'' [] ''/'' True (-1),
      cookie_of c ''refresh_token'' [] ''/api/v1/auth'' True (-1),
      cookie_of c ''csrf_token'' [] ''/'' False (-1),
      cookie_of c ''oauth_state'' [] ''/api/v1/auth/google'' True (-1)]"

definition RequireCSRFFromHeader :: "request \<Rightarrow> unit result" where
  "RequireCSRFFromHeader r =
     (let c = GetCookie r ''csrf_token''; h = header_get ''X-Csrf-Token'' (rq_Headers r)
      in if c = [] \<or> h = [] \<or> h \<noteq> c then Inl (Errorf ''invalid csrf token'') else Inr ())"

text \<open>
  A browser stores a cookie under its name, domain and path; a cookie with a negative age removes
  the stored one.
\<close>

type_synonym jar = "(string \<times> string \<times> string) \<Rightarrow> string option"

definition cookie_key :: "cookie \<Rightarrow> string \<times> string \<times> string" where
  "cookie_key c = (ck_Name c, ck_Domain c, ck_Path c)"

definition store_cookie :: "cookie \<Rightarrow> jar \<Rightarrow> jar" where
  "store_cookie c j = (if ck_MaxAge c < 0 then j(cookie_key c := None) else j(cookie_key c \<mapsto> ck_Value c))"

lemma clear_overrides:
  "((j(k1 := a, k2 := b, k3 := c)) (k1 := d, k2 := d, k3 := d, k4 := d)) = j(k1 := d, k2 := d, k3 := d, k4 := d)"
  "k \<in> {k1, k2, k3, k4} \<Longrightarrow> (j(k1 := d, k2 := d, k3 := d, k4 := d)) k = d"
  by (rule ext, simp) auto

lemma store_cookie_of:
  "store_cookie (cookie_of c nm v p h n) j = j((nm, cm_Domain c, p) := (if n < 0 then None else Some v))"
  by (simp add: store_cookie_def cookie_of_def cookie_key_def)

lemma clear_all:
  "fold store_cookie (ClearTokenCookies c) j =
     j((''access_token'', cm_Domain c, ''/'') := None, (''refresh_token'', cm_Domain c, ''/api/v1/auth'') := None,
       (''csrf_token'', cm_Domain c, ''/'') := None, (''oauth_state'', cm_Domain c, ''/api/v1/auth/google'') := None)"
  unfolding ClearTokenCookies_def fold_simps comp_def id_def store_cookie_of by (simp only: neg_less_0_iff_less zero_less_one if_True)

lemma cookie_key_of: "cookie_key (cookie_of c nm v p h n) = (nm, cm_Domain c, p)"
  by (simp add: cookie_key_def cookie_of_def)

text \<open>
  clearing removes every cookie that a login set, under whatever values and lifetime it set them, and
  removes nothing else but the OAuth state; the cookies that carry tokens are hidden from scripts and
  the CSRF cookie, which scripts must read, is not.
\<close>

theorem clear_undoes_set_cookies:
  "fold store_cookie (ClearTokenCookies c) (fold store_cookie (SetTokenCookies c acc rt cs ttl) j)
     = fold store_cookie (ClearTokenCookies c) j
   \<and> (\<forall>k \<in> set (SetTokenCookies c acc rt cs ttl).
        fold store_cookie (ClearTokenCookies c) j (cookie_key k) = None
        \<and> (ck_HttpOnly k \<longleftrightarrow> ck_Name k \<noteq> ''csrf_token''))"
proof (intro conjI ballI)
  show "fold store_cookie (ClearTokenCookies c) (fold store_cookie (SetTokenCookies c acc rt cs ttl) j)
     = fold store_cookie (ClearTokenCookies c) j"
    unfolding clear_all unfolding SetTokenCookies_def fold_simps comp_def id_def store_cookie_of
    by (rule clear_overrides(1))
  fix k assume k: "k \<in> set (SetTokenCookies c acc rt cs ttl)"
  show "fold store_cookie (ClearTokenCookies c) j (cookie_key k) = None"
    unfolding clear_all
    by (rule clear_overrides(2)) (use k in \<open>auto simp only: SetTokenCookies_def list.set cookie_key_of\<close>)
  show "ck_HttpOnly k \<longleftrightarrow> ck_Name k \<noteq> ''csrf_token''"
    using k by (auto simp: SetTokenCookies_def cookie_of_def)
qed

theorem clear_undoes_set_cookies_witness:
  "fold store_cookie (ClearTokenCookies (NewCookieManager ''d'' True ''strict'')) Map.empty
     (cookie_key (cookie_of (NewCookieManager ''d'' True ''strict'') ''refresh_token'' ''r'' ''/api/v1/auth'' True
        (whole_seconds (seconds 3600)))) = None"
proof -
  have "cookie_of (NewCookieManager ''d'' True ''strict'') ''refresh_token'' ''r'' ''/api/v1/auth'' True
      (whole_seconds (seconds 3600))
    \<in> set (SetTokenCookies (NewCookieManager ''d'' True ''strict'') ''a'' ''r'' ''c'' (seconds 3600))"
    by (simp only: SetTokenCookies_def list.set insert_iff simp_thms)
  with clear_undoes_set_cookies show ?thesis by blast
qed

end
