(* ===== verification/Session_Repo.thy ===== *)
theory Session_Repo
  imports Domain Security
begin

section \<open>Sessions: \<open>session_repository.go\<close> and \<open>session_service.go\<close>\<close>

text \<open>
  The operations of \<open>GormSessionRepository\<close> over the contents of the table \<open>sessions\<close>, each with
  the \<open>WHERE\<close> clause and the column map of the source, and \<open>SessionService\<close> on top of them.  An
  operation returns its result and the table afterwards; the transaction of \<open>RotateSession\<close> gives
  the old table back on every error.  Calls that only record a metric are left out.

  A session is \<open>live\<close> when it is not revoked.  \<open>session_step\<close> collects every write the repository
  offers; the invariant \<open>sessions_wf\<close> (primary keys and unique indexes) and the permanence of a
  revocation are proved for all of them.
\<close>

abbreviation live :: "session \<Rightarrow> bool" where
  "live s \<equiv> s_RevokedAt s = None"

definition revoke :: "gotime \<Rightarrow> string \<Rightarrow> session \<Rightarrow> session" where
  "revoke now reason s = s\<lparr>s_RevokedAt := Some now, s_RevokedReason := Some reason\<rparr>"

subsection \<open>\<open>GormSessionRepository\<close>\<close>

definition SessionRepository_Create :: "session gorm \<Rightarrow> session \<Rightarrow> session list \<Rightarrow> session result \<times> session list" where
  "SessionRepository_Create G s t =
     (case gorm_Create G s t of Inl e \<Rightarrow> (Inl e, t) | Inr (s', t') \<Rightarrow> (Inr s', t'))"

definition SessionRepository_FindByHash :: "session gorm \<Rightarrow> string \<Rightarrow> session list \<Rightarrow> session result" where
  "SessionRepository_FindByHash G hash t =
     (case gorm_First G (\<lambda>s. s_RefreshTokenHash s = hash) t of
        Inl e \<Rightarrow> Inl (not_found ErrSessionNotFound e)
      | Inr s \<Rightarrow> Inr s)"

definition SessionRepository_FindActiveByTokenIDForUser ::
    "session gorm \<Rightarrow> gotime \<Rightarrow> uint \<Rightarrow> string \<Rightarrow> session list \<Rightarrow> session result" where
  "SessionRepository_FindActiveByTokenIDForUser G now userID tokenID t =
     (case gorm_First G (\<lambda>s. s_UserID s = userID \<and> s_TokenID s = Some tokenID \<and> s_RevokedAt s = None
                             \<and> s_ExpiresAt s > now) t of
        Inl e \<Rightarrow> Inl (not_found ErrSessionNotFound e)
      | Inr s \<Rightarrow> Inr s)"

definition SessionRepository_FindByIDForUser ::
    "session gorm \<Rightarrow> uint \<Rightarrow> uint \<Rightarrow> session list \<Rightarrow> session result" where
  "SessionRepository_FindByIDForUser G userID sessionID t =
     (case gorm_First G (\<lambda>s. s_UserID s = userID \<and> s_ID s = sessionID) t of
        Inl e \<Rightarrow> Inl (not_found ErrSessionNotFound e)
      | Inr s \<Rightarrow> Inr s)"

definition SessionRepository_ListActiveByUserID ::
    "session gorm \<Rightarrow> gotime \<Rightarrow> uint \<Rightarrow> session list \<Rightarrow> session list result" where
  "SessionRepository_ListActiveByUserID G now userID t =
     gorm_FindOrder G (\<lambda>s. s_UserID s = userID \<and> s_RevokedAt s = None \<and> s_ExpiresAt s > now)
       (\<lambda>a b. s_CreatedAt b \<le> s_CreatedAt a) t"

definition SessionRepository_RotateSession ::
    "session gorm \<Rightarrow> clock \<Rightarrow> string \<Rightarrow> session \<Rightarrow> session list \<Rightarrow> session result \<times> session list" where
  "SessionRepository_RotateSession G clk oldHash newSession t =
     (case gorm_First G (\<lambda>s. s_RefreshTokenHash s = oldHash \<and> s_RevokedAt s = None
                             \<and> s_ExpiresAt s > clk 0) t of
        Inl e \<Rightarrow> (Inl (not_found ErrSessionNotFound e), t)
      | Inr s \<Rightarrow>
          (case gorm_Updates G (\<lambda>r. s_ID r = s_ID s) (revoke (clk 1) ''rotated'') t of
             Inl e \<Rightarrow> (Inl e, t)
           | Inr (n, t1) \<Rightarrow>
               (case gorm_Create G newSession t1 of
                  Inl e \<Rightarrow> (Inl e, t)
                | Inr (s', t2) \<Rightarrow> (Inr (revoke (clk 1) ''rotated'' s), t2))))"

definition missing :: "string option \<Rightarrow> bool" where
  "missing v \<longleftrightarrow> v = None \<or> v = Some []"

definition SessionRepository_UpdateTokenLineageByHash ::
    "session gorm \<Rightarrow> string \<Rightarrow> string \<Rightarrow> string \<Rightarrow> session list \<Rightarrow> unit result \<times> session list" where
  "SessionRepository_UpdateTokenLineageByHash G hash tokenID familyID t =
     (case gorm_Updates G
             (\<lambda>s. s_RefreshTokenHash s = hash \<and> (missing (s_TokenID s) \<or> missing (s_FamilyID s)))
             (\<lambda>s. s\<lparr>s_TokenID := Some tokenID, s_FamilyID := Some familyID\<rparr>) t of
        Inl e \<Rightarrow> (Inl e, t) | Inr (n, t') \<Rightarrow> (Inr (), t'))"

definition SessionRepository_MarkReuseDetectedByHash ::
    "session gorm \<Rightarrow> gotime \<Rightarrow> string \<Rightarrow> session list \<Rightarrow> unit result \<times> session list" where
  "SessionRepository_MarkReuseDetectedByHash G now hash t =
     (case gorm_Updates G (\<lambda>s. s_RefreshTokenHash s = hash)
             (\<lambda>s. s\<lparr>s_ReuseDetectedAt := Some now, s_RevokedReason := Some ''reuse_detected''\<rparr>) t of
        Inl e \<Rightarrow> (Inl e, t) | Inr (n, t') \<Rightarrow> (Inr (), t'))"

definition SessionRepository_RevokeByHash ::
    "session gorm \<Rightarrow> gotime \<Rightarrow> string \<Rightarrow> string \<Rightarrow> session list \<Rightarrow> unit result \<times> session list" where
  "SessionRepository_RevokeByHash G now hash reason t =
     (case gorm_Updates G (\<lambda>s. s_RefreshTokenHash s = hash \<and> s_RevokedAt s = None) (revoke now reason) t of
        Inl e \<Rightarrow> (Inl e, t) | Inr (n, t') \<Rightarrow> (Inr (), t'))"

definition SessionRepository_RevokeByIDForUser ::
    "session gorm \<Rightarrow> gotime \<Rightarrow> uint \<Rightarrow> uint \<Rightarrow> string \<Rightarrow> session list \<Rightarrow> bool result \<times> session list" where
  "SessionRepository_RevokeByIDForUser G now userID sessionID reason t =
     (case SessionRepository_FindByIDForUser G userID sessionID t of
        Inl e \<Rightarrow> (Inl e, t)
      | Inr s \<Rightarrow>
          if s_RevokedAt s \<noteq> None then (Inr False, t)
          else (case gorm_Updates G (\<lambda>s. s_UserID s = userID \<and> s_ID s = sessionID \<and> s_RevokedAt s = None)
                       (revoke now reason) t of
                  Inl e \<Rightarrow> (Inl e, t) | Inr (n, t') \<Rightarrow> (Inr (n > 0), t')))"

definition SessionRepository_RevokeOthersByUser ::
    "session gorm \<Rightarrow> gotime \<Rightarrow> uint \<Rightarrow> uint \<Rightarrow> string \<Rightarrow> session list \<Rightarrow> nat result \<times> session list" where
  "SessionRepository_RevokeOthersByUser G now userID keepSessionID reason t =
     (case gorm_Updates G (\<lambda>s. s_UserID s = userID \<and> s_ID s \<noteq> keepSessionID \<and> s_RevokedAt s = None)
             (revoke now reason) t of
        Inl e \<Rightarrow> (Inl e, t) | Inr (n, t') \<Rightarrow> (Inr n, t'))"

definition SessionRepository_RevokeByFamilyID ::
    "session gorm \<Rightarrow> gotime \<Rightarrow> string \<Rightarrow> string \<Rightarrow> session list \<Rightarrow> nat result \<times> session list" where
  "SessionRepository_RevokeByFamilyID G now familyID reason t =
     (case gorm_Updates G (\<lambda>s. s_FamilyID s = Some familyID \<and> s_RevokedAt s = None) (revoke now reason) t of
        Inl e \<Rightarrow> (Inl e, t) | Inr (n, t') \<Rightarrow> (Inr n, t'))"

definition SessionRepository_RevokeByUserID ::
    "session gorm \<Rightarrow> gotime \<Rightarrow> uint \<Rightarrow> string \<Rightarrow> session list \<Rightarrow> unit result \<times> session list" where
  "SessionRepository_RevokeByUserID G now userID reason t =
     (case gorm_Updates G (\<lambda>s. s_UserID s = userID \<and> s_RevokedAt s = None) (revoke now reason) t of
        Inl e \<Rightarrow> (Inl e, t) | Inr (n, t') \<Rightarrow> (Inr (), t'))"

definition SessionRepository_CleanupExpired ::
    "session gorm \<Rightarrow> gotime \<Rightarrow> session list \<Rightarrow> nat result \<times> session list" where
  "SessionRepository_CleanupExpired G now t =
     (case gorm_Delete G (\<lambda>s. s_ExpiresAt s \<le> now) t of
        Inl e \<Rightarrow> (Inl e, t) | Inr (n, t') \<Rightarrow> (Inr n, t'))"

lemmas session_repo_defs [db_simps] =
  SessionRepository_Create_def SessionRepository_FindByHash_def
  SessionRepository_FindActiveByTokenIDForUser_def SessionRepository_FindByIDForUser_def
  SessionRepository_ListActiveByUserID_def SessionRepository_RotateSession_def
  SessionRepository_UpdateTokenLineageByHash_def SessionRepository_MarkReuseDetectedByHash_def
  SessionRepository_RevokeByHash_def SessionRepository_RevokeByIDForUser_def
  SessionRepository_RevokeOthersByUser_def SessionRepository_RevokeByFamilyID_def
  SessionRepository_RevokeByUserID_def SessionRepository_CleanupExpired_def

subsection \<open>\<open>SessionService\<close>\<close>

record session_view =
  sv_ID :: uint
  sv_CreatedAt :: gotime
  sv_ExpiresAt :: gotime
  sv_RevokedAt :: "gotime option"
  sv_UserAgent :: string
  sv_IP :: string
  sv_IsCurrent :: bool

definition session_view_of :: "uint \<Rightarrow> session \<Rightarrow> session_view" where
  "session_view_of current s =
     \<lparr>sv_ID = s_ID s, sv_CreatedAt = s_CreatedAt s, sv_ExpiresAt = s_ExpiresAt s,
      sv_RevokedAt = s_RevokedAt s, sv_UserAgent = s_UserAgent s, sv_IP = s_IP s,
      sv_IsCurrent = (s_ID s = current)\<rparr>"

definition SessionService_ListActiveSessions ::
    "session gorm \<Rightarrow> gotime \<Rightarrow> uint \<Rightarrow> uint \<Rightarrow> session list \<Rightarrow> session_view list result" where
  "SessionService_ListActiveSessions G now userID currentSessionID t =
     (case SessionRepository_ListActiveByUserID G now userID t of
        Inl e \<Rightarrow> Inl e
      | Inr sessions \<Rightarrow> Inr (map (session_view_of currentSessionID) sessions))"

definition SessionService_ResolveCurrentSessionID ::
    "session gorm \<Rightarrow> (string \<Rightarrow> string) \<Rightarrow> string \<Rightarrow> clock \<Rightarrow> request \<Rightarrow> claims option \<Rightarrow> uint \<Rightarrow> session list
     \<Rightarrow> uint result" where
  "SessionService_ResolveCurrentSessionID G sha256 pepper clk r claims userID t =
     (let by_cookie =
        (let refreshToken = GetCookie r ''refresh_token'' in
         if refreshToken = [] then Inl ErrSessionNotFound
         else (case SessionRepository_FindByHash G (HashRefreshToken sha256 refreshToken pepper) t of
                 Inl e \<Rightarrow> Inl e
               | Inr s \<Rightarrow> if s_UserID s \<noteq> userID \<or> s_RevokedAt s \<noteq> None \<or> s_ExpiresAt s < clk 1
                          then Inl ErrSessionNotFound else Inr (s_ID s)))
      in case claims of
           None \<Rightarrow> by_cookie
         | Some c \<Rightarrow>
             if cl_ID c = [] then by_cookie
             else (case SessionRepository_FindActiveByTokenIDForUser G (clk 0) userID (cl_ID c) t of
                     Inr s \<Rightarrow> Inr (s_ID s)
                   | Inl e \<Rightarrow> if e \<noteq> ErrSessionNotFound then Inl e else by_cookie))"

definition SessionService_RevokeSession ::
    "session gorm \<Rightarrow> gotime \<Rightarrow> uint \<Rightarrow> uint \<Rightarrow> session list \<Rightarrow> string result \<times> session list" where
  "SessionService_RevokeSession G now userID sessionID t =
     (case SessionRepository_RevokeByIDForUser G now userID sessionID ''user_session_revoked'' t of
        (Inl e, t') \<Rightarrow> (Inl e, t')
      | (Inr changed, t') \<Rightarrow> (Inr (if changed then ''revoked'' else ''already_revoked''), t'))"

definition SessionService_RevokeOtherSessions ::
    "session gorm \<Rightarrow> gotime \<Rightarrow> uint \<Rightarrow> uint \<Rightarrow> session list \<Rightarrow> nat result \<times> session list" where
  "SessionService_RevokeOtherSessions G now userID currentSessionID t =
     SessionRepository_RevokeOthersByUser G now userID currentSessionID ''user_revoke_others'' t"

subsection \<open>What each write does to the table\<close>

lemma revoke_simps [simp]:
  "s_ID (revoke now reason s) = s_ID s" "s_UserID (revoke now reason s) = s_UserID s"
  "s_RefreshTokenHash (revoke now reason s) = s_RefreshTokenHash s"
  "s_TokenID (revoke now reason s) = s_TokenID s" "s_FamilyID (revoke now reason s) = s_FamilyID s"
  "s_ExpiresAt (revoke now reason s) = s_ExpiresAt s"
  "s_ParentTokenID (revoke now reason s) = s_ParentTokenID s"
  "s_RevokedAt (revoke now reason s) = Some now" "s_RevokedReason (revoke now reason s) = Some reason"
  by (simp_all add: revoke_def)

lemma stamp_session_simps [simp]:
  "s_ID (stamp_session i c s) = i" "s_UserID (stamp_session i c s) = s_UserID s"
  "s_RefreshTokenHash (stamp_session i c s) = s_RefreshTokenHash s"
  "s_TokenID (stamp_session i c s) = s_TokenID s" "s_FamilyID (stamp_session i c s) = s_FamilyID s"
  "s_ParentTokenID (stamp_session i c s) = s_ParentTokenID s"
  "s_RevokedAt (stamp_session i c s) = s_RevokedAt s" "s_ExpiresAt (stamp_session i c s) = s_ExpiresAt s"
  by (simp_all add: stamp_session_def)

text \<open>
  \<open>upd_outcome p f t out\<close>: a write with the clause \<open>p\<close> and the columns \<open>f\<close> either failed and changed
  nothing, or succeeded and did exactly that.
\<close>

definition upd_outcome :: "('r \<Rightarrow> bool) \<Rightarrow> ('r \<Rightarrow> 'r) \<Rightarrow> 'r list \<Rightarrow> 'a result \<times> 'r list \<Rightarrow> bool" where
  "upd_outcome p f t out \<longleftrightarrow>
     (case out of (Inl e, t') \<Rightarrow> t' = t | (Inr a, t') \<Rightarrow> t' = upd_where p f t)"

lemma upd_outcome_cases:
  assumes "upd_outcome p f t (res, t')"
  obtains (failed) e where "res = Inl e" "t' = t" | (ok) a where "res = Inr a" "t' = upd_where p f t"
  using assms by (cases res) (auto simp: upd_outcome_def)

named_theorems session_outcomes "the effect of the updates of the session repository"

context gorm_table
begin

lemma updates_outcome:
  "upd_outcome p f t (case gorm_Updates G p f t of Inl e \<Rightarrow> (Inl e, t) | Inr (n, t') \<Rightarrow> (Inr (g n), t'))"
  by (auto simp: upd_outcome_def dest: updates_rows split: sum.splits prod.splits)

end

lemmas session_updates_outcome = gorm_table.updates_outcome [where pk = s_ID and stamp = stamp_session
    and clash = clash_session]

lemma UpdateTokenLineageByHash_outcome [session_outcomes]:
  "session_table G \<Longrightarrow> upd_outcome
     (\<lambda>s. s_RefreshTokenHash s = hash \<and> (missing (s_TokenID s) \<or> missing (s_FamilyID s)))
     (\<lambda>s. s\<lparr>s_TokenID := Some tokenID, s_FamilyID := Some familyID\<rparr>) t
     (SessionRepository_UpdateTokenLineageByHash G hash tokenID familyID t)"
  unfolding SessionRepository_UpdateTokenLineageByHash_def by (rule session_updates_outcome)

lemma MarkReuseDetectedByHash_outcome [session_outcomes]:
  "session_table G \<Longrightarrow> upd_outcome (\<lambda>s. s_RefreshTokenHash s = hash)
     (\<lambda>s. s\<lparr>s_ReuseDetectedAt := Some now, s_RevokedReason := Some ''reuse_detected''\<rparr>) t
     (SessionRepository_MarkReuseDetectedByHash G now hash t)"
  unfolding SessionRepository_MarkReuseDetectedByHash_def by (rule session_updates_outcome)

lemma RevokeByHash_outcome [session_outcomes]:
  "session_table G \<Longrightarrow> upd_outcome (\<lambda>s. s_RefreshTokenHash s = hash \<and> s_RevokedAt s = None)
     (revoke now reason) t (SessionRepository_RevokeByHash G now hash reason t)"
  unfolding SessionRepository_RevokeByHash_def by (rule session_updates_outcome)

lemma RevokeOthersByUser_outcome [session_outcomes]:
  "session_table G \<Longrightarrow> upd_outcome
     (\<lambda>s. s_UserID s = userID \<and> s_ID s \<noteq> keep \<and> s_RevokedAt s = None)
     (revoke now reason) t (SessionRepository_RevokeOthersByUser G now userID keep reason t)"
  unfolding SessionRepository_RevokeOthersByUser_def by (rule session_updates_outcome)

lemma RevokeByFamilyID_outcome [session_outcomes]:
  "session_table G \<Longrightarrow> upd_outcome (\<lambda>s. s_FamilyID s = Some familyID \<and> s_RevokedAt s = None)
     (revoke now reason) t (SessionRepository_RevokeByFamilyID G now familyID reason t)"
  unfolding SessionRepository_RevokeByFamilyID_def by (rule session_updates_outcome)

lemma RevokeByUserID_outcome [session_outcomes]:
  "session_table G \<Longrightarrow> upd_outcome (\<lambda>s. s_UserID s = userID \<and> s_RevokedAt s = None)
     (revoke now reason) t (SessionRepository_RevokeByUserID G now userID reason t)"
  unfolding SessionRepository_RevokeByUserID_def by (rule session_updates_outcome)

lemma RevokeByIDForUser_rows:
  assumes "session_table G" "SessionRepository_RevokeByIDForUser G now userID sessionID reason t = (res, t')"
  shows "t' = t \<or> t' = upd_where (\<lambda>s. s_UserID s = userID \<and> s_ID s = sessionID \<and> s_RevokedAt s = None)
                       (revoke now reason) t"
  using assms(2) gorm_table.updates_rows [OF assms(1)]
  by (auto simp: SessionRepository_RevokeByIDForUser_def split: sum.splits prod.splits if_splits)

lemma RotateSession_success:
  assumes "session_table G" "SessionRepository_RotateSession G clk h new t = (Inr s, t')"
  obtains s0 i c where "s0 \<in> set t" "s_RefreshTokenHash s0 = h" "live s0" "clk 0 < s_ExpiresAt s0"
    "s = revoke (clk 1) ''rotated'' s0"
    "t' = upd_where (\<lambda>r. s_ID r = s_ID s0) (revoke (clk 1) ''rotated'') t @ [stamp_session i c new]"
    "i \<notin> s_ID ` set t"
proof -
  obtain s0 n t1 s' where
    first: "gorm_First G (\<lambda>s. s_RefreshTokenHash s = h \<and> s_RevokedAt s = None \<and> s_ExpiresAt s > clk 0) t = Inr s0"
    and upd: "gorm_Updates G (\<lambda>r. s_ID r = s_ID s0) (revoke (clk 1) ''rotated'') t = Inr (n, t1)"
    and create: "gorm_Create G new t1 = Inr (s', t')" and s: "s = revoke (clk 1) ''rotated'' s0"
    using assms(2) by (auto simp: SessionRepository_RotateSession_def split: sum.splits prod.splits)
  have t1: "t1 = upd_where (\<lambda>r. s_ID r = s_ID s0) (revoke (clk 1) ''rotated'') t"
    using gorm_table.updates_rows [OF assms(1) upd] by simp
  then have keys: "s_ID ` set t1 = s_ID ` set t"
    by (metis (no_types, lifting) list.set_map map_upd_where revoke_simps(1))
  from gorm_table.create_row [OF assms(1) create] obtain i c where
    "s' = stamp_session i c new" "i \<notin> s_ID ` set t1" "t' = t1 @ [s']" by blast
  with gorm_table.first_found [OF assms(1) first] s t1 keys that show thesis by metis
qed

subsection \<open>Every write of the repository\<close>

text \<open>
  \<open>session_step G\<close> has one rule per writing operation, whatever the operation answers.
\<close>

inductive session_step :: "session gorm \<Rightarrow> session list \<Rightarrow> session list \<Rightarrow> bool" for G where
  Create: "SessionRepository_Create G s t = (res, t') \<Longrightarrow> session_step G t t'"
| Rotate: "SessionRepository_RotateSession G clk h s t = (res, t') \<Longrightarrow> session_step G t t'"
| Lineage: "SessionRepository_UpdateTokenLineageByHash G h tid fid t = (res, t') \<Longrightarrow> session_step G t t'"
| Mark: "SessionRepository_MarkReuseDetectedByHash G now h t = (res, t') \<Longrightarrow> session_step G t t'"
| RevokeHash: "SessionRepository_RevokeByHash G now h reason t = (res, t') \<Longrightarrow> session_step G t t'"
| RevokeID: "SessionRepository_RevokeByIDForUser G now uid sid reason t = (resb, t') \<Longrightarrow> session_step G t t'"
| RevokeOthers: "SessionRepository_RevokeOthersByUser G now uid sid reason t = (resn, t') \<Longrightarrow> session_step G t t'"
| RevokeFamily: "SessionRepository_RevokeByFamilyID G now fid reason t = (resn, t') \<Longrightarrow> session_step G t t'"
| RevokeUser: "SessionRepository_RevokeByUserID G now uid reason t = (res, t') \<Longrightarrow> session_step G t t'"
| Cleanup: "SessionRepository_CleanupExpired G now t = (resn, t') \<Longrightarrow> session_step G t t'"

definition sessions_wf :: "session list \<Rightarrow> bool" where
  "sessions_wf t \<longleftrightarrow> distinct (map s_ID t) \<and> unique_rows clash_session t"

text \<open>
  What all of them are made of: an update that keeps the identity of a row and never lifts a
  revocation, an insertion under a new key, a deletion.
\<close>

definition benign :: "(session \<Rightarrow> session) \<Rightarrow> bool" where
  "benign f \<longleftrightarrow> (\<forall>s. s_ID (f s) = s_ID s \<and> s_UserID (f s) = s_UserID s
     \<and> s_RefreshTokenHash (f s) = s_RefreshTokenHash s \<and> s_ExpiresAt (f s) = s_ExpiresAt s
     \<and> (\<not> live s \<longrightarrow> \<not> live (f s)))"

inductive session_change :: "session list \<Rightarrow> session list \<Rightarrow> bool" where
  upd: "benign f \<Longrightarrow> (unique_rows clash_session t \<Longrightarrow> unique_rows clash_session (upd_where p f t)) \<Longrightarrow>
        session_change t (upd_where p f t)"
| ins: "i \<notin> s_ID ` set t \<Longrightarrow>
        (unique_rows clash_session t \<Longrightarrow> unique_rows clash_session (t @ [stamp_session i c s])) \<Longrightarrow>
        session_change t (t @ [stamp_session i c s])"
| del: "session_change t (filter p t)"

lemma benign_revoke [simp]: "benign (revoke now reason)"
  by (simp add: benign_def)

lemma benign_lineage [simp]: "benign (\<lambda>s. s\<lparr>s_TokenID := a, s_FamilyID := b\<rparr>)"
  by (simp add: benign_def)

lemma benign_mark [simp]: "benign (\<lambda>s. s\<lparr>s_ReuseDetectedAt := a, s_RevokedReason := b\<rparr>)"
  by (simp add: benign_def)

lemma session_change_refl: "session_change t t"
  using session_change.del [of t "\<lambda>_. True"] by simp

lemma Updates_change:
  assumes "session_table G" "gorm_Updates G p f t = Inr (n, t')" "benign f"
  shows "session_change t t'"
  using gorm_table.updates_rows [OF assms(1,2)] gorm_table.updates_unique [OF assms(1,2)] assms(3)
  by (auto intro: session_change.upd)

lemma Create_change:
  assumes "session_table G" "gorm_Create G s t = Inr (s', t')"
  shows "session_change t t'"
  using gorm_table.create_row [OF assms] gorm_table.create_unique [OF assms]
  by (auto intro: session_change.ins)

lemma Delete_change:
  assumes "session_table G" "gorm_Delete G p t = Inr (n, t')"
  shows "session_change t t'"
  using gorm_table.delete_rows [OF assms] by (auto intro: session_change.del)

lemma session_step_effect:
  assumes G: "session_table G" and "session_step G t t'"
  shows "session_change t t' \<or>
         (\<exists>clk h new s. SessionRepository_RotateSession G clk h new t = (Inr s, t'))"
  using assms(2)
proof cases
  case (Rotate clk h s res)
  then have "t' = t" if "res = Inl e" for e
    using that by (auto simp: SessionRepository_RotateSession_def split: sum.splits prod.splits)
  with Rotate show ?thesis by (cases res) (use session_change_refl in blast)+
qed (auto simp: session_repo_defs session_change_refl split: sum.splits prod.splits if_splits
    dest!: Updates_change [OF G] Create_change [OF G] Delete_change [OF G])

lemma session_step_changes:
  assumes G: "session_table G" and "session_step G t t'"
  shows "session_change\<^sup>*\<^sup>* t t'"
  using assms(2)
proof cases
  case (Rotate clk h s res)
  then show ?thesis
    by (auto simp: SessionRepository_RotateSession_def split: sum.splits prod.splits
        dest!: Updates_change [OF G] Create_change [OF G])
qed (auto simp: session_repo_defs split: sum.splits prod.splits if_splits
    dest!: Updates_change [OF G] Create_change [OF G] Delete_change [OF G] intro: r_into_rtranclp)

lemma session_change_wf:
  "session_change t t' \<Longrightarrow> sessions_wf t \<Longrightarrow> sessions_wf t'"
  by (induction rule: session_change.induct)
    (auto simp: sessions_wf_def map_upd_where benign_def distinct_map_filter unique_rows_filter)

lemma session_changes_wf:
  "session_change\<^sup>*\<^sup>* t t' \<Longrightarrow> sessions_wf t \<Longrightarrow> sessions_wf t'"
  by (induction rule: rtranclp_induct) (auto intro: session_change_wf)

text \<open>
  Whatever writes the repository performs, in any order and whether they succeed or fail, the
  primary keys of the sessions stay distinct and no two rows share a refresh token hash or a
  token id.
\<close>

theorem session_steps_wf:
  assumes "session_table G" "(session_step G)\<^sup>*\<^sup>* t t'" "sessions_wf t"
  shows "sessions_wf t'"
  using assms(2,3)
  by (induction rule: rtranclp_induct) (auto intro: session_changes_wf session_step_changes [OF assms(1)])

definition session_of :: "uint \<Rightarrow> uint \<Rightarrow> string \<Rightarrow> string \<Rightarrow> string \<Rightarrow> gotime option \<Rightarrow> session" where
  "session_of i uid h tid fid rvk =
     \<lparr>s_ID = i, s_UserID = uid, s_RefreshTokenHash = h, s_TokenID = Some tid, s_FamilyID = Some fid,
      s_ParentTokenID = None, s_UserAgent = [], s_IP = [], s_ExpiresAt = 100, s_RevokedAt = rvk,
      s_RevokedReason = None, s_ReuseDetectedAt = None, s_CreatedAt = 0\<rparr>"

lemma session_of_simps [simp]:
  "s_ID (session_of i uid h tid fid rvk) = i" "s_UserID (session_of i uid h tid fid rvk) = uid"
  "s_RefreshTokenHash (session_of i uid h tid fid rvk) = h"
  "s_TokenID (session_of i uid h tid fid rvk) = Some tid"
  "s_FamilyID (session_of i uid h tid fid rvk) = Some fid"
  "s_RevokedAt (session_of i uid h tid fid rvk) = rvk"
  "s_ExpiresAt (session_of i uid h tid fid rvk) = 100"
  by (simp_all add: session_of_def)

theorem session_steps_wf_witness:
  "sessions_wf (snd (SessionRepository_RevokeByUserID (mem_sessions 0) 5 7 ''logout''
     [session_of 1 7 ''h1'' ''t1'' ''f1'' None, session_of 2 7 ''h2'' ''t2'' ''f2'' None]))"
proof (rule session_steps_wf [OF mem_sessions_table.gorm_table_axioms])
  show "(session_step (mem_sessions 0))\<^sup>*\<^sup>*
     [session_of 1 7 ''h1'' ''t1'' ''f1'' None, session_of 2 7 ''h2'' ''t2'' ''f2'' None]
     (snd (SessionRepository_RevokeByUserID (mem_sessions 0) 5 7 ''logout''
     [session_of 1 7 ''h1'' ''t1'' ''f1'' None, session_of 2 7 ''h2'' ''t2'' ''f2'' None]))"
    by (rule r_into_rtranclp, rule session_step.RevokeUser) (rule prod.collapse [symmetric])
  show "sessions_wf [session_of 1 7 ''h1'' ''t1'' ''f1'' None, session_of 2 7 ''h2'' ''t2'' ''f2'' None]"
    by (simp add: sessions_wf_def unique_rows_def clash_session_def)
qed

definition row_kept :: "session \<Rightarrow> session \<Rightarrow> bool" where
  "row_kept s s' \<longleftrightarrow> s_UserID s' = s_UserID s \<and> s_RefreshTokenHash s' = s_RefreshTokenHash s
     \<and> s_ExpiresAt s' = s_ExpiresAt s \<and> (\<not> live s \<longrightarrow> \<not> live s')"

definition rows_kept :: "session list \<Rightarrow> session list \<Rightarrow> bool" where
  "rows_kept t t' \<longleftrightarrow> (\<forall>s \<in> set t. \<forall>s' \<in> set t'. s_ID s' = s_ID s \<longrightarrow> row_kept s s')"

lemma distinct_ids_eq:
  fixes t :: "session list"
  shows "distinct (map s_ID t) \<Longrightarrow> a \<in> set t \<Longrightarrow> b \<in> set t \<Longrightarrow> s_ID a = s_ID b \<Longrightarrow> a = b"
  by (auto simp: distinct_map dest: inj_onD)

lemma rows_kept_upd:
  assumes "benign f" "distinct (map s_ID t)"
  shows "rows_kept t (upd_where p f t)"
  unfolding rows_kept_def
proof (intro ballI impI)
  fix s s' assume "s \<in> set t" "s' \<in> set (upd_where p f t)" "s_ID s' = s_ID s"
  from this(2) show "row_kept s s'"
  proof (cases rule: in_upd_where_cases)
    case (updated r0)
    with assms \<open>s \<in> set t\<close> \<open>s_ID s' = s_ID s\<close> have "r0 = s"
      by (metis benign_def distinct_ids_eq)
    with updated assms(1) show ?thesis by (simp add: row_kept_def benign_def)
  next
    case kept
    with assms \<open>s \<in> set t\<close> \<open>s_ID s' = s_ID s\<close> have "s' = s"
      by (metis distinct_ids_eq)
    then show ?thesis by (simp add: row_kept_def)
  qed
qed

lemma rows_kept_refl: "distinct (map s_ID t) \<Longrightarrow> rows_kept t t"
  using rows_kept_upd [of id t "\<lambda>_. False"] by (simp add: benign_def upd_where_id)

lemma rows_kept_ins: "rows_kept t t' \<Longrightarrow> i \<notin> s_ID ` set t \<Longrightarrow> rows_kept t (t' @ [stamp_session i c s])"
  by (auto simp: rows_kept_def)

lemma session_change_kept:
  "session_change t t' \<Longrightarrow> distinct (map s_ID t) \<Longrightarrow> rows_kept t t'"
proof (induction rule: session_change.induct)
  case (upd f t p)
  then show ?case by (simp add: rows_kept_upd)
next
  case (ins i t c s)
  then show ?case by (simp add: rows_kept_ins rows_kept_refl)
next
  case (del t p)
  then show ?case using rows_kept_refl [of t] by (auto simp: rows_kept_def)
qed

text \<open>
  C5: A revocation is permanent and a session never changes hands: across any write of the
  repository a row that is still there has the same user, the same refresh token hash and the
  same expiry, and it is not live again if it was revoked.
\<close>

theorem revocation_is_permanent:
  assumes G: "session_table G" and "session_step G t t'" and "sessions_wf t"
    and "s \<in> set t" "s' \<in> set t'" "s_ID s' = s_ID s"
  shows "row_kept s s'"
proof -
  have ids: "distinct (map s_ID t)" using assms(3) by (simp add: sessions_wf_def)
  from session_step_effect [OF G assms(2)] have "rows_kept t t'"
  proof (elim disjE)
    assume "session_change t t'"
    then show ?thesis using ids by (rule session_change_kept)
  next
    assume "\<exists>clk h new s. SessionRepository_RotateSession G clk h new t = (Inr s, t')"
    then obtain clk h new r where "SessionRepository_RotateSession G clk h new t = (Inr r, t')"
      by blast
    then obtain s0 :: session and i c where
      "t' = upd_where (\<lambda>r. s_ID r = s_ID s0) (revoke (clk 1) ''rotated'') t @ [stamp_session i c new]"
      "i \<notin> s_ID ` set t"
      by (rule RotateSession_success [OF G])
    then show ?thesis using ids by (simp add: rows_kept_ins rows_kept_upd)
  qed
  with assms(4-6) show ?thesis by (simp add: rows_kept_def)
qed

theorem revocation_is_permanent_witness:
  "row_kept (session_of 1 7 ''h1'' ''t1'' ''f1'' (Some 3))
     (session_of 1 7 ''h1'' ''t1'' ''f1'' (Some 3))"
proof (rule revocation_is_permanent [OF mem_sessions_table.gorm_table_axioms [of 0]])
  let ?t = "[session_of 1 7 ''h1'' ''t1'' ''f1'' (Some 3), session_of 2 7 ''h2'' ''t2'' ''f2'' None]"
  show "session_step (mem_sessions 0) ?t (snd (SessionRepository_RevokeByUserID (mem_sessions 0) 5 7 ''logout'' ?t))"
    by (rule session_step.RevokeUser) (rule prod.collapse [symmetric])
  show "sessions_wf ?t" by (simp add: sessions_wf_def unique_rows_def clash_session_def)
  show "session_of 1 7 ''h1'' ''t1'' ''f1'' (Some 3)
      \<in> set (snd (SessionRepository_RevokeByUserID (mem_sessions 0) 5 7 ''logout'' ?t))"
    by (simp add: db_simps mem_table_defs clash_session_def)
qed simp_all

subsection \<open>Rotation, bulk revocation and the current session\<close>

lemma session_hash_unique:
  "sessions_wf t \<Longrightarrow> a \<in> set t \<Longrightarrow> b \<in> set t \<Longrightarrow> s_RefreshTokenHash a = s_RefreshTokenHash b \<Longrightarrow> a = b"
  by (rule unique_rows_eq [of clash_session t]) (simp_all add: sessions_wf_def clash_session_def, metis)

lemma RotateSession_error_keeps:
  "SessionRepository_RotateSession G clk h new t = (Inl e, t') \<Longrightarrow> t' = t"
  by (auto simp: SessionRepository_RotateSession_def split: sum.splits prod.splits)

lemma RotateSession_needs_live:
  assumes "session_table G" "\<And>s. s \<in> set t \<Longrightarrow> s_RefreshTokenHash s = h \<Longrightarrow> \<not> live s"
  shows "\<exists>e. SessionRepository_RotateSession G clk h new t = (Inl e, t)"
proof (cases "gorm_First G (\<lambda>s. s_RefreshTokenHash s = h \<and> live s \<and> s_ExpiresAt s > clk 0) t")
  case (Inl e)
  then show ?thesis by (simp add: SessionRepository_RotateSession_def)
next
  case (Inr r)
  with gorm_table.first_found [OF assms(1) Inr] assms(2) show ?thesis by blast
qed

lemma RotateSession_wf:
  assumes "session_table G" "sessions_wf t" "SessionRepository_RotateSession G clk h new t = (res, t')"
  shows "sessions_wf t'"
  using session_changes_wf [OF session_step_changes [OF assms(1) session_step.Rotate [OF assms(3)]] assms(2)] .

lemma RotateSession_revokes:
  assumes "session_table G" "sessions_wf t" "SessionRepository_RotateSession G clk h new t = (Inr s, t')"
    "r \<in> set t'" "s_RefreshTokenHash r = h"
  shows "\<not> live r"
proof -
  obtain s0 :: session and i c where s0: "s0 \<in> set t" "s_RefreshTokenHash s0 = h"
    and t': "t' = upd_where (\<lambda>r. s_ID r = s_ID s0) (revoke (clk 1) ''rotated'') t @ [stamp_session i c new]"
    by (rule RotateSession_success [OF assms(1,3)])
  have "revoke (clk 1) ''rotated'' s0 \<in> set t'"
    using s0(1) by (auto simp: t' set_upd_where)
  with s0(2) assms(4,5) have "r = revoke (clk 1) ''rotated'' s0"
    by (intro session_hash_unique [OF RotateSession_wf [OF assms(1-3)]]) auto
  then show ?thesis by simp
qed

text \<open>
  A refresh token rotates at most once.  A rotation that reports an error leaves the table as
  it was; one that succeeds found a live, unexpired session under the old hash, revokes exactly
  that row and inserts the new session under a new key; and from then on a rotation of the old
  hash fails and changes nothing, at whatever time it is tried.
\<close>

theorem RotateSession_once:
  assumes "session_table G" "sessions_wf t"
    and "SessionRepository_RotateSession G clk h new t = (Inr s, t')"
  shows "(\<exists>s0 i c. s0 \<in> set t \<and> s_RefreshTokenHash s0 = h \<and> live s0 \<and> clk 0 < s_ExpiresAt s0
            \<and> s = revoke (clk 1) ''rotated'' s0 \<and> i \<notin> s_ID ` set t
            \<and> t' = upd_where (\<lambda>r. s_ID r = s_ID s0) (revoke (clk 1) ''rotated'') t
                   @ [stamp_session i c new])
       \<and> (\<exists>e. SessionRepository_RotateSession G clk' h new' t' = (Inl e, t'))"
proof (intro conjI)
  show "\<exists>e. SessionRepository_RotateSession G clk' h new' t' = (Inl e, t')"
    using RotateSession_revokes [OF assms] by (rule RotateSession_needs_live [OF assms(1)])
qed (rule RotateSession_success [OF assms(1,3)], blast)

theorem RotateSession_once_witness:
  "\<exists>e. SessionRepository_RotateSession (mem_sessions 0) (\<lambda>_. 20) ''h1''
         (session_of 0 7 ''h3'' ''t3'' ''f1'' None)
         [revoke 10 ''rotated'' (session_of 1 7 ''h1'' ''t1'' ''f1'' None),
          stamp_session 2 0 (session_of 0 7 ''h2'' ''t2'' ''f1'' None)]
       = (Inl e, [revoke 10 ''rotated'' (session_of 1 7 ''h1'' ''t1'' ''f1'' None),
                  stamp_session 2 0 (session_of 0 7 ''h2'' ''t2'' ''f1'' None)])"
proof (rule conjunct2 [OF RotateSession_once [OF mem_sessions_table.gorm_table_axioms [of 0]]])
  show "sessions_wf [session_of 1 7 ''h1'' ''t1'' ''f1'' None]"
    by (simp add: sessions_wf_def unique_rows_def)
  show "SessionRepository_RotateSession (mem_sessions 0) (\<lambda>_. 10) ''h1''
          (session_of 0 7 ''h2'' ''t2'' ''f1'' None) [session_of 1 7 ''h1'' ''t1'' ''f1'' None]
      = (Inr (revoke 10 ''rotated'' (session_of 1 7 ''h1'' ''t1'' ''f1'' None)),
         [revoke 10 ''rotated'' (session_of 1 7 ''h1'' ''t1'' ''f1'' None),
          stamp_session 2 0 (session_of 0 7 ''h2'' ''t2'' ''f1'' None)])"
    by (simp add: SessionRepository_RotateSession_def mem_table_defs clash_session_def numeral_2_eq_2 Let_def)
qed

text \<open>
  \<open>RevokeOtherSessions\<close> leaves the user with at most the session that is kept: a session of
  the user that is live afterwards is the kept one, the rows of other users and the kept row are
  unchanged, and the number reported is the number of sessions that were live and no longer are.
\<close>

theorem RevokeOtherSessions_effect:
  assumes "session_table G" "SessionService_RevokeOtherSessions G now userID keep t = (Inr n, t')"
  shows "(\<forall>s. s \<in> set t' \<and> s_UserID s = userID \<and> live s \<longrightarrow> s_ID s = keep \<and> s \<in> set t)
       \<and> filter (\<lambda>s. s_UserID s \<noteq> userID \<or> s_ID s = keep) t'
         = filter (\<lambda>s. s_UserID s \<noteq> userID \<or> s_ID s = keep) t
       \<and> n + length (filter live t') = length (filter live t)"
proof -
  let ?p = "\<lambda>s. s_UserID s = userID \<and> s_ID s \<noteq> keep \<and> live s"
  from assms have t': "t' = upd_where ?p (revoke now ''user_revoke_others'') t"
    and n: "n = length (filter ?p t)"
    by (auto simp: SessionService_RevokeOtherSessions_def SessionRepository_RevokeOthersByUser_def
        split: sum.splits prod.splits dest!: gorm_table.updates_rows [OF assms(1)])
  have "s_ID s = keep \<and> s \<in> set t" if "s \<in> set t'" "s_UserID s = userID" "live s" for s
    using that(1) unfolding t' by (cases rule: in_upd_where_cases) (use that in auto)
  moreover have "filter (\<lambda>s. s_UserID s \<noteq> userID \<or> s_ID s = keep) t'
      = filter (\<lambda>s. s_UserID s \<noteq> userID \<or> s_ID s = keep) t"
    unfolding t' by (induction t) auto
  moreover have "n + length (filter live t') = length (filter live t)"
    unfolding t' n by (induction t) auto
  ultimately show ?thesis by blast
qed

theorem RevokeOtherSessions_effect_witness:
  "(1::nat) + length (filter live (snd (SessionService_RevokeOtherSessions (mem_sessions 0) 5 7 2
       [session_of 1 7 ''h1'' ''t1'' ''f1'' None, session_of 2 7 ''h2'' ''t2'' ''f2'' None])))
   = length (filter live
       [session_of 1 7 ''h1'' ''t1'' ''f1'' None, session_of 2 7 ''h2'' ''t2'' ''f2'' None])"
proof -
  let ?t = "[session_of 1 7 ''h1'' ''t1'' ''f1'' None, session_of 2 7 ''h2'' ''t2'' ''f2'' None]"
  have "SessionService_RevokeOtherSessions (mem_sessions 0) 5 7 2 ?t
      = (Inr 1, snd (SessionService_RevokeOtherSessions (mem_sessions 0) 5 7 2 ?t))"
    by (simp add: SessionService_RevokeOtherSessions_def db_simps mem_table_defs clash_session_def Let_def)
  from RevokeOtherSessions_effect [OF mem_sessions_table.gorm_table_axioms this] show ?thesis by blast
qed

text \<open>
  The current session of a request is never another user's, never a revoked one and never
  one that had expired: an identifier that \<open>ResolveCurrentSessionID\<close> returns is that of a live
  session of that user whose expiry is not before the first reading of the clock, and it was
  found under the token id of the access token or under the hash of the refresh cookie.
\<close>

theorem ResolveCurrentSessionID_sound:
  assumes "session_table G" "mono clk"
    and "SessionService_ResolveCurrentSessionID G sha256 pepper clk r cl userID t = Inr i"
  shows "\<exists>s \<in> set t. s_ID s = i \<and> s_UserID s = userID \<and> live s \<and> clk 0 \<le> s_ExpiresAt s
           \<and> ((\<exists>c. cl = Some c \<and> cl_ID c \<noteq> [] \<and> s_TokenID s = Some (cl_ID c))
              \<or> (GetCookie r ''refresh_token'' \<noteq> []
                 \<and> s_RefreshTokenHash s = HashRefreshToken sha256 (GetCookie r ''refresh_token'') pepper))"
proof -
  have "clk 0 \<le> clk 1" using assms(2) by (simp add: monoD)
  with assms(3) show ?thesis
    by (fastforce simp: SessionService_ResolveCurrentSessionID_def Let_def db_simps
        split: option.splits if_splits sum.splits dest!: gorm_table.first_found [OF assms(1)])
qed

theorem ResolveCurrentSessionID_sound_witness:
  "\<exists>s \<in> set [session_of 1 7 (HashRefreshToken (\<lambda>s. ''x'') ''h1'' []) ''t1'' ''f1'' None].
     s_ID s = 1 \<and> s_UserID s = 7 \<and> live s \<and> 10 \<le> s_ExpiresAt s"
proof -
  let ?r = "\<lparr>rq_Method = ''GET'', rq_Path = ''/'', rq_Headers = [],
             rq_Cookies = [(''refresh_token'', ''h1'')], rq_RemoteAddr = [], rq_TLS = False,
             rq_Body = Inr [], rq_Claims = None, rq_RoutePattern = ''/'', rq_Query = [], rq_Params = []\<rparr>"
  have "SessionService_ResolveCurrentSessionID (mem_sessions 0) (\<lambda>s. ''x'') [] (\<lambda>_. 10) ?r None 7
      [session_of 1 7 (HashRefreshToken (\<lambda>s. ''x'') ''h1'' []) ''t1'' ''f1'' None] = Inr 1"
    by (simp add: SessionService_ResolveCurrentSessionID_def GetCookie_def db_simps mem_table_defs Let_def)
  from ResolveCurrentSessionID_sound [OF mem_sessions_table.gorm_table_axioms _ this]
  show ?thesis by (simp add: mono_def)
qed

end
