(* ===== verification/Token_Service.thy ===== *)
theory Token_Service
  imports Session_Repo
begin

section \<open>Issuing and rotating tokens: \<open>token_service.go\<close>\<close>

text \<open>
  \<open>TokenService\<close> mints an access token and a refresh token that share a token id, stores the hash of
  the refresh token as a session, and exchanges a refresh token for a new pair (\<open>Rotate\<close>), detecting
  the reuse of one that was exchanged before.  The JWT library, the hash function and the randomness are
  arguments (\<open>token_env\<close> groups the random values of one call); the function that fetches the user
  and the permissions is an argument in the source too.
\<close>

record token_service =
  ts_jwtMgr :: jwt_manager
  ts_pepper :: string
  ts_accessTTL :: duration
  ts_refreshTTL :: duration

record token_env =
  te_lib :: jwtlib
  te_sha256 :: "string \<Rightarrow> string"
  te_clk :: clock
  te_uuid :: string
  te_accessUUID :: string
  te_csrf :: "string result"

definition ptr :: "string \<Rightarrow> string option" where
  "ptr v = (if v = [] then None else Some v)"

definition getString :: "string option \<Rightarrow> string" where
  "getString v = (case v of None \<Rightarrow> [] | Some s \<Rightarrow> s)"

definition mintTokenPair ::
    "token_env \<Rightarrow> token_service \<Rightarrow> clock \<Rightarrow> user \<Rightarrow> string list \<Rightarrow> (string \<times> string \<times> claims \<times> string) result" where
  "mintTokenPair E s clk user permissions =
     (case SignRefreshToken (te_lib E) (ts_jwtMgr s) clk (te_uuid E) (u_ID user) (ts_refreshTTL s) of
        Inl e \<Rightarrow> Inl e
      | Inr refresh \<Rightarrow>
          (case ParseRefreshToken (te_lib E) (ts_jwtMgr s) (clk 2) refresh of
             Inl e \<Rightarrow> Inl e
           | Inr refreshClaims \<Rightarrow>
               (case SignAccessTokenWithJTI (te_lib E) (ts_jwtMgr s) (later 3 clk) (te_accessUUID E) (u_ID user)
                       (map r_Name (u_Roles user)) permissions (ts_accessTTL s) (cl_ID refreshClaims) of
                  Inl e \<Rightarrow> Inl e
                | Inr access \<Rightarrow>
                    (case NewCSRFToken (te_csrf E) of
                       Inl e \<Rightarrow> Inl e
                     | Inr csrf \<Rightarrow> Inr (access, refresh, refreshClaims, csrf)))))"

definition new_session ::
    "uint \<Rightarrow> string \<Rightarrow> string option \<Rightarrow> string option \<Rightarrow> string option \<Rightarrow> string \<Rightarrow> string \<Rightarrow> gotime \<Rightarrow> session" where
  "new_session userID hash tokenID familyID parent ua ip expires =
     \<lparr>s_ID = 0, s_UserID = userID, s_RefreshTokenHash = hash, s_TokenID = tokenID, s_FamilyID = familyID,
      s_ParentTokenID = parent, s_UserAgent = ua, s_IP = ip, s_ExpiresAt = expires, s_RevokedAt = None,
      s_RevokedReason = None, s_ReuseDetectedAt = None, s_CreatedAt = 0\<rparr>"

definition TokenService_Issue ::
    "session gorm \<Rightarrow> token_env \<Rightarrow> token_service \<Rightarrow> user \<Rightarrow> string list \<Rightarrow> string \<Rightarrow> string \<Rightarrow> session list
     \<Rightarrow> (string \<times> string \<times> string) result \<times> session list" where
  "TokenService_Issue G E s user permissions ua ip t =
     (case mintTokenPair E s (te_clk E) user permissions of
        Inl e \<Rightarrow> (Inl e, t)
      | Inr (access, refresh, refreshClaims, csrf) \<Rightarrow>
          (let tokenID = cl_ID refreshClaims; familyID = tokenID;
               hash = HashRefreshToken (te_sha256 E) refresh (ts_pepper s)
           in case SessionRepository_Create G
                     (new_session (u_ID user) hash (ptr tokenID) (ptr familyID) None ua ip
                        (te_clk E 5 + ts_refreshTTL s)) t of
                (Inl e, t') \<Rightarrow> (Inl e, t')
              | (Inr _, t') \<Rightarrow> (Inr (access, refresh, csrf), t')))"

text \<open>
  The last part of \<open>Rotate\<close>, once the presented session has been found, its lineage is known and it
  is neither expired nor revoked.
\<close>

definition rotate_live ::
    "session gorm \<Rightarrow> token_env \<Rightarrow> token_service \<Rightarrow> (uint \<Rightarrow> (user \<times> string list) result) \<Rightarrow> string \<Rightarrow> string
     \<Rightarrow> string \<Rightarrow> string \<Rightarrow> string \<Rightarrow> uint \<Rightarrow> session list
     \<Rightarrow> (string \<times> string \<times> string \<times> uint) result \<times> session list" where
  "rotate_live G E s userFetcher ua ip hash tokenID familyID userID t =
     (case userFetcher userID of
        Inl e \<Rightarrow> (Inl e, t)
      | Inr (user, perms) \<Rightarrow>
          (case mintTokenPair E s (later 2 (te_clk E)) user perms of
             Inl e \<Rightarrow> (Inl e, t)
           | Inr (access, newRefresh, newClaims, csrf) \<Rightarrow>
               (let newHash = HashRefreshToken (te_sha256 E) newRefresh (ts_pepper s)
                in case SessionRepository_RotateSession G (later 8 (te_clk E)) hash
                          (new_session userID newHash (ptr (cl_ID newClaims)) (ptr familyID) (ptr tokenID)
                             ua ip (te_clk E 7 + ts_refreshTTL s)) t of
                     (Inl e, t') \<Rightarrow>
                       (Inl (if e = ErrSessionNotFound then ErrInvalidRefreshToken else e), t')
                   | (Inr _, t') \<Rightarrow> (Inr (access, newRefresh, csrf, userID), t'))))"

text \<open>The part of \<open>Rotate\<close> from the check of the token id on.\<close>

definition rotate_checked ::
    "session gorm \<Rightarrow> token_env \<Rightarrow> token_service \<Rightarrow> (uint \<Rightarrow> (user \<times> string list) result) \<Rightarrow> string \<Rightarrow> string
     \<Rightarrow> string \<Rightarrow> claims \<Rightarrow> session \<Rightarrow> string \<Rightarrow> string \<Rightarrow> uint \<Rightarrow> session list
     \<Rightarrow> (string \<times> string \<times> string \<times> uint) result \<times> session list" where
  "rotate_checked G E s userFetcher ua ip hash claims session tokenID familyID userID t =
     (if tokenID \<noteq> [] \<and> cl_ID claims \<noteq> [] \<and> tokenID \<noteq> cl_ID claims then (Inl ErrInvalidRefreshToken, t)
      else if s_ExpiresAt session < te_clk E 1 then (Inl ErrInvalidRefreshToken, t)
      else if s_RevokedAt session \<noteq> None then
        (let reason = getString (s_RevokedReason session)
         in if reason = [] \<or> reason = ''rotated'' \<or> reason = ''reuse_detected'' then
              (let t1 = snd (SessionRepository_MarkReuseDetectedByHash G (te_clk E 2) hash t);
                   t2 = (if familyID \<noteq> []
                         then snd (SessionRepository_RevokeByFamilyID G (te_clk E 3) familyID ''reuse_detected'' t1)
                         else t1)
               in (Inl ErrRefreshTokenReuseDetected, t2))
            else (Inl ErrInvalidRefreshToken, t))
      else rotate_live G E s userFetcher ua ip hash tokenID familyID userID t)"

definition TokenService_Rotate ::
    "session gorm \<Rightarrow> token_env \<Rightarrow> token_service \<Rightarrow> string \<Rightarrow> (uint \<Rightarrow> (user \<times> string list) result) \<Rightarrow> string
     \<Rightarrow> string \<Rightarrow> session list \<Rightarrow> (string \<times> string \<times> string \<times> uint) result \<times> session list" where
  "TokenService_Rotate G E s refreshToken userFetcher ua ip t =
     (case ParseRefreshToken (te_lib E) (ts_jwtMgr s) (te_clk E 0) refreshToken of
        Inl e \<Rightarrow> (Inl ErrInvalidRefreshToken, t)
      | Inr claims \<Rightarrow>
          (let hash = HashRefreshToken (te_sha256 E) refreshToken (ts_pepper s)
           in case SessionRepository_FindByHash G hash t of
                Inl e \<Rightarrow> (Inl (if e = ErrSessionNotFound then ErrInvalidRefreshToken else e), t)
              | Inr session \<Rightarrow>
                  (case ParseUint (cl_Subject claims) of
                     None \<Rightarrow> (Inl ErrInvalidRefreshToken, t)
                   | Some userID \<Rightarrow>
                       if s_UserID session \<noteq> userID then (Inl ErrInvalidRefreshToken, t)
                       else
                         (let tokenID = getString (s_TokenID session);
                              familyID = getString (s_FamilyID session)
                          in if tokenID = [] \<or> familyID = [] then
                               (let fallbackFamilyID =
                                      (if cl_ID claims = [] then ''legacy-session'' else cl_ID claims)
                                in case SessionRepository_UpdateTokenLineageByHash G hash (cl_ID claims)
                                          fallbackFamilyID t of
                                     (Inl e, t1) \<Rightarrow> (Inl e, t1)
                                   | (Inr _, t1) \<Rightarrow>
                                       rotate_checked G E s userFetcher ua ip hash claims
                                         (session\<lparr>s_TokenID := ptr (cl_ID claims),
                                                  s_FamilyID := ptr fallbackFamilyID\<rparr>)
                                         (cl_ID claims) fallbackFamilyID userID t1)
                             else rotate_checked G E s userFetcher ua ip hash claims session tokenID
                                    familyID userID t))))"

definition TokenService_RevokeAll ::
    "session gorm \<Rightarrow> gotime \<Rightarrow> uint \<Rightarrow> string \<Rightarrow> session list \<Rightarrow> unit result \<times> session list" where
  "TokenService_RevokeAll G now userID reason t = SessionRepository_RevokeByUserID G now userID reason t"

subsection \<open>What a successful call has checked and written\<close>

lemma getString_ptr [simp]: "getString (ptr v) = v"
  by (simp add: ptr_def getString_def)

lemma missing_getString: "missing v \<longleftrightarrow> getString v = []"
  by (auto simp: missing_def getString_def split: option.splits)

lemma new_session_simps [simp]:
  "s_UserID (new_session u h tid fid par ua ip ex) = u"
  "s_RefreshTokenHash (new_session u h tid fid par ua ip ex) = h"
  "s_TokenID (new_session u h tid fid par ua ip ex) = tid"
  "s_FamilyID (new_session u h tid fid par ua ip ex) = fid"
  "s_ParentTokenID (new_session u h tid fid par ua ip ex) = par"
  "s_ExpiresAt (new_session u h tid fid par ua ip ex) = ex"
  "s_RevokedAt (new_session u h tid fid par ua ip ex) = None"
  by (simp_all add: new_session_def)

text \<open>
  The table after the lineage of a session written before lineages existed has been filled in; a
  table whose session has its lineage is unchanged.
\<close>

definition backfill :: "string \<Rightarrow> claims \<Rightarrow> session list \<Rightarrow> session list" where
  "backfill hash c t =
     upd_where (\<lambda>s. s_RefreshTokenHash s = hash \<and> (missing (s_TokenID s) \<or> missing (s_FamilyID s)))
       (\<lambda>s. s\<lparr>s_TokenID := Some (cl_ID c),
              s_FamilyID := Some (if cl_ID c = [] then ''legacy-session'' else cl_ID c)\<rparr>) t"

lemma backfill_present:
  assumes "sessions_wf t" "s \<in> set t" "s_RefreshTokenHash s = h"
    "\<not> missing (s_TokenID s)" "\<not> missing (s_FamilyID s)"
  shows "backfill h c t = t"
  unfolding backfill_def
proof (rule upd_where_id)
  fix r assume "r \<in> set t"
  with session_hash_unique [OF assms(1) this assms(2)] assms(3-5)
  show "\<not> (s_RefreshTokenHash r = h \<and> (missing (s_TokenID r) \<or> missing (s_FamilyID r)))" by auto
qed

definition token_hash :: "token_env \<Rightarrow> token_service \<Rightarrow> string \<Rightarrow> string" where
  "token_hash E s token = HashRefreshToken (te_sha256 E) token (ts_pepper s)"

lemma mintTokenPair_claims:
  assumes "jwt_library (te_lib E)" "mintTokenPair E s clk user perms = Inr (access, refresh, c, csrf)"
  shows "c = refresh_claims (te_lib E) (ts_jwtMgr s) clk (te_uuid E) (u_ID user) (ts_refreshTTL s)"
  using assms(2) jwt_library.jwt_parse_payload [OF assms(1)]
  by (auto simp: mintTokenPair_def SignRefreshToken_def ParseRefreshToken_def split: sum.splits)

lemma FindByHash_found:
  assumes "session_table G" "SessionRepository_FindByHash G h t = Inr s"
  shows "s \<in> set t" "s_RefreshTokenHash s = h"
  using assms(2) gorm_table.first_found [OF assms(1)]
  by (auto simp: SessionRepository_FindByHash_def split: sum.splits)

text \<open>The checks of \<open>Rotate\<close> before anything is minted.\<close>

definition may_rotate ::
    "token_env \<Rightarrow> token_service \<Rightarrow> string \<Rightarrow> claims \<Rightarrow> session \<Rightarrow> uint \<Rightarrow> bool" where
  "may_rotate E s token c r userID \<longleftrightarrow>
     ParseRefreshToken (te_lib E) (ts_jwtMgr s) (te_clk E 0) token = Inr c
     \<and> ParseUint (cl_Subject c) = Some userID
     \<and> s_RefreshTokenHash r = token_hash E s token \<and> s_UserID r = userID
     \<and> live r \<and> te_clk E 1 \<le> s_ExpiresAt r
     \<and> getString (s_FamilyID r) \<noteq> [] \<and> (cl_ID c = [] \<or> getString (s_TokenID r) = cl_ID c)"

lemma rotate_checked_success:
  assumes "rotate_checked G E s uf ua ip h c r tid fid uid t = (Inr out, t')"
  shows "rotate_live G E s uf ua ip h tid fid uid t = (Inr out, t')" "live r" "te_clk E 1 \<le> s_ExpiresAt r"
    "tid \<noteq> [] \<Longrightarrow> cl_ID c \<noteq> [] \<Longrightarrow> tid = cl_ID c"
  using assms by (auto simp: rotate_checked_def Let_def split: if_splits)

lemma Rotate_success_live:
  assumes G: "session_table G" and wf: "sessions_wf t"
    and rot: "TokenService_Rotate G E s token uf ua ip t = (Inr out, t')"
  obtains c r uid where "r \<in> set (backfill (token_hash E s token) c t)" "may_rotate E s token c r uid"
    "rotate_live G E s uf ua ip (token_hash E s token) (getString (s_TokenID r)) (getString (s_FamilyID r)) uid
       (backfill (token_hash E s token) c t) = (Inr out, t')"
proof -
  let ?h = "token_hash E s token"
  obtain c where parse: "ParseRefreshToken (te_lib E) (ts_jwtMgr s) (te_clk E 0) token = Inr c"
    using rot by (cases "ParseRefreshToken (te_lib E) (ts_jwtMgr s) (te_clk E 0) token")
      (auto simp: TokenService_Rotate_def)
  obtain r where found: "SessionRepository_FindByHash G ?h t = Inr r"
    using rot parse by (cases "SessionRepository_FindByHash G ?h t")
      (auto simp: TokenService_Rotate_def token_hash_def)
  obtain uid where subj: "ParseUint (cl_Subject c) = Some uid"
    using rot parse found by (cases "ParseUint (cl_Subject c)")
      (auto simp: TokenService_Rotate_def token_hash_def)
  note r = FindByHash_found [OF G found]
  note rot' = rot [unfolded TokenService_Rotate_def Let_def parse sum.case token_hash_def [symmetric]
      found subj option.case]
  have uid: "s_UserID r = uid" using rot' by (auto split: if_splits)
  show thesis
  proof (cases "missing (s_TokenID r) \<or> missing (s_FamilyID r)")
    case False
    then have "rotate_checked G E s uf ua ip ?h c r (getString (s_TokenID r)) (getString (s_FamilyID r)) uid t
        = (Inr out, t')" and bf: "backfill ?h c t = t"
      using rot' uid backfill_present [OF wf r] by (auto simp: missing_getString)
    from rotate_checked_success [OF this(1)] show thesis
      by (intro that [of r c uid]) (use r uid parse subj False in \<open>auto simp: bf may_rotate_def missing_getString\<close>)
  next
    case True
    let ?fid = "if cl_ID c = [] then ''legacy-session'' else cl_ID c"
    obtain t1 where up: "SessionRepository_UpdateTokenLineageByHash G ?h (cl_ID c) ?fid t = (Inr (), t1)"
      and chk: "rotate_checked G E s uf ua ip ?h c (r\<lparr>s_TokenID := ptr (cl_ID c), s_FamilyID := ptr ?fid\<rparr>)
          (cl_ID c) ?fid uid t1 = (Inr out, t')"
      using rot' uid True by (auto simp: missing_getString split: sum.splits prod.splits)
    have t1: "t1 = backfill ?h c t"
      using UpdateTokenLineageByHash_outcome [OF G, where hash = ?h and tokenID = "cl_ID c" and familyID = ?fid and t = t]
      unfolding up upd_outcome_def backfill_def by simp
    let ?r = "r\<lparr>s_TokenID := Some (cl_ID c), s_FamilyID := Some ?fid\<rparr>"
    have "?r \<in> set (backfill ?h c t)" using r True by (auto simp: backfill_def set_upd_where)
    with rotate_checked_success [OF chk] show thesis
      by (intro that [of ?r c uid]) (use r uid parse subj in \<open>auto simp: t1 may_rotate_def getString_def\<close>)
  qed
qed

lemma backfill_ids: "s_ID ` set (backfill h c t) = s_ID ` set t"
  unfolding backfill_def list.set_map [symmetric] by (subst map_upd_where) simp_all

lemma backfill_hash_unique:
  assumes "sessions_wf t" "a \<in> set (backfill h c t)" "b \<in> set (backfill h c t)"
    "s_RefreshTokenHash a = s_RefreshTokenHash b"
  shows "a = b"
proof -
  have "\<exists>a0 \<in> set t. s_RefreshTokenHash a0 = s_RefreshTokenHash a
      \<and> (a = a0 \<and> \<not> (s_RefreshTokenHash a0 = h \<and> (missing (s_TokenID a0) \<or> missing (s_FamilyID a0)))
         \<or> a = a0\<lparr>s_TokenID := Some (cl_ID c),
                 s_FamilyID := Some (if cl_ID c = [] then ''legacy-session'' else cl_ID c)\<rparr>
           \<and> s_RefreshTokenHash a0 = h \<and> (missing (s_TokenID a0) \<or> missing (s_FamilyID a0)))"
    if "a \<in> set (backfill h c t)" for a
    using that unfolding backfill_def by (cases rule: in_upd_where_cases) auto
  from this [OF assms(2)] this [OF assms(3)] assms(4) session_hash_unique [OF assms(1)]
  show ?thesis by metis
qed

lemma rotate_live_success:
  assumes G: "session_table G" and L: "jwt_library (te_lib E)"
    and rot: "rotate_live G E s uf ua ip h tid fid uid t = (Inr (access, refresh, csrf, userID), t')"
  obtains user perms s' where "uf uid = Inr (user, perms)" "userID = uid"
    "SessionRepository_RotateSession G (later 8 (te_clk E)) h
       (new_session uid (token_hash E s refresh) (ptr (te_uuid E)) (ptr fid) (ptr tid) ua ip
          (te_clk E 7 + ts_refreshTTL s)) t = (Inr s', t')"
proof -
  obtain user perms where uf: "uf uid = Inr (user, perms)"
    using rot by (auto simp: rotate_live_def split: sum.splits)
  obtain a r c x where mint: "mintTokenPair E s (later 2 (te_clk E)) user perms = Inr (a, r, c, x)"
    using rot by (auto simp: rotate_live_def uf split: sum.splits)
  have "cl_ID c = te_uuid E"
    using mintTokenPair_claims [OF L mint] by (simp add: refresh_claims_def)
  with rot obtain s' where "userID = uid" "SessionRepository_RotateSession G (later 8 (te_clk E)) h
       (new_session uid (token_hash E s refresh) (ptr (te_uuid E)) (ptr fid) (ptr tid) ua ip
          (te_clk E 7 + ts_refreshTTL s)) t = (Inr s', t')"
    by (auto simp: rotate_live_def uf mint Let_def token_hash_def split: sum.splits prod.splits)
  with uf that show thesis by blast
qed

lemma Rotate_success_rows:
  assumes G: "session_table G" and L: "jwt_library (te_lib E)" and wf: "sessions_wf t"
    and rot: "TokenService_Rotate G E s token uf ua ip t = (Inr (access, refresh, csrf, userID), t')"
  shows "\<exists>c r user perms i d. let t1 = backfill (token_hash E s token) c t in
      r \<in> set t1 \<and> may_rotate E s token c r userID \<and> uf userID = Inr (user, perms)
    \<and> i \<notin> s_ID ` set t
    \<and> t' = upd_where (\<lambda>x. s_ID x = s_ID r) (revoke (te_clk E 9) ''rotated'') t1
           @ [stamp_session i d (new_session userID (token_hash E s refresh) (ptr (te_uuid E))
                (s_FamilyID r) (ptr (getString (s_TokenID r))) ua ip (te_clk E 7 + ts_refreshTTL s))]"
proof -
  let ?h = "token_hash E s token"
  obtain c r uid where r: "r \<in> set (backfill ?h c t)" "may_rotate E s token c r uid"
    and rl: "rotate_live G E s uf ua ip ?h (getString (s_TokenID r)) (getString (s_FamilyID r)) uid
       (backfill ?h c t) = (Inr (access, refresh, csrf, userID), t')"
    by (rule Rotate_success_live [OF G wf rot])
  obtain user perms s' where u: "uf uid = Inr (user, perms)" "userID = uid" and
    rs: "SessionRepository_RotateSession G (later 8 (te_clk E)) ?h
       (new_session uid (token_hash E s refresh) (ptr (te_uuid E)) (ptr (getString (s_FamilyID r)))
          (ptr (getString (s_TokenID r))) ua ip (te_clk E 7 + ts_refreshTTL s)) (backfill ?h c t) = (Inr s', t')"
    by (rule rotate_live_success [OF G L rl])
  have fam: "ptr (getString (s_FamilyID r)) = s_FamilyID r"
    using r(2) by (cases "s_FamilyID r") (auto simp: may_rotate_def getString_def ptr_def)
  obtain s0 :: session and i d where s0: "s0 \<in> set (backfill ?h c t)" "s_RefreshTokenHash s0 = ?h"
    and t': "t' = upd_where (\<lambda>r. s_ID r = s_ID s0) (revoke (later 8 (te_clk E) 1) ''rotated'') (backfill ?h c t)
        @ [stamp_session i d (new_session uid (token_hash E s refresh) (ptr (te_uuid E))
            (ptr (getString (s_FamilyID r))) (ptr (getString (s_TokenID r))) ua ip (te_clk E 7 + ts_refreshTTL s))]"
    and i: "i \<notin> s_ID ` set (backfill ?h c t)"
    by (rule RotateSession_success [OF G rs])
  have "s0 = r"
    using backfill_hash_unique [OF wf s0(1) r(1)] s0(2) r(2) by (simp add: may_rotate_def)
  with t' have "t' = upd_where (\<lambda>x. s_ID x = s_ID r) (revoke (te_clk E 9) ''rotated'') (backfill ?h c t)
        @ [stamp_session i d (new_session uid (token_hash E s refresh) (ptr (te_uuid E))
            (s_FamilyID r) (ptr (getString (s_TokenID r))) ua ip (te_clk E 7 + ts_refreshTTL s))]"
    by (simp add: fam)
  with r u i show ?thesis
    unfolding Let_def by (intro exI [of _ c] exI [of _ r] exI) (auto simp: backfill_ids)
qed

text \<open>
  C3: A refresh token is exchanged only when it is one: the JWT parses as a refresh token, its
  subject is the user of the session stored under its hash, its id is the one of the session, and
  the session is neither revoked nor expired.  The exchange then changes exactly this: that session is
  revoked as rotated, and one live session of the same user and the same family is added under a new
  key, for the hash of the refresh token returned, with the old token as its parent.
\<close>

theorem Rotate_success:
  assumes G: "session_table G" and L: "jwt_library (te_lib E)" and wf: "sessions_wf t"
    and rot: "TokenService_Rotate G E s token uf ua ip t = (Inr (access, refresh, csrf, userID), t')"
  shows "\<exists>c r user perms i d. let t1 = backfill (token_hash E s token) c t in
      r \<in> set t1 \<and> may_rotate E s token c r userID \<and> uf userID = Inr (user, perms)
    \<and> i \<notin> s_ID ` set t
    \<and> t' = upd_where (\<lambda>x. s_ID x = s_ID r) (revoke (te_clk E 9) ''rotated'') t1
           @ [stamp_session i d (new_session userID (token_hash E s refresh) (ptr (te_uuid E))
                (s_FamilyID r) (ptr (getString (s_TokenID r))) ua ip (te_clk E 7 + ts_refreshTTL s))]"
  by (rule Rotate_success_rows [OF assms])

text \<open>A service on the reference engines, with a hash that tells the first token from the others.\<close>

definition demo_ts :: token_service where
  "demo_ts = \<lparr>ts_jwtMgr = demo_manager, ts_pepper = ''p'', ts_accessTTL = seconds 60, ts_refreshTTL = seconds 600\<rparr>"

definition demo_refresh :: "string \<Rightarrow> string" where
  "demo_refresh uuid = (case SignRefreshToken mem_jwt demo_manager (\<lambda>_. 0) uuid 7 (seconds 600) of
     Inl e \<Rightarrow> [] | Inr r \<Rightarrow> r)"

definition demo_env :: "string \<Rightarrow> token_env" where
  "demo_env uuid = \<lparr>te_lib = mem_jwt,
     te_sha256 = (\<lambda>x. if x = demo_refresh ''t1'' @ '':p'' then ''A'' else ''B''),
     te_clk = (\<lambda>_. 0), te_uuid = uuid, te_accessUUID = ''a'', te_csrf = Inr ''r''\<rparr>"

definition demo_user :: user where
  "demo_user = \<lparr>u_ID = 7, u_Email = ''a@b.c'', u_Name = ''a'', u_AvatarURL = [], u_Status = ''active'',
     u_LastLoginAt = 0, u_CreatedAt = 0, u_Roles = []\<rparr>"

lemma demo_sign: "SignRefreshToken mem_jwt demo_manager (\<lambda>_. 0) uuid 7 (seconds 600) = Inr (demo_refresh uuid)"
  by (simp add: demo_refresh_def SignRefreshToken_def mem_jwt_def)

lemma demo_parse:
  "ParseRefreshToken mem_jwt demo_manager 0 (demo_refresh uuid)
     = Inr (refresh_claims mem_jwt demo_manager (\<lambda>_. 0) uuid 7 (seconds 600))"
  by (rule mem_jwt.refresh_roundtrip [OF demo_sign]) simp

lemma demo_refresh_inj:
  assumes "demo_refresh a = demo_refresh b"
  shows "a = b"
proof -
  have "refresh_claims mem_jwt demo_manager (\<lambda>_. 0) a 7 (seconds 600)
      = refresh_claims mem_jwt demo_manager (\<lambda>_. 0) b 7 (seconds 600)"
    using demo_parse [of b] unfolding assms [symmetric] demo_parse by (rule sum.inject(2) [THEN iffD1])
  then have "cl_ID (refresh_claims mem_jwt demo_manager (\<lambda>_. 0) a 7 (seconds 600))
      = cl_ID (refresh_claims mem_jwt demo_manager (\<lambda>_. 0) b 7 (seconds 600))"
    by (rule arg_cong)
  then show ?thesis unfolding refresh_claims_def claims.simps .
qed

lemma demo_hash:
  "token_hash (demo_env u) demo_ts (demo_refresh uuid) = (if uuid = ''t1'' then ''41'' else ''42'')"
  using demo_refresh_inj [of uuid "''t1''"]
  by (auto simp: token_hash_def demo_env_def demo_ts_def HashRefreshToken_def hexEncode_def hex_digit_def
      char_of_eq_iff take_bit_nat_def)

lemma demo_mint:
  "\<exists>access csrf. mintTokenPair (demo_env uuid) demo_ts (\<lambda>_. 0) demo_user perms
     = Inr (access, demo_refresh uuid,
            refresh_claims mem_jwt demo_manager (\<lambda>_. 0) uuid 7 (seconds 600), csrf)"
proof -
  obtain access where "SignAccessTokenWithJTI mem_jwt demo_manager (\<lambda>_. 0) ''a'' 7 [] perms (seconds 60) uuid
      = Inr access"
    by (simp add: SignAccessTokenWithJTI_def mem_jwt_def Let_def)
  moreover have "cl_ID (refresh_claims mem_jwt demo_manager (\<lambda>_. 0) uuid 7 (seconds 600)) = uuid"
    by (simp add: refresh_claims_def)
  ultimately show ?thesis
    by (simp add: mintTokenPair_def demo_env_def demo_ts_def demo_user_def demo_sign [simplified]
        demo_parse [simplified] NewCSRFToken_def NewRandomString_def later_def)
qed

lemma demo_rotate:
  "\<exists>access csrf. TokenService_Rotate (mem_sessions 0) (demo_env ''t2'') demo_ts (demo_refresh ''t1'')
       (\<lambda>_. Inr (demo_user, [])) ''ua'' ''ip'' [session_of 5 7 ''41'' ''t1'' ''f1'' None]
     = (Inr (access, demo_refresh ''t2'', csrf, 7),
        [revoke 0 ''rotated'' (session_of 5 7 ''41'' ''t1'' ''f1'' None),
         stamp_session 6 0 (new_session 7 ''42'' (Some ''t2'') (Some ''f1'') (Some ''t1'') ''ua'' ''ip''
           (seconds 600))])"
proof -
  obtain access csrf where mint: "mintTokenPair (demo_env ''t2'') demo_ts (\<lambda>_. 0) demo_user []
     = Inr (access, demo_refresh ''t2'',
            refresh_claims mem_jwt demo_manager (\<lambda>_. 0) ''t2'' 7 (seconds 600), csrf)"
    using demo_mint by blast
  have env: "te_lib (demo_env u) = mem_jwt" "te_clk (demo_env u) = (\<lambda>_. 0)"
    "ts_jwtMgr demo_ts = demo_manager" "ts_refreshTTL demo_ts = seconds 600" "later k (\<lambda>_. 0) = (\<lambda>_. 0)" for u k
    by (simp_all add: demo_env_def demo_ts_def later_def)
  have seven: "ParseUint (FormatUint 7) = Some 7" by (rule ParseUint_FormatUint) simp
  have found: "SessionRepository_FindByHash (mem_sessions 0) ''41'' [session_of 5 7 ''41'' ''t1'' ''f1'' None]
      = Inr (session_of 5 7 ''41'' ''t1'' ''f1'' None)"
    by (simp add: SessionRepository_FindByHash_def mem_table_defs)
  have rot: "SessionRepository_RotateSession (mem_sessions 0) (\<lambda>_. 0) ''41''
      (new_session 7 ''42'' (Some ''t2'') (Some ''f1'') (Some ''t1'') ''ua'' ''ip'' (seconds 600))
      [session_of 5 7 ''41'' ''t1'' ''f1'' None]
      = (Inr (revoke 0 ''rotated'' (session_of 5 7 ''41'' ''t1'' ''f1'' None)),
         [revoke 0 ''rotated'' (session_of 5 7 ''41'' ''t1'' ''f1'' None),
         stamp_session 6 0 (new_session 7 ''42'' (Some ''t2'') (Some ''f1'') (Some ''t1'') ''ua'' ''ip''
           (seconds 600))])"
    by (simp add: SessionRepository_RotateSession_def mem_table_defs clash_session_def numeral_2_eq_2 Let_def)
  show ?thesis
    by (simp add: TokenService_Rotate_def token_hash_def [symmetric] env demo_parse [simplified] demo_hash found
        Let_def getString_def rotate_checked_def rotate_live_def mint [simplified] ptr_def rot [simplified] refresh_claims_def seven)
qed

theorem Rotate_success_witness:
  "\<exists>c r. r \<in> set (backfill ''41'' c [session_of 5 7 ''41'' ''t1'' ''f1'' None])
       \<and> may_rotate (demo_env ''t2'') demo_ts (demo_refresh ''t1'') c r 7"
proof -
  have wf: "sessions_wf [session_of 5 7 ''41'' ''t1'' ''f1'' None]"
    by (simp add: sessions_wf_def unique_rows_def)
  have L: "jwt_library (te_lib (demo_env ''t2''))"
    using mem_jwt.jwt_library_axioms by (simp add: demo_env_def)
  obtain access csrf t' where "TokenService_Rotate (mem_sessions 0) (demo_env ''t2'') demo_ts (demo_refresh ''t1'')
       (\<lambda>_. Inr (demo_user, [])) ''ua'' ''ip'' [session_of 5 7 ''41'' ''t1'' ''f1'' None]
     = (Inr (access, demo_refresh ''t2'', csrf, 7), t')"
    using demo_rotate by blast
  from Rotate_success [OF mem_sessions_table.gorm_table_axioms L wf this] show ?thesis
    unfolding Let_def demo_hash by auto
qed

subsection \<open>Reuse of a rotated token\<close>

text \<open>
  A calm update changes neither the identity nor the lineage of a session and revives nothing; the
  writes that revoke sessions or mark a reuse are calm.
\<close>

definition calm :: "(session \<Rightarrow> session) \<Rightarrow> bool" where
  "calm f \<longleftrightarrow> (\<forall>s. s_ID (f s) = s_ID s \<and> s_RefreshTokenHash (f s) = s_RefreshTokenHash s
     \<and> s_TokenID (f s) = s_TokenID s \<and> s_FamilyID (f s) = s_FamilyID s \<and> (live (f s) \<longrightarrow> live s))"

lemma calm_revoke [simp]: "calm (revoke now reason)"
  by (simp add: calm_def)

lemma calm_mark [simp]: "calm (\<lambda>s. s\<lparr>s_ReuseDetectedAt := a, s_RevokedReason := b\<rparr>)"
  by (simp add: calm_def)

lemma calm_unique: "calm f \<Longrightarrow> unique_rows clash_session (upd_where p f t) \<longleftrightarrow> unique_rows clash_session t"
  unfolding unique_rows_def upd_where_def sorted_wrt_map
  by (rule sorted_wrt_iff_nth_less [THEN ssubst], rule sorted_wrt_iff_nth_less [THEN ssubst])
    (auto simp: calm_def clash_session_def)

lemma calm_wf: "calm f \<Longrightarrow> sessions_wf t \<Longrightarrow> sessions_wf (upd_where p f t)"
  by (simp add: sessions_wf_def calm_unique map_upd_where calm_def)

lemma calm_updates_done:
  assumes "gorm_available G s_ID stamp_session clash_session" "calm f" "sessions_wf t"
  obtains n where "gorm_Updates G p f t = Inr (n, upd_where p f t)"
proof -
  have "unique_rows clash_session (upd_where p f t)"
    using calm_wf [OF assms(2,3)] by (simp add: sessions_wf_def)
  from gorm_available.updates_done [OF assms(1) this] that show thesis by blast
qed

text \<open>
  C4: Presenting a refresh token that was already exchanged takes down its whole family: when the
  session stored under its hash is revoked as rotated (or already marked as reused, or revoked
  without a reason), the answer is \<open>ErrRefreshTokenReuseDetected\<close> and afterwards no session of
  the family is live.  The database has to be up for it.
\<close>

theorem Rotate_reuse_detected:
  assumes up: "gorm_available G s_ID stamp_session clash_session" and wf: "sessions_wf t"
    and parse: "ParseRefreshToken (te_lib E) (ts_jwtMgr s) (te_clk E 0) token = Inr c"
    and r: "r \<in> set t" "s_RefreshTokenHash r = token_hash E s token"
      "ParseUint (cl_Subject c) = Some (s_UserID r)"
      "s_TokenID r = Some (cl_ID c)" "cl_ID c \<noteq> []" "s_FamilyID r = Some fam" "fam \<noteq> []"
      "te_clk E 1 \<le> s_ExpiresAt r" "\<not> live r"
      "getString (s_RevokedReason r) \<in> {[], ''rotated'', ''reuse_detected''}"
  shows "\<exists>t'. TokenService_Rotate G E s token uf ua ip t = (Inl ErrRefreshTokenReuseDetected, t')
           \<and> (\<forall>x \<in> set t'. s_FamilyID x = Some fam \<longrightarrow> \<not> live x)"
proof -
  let ?h = "token_hash E s token"
  let ?mark = "\<lambda>x. x\<lparr>s_ReuseDetectedAt := Some (te_clk E 2), s_RevokedReason := Some ''reuse_detected''\<rparr>"
  have first: "gorm_First G (\<lambda>s. s_RefreshTokenHash s = ?h) t = Inr r"
  proof (rule gorm_available.first_unique [OF up r(1)])
    show "s_RefreshTokenHash r = ?h" by (rule r(2))
    show "r' = r" if "r' \<in> set t" "s_RefreshTokenHash r' = ?h" for r'
      using session_hash_unique [OF wf that(1) r(1)] that(2) r(2) by simp
  qed
  define t1 where "t1 = upd_where (\<lambda>s. s_RefreshTokenHash s = ?h) ?mark t"
  have wf1: "sessions_wf t1" unfolding t1_def by (rule calm_wf [OF calm_mark wf])
  obtain n1 where "gorm_Updates G (\<lambda>s. s_RefreshTokenHash s = ?h) ?mark t = Inr (n1, t1)"
    unfolding t1_def by (rule calm_updates_done [OF up calm_mark wf])
  then have mark: "snd (SessionRepository_MarkReuseDetectedByHash G (te_clk E 2) ?h t) = t1"
    by (simp add: SessionRepository_MarkReuseDetectedByHash_def)
  let ?fam = "\<lambda>s. s_FamilyID s = Some fam \<and> live s"
  define t2 where "t2 = upd_where ?fam (revoke (te_clk E 3) ''reuse_detected'') t1"
  obtain n2 where "gorm_Updates G ?fam (revoke (te_clk E 3) ''reuse_detected'') t1 = Inr (n2, t2)"
    unfolding t2_def by (rule calm_updates_done [OF up calm_revoke wf1])
  then have fam: "snd (SessionRepository_RevokeByFamilyID G (te_clk E 3) fam ''reuse_detected'' t1) = t2"
    by (simp add: SessionRepository_RevokeByFamilyID_def)
  have lin: "getString (s_TokenID r) = cl_ID c" "getString (s_FamilyID r) = fam"
    using r(4,6) by (simp_all add: getString_def)
  have "TokenService_Rotate G E s token uf ua ip t
      = rotate_checked G E s uf ua ip ?h c r (cl_ID c) fam (s_UserID r) t"
    unfolding TokenService_Rotate_def Let_def token_hash_def [symmetric] parse sum.case
      SessionRepository_FindByHash_def first r(3) option.case lin
    using r(5,7) by simp
  also have "\<dots> = (Inl ErrRefreshTokenReuseDetected, t2)"
    unfolding rotate_checked_def Let_def mark using r(5,7-10) fam by auto
  finally have "TokenService_Rotate G E s token uf ua ip t = (Inl ErrRefreshTokenReuseDetected, t2)" .
  moreover have "\<not> live x" if "x \<in> set t2" "s_FamilyID x = Some fam" for x
    using that(1) unfolding t2_def by (cases rule: in_upd_where_cases) (use that in auto)
  ultimately show ?thesis by blast
qed

theorem Rotate_reuse_detected_witness:
  "\<exists>t'. TokenService_Rotate (mem_sessions 0) (demo_env ''t3'') demo_ts (demo_refresh ''t1'')
          (\<lambda>_. Inr (demo_user, [])) [] []
          [revoke 0 ''rotated'' (session_of 5 7 ''41'' ''t1'' ''f1'' None), session_of 6 7 ''42'' ''t2'' ''f1'' None]
        = (Inl ErrRefreshTokenReuseDetected, t')
      \<and> (\<forall>x \<in> set t'. s_FamilyID x = Some ''f1'' \<longrightarrow> \<not> live x)"
proof (rule Rotate_reuse_detected [OF mem_sessions_table.gorm_available_axioms])
  let ?r = "revoke 0 ''rotated'' (session_of 5 7 ''41'' ''t1'' ''f1'' None)"
  show "ParseRefreshToken (te_lib (demo_env ''t3'')) (ts_jwtMgr demo_ts) (te_clk (demo_env ''t3'') 0)
      (demo_refresh ''t1'') = Inr (refresh_claims mem_jwt demo_manager (\<lambda>_. 0) ''t1'' 7 (seconds 600))"
    by (simp add: demo_env_def demo_ts_def demo_parse [simplified])
  show "ParseUint (cl_Subject (refresh_claims mem_jwt demo_manager (\<lambda>_. 0) ''t1'' 7 (seconds 600)))
      = Some (s_UserID ?r)"
    by (simp add: refresh_claims_def ParseUint_FormatUint)
  show "s_RefreshTokenHash ?r = token_hash (demo_env ''t3'') demo_ts (demo_refresh ''t1'')"
    by (simp add: demo_hash)
qed (simp_all add: sessions_wf_def unique_rows_def clash_session_def refresh_claims_def demo_env_def getString_def)

subsection \<open>A refresh token buys one pair\<close>

definition spent :: "string \<Rightarrow> session list \<Rightarrow> bool" where
  "spent h t \<longleftrightarrow> (\<exists>s \<in> set t. s_RefreshTokenHash s = h \<and> \<not> live s)"

lemma spent_dead:
  "sessions_wf t \<Longrightarrow> spent h t \<Longrightarrow> s \<in> set t \<Longrightarrow> s_RefreshTokenHash s = h \<Longrightarrow> \<not> live s"
  unfolding spent_def using session_hash_unique by metis

lemma spent_upd:
  assumes "benign f" "spent h t"
  shows "spent h (upd_where p f t)"
proof -
  obtain s where s: "s \<in> set t" "s_RefreshTokenHash s = h" "\<not> live s"
    using assms(2) by (auto simp: spent_def)
  let ?s = "if p s then f s else s"
  have "?s \<in> set (upd_where p f t)" using s(1) by (simp add: upd_where_def)
  moreover have "s_RefreshTokenHash ?s = h \<and> \<not> live ?s" using s assms(1) by (simp add: benign_def)
  ultimately show ?thesis unfolding spent_def by blast
qed

lemma session_change_spent:
  assumes "session_change t t'" "sessions_wf t" "spent h t" "h \<in> s_RefreshTokenHash ` set t'"
  shows "spent h t'"
  using assms
proof (induction rule: session_change.induct)
  case (upd f t p)
  then show ?case by (simp add: spent_upd)
next
  case (ins i t c s)
  then show ?case by (auto simp: spent_def)
next
  case (del t p)
  then obtain s where s: "s \<in> set (filter p t)" "s_RefreshTokenHash s = h" by auto
  with spent_dead [OF del(1,2)] have "\<not> live s" by simp
  with s show ?case unfolding spent_def by blast
qed

lemma session_step_spent:
  assumes G: "session_table G" and "session_step G t t'" "sessions_wf t" "spent h t"
    "h \<in> s_RefreshTokenHash ` set t'"
  shows "spent h t'"
  using session_step_effect [OF G assms(2)]
proof (elim disjE exE)
  assume "session_change t t'"
  then show ?thesis using assms(3-5) by (rule session_change_spent)
next
  fix clk h' new s assume "SessionRepository_RotateSession G clk h' new t = (Inr s, t')"
  then obtain s0 :: session and i c where
    "t' = upd_where (\<lambda>r. s_ID r = s_ID s0) (revoke (clk 1) ''rotated'') t @ [stamp_session i c new]"
    by (rule RotateSession_success [OF G])
  with spent_upd [OF benign_revoke assms(4)] show ?thesis by (force simp: spent_def)
qed

lemma backfill_live:
  assumes "r \<in> set (backfill h c t)" "live r"
  obtains r0 where "r0 \<in> set t" "s_RefreshTokenHash r0 = s_RefreshTokenHash r" "live r0"
  using assms(1) unfolding backfill_def
  by (cases rule: in_upd_where_cases) (use assms(2) that in auto)

lemma Rotate_spent_fails:
  assumes "session_table G" "sessions_wf t" "spent (token_hash E s token) t"
  shows "\<exists>e t'. TokenService_Rotate G E s token uf ua ip t = (Inl e, t')"
proof (cases "TokenService_Rotate G E s token uf ua ip t")
  case (Pair res t')
  show ?thesis
  proof (cases res)
    case (Inr out)
    with Pair obtain c r uid where "r \<in> set (backfill (token_hash E s token) c t)" "may_rotate E s token c r uid"
      using Rotate_success_live [OF assms(1,2)] by metis
    then obtain r0 where "r0 \<in> set t" "s_RefreshTokenHash r0 = token_hash E s token" "live r0"
      by (auto simp: may_rotate_def elim: backfill_live)
    with spent_dead [OF assms(2,3)] show ?thesis by blast
  qed (use Pair in simp)
qed

lemma rotate_checked_steps:
  assumes "rotate_checked G E s uf ua ip h c r tid fid uid t = (res, t')"
  shows "(session_step G)\<^sup>*\<^sup>* t t'"
proof -
  define t1 where "t1 = snd (SessionRepository_MarkReuseDetectedByHash G (te_clk E 2) h t)"
  define t2 where "t2 = snd (SessionRepository_RevokeByFamilyID G (te_clk E 3) fid ''reuse_detected'' t1)"
  have "session_step G t t1"
    unfolding t1_def by (rule session_step.Mark [OF prod.collapse [symmetric]])
  then have mark: "(session_step G)\<^sup>*\<^sup>* t t1" ..
  have "session_step G t1 t2"
    unfolding t2_def by (rule session_step.RevokeFamily [OF prod.collapse [symmetric]])
  with mark have fam: "(session_step G)\<^sup>*\<^sup>* t t2" ..
  have live: "(session_step G)\<^sup>*\<^sup>* t t'" if "rotate_live G E s uf ua ip h tid fid uid t = (res, t')"
    using that by (auto simp: rotate_live_def Let_def split: sum.splits prod.splits
        intro: session_step.Rotate)
  from assms consider "t' = t" | "t' = t1" | "t' = t2"
    | "rotate_live G E s uf ua ip h tid fid uid t = (res, t')"
    unfolding rotate_checked_def Let_def t1_def t2_def by (auto split: if_splits)
  then show ?thesis using mark fam live by cases auto
qed

lemma Rotate_steps:
  assumes "TokenService_Rotate G E s token uf ua ip t = (res, t')"
  shows "(session_step G)\<^sup>*\<^sup>* t t'"
  using assms unfolding TokenService_Rotate_def Let_def
  by (auto split: sum.splits option.splits if_splits prod.splits
      intro: rotate_checked_steps session_step.Lineage
        converse_rtranclp_into_rtranclp [OF session_step.Lineage rotate_checked_steps])

lemma session_steps_keep_wf:
  assumes "session_table G" "(session_step G)\<^sup>*\<^sup>* t t'" "sessions_wf t"
  shows "sessions_wf t'"
  using assms(2,3)
  by (induction rule: rtranclp_induct) (auto intro: session_changes_wf session_step_changes [OF assms(1)])

lemma Rotate_success_spent:
  assumes G: "session_table G" and L: "jwt_library (te_lib E)" and wf: "sessions_wf t"
    and rot: "TokenService_Rotate G E s token uf ua ip t = (Inr out, t')"
  shows "spent (token_hash E s token) t'"
proof -
  let ?h = "token_hash E s token"
  obtain access refresh csrf userID where out: "out = (access, refresh, csrf, userID)" by (cases out) auto
  obtain c uid and r :: session where rl: "rotate_live G E s uf ua ip ?h (getString (s_TokenID r)) (getString (s_FamilyID r)) uid
       (backfill ?h c t) = (Inr out, t')"
    by (rule Rotate_success_live [OF G wf rot])
  obtain new s' where "SessionRepository_RotateSession G (later 8 (te_clk E)) ?h new (backfill ?h c t) = (Inr s', t')"
    by (rule rotate_live_success [OF G L rl [unfolded out]])
  then obtain s0 :: session and i d where s0: "s0 \<in> set (backfill ?h c t)" "s_RefreshTokenHash s0 = ?h"
    and t': "t' = upd_where (\<lambda>r. s_ID r = s_ID s0) (revoke (later 8 (te_clk E) 1) ''rotated'') (backfill ?h c t)
        @ [stamp_session i d new]"
    by (rule RotateSession_success [OF G])
  have "revoke (later 8 (te_clk E) 1) ''rotated'' s0 \<in> set t'"
    unfolding t' set_append set_upd_where using s0(1) by blast
  with s0(2) show ?thesis unfolding spent_def by (metis option.distinct(1) revoke_simps(3,8))
qed

text \<open>
  C2: A refresh token is exchanged at most once.  After a successful exchange, and after any
  further writes of the repository that do not purge the row of the exchanged session, every
  attempt to exchange the same token again fails, whoever makes it and at whatever time.
\<close>

theorem refresh_token_single_use:
  assumes G: "session_table G" and L: "jwt_library (te_lib E)" and wf: "sessions_wf t"
    and rot: "TokenService_Rotate G E s token uf ua ip t = (Inr out, t1)"
    and steps: "(\<lambda>a b. session_step G a b \<and> token_hash E s token \<in> s_RefreshTokenHash ` set b)\<^sup>*\<^sup>* t1 t2"
    and same: "token_hash E' s' token = token_hash E s token"
  shows "\<exists>e t3. TokenService_Rotate G E' s' token uf' ua' ip' t2 = (Inl e, t3)"
proof -
  let ?h = "token_hash E s token"
  have "sessions_wf t2 \<and> spent ?h t2"
    using steps
  proof (induction rule: rtranclp_induct)
    case base
    then show ?case
      using session_steps_keep_wf [OF G Rotate_steps [OF rot] wf] Rotate_success_spent [OF G L wf rot] by blast
  next
    case (step a b)
    then show ?case
      using session_step_spent [OF G] session_changes_wf session_step_changes [OF G] by blast
  qed
  then show ?thesis
    using Rotate_spent_fails [OF G, of t2 E' s' token] same by simp
qed

theorem refresh_token_single_use_witness:
  "\<exists>t1. (\<exists>out. TokenService_Rotate (mem_sessions 0) (demo_env ''t2'') demo_ts (demo_refresh ''t1'')
           (\<lambda>_. Inr (demo_user, [])) ''ua'' ''ip'' [session_of 5 7 ''41'' ''t1'' ''f1'' None] = (Inr out, t1))
     \<and> (\<exists>e t3. TokenService_Rotate (mem_sessions 0) (demo_env ''t3'') demo_ts (demo_refresh ''t1'')
           (\<lambda>_. Inr (demo_user, [])) ''ua'' ''ip'' t1 = (Inl e, t3))"
proof -
  have wf: "sessions_wf [session_of 5 7 ''41'' ''t1'' ''f1'' None]"
    by (simp add: sessions_wf_def unique_rows_def)
  have L: "jwt_library (te_lib (demo_env ''t2''))"
    using mem_jwt.jwt_library_axioms by (simp add: demo_env_def)
  obtain out t1 where rot: "TokenService_Rotate (mem_sessions 0) (demo_env ''t2'') demo_ts (demo_refresh ''t1'')
       (\<lambda>_. Inr (demo_user, [])) ''ua'' ''ip'' [session_of 5 7 ''41'' ''t1'' ''f1'' None] = (Inr out, t1)"
    using demo_rotate by blast
  have "\<exists>e t3. TokenService_Rotate (mem_sessions 0) (demo_env ''t3'') demo_ts (demo_refresh ''t1'')
           (\<lambda>_. Inr (demo_user, [])) ''ua'' ''ip'' t1 = (Inl e, t3)"
    by (rule refresh_token_single_use [OF mem_sessions_table.gorm_table_axioms L wf rot rtranclp.rtrancl_refl])
      (simp add: demo_hash)
  with rot show ?thesis by blast
qed

subsection \<open>One live session per family\<close>

text \<open>
  Every way in which the services write sessions: \<open>Issue\<close> with a UUID that is not yet a
  family, \<open>Rotate\<close>, and the revocations of \<open>TokenService\<close>, \<open>SessionService\<close>, logout and the
  clean-up job.
\<close>

inductive token_step :: "session gorm \<Rightarrow> session list \<Rightarrow> session list \<Rightarrow> bool" for G where
  Issue: "jwt_library (te_lib E) \<Longrightarrow> te_uuid E \<noteq> [] \<Longrightarrow> Some (te_uuid E) \<notin> s_FamilyID ` set t \<Longrightarrow>
    TokenService_Issue G E s user perms ua ip t = (res, t') \<Longrightarrow> token_step G t t'"
| Rotate: "jwt_library (te_lib E) \<Longrightarrow> te_uuid E \<noteq> [] \<Longrightarrow>
    TokenService_Rotate G E s token uf ua ip t = (resr, t') \<Longrightarrow> token_step G t t'"
| RevokeAll: "TokenService_RevokeAll G now uid reason t = (resu, t') \<Longrightarrow> token_step G t t'"
| RevokeSession: "SessionService_RevokeSession G now uid sid t = (ress, t') \<Longrightarrow> token_step G t t'"
| RevokeOthers: "SessionService_RevokeOtherSessions G now uid sid t = (resn, t') \<Longrightarrow> token_step G t t'"
| Logout: "SessionRepository_RevokeByHash G now h reason t = (resu, t') \<Longrightarrow> token_step G t t'"
| Cleanup: "SessionRepository_CleanupExpired G now t = (resn, t') \<Longrightarrow> token_step G t t'"

definition one_live_per_family :: "session list \<Rightarrow> bool" where
  "one_live_per_family t \<longleftrightarrow>
     (\<forall>a \<in> set t. \<forall>b \<in> set t. live a \<and> live b \<and> s_FamilyID a = s_FamilyID b \<longrightarrow> a = b)"

definition has_lineage :: "session list \<Rightarrow> bool" where
  "has_lineage t \<longleftrightarrow> (\<forall>s \<in> set t. \<not> missing (s_TokenID s) \<and> \<not> missing (s_FamilyID s))"

definition families_inv :: "session list \<Rightarrow> bool" where
  "families_inv t \<longleftrightarrow> sessions_wf t \<and> has_lineage t \<and> one_live_per_family t"

lemma families_inv_calm:
  assumes "calm f" "families_inv t"
  shows "families_inv (upd_where p f t)"
proof -
  have "has_lineage (upd_where p f t)"
    using assms by (auto simp: families_inv_def has_lineage_def calm_def set_upd_where)
  moreover have "one_live_per_family (upd_where p f t)"
    unfolding one_live_per_family_def
  proof (intro ballI impI)
    let ?g = "\<lambda>r. if p r then f r else r"
    have g: "s_FamilyID (?g r) = s_FamilyID r" "live (?g r) \<Longrightarrow> live r" for r
      using assms(1) by (auto simp: calm_def split: if_splits)
    fix a b assume "a \<in> set (upd_where p f t)" "b \<in> set (upd_where p f t)"
      and *: "live a \<and> live b \<and> s_FamilyID a = s_FamilyID b"
    then obtain a0 b0 where 0: "a0 \<in> set t" "b0 \<in> set t" "a = ?g a0" "b = ?g b0"
      by (auto simp: upd_where_def)
    with * g have "live a0 \<and> live b0 \<and> s_FamilyID a0 = s_FamilyID b0" by metis
    with 0 assms(2) have "a0 = b0" by (auto simp: families_inv_def one_live_per_family_def)
    with 0 show "a = b" by simp
  qed
  ultimately show ?thesis using calm_wf assms by (simp add: families_inv_def)
qed

lemma families_inv_filter: "families_inv t \<Longrightarrow> families_inv (filter p t)"
  by (auto simp: families_inv_def has_lineage_def one_live_per_family_def sessions_wf_def
      distinct_map_filter unique_rows_filter)

lemma families_inv_outcome:
  "upd_outcome p f t (res, t') \<Longrightarrow> calm f \<Longrightarrow> families_inv t \<Longrightarrow> families_inv t'"
  by (erule upd_outcome_cases) (auto intro: families_inv_calm)

lemma families_inv_add:
  assumes "families_inv t" "sessions_wf (t @ [s])" "\<not> missing (s_TokenID s)" "\<not> missing (s_FamilyID s)"
    "\<And>r. r \<in> set t \<Longrightarrow> s_FamilyID r = s_FamilyID s \<Longrightarrow> \<not> live r"
  shows "families_inv (t @ [s])"
proof -
  have "a = b" if "a \<in> set (t @ [s])" "b \<in> set (t @ [s])" "live a" "live b" "s_FamilyID a = s_FamilyID b" for a b
  proof (cases "a = s \<or> b = s")
    case True
    with that assms(5) [of a] assms(5) [of b] show ?thesis by auto
  next
    case False
    with that assms(1) show ?thesis by (simp add: families_inv_def one_live_per_family_def)
  qed
  then have "one_live_per_family (t @ [s])" unfolding one_live_per_family_def by blast
  with assms(1-4) show ?thesis by (simp add: families_inv_def has_lineage_def)
qed

lemma not_missing_ptr: "v \<noteq> [] \<Longrightarrow> \<not> missing (ptr v)"
  by (simp add: missing_def ptr_def)

lemma Issue_families_inv:
  assumes G: "session_table G" and L: "jwt_library (te_lib E)" and id: "te_uuid E \<noteq> []"
    and fresh: "Some (te_uuid E) \<notin> s_FamilyID ` set t"
    and issue: "TokenService_Issue G E s user perms ua ip t = (res, t')" and inv: "families_inv t"
  shows "families_inv t'"
proof (cases "\<exists>a r c x. mintTokenPair E s (te_clk E) user perms = Inr (a, r, c, x)")
  case False
  then have "t' = t" using issue by (auto simp: TokenService_Issue_def split: sum.splits)
  with inv show ?thesis by simp
next
  case True
  then obtain a r c x where mint: "mintTokenPair E s (te_clk E) user perms = Inr (a, r, c, x)" by blast
  have cid: "cl_ID c = te_uuid E" using mintTokenPair_claims [OF L mint] by (simp add: refresh_claims_def)
  let ?new = "new_session (u_ID user) (token_hash E s r) (ptr (te_uuid E)) (ptr (te_uuid E)) None ua ip
      (te_clk E 5 + ts_refreshTTL s)"
  obtain res1 where create: "SessionRepository_Create G ?new t = (res1, t')"
    using issue by (auto simp: TokenService_Issue_def mint Let_def cid token_hash_def split: sum.splits prod.splits)
  have wf': "sessions_wf t'"
    using session_changes_wf [OF session_step_changes [OF G session_step.Create [OF create]]] inv
    by (simp add: families_inv_def)
  show ?thesis
  proof (cases "gorm_Create G ?new t")
    case (Inl e)
    with create inv show ?thesis by (simp add: SessionRepository_Create_def)
  next
    case (Inr out)
    then obtain s' where "gorm_Create G ?new t = Inr (s', t')"
      using create by (auto simp: SessionRepository_Create_def split: prod.splits)
    from gorm_table.create_row [OF G this] obtain i d where t': "t' = t @ [stamp_session i d ?new]" by blast
    show ?thesis
      unfolding t' by (rule families_inv_add [OF inv wf' [unfolded t']])
        (use id fresh in \<open>auto simp: missing_def ptr_def image_iff\<close>)
  qed
qed

lemma Rotate_error_families_inv:
  assumes G: "session_table G" and inv: "families_inv t"
    and rot: "TokenService_Rotate G E s token uf ua ip t = (Inl e, t')"
  shows "families_inv t'"
proof -
  let ?h = "token_hash E s token"
  have mark: "families_inv (snd (SessionRepository_MarkReuseDetectedByHash G now ?h t))" for now
    using MarkReuseDetectedByHash_outcome [OF G, of ?h now t] inv
    by (cases "SessionRepository_MarkReuseDetectedByHash G now ?h t") (auto intro: families_inv_outcome)
  have fam: "families_inv (snd (SessionRepository_RevokeByFamilyID G now f rs t))" if "families_inv t" for now f rs t
    using RevokeByFamilyID_outcome [OF G, of f now rs t] that
    by (cases "SessionRepository_RevokeByFamilyID G now f rs t") (auto intro: families_inv_outcome)
  have "t' = t" if "rotate_live G E s uf ua ip ?h tid fid uid t = (Inl e, t')" for tid fid uid
    using that by (auto simp: rotate_live_def Let_def split: sum.splits prod.splits dest: RotateSession_error_keeps)
  with inv have live: "families_inv t'" if "rotate_live G E s uf ua ip ?h tid fid uid t = (Inl e, t')" for tid fid uid
    using that by metis
  have checked: "families_inv t'" if "rotate_checked G E s uf ua ip ?h c r tid fid uid t = (Inl e, t')" for c r tid fid uid
    using that inv unfolding rotate_checked_def Let_def by (auto split: if_splits intro: mark fam live)
  have lineage: "\<not> missing (s_TokenID r) \<and> \<not> missing (s_FamilyID r)"
    if "SessionRepository_FindByHash G ?h t = Inr r" for r
    using FindByHash_found(1) [OF G that] inv by (simp add: families_inv_def has_lineage_def)
  show ?thesis
    using rot inv unfolding TokenService_Rotate_def Let_def token_hash_def [symmetric]
    by (auto split: sum.splits option.splits if_splits dest: lineage intro: checked simp: missing_getString)
qed

lemma Rotate_success_families_inv:
  assumes G: "session_table G" and L: "jwt_library (te_lib E)" and id: "te_uuid E \<noteq> []" and inv: "families_inv t"
    and rot: "TokenService_Rotate G E s token uf ua ip t = (Inr out, t')"
  shows "families_inv t'"
proof -
  let ?h = "token_hash E s token"
  have wf: "sessions_wf t" using inv by (simp add: families_inv_def)
  obtain access refresh csrf userID where out: "out = (access, refresh, csrf, userID)" by (cases out) auto
  obtain c r i d where r: "r \<in> set (backfill ?h c t)" "may_rotate E s token c r userID"
    and t': "t' = upd_where (\<lambda>x. s_ID x = s_ID r) (revoke (te_clk E 9) ''rotated'') (backfill ?h c t)
           @ [stamp_session i d (new_session userID (token_hash E s refresh) (ptr (te_uuid E))
                (s_FamilyID r) (ptr (getString (s_TokenID r))) ua ip (te_clk E 7 + ts_refreshTTL s))]"
    using Rotate_success_rows [OF G L wf rot [unfolded out]] unfolding Let_def by blast
  obtain r0 where r0: "r0 \<in> set t" "s_RefreshTokenHash r0 = ?h"
    using r by (auto simp: may_rotate_def elim: backfill_live)
  have bf: "backfill ?h c t = t"
    using r0(1) inv by (intro backfill_present [OF wf r0]) (auto simp: families_inv_def has_lineage_def)
  let ?t1 = "upd_where (\<lambda>x. s_ID x = s_ID r) (revoke (te_clk E 9) ''rotated'') t"
  have dead: "\<not> live x" if "x \<in> set ?t1" "s_FamilyID x = s_FamilyID r" for x
    using that(1)
  proof (cases rule: in_upd_where_cases)
    case kept
    with that inv r bf show ?thesis
      unfolding families_inv_def one_live_per_family_def may_rotate_def by metis
  qed simp
  have wf': "sessions_wf t'" by (rule session_steps_keep_wf [OF G Rotate_steps [OF rot] wf])
  show ?thesis
    unfolding t' bf
    by (rule families_inv_add [OF families_inv_calm [OF calm_revoke inv] wf' [unfolded t' bf]])
      (use id r(2) dead in \<open>auto simp: missing_getString may_rotate_def\<close>)
qed

lemma token_step_families_inv:
  assumes G: "session_table G" and "token_step G t t'" "families_inv t"
  shows "families_inv t'"
  using assms(2)
proof cases
  case (Issue E s user perms ua ip res)
  then show ?thesis by (intro Issue_families_inv [OF G _ _ _ _ assms(3)])
next
  case (Rotate E s token uf ua ip res)
  with assms(3) G show ?thesis
    by (cases res) (auto intro: Rotate_error_families_inv Rotate_success_families_inv)
next
  case (RevokeAll now uid reason res)
  then have "upd_outcome (\<lambda>s. s_UserID s = uid \<and> live s) (revoke now reason) t (res, t')"
    using RevokeByUserID_outcome [OF G, of uid now reason t] by (simp add: TokenService_RevokeAll_def)
  from families_inv_outcome [OF this calm_revoke assms(3)] show ?thesis .
next
  case (RevokeSession now uid sid res)
  then obtain res' where "SessionRepository_RevokeByIDForUser G now uid sid ''user_session_revoked'' t = (res', t')"
    by (auto simp: SessionService_RevokeSession_def split: sum.splits prod.splits)
  from RevokeByIDForUser_rows [OF G this] assms(3) show ?thesis by (auto intro: families_inv_calm)
next
  case (RevokeOthers now uid sid res)
  then have "upd_outcome (\<lambda>s. s_UserID s = uid \<and> s_ID s \<noteq> sid \<and> live s)
      (revoke now ''user_revoke_others'') t (res, t')"
    using RevokeOthersByUser_outcome [OF G, of uid sid now "''user_revoke_others''" t]
    by (simp add: SessionService_RevokeOtherSessions_def)
  from families_inv_outcome [OF this calm_revoke assms(3)] show ?thesis .
next
  case (Logout now h reason res)
  then have "upd_outcome (\<lambda>s. s_RefreshTokenHash s = h \<and> live s) (revoke now reason) t (res, t')"
    using RevokeByHash_outcome [OF G, of h now reason t] by simp
  from families_inv_outcome [OF this calm_revoke assms(3)] show ?thesis .
next
  case (Cleanup now res)
  with assms(3) show ?thesis
    by (auto simp: SessionRepository_CleanupExpired_def families_inv_filter split: sum.splits prod.splits
        dest!: gorm_table.delete_rows [OF G])
qed

text \<open>
  C1: A family of refresh tokens has at most one live session, whatever logins, exchanges,
  logouts, revocations and clean-ups are interleaved: this is what makes a second use of a token
  recognisable.  It needs the UUID of a new login not to be one that is in use.
\<close>

theorem families_have_one_live_session:
  assumes "session_table G" "(token_step G)\<^sup>*\<^sup>* t t'" "families_inv t"
  shows "families_inv t'"
  using assms(2,3) by (induction rule: rtranclp_induct) (auto intro: token_step_families_inv [OF assms(1)])

theorem families_have_one_live_session_witness:
  "\<exists>t1 t2. token_step (mem_sessions 0) [] t1 \<and> token_step (mem_sessions 0) t1 t2
     \<and> length t2 = 1 \<and> families_inv t2"
proof -
  obtain access csrf where mint: "mintTokenPair (demo_env ''t1'') demo_ts (\<lambda>_. 0) demo_user []
     = Inr (access, demo_refresh ''t1'',
            refresh_claims mem_jwt demo_manager (\<lambda>_. 0) ''t1'' 7 (seconds 600), csrf)"
    using demo_mint by blast
  define t1 where "t1 = snd (TokenService_Issue (mem_sessions 0) (demo_env ''t1'') demo_ts demo_user [] [] [] [])"
  have len: "length t1 = 1"
    unfolding t1_def using mint
    by (simp add: TokenService_Issue_def demo_env_def [of "''t1''"] Let_def SessionRepository_Create_def
        mem_table_defs refresh_claims_def)
  have s1: "token_step (mem_sessions 0) [] t1"
    unfolding t1_def
    by (rule token_step.Issue [where E = "demo_env ''t1''", OF _ _ _ prod.collapse [symmetric]])
      (use mem_jwt.jwt_library_axioms in \<open>simp_all add: demo_env_def\<close>)
  define t2 where "t2 = snd (SessionRepository_RevokeByHash (mem_sessions 0) 0 [] [] t1)"
  have s2: "token_step (mem_sessions 0) t1 t2"
    unfolding t2_def by (rule token_step.Logout [OF prod.collapse [symmetric]])
  have "families_inv t2"
    by (rule families_have_one_live_session [OF mem_sessions_table.gorm_table_axioms, of 0 "[]"])
      (use s1 s2 in \<open>auto simp: families_inv_def sessions_wf_def unique_rows_def has_lineage_def
         one_live_per_family_def\<close>)
  moreover have "length t2 = 1"
    using len by (simp add: t2_def SessionRepository_RevokeByHash_def mem_table_defs Let_def)
  ultimately show ?thesis using s1 s2 by blast
qed

end
