(* ===== verification/Http.thy ===== *)
theory Http
  imports Security
begin

section \<open>Responses and the request middleware: \<open>response.go\<close>, \<open>auth_middleware.go\<close>, \<open>security_middleware.go\<close>\<close>

text \<open>
  A handler takes the request, the headers already set on the \<open>ResponseWriter\<close> and the state \<open>'w\<close>
  of the application behind it, and gives the response and the state afterwards; a middleware is a
  function on handlers, as in the source.  The body of a response is the value that is handed to the
  JSON encoder, or raw bytes; the encoder itself is not modelled.  Metrics and audit records are left
  out.
\<close>

type_synonym headers = "(string \<times> string) list"

definition header_set :: "string \<Rightarrow> string \<Rightarrow> headers \<Rightarrow> headers" where
  "header_set k v hs = (k, v) # filter (\<lambda>(k', _). k' \<noteq> k) hs"

lemma header_get_set [simp]:
  "header_get k (header_set k' v hs) = (if k = k' then v else header_get k hs)"
proof -
  have "map_of (filter (\<lambda>(x, _). x \<noteq> k') hs) k = map_of hs k" if "k \<noteq> k'"
    using that by (induction hs) auto
  then show ?thesis by (simp add: header_get_def header_set_def)
qed

record problemDetails =
  pd_Type :: string
  pd_Title :: string
  pd_Status :: int
  pd_Detail :: string
  pd_Instance :: string
  pd_Code :: string
  pd_RequestID :: string

record apiError =
  ae_Code :: string
  ae_Message :: string
  ae_Details :: "(string \<times> string) list"

text \<open>
  A value handed to the JSON encoder: a struct is an object with the names of its tags, a slice an
  array, a time its own constructor, and \<open>JRaw\<close> is a \<open>json.RawMessage\<close>.
\<close>

datatype json =
    JNull
  | JBool bool
  | JInt int
  | JNum rat
  | JStr string
  | JTime gotime
  | JArr "json list"
  | JObj "(string \<times> json) list"
  | JRaw string

datatype body =
    NoBody
  | Success json string
  | Bytes string
  | Envelope apiError string
  | Problem problemDetails

record response =
  rs_Status :: int
  rs_Headers :: headers
  rs_Body :: body

type_synonym 'w handler = "request \<Rightarrow> headers \<Rightarrow> 'w \<Rightarrow> response \<times> 'w"

subsection \<open>\<open>response.go\<close>\<close>

definition upper_char :: "char \<Rightarrow> char" where
  "upper_char c = (if CHR ''a'' \<le> c \<and> c \<le> CHR ''z'' then char_of (of_char c - 32 :: nat) else c)"

definition ToUpper :: "string \<Rightarrow> string" where
  "ToUpper s = map upper_char s"

text \<open>The request id of chi's middleware is the argument \<open>reqID\<close> (empty when there is none).\<close>

definition buildMeta :: "string \<Rightarrow> request \<Rightarrow> string" where
  "buildMeta reqID r =
     (if reqID \<noteq> [] then reqID
      else if header_get ''X-Request-Id'' (rq_Headers r) \<noteq> [] then header_get ''X-Request-Id'' (rq_Headers r)
      else ''req-unknown'')"

definition quality_of :: "string \<Rightarrow> string" where
  "quality_of params =
     fold (\<lambda>param q. let p = TrimSpace param in
                      if HasPrefix p ''q='' then TrimSpace (drop 2 p) else q)
       (Split params (CHR '';'')) ''1''"

definition accepts_problem :: "string \<Rightarrow> bool" where
  "accepts_problem part =
     (let item = TrimSpace part;
          mediaType = (if CHR '';'' \<in> set item then TrimSpace (takeWhile (\<lambda>c. c \<noteq> CHR '';'') item) else item);
          q = (if CHR '';'' \<in> set item then quality_of (tl (dropWhile (\<lambda>c. c \<noteq> CHR '';'') item)) else ''1'')
      in item \<noteq> [] \<and> mediaType = ''application/problem+json''
         \<and> q \<notin> {''0'', ''0.0'', ''0.00'', ''0.000''})"

definition prefersProblemJSON :: "request \<Rightarrow> bool" where
  "prefersProblemJSON r =
     (let accept = ToLower (header_get ''Accept'' (rq_Headers r))
      in accept \<noteq> [] \<and> list_ex accepts_problem (Split accept (CHR '','')))"

definition problemType :: "string \<Rightarrow> string" where
  "problemType code =
     (let normalized = map (\<lambda>c. if c = CHR ''_'' then CHR ''-'' else c) (ToLower (TrimSpace code))
      in ''urn:problem:everything-backend:'' @ (if normalized = [] then ''unknown'' else normalized))"

text \<open>\<open>http.StatusText\<close> for the codes the sources answer with.\<close>

definition StatusText :: "int \<Rightarrow> string" where
  "StatusText n = (case map_of
     [(200, ''OK''), (201, ''Created''), (204, ''No Content''), (302, ''Found''),
      (400, ''Bad Request''), (401, ''Unauthorized''), (403, ''Forbidden''), (404, ''Not Found''),
      (409, ''Conflict''), (413, ''Request Entity Too Large''), (422, ''Unprocessable Entity''),
      (429, ''Too Many Requests''), (500, ''Internal Server Error''), (501, ''Not Implemented''),
      (502, ''Bad Gateway''), (503, ''Service Unavailable'')] n of None \<Rightarrow> [] | Some t \<Rightarrow> t)"

definition problemTitle :: "string \<Rightarrow> int \<Rightarrow> string" where
  "problemTitle code status =
     (case map_of
        [(''BAD_REQUEST'', ''Bad Request''), (''UNAUTHORIZED'', ''Unauthorized''),
         (''FORBIDDEN'', ''Forbidden''), (''CONFLICT'', ''Conflict''), (''NOT_FOUND'', ''Not Found''),
         (''INTERNAL'', ''Internal Server Error''), (''RATE_LIMITED'', ''Too Many Requests''),
         (''DEPENDENCY_UNREADY'', ''Service Unavailable''),
         (''INVALID_OR_EXPIRED_TOKEN'', ''Invalid or Expired Token''),
         (''EMAIL_UNVERIFIED'', ''Email Unverified'')] (ToUpper (TrimSpace code)) of
        Some title \<Rightarrow> title
      | None \<Rightarrow> if StatusText status \<noteq> [] then StatusText status else ''Error'')"

definition response_JSON :: "string \<Rightarrow> request \<Rightarrow> headers \<Rightarrow> int \<Rightarrow> json \<Rightarrow> response" where
  "response_JSON reqID r hs status data =
     \<lparr>rs_Status = status, rs_Headers = header_set ''Content-Type'' ''application/json'' hs,
      rs_Body = Success data (buildMeta reqID r)\<rparr>"

definition response_Error ::
    "string \<Rightarrow> request \<Rightarrow> headers \<Rightarrow> int \<Rightarrow> string \<Rightarrow> string \<Rightarrow> (string \<times> string) list \<Rightarrow> response" where
  "response_Error reqID r hs status code message details =
     (if prefersProblemJSON r then
        \<lparr>rs_Status = status, rs_Headers = header_set ''Content-Type'' ''application/problem+json'' hs,
         rs_Body = Problem \<lparr>pd_Type = problemType code, pd_Title = problemTitle code status, pd_Status = status,
                            pd_Detail = message, pd_Instance = rq_Path r, pd_Code = code,
                            pd_RequestID = buildMeta reqID r\<rparr>\<rparr>
      else
        \<lparr>rs_Status = status, rs_Headers = header_set ''Content-Type'' ''application/json'' hs,
         rs_Body = Envelope \<lparr>ae_Code = code, ae_Message = message, ae_Details = details\<rparr> (buildMeta reqID r)\<rparr>)"

lemma rs_Status_JSON [simp]: "rs_Status (response_JSON reqID r hs status data) = status"
  by (simp add: response_JSON_def)

lemma rs_Status_Error [simp]: "rs_Status (response_Error reqID r hs status code msg det) = status"
  by (simp add: response_Error_def)

subsection \<open>Authentication, CSRF, CORS and security headers\<close>

definition access_token_of :: "request \<Rightarrow> string" where
  "access_token_of r =
     (let raw = GetCookie r ''access_token'' in
      if raw = [] then
        (let auth = header_get ''Authorization'' (rq_Headers r)
         in if HasPrefix (ToLower auth) ''bearer '' then TrimSpace (drop 7 auth) else raw)
      else raw)"

definition AuthMiddleware :: "jwtlib \<Rightarrow> jwt_manager \<Rightarrow> gotime \<Rightarrow> string \<Rightarrow> 'w handler \<Rightarrow> 'w handler" where
  "AuthMiddleware L jwtMgr now reqID next_h = (\<lambda>r hs w.
     let raw = access_token_of r in
     if raw = [] then (response_Error reqID r hs 401 ''UNAUTHORIZED'' ''missing access token'' [], w)
     else (case ParseAccessToken L jwtMgr now raw of
             Inl e \<Rightarrow> (response_Error reqID r hs 401 ''UNAUTHORIZED'' ''invalid access token'' [], w)
           | Inr claims \<Rightarrow> next_h (r\<lparr>rq_Claims := Some claims\<rparr>) hs w))"

definition ClaimsFromContext :: "request \<Rightarrow> claims option" where
  "ClaimsFromContext r = rq_Claims r"

definition SecurityHeaders :: "'w handler \<Rightarrow> 'w handler" where
  "SecurityHeaders next_h = (\<lambda>r hs w.
     let hs = header_set ''X-Content-Type-Options'' ''nosniff'' hs;
         hs = header_set ''X-Frame-Options'' ''DENY'' hs;
         hs = header_set ''Referrer-Policy'' ''strict-origin-when-cross-origin'' hs;
         hs = header_set ''Content-Security-Policy'' (''default-src '' @ [CHR 0x27] @ ''self'' @ [CHR 0x27]) hs;
         hs = (if rq_TLS r then header_set ''Strict-Transport-Security'' ''max-age=31536000; includeSubDomains'' hs
               else hs)
     in next_h r hs w)"

definition CORS :: "string list \<Rightarrow> 'w handler \<Rightarrow> 'w handler" where
  "CORS allowedOrigins next_h = (\<lambda>r hs w.
     let origin = header_get ''Origin'' (rq_Headers r);
         hs = (if origin \<noteq> [] then
                 (let hs = (if origin \<in> set allowedOrigins
                            then header_set ''Vary'' ''Origin'' (header_set ''Access-Control-Allow-Origin'' origin hs)
                            else hs);
                      hs = header_set ''Access-Control-Allow-Credentials'' ''true'' hs;
                      hs = header_set ''Access-Control-Allow-Headers'' ''Content-Type, Authorization, X-CSRF-Token'' hs
                  in header_set ''Access-Control-Allow-Methods'' ''GET, POST, PUT, PATCH, OPTIONS'' hs)
               else hs)
     in if rq_Method r = ''OPTIONS'' then (\<lparr>rs_Status = 204, rs_Headers = hs, rs_Body = NoBody\<rparr>, w)
        else next_h r hs w)"

text \<open>
  \<open>rq_Body\<close> is what reading the body to its end gives, so \<open>http.MaxBytesReader\<close> turns a longer body into
  an error.
\<close>

definition BodyLimit :: "nat \<Rightarrow> 'w handler \<Rightarrow> 'w handler" where
  "BodyLimit maxBytes next_h = (\<lambda>r hs w.
     next_h (r\<lparr>rq_Body := (case rq_Body r of
         Inl e \<Rightarrow> Inl e
       | Inr b \<Rightarrow> if length b > maxBytes then Inl (External ''http: request body too large'') else Inr b)\<rparr>) hs w)"

lemma BodyLimit_BodyLimit: "BodyLimit m (BodyLimit n h) = BodyLimit (min m n) h"
  by (auto simp: BodyLimit_def fun_eq_iff split: sum.splits intro!: arg_cong [of _ _ "\<lambda>r. h r _ _"])

definition CSRFMiddleware :: "string \<Rightarrow> 'w handler \<Rightarrow> 'w handler" where
  "CSRFMiddleware reqID next_h = (\<lambda>r hs w.
     let meth = ToUpper (rq_Method r) in
     if meth = ''GET'' \<or> meth = ''HEAD'' \<or> meth = ''OPTIONS'' then next_h r hs w
     else (case map_of (rq_Cookies r) ''csrf_token'' of
             None \<Rightarrow> (response_Error reqID r hs 403 ''FORBIDDEN'' ''invalid csrf token'' [], w)
           | Some v \<Rightarrow>
               if v = [] then (response_Error reqID r hs 403 ''FORBIDDEN'' ''invalid csrf token'' [], w)
               else if header_get ''X-Csrf-Token'' (rq_Headers r) \<noteq> v
                    then (response_Error reqID r hs 403 ''FORBIDDEN'' ''invalid csrf token'' [], w)
               else next_h r hs w))"

subsection \<open>What reaches a handler\<close>

definition csrf_ok :: "request \<Rightarrow> bool" where
  "csrf_ok r \<longleftrightarrow> (\<exists>v. map_of (rq_Cookies r) ''csrf_token'' = Some v \<and> v \<noteq> []
                      \<and> header_get ''X-Csrf-Token'' (rq_Headers r) = v)"

definition safe_method :: "request \<Rightarrow> bool" where
  "safe_method r \<longleftrightarrow> ToUpper (rq_Method r) \<in> {''GET'', ''HEAD'', ''OPTIONS''}"

lemma CSRF_cases:
  "CSRFMiddleware reqID next_h r hs w =
     (if safe_method r \<or> csrf_ok r then next_h r hs w
      else (response_Error reqID r hs 403 ''FORBIDDEN'' ''invalid csrf token'' [], w))"
  unfolding CSRFMiddleware_def Let_def safe_method_def csrf_ok_def
  by (cases "map_of (rq_Cookies r) ''csrf_token''") simp_all

lemma Auth_cases:
  "AuthMiddleware L m now reqID next_h r hs w =
     (case (if access_token_of r = [] then Inl ''missing access token''
            else case ParseAccessToken L m now (access_token_of r) of
                   Inl e \<Rightarrow> Inl ''invalid access token'' | Inr c \<Rightarrow> Inr c) of
        Inl msg \<Rightarrow> (response_Error reqID r hs 401 ''UNAUTHORIZED'' msg [], w)
      | Inr c \<Rightarrow> next_h (r\<lparr>rq_Claims := Some c\<rparr>) hs w)"
  unfolding AuthMiddleware_def Let_def by (simp split: sum.splits)

lemma claims_do_not_matter [simp]:
  "csrf_ok (r\<lparr>rq_Claims := c\<rparr>) = csrf_ok r" "safe_method (r\<lparr>rq_Claims := c\<rparr>) = safe_method r"
  by (simp_all add: csrf_ok_def safe_method_def)

text \<open>
  On the routes guarded by \<open>AuthMiddleware\<close> and \<open>CSRFMiddleware\<close> a request changes the
  application only when it carries a valid access token and, unless it is a safe request, the CSRF
  token of its cookie in the header; the handler then sees the claims of that token, which is an
  unexpired access token of the configured issuer.  Every other request is answered 401 or 403 and
  changes nothing.
\<close>

theorem guarded_route:
  assumes "jwt_library L"
    and "AuthMiddleware L m now reqID (CSRFMiddleware reqID next_h) r hs w = (resp, w')"
  shows "(\<exists>c. ParseAccessToken L m now (access_token_of r) = Inr c \<and> cl_TokenType c = ''access''
            \<and> cl_Issuer c = jm_issuer m \<and> (\<forall>e. cl_ExpiresAt c = Some e \<longrightarrow> now < e)
            \<and> (safe_method r \<or> csrf_ok r)
            \<and> (resp, w') = next_h (r\<lparr>rq_Claims := Some c\<rparr>) hs w)
       \<or> (rs_Status resp \<in> {401, 403} \<and> w' = w)"
proof (cases "ParseAccessToken L m now (access_token_of r)")
  case (Inl e)
  with assms(2) show ?thesis by (auto simp: Auth_cases split: if_splits)
next
  case (Inr c)
  note ok = jwt_library.jwt_parse_checked [OF assms(1) Inr [unfolded ParseAccessToken_def]]
  show ?thesis
  proof (cases "access_token_of r = [] \<or> \<not> (safe_method r \<or> csrf_ok r)")
    case True
    with assms(2) Inr show ?thesis by (auto simp: Auth_cases CSRF_cases split: if_splits)
  next
    case False
    with assms(2) Inr have "(resp, w') = next_h (r\<lparr>rq_Claims := Some c\<rparr>) hs w"
      by (auto simp: Auth_cases CSRF_cases)
    with False Inr ok show ?thesis by blast
  qed
qed

definition demo_request :: "string \<Rightarrow> request" where
  "demo_request meth = \<lparr>rq_Method = meth, rq_Path = ''/'', rq_Headers = [], rq_Cookies = [], rq_RemoteAddr = [],
     rq_TLS = False, rq_Body = Inr [], rq_Claims = None, rq_RoutePattern = ''/'', rq_Query = [], rq_Params = []\<rparr>"

theorem guarded_route_witness:
  "rs_Status (fst (AuthMiddleware mem_jwt demo_manager 0 [] (CSRFMiddleware []
       (\<lambda>r hs w. (\<lparr>rs_Status = 200, rs_Headers = hs, rs_Body = NoBody\<rparr>, w + (1::nat)))) (demo_request ''POST'') [] 0))
     \<in> {401, 403}"
proof -
  let ?next = "\<lambda>r hs w. (\<lparr>rs_Status = 200, rs_Headers = hs, rs_Body = NoBody\<rparr>, w + (1::nat))"
  have none: "access_token_of (demo_request ''POST'') = []"
    by (simp add: access_token_of_def demo_request_def GetCookie_def header_get_def HasPrefix_def ToLower_def)
  obtain resp w' where run: "AuthMiddleware mem_jwt demo_manager 0 [] (CSRFMiddleware [] ?next)
      (demo_request ''POST'') [] 0 = (resp, w')" by fastforce
  have "w' = 0" using run by (simp add: AuthMiddleware_def none)
  with guarded_route [OF mem_jwt.jwt_library_axioms run] show ?thesis unfolding run by auto
qed

text \<open>
  The preflight answer names the methods and headers a browser may use across origins; \<open>DELETE\<close> and
  \<open>Idempotency-Key\<close> are not among them, whatever the configuration.
\<close>

lemma CORS_preflight:
  assumes "header_get ''Origin'' (rq_Headers r) \<noteq> []" "rq_Method r = ''OPTIONS''"
  shows "header_get ''Access-Control-Allow-Methods'' (rs_Headers (fst (CORS origins next_h r hs w)))
           = ''GET, POST, PUT, PATCH, OPTIONS''
       \<and> header_get ''Access-Control-Allow-Headers'' (rs_Headers (fst (CORS origins next_h r hs w)))
           = ''Content-Type, Authorization, X-CSRF-Token''"
  using assms by (simp add: CORS_def Let_def)

text \<open>
  An origin is allowed only if it is configured: \<open>CORS\<close> hands on (or answers a preflight
  with) an \<open>Access-Control-Allow-Origin\<close> header only for a configured origin, and then it is exactly
  the origin of the request; for any other request that header is left as it was.
\<close>

theorem CORS_allows_configured_origins:
  "\<exists>hs'. CORS origins next_h r hs w
       = (if rq_Method r = ''OPTIONS'' then (\<lparr>rs_Status = 204, rs_Headers = hs', rs_Body = NoBody\<rparr>, w)
          else next_h r hs' w)
     \<and> header_get ''Access-Control-Allow-Origin'' hs'
       = (let origin = header_get ''Origin'' (rq_Headers r)
          in if origin \<noteq> [] \<and> origin \<in> set origins then origin
             else header_get ''Access-Control-Allow-Origin'' hs)"
  by (rule exI [of _ "let origin = header_get ''Origin'' (rq_Headers r);
         hs1 = (if origin \<noteq> [] then
                 (let hs = (if origin \<in> set origins
                            then header_set ''Vary'' ''Origin'' (header_set ''Access-Control-Allow-Origin'' origin hs)
                            else hs);
                      hs = header_set ''Access-Control-Allow-Credentials'' ''true'' hs;
                      hs = header_set ''Access-Control-Allow-Headers'' ''Content-Type, Authorization, X-CSRF-Token'' hs
                  in header_set ''Access-Control-Allow-Methods'' ''GET, POST, PUT, PATCH, OPTIONS'' hs)
               else hs) in hs1"]) (simp add: CORS_def Let_def)

end
