(* ===== verification/Redis.thy ===== *)
theory Redis
  imports Go_Prelude
begin

section \<open>Redis as a parameter\<close>

text \<open>
  Redis is a service outside the repository.  Its commands are a record \<open>'r redis\<close> over the state
  \<open>'r\<close> of the server; every command takes the server's clock in milliseconds.  The locale
  \<open>redis_server\<close> states what the documentation of Redis says of them: there is a view of the state as
  a map from keys to values with an optional time of expiry, and each command acts on the view as
  written out in the definitions \<open>v_*\<close> below; a key whose time has come is absent.

  The connection may fail: a call of the client sees \<open>Refused\<close> when nothing was executed and
  \<open>ReplyLost\<close> when the command or script was executed but the answer did not arrive.
  A Lua script and a \<open>TxPipeline\<close> are executed atomically, which is one call.
\<close>

datatype rvalue =
    RStr string
  | RHash "string \<Rightarrow> string option"
  | RSet "string list"
  | RZset "(string \<times> int) list"

type_synonym rview = "string \<Rightarrow> (rvalue \<times> int option) option"

datatype net = Up | Refused goerr | ReplyLost goerr

definition redis_call :: "net \<Rightarrow> ('r \<Rightarrow> 'a \<times> 'r) \<Rightarrow> 'r \<Rightarrow> 'a result \<times> 'r" where
  "redis_call n f r =
     (case n of
        Up \<Rightarrow> (case f r of (a, r') \<Rightarrow> (Inr a, r'))
      | Refused e \<Rightarrow> (Inl e, r)
      | ReplyLost e \<Rightarrow> (Inl e, snd (f r)))"

record 'r redis =
  rd_EXISTS :: "int \<Rightarrow> string \<Rightarrow> 'r \<Rightarrow> bool"
  rd_GET :: "int \<Rightarrow> string \<Rightarrow> 'r \<Rightarrow> string option"
  rd_SET :: "int \<Rightarrow> string \<Rightarrow> string \<Rightarrow> int option \<Rightarrow> 'r \<Rightarrow> 'r"
  rd_DEL :: "string list \<Rightarrow> 'r \<Rightarrow> 'r"
  rd_INCR :: "int \<Rightarrow> string \<Rightarrow> 'r \<Rightarrow> int \<times> 'r"
  rd_PEXPIRE :: "int \<Rightarrow> string \<Rightarrow> int \<Rightarrow> 'r \<Rightarrow> 'r"
  rd_HGET :: "int \<Rightarrow> string \<Rightarrow> string \<Rightarrow> 'r \<Rightarrow> string option"
  rd_HSET :: "int \<Rightarrow> string \<Rightarrow> (string \<times> string) list \<Rightarrow> 'r \<Rightarrow> 'r"
  rd_SADD :: "int \<Rightarrow> string \<Rightarrow> string \<Rightarrow> 'r \<Rightarrow> 'r"
  rd_SMEMBERS :: "int \<Rightarrow> string \<Rightarrow> 'r \<Rightarrow> string list"
  rd_ZADD :: "int \<Rightarrow> string \<Rightarrow> int \<Rightarrow> string \<Rightarrow> 'r \<Rightarrow> 'r"
  rd_ZREMRANGEBYSCORE :: "int \<Rightarrow> string \<Rightarrow> int \<Rightarrow> 'r \<Rightarrow> 'r"
  rd_ZCARD :: "int \<Rightarrow> string \<Rightarrow> 'r \<Rightarrow> nat"
  rd_ZRANGE_first :: "int \<Rightarrow> string \<Rightarrow> 'r \<Rightarrow> (string \<times> int) option"

subsection \<open>The commands on the view\<close>

definition alive :: "int \<Rightarrow> rview \<Rightarrow> string \<Rightarrow> (rvalue \<times> int option) option" where
  "alive now V k = (case V k of
       None \<Rightarrow> None
     | Some (v, e) \<Rightarrow> if (case e of None \<Rightarrow> True | Some t \<Rightarrow> now < t) then Some (v, e) else None)"

definition v_GET :: "int \<Rightarrow> string \<Rightarrow> rview \<Rightarrow> string option" where
  "v_GET now k V = (case alive now V k of Some (RStr s, e) \<Rightarrow> Some s | _ \<Rightarrow> None)"

definition v_SET :: "int \<Rightarrow> string \<Rightarrow> string \<Rightarrow> int option \<Rightarrow> rview \<Rightarrow> rview" where
  "v_SET now k s ttl V = V(k \<mapsto> (RStr s, map_option (\<lambda>ms. now + ms) ttl))"

definition v_DEL :: "string list \<Rightarrow> rview \<Rightarrow> rview" where
  "v_DEL ks V = (\<lambda>k. if k \<in> set ks then None else V k)"

text \<open>\<open>INCR\<close> on a key that is absent or holds a decimal number, which is how the sources use it.\<close>

definition v_counter :: "int \<Rightarrow> string \<Rightarrow> rview \<Rightarrow> nat" where
  "v_counter now k V = (case v_GET now k V of
       None \<Rightarrow> 0 | Some s \<Rightarrow> (case ParseUint s of None \<Rightarrow> 0 | Some n \<Rightarrow> n))"

definition v_INCR :: "int \<Rightarrow> string \<Rightarrow> rview \<Rightarrow> int \<times> rview" where
  "v_INCR now k V =
     (let n = Suc (v_counter now k V)
      in (int n, V(k \<mapsto> (RStr (FormatUint n), case alive now V k of None \<Rightarrow> None | Some (v, e) \<Rightarrow> e))))"

definition v_PEXPIRE :: "int \<Rightarrow> string \<Rightarrow> int \<Rightarrow> rview \<Rightarrow> rview" where
  "v_PEXPIRE now k ms V = (case alive now V k of
       None \<Rightarrow> V
     | Some (v, e) \<Rightarrow> if ms \<le> 0 then V(k := None) else V(k \<mapsto> (v, Some (now + ms))))"

definition v_HGET :: "int \<Rightarrow> string \<Rightarrow> string \<Rightarrow> rview \<Rightarrow> string option" where
  "v_HGET now k f V = (case alive now V k of Some (RHash h, e) \<Rightarrow> h f | _ \<Rightarrow> None)"

definition v_HSET :: "int \<Rightarrow> string \<Rightarrow> (string \<times> string) list \<Rightarrow> rview \<Rightarrow> rview" where
  "v_HSET now k fs V = (case alive now V k of
       None \<Rightarrow> V(k \<mapsto> (RHash (map_of (rev fs)), None))
     | Some (RHash h, e) \<Rightarrow> V(k \<mapsto> (RHash (h ++ map_of (rev fs)), e))
     | Some _ \<Rightarrow> V)"

definition v_SMEMBERS :: "int \<Rightarrow> string \<Rightarrow> rview \<Rightarrow> string list" where
  "v_SMEMBERS now k V = (case alive now V k of Some (RSet s, e) \<Rightarrow> s | _ \<Rightarrow> [])"

definition v_SADD :: "int \<Rightarrow> string \<Rightarrow> string \<Rightarrow> rview \<Rightarrow> rview" where
  "v_SADD now k m V = (case alive now V k of
       None \<Rightarrow> V(k \<mapsto> (RSet [m], None))
     | Some (RSet s, e) \<Rightarrow> V(k \<mapsto> (RSet (List.insert m s), e))
     | Some _ \<Rightarrow> V)"

definition v_zset :: "int \<Rightarrow> string \<Rightarrow> rview \<Rightarrow> (string \<times> int) list" where
  "v_zset now k V = (case alive now V k of Some (RZset z, e) \<Rightarrow> z | _ \<Rightarrow> [])"

definition v_ZADD :: "int \<Rightarrow> string \<Rightarrow> int \<Rightarrow> string \<Rightarrow> rview \<Rightarrow> rview" where
  "v_ZADD now k score m V = (case alive now V k of
       None \<Rightarrow> V(k \<mapsto> (RZset [(m, score)], None))
     | Some (RZset z, e) \<Rightarrow>
         V(k \<mapsto> (RZset (sort_by (\<lambda>a b. snd a \<le> snd b) ((m, score) # filter (\<lambda>(m', _). m' \<noteq> m) z)), e))
     | Some _ \<Rightarrow> V)"

text \<open>\<open>ZREMRANGEBYSCORE key -inf bound\<close> removes the members with a score of at most \<open>bound\<close>.\<close>

definition v_ZREMRANGEBYSCORE :: "int \<Rightarrow> string \<Rightarrow> int \<Rightarrow> rview \<Rightarrow> rview" where
  "v_ZREMRANGEBYSCORE now k bnd V = (case alive now V k of
       Some (RZset z, e) \<Rightarrow>
         (let z' = filter (\<lambda>(m, s). bnd < s) z in if z' = [] then V(k := None) else V(k \<mapsto> (RZset z', e)))
     | _ \<Rightarrow> V)"

definition v_ZRANGE_first :: "int \<Rightarrow> string \<Rightarrow> rview \<Rightarrow> (string \<times> int) option" where
  "v_ZRANGE_first now k V =
     (case sort_by (\<lambda>a b. snd a \<le> snd b) (v_zset now k V) of [] \<Rightarrow> None | x # xs \<Rightarrow> Some x)"

subsection \<open>The laws\<close>

locale redis_server =
  fixes R :: "'r redis" and view :: "'r \<Rightarrow> rview"
  assumes exists_law [simp]: "rd_EXISTS R now k r \<longleftrightarrow> alive now (view r) k \<noteq> None"
    and get_law [simp]: "rd_GET R now k r = v_GET now k (view r)"
    and set_law [simp]: "view (rd_SET R now k s ttl r) = v_SET now k s ttl (view r)"
    and del_law [simp]: "view (rd_DEL R ks r) = v_DEL ks (view r)"
    and incr_val_law [simp]: "fst (rd_INCR R now k r) = fst (v_INCR now k (view r))"
    and incr_law [simp]: "view (snd (rd_INCR R now k r)) = snd (v_INCR now k (view r))"
    and pexpire_law [simp]: "view (rd_PEXPIRE R now k ms r) = v_PEXPIRE now k ms (view r)"
    and hget_law [simp]: "rd_HGET R now k f r = v_HGET now k f (view r)"
    and hset_law [simp]: "view (rd_HSET R now k fs r) = v_HSET now k fs (view r)"
    and sadd_law [simp]: "view (rd_SADD R now k m r) = v_SADD now k m (view r)"
    and smembers_law [simp]: "set (rd_SMEMBERS R now k r) = set (v_SMEMBERS now k (view r))"
    and zadd_law [simp]: "view (rd_ZADD R now k sc m r) = v_ZADD now k sc m (view r)"
    and zrem_law [simp]: "view (rd_ZREMRANGEBYSCORE R now k b r) = v_ZREMRANGEBYSCORE now k b (view r)"
    and zcard_law [simp]: "rd_ZCARD R now k r = length (v_zset now k (view r))"
    and zrange_law [simp]: "rd_ZRANGE_first R now k r = v_ZRANGE_first now k (view r)"

text \<open>The reference server, whose state is the view.\<close>

definition mem_redis :: "rview redis" where
  "mem_redis =
     \<lparr>rd_EXISTS = (\<lambda>now k V. alive now V k \<noteq> None), rd_GET = v_GET, rd_SET = v_SET, rd_DEL = v_DEL,
      rd_INCR = v_INCR, rd_PEXPIRE = v_PEXPIRE, rd_HGET = v_HGET, rd_HSET = v_HSET, rd_SADD = v_SADD,
      rd_SMEMBERS = v_SMEMBERS, rd_ZADD = v_ZADD, rd_ZREMRANGEBYSCORE = v_ZREMRANGEBYSCORE,
      rd_ZCARD = (\<lambda>now k V. length (v_zset now k V)), rd_ZRANGE_first = v_ZRANGE_first\<rparr>"

interpretation mem_redis: redis_server mem_redis id
  by unfold_locales (simp_all add: mem_redis_def)

lemma alive_upd [simp]:
  "alive now (V(k \<mapsto> (v, e))) k' = (if k' = k then (if (case e of None \<Rightarrow> True | Some t \<Rightarrow> now < t)
       then Some (v, e) else None) else alive now V k')"
  "alive now (V(k := None)) k' = (if k' = k then None else alive now V k')"
  by (simp_all add: alive_def)

lemma alive_later: "alive t V k \<noteq> None \<Longrightarrow> t' \<le> t \<Longrightarrow> alive t' V k = alive t V k"
  by (auto simp: alive_def split: option.splits if_splits prod.splits)

end
