(* ===== verification/Idempotency.thy ===== *)
theory Idempotency
  imports Http Domain Redis
begin

section \<open>Idempotency keys: \<open>idempotency_store*.go\<close> and \<open>idempotency_middleware.go\<close>\<close>

text \<open>
  The interface \<open>IdempotencyStore\<close> with its two implementations, the database table (one transaction
  per \<open>Begin\<close>, retried when a concurrent insertion wins) and Redis (two Lua scripts), and the
  middleware that runs a handler under a key.

  The locale \<open>idempotency_store\<close> is the contract of the interface: an abstract view of what is stored
  under a scope and key at a time, and how the two operations act on it.  What a client may rely on
  (a key is handed out once within its lifetime, and a completed answer is what is replayed) is
  proved in the locale and instantiated for both implementations.
\<close>

datatype IdempotencyState =
    IdempotencyStateNew
  | IdempotencyStateReplay
  | IdempotencyStateConflict
  | IdempotencyStateInProgress

record CachedHTTPResponse =
  cr_StatusCode :: int
  cr_ContentType :: string
  cr_Body :: string

record IdempotencyBeginResult =
  br_State :: IdempotencyState
  br_Cached :: "CachedHTTPResponse option"

subsection \<open>The store in the database\<close>

text \<open>The text of an error, for the errors a driver returns.\<close>

definition error_text :: "goerr \<Rightarrow> string" where
  "error_text e = (case e of
       External s \<Rightarrow> s | Errorf s \<Rightarrow> s | ErrRecordNotFound \<Rightarrow> ''record not found'' | _ \<Rightarrow> [])"

definition isUniqueConstraintErr :: "goerr \<Rightarrow> bool" where
  "isUniqueConstraintErr err =
     (let lower = ToLower (error_text err)
      in Contains lower ''unique constraint'' \<or> Contains lower ''duplicate key''
         \<or> Contains lower ''unique violation'')"

definition new_idem_record :: "string \<Rightarrow> string \<Rightarrow> string \<Rightarrow> gotime \<Rightarrow> idempotency_record" where
  "new_idem_record scope key fingerprint expires =
     \<lparr>ir_ID = 0, ir_Scope = scope, ir_IdempotencyKey = key, ir_FingerprintHash = fingerprint,
      ir_Status = ''new'', ir_ResponseStatus = 0, ir_ResponseBody = [], ir_ContentType = [],
      ir_ExpiresAt = expires, ir_CreatedAt = 0\<rparr>"

definition reset_idem_record :: "string \<Rightarrow> gotime \<Rightarrow> idempotency_record \<Rightarrow> idempotency_record" where
  "reset_idem_record fingerprint expires r =
     r\<lparr>ir_FingerprintHash := fingerprint, ir_Status := ''new'', ir_ResponseStatus := 0, ir_ResponseBody := [],
       ir_ContentType := [], ir_ExpiresAt := expires\<rparr>"

definition cached_of :: "idempotency_record \<Rightarrow> CachedHTTPResponse" where
  "cached_of r = \<lparr>cr_StatusCode = ir_ResponseStatus r, cr_ContentType = ir_ContentType r, cr_Body = ir_ResponseBody r\<rparr>"

text \<open>One run of the transaction of \<open>Begin\<close>; an error rolls it back.\<close>

definition idem_begin_tx ::
    "idempotency_record gorm \<Rightarrow> gotime \<Rightarrow> string \<Rightarrow> string \<Rightarrow> string \<Rightarrow> duration \<Rightarrow> idempotency_record list
     \<Rightarrow> IdempotencyBeginResult result \<times> idempotency_record list" where
  "idem_begin_tx G now scope key fingerprint ttl t =
     (case gorm_First G (\<lambda>r. ir_Scope r = scope \<and> ir_IdempotencyKey r = key) t of
        Inl err \<Rightarrow>
          if err = ErrRecordNotFound then
            (case gorm_Create G (new_idem_record scope key fingerprint (now + ttl)) t of
               Inl createErr \<Rightarrow>
                 (Inl (if isUniqueConstraintErr createErr then ErrRetryableReadConflict else createErr), t)
             | Inr (r, t') \<Rightarrow> (Inr \<lparr>br_State = IdempotencyStateNew, br_Cached = None\<rparr>, t'))
          else (Inl err, t)
      | Inr rec \<Rightarrow>
          if ir_ExpiresAt rec < now then
            (case gorm_Updates G (\<lambda>r. ir_ID r = ir_ID rec)
                    (\<lambda>_. reset_idem_record fingerprint (now + ttl) rec) t of
               Inl saveErr \<Rightarrow> (Inl saveErr, t)
             | Inr (n, t') \<Rightarrow> (Inr \<lparr>br_State = IdempotencyStateNew, br_Cached = None\<rparr>, t'))
          else if ir_FingerprintHash rec \<noteq> fingerprint then
            (Inr \<lparr>br_State = IdempotencyStateConflict, br_Cached = None\<rparr>, t)
          else if ir_Status rec = ''completed'' then
            (Inr \<lparr>br_State = IdempotencyStateReplay, br_Cached = Some (cached_of rec)\<rparr>, t)
          else (Inr \<lparr>br_State = IdempotencyStateInProgress, br_Cached = None\<rparr>, t))"

text \<open>
  \<open>Begin\<close> runs the transaction again as long as it ends in a read conflict.  \<open>tabs i\<close> is the table
  the \<open>i\<close>-th attempt finds, which other requests may have changed since.
\<close>

partial_function (option) idem_begin_from ::
    "(nat \<Rightarrow> IdempotencyBeginResult result \<times> idempotency_record list) \<Rightarrow> nat
     \<Rightarrow> (IdempotencyBeginResult result \<times> idempotency_record list) option" where
  "idem_begin_from attempt i =
     (if fst (attempt i) = Inl ErrRetryableReadConflict then idem_begin_from attempt (Suc i)
      else Some (attempt i))"

definition DBIdempotencyStore_Begin ::
    "idempotency_record gorm \<Rightarrow> clock \<Rightarrow> string \<Rightarrow> string \<Rightarrow> string \<Rightarrow> duration \<Rightarrow> (nat \<Rightarrow> idempotency_record list)
     \<Rightarrow> (IdempotencyBeginResult result \<times> idempotency_record list) option" where
  "DBIdempotencyStore_Begin G clk scope key fingerprint ttl tabs =
     idem_begin_from (\<lambda>i. idem_begin_tx G (clk i) scope key fingerprint ttl (tabs i)) 0"

definition complete_idem_record :: "CachedHTTPResponse \<Rightarrow> gotime \<Rightarrow> idempotency_record \<Rightarrow> idempotency_record" where
  "complete_idem_record resp expires r =
     r\<lparr>ir_Status := ''completed'', ir_ResponseStatus := cr_StatusCode resp, ir_ResponseBody := cr_Body resp,
       ir_ContentType := cr_ContentType resp, ir_ExpiresAt := expires\<rparr>"

definition DBIdempotencyStore_Complete ::
    "idempotency_record gorm \<Rightarrow> gotime \<Rightarrow> string \<Rightarrow> string \<Rightarrow> string \<Rightarrow> CachedHTTPResponse \<Rightarrow> duration
     \<Rightarrow> idempotency_record list \<Rightarrow> unit result \<times> idempotency_record list" where
  "DBIdempotencyStore_Complete G now scope key fingerprint resp ttl t =
     (case gorm_Updates G
             (\<lambda>r. ir_Scope r = scope \<and> ir_IdempotencyKey r = key \<and> ir_FingerprintHash r = fingerprint
                  \<and> ir_Status r \<noteq> ''completed'')
             (complete_idem_record resp (now + ttl)) t of
        Inl e \<Rightarrow> (Inl e, t) | Inr (n, t') \<Rightarrow> (Inr (), t'))"

definition DBIdempotencyStore_CleanupExpired ::
    "idempotency_record gorm \<Rightarrow> gotime \<Rightarrow> int \<Rightarrow> idempotency_record list \<Rightarrow> nat result \<times> idempotency_record list" where
  "DBIdempotencyStore_CleanupExpired G now batchSize t =
     (let n = nat (if batchSize \<le> 0 then 500 else batchSize);
          sub = take n (sort (map ir_ID (filter (\<lambda>r. ir_ExpiresAt r \<le> now) t)))
      in case gorm_Delete G (\<lambda>r. ir_ID r \<in> set sub) t of
           Inl e \<Rightarrow> (Inl e, t) | Inr (n, t') \<Rightarrow> (Inr n, t'))"

subsection \<open>The store in Redis\<close>

definition lua_or :: "string option \<Rightarrow> string" where
  "lua_or v = (case v of None \<Rightarrow> [] | Some s \<Rightarrow> s)"

definition redisIdempotencyBeginScript ::
    "'r redis \<Rightarrow> int \<Rightarrow> string \<Rightarrow> string \<Rightarrow> int \<Rightarrow> 'r \<Rightarrow> string list \<times> 'r" where
  "redisIdempotencyBeginScript R now key fingerprint ttl_ms r =
     (if \<not> rd_EXISTS R now key r then
        (let r1 = rd_HSET R now key [(''fingerprint'', fingerprint), (''status'', ''new'')] r;
             r2 = rd_PEXPIRE R now key ttl_ms r1
         in ([''new''], r2))
      else if rd_HGET R now key ''fingerprint'' r \<noteq> Some fingerprint then ([''conflict''], r)
      else if rd_HGET R now key ''status'' r = Some ''completed'' then
        ([''replay'', lua_or (rd_HGET R now key ''response_status'' r),
          lua_or (rd_HGET R now key ''content_type'' r), lua_or (rd_HGET R now key ''response_body'' r)], r)
      else ([''in_progress''], r))"

definition redisIdempotencyCompleteScript ::
    "'r redis \<Rightarrow> int \<Rightarrow> string \<Rightarrow> string \<Rightarrow> int \<Rightarrow> string \<Rightarrow> string \<Rightarrow> string \<Rightarrow> 'r \<Rightarrow> int \<times> 'r" where
  "redisIdempotencyCompleteScript R now key fingerprint ttl_ms status_code content_type response_body r =
     (if \<not> rd_EXISTS R now key r then (0, r)
      else if rd_HGET R now key ''fingerprint'' r \<noteq> Some fingerprint then (-1, r)
      else
        (let r1 = rd_HSET R now key [(''status'', ''completed''), (''response_status'', status_code),
                    (''content_type'', content_type), (''response_body'', response_body)] r
         in (1, rd_PEXPIRE R now key ttl_ms r1)))"

definition RedisIdempotencyStore_redisKey :: "string \<Rightarrow> string \<Rightarrow> string \<Rightarrow> string" where
  "RedisIdempotencyStore_redisKey pfx scope key = pfx @ '':'' @ scope @ '':'' @ key"

text \<open>\<open>int(ttl/time.Millisecond)\<close>, a division that drops the fraction towards zero.\<close>

definition ttl_millis :: "duration \<Rightarrow> int" where
  "ttl_millis ttl = sgn ttl * (\<bar>ttl\<bar> div milliseconds 1)"

definition decode_begin :: "string list \<Rightarrow> IdempotencyBeginResult result" where
  "decode_begin values =
     (case values of
        [] \<Rightarrow> Inl (Errorf ''unexpected redis begin result type'')
      | state # rest \<Rightarrow>
          if state = ''new'' then Inr \<lparr>br_State = IdempotencyStateNew, br_Cached = None\<rparr>
          else if state = ''conflict'' then Inr \<lparr>br_State = IdempotencyStateConflict, br_Cached = None\<rparr>
          else if state = ''in_progress'' then Inr \<lparr>br_State = IdempotencyStateInProgress, br_Cached = None\<rparr>
          else if state = ''replay'' then
            (case rest of
               status_raw # content_type # body_raw # _ \<Rightarrow>
                 (case Atoi status_raw of
                    None \<Rightarrow> Inl (Errorf ''parse replay status'')
                  | Some status \<Rightarrow>
                      (case StdDecode body_raw of
                         None \<Rightarrow> Inl (Errorf ''decode replay body'')
                       | Some decoded \<Rightarrow>
                           Inr \<lparr>br_State = IdempotencyStateReplay,
                                br_Cached = Some \<lparr>cr_StatusCode = status, cr_ContentType = content_type,
                                                  cr_Body = decoded\<rparr>\<rparr>))
             | _ \<Rightarrow> Inl (Errorf ''unexpected replay payload''))
          else Inl (Errorf ''unknown idempotency state''))"

definition RedisIdempotencyStore_Begin ::
    "'r redis \<Rightarrow> net \<Rightarrow> int \<Rightarrow> string \<Rightarrow> string \<Rightarrow> string \<Rightarrow> string \<Rightarrow> duration \<Rightarrow> 'r
     \<Rightarrow> IdempotencyBeginResult result \<times> 'r" where
  "RedisIdempotencyStore_Begin R n now pfx scope key fingerprint ttl r =
     (case redis_call n (redisIdempotencyBeginScript R now (RedisIdempotencyStore_redisKey pfx scope key)
                           fingerprint (ttl_millis ttl)) r of
        (Inl e, r') \<Rightarrow> (Inl e, r')
      | (Inr values, r') \<Rightarrow> (decode_begin values, r'))"

definition RedisIdempotencyStore_Complete ::
    "'r redis \<Rightarrow> net \<Rightarrow> int \<Rightarrow> string \<Rightarrow> string \<Rightarrow> string \<Rightarrow> string \<Rightarrow> CachedHTTPResponse \<Rightarrow> duration \<Rightarrow> 'r
     \<Rightarrow> unit result \<times> 'r" where
  "RedisIdempotencyStore_Complete R n now pfx scope key fingerprint resp ttl r =
     (case redis_call n (redisIdempotencyCompleteScript R now (RedisIdempotencyStore_redisKey pfx scope key)
                           fingerprint (ttl_millis ttl) (FormatInt (cr_StatusCode resp))
                           (cr_ContentType resp) (StdEncode (cr_Body resp))) r of
        (Inl e, r') \<Rightarrow> (Inl e, r') | (Inr code, r') \<Rightarrow> (Inr (), r'))"

subsection \<open>The contract of the interface\<close>

text \<open>
  \<open>slot t scope key s\<close> is what is stored under a key at time \<open>t\<close> if nothing happens until then: nothing,
  or the fingerprint of the request that holds it and its answer once it has completed.  The
  relations \<open>begins\<close> and \<open>completes\<close> are the possible outcomes of the two operations, failures included;
  \<open>life\<close> converts a lifetime to the unit of the store's clock, \<open>ok\<close> is the store's invariant and
  \<open>plain\<close> restricts the scopes to those the store keeps apart.
\<close>

type_synonym idem_slot = "(string \<times> CachedHTTPResponse option) option"

definition expected_begin :: "string \<Rightarrow> idem_slot \<Rightarrow> IdempotencyBeginResult" where
  "expected_begin fp sl =
     (case sl of
        None \<Rightarrow> \<lparr>br_State = IdempotencyStateNew, br_Cached = None\<rparr>
      | Some (fp', res) \<Rightarrow>
          if fp' \<noteq> fp then \<lparr>br_State = IdempotencyStateConflict, br_Cached = None\<rparr>
          else (case res of
                  None \<Rightarrow> \<lparr>br_State = IdempotencyStateInProgress, br_Cached = None\<rparr>
                | Some c \<Rightarrow> \<lparr>br_State = IdempotencyStateReplay, br_Cached = Some c\<rparr>))"

locale idempotency_store =
  fixes begins :: "int \<Rightarrow> string \<Rightarrow> string \<Rightarrow> string \<Rightarrow> duration \<Rightarrow> 's \<Rightarrow> IdempotencyBeginResult result \<Rightarrow> 's \<Rightarrow> bool"
    and completes :: "int \<Rightarrow> string \<Rightarrow> string \<Rightarrow> string \<Rightarrow> CachedHTTPResponse \<Rightarrow> duration \<Rightarrow> 's \<Rightarrow> unit result \<Rightarrow> 's \<Rightarrow> bool"
    and slot :: "int \<Rightarrow> string \<Rightarrow> string \<Rightarrow> 's \<Rightarrow> idem_slot"
    and ok :: "'s \<Rightarrow> bool" and plain :: "string \<Rightarrow> bool" and life :: "duration \<Rightarrow> int"
  assumes begin_ok: "begins now sc k fp ttl s res s' \<Longrightarrow> ok s \<Longrightarrow> ok s'"
    and complete_ok: "completes now sc k fp resp ttl s cres s' \<Longrightarrow> ok s \<Longrightarrow> ok s'"
    and begin_result: "begins now sc k fp ttl s (Inr b) s' \<Longrightarrow> ok s \<Longrightarrow> plain sc \<Longrightarrow>
      b = expected_begin fp (slot now sc k s)"
    and begin_keeps: "begins now sc k fp ttl s res s' \<Longrightarrow> ok s \<Longrightarrow> plain sc \<Longrightarrow> plain sc' \<Longrightarrow>
      slot now sc' k' s \<noteq> None \<Longrightarrow> now \<le> t \<Longrightarrow> slot t sc' k' s' = slot t sc' k' s"
    and begin_takes: "begins now sc k fp ttl s (Inr b) s' \<Longrightarrow> ok s \<Longrightarrow> plain sc \<Longrightarrow>
      br_State b = IdempotencyStateNew \<Longrightarrow> now \<le> t \<Longrightarrow> t < now + life ttl \<Longrightarrow> slot t sc k s' = Some (fp, None)"
    and complete_frame: "completes now sc k fp resp ttl s cres s' \<Longrightarrow> ok s \<Longrightarrow> plain sc \<Longrightarrow> plain sc' \<Longrightarrow>
      (sc', k') \<noteq> (sc, k) \<Longrightarrow> now \<le> t \<Longrightarrow> slot t sc' k' s' = slot t sc' k' s"
    and complete_keeps: "completes now sc k fp resp ttl s cres s' \<Longrightarrow> ok s \<Longrightarrow> plain sc \<Longrightarrow>
      slot t sc k s = Some (fp', r) \<Longrightarrow> now \<le> t \<Longrightarrow> t < now + life ttl \<Longrightarrow>
      slot t sc k s' = Some (fp', r) \<or> (fp' = fp \<and> slot t sc k s' = Some (fp', Some resp))"
    and complete_stores: "completes now sc k fp resp ttl s (Inr ()) s' \<Longrightarrow> ok s \<Longrightarrow> plain sc \<Longrightarrow>
      slot now sc k s = Some (fp, None) \<Longrightarrow> now \<le> t \<Longrightarrow> t < now + life ttl \<Longrightarrow>
      slot t sc k s' = Some (fp, Some resp)"
begin

text \<open>Requests of any clients on the store, in the order of the clock, all with the same lifetime.\<close>

inductive store_steps :: "duration \<Rightarrow> int \<Rightarrow> 's \<Rightarrow> int \<Rightarrow> 's \<Rightarrow> bool" for ttl where
  stop: "now \<le> now' \<Longrightarrow> store_steps ttl now s now' s"
| begin_step: "store_steps ttl now s t s1 \<Longrightarrow> t \<le> t1 \<Longrightarrow> plain sc \<Longrightarrow> begins t1 sc k fp ttl s1 res s2 \<Longrightarrow>
    t1 \<le> t2 \<Longrightarrow> store_steps ttl now s t2 s2"
| complete_step: "store_steps ttl now s t s1 \<Longrightarrow> t \<le> t1 \<Longrightarrow> plain sc \<Longrightarrow>
    completes t1 sc k fp resp ttl s1 cres s2 \<Longrightarrow> t1 \<le> t2 \<Longrightarrow> store_steps ttl now s t2 s2"

lemma store_steps_ok: "store_steps ttl now s t s' \<Longrightarrow> ok s \<Longrightarrow> ok s' \<and> now \<le> t"
  by (induction rule: store_steps.induct) (auto intro: begin_ok complete_ok order_trans)

lemma held_after:
  assumes "store_steps ttl now s t s'" "ok s" "plain sc"
    and "\<And>u. now \<le> u \<Longrightarrow> u < now + life ttl \<Longrightarrow> \<exists>r. slot u sc k s = Some (fp, r)"
  shows "t \<le> u \<Longrightarrow> u < now + life ttl \<Longrightarrow> \<exists>r. slot u sc k s' = Some (fp, r)"
  using assms
proof (induction arbitrary: u rule: store_steps.induct)
  case (stop now now' s)
  then show ?case by simp
next
  case (begin_step now s t s1 t1 sc' k' fp' res s2 t2)
  note ok1 = store_steps_ok [OF begin_step.hyps(1) begin_step.prems(3)]
  have held: "\<exists>r. slot v sc k s1 = Some (fp, r)" if "t \<le> v" "v < now + life ttl" for v
    by (rule begin_step.IH [OF that begin_step.prems(3-5)])
  have "t1 < now + life ttl" using begin_step by linarith
  then have "slot t1 sc k s1 \<noteq> None" using held [of t1] begin_step.hyps(2) by auto
  moreover have "t1 \<le> u" using begin_step by linarith
  ultimately have "slot u sc k s2 = slot u sc k s1"
    using begin_keeps [OF begin_step.hyps(4)] ok1 begin_step.hyps(3) begin_step.prems(4) by blast
  then show ?case using held [of u] begin_step \<open>t1 \<le> u\<close> by simp
next
  case (complete_step now s t s1 t1 sc' k' fp' resp cres s2 t2)
  note ok1 = store_steps_ok [OF complete_step.hyps(1) complete_step.prems(3)]
  have u: "t1 \<le> u" "t \<le> u" "u < t1 + life ttl" using complete_step.prems complete_step.hyps ok1 by linarith+
  obtain r where r: "slot u sc k s1 = Some (fp, r)"
    using complete_step.IH [OF u(2) complete_step.prems(2-5)] by blast
  show ?case
  proof (cases "(sc, k) = (sc', k')")
    case True
    with complete_keeps [OF complete_step.hyps(4) _ complete_step.hyps(3) _ u(1,3)] ok1 r show ?thesis by auto
  next
    case False
    with complete_frame [OF complete_step.hyps(4) _ complete_step.hyps(3) complete_step.prems(4) _ u(1)] ok1 r
    show ?thesis by auto
  qed
qed

lemma at_most_once:
  assumes "begins now sc k fp ttl s (Inr b) s1" "br_State b = IdempotencyStateNew" "ok s" "plain sc"
    and "store_steps ttl now s1 t s2" "begins t' sc k fp' ttl s2 (Inr b') s3" "t \<le> t'" "t' < now + life ttl"
  shows "br_State b' \<noteq> IdempotencyStateNew"
proof -
  have ok1: "ok s1" using begin_ok [OF assms(1,3)] .
  have "\<exists>r. slot t' sc k s2 = Some (fp, r)"
    by (rule held_after [OF assms(5) ok1 assms(4) _ assms(7,8)])
      (use begin_takes [OF assms(1,3,4,2)] in blast)
  moreover have "b' = expected_begin fp' (slot t' sc k s2)"
    using begin_result [OF assms(6) _ assms(4)] store_steps_ok [OF assms(5) ok1] by blast
  ultimately show ?thesis by (auto simp: expected_begin_def split: option.splits)
qed

text \<open>A completed answer is what later requests with the same fingerprint get.\<close>

lemma replayed:
  assumes "completes now sc k fp resp ttl s (Inr ()) s1" "ok s" "plain sc" "slot now sc k s = Some (fp, None)"
    and "begins t sc k fp ttl s1 (Inr b) s2" "now \<le> t" "t < now + life ttl"
  shows "b = \<lparr>br_State = IdempotencyStateReplay, br_Cached = Some resp\<rparr>"
proof -
  have ok1: "ok s1" using complete_ok [OF assms(1,2)] .
  have "slot t sc k s1 = Some (fp, Some resp)" by (rule complete_stores [OF assms(1-4) assms(6,7)])
  then show ?thesis
    using begin_result [OF assms(5) ok1 assms(3)] by (simp add: expected_begin_def)
qed

end

subsection \<open>The database keeps the contract\<close>

definition idem_row :: "string \<Rightarrow> string \<Rightarrow> idempotency_record list \<Rightarrow> idempotency_record option" where
  "idem_row sc k t = find (\<lambda>r. ir_Scope r = sc \<and> ir_IdempotencyKey r = k) t"

definition row_slot :: "gotime \<Rightarrow> idempotency_record option \<Rightarrow> idem_slot" where
  "row_slot t ro = (case ro of
       None \<Rightarrow> None
     | Some r \<Rightarrow> if ir_ExpiresAt r < t then None
                 else Some (ir_FingerprintHash r, if ir_Status r = ''completed'' then Some (cached_of r) else None))"

definition db_slot :: "gotime \<Rightarrow> string \<Rightarrow> string \<Rightarrow> idempotency_record list \<Rightarrow> idem_slot" where
  "db_slot t sc k tab = row_slot t (idem_row sc k tab)"

definition idem_ok :: "idempotency_record list \<Rightarrow> bool" where
  "idem_ok t \<longleftrightarrow> distinct (map ir_ID t) \<and> unique_rows clash_idem t"

definition db_begins where
  "db_begins G now sc k fp ttl s res s' \<longleftrightarrow> idem_begin_tx G now sc k fp ttl s = (res, s')"

definition db_completes where
  "db_completes G now sc k fp resp ttl s res s' \<longleftrightarrow> DBIdempotencyStore_Complete G now sc k fp resp ttl s = (res, s')"

lemma idem_row_Some: "idem_row sc k t = Some r \<Longrightarrow> r \<in> set t \<and> ir_Scope r = sc \<and> ir_IdempotencyKey r = k"
  by (auto simp: idem_row_def find_Some_iff)

lemma idem_row_None: "idem_row sc k t = None \<longleftrightarrow> (\<forall>r \<in> set t. \<not> (ir_Scope r = sc \<and> ir_IdempotencyKey r = k))"
  by (auto simp: idem_row_def find_None_iff)

lemma idem_row_unique:
  assumes "idem_ok t" "r \<in> set t" "ir_Scope r = sc" "ir_IdempotencyKey r = k"
  shows "idem_row sc k t = Some r"
proof (cases "idem_row sc k t")
  case None
  with assms show ?thesis by (auto simp: idem_row_None)
next
  case (Some r')
  have "r' = r"
    by (rule unique_rows_eq [of clash_idem t])
      (use assms idem_row_Some [OF Some] in \<open>auto simp: idem_ok_def clash_idem_def\<close>)
  with Some show ?thesis by simp
qed

lemma idem_row_append:
  "idem_row sc k (t @ [r]) = (case idem_row sc k t of
     None \<Rightarrow> if ir_Scope r = sc \<and> ir_IdempotencyKey r = k then Some r else None | Some r' \<Rightarrow> Some r')"
  unfolding idem_row_def by (induction t) auto

lemma idem_row_upd:
  assumes "\<And>r. r \<in> set t \<Longrightarrow> p r \<Longrightarrow> ir_Scope (f r) = ir_Scope r \<and> ir_IdempotencyKey (f r) = ir_IdempotencyKey r"
  shows "idem_row sc k (upd_where p f t) = map_option (\<lambda>r. if p r then f r else r) (idem_row sc k t)"
  using assms unfolding idem_row_def by (induction t) auto

lemma idem_First:
  assumes G: "idem_table G" and "idem_ok t"
    and "gorm_First G (\<lambda>r. ir_Scope r = sc \<and> ir_IdempotencyKey r = k) t = out"
  shows "out = Inl ErrRecordNotFound \<Longrightarrow> idem_row sc k t = None"
    and "out = Inr r \<Longrightarrow> idem_row sc k t = Some r"
proof -
  show "idem_row sc k t = None" if "out = Inl ErrRecordNotFound"
    using gorm_table.first_not_found [OF G assms(3) [unfolded that]] by (auto simp: idem_row_None)
  show "idem_row sc k t = Some r" if "out = Inr r"
    using gorm_table.first_found [OF G assms(3) [unfolded that]] idem_row_unique [OF assms(2)] by auto
qed

lemma reset_simps [simp]:
  "ir_ID (reset_idem_record fp ex r) = ir_ID r" "ir_Scope (reset_idem_record fp ex r) = ir_Scope r"
  "ir_IdempotencyKey (reset_idem_record fp ex r) = ir_IdempotencyKey r"
  "ir_FingerprintHash (reset_idem_record fp ex r) = fp" "ir_Status (reset_idem_record fp ex r) = ''new''"
  "ir_ExpiresAt (reset_idem_record fp ex r) = ex"
  by (simp_all add: reset_idem_record_def)

lemma new_idem_simps [simp]:
  "ir_Scope (stamp_idem i c (new_idem_record sc k fp ex)) = sc" "ir_ID (stamp_idem i c (new_idem_record sc k fp ex)) = i"
  "ir_IdempotencyKey (stamp_idem i c (new_idem_record sc k fp ex)) = k"
  "ir_FingerprintHash (stamp_idem i c (new_idem_record sc k fp ex)) = fp"
  "ir_Status (stamp_idem i c (new_idem_record sc k fp ex)) = ''new''"
  "ir_ExpiresAt (stamp_idem i c (new_idem_record sc k fp ex)) = ex"
  by (simp_all add: new_idem_record_def stamp_idem_def)

lemma complete_simps [simp]:
  "ir_ID (complete_idem_record resp ex r) = ir_ID r" "ir_Scope (complete_idem_record resp ex r) = ir_Scope r"
  "ir_IdempotencyKey (complete_idem_record resp ex r) = ir_IdempotencyKey r"
  "ir_FingerprintHash (complete_idem_record resp ex r) = ir_FingerprintHash r"
  "ir_Status (complete_idem_record resp ex r) = ''completed''" "ir_ExpiresAt (complete_idem_record resp ex r) = ex"
  "cached_of (complete_idem_record resp ex r) = resp"
  by (simp_all add: complete_idem_record_def cached_of_def)

text \<open>What a run of the transaction does, on every branch.\<close>

lemma begin_tx_cases:
  assumes G: "idem_table G" and ok: "idem_ok t" and run: "idem_begin_tx G now sc k fp ttl t = (res, t')"
  obtains (failed) e where "res = Inl e" "t' = t"
  | (created) r i c where "idem_row sc k t = None" "r = stamp_idem i c (new_idem_record sc k fp (now + ttl))"
      "i \<notin> ir_ID ` set t" "t' = t @ [r]" "unique_rows clash_idem t'"
      "res = Inr \<lparr>br_State = IdempotencyStateNew, br_Cached = None\<rparr>"
  | (renewed) r where "idem_row sc k t = Some r" "ir_ExpiresAt r < now"
      "t' = upd_where (\<lambda>x. ir_ID x = ir_ID r) (\<lambda>_. reset_idem_record fp (now + ttl) r) t" "unique_rows clash_idem t'"
      "res = Inr \<lparr>br_State = IdempotencyStateNew, br_Cached = None\<rparr>"
  | (held) r where "idem_row sc k t = Some r" "\<not> ir_ExpiresAt r < now" "t' = t"
      "res = Inr (expected_begin fp (row_slot now (Some r)))"
proof (cases "gorm_First G (\<lambda>r. ir_Scope r = sc \<and> ir_IdempotencyKey r = k) t")
  case (Inl e)
  show thesis
  proof (cases "e = ErrRecordNotFound")
    case True
    note none = idem_First(1) [OF G ok Inl] True
    show thesis
    proof (cases "gorm_Create G (new_idem_record sc k fp (now + ttl)) t")
      case (Inl e')
      with run \<open>gorm_First G _ t = _\<close> True failed show thesis by (auto simp: idem_begin_tx_def)
    next
      case (Inr out)
      then obtain r t1 where cr: "gorm_Create G (new_idem_record sc k fp (now + ttl)) t = Inr (r, t1)"
        by (cases out) auto
      from gorm_table.create_row [OF G cr] gorm_table.create_unique [OF G cr] ok
      show thesis using run \<open>gorm_First G _ t = _\<close> True none created cr
        by (auto simp: idem_begin_tx_def idem_ok_def)
    qed
  qed (use run Inl failed in \<open>auto simp: idem_begin_tx_def\<close>)
next
  case (Inr r)
  note row = idem_First(2) [OF G ok Inr refl]
  show thesis
  proof (cases "ir_ExpiresAt r < now")
    case True
    show thesis
    proof (cases "gorm_Updates G (\<lambda>x. ir_ID x = ir_ID r) (\<lambda>_. reset_idem_record fp (now + ttl) r) t")
      case (Inl e)
      with run Inr True failed show thesis by (auto simp: idem_begin_tx_def)
    next
      case (Inr out)
      then obtain n t1 where up: "gorm_Updates G (\<lambda>x. ir_ID x = ir_ID r) (\<lambda>_. reset_idem_record fp (now + ttl) r) t
          = Inr (n, t1)" by (cases out) auto
      from gorm_table.updates_rows [OF G up] gorm_table.updates_unique [OF G up] ok
      show thesis using run \<open>gorm_First G _ t = Inr r\<close> True row renewed up
        by (auto simp: idem_begin_tx_def idem_ok_def)
    qed
  next
    case False
    then show thesis using run Inr row held
      by (auto simp: idem_begin_tx_def row_slot_def expected_begin_def split: if_splits)
  qed
qed

lemma begin_tx_ok:
  assumes G: "idem_table G" and ok: "idem_ok t" and run: "idem_begin_tx G now sc k fp ttl t = (res, t')"
  shows "idem_ok t'"
  using G ok run
proof (cases rule: begin_tx_cases)
  case (created r i c)
  with ok show ?thesis by (simp add: idem_ok_def)
next
  case (renewed r)
  have "map ir_ID (upd_where (\<lambda>x. ir_ID x = ir_ID r) (\<lambda>_. reset_idem_record fp (now + ttl) r) t) = map ir_ID t"
    unfolding upd_where_def by (induction t) auto
  with renewed ok show ?thesis by (simp add: idem_ok_def)
qed (use ok in simp_all)

lemma idem_ids_eq: "idem_ok t \<Longrightarrow> a \<in> set t \<Longrightarrow> b \<in> set t \<Longrightarrow> ir_ID a = ir_ID b \<Longrightarrow> a = b"
  by (auto simp: idem_ok_def distinct_map dest: inj_onD)

lemma renewed_row:
  assumes ok: "idem_ok t" and row: "idem_row sc k t = Some r"
  shows "idem_row sc' k' (upd_where (\<lambda>x. ir_ID x = ir_ID r) (\<lambda>_. reset_idem_record fp ex r) t)
       = (if (sc', k') = (sc, k) then Some (reset_idem_record fp ex r) else idem_row sc' k' t)"
proof -
  note r = idem_row_Some [OF row]
  have "idem_row sc' k' (upd_where (\<lambda>x. ir_ID x = ir_ID r) (\<lambda>_. reset_idem_record fp ex r) t)
      = map_option (\<lambda>x. if ir_ID x = ir_ID r then reset_idem_record fp ex r else x) (idem_row sc' k' t)"
    by (rule idem_row_upd) (use idem_ids_eq [OF ok _ conjunct1 [OF r]] in auto)
  also have "\<dots> = (if (sc', k') = (sc, k) then Some (reset_idem_record fp ex r) else idem_row sc' k' t)"
  proof (cases "(sc', k') = (sc, k)")
    case False
    then have "x \<noteq> r" if "idem_row sc' k' t = Some x" for x using idem_row_Some [OF that] r by auto
    then show ?thesis
      using False idem_ids_eq [OF ok _ conjunct1 [OF r]] idem_row_Some by (cases "idem_row sc' k' t") auto
  qed (simp add: row)
  finally show ?thesis .
qed

lemma completed_row:
  assumes G: "idem_table G" and run: "DBIdempotencyStore_Complete G now sc k fp resp ttl t = (cres, t')"
  shows "(\<exists>e. cres = Inl e \<and> t' = t)
       \<or> (cres = Inr () \<and> (\<forall>sc' k'. idem_row sc' k' t' = map_option
            (\<lambda>r. if (sc', k') = (sc, k) \<and> ir_FingerprintHash r = fp \<and> ir_Status r \<noteq> ''completed''
                 then complete_idem_record resp (now + ttl) r else r) (idem_row sc' k' t))
          \<and> map ir_ID t' = map ir_ID t \<and> (unique_rows clash_idem t \<longrightarrow> unique_rows clash_idem t'))"
proof -
  let ?p = "\<lambda>r. ir_Scope r = sc \<and> ir_IdempotencyKey r = k \<and> ir_FingerprintHash r = fp \<and> ir_Status r \<noteq> ''completed''"
  let ?f = "complete_idem_record resp (now + ttl)"
  show ?thesis
  proof (cases "gorm_Updates G ?p ?f t")
    case (Inl e)
    with run show ?thesis by (auto simp: DBIdempotencyStore_Complete_def)
  next
    case (Inr out)
    then obtain n where up: "gorm_Updates G ?p ?f t = Inr (n, t')" and "cres = Inr ()"
      using run by (cases out) (auto simp: DBIdempotencyStore_Complete_def)
    moreover have t': "t' = upd_where ?p ?f t" using gorm_table.updates_rows [OF G up] by simp
    moreover have "idem_row sc' k' t' = map_option
            (\<lambda>r. if (sc', k') = (sc, k) \<and> ir_FingerprintHash r = fp \<and> ir_Status r \<noteq> ''completed''
                 then ?f r else r) (idem_row sc' k' t)" for sc' k'
      unfolding t' by (subst idem_row_upd) (auto intro!: option.map_cong dest: idem_row_Some)
    moreover have "map ir_ID t' = map ir_ID t" unfolding t' by (rule map_upd_where) simp
    ultimately show ?thesis using gorm_table.updates_unique [OF G up] by blast
  qed
qed

lemma db_idempotency_store:
  assumes G: "idem_table G"
  shows "idempotency_store (db_begins G) (db_completes G) db_slot idem_ok (\<lambda>_. True) (\<lambda>d. d)"
proof (unfold_locales, goal_cases)
  case (1 now sc k fp ttl s res s')
  then show ?case using begin_tx_ok [OF G] by (auto simp: db_begins_def)
next
  case (2 now sc k fp resp ttl s cres s')
  then show ?case using completed_row [OF G] unfolding db_completes_def idem_ok_def by metis
next
  case (3 now sc k fp ttl s b s')
  from G 3(2) 3(1) [unfolded db_begins_def] show ?case
    by (cases rule: begin_tx_cases) (auto simp: db_slot_def row_slot_def expected_begin_def)
next
  case (4 now sc k fp ttl s res s' sc' k' t)
  from G 4(2) 4(1) [unfolded db_begins_def] show ?case
  proof (cases rule: begin_tx_cases)
    case (created r i c)
    then show ?thesis using 4(5) by (auto simp: db_slot_def row_slot_def idem_row_append split: option.splits)
  next
    case (renewed r)
    then show ?thesis using 4(5)
      by (auto simp: db_slot_def renewed_row [OF 4(2) renewed(1)] row_slot_def)
  qed simp_all
next
  case (5 now sc k fp ttl s b s' t)
  from G 5(2) 5(1) [unfolded db_begins_def] show ?case
  proof (cases rule: begin_tx_cases)
    case (created r i c)
    then show ?thesis using 5 by (auto simp: db_slot_def row_slot_def idem_row_append)
  next
    case (renewed r)
    then show ?thesis using 5 by (auto simp: db_slot_def renewed_row [OF 5(2) renewed(1)] row_slot_def)
  next
    case (held r)
    then show ?thesis using 5(4) by (auto simp: expected_begin_def row_slot_def split: if_splits)
  qed simp
next
  case (6 now sc k fp resp ttl s cres s' sc' k' t)
  then show ?case using completed_row [OF G 6(1) [unfolded db_completes_def]]
    by (auto simp: db_slot_def option.map_ident)
next
  case (7 now sc k fp resp ttl s cres s' t fp' r)
  then show ?case using completed_row [OF G 7(1) [unfolded db_completes_def]]
    by (auto simp: db_slot_def row_slot_def split: option.splits if_splits)
next
  case (8 now sc k fp resp ttl s s' t)
  then show ?case using completed_row [OF G 8(1) [unfolded db_completes_def]]
    by (auto simp: db_slot_def row_slot_def split: option.splits if_splits)
qed

interpretation mem_db_store: idempotency_store "db_begins (mem_idem c)" "db_completes (mem_idem c)" db_slot idem_ok
  "\<lambda>_. True" "\<lambda>d. d" for c
  by (rule db_idempotency_store) (rule mem_idem_table.gorm_table_axioms)

subsection \<open>Redis keeps the contract\<close>

definition hash_cached :: "(string \<Rightarrow> string option) \<Rightarrow> CachedHTTPResponse option" where
  "hash_cached h = (case (Atoi (lua_or (h ''response_status'')), StdDecode (lua_or (h ''response_body''))) of
       (Some st, Some b) \<Rightarrow> Some \<lparr>cr_StatusCode = st, cr_ContentType = lua_or (h ''content_type''), cr_Body = b\<rparr>
     | _ \<Rightarrow> None)"

definition hash_ok :: "(string \<Rightarrow> string option) \<Rightarrow> bool" where
  "hash_ok h \<longleftrightarrow> h ''fingerprint'' \<noteq> None \<and> (h ''status'' = Some ''completed'' \<longrightarrow> hash_cached h \<noteq> None)"

definition redis_slot :: "('r \<Rightarrow> rview) \<Rightarrow> string \<Rightarrow> int \<Rightarrow> string \<Rightarrow> string \<Rightarrow> 'r \<Rightarrow> idem_slot" where
  "redis_slot view pfx t sc k r =
     (case alive t (view r) (RedisIdempotencyStore_redisKey pfx sc k) of
        Some (RHash h, e) \<Rightarrow>
          Some (the (h ''fingerprint''), if h ''status'' = Some ''completed'' then hash_cached h else None)
      | _ \<Rightarrow> None)"

text \<open>The keys of the store hold hashes that this store wrote.\<close>

definition view_ok :: "string \<Rightarrow> rview \<Rightarrow> bool" where
  "view_ok pfx V \<longleftrightarrow>
     (\<forall>sc k v e. V (RedisIdempotencyStore_redisKey pfx sc k) = Some (v, e) \<longrightarrow> (\<exists>h. v = RHash h \<and> hash_ok h))"

definition redis_idem_ok :: "('r \<Rightarrow> rview) \<Rightarrow> string \<Rightarrow> 'r \<Rightarrow> bool" where
  "redis_idem_ok view pfx r \<longleftrightarrow> view_ok pfx (view r)"

lemma view_okD:
  "view_ok pfx V \<Longrightarrow> V (RedisIdempotencyStore_redisKey pfx sc k) = Some (v, e) \<Longrightarrow> \<exists>h. v = RHash h \<and> hash_ok h"
  unfolding view_ok_def by blast

lemma view_ok_upd: "view_ok pfx V \<Longrightarrow> hash_ok h \<Longrightarrow> view_ok pfx (V(key \<mapsto> (RHash h, e)))"
  unfolding view_ok_def by (metis fun_upd_apply option.inject prod.inject)

lemma view_ok_del: "view_ok pfx V \<Longrightarrow> view_ok pfx (V(key := None))"
  unfolding view_ok_def by (metis fun_upd_apply option.distinct(1))

definition no_colon :: "string \<Rightarrow> bool" where
  "no_colon sc \<longleftrightarrow> CHR '':'' \<notin> set sc"

lemma redisKey_inj:
  assumes "no_colon sc" "no_colon sc'"
    "RedisIdempotencyStore_redisKey pfx sc k = RedisIdempotencyStore_redisKey pfx sc' k'"
  shows "sc = sc' \<and> k = k'"
proof -
  have "sc @ CHR '':'' # k = sc' @ CHR '':'' # k'"
    using assms(3) by (simp add: RedisIdempotencyStore_redisKey_def)
  then show ?thesis
    using assms(1,2) by (auto simp: no_colon_def append_eq_append_conv2 append_eq_Cons_conv Cons_eq_append_conv)
qed

definition redis_begins where
  "redis_begins R pfx now sc k fp ttl s res s' \<longleftrightarrow>
     (\<exists>n. RedisIdempotencyStore_Begin R n now pfx sc k fp ttl s = (res, s'))"

definition redis_completes where
  "redis_completes R pfx now sc k fp resp ttl s res s' \<longleftrightarrow>
     is_int64 (cr_StatusCode resp) \<and> (\<exists>n. RedisIdempotencyStore_Complete R n now pfx sc k fp resp ttl s = (res, s'))"

definition begun_view :: "int \<Rightarrow> string \<Rightarrow> string \<Rightarrow> int \<Rightarrow> rview \<Rightarrow> rview" where
  "begun_view now key fp ms V =
     (if alive now V key \<noteq> None then V else if ms \<le> 0 then V(key := None)
      else V(key \<mapsto> (RHash [''fingerprint'' \<mapsto> fp, ''status'' \<mapsto> ''new''], Some (now + ms))))"

definition completed_hash :: "CachedHTTPResponse \<Rightarrow> (string \<Rightarrow> string option) \<Rightarrow> string \<Rightarrow> string option" where
  "completed_hash resp h =
     h(''status'' \<mapsto> ''completed'', ''response_status'' \<mapsto> FormatInt (cr_StatusCode resp),
       ''content_type'' \<mapsto> cr_ContentType resp, ''response_body'' \<mapsto> StdEncode (cr_Body resp))"

definition completed_view :: "int \<Rightarrow> string \<Rightarrow> string \<Rightarrow> CachedHTTPResponse \<Rightarrow> int \<Rightarrow> rview \<Rightarrow> rview" where
  "completed_view now key fp resp ms V =
     (case alive now V key of
        Some (RHash h, e) \<Rightarrow>
          if h ''fingerprint'' \<noteq> Some fp then V
          else if ms \<le> 0 then V(key := None) else V(key \<mapsto> (RHash (completed_hash resp h), Some (now + ms)))
      | _ \<Rightarrow> V)"

context redis_server
begin

lemma begin_script_view:
  "view (snd (redisIdempotencyBeginScript R now key fp ms r)) = begun_view now key fp ms (view r)"
proof (cases "alive now (view r) key")
  case None
  then show ?thesis
    by (simp add: redisIdempotencyBeginScript_def begun_view_def Let_def v_HSET_def v_PEXPIRE_def fun_upd_twist)
qed (simp add: redisIdempotencyBeginScript_def begun_view_def)

lemma complete_script_view:
  "view (snd (redisIdempotencyCompleteScript R now key fp ms (FormatInt (cr_StatusCode resp)) (cr_ContentType resp)
       (StdEncode (cr_Body resp)) r)) = completed_view now key fp resp ms (view r)"
proof (cases "\<exists>h e. alive now (view r) key = Some (RHash h, e) \<and> h ''fingerprint'' = Some fp")
  case True
  then obtain h e where h: "alive now (view r) key = Some (RHash h, e)" "h ''fingerprint'' = Some fp" by blast
  then have e: "case e of None \<Rightarrow> True | Some t \<Rightarrow> now < t"
    by (auto simp: alive_def split: option.splits prod.splits if_splits)
  show ?thesis
    using h e by (simp add: redisIdempotencyCompleteScript_def completed_view_def Let_def v_HSET_def v_HGET_def
        v_PEXPIRE_def completed_hash_def)
next
  case False
  then show ?thesis
    by (auto simp: redisIdempotencyCompleteScript_def completed_view_def Let_def v_HGET_def
        split: option.splits rvalue.splits)
qed

end

lemma hash_cached_completed: "is_int64 (cr_StatusCode resp) \<Longrightarrow> hash_cached (completed_hash resp h) = Some resp"
  by (simp add: hash_cached_def completed_hash_def lua_or_def Atoi_FormatInt)

lemma hash_ok_completed: "is_int64 (cr_StatusCode resp) \<Longrightarrow> hash_ok h \<Longrightarrow> hash_ok (completed_hash resp h)"
  by (simp add: hash_ok_def hash_cached_completed) (simp add: completed_hash_def)

lemma hash_ok_begun: "hash_ok [''fingerprint'' \<mapsto> fp, ''status'' \<mapsto> ''new'']"
  by (simp add: hash_ok_def)

lemma alive_view: "alive now V k = Some (v, e) \<Longrightarrow> V k = Some (v, e)"
  by (auto simp: alive_def split: option.splits if_splits)

lemma redis_slot_alive:
  assumes "redis_idem_ok view pfx r"
  shows "redis_slot view pfx t sc k r = None \<longleftrightarrow> alive t (view r) (RedisIdempotencyStore_redisKey pfx sc k) = None"
    and "redis_slot view pfx t sc k r = Some (fp, res) \<Longrightarrow>
      \<exists>h e. alive t (view r) (RedisIdempotencyStore_redisKey pfx sc k) = Some (RHash h, e) \<and> hash_ok h
          \<and> h ''fingerprint'' = Some fp \<and> res = (if h ''status'' = Some ''completed'' then hash_cached h else None)"
proof -
  have "\<exists>h. v = RHash h \<and> hash_ok h" if "alive t (view r) (RedisIdempotencyStore_redisKey pfx sc k) = Some (v, e)" for v e
    using view_okD [OF assms [unfolded redis_idem_ok_def] alive_view [OF that]] .
  then show "redis_slot view pfx t sc k r = None \<longleftrightarrow> alive t (view r) (RedisIdempotencyStore_redisKey pfx sc k) = None"
    and "redis_slot view pfx t sc k r = Some (fp, res) \<Longrightarrow>
      \<exists>h e. alive t (view r) (RedisIdempotencyStore_redisKey pfx sc k) = Some (RHash h, e) \<and> hash_ok h
          \<and> h ''fingerprint'' = Some fp \<and> res = (if h ''status'' = Some ''completed'' then hash_cached h else None)"
    by (cases "alive t (view r) (RedisIdempotencyStore_redisKey pfx sc k)"; fastforce simp: redis_slot_def hash_ok_def)+
qed

lemma redis_begin_view:
  assumes R: "redis_server R view" and "redis_begins R pfx now sc k fp ttl s res s'"
  shows "view s' = view s \<and> (\<exists>e. res = Inl e)
       \<or> view s' = begun_view now (RedisIdempotencyStore_redisKey pfx sc k) fp (ttl_millis ttl) (view s)
         \<and> (\<forall>b. res = Inr b \<longrightarrow> decode_begin (fst (redisIdempotencyBeginScript R now
              (RedisIdempotencyStore_redisKey pfx sc k) fp (ttl_millis ttl) s)) = res)"
proof -
  obtain n where "RedisIdempotencyStore_Begin R n now pfx sc k fp ttl s = (res, s')"
    using assms(2) by (auto simp: redis_begins_def)
  then show ?thesis
    using redis_server.begin_script_view [OF R, of now "RedisIdempotencyStore_redisKey pfx sc k" fp "ttl_millis ttl" s]
    by (cases n) (auto simp: RedisIdempotencyStore_Begin_def redis_call_def split: prod.splits)
qed

lemma redis_complete_view:
  assumes R: "redis_server R view" and "redis_completes R pfx now sc k fp resp ttl s res s'"
  shows "is_int64 (cr_StatusCode resp)"
    and "view s' = view s \<and> (\<exists>e. res = Inl e)
       \<or> view s' = completed_view now (RedisIdempotencyStore_redisKey pfx sc k) fp resp (ttl_millis ttl) (view s)"
proof -
  obtain n where "RedisIdempotencyStore_Complete R n now pfx sc k fp resp ttl s = (res, s')"
    using assms(2) by (auto simp: redis_completes_def)
  then show "view s' = view s \<and> (\<exists>e. res = Inl e)
       \<or> view s' = completed_view now (RedisIdempotencyStore_redisKey pfx sc k) fp resp (ttl_millis ttl) (view s)"
    using redis_server.complete_script_view [OF R, of now "RedisIdempotencyStore_redisKey pfx sc k" fp "ttl_millis ttl" resp s]
    by (cases n) (auto simp: RedisIdempotencyStore_Complete_def redis_call_def split: prod.splits)
  show "is_int64 (cr_StatusCode resp)" using assms(2) by (simp add: redis_completes_def)
qed

lemma begin_script_result:
  assumes R: "redis_server R view" and ok: "redis_idem_ok view pfx s"
  shows "decode_begin (fst (redisIdempotencyBeginScript R now (RedisIdempotencyStore_redisKey pfx sc k) fp ms s))
       = Inr (expected_begin fp (redis_slot view pfx now sc k s))"
proof (cases "redis_slot view pfx now sc k s")
  case None
  then have "alive now (view s) (RedisIdempotencyStore_redisKey pfx sc k) = None"
    using redis_slot_alive(1) [OF ok] by metis
  then show ?thesis
    by (simp add: redisIdempotencyBeginScript_def redis_server.exists_law [OF R] None decode_begin_def
        expected_begin_def Let_def)
next
  case (Some sl)
  obtain fp' res where sl: "sl = (fp', res)" by (cases sl)
  from redis_slot_alive(2) [OF ok Some [unfolded sl]] obtain h e where
    h: "alive now (view s) (RedisIdempotencyStore_redisKey pfx sc k) = Some (RHash h, e)" "hash_ok h"
    "h ''fingerprint'' = Some fp'" "res = (if h ''status'' = Some ''completed'' then hash_cached h else None)" by blast
  show ?thesis
  proof (cases "fp' = fp \<and> h ''status'' = Some ''completed''")
    case True
    then obtain st b where "Atoi (lua_or (h ''response_status'')) = Some st"
      "StdDecode (lua_or (h ''response_body'')) = Some b"
      "hash_cached h = Some \<lparr>cr_StatusCode = st, cr_ContentType = lua_or (h ''content_type''), cr_Body = b\<rparr>"
      using h(2) by (auto simp: hash_ok_def hash_cached_def split: option.splits)
    with True h Some sl show ?thesis
      by (simp add: redisIdempotencyBeginScript_def redis_server.exists_law [OF R] redis_server.hget_law [OF R]
          v_HGET_def decode_begin_def expected_begin_def)
  next
    case False
    with h Some sl show ?thesis
      by (auto simp: redisIdempotencyBeginScript_def redis_server.exists_law [OF R] redis_server.hget_law [OF R]
          v_HGET_def decode_begin_def expected_begin_def)
  qed
qed

lemma begun_other: "alive now V key' \<noteq> None \<Longrightarrow> begun_view now key fp ms V key' = V key'"
  by (auto simp: begun_view_def)

lemma redis_slot_cong:
  "view s' (RedisIdempotencyStore_redisKey pfx sc k) = view s (RedisIdempotencyStore_redisKey pfx sc k) \<Longrightarrow>
   redis_slot view pfx t sc k s' = redis_slot view pfx t sc k s"
  by (simp add: redis_slot_def alive_def)

lemma redis_idempotency_store:
  assumes R: "redis_server R view"
  shows "idempotency_store (redis_begins R pfx) (redis_completes R pfx) (redis_slot view pfx)
           (redis_idem_ok view pfx) no_colon ttl_millis"
proof (unfold_locales, goal_cases)
  case (1 now sc k fp ttl s res s')
  have "view_ok pfx (begun_view now (RedisIdempotencyStore_redisKey pfx sc k) fp (ttl_millis ttl) (view s))"
    using 1(2) hash_ok_begun by (simp add: redis_idem_ok_def begun_view_def view_ok_upd view_ok_del)
  with 1 redis_begin_view [OF R 1(1)] show ?case by (auto simp: redis_idem_ok_def)
next
  case (2 now sc k fp resp ttl s cres s')
  let ?K = "RedisIdempotencyStore_redisKey pfx sc k"
  note v = redis_complete_view [OF R 2(1)] and ok = 2(2) [unfolded redis_idem_ok_def]
  have "view_ok pfx (completed_view now ?K fp resp (ttl_millis ttl) (view s))"
  proof (cases "\<exists>h e. alive now (view s) ?K = Some (RHash h, e)")
    case True
    then obtain h e where h: "alive now (view s) ?K = Some (RHash h, e)" by blast
    with view_okD [OF ok alive_view [OF h]] have "hash_ok (completed_hash resp h)"
      using hash_ok_completed [OF v(1)] by simp
    with h ok show ?thesis by (simp add: completed_view_def view_ok_upd view_ok_del)
  next
    case False
    with ok show ?thesis by (auto simp: completed_view_def split: option.splits rvalue.splits)
  qed
  with v(2) 2(2) show ?case by (auto simp: redis_idem_ok_def)
next
  case (3 now sc k fp ttl s b s')
  then show ?case using redis_begin_view [OF R 3(1)] begin_script_result [OF R 3(2)] by auto
next
  case (4 now sc k fp ttl s res s' sc' k' t)
  then have "alive now (view s) (RedisIdempotencyStore_redisKey pfx sc' k') \<noteq> None"
    using redis_slot_alive(1) [OF 4(2)] by metis
  with redis_begin_view [OF R 4(1)] show ?case
    by (intro redis_slot_cong) (auto simp del: not_None_eq simp: begun_other)
next
  case (5 now sc k fp ttl s b s' t)
  let ?K = "RedisIdempotencyStore_redisKey pfx sc k"
  from redis_begin_view [OF R 5(1)] have v: "view s' = begun_view now ?K fp (ttl_millis ttl) (view s)"
    and "b = expected_begin fp (redis_slot view pfx now sc k s)"
    using begin_script_result [OF R 5(2), of now sc k fp "ttl_millis ttl"] by auto
  with 5(4) have "redis_slot view pfx now sc k s = None"
    by (auto simp: expected_begin_def split: option.splits if_splits)
  then have "alive now (view s) ?K = None" using redis_slot_alive(1) [OF 5(2)] by metis
  with v 5(5,6) show ?case by (simp add: redis_slot_def begun_view_def)
next
  case (6 now sc k fp resp ttl s cres s' sc' k' t)
  then have "RedisIdempotencyStore_redisKey pfx sc' k' \<noteq> RedisIdempotencyStore_redisKey pfx sc k"
    using redisKey_inj by blast
  with redis_complete_view(2) [OF R 6(1)] show ?case
    by (auto simp: redis_slot_def completed_view_def split: option.splits rvalue.splits if_splits)
next
  case (7 now sc k fp resp ttl s cres s' t fp' r)
  let ?K = "RedisIdempotencyStore_redisKey pfx sc k"
  note v = redis_complete_view [OF R 7(1)]
  from redis_slot_alive(2) [OF 7(2,4)] obtain h e where h: "alive t (view s) ?K = Some (RHash h, e)"
    "h ''fingerprint'' = Some fp'" by blast
  then have now: "alive now (view s) ?K = Some (RHash h, e)" using alive_later [of t "view s" ?K now] 7(5) by simp
  have f: "completed_hash resp h ''fingerprint'' = h ''fingerprint''"
    "completed_hash resp h ''status'' = Some ''completed''" by (simp_all add: completed_hash_def)
  from v(2) show ?case
  proof (elim disjE conjE)
    assume "view s' = view s"
    then show ?case using 7(4) by (simp add: redis_slot_def)
  next
    assume "view s' = completed_view now ?K fp resp (ttl_millis ttl) (view s)"
    then show ?case
      using now h f 7 hash_cached_completed [OF v(1)]
      by (cases "fp' = fp") (auto simp: redis_slot_def completed_view_def)
  qed
next
  case (8 now sc k fp resp ttl s s' t)
  let ?K = "RedisIdempotencyStore_redisKey pfx sc k"
  note v = redis_complete_view [OF R 8(1)]
  from redis_slot_alive(2) [OF 8(2,4)] obtain h e where h: "alive now (view s) ?K = Some (RHash h, e)"
    "h ''fingerprint'' = Some fp" by blast
  have f: "completed_hash resp h ''fingerprint'' = h ''fingerprint''"
    "completed_hash resp h ''status'' = Some ''completed''" by (simp_all add: completed_hash_def)
  from v(2) have "view s' = completed_view now ?K fp resp (ttl_millis ttl) (view s)" by auto
  then show ?case
    using h f 8(5,6) hash_cached_completed [OF v(1)] by (simp add: redis_slot_def completed_view_def)
qed

interpretation mem_redis_store: idempotency_store "redis_begins mem_redis pfx" "redis_completes mem_redis pfx"
  "redis_slot id pfx" "redis_idem_ok id pfx" no_colon ttl_millis for pfx
  by (rule redis_idempotency_store) (rule mem_redis.redis_server_axioms)

end
