(* ===== verification/Idempotency_Http.thy ===== *)
theory Idempotency_Http
  imports Idempotency
begin

section \<open>The idempotency middleware\<close>

text \<open>
  \<open>IdempotencyMiddleware\<close> over any store (a record with the two operations of the interface), and the
  properties of the component: a key is handed out once within its lifetime under any interleaving
  of requests, for the table and for Redis, a repeated request is answered with the stored
  response without running the handler, and \<open>Begin\<close> on the table returns.
\<close>

record 's idem_iface =
  is_Begin :: "string \<Rightarrow> string \<Rightarrow> string \<Rightarrow> duration \<Rightarrow> 's \<Rightarrow> IdempotencyBeginResult result \<times> 's"
  is_Complete :: "string \<Rightarrow> string \<Rightarrow> string \<Rightarrow> CachedHTTPResponse \<Rightarrow> duration \<Rightarrow> 's \<Rightarrow> unit result \<times> 's"

definition clientIPFromRequest :: "request \<Rightarrow> string" where
  "clientIPFromRequest r =
     (let xff = TrimSpace (header_get ''X-Forwarded-For'' (rq_Headers r))
      in if xff = [] then rq_RemoteAddr r else TrimSpace (hd (Split xff (CHR '',''))))"

definition actorForScope :: "request \<Rightarrow> string" where
  "actorForScope r = (case ClaimsFromContext r of
       Some claims \<Rightarrow> ''sub:'' @ cl_Subject claims
     | None \<Rightarrow> ''ip:'' @ clientIPFromRequest r)"

definition fingerprintRequest :: "(string \<Rightarrow> string) \<Rightarrow> request \<Rightarrow> string \<Rightarrow> string \<Rightarrow> string" where
  "fingerprintRequest sha256 r scope body =
     (let actor = actorForScope r;
          routePattern = (if rq_RoutePattern r \<noteq> [] then rq_RoutePattern r else rq_Path r);
          raw = Join [scope, rq_Method r, routePattern, actor, hexEncode (sha256 body)] [CHR 0x0A]
      in hexEncode (sha256 raw))"

definition writeCachedResponse :: "headers \<Rightarrow> CachedHTTPResponse option \<Rightarrow> response" where
  "writeCachedResponse hs cached =
     (case cached of
        None \<Rightarrow> \<lparr>rs_Status = 204, rs_Headers = hs, rs_Body = NoBody\<rparr>
      | Some c \<Rightarrow>
          \<lparr>rs_Status = cr_StatusCode c,
           rs_Headers = header_set ''X-Idempotency-Replayed'' ''true''
             (if cr_ContentType c \<noteq> [] then header_set ''Content-Type'' (cr_ContentType c) hs else hs),
           rs_Body = (if cr_Body c \<noteq> [] then Bytes (cr_Body c) else NoBody)\<rparr>)"

text \<open>
  A handler that never sets a status has the status 0 in the capturing writer, which counts as 200;
  \<open>wire\<close> gives the bytes of a body, which the capturing writer keeps.
\<close>

definition captured :: "(body \<Rightarrow> string) \<Rightarrow> response \<Rightarrow> CachedHTTPResponse" where
  "captured wire resp =
     \<lparr>cr_StatusCode = (if rs_Status resp = 0 then 200 else rs_Status resp),
      cr_ContentType = header_get ''Content-Type'' (rs_Headers resp), cr_Body = wire (rs_Body resp)\<rparr>"

definition idempotency_key :: "request \<Rightarrow> string" where
  "idempotency_key r = TrimSpace (header_get ''Idempotency-Key'' (rq_Headers r))"

definition IdempotencyMiddleware ::
    "'s idem_iface \<Rightarrow> (body \<Rightarrow> string) \<Rightarrow> (string \<Rightarrow> string) \<Rightarrow> duration \<Rightarrow> string \<Rightarrow> string \<Rightarrow> 'w handler
     \<Rightarrow> ('s \<times> 'w) handler" where
  "IdempotencyMiddleware store wire sha256 ttl reqID scope next_h = (\<lambda>r hs (s, w).
     let key = idempotency_key r in
     if key = [] then (response_Error reqID r hs 400 ''BAD_REQUEST'' ''missing Idempotency-Key header'' [], (s, w))
     else if length key > 128 then
       (response_Error reqID r hs 400 ''BAD_REQUEST'' ''invalid Idempotency-Key header'' [], (s, w))
     else (case rq_Body r of
       Inl e \<Rightarrow> (response_Error reqID r hs 400 ''BAD_REQUEST'' ''invalid request payload'' [], (s, w))
     | Inr body \<Rightarrow>
         (let fingerprint = fingerprintRequest sha256 r scope body in
          case is_Begin store scope key fingerprint ttl s of
            (Inl e, s1) \<Rightarrow> (response_Error reqID r hs 500 ''INTERNAL'' ''idempotency check failed'' [], (s1, w))
          | (Inr begun, s1) \<Rightarrow>
              (case br_State begun of
                 IdempotencyStateConflict \<Rightarrow>
                   (response_Error reqID r hs 409 ''CONFLICT'' ''idempotency key reuse with different payload'' [], (s1, w))
               | IdempotencyStateInProgress \<Rightarrow>
                   (response_Error reqID r hs 409 ''CONFLICT'' ''request with this idempotency key is in progress'' [], (s1, w))
               | IdempotencyStateReplay \<Rightarrow> (writeCachedResponse hs (br_Cached begun), (s1, w))
               | IdempotencyStateNew \<Rightarrow>
                   (case next_h r hs w of (resp, w1) \<Rightarrow>
                      let rec = captured wire resp in
                      if cr_StatusCode rec \<ge> 500 then (resp, (s1, w1))
                      else (case is_Complete store scope key fingerprint rec ttl s1 of
                              (cres, s2) \<Rightarrow> (resp, (s2, w1))))))))"

text \<open>
  C8: A key is handed out once, in the database.  If \<open>Begin\<close> answers that a request is new, then no
  other \<open>Begin\<close> for the same scope and key gets that answer before the lifetime of the first is over,
  whatever requests with whatever keys begin, complete or fail in between.
\<close>

theorem db_key_handed_out_once:
  assumes "idem_table G" "idem_ok s" "idem_begin_tx G now sc k fp ttl s = (Inr b, s1)"
    and "br_State b = IdempotencyStateNew"
    and "idempotency_store.store_steps (db_begins G) (db_completes G) (\<lambda>_. True) ttl now s1 t s2"
    and "idem_begin_tx G t' sc k fp' ttl s2 = (Inr b', s3)" "t \<le> t'" "t' < now + ttl"
  shows "br_State b' \<noteq> IdempotencyStateNew"
proof -
  have "db_begins G now sc k fp ttl s (Inr b) s1" "db_begins G t' sc k fp' ttl s2 (Inr b') s3"
    using assms by (simp_all add: db_begins_def)
  from idempotency_store.at_most_once [OF db_idempotency_store [OF assms(1)], OF this(1) assms(4,2) _ assms(5) this(2)]
  show ?thesis using assms(7,8) by simp
qed

theorem db_key_handed_out_once_witness:
  "\<exists>b s1 b' s3. idem_begin_tx (mem_idem 0) 10 ''sc'' ''k'' ''f'' 100 [] = (Inr b, s1)
     \<and> br_State b = IdempotencyStateNew
     \<and> idem_begin_tx (mem_idem 0) 20 ''sc'' ''k'' ''f'' 100 s1 = (Inr b', s3)
     \<and> br_State b' \<noteq> IdempotencyStateNew"
proof -
  let ?r = "stamp_idem 1 0 (new_idem_record ''sc'' ''k'' ''f'' 110)"
  have run1: "idem_begin_tx (mem_idem 0) 10 ''sc'' ''k'' ''f'' 100 []
      = (Inr \<lparr>br_State = IdempotencyStateNew, br_Cached = None\<rparr>, [?r])"
    by (simp add: idem_begin_tx_def mem_table_defs Let_def)
  have run2: "idem_begin_tx (mem_idem 0) 20 ''sc'' ''k'' ''f'' 100 [?r]
      = (Inr \<lparr>br_State = IdempotencyStateInProgress, br_Cached = None\<rparr>, [?r])"
    by (simp add: idem_begin_tx_def mem_table_defs Let_def)
  have "idempotency_store.store_steps (db_begins (mem_idem 0)) (db_completes (mem_idem 0)) (\<lambda>_. True) 100 10 [?r] 10 [?r]"
    by (rule mem_db_store.store_steps.stop) simp
  from db_key_handed_out_once [OF mem_idem_table.gorm_table_axioms _ run1 _ this run2] run1 run2
  show ?thesis by (auto simp: idem_ok_def unique_rows_def)
qed

text \<open>
  C9: A key is handed out once, in Redis.  The same for the Lua scripts, where calls may also fail
  before or after the script was executed; the lifetime is the one Redis is given, in whole
  milliseconds, and the scopes contain no colon, which is true of the scopes of the router.
\<close>

theorem redis_key_handed_out_once:
  assumes "redis_server R view" "redis_idem_ok view pfx s" "no_colon sc"
    and "RedisIdempotencyStore_Begin R n now pfx sc k fp ttl s = (Inr b, s1)" "br_State b = IdempotencyStateNew"
    and "idempotency_store.store_steps (redis_begins R pfx) (redis_completes R pfx) no_colon ttl now s1 t s2"
    and "RedisIdempotencyStore_Begin R n' t' pfx sc k fp' ttl s2 = (Inr b', s3)" "t \<le> t'" "t' < now + ttl_millis ttl"
  shows "br_State b' \<noteq> IdempotencyStateNew"
proof -
  have "redis_begins R pfx now sc k fp ttl s (Inr b) s1" "redis_begins R pfx t' sc k fp' ttl s2 (Inr b') s3"
    using assms(4,7) unfolding redis_begins_def by blast+
  from idempotency_store.at_most_once [OF redis_idempotency_store [OF assms(1)], OF this(1) assms(5,2,3,6) this(2)]
  show ?thesis using assms(8,9) by simp
qed

theorem redis_key_handed_out_once_witness:
  "\<exists>b s1 b' s3. RedisIdempotencyStore_Begin mem_redis Up 10 ''idem'' ''sc'' ''k'' ''f'' (milliseconds 100) Map.empty = (Inr b, s1)
     \<and> br_State b = IdempotencyStateNew
     \<and> RedisIdempotencyStore_Begin mem_redis Up 20 ''idem'' ''sc'' ''k'' ''f'' (milliseconds 100) s1 = (Inr b', s3)
     \<and> br_State b' \<noteq> IdempotencyStateNew"
proof -
  let ?K = "RedisIdempotencyStore_redisKey ''idem'' ''sc'' ''k''"
  let ?V = "Map.empty(?K \<mapsto> (RHash [''fingerprint'' \<mapsto> ''f'', ''status'' \<mapsto> ''new''], Some 110))"
  have ms: "ttl_millis (milliseconds 100) = 100" by (simp add: ttl_millis_def)
  have ok: "redis_idem_ok id ''idem'' Map.empty" by (simp add: redis_idem_ok_def view_ok_def)
  have none: "redis_slot id ''idem'' 10 ''sc'' ''k'' Map.empty = None" by (simp add: redis_slot_def alive_def)
  have "decode_begin (fst (redisIdempotencyBeginScript mem_redis 10 ?K ''f'' 100 Map.empty))
      = Inr \<lparr>br_State = IdempotencyStateNew, br_Cached = None\<rparr>"
    using begin_script_result [OF mem_redis.redis_server_axioms ok, of 10 "''sc''" "''k''" "''f''" 100]
    by (simp add: none expected_begin_def)
  moreover have "snd (redisIdempotencyBeginScript mem_redis 10 ?K ''f'' 100 Map.empty) = ?V"
    using mem_redis.begin_script_view [of 10 ?K "''f''" 100 Map.empty] by (simp add: begun_view_def alive_def)
  ultimately have run1: "RedisIdempotencyStore_Begin mem_redis Up 10 ''idem'' ''sc'' ''k'' ''f'' (milliseconds 100) Map.empty
      = (Inr \<lparr>br_State = IdempotencyStateNew, br_Cached = None\<rparr>, ?V)"
    unfolding RedisIdempotencyStore_Begin_def redis_call_def ms by (auto split: prod.splits)
  have run2: "\<exists>b' s3. RedisIdempotencyStore_Begin mem_redis Up 20 ''idem'' ''sc'' ''k'' ''f'' (milliseconds 100) ?V = (Inr b', s3)"
    using begin_script_result [OF mem_redis.redis_server_axioms, of "''idem''" ?V 20 "''sc''" "''k''" "''f''" 100]
      view_ok_upd [of "''idem''" Map.empty "[''fingerprint'' \<mapsto> ''f'', ''status'' \<mapsto> ''new'']" ?K "Some 110"] hash_ok_begun
    unfolding RedisIdempotencyStore_Begin_def redis_call_def ms
    by (auto simp: redis_idem_ok_def view_ok_def split: prod.splits)
  then obtain b' s3 where run2: "RedisIdempotencyStore_Begin mem_redis Up 20 ''idem'' ''sc'' ''k'' ''f'' (milliseconds 100) ?V
      = (Inr b', s3)" by blast
  have "idempotency_store.store_steps (redis_begins mem_redis ''idem'') (redis_completes mem_redis ''idem'') no_colon
      (milliseconds 100) 10 ?V 10 ?V"
    by (rule mem_redis_store.store_steps.stop) simp
  from redis_key_handed_out_once [OF mem_redis.redis_server_axioms ok _ run1 _ this run2] ms
  have "br_State b' \<noteq> IdempotencyStateNew" by (simp add: no_colon_def)
  with run1 run2 show ?thesis by auto
qed

lemma Middleware_new:
  assumes "idempotency_key r = key" "key \<noteq> []" "length key \<le> 128" "rq_Body r = Inr body"
    and "is_Begin I scope key (fingerprintRequest sha256 r scope body) ttl s = (Inr b, s1)"
    and "br_State b = IdempotencyStateNew" "next_h r hs w = (resp, w1)" "cr_StatusCode (captured wire resp) < 500"
    and "is_Complete I scope key (fingerprintRequest sha256 r scope body) (captured wire resp) ttl s1 = (cres, s2)"
  shows "IdempotencyMiddleware I wire sha256 ttl reqID scope next_h r hs (s, w) = (resp, (s2, w1))"
  using assms by (simp add: IdempotencyMiddleware_def Let_def)

lemma Middleware_replay:
  assumes "idempotency_key r = key" "key \<noteq> []" "length key \<le> 128" "rq_Body r = Inr body"
    and "is_Begin I scope key (fingerprintRequest sha256 r scope body) ttl s
           = (Inr \<lparr>br_State = IdempotencyStateReplay, br_Cached = c\<rparr>, s1)"
  shows "IdempotencyMiddleware I wire sha256 ttl reqID scope next_h r hs (s, w) = (writeCachedResponse hs c, (s1, w))"
  using assms by (simp add: IdempotencyMiddleware_def Let_def)

text \<open>
  C10: Repeating a request repeats its answer and nothing else.  Over any store that keeps the
  contract: when a request was new, its handler answered with a status below 500 and the answer
  could be stored, then the same request under the same key, arriving within the lifetime, is
  answered with the stored status, content type and bytes, marked as replayed, and the application
  behind the handler is not touched.
\<close>

theorem repeated_request_is_replayed:
  assumes store: "idempotency_store begins completes slot ok plain life" and "ok s" "plain scope"
    and first: "idempotency_key r = key" "key \<noteq> []" "length key \<le> 128" "rq_Body r = Inr body"
      "is_Begin I scope key (fingerprintRequest sha256 r scope body) ttl s = (Inr b, s1)"
      "br_State b = IdempotencyStateNew" "next_h r hs w = (resp, w1)" "cr_StatusCode (captured wire resp) < 500"
      "is_Complete I scope key (fingerprintRequest sha256 r scope body) (captured wire resp) ttl s1 = (Inr (), s2)"
    and second: "idempotency_key r' = key" "rq_Body r' = Inr body'"
      "fingerprintRequest sha256 r' scope body' = fingerprintRequest sha256 r scope body"
      "is_Begin I' scope key (fingerprintRequest sha256 r' scope body') ttl s2 = (Inr b', s3)"
    and ops: "begins now0 scope key (fingerprintRequest sha256 r scope body) ttl s (Inr b) s1"
      "completes now1 scope key (fingerprintRequest sha256 r scope body) (captured wire resp) ttl s1 (Inr ()) s2"
      "begins now2 scope key (fingerprintRequest sha256 r' scope body') ttl s2 (Inr b') s3"
    and times: "now0 \<le> now1" "now1 < now0 + life ttl" "now1 \<le> now2" "now2 < now1 + life ttl"
  shows "IdempotencyMiddleware I wire sha256 ttl reqID scope next_h r hs (s, w) = (resp, (s2, w1))
       \<and> IdempotencyMiddleware I' wire sha256 ttl reqID' scope next_h r' hs' (s2, w1)
         = (writeCachedResponse hs' (Some (captured wire resp)), (s3, w1))"
proof -
  have ok1: "ok s1" by (rule idempotency_store.begin_ok [OF store, OF ops(1) assms(2)])
  have taken: "slot now1 scope key s1 = Some (fingerprintRequest sha256 r scope body, None)"
    by (rule idempotency_store.begin_takes [OF store, OF ops(1) assms(2,3) first(6) times(1,2)])
  have ops3: "begins now2 scope key (fingerprintRequest sha256 r scope body) ttl s2 (Inr b') s3"
    using ops(3) second(3) by argo
  have "b' = \<lparr>br_State = IdempotencyStateReplay, br_Cached = Some (captured wire resp)\<rparr>"
    by (rule idempotency_store.replayed [OF store, OF ops(2) ok1 assms(3) taken ops3 times(3,4)])
  with second have "is_Begin I' scope key (fingerprintRequest sha256 r' scope body') ttl s2
      = (Inr \<lparr>br_State = IdempotencyStateReplay, br_Cached = Some (captured wire resp)\<rparr>, s3)" by simp
  note replay = Middleware_replay [where next_h = next_h and hs = hs' and w = w1 and I = I' and scope = scope
      and ?sha256.0 = sha256 and ttl = ttl, OF second(1) first(2,3) second(2) this]
  show ?thesis
    by (intro conjI replay Middleware_new [where next_h = next_h and hs = hs and w = w, OF first])
qed

theorem repeated_request_is_replayed_witness:
  "\<exists>(I :: idempotency_record list idem_iface) I' r s1 s2 resp. let mw = (\<lambda>I. IdempotencyMiddleware I (\<lambda>_. ''done'') (\<lambda>_. ''h'') 100 [] ''sc''
         (\<lambda>r hs w. (\<lparr>rs_Status = 201, rs_Headers = hs, rs_Body = Bytes ''done''\<rparr>, w + (1::nat)))) in
     mw I r [] ([], 0) = (resp, (s1, 1)) \<and> mw I' r [] (s1, 1) = (writeCachedResponse [] (Some (captured (\<lambda>_. ''done'') resp)), (s2, 1))"
proof -
  let ?G = "mem_idem 0" and ?fp = "hexEncode ''h''"
  let ?r = "(demo_request ''POST'')\<lparr>rq_Headers := [(''Idempotency-Key'', ''k'')]\<rparr>"
  let ?I = "\<lparr>is_Begin = idem_begin_tx ?G 10, is_Complete = DBIdempotencyStore_Complete ?G 20\<rparr>"
  let ?I' = "\<lparr>is_Begin = idem_begin_tx ?G 30, is_Complete = DBIdempotencyStore_Complete ?G 40\<rparr>"
  let ?resp = "\<lparr>rs_Status = 201, rs_Headers = [], rs_Body = Bytes ''done''\<rparr>"
  let ?c = "captured (\<lambda>_. ''done'') ?resp"
  let ?row = "stamp_idem 1 0 (new_idem_record ''sc'' ''k'' ?fp 110)"
  let ?done = "complete_idem_record ?c 120 ?row"
  have key: "idempotency_key ?r = ''k''"
    by (simp add: idempotency_key_def header_get_def TrimSpace_def is_space_def less_eq_char_def)
  have fp: "fingerprintRequest (\<lambda>_. ''h'') r sc bd = ?fp" for r sc bd
    by (simp add: fingerprintRequest_def Let_def)
  have b1: "idem_begin_tx ?G 10 ''sc'' ''k'' ?fp 100 []
      = (Inr \<lparr>br_State = IdempotencyStateNew, br_Cached = None\<rparr>, [?row])"
    by (simp add: idem_begin_tx_def mem_table_defs Let_def)
  have c1: "DBIdempotencyStore_Complete ?G 20 ''sc'' ''k'' ?fp ?c 100 [?row] = (Inr (), [?done])"
    by (simp add: DBIdempotencyStore_Complete_def mem_table_defs Let_def)
  have b2: "idem_begin_tx ?G 30 ''sc'' ''k'' ?fp 100 [?done]
      = (Inr \<lparr>br_State = IdempotencyStateReplay, br_Cached = Some ?c\<rparr>, [?done])"
    by (simp add: idem_begin_tx_def mem_table_defs Let_def)
  have "IdempotencyMiddleware ?I (\<lambda>_. ''done'') (\<lambda>_. ''h'') 100 [] ''sc''
         (\<lambda>r hs w. (\<lparr>rs_Status = 201, rs_Headers = hs, rs_Body = Bytes ''done''\<rparr>, w + (1::nat))) ?r [] ([], 0)
      = (?resp, ([?done], 1))
    \<and> IdempotencyMiddleware ?I' (\<lambda>_. ''done'') (\<lambda>_. ''h'') 100 [] ''sc''
         (\<lambda>r hs w. (\<lparr>rs_Status = 201, rs_Headers = hs, rs_Body = Bytes ''done''\<rparr>, w + (1::nat))) ?r [] ([?done], 1)
      = (writeCachedResponse [] (Some ?c), ([?done], 1))"
    by (rule repeated_request_is_replayed [OF db_idempotency_store [OF mem_idem_table.gorm_table_axioms [of 0]],
          where body = "[]" and body' = "[]" and key = "''k''" and ?now0.0 = 10 and ?now1.0 = 20 and ?now2.0 = 30
            and b = "\<lparr>br_State = IdempotencyStateNew, br_Cached = None\<rparr>" and ?s1.0 = "[?row]"
            and b' = "\<lparr>br_State = IdempotencyStateReplay, br_Cached = Some ?c\<rparr>"])
      (use key b1 c1 b2 in \<open>simp_all add: fp db_begins_def db_completes_def demo_request_def idem_ok_def
         unique_rows_def captured_def\<close>)
  then show ?thesis unfolding Let_def by blast
qed

text \<open>
  C11: \<open>Begin\<close> on the table returns.  It tries again exactly while the transaction loses a race for the
  insertion: if some attempt would not, \<open>Begin\<close> gives what the first such attempt does, which is not a
  read conflict, while every attempt before it is one.
\<close>

theorem Begin_returns:
  assumes "fst (idem_begin_tx G (clk i) scope key fp ttl (tabs i)) \<noteq> Inl ErrRetryableReadConflict"
  shows "\<exists>j \<le> i. DBIdempotencyStore_Begin G clk scope key fp ttl tabs
           = Some (idem_begin_tx G (clk j) scope key fp ttl (tabs j))
         \<and> fst (idem_begin_tx G (clk j) scope key fp ttl (tabs j)) \<noteq> Inl ErrRetryableReadConflict
         \<and> (\<forall>l < j. fst (idem_begin_tx G (clk l) scope key fp ttl (tabs l)) = Inl ErrRetryableReadConflict)"
proof -
  let ?a = "\<lambda>i. idem_begin_tx G (clk i) scope key fp ttl (tabs i)"
  let ?j = "LEAST j. fst (?a j) \<noteq> Inl ErrRetryableReadConflict"
  have j: "fst (?a ?j) \<noteq> Inl ErrRetryableReadConflict" by (rule LeastI [where P = "\<lambda>j. fst (?a j) \<noteq> Inl ErrRetryableReadConflict", OF assms])
  have before: "fst (?a l) = Inl ErrRetryableReadConflict" if "l < ?j" for l
    using not_less_Least [OF that] by blast
  have "idem_begin_from ?a (?j - n) = Some (?a ?j)" if "n \<le> ?j" for n
    using that
  proof (induction n)
    case 0
    with j show ?case by (subst idem_begin_from.simps) simp
  next
    case (Suc n)
    then have "Suc (?j - Suc n) = ?j - n" "?j - Suc n < ?j" by simp_all
    with Suc before [of "?j - Suc n"] show ?case by (subst idem_begin_from.simps) simp
  qed
  from this [of ?j] have "DBIdempotencyStore_Begin G clk scope key fp ttl tabs = Some (?a ?j)"
    by (simp add: DBIdempotencyStore_Begin_def)
  moreover have "?j \<le> i" by (rule Least_le [where P = "\<lambda>j. fst (?a j) \<noteq> Inl ErrRetryableReadConflict", OF assms])
  ultimately show ?thesis using before j by blast
qed

text \<open>
  In the witness the first attempt finds no row and loses the race for the insertion; the second finds
  the row of the other request.
\<close>

definition race_gorm :: "idempotency_record gorm" where
  "race_gorm = (mem_idem 0)\<lparr>gorm_Create := (\<lambda>r t. Inl (External ''duplicate key''))\<rparr>"

definition race_row :: idempotency_record where
  "race_row = stamp_idem 1 0 (new_idem_record ''sc'' ''k'' ''f'' 110)"

theorem Begin_returns_witness:
  "DBIdempotencyStore_Begin race_gorm (\<lambda>_. 10) ''sc'' ''k'' ''f'' 100 (\<lambda>i. if i = 0 then [] else [race_row])
     = Some (Inr \<lparr>br_State = IdempotencyStateInProgress, br_Cached = None\<rparr>, [race_row])"
proof -
  let ?tabs = "\<lambda>i. if i = (0 :: nat) then [] else [race_row]"
  let ?a = "\<lambda>i. idem_begin_tx race_gorm 10 ''sc'' ''k'' ''f'' 100 (?tabs i)"
  have dup: "isUniqueConstraintErr (External ''duplicate key'')" by code_simp
  have first: "fst (?a 0) = Inl ErrRetryableReadConflict"
    by (simp add: idem_begin_tx_def race_gorm_def mem_table_defs dup)
  have later: "?a (Suc i) = (Inr \<lparr>br_State = IdempotencyStateInProgress, br_Cached = None\<rparr>, [race_row])" for i
    by (simp add: idem_begin_tx_def race_gorm_def race_row_def mem_table_defs stamp_idem_def new_idem_record_def)
  have "fst (?a 1) \<noteq> Inl ErrRetryableReadConflict" using later [of 0] by simp
  from Begin_returns [where clk = "\<lambda>_. 10" and tabs = ?tabs and i = 1, OF this]
  obtain j where j: "DBIdempotencyStore_Begin race_gorm (\<lambda>_. 10) ''sc'' ''k'' ''f'' 100 ?tabs = Some (?a j)"
    "fst (?a j) \<noteq> Inl ErrRetryableReadConflict" by blast
  with first obtain i where "j = Suc i" by (cases j) auto
  with j later show ?thesis by simp
qed

end
