(* ===== verification/Abuse_Guard.thy ===== *)
theory Abuse_Guard
  imports Security Redis
begin

section \<open>The guard against password guessing: \<open>auth_abuse_guard*.go\<close>\<close>

text \<open>
  The guard counts failed attempts per identity and per address and answers with a cooldown that
  grows with the number of failures.  \<open>float64\<close> is modelled by the rationals; the conversion of a
  \<open>float64\<close> to a \<open>time.Duration\<close> is the argument \<open>conv\<close>, because the language leaves its result open when
  the value does not fit 64 bits.  The state of the guard in memory is the map \<open>data\<close>; the guard in Redis
  runs a Lua script, for which \<open>tos\<close> is \<open>tostring\<close> on numbers and \<open>ton\<close> is \<open>tonumber\<close>.
\<close>

record AuthAbusePolicy =
  ap_FreeAttempts :: int
  ap_BaseDelay :: duration
  ap_Multiplier :: rat
  ap_MaxDelay :: duration
  ap_ResetWindow :: duration

record authAbuseEntry =
  ab_FailCount :: int
  ab_LastFailureAt :: gotime
  ab_CooldownUntil :: gotime

type_synonym abuse_data = "string \<Rightarrow> authAbuseEntry option"

definition normalizeAuthIdentity :: "string \<Rightarrow> string" where
  "normalizeAuthIdentity identity =
     (let v = TrimSpace (ToLower identity) in if v = [] then ''anonymous'' else v)"

definition normalizeAuthIP :: "string \<Rightarrow> string" where
  "normalizeAuthIP ip = (let v = TrimSpace (ToLower ip) in if v = [] then ''unknown'' else v)"

definition normalizeAuthAbusePolicy :: "AuthAbusePolicy \<Rightarrow> AuthAbusePolicy" where
  "normalizeAuthAbusePolicy p0 =
     (let p1 = (if ap_FreeAttempts p0 < 0 then p0\<lparr>ap_FreeAttempts := 0\<rparr> else p0);
          p2 = (if ap_BaseDelay p1 \<le> 0 then p1\<lparr>ap_BaseDelay := seconds 2\<rparr> else p1);
          p3 = (if ap_Multiplier p2 < 1 then p2\<lparr>ap_Multiplier := 2\<rparr> else p2);
          p4 = (if ap_MaxDelay p3 < ap_BaseDelay p3 then p3\<lparr>ap_MaxDelay := minutes 5\<rparr> else p3)
      in if ap_ResetWindow p4 \<le> 0 then p4\<lparr>ap_ResetWindow := minutes 30\<rparr> else p4)"

subsection \<open>In memory\<close>

definition abuse_stateKey :: "string \<Rightarrow> string \<Rightarrow> string \<Rightarrow> string" where
  "abuse_stateKey scope dm v = scope @ '':'' @ dm @ '':'' @ v"

definition computeDelay :: "(rat \<Rightarrow> duration) \<Rightarrow> AuthAbusePolicy \<Rightarrow> int \<Rightarrow> duration" where
  "computeDelay conv p failCount =
     (if failCount \<le> 0 then 0
      else if failCount \<le> ap_FreeAttempts p then 0
      else
        (let power = ap_Multiplier p ^ nat (failCount - ap_FreeAttempts p - 1);
             delay = conv (of_int (ap_BaseDelay p) * power)
         in if delay > ap_MaxDelay p then ap_MaxDelay p else delay))"

definition bumpLocked ::
    "(rat \<Rightarrow> duration) \<Rightarrow> AuthAbusePolicy \<Rightarrow> gotime \<Rightarrow> string \<Rightarrow> abuse_data \<Rightarrow> duration \<times> abuse_data" where
  "bumpLocked conv p now key d =
     (let count = (case d key of
                     None \<Rightarrow> 0
                   | Some e \<Rightarrow> if now - ab_LastFailureAt e > ap_ResetWindow p then 0 else ab_FailCount e) + 1;
          delay = computeDelay conv p count
      in (delay, d(key \<mapsto> \<lparr>ab_FailCount = count, ab_LastFailureAt = now, ab_CooldownUntil = now + delay\<rparr>)))"

definition activeCooldownLocked :: "AuthAbusePolicy \<Rightarrow> gotime \<Rightarrow> string \<Rightarrow> abuse_data \<Rightarrow> duration \<times> abuse_data" where
  "activeCooldownLocked p now key d =
     (case d key of
        None \<Rightarrow> (0, d)
      | Some e \<Rightarrow>
          if now - ab_LastFailureAt e > ap_ResetWindow p then (0, d(key := None))
          else if now > ab_CooldownUntil e then (0, d)
          else (ab_CooldownUntil e - now, d))"

definition maxActiveCooldownLocked ::
    "AuthAbusePolicy \<Rightarrow> gotime \<Rightarrow> string \<Rightarrow> string \<Rightarrow> string \<Rightarrow> abuse_data \<Rightarrow> duration \<times> abuse_data" where
  "maxActiveCooldownLocked p now scope identity ip d =
     (case activeCooldownLocked p now (abuse_stateKey scope ''id'' (normalizeAuthIdentity identity)) d of
        (identityDelay, d1) \<Rightarrow>
          (case activeCooldownLocked p now (abuse_stateKey scope ''ip'' (normalizeAuthIP ip)) d1 of
             (ipDelay, d2) \<Rightarrow> (max identityDelay ipDelay, d2)))"

definition InMemoryAuthAbuseGuard_Check ::
    "AuthAbusePolicy \<Rightarrow> gotime \<Rightarrow> string \<Rightarrow> string \<Rightarrow> string \<Rightarrow> abuse_data \<Rightarrow> duration \<times> abuse_data" where
  "InMemoryAuthAbuseGuard_Check p now scope identity ip d = maxActiveCooldownLocked p now scope identity ip d"

definition InMemoryAuthAbuseGuard_RegisterFailure ::
    "(rat \<Rightarrow> duration) \<Rightarrow> AuthAbusePolicy \<Rightarrow> gotime \<Rightarrow> string \<Rightarrow> string \<Rightarrow> string \<Rightarrow> abuse_data \<Rightarrow> duration \<times> abuse_data" where
  "InMemoryAuthAbuseGuard_RegisterFailure conv p now scope identity ip d =
     (case bumpLocked conv p now (abuse_stateKey scope ''id'' (normalizeAuthIdentity identity)) d of
        (identityDelay, d1) \<Rightarrow>
          (case bumpLocked conv p now (abuse_stateKey scope ''ip'' (normalizeAuthIP ip)) d1 of
             (ipDelay, d2) \<Rightarrow> (max identityDelay ipDelay, d2)))"

definition InMemoryAuthAbuseGuard_Reset :: "string \<Rightarrow> string \<Rightarrow> string \<Rightarrow> abuse_data \<Rightarrow> abuse_data" where
  "InMemoryAuthAbuseGuard_Reset scope identity ip d =
     d(abuse_stateKey scope ''id'' (normalizeAuthIdentity identity) := None,
       abuse_stateKey scope ''ip'' (normalizeAuthIP ip) := None)"

subsection \<open>In Redis\<close>

definition num_field :: "(string \<Rightarrow> rat) \<Rightarrow> string option \<Rightarrow> rat" where
  "num_field ton v = ton (case v of None \<Rightarrow> ''0'' | Some s \<Rightarrow> s)"

definition redisAuthAbuseBumpScript ::
    "'r redis \<Rightarrow> (rat \<Rightarrow> string) \<Rightarrow> (string \<Rightarrow> rat) \<Rightarrow> int \<Rightarrow> string \<Rightarrow> int \<Rightarrow> int \<Rightarrow> rat \<Rightarrow> int \<Rightarrow> int \<Rightarrow> int
     \<Rightarrow> 'r \<Rightarrow> int \<times> 'r" where
  "redisAuthAbuseBumpScript R tos ton now key now_ms base_ms multiplier max_ms reset_ms free_attempts r =
     (let stored = num_field ton (rd_HGET R now key ''fail_count'' r);
          last_failure_ms = num_field ton (rd_HGET R now key ''last_failure_ms'' r);
          fail_count = (if last_failure_ms = 0 \<or> of_int now_ms - last_failure_ms > of_int reset_ms then 0 else stored) + 1;
          d0 = (if fail_count > of_int free_attempts
                then of_int \<lfloor>of_int base_ms * multiplier ^ nat (\<lfloor>fail_count\<rfloor> - free_attempts - 1)\<rfloor> else 0 :: rat);
          d1 = (if d0 > of_int max_ms then of_int max_ms else d0);
          delay = (if d1 > 0 \<and> d1 < 1 then 1 else d1);
          cooldown_until_ms = of_int now_ms + delay;
          r1 = rd_HSET R now key [(''fail_count'', tos fail_count), (''last_failure_ms'', tos (of_int now_ms)),
                 (''cooldown_until_ms'', tos cooldown_until_ms)] r;
          r2 = rd_PEXPIRE R now key \<lfloor>of_int reset_ms + delay + 60000\<rfloor> r1
      in (\<lfloor>delay\<rfloor>, r2))"

definition hashToken :: "(string \<Rightarrow> string) \<Rightarrow> string \<Rightarrow> string" where
  "hashToken sha256 v = hexEncode (sha256 v)"

definition RedisAuthAbuseGuard_stateKey ::
    "(string \<Rightarrow> string) \<Rightarrow> string \<Rightarrow> string \<Rightarrow> string \<Rightarrow> string \<Rightarrow> string" where
  "RedisAuthAbuseGuard_stateKey sha256 pfx scope dm v =
     pfx @ '':'' @ scope @ '':'' @ dm @ '':'' @ hashToken sha256 v"

definition milliseconds_of :: "duration \<Rightarrow> int" where
  "milliseconds_of d = sgn d * (\<bar>d\<bar> div milliseconds 1)"

definition RedisAuthAbuseGuard_bumpKey ::
    "'r redis \<Rightarrow> (rat \<Rightarrow> string) \<Rightarrow> (string \<Rightarrow> rat) \<Rightarrow> net \<Rightarrow> int \<Rightarrow> AuthAbusePolicy \<Rightarrow> string \<Rightarrow> int \<Rightarrow> 'r
     \<Rightarrow> duration result \<times> 'r" where
  "RedisAuthAbuseGuard_bumpKey R tos ton n now p key nowMS r =
     (case redis_call n (redisAuthAbuseBumpScript R tos ton now key nowMS (milliseconds_of (ap_BaseDelay p))
             (ap_Multiplier p) (milliseconds_of (ap_MaxDelay p)) (milliseconds_of (ap_ResetWindow p))
             (ap_FreeAttempts p)) r of
        (Inl e, r') \<Rightarrow> (Inl e, r')
      | (Inr delayMS, r') \<Rightarrow> (Inr (milliseconds (max delayMS 0)), r'))"

text \<open>\<open>strconv.ParseInt(s, 10, 64)\<close> on a stored field.\<close>

definition parseAuthAbuseRedisInt64 :: "string \<Rightarrow> int result" where
  "parseAuthAbuseRedisInt64 s =
     (case Atoi s of None \<Rightarrow> Inl (Errorf ''parse redis string int64'') | Some v \<Rightarrow> Inr v)"

definition RedisAuthAbuseGuard_cooldownForKey ::
    "'r redis \<Rightarrow> net \<Rightarrow> int \<Rightarrow> AuthAbusePolicy \<Rightarrow> string \<Rightarrow> gotime \<Rightarrow> 'r \<Rightarrow> duration result" where
  "RedisAuthAbuseGuard_cooldownForKey R n now p key now_t r =
     (case fst (redis_call n (\<lambda>r. ((rd_HGET R now key ''last_failure_ms'' r, rd_HGET R now key ''cooldown_until_ms'' r), r)) r) of
        Inl e \<Rightarrow> Inl e
      | Inr (Some l, Some c) \<Rightarrow>
          (case parseAuthAbuseRedisInt64 l of
             Inl e \<Rightarrow> Inl e
           | Inr lastFailureMS \<Rightarrow>
               (case parseAuthAbuseRedisInt64 c of
                  Inl e \<Rightarrow> Inl e
                | Inr cooldownUntilMS \<Rightarrow>
                    (let nowMS = now_t div milliseconds 1 in
                     if nowMS - lastFailureMS > milliseconds_of (ap_ResetWindow p) then Inr 0
                     else if cooldownUntilMS \<le> nowMS then Inr 0
                     else Inr (milliseconds (cooldownUntilMS - nowMS)))))
      | Inr _ \<Rightarrow> Inr 0)"

definition RedisAuthAbuseGuard_Check ::
    "'r redis \<Rightarrow> (nat \<Rightarrow> net) \<Rightarrow> int \<Rightarrow> (string \<Rightarrow> string) \<Rightarrow> string \<Rightarrow> AuthAbusePolicy \<Rightarrow> gotime \<Rightarrow> string \<Rightarrow> string \<Rightarrow> string
     \<Rightarrow> 'r \<Rightarrow> duration result" where
  "RedisAuthAbuseGuard_Check R n now sha256 pfx p now_t scope identity ip r =
     (case RedisAuthAbuseGuard_cooldownForKey R (n 0) now p
             (RedisAuthAbuseGuard_stateKey sha256 pfx scope ''id'' (normalizeAuthIdentity identity)) now_t r of
        Inl e \<Rightarrow> Inl e
      | Inr identityDelay \<Rightarrow>
          (case RedisAuthAbuseGuard_cooldownForKey R (n 1) now p
                  (RedisAuthAbuseGuard_stateKey sha256 pfx scope ''ip'' (normalizeAuthIP ip)) now_t r of
             Inl e \<Rightarrow> Inl e
           | Inr ipDelay \<Rightarrow> Inr (max identityDelay ipDelay)))"

definition RedisAuthAbuseGuard_RegisterFailure ::
    "'r redis \<Rightarrow> (rat \<Rightarrow> string) \<Rightarrow> (string \<Rightarrow> rat) \<Rightarrow> (nat \<Rightarrow> net) \<Rightarrow> int \<Rightarrow> (string \<Rightarrow> string) \<Rightarrow> string \<Rightarrow> AuthAbusePolicy
     \<Rightarrow> gotime \<Rightarrow> string \<Rightarrow> string \<Rightarrow> string \<Rightarrow> 'r \<Rightarrow> duration result \<times> 'r" where
  "RedisAuthAbuseGuard_RegisterFailure R tos ton n now sha256 pfx p now_t scope identity ip r =
     (let nowMS = now_t div milliseconds 1 in
      case RedisAuthAbuseGuard_bumpKey R tos ton (n 0) now p
             (RedisAuthAbuseGuard_stateKey sha256 pfx scope ''id'' (normalizeAuthIdentity identity)) nowMS r of
        (Inl e, r1) \<Rightarrow> (Inl e, r1)
      | (Inr identityDelay, r1) \<Rightarrow>
          (case RedisAuthAbuseGuard_bumpKey R tos ton (n 1) now p
                  (RedisAuthAbuseGuard_stateKey sha256 pfx scope ''ip'' (normalizeAuthIP ip)) nowMS r1 of
             (Inl e, r2) \<Rightarrow> (Inl e, r2)
           | (Inr ipDelay, r2) \<Rightarrow> (Inr (max identityDelay ipDelay), r2)))"

definition RedisAuthAbuseGuard_Reset ::
    "'r redis \<Rightarrow> net \<Rightarrow> (string \<Rightarrow> string) \<Rightarrow> string \<Rightarrow> string \<Rightarrow> string \<Rightarrow> string \<Rightarrow> 'r \<Rightarrow> unit result \<times> 'r" where
  "RedisAuthAbuseGuard_Reset R n sha256 pfx scope identity ip r =
     redis_call n (\<lambda>r. ((), rd_DEL R
       [RedisAuthAbuseGuard_stateKey sha256 pfx scope ''id'' (normalizeAuthIdentity identity),
        RedisAuthAbuseGuard_stateKey sha256 pfx scope ''ip'' (normalizeAuthIP ip)] r)) r"

subsection \<open>The delay\<close>

definition exact_conv :: "(rat \<Rightarrow> duration) \<Rightarrow> bool" where
  "exact_conv conv \<longleftrightarrow> (\<forall>x. 0 \<le> x \<and> x < 2 ^ 63 \<longrightarrow> conv x = \<lfloor>x\<rfloor>)"

definition raw_delay :: "AuthAbusePolicy \<Rightarrow> int \<Rightarrow> rat" where
  "raw_delay p n = of_int (ap_BaseDelay p) * ap_Multiplier p ^ nat (n - ap_FreeAttempts p - 1)"

lemma normalized_policy:
  "let p = normalizeAuthAbusePolicy q in
     0 \<le> ap_FreeAttempts p \<and> 0 < ap_BaseDelay p \<and> 1 \<le> ap_Multiplier p \<and> 0 < ap_MaxDelay p \<and> 0 < ap_ResetWindow p"
  by (auto simp: normalizeAuthAbusePolicy_def Let_def)

lemma raw_delay_mono:
  assumes "p = normalizeAuthAbusePolicy q" "n \<le> m"
  shows "1 \<le> raw_delay p n \<and> raw_delay p n \<le> raw_delay p m"
proof -
  have p: "0 < ap_BaseDelay p" "1 \<le> ap_Multiplier p" using normalized_policy [of q] assms(1) by (auto simp: Let_def)
  have pow: "1 \<le> ap_Multiplier p ^ k" for k using p(2) by (rule one_le_power)
  have "ap_Multiplier p ^ nat (n - ap_FreeAttempts p - 1) \<le> ap_Multiplier p ^ nat (m - ap_FreeAttempts p - 1)"
    using p(2) assms(2) by (intro power_increasing) auto
  moreover have "1 * 1 \<le> of_int (ap_BaseDelay p) * ap_Multiplier p ^ nat (n - ap_FreeAttempts p - 1)"
    using p(1) pow by (intro mult_mono) auto
  ultimately show ?thesis using p(1) by (auto simp: raw_delay_def intro: mult_left_mono)
qed

lemma computeDelay_exact:
  assumes "exact_conv conv" "p = normalizeAuthAbusePolicy q" "raw_delay p n < 2 ^ 63" "ap_FreeAttempts p < n"
  shows "computeDelay conv p n = min \<lfloor>raw_delay p n\<rfloor> (ap_MaxDelay p)"
proof -
  have "0 < n" using assms(4) normalized_policy [of q] by (simp add: assms(2) Let_def)
  moreover have "conv (raw_delay p n) = \<lfloor>raw_delay p n\<rfloor>"
    using assms(1,3) raw_delay_mono [OF assms(2) order_refl, of n] by (simp add: exact_conv_def)
  ultimately show ?thesis using assms(4) by (simp add: computeDelay_def raw_delay_def Let_def min_def)
qed

text \<open>
  C12: The cooldown follows the policy: the free attempts cost nothing, every failure beyond them
  costs a positive delay of at most \<open>MaxDelay\<close>, and one more failure never costs less.  This holds as
  long as base delay times the power of the multiplier fits 64 bits, where the conversion from
  floating point is defined.
\<close>

theorem computeDelay_policy:
  assumes "exact_conv conv" "p = normalizeAuthAbusePolicy q" "raw_delay p m < 2 ^ 63" "n \<le> m"
  shows "computeDelay conv p n \<le> computeDelay conv p m \<and> 0 \<le> computeDelay conv p n
       \<and> computeDelay conv p n \<le> ap_MaxDelay p \<and> (computeDelay conv p n = 0 \<longleftrightarrow> n \<le> ap_FreeAttempts p)"
proof -
  have free: "0 \<le> ap_FreeAttempts p" "0 < ap_MaxDelay p" using normalized_policy [of q] assms(2) by (auto simp: Let_def)
  have zero: "computeDelay conv p k = 0" if "k \<le> ap_FreeAttempts p" for k
    using that by (simp add: computeDelay_def)
  have pos: "0 < computeDelay conv p k \<and> computeDelay conv p k = min \<lfloor>raw_delay p k\<rfloor> (ap_MaxDelay p)"
    if "ap_FreeAttempts p < k" "k \<le> m" for k
  proof -
    have "raw_delay p k < 2 ^ 63" using raw_delay_mono [OF assms(2) that(2)] assms(3) by linarith
    moreover have "1 \<le> \<lfloor>raw_delay p k\<rfloor>" using raw_delay_mono [OF assms(2) order_refl, of k] by (simp add: le_floor_iff)
    ultimately show ?thesis using computeDelay_exact [OF assms(1,2) _ that(1)] free by simp
  qed
  show ?thesis
  proof (cases "n \<le> ap_FreeAttempts p")
    case True
    then show ?thesis using zero free pos [of m] by (cases "m \<le> ap_FreeAttempts p") auto
  next
    case False
    then have n: "ap_FreeAttempts p < n" "ap_FreeAttempts p < m" using assms(4) by auto
    have "\<lfloor>raw_delay p n\<rfloor> \<le> \<lfloor>raw_delay p m\<rfloor>" using raw_delay_mono [OF assms(2,4)] by (intro floor_mono) auto
    then show ?thesis using pos [OF n(1) assms(4)] pos [OF n(2)] n by auto
  qed
qed

definition demo_policy :: AuthAbusePolicy where
  "demo_policy = \<lparr>ap_FreeAttempts = 3, ap_BaseDelay = seconds 2, ap_Multiplier = 2, ap_MaxDelay = minutes 5,
     ap_ResetWindow = minutes 30\<rparr>"

lemma demo_policy_normal: "normalizeAuthAbusePolicy demo_policy = demo_policy"
  by (simp add: normalizeAuthAbusePolicy_def demo_policy_def)

theorem computeDelay_policy_witness:
  "computeDelay floor demo_policy 5 \<le> computeDelay floor demo_policy 10 \<and> 0 \<le> computeDelay floor demo_policy 5
   \<and> computeDelay floor demo_policy 5 \<le> ap_MaxDelay demo_policy
   \<and> (computeDelay floor demo_policy 5 = 0 \<longleftrightarrow> 5 \<le> ap_FreeAttempts demo_policy)"
  by (rule computeDelay_policy [OF _ demo_policy_normal [symmetric]])
    (simp_all add: exact_conv_def raw_delay_def demo_policy_def)

text \<open>
  Beyond that the cap is lost: where an out-of-range conversion gives the least duration, as it does on
  amd64, the default policy computes a negative delay after 37 failures, and the guard lets the next
  attempt through at once.
\<close>

lemma computeDelay_overflow:
  assumes "\<And>x. 2 ^ 63 \<le> x \<Longrightarrow> conv x = - (2 ^ 63)"
  shows "computeDelay conv demo_policy 37 = - (2 ^ 63)"
  using assms [of "2000000000 * 2 ^ 33"] by (simp add: computeDelay_def demo_policy_def)

subsection \<open>The cooldown is enforced\<close>

lemma id_ip_keys: "abuse_stateKey scope ''id'' a \<noteq> abuse_stateKey scope ''ip'' b"
  by (simp add: abuse_stateKey_def)

lemma bump_entry:
  "snd (bumpLocked conv p now key d) key =
     Some \<lparr>ab_FailCount = ab_FailCount (the (snd (bumpLocked conv p now key d) key)), ab_LastFailureAt = now,
           ab_CooldownUntil = now + fst (bumpLocked conv p now key d)\<rparr>"
  and bump_other: "key' \<noteq> key \<Longrightarrow> snd (bumpLocked conv p now key d) key' = d key'"
  by (simp_all add: bumpLocked_def Let_def)

lemma bump_delay_cong: "d key = d' key \<Longrightarrow> fst (bumpLocked conv p now key d) = fst (bumpLocked conv p now key d')"
  by (simp add: bumpLocked_def Let_def)

lemma active_nonneg: "0 \<le> fst (activeCooldownLocked p now key d)"
  by (auto simp: activeCooldownLocked_def split: option.splits)

lemma active_other: "key' \<noteq> key \<Longrightarrow> snd (activeCooldownLocked p now key d) key' = d key'"
  by (auto simp: activeCooldownLocked_def split: option.splits)

lemma active_cong: "d key = d' key \<Longrightarrow> fst (activeCooldownLocked p now key d) = fst (activeCooldownLocked p now key d')"
  by (auto simp: activeCooldownLocked_def split: option.splits)

lemma active_after:
  assumes "d key = Some e" "ab_LastFailureAt e = now" "ab_CooldownUntil e = now + x" "t - now \<le> ap_ResetWindow p"
  shows "fst (activeCooldownLocked p t key d) = max 0 (now + x - t)"
  using assms by (auto simp: activeCooldownLocked_def)

lemma Check_max:
  "fst (InMemoryAuthAbuseGuard_Check p t scope identity ip d) =
     max (fst (activeCooldownLocked p t (abuse_stateKey scope ''id'' (normalizeAuthIdentity identity)) d))
         (fst (activeCooldownLocked p t (abuse_stateKey scope ''ip'' (normalizeAuthIP ip)) d))"
proof -
  let ?i = "abuse_stateKey scope ''id'' (normalizeAuthIdentity identity)"
  let ?a = "abuse_stateKey scope ''ip'' (normalizeAuthIP ip)"
  have "fst (activeCooldownLocked p t ?a (snd (activeCooldownLocked p t ?i d))) = fst (activeCooldownLocked p t ?a d)"
    by (intro active_cong active_other) (rule id_ip_keys [symmetric])
  then show ?thesis
    by (simp add: InMemoryAuthAbuseGuard_Check_def maxActiveCooldownLocked_def split_beta)
qed

text \<open>
  A cooldown is enforced.  After a failure that was answered with the cooldown \<open>x\<close>, a check of
  the same identity and address in the same scope reports exactly what is left of it; a check of the
  same identity from any other address reports at least what the identity's own cooldown leaves; and
  after a reset nothing is left.
\<close>

theorem cooldown_enforced:
  assumes "InMemoryAuthAbuseGuard_RegisterFailure conv p now scope identity ip d = (x, d')"
    and "now \<le> t" "t - now \<le> ap_ResetWindow p"
  shows "fst (InMemoryAuthAbuseGuard_Check p t scope identity ip d') = max 0 (now + x - t)
       \<and> now + fst (bumpLocked conv p now (abuse_stateKey scope ''id'' (normalizeAuthIdentity identity)) d) - t
         \<le> fst (InMemoryAuthAbuseGuard_Check p t scope identity ip' d')
       \<and> fst (InMemoryAuthAbuseGuard_Check p t' scope identity ip (InMemoryAuthAbuseGuard_Reset scope identity ip d')) = 0"
proof -
  let ?i = "abuse_stateKey scope ''id'' (normalizeAuthIdentity identity)"
  let ?a = "abuse_stateKey scope ''ip'' (normalizeAuthIP ip)"
  let ?d1 = "snd (bumpLocked conv p now ?i d)"
  let ?x1 = "fst (bumpLocked conv p now ?i d)" and ?x2 = "fst (bumpLocked conv p now ?a ?d1)"
  have x: "x = max ?x1 ?x2" and d': "d' = snd (bumpLocked conv p now ?a ?d1)"
    using assms(1) by (auto simp: InMemoryAuthAbuseGuard_RegisterFailure_def split: prod.splits)
  have "d' ?i = ?d1 ?i" unfolding d' by (rule bump_other) (rule id_ip_keys)
  then obtain e1 where e1: "d' ?i = Some e1" "ab_LastFailureAt e1 = now" "ab_CooldownUntil e1 = now + ?x1"
    using bump_entry [of conv p now ?i d] by (metis authAbuseEntry.select_convs(2,3))
  obtain e2 where e2: "d' ?a = Some e2" "ab_LastFailureAt e2 = now" "ab_CooldownUntil e2 = now + ?x2"
    using bump_entry [of conv p now ?a ?d1] unfolding d' by (metis authAbuseEntry.select_convs(2,3))
  have i: "fst (activeCooldownLocked p t ?i d') = max 0 (now + ?x1 - t)"
    by (rule active_after [where d = d' and key = ?i, OF e1 assms(3)])
  have a: "fst (activeCooldownLocked p t ?a d') = max 0 (now + ?x2 - t)"
    by (rule active_after [where d = d' and key = ?a, OF e2 assms(3)])
  have "fst (InMemoryAuthAbuseGuard_Check p t' scope identity ip (InMemoryAuthAbuseGuard_Reset scope identity ip d')) = 0"
    unfolding Check_max by (simp add: InMemoryAuthAbuseGuard_Reset_def activeCooldownLocked_def)
  then show ?thesis unfolding Check_max i a x by auto
qed

theorem cooldown_enforced_witness:
  "fst (InMemoryAuthAbuseGuard_Check demo_policy (seconds 1) ''login'' ''a'' ''1.2.3.4''
     (snd (InMemoryAuthAbuseGuard_RegisterFailure floor demo_policy 0 ''login'' ''a'' ''1.2.3.4'' Map.empty)))
   = max 0 (0 + fst (InMemoryAuthAbuseGuard_RegisterFailure floor demo_policy 0 ''login'' ''a'' ''1.2.3.4'' Map.empty) - seconds 1)"
proof -
  obtain x d' where run: "InMemoryAuthAbuseGuard_RegisterFailure floor demo_policy 0 ''login'' ''a'' ''1.2.3.4'' Map.empty = (x, d')"
    by fastforce
  from cooldown_enforced [OF run, of "seconds 1"] show ?thesis unfolding run by (simp add: demo_policy_def)
qed

subsection \<open>The same in Redis\<close>

text \<open>
  Lua prints a number with 14 significant digits, so an integer below \<open>10 ^ 14\<close> is printed in full.
\<close>

definition lua_prints_integers :: "(rat \<Rightarrow> string) \<Rightarrow> bool" where
  "lua_prints_integers tos \<longleftrightarrow> (\<forall>i. \<bar>i\<bar> < 10 ^ 14 \<longrightarrow> tos (of_int i) = FormatInt i)"

definition hash_or_absent :: "int \<Rightarrow> rview \<Rightarrow> string \<Rightarrow> bool" where
  "hash_or_absent now V key \<longleftrightarrow> (case alive now V key of None \<Rightarrow> True | Some (RHash h, e) \<Rightarrow> True | _ \<Rightarrow> False)"

lemma HSET_PEXPIRE_view:
  assumes "hash_or_absent now V key" "0 < ms"
  shows "\<exists>h. v_PEXPIRE now key ms (v_HSET now key fs V) = V(key \<mapsto> (RHash (h ++ map_of (rev fs)), Some (now + ms)))"
proof (cases "alive now V key")
  case None
  then show ?thesis using assms(2) by (intro exI [of _ Map.empty]) (simp add: v_HSET_def v_PEXPIRE_def)
next
  case (Some ve)
  obtain v e where ve: "ve = (v, e)" by (cases ve)
  then obtain h where v: "v = RHash h" using assms(1) Some by (cases v) (auto simp: hash_or_absent_def)
  have "case e of None \<Rightarrow> True | Some t \<Rightarrow> now < t"
    using Some ve by (auto simp: alive_def split: option.splits prod.splits if_splits)
  then show ?thesis using assms(2) Some ve v by (intro exI [of _ h]) (simp add: v_HSET_def v_PEXPIRE_def)
qed

lemma bump_script_delay:
  assumes "p = normalizeAuthAbusePolicy q"
    and "redisAuthAbuseBumpScript R tos ton now key nowMS (milliseconds_of (ap_BaseDelay p)) (ap_Multiplier p)
       (milliseconds_of (ap_MaxDelay p)) (milliseconds_of (ap_ResetWindow p)) (ap_FreeAttempts p) r = (k, r')"
  shows "0 \<le> k \<and> k \<le> milliseconds_of (ap_MaxDelay p) \<and> (\<exists>fs. fs = [(''fail_count'', snd (hd fs)),
      (''last_failure_ms'', tos (of_int nowMS)), (''cooldown_until_ms'', tos (of_int (nowMS + k)))]
      \<and> r' = rd_PEXPIRE R now key (milliseconds_of (ap_ResetWindow p) + k + 60000) (rd_HSET R now key fs r))"
proof -
  have p: "0 \<le> milliseconds_of (ap_BaseDelay p)" "0 \<le> milliseconds_of (ap_MaxDelay p)" "1 \<le> ap_Multiplier p"
    using normalized_policy [of q] assms(1) by (auto simp: Let_def milliseconds_of_def sgn_if)
  define count where "count = (if num_field ton (rd_HGET R now key ''last_failure_ms'' r) = 0
      \<or> of_int nowMS - num_field ton (rd_HGET R now key ''last_failure_ms'' r) > of_int (milliseconds_of (ap_ResetWindow p))
      then 0 else num_field ton (rd_HGET R now key ''fail_count'' r)) + 1"
  define i where "i = (if count > of_int (ap_FreeAttempts p)
      then \<lfloor>of_int (milliseconds_of (ap_BaseDelay p)) * ap_Multiplier p ^ nat (\<lfloor>count\<rfloor> - ap_FreeAttempts p - 1)\<rfloor> else 0)"
  define j where "j = min i (milliseconds_of (ap_MaxDelay p))"
  have "0 \<le> i" using p by (simp add: i_def)
  with p have j: "0 \<le> j" "j \<le> milliseconds_of (ap_MaxDelay p)" by (simp_all add: j_def)
  have d1: "(if of_int i > (of_int (milliseconds_of (ap_MaxDelay p)) :: rat) then of_int (milliseconds_of (ap_MaxDelay p))
      else of_int i) = (of_int j :: rat)" by (simp add: j_def min_def)
  have d2: "(if 0 < (of_int j :: rat) \<and> of_int j < (1 :: rat) then 1 else of_int j) = (of_int j :: rat)" by simp
  have d0: "(if count > of_int (ap_FreeAttempts p) then of_int \<lfloor>of_int (milliseconds_of (ap_BaseDelay p))
      * ap_Multiplier p ^ nat (\<lfloor>count\<rfloor> - ap_FreeAttempts p - 1)\<rfloor> else 0) = (of_int i :: rat)" by (simp add: i_def)
  have run: "(k, r') = (\<lfloor>of_int j :: rat\<rfloor>, rd_PEXPIRE R now key \<lfloor>of_int (milliseconds_of (ap_ResetWindow p)) + of_int j + 60000 :: rat\<rfloor>
      (rd_HSET R now key [(''fail_count'', tos count), (''last_failure_ms'', tos (of_int nowMS)),
         (''cooldown_until_ms'', tos (of_int nowMS + of_int j))] r))"
    using assms(2) unfolding redisAuthAbuseBumpScript_def Let_def count_def [symmetric] d0 d1 d2 by auto
  have fl: "\<lfloor>of_int a + of_int b + 60000 :: rat\<rfloor> = a + b + 60000" for a b :: int
    by (metis floor_of_int of_int_add of_int_numeral)
  from run have "k = j" and "r' = rd_PEXPIRE R now key (milliseconds_of (ap_ResetWindow p) + j + 60000)
      (rd_HSET R now key [(''fail_count'', tos count), (''last_failure_ms'', tos (of_int nowMS)),
         (''cooldown_until_ms'', tos (of_int (nowMS + j)))] r)"
    unfolding fl floor_of_int of_int_add prod.inject by (blast, metis)
  with j show ?thesis by (intro conjI exI [of _ "[(''fail_count'', tos count), (''last_failure_ms'', tos (of_int nowMS)),
      (''cooldown_until_ms'', tos (of_int (nowMS + j)))]"]) simp_all
qed

text \<open>
  The guard in Redis enforces its cooldowns too, and never one above \<open>MaxDelay\<close>.  After a
  failure counted under a key with the answer \<open>x\<close>, reading the cooldown of the key within the reset
  window, before Redis drops the key, gives what is left of \<open>x\<close> in whole milliseconds.
\<close>

theorem redis_cooldown_enforced:
  assumes R: "redis_server R view" and tos: "lua_prints_integers tos" and p: "p = normalizeAuthAbusePolicy q"
    and hash: "hash_or_absent now (view r) key"
    and bump: "RedisAuthAbuseGuard_bumpKey R tos ton Up now p key nowMS r = (Inr x, r')"
    and range: "0 \<le> nowMS" "nowMS + milliseconds_of (ap_MaxDelay p) < 10 ^ 14"
    and later: "nowMS \<le> t div milliseconds 1" "t div milliseconds 1 - nowMS \<le> milliseconds_of (ap_ResetWindow p)"
      "now' < now + milliseconds_of (ap_ResetWindow p)"
  shows "RedisAuthAbuseGuard_cooldownForKey R Up now' p key t r'
           = Inr (max 0 (milliseconds nowMS + x - milliseconds (t div milliseconds 1)))
       \<and> 0 \<le> x \<and> x \<le> milliseconds (milliseconds_of (ap_MaxDelay p))"
proof -
  obtain k where k: "redisAuthAbuseBumpScript R tos ton now key nowMS (milliseconds_of (ap_BaseDelay p)) (ap_Multiplier p)
       (milliseconds_of (ap_MaxDelay p)) (milliseconds_of (ap_ResetWindow p)) (ap_FreeAttempts p) r = (k, r')"
    and x: "x = milliseconds (max k 0)"
    using bump by (auto simp: RedisAuthAbuseGuard_bumpKey_def redis_call_def split: prod.splits)
  obtain fs where k0: "0 \<le> k" "k \<le> milliseconds_of (ap_MaxDelay p)" and fs: "fs = [(''fail_count'', snd (hd fs)),
      (''last_failure_ms'', tos (of_int nowMS)), (''cooldown_until_ms'', tos (of_int (nowMS + k)))]"
    and r': "r' = rd_PEXPIRE R now key (milliseconds_of (ap_ResetWindow p) + k + 60000) (rd_HSET R now key fs r)"
    using bump_script_delay [OF p k] by blast
  have "0 < ap_ResetWindow p" using normalized_policy [of q] by (simp add: p Let_def)
  then have "0 \<le> milliseconds_of (ap_ResetWindow p)" by (auto simp: milliseconds_of_def)
  with k0 have w: "0 < milliseconds_of (ap_ResetWindow p) + k + 60000" by linarith
  obtain h where h: "view r' = (view r)(key \<mapsto> (RHash (h ++ map_of (rev fs)), Some (now + (milliseconds_of (ap_ResetWindow p) + k + 60000))))"
    using HSET_PEXPIRE_view [OF hash w, of fs]
    by (auto simp: r' redis_server.pexpire_law [OF R] redis_server.hset_law [OF R])
  have "now' < now + (milliseconds_of (ap_ResetWindow p) + k + 60000)" using later(3) k0(1) by linarith
  then have get: "rd_HGET R now' key f r' = (h ++ map_of (rev fs)) f" for f
    by (simp add: redis_server.hget_law [OF R] v_HGET_def h)
  have l: "rd_HGET R now' key ''last_failure_ms'' r' = Some (FormatInt nowMS)"
    unfolding get by (subst fs) (use tos range k0 in \<open>simp add: lua_prints_integers_def\<close>)
  have "\<bar>nowMS + k\<bar> < 10 ^ 14" using range k0 by linarith
  with tos have "tos (of_int (nowMS + k)) = FormatInt (nowMS + k)"
    unfolding lua_prints_integers_def by blast
  then have c: "rd_HGET R now' key ''cooldown_until_ms'' r' = Some (FormatInt (nowMS + k))"
    unfolding get by (subst fs) simp
  have i64: "is_int64 nowMS" "is_int64 (nowMS + k)" using range k0 by (auto simp: is_int64_def)
  have "RedisAuthAbuseGuard_cooldownForKey R Up now' p key t r'
      = (if nowMS + k \<le> t div milliseconds 1 then Inr 0 else Inr (milliseconds (nowMS + k - t div milliseconds 1)))"
    using later(2) by (simp add: RedisAuthAbuseGuard_cooldownForKey_def redis_call_def l c parseAuthAbuseRedisInt64_def
        Atoi_FormatInt i64 Let_def)
  with k0 x show ?thesis by (auto simp: max_def algebra_simps)
qed

theorem redis_cooldown_enforced_witness:
  "\<exists>x r'. RedisAuthAbuseGuard_bumpKey mem_redis (\<lambda>x. FormatInt \<lfloor>x\<rfloor>) (\<lambda>s. case Atoi s of None \<Rightarrow> 0 | Some i \<Rightarrow> of_int i)
            Up 0 demo_policy ''key'' 1000 Map.empty = (Inr x, r')
     \<and> RedisAuthAbuseGuard_cooldownForKey mem_redis Up 5 demo_policy ''key'' (milliseconds 1005) r'
       = Inr (max 0 (milliseconds 1000 + x - milliseconds 1005))"
proof -
  let ?tos = "\<lambda>x :: rat. FormatInt \<lfloor>x\<rfloor>"
  let ?ton = "\<lambda>s. case Atoi s of None \<Rightarrow> 0 | Some i \<Rightarrow> (of_int i :: rat)"
  obtain x r' where bump: "RedisAuthAbuseGuard_bumpKey mem_redis ?tos ?ton Up 0 demo_policy ''key'' 1000 Map.empty = (Inr x, r')"
    unfolding RedisAuthAbuseGuard_bumpKey_def redis_call_def net.case by (simp add: split_beta)
  have "RedisAuthAbuseGuard_cooldownForKey mem_redis Up 5 demo_policy ''key'' (milliseconds 1005) r'
       = Inr (max 0 (milliseconds 1000 + x - milliseconds (milliseconds 1005 div milliseconds 1)))"
    by (rule conjunct1 [OF redis_cooldown_enforced [OF mem_redis.redis_server_axioms _ demo_policy_normal [symmetric] _ bump]])
      (simp_all add: lua_prints_integers_def hash_or_absent_def alive_def demo_policy_def milliseconds_of_def)
  with bump show ?thesis by auto
qed

end
