(* ===== verification/Go_Float.thy ===== *)
theory Go_Float
  imports Go_Prelude "HOL-Library.Log_Nat"
begin

section \<open>The arithmetic of \<open>float64\<close>\<close>

text \<open>
  A finite \<open>float64\<close> is its rational value, and each arithmetic operation of the source is the exact
  operation followed by \<open>round64\<close>, the rounding to 53 significant bits, to the nearest and ties to
  even, which IEEE 754 prescribes.  The range of the exponent is not bounded: no result becomes
  subnormal or infinite, so the definitions below agree with the hardware while magnitudes stay between
  \<open>2 ^ -1022\<close> and \<open>2 ^ 1024\<close>.  A product is rounded before it is added to, as the compiler does on the
  architectures where it does not fuse the two (amd64).

  The locale \<open>rounding\<close> holds what the error bounds of the clients rest on; \<open>round64\<close> satisfies it.
\<close>

definition half_even :: "rat \<Rightarrow> int" where
  "half_even x =
     (let f = \<lfloor>x\<rfloor>; d = x - of_int f
      in if d < 1/2 then f else if 1/2 < d then f + 1 else if even f then f else f + 1)"

text \<open>The exponent of \<open>x > 0\<close>: the \<open>e\<close> with \<open>2 powi e \<le> x < 2 powi (e + 1)\<close>, from the lengths of numerator and denominator.\<close>

definition exponent2 :: "rat \<Rightarrow> int" where
  "exponent2 x =
     (case quotient_of x of (p, q) \<Rightarrow>
        (let e = bitlen p - bitlen q in if 2 powi e \<le> x then e else e - 1))"

definition round64 :: "rat \<Rightarrow> rat" where
  "round64 x =
     (if x = 0 then 0
      else (let ulp = 2 powi (exponent2 \<bar>x\<bar> - 52) in of_int (half_even (x / ulp)) * ulp))"

text \<open>
  The conversion of a \<open>float64\<close> to a 64-bit integer drops the fraction; out of range the language leaves
  the result to the architecture, and amd64 gives the least integer.
\<close>

definition to_int64 :: "rat \<Rightarrow> int" where
  "to_int64 x = (let i = (if x < 0 then \<lceil>x\<rceil> else \<lfloor>x\<rfloor>) in if is_int64 i then i else - (2 ^ 63))"

text \<open>
  \<open>Duration.Seconds()\<close> and \<open>Duration.Minutes()\<close>, for a duration that is not negative: the whole units and
  the rest are converted and added.
\<close>

definition Duration_Seconds :: "duration \<Rightarrow> rat" where
  "Duration_Seconds d =
     round64 (round64 (of_int (d div seconds 1)) + round64 (round64 (of_int (d mod seconds 1)) / 1000000000))"

definition Duration_Minutes :: "duration \<Rightarrow> rat" where
  "Duration_Minutes d =
     round64 (round64 (of_int (d div minutes 1)) + round64 (round64 (of_int (d mod minutes 1)) / 60000000000))"

subsection \<open>What the clients use of rounding\<close>

locale rounding =
  fixes fl :: "rat \<Rightarrow> rat"
  assumes fl_near: "\<bar>fl x - x\<bar> \<le> \<bar>x\<bar> / 2 ^ 53"
    and fl_mono: "0 \<le> x \<Longrightarrow> x \<le> y \<Longrightarrow> fl x \<le> fl y"
    and fl_int: "0 \<le> i \<Longrightarrow> i < 2 ^ 53 \<Longrightarrow> fl (of_int i) = of_int i"
begin

lemma fl_0 [simp]: "fl 0 = 0"
  using fl_int [of 0] by simp

lemma fl_1 [simp]: "fl 1 = 1"
  using fl_int [of 1] by simp

lemma fl_numeral: "numeral n < (2 ^ 53 :: int) \<Longrightarrow> fl (numeral n) = numeral n"
  using fl_int [of "numeral n"] by simp

lemma fl_nonneg [simp]: "0 \<le> x \<Longrightarrow> 0 \<le> fl x"
  using fl_mono [of 0 x] by simp

lemma fl_lower: "0 \<le> x \<Longrightarrow> x * (1 - 1 / 2 ^ 53) \<le> fl x"
  using fl_near [of x] unfolding abs_le_iff right_diff_distrib by simp

lemma fl_upper: "0 \<le> x \<Longrightarrow> fl x \<le> x * (1 + 1 / 2 ^ 53)"
  using fl_near [of x] unfolding abs_le_iff distrib_left by simp

lemma fl_pos [simp]: "0 < x \<Longrightarrow> 0 < fl x"
proof -
  assume "0 < x"
  then have "0 < x * (1 - 1 / 2 ^ 53)" by simp
  then show ?thesis using fl_lower [of x] \<open>0 < x\<close> by linarith
qed

lemma fl_ge_1: "1 \<le> x \<Longrightarrow> 1 \<le> fl x"
  using fl_mono [of 1 x] by simp

lemma fl_le_int: "0 \<le> x \<Longrightarrow> x \<le> of_int i \<Longrightarrow> i < 2 ^ 53 \<Longrightarrow> fl x \<le> of_int i"
proof -
  assume "0 \<le> x" "x \<le> of_int i" "i < 2 ^ 53"
  moreover from this have "0 \<le> (of_int i :: rat)" by linarith
  ultimately show ?thesis using fl_mono [of x "of_int i"] fl_int [of i] by simp
qed

lemma fl_lower_trans: "0 \<le> c \<Longrightarrow> c \<le> x \<Longrightarrow> c * (1 - 1 / 2 ^ 53) \<le> fl x"
proof -
  assume "0 \<le> c" "c \<le> x"
  then have "c * (1 - 1 / 2 ^ 53) \<le> x * (1 - 1 / 2 ^ 53)" by (intro mult_right_mono) auto
  with fl_lower [of x] \<open>0 \<le> c\<close> \<open>c \<le> x\<close> show ?thesis by linarith
qed

end

subsection \<open>\<open>round64\<close> satisfies it\<close>

lemma half_even_near: "\<bar>of_int (half_even x) - x\<bar> \<le> 1/2"
proof -
  have "of_int \<lfloor>x\<rfloor> \<le> x" "x < of_int \<lfloor>x\<rfloor> + 1" by linarith+
  then show ?thesis unfolding half_even_def Let_def abs_le_iff by (simp split: if_splits) linarith
qed

lemma half_even_of_int [simp]: "half_even (of_int i) = i"
  by (simp add: half_even_def)

lemma half_even_mono: "x \<le> y \<Longrightarrow> half_even x \<le> half_even y"
proof (rule ccontr)
  assume le: "x \<le> y" and "\<not> half_even x \<le> half_even y"
  then have "half_even y + 1 \<le> half_even x" by simp
  then have gap: "of_int (half_even y) + 1 \<le> (of_int (half_even x) :: rat)"
    by (metis of_int_1 of_int_add of_int_le_iff)
  with half_even_near [of x] half_even_near [of y] le have "x = y" unfolding abs_le_iff by linarith
  with gap show False by simp
qed

lemma powi_pos [simp]: "0 < (2 powi e :: rat)"
  by (rule zero_less_power_int) simp

lemma powi_mult: "2 powi a * 2 powi b = (2 powi (a + b) :: rat)"
  by (rule power_int_add [symmetric]) simp

lemma powi_mono: "a \<le> b \<Longrightarrow> 2 powi a \<le> (2 powi b :: rat)"
  by (rule power_int_increasing) simp_all

lemma powi_less_cancel: "2 powi a < (2 powi b :: rat) \<Longrightarrow> a < b"
  using powi_mono [of b a] by linarith

lemma bitlen_powi:
  assumes "0 < p"
  shows "2 powi (bitlen p - 1) \<le> (of_int p :: rat)" and "of_int p < (2 powi bitlen p :: rat)"
proof -
  note b = bitlen_bounds [OF assms]
  have pos: "1 \<le> bitlen p" using assms bitlen_eq_zero_iff [of p] bitlen_nonneg [of p] by linarith
  have "(of_int (2 ^ nat (bitlen p - 1)) :: rat) \<le> of_int p" using b by (simp only: of_int_le_iff)
  then show "2 powi (bitlen p - 1) \<le> (of_int p :: rat)" using pos by (simp add: power_int_nonneg_exp)
  have "(of_int p :: rat) < of_int (2 ^ nat (bitlen p))" using b by (simp only: of_int_less_iff)
  then show "of_int p < (2 powi bitlen p :: rat)" using pos by (simp add: power_int_nonneg_exp)
qed

lemma exponent2_bounds:
  assumes "0 < x"
  shows "2 powi exponent2 x \<le> x" and "x < 2 powi (exponent2 x + 1)"
proof -
  obtain p q where pq: "quotient_of x = (p, q)" by fastforce
  have q: "0 < q" and x: "x = of_int p / of_int q" using quotient_of_denom_pos [OF pq] quotient_of_div [OF pq] by simp_all
  then have p: "0 < p" using assms by (simp add: zero_less_divide_iff)
  define e where "e = bitlen p - bitlen q"
  have E: "exponent2 x = (if 2 powi e \<le> x then e else e - 1)" by (simp add: exponent2_def pq e_def)
  have q': "0 < (of_int q :: rat)" using q by simp
  have "x < 2 powi (e + 1)"
  proof -
    have "of_int p < 2 powi (e + 1) * (2 powi (bitlen q - 1) :: rat)"
      using bitlen_powi(2) [OF p] by (simp add: powi_mult e_def)
    also have "\<dots> \<le> 2 powi (e + 1) * of_int q" using bitlen_powi(1) [OF q] by (intro mult_left_mono) auto
    finally show ?thesis using q' by (simp add: x divide_less_eq)
  qed
  moreover have "2 powi (e - 1) \<le> x"
  proof -
    have "2 powi (e - 1) * of_int q \<le> 2 powi (e - 1) * (2 powi bitlen q :: rat)"
      using bitlen_powi(2) [OF q] by (intro mult_left_mono) auto
    also have "\<dots> \<le> of_int p" using bitlen_powi(1) [OF p] by (simp add: powi_mult e_def algebra_simps)
    finally show ?thesis using q' by (simp add: x le_divide_eq)
  qed
  ultimately show "2 powi exponent2 x \<le> x" "x < 2 powi (exponent2 x + 1)" by (auto simp: E)
qed

lemma exponent2_mono: "0 < x \<Longrightarrow> x \<le> y \<Longrightarrow> exponent2 x \<le> exponent2 y"
  using powi_less_cancel [of "exponent2 x" "exponent2 y + 1"] exponent2_bounds [of x] exponent2_bounds [of y] by linarith

lemma round64_pos_eq:
  "0 < x \<Longrightarrow> round64 x = of_int (half_even (x / 2 powi (exponent2 x - 52))) * 2 powi (exponent2 x - 52)"
  by (simp add: round64_def Let_def)

lemma round64_near: "\<bar>round64 x - x\<bar> \<le> \<bar>x\<bar> / 2 ^ 53"
proof (cases "x = 0")
  case False
  define e u where "e = exponent2 \<bar>x\<bar>" and "u = (2 powi (e - 52) :: rat)"
  have u: "0 < u" by (simp add: u_def)
  have "round64 x - x = (of_int (half_even (x / u)) - x / u) * u"
    using False u by (simp add: round64_def Let_def e_def [symmetric] u_def [symmetric] left_diff_distrib)
  then have "\<bar>round64 x - x\<bar> = \<bar>of_int (half_even (x / u)) - x / u\<bar> * u" using u by (simp add: abs_mult)
  also have "\<dots> \<le> 1/2 * u" using half_even_near [of "x / u"] u by (intro mult_right_mono) auto
  also have "\<dots> = 2 powi e / 2 ^ 53" by (simp add: u_def power_int_diff)
  also have "\<dots> \<le> \<bar>x\<bar> / 2 ^ 53" using exponent2_bounds(1) [of "\<bar>x\<bar>"] False
    by (intro divide_right_mono) (simp_all add: e_def)
  finally show ?thesis .
qed (simp add: round64_def)

lemma round64_binade:
  assumes "0 < x"
  shows "2 powi exponent2 x \<le> round64 x" and "round64 x \<le> 2 powi (exponent2 x + 1)"
proof -
  define e u where "e = exponent2 x" and "u = (2 powi (e - 52) :: rat)"
  have u: "0 < u" by (simp add: u_def)
  have ends: "of_int (2 ^ 52) * u = 2 powi e" "of_int (2 ^ 53) * u = 2 powi (e + 1)"
    by (simp_all add: u_def power_int_diff power_int_add)
  have x: "of_int (2 ^ 52) \<le> x / u" "x / u \<le> of_int (2 ^ 53)"
    unfolding pos_le_divide_eq [OF u] pos_divide_le_eq [OF u] ends e_def
    using exponent2_bounds [OF assms] by simp_all
  have r: "round64 x = of_int (half_even (x / u)) * u" using assms by (simp add: round64_pos_eq u_def e_def)
  have "(2 :: int) ^ 52 \<le> half_even (x / u)" using half_even_mono [OF x(1)] by (simp only: half_even_of_int)
  then have "of_int (2 ^ 52) * u \<le> round64 x" unfolding r using u by (intro mult_right_mono) (auto simp only: of_int_le_iff less_imp_le)
  then show "2 powi exponent2 x \<le> round64 x" by (simp only: ends e_def)
  have "half_even (x / u) \<le> (2 :: int) ^ 53" using half_even_mono [OF x(2)] by (simp only: half_even_of_int)
  then have "round64 x \<le> of_int (2 ^ 53) * u" unfolding r using u by (intro mult_right_mono) (auto simp only: of_int_le_iff less_imp_le)
  then show "round64 x \<le> 2 powi (exponent2 x + 1)" by (simp only: ends e_def)
qed

lemma round64_mono_pos:
  assumes "0 < x" and "x \<le> y"
  shows "round64 x \<le> round64 y"
proof (cases "exponent2 x = exponent2 y")
  case True
  have "x / 2 powi (exponent2 y - 52) \<le> y / 2 powi (exponent2 y - 52)" using assms(2) by (intro divide_right_mono) auto
  from half_even_mono [OF this] show ?thesis
    using assms by (simp add: round64_pos_eq True)
next
  case False
  then have "exponent2 x + 1 \<le> exponent2 y" using exponent2_mono [OF assms] by simp
  then have "round64 x \<le> 2 powi exponent2 y" using round64_binade(2) [OF assms(1)] powi_mono order_trans by blast
  also have "\<dots> \<le> round64 y" using assms by (intro round64_binade(1)) simp
  finally show ?thesis .
qed

lemma round64_int:
  assumes "0 \<le> i" and "i < 2 ^ 53"
  shows "round64 (of_int i) = of_int i"
proof (cases "i = 0")
  case False
  with assms have i: "0 < (of_int i :: rat)" by simp
  define e where "e = exponent2 (of_int i)"
  have "2 powi e \<le> (of_int i :: rat)" using exponent2_bounds(1) [OF i] by (simp add: e_def)
  also have "\<dots> < of_int (2 ^ 53)" using assms(2) by (simp only: of_int_less_iff)
  also have "\<dots> = 2 powi 53" by simp
  finally have e: "e \<le> 52" using powi_less_cancel [of e 53] by simp
  have "of_int (i * 2 ^ nat (52 - e)) = of_int i * (2 powi (52 - e) :: rat)" using e by (simp add: power_int_nonneg_exp)
  also have "\<dots> = of_int i / 2 powi (e - 52)" using power_int_minus_divide [of "2 :: rat" "e - 52"] by simp
  finally have q: "of_int i / 2 powi (e - 52) = (of_int (i * 2 ^ nat (52 - e)) :: rat)" by simp
  have "round64 (of_int i) = of_int i / 2 powi (e - 52) * 2 powi (e - 52)"
    unfolding round64_pos_eq [OF i] e_def [symmetric] q half_even_of_int ..
  then show ?thesis by simp
qed (simp add: round64_def)

lemma round64_nonneg: "0 \<le> y \<Longrightarrow> 0 \<le> round64 y"
proof (cases "y = 0")
  case False
  assume "0 \<le> y"
  with False have "2 powi exponent2 y \<le> round64 y" by (intro round64_binade) simp
  then show ?thesis using powi_pos [of "exponent2 y"] by linarith
qed (simp add: round64_def)

lemma round64_mono: "0 \<le> x \<Longrightarrow> x \<le> y \<Longrightarrow> round64 x \<le> round64 y"
  using round64_mono_pos [of x y] round64_nonneg [of y] by (cases "x = 0") (simp_all add: round64_def [of 0])

interpretation r64: rounding round64
  by unfold_locales (fact round64_near round64_mono round64_int)+

subsection \<open>Durations\<close>

lemma units_split:
  assumes "0 < u"
  shows "of_int (d div u) + of_int (d mod u) / of_int u = (of_int d / of_int u :: rat)"
proof -
  have "of_int d = (of_int (d div u * u + d mod u) :: rat)" by simp
  then show ?thesis using assms by (simp only: of_int_add of_int_mult) (simp add: add_divide_distrib)
qed

lemma in_units_bounds:
  fixes u d :: int
  assumes "0 < u" "u < 2 ^ 53" "0 \<le> d"
  defines "x \<equiv> of_int d / of_int u :: rat"
    and "y \<equiv> round64 (round64 (of_int (d div u)) + round64 (round64 (of_int (d mod u)) / of_int u))"
  shows "x * (1 - 1 / 2 ^ 53) ^ 2 \<le> y" and "y \<le> x * (1 + 1 / 2 ^ 53) ^ 2"
proof -
  let ?s = "of_int (d div u) :: rat" and ?n = "of_int (d mod u) / of_int u :: rat"
  have x: "x = ?s + ?n" using units_split [OF assms(1)] by (simp add: x_def)
  have "d mod u < u" "0 \<le> d mod u" using assms(1) by simp_all
  then have n: "round64 (of_int (d mod u)) = of_int (d mod u)" using assms(2) by (intro r64.fl_int) linarith+
  have nn: "0 \<le> ?s" "0 \<le> ?n" using assms(1,3) by (simp_all add: pos_imp_zdiv_nonneg_iff)
  have "x * (1 - 1 / 2 ^ 53) \<le> round64 ?s + round64 ?n"
    unfolding x distrib_right using nn by (intro add_mono r64.fl_lower)
  moreover have "0 \<le> x * (1 - 1 / 2 ^ 53)" unfolding x using nn by (intro mult_nonneg_nonneg add_nonneg_nonneg) simp_all
  ultimately show "x * (1 - 1 / 2 ^ 53) ^ 2 \<le> y"
    unfolding y_def n power2_eq_square mult.assoc [symmetric] by (rule r64.fl_lower_trans [rotated])
  have sum: "round64 ?s + round64 ?n \<le> x * (1 + 1 / 2 ^ 53)"
    unfolding x distrib_right using nn by (intro add_mono r64.fl_upper)
  have "y \<le> (round64 ?s + round64 ?n) * (1 + 1 / 2 ^ 53)"
    unfolding y_def n using nn by (intro r64.fl_upper add_nonneg_nonneg r64.fl_nonneg)
  also have "\<dots> \<le> x * (1 + 1 / 2 ^ 53) * (1 + 1 / 2 ^ 53)" using sum by (intro mult_right_mono) simp_all
  finally show "y \<le> x * (1 + 1 / 2 ^ 53) ^ 2" by (simp add: power2_eq_square mult.assoc)
qed

lemma Duration_Seconds_lower:
  "0 \<le> d \<Longrightarrow> of_int d / 1000000000 * (1 - 1 / 2 ^ 53) ^ 2 \<le> Duration_Seconds d"
  using in_units_bounds(1) [of "seconds 1" d] by (simp add: Duration_Seconds_def)

lemma Duration_Seconds_nonneg [simp]: "0 \<le> d \<Longrightarrow> 0 \<le> Duration_Seconds d"
  using Duration_Seconds_lower [of d] by (simp add: Duration_Seconds_def pos_imp_zdiv_nonneg_iff)

lemma Duration_Seconds_pos [simp]: "0 < d \<Longrightarrow> 0 < Duration_Seconds d"
proof -
  assume "0 < d"
  then have "0 < of_int d / 1000000000 * (1 - 1 / 2 ^ 53 :: rat) ^ 2" by simp
  also have "\<dots> \<le> Duration_Seconds d" using \<open>0 < d\<close> by (intro Duration_Seconds_lower) simp
  finally show ?thesis .
qed

text \<open>Two well-known values, computed: one third and one tenth as a \<open>float64\<close>.\<close>

lemma round64_third: "round64 (1/3) = 6004799503160661 / 2 ^ 54"
  by code_simp

lemma round64_tenth: "round64 (1/10) = 3602879701896397 / 2 ^ 55"
  by code_simp

end
