(* ===== verification/Rate_Limiter.thy ===== *)
theory Rate_Limiter
  imports Http Redis Go_Float
begin

section \<open>Rate limiting: \<open>rate_limit_middleware.go\<close> and \<open>rate_limit_redis.go\<close>\<close>

text \<open>
  The limiter combines a token bucket with a window of the recent requests.  In memory its state is the
  map \<open>lm_store\<close> from keys to \<open>localHybridState\<close>; in Redis a hash, a sorted set and a counter under
  three keys, updated by one Lua script.  Every operation on \<open>float64\<close>, and on the numbers of Lua, is
  rounded as in \<^verbatim>\<open>Go_Float\<close>.
\<close>

record Decision =
  dc_Allowed :: bool
  dc_RetryAfter :: duration
  dc_Remaining :: int
  dc_ResetAt :: gotime
  dc_Reason :: string

record RateLimitPolicy =
  rp_SustainedLimit :: int
  rp_SustainedWindow :: duration
  rp_BurstCapacity :: int
  rp_BurstRefillPerSec :: rat

record localHybridState =
  lh_tokens :: rat
  lh_lastRefill :: gotime
  lh_hits :: "gotime list"

record limiter_mem =
  lm_store :: "string \<Rightarrow> localHybridState option"
  lm_cleanup :: gotime

definition normalizePolicy :: "RateLimitPolicy \<Rightarrow> RateLimitPolicy" where
  "normalizePolicy p0 =
     (let p1 = (if rp_SustainedLimit p0 \<le> 0 then p0\<lparr>rp_SustainedLimit := 1\<rparr> else p0);
          p2 = (if rp_SustainedWindow p1 \<le> 0 then p1\<lparr>rp_SustainedWindow := minutes 1\<rparr> else p1);
          p3 = (if rp_BurstCapacity p2 \<le> 0 then p2\<lparr>rp_BurstCapacity := rp_SustainedLimit p2\<rparr> else p2);
          p4 = (if rp_BurstCapacity p3 < rp_SustainedLimit p3 then p3\<lparr>rp_BurstCapacity := rp_SustainedLimit p3\<rparr> else p3);
          p5 = (if rp_BurstRefillPerSec p4 \<le> 0
                then p4\<lparr>rp_BurstRefillPerSec :=
                          round64 (round64 (of_int (rp_SustainedLimit p4)) / Duration_Seconds (rp_SustainedWindow p4))\<rparr>
                else p4)
      in if rp_BurstRefillPerSec p5 \<le> 0 then p5\<lparr>rp_BurstRefillPerSec := 1\<rparr> else p5)"

definition newRateLimitPolicy :: "int \<Rightarrow> duration \<Rightarrow> rat \<Rightarrow> RateLimitPolicy" where
  "newRateLimitPolicy limit0 window0 burstMultiplier0 =
     (let limit = (if limit0 \<le> 0 then 1 else limit0);
          window = (if window0 \<le> 0 then minutes 1 else window0);
          burstMultiplier = (if burstMultiplier0 < 1 then 1 else burstMultiplier0);
          burst0 = to_int64 (of_int \<lceil>round64 (round64 (of_int limit) * burstMultiplier)\<rceil>);
          burst = (if burst0 < limit then limit else burst0);
          refill0 = round64 (round64 (of_int limit) / Duration_Seconds window);
          refill = (if refill0 \<le> 0 then 1 else refill0)
      in \<lparr>rp_SustainedLimit = limit, rp_SustainedWindow = window, rp_BurstCapacity = burst,
          rp_BurstRefillPerSec = refill\<rparr>)"

subsection \<open>The limiter in memory\<close>

text \<open>
  The part of \<open>Allow\<close> after the state of the key has been fetched, in its two halves: \<open>local_refill\<close>
  adds the tokens of the time that has passed and drops the requests that left the window, and
  \<open>local_decide\<close> decides and takes a token.
\<close>

definition local_refill :: "RateLimitPolicy \<Rightarrow> gotime \<Rightarrow> localHybridState \<Rightarrow> localHybridState" where
  "local_refill policy now st0 =
     (let st1 = (if now > lh_lastRefill st0
                 then st0\<lparr>lh_tokens := min (round64 (of_int (rp_BurstCapacity policy)))
                            (round64 (lh_tokens st0 +
                               round64 (Duration_Seconds (now - lh_lastRefill st0) * rp_BurstRefillPerSec policy))),
                          lh_lastRefill := now\<rparr>
                 else st0);
          cutoff = now - rp_SustainedWindow policy
      in st1\<lparr>lh_hits := filter (\<lambda>hit. hit > cutoff) (lh_hits st1)\<rparr>)"

definition local_decide :: "RateLimitPolicy \<Rightarrow> gotime \<Rightarrow> localHybridState \<Rightarrow> Decision \<times> localHybridState" where
  "local_decide policy now st =
     (let tokens = lh_tokens st;
          hits = lh_hits st;
          sustainedRemaining = rp_SustainedLimit policy - int (length hits);
          bucketRetry = (if tokens < 1
                         then to_int64 (of_int \<lceil>round64 (round64 (round64 (1 - tokens) / rp_BurstRefillPerSec policy) * 1000000000)\<rceil>)
                         else 0);
          sustainedRetry = (if sustainedRemaining \<le> 0 then max (hd hits + rp_SustainedWindow policy - now) 0 else 0);
          reason = (if sustainedRemaining \<le> 0 \<and> sustainedRetry \<ge> bucketRetry then ''window''
                    else if tokens < 1 then ''bucket'' else []);
          allowed = (bucketRetry \<le> 0 \<and> sustainedRetry \<le> 0);
          tokens' = (if allowed then max (round64 (tokens - 1)) 0 else tokens);
          hits' = (if allowed then hits @ [now] else hits);
          sustainedRemaining' = (if allowed then rp_SustainedLimit policy - int (length hits') else sustainedRemaining);
          bucketRemaining = max (to_int64 (of_int \<lfloor>tokens'\<rfloor>)) 0;
          retryAfter0 = max bucketRetry sustainedRetry;
          retryAfter = (if \<not> allowed \<and> retryAfter0 \<le> 0 then seconds 1 else retryAfter0);
          resetAt = (if \<not> allowed then now + retryAfter
                     else if hits' \<noteq> [] then hd hits' + rp_SustainedWindow policy
                     else now + rp_SustainedWindow policy)
      in (\<lparr>dc_Allowed = allowed, dc_RetryAfter = retryAfter,
           dc_Remaining = min bucketRemaining (max sustainedRemaining' 0), dc_ResetAt = resetAt, dc_Reason = reason\<rparr>,
          st\<lparr>lh_tokens := tokens', lh_hits := hits'\<rparr>))"

definition local_cleanup :: "RateLimitPolicy \<Rightarrow> gotime \<Rightarrow> limiter_mem \<Rightarrow> limiter_mem" where
  "local_cleanup policy now m =
     (if now > lm_cleanup m then
        \<lparr>lm_store = (\<lambda>k. case lm_store m k of
             None \<Rightarrow> None
           | Some v \<Rightarrow> if lh_hits v = [] \<and> now - lh_lastRefill v > 2 * rp_SustainedWindow policy then None else Some v),
         lm_cleanup = now + rp_SustainedWindow policy\<rparr>
      else m)"

definition localFixedWindowLimiter_Allow ::
    "gotime \<Rightarrow> string \<Rightarrow> RateLimitPolicy \<Rightarrow> limiter_mem \<Rightarrow> Decision \<times> limiter_mem" where
  "localFixedWindowLimiter_Allow now key policy0 m0 =
     (let policy = normalizePolicy policy0;
          m = local_cleanup policy now m0;
          st = (case lm_store m key of
                  None \<Rightarrow> \<lparr>lh_tokens = round64 (of_int (rp_BurstCapacity policy)), lh_lastRefill = now, lh_hits = []\<rparr>
                | Some v \<Rightarrow> v)
      in case local_decide policy now (local_refill policy now st) of
           (d, st') \<Rightarrow> (d, m\<lparr>lm_store := (lm_store m)(key \<mapsto> st')\<rparr>))"

definition NewLocalFixedWindowLimiter :: "gotime \<Rightarrow> limiter_mem" where
  "NewLocalFixedWindowLimiter now = \<lparr>lm_store = (\<lambda>_. None), lm_cleanup = now + minutes 1\<rparr>"

subsection \<open>The limiter in Redis\<close>

text \<open>
  The Lua script in two parts: \<open>script_admit\<close> refills the bucket, prunes the window and admits the
  request or not; the rest stores the bucket, renews the times of expiry and computes the reply.
\<close>

definition script_admit ::
    "'r redis \<Rightarrow> (rat \<Rightarrow> string) \<Rightarrow> (string \<Rightarrow> rat) \<Rightarrow> int \<Rightarrow> string \<Rightarrow> string \<Rightarrow> string \<Rightarrow> int \<Rightarrow> int \<Rightarrow> rat \<Rightarrow> int \<Rightarrow> int
     \<Rightarrow> 'r \<Rightarrow> (bool \<times> rat \<times> int) \<times> 'r" where
  "script_admit R tos ton now bucket_key window_key seq_key now_ms burst_capacity refill_per_ms
     sustained_limit sustained_window_ms r0 =
     (let stored_tokens = rd_HGET R now bucket_key ''tokens'' r0;
          stored_last = rd_HGET R now bucket_key ''last_ms'' r0;
          tokens0 = (case stored_tokens of None \<Rightarrow> of_int burst_capacity | Some s \<Rightarrow> ton s);
          last0 = (case stored_last of None \<Rightarrow> of_int now_ms | Some s \<Rightarrow> ton s);
          last_ms = (if of_int now_ms < last0 then of_int now_ms else last0);
          elapsed_ms = round64 (of_int now_ms - last_ms);
          tokens1 = min (of_int burst_capacity) (round64 (tokens0 + round64 (elapsed_ms * refill_per_ms)));
          window_start = now_ms - sustained_window_ms;
          r1 = rd_ZREMRANGEBYSCORE R now window_key window_start r0;
          count0 = int (rd_ZCARD R now window_key r1)
      in if tokens1 \<ge> 1 \<and> count0 < sustained_limit then
           (case rd_INCR R now seq_key r1 of (seq, r2) \<Rightarrow>
              ((True, round64 (tokens1 - 1), count0 + 1),
               rd_ZADD R now window_key now_ms (tos (of_int now_ms) @ ''-'' @ tos (of_int seq)) r2))
         else ((False, tokens1, count0), r1))"

definition redisFixedWindowScript ::
    "'r redis \<Rightarrow> (rat \<Rightarrow> string) \<Rightarrow> (string \<Rightarrow> rat) \<Rightarrow> int \<Rightarrow> string \<Rightarrow> string \<Rightarrow> string \<Rightarrow> int \<Rightarrow> int \<Rightarrow> rat \<Rightarrow> int \<Rightarrow> int
     \<Rightarrow> 'r \<Rightarrow> (int \<times> int \<times> int \<times> int) \<times> 'r" where
  "redisFixedWindowScript R tos ton now bucket_key window_key seq_key now_ms burst_capacity refill0
     sustained_limit sustained_window_ms r0 =
     (let refill_per_ms = (if refill0 \<le> 0 then round64 (1 / 1000) else refill0) in
      case script_admit R tos ton now bucket_key window_key seq_key now_ms burst_capacity refill_per_ms
             sustained_limit sustained_window_ms r0 of
        ((allowed, tokens, current_count), r2) \<Rightarrow>
          (let retry_bucket_ms = (if tokens < 1 then \<lceil>round64 (round64 (1 - tokens) / refill_per_ms)\<rceil> else 0);
               retry_sustained_ms =
                 (if current_count \<ge> sustained_limit then
                    (case rd_ZRANGE_first R now window_key r2 of
                       None \<Rightarrow> 0
                     | Some (m, score) \<Rightarrow> max (score + sustained_window_ms - now_ms) 0)
                  else 0);
               retry0 = (if retry_sustained_ms > retry_bucket_ms then retry_sustained_ms else retry_bucket_ms);
               retry_ms = (if retry0 \<le> 0 then 1 else retry0);
               remaining_bucket = max \<lfloor>tokens\<rfloor> 0;
               remaining_sustained = max (sustained_limit - current_count) 0;
               remaining = (if remaining_sustained < remaining_bucket then remaining_sustained else remaining_bucket);
               r3 = rd_HSET R now bucket_key [(''tokens'', tos tokens), (''last_ms'', tos (of_int now_ms))] r2;
               bucket_ttl0 = \<lceil>round64 (of_int burst_capacity / refill_per_ms)\<rceil>;
               bucket_ttl_ms = (if bucket_ttl0 < sustained_window_ms then sustained_window_ms else bucket_ttl0);
               r4 = rd_PEXPIRE R now bucket_key bucket_ttl_ms r3;
               r5 = rd_PEXPIRE R now window_key sustained_window_ms r4;
               r6 = rd_PEXPIRE R now seq_key sustained_window_ms r5;
               \<comment> \<open>in Lua the number 0 is true, so the branch that would use the retry time is never taken\<close>
               reset_ms = now_ms + sustained_window_ms
           in ((if allowed then 1 else 0, retry_ms, remaining, reset_ms), r6)))"

definition RedisFixedWindowLimiter_Allow ::
    "'r redis \<Rightarrow> (rat \<Rightarrow> string) \<Rightarrow> (string \<Rightarrow> rat) \<Rightarrow> net \<Rightarrow> int \<Rightarrow> string \<Rightarrow> gotime \<Rightarrow> string \<Rightarrow> RateLimitPolicy \<Rightarrow> 'r
     \<Rightarrow> Decision result \<times> 'r" where
  "RedisFixedWindowLimiter_Allow R tos ton n now pfx now_t key0 policy0 r =
     (let policy = normalizePolicy policy0;
          nowMS = now_t div milliseconds 1;
          key = (if key0 = [] then ''unknown'' else key0);
          window0 = rp_SustainedWindow policy div milliseconds 1;
          windowMS = (if window0 \<le> 0 then 1000 else window0);
          refillPerMS = round64 (rp_BurstRefillPerSec policy / 1000);
          storeKey = pfx @ '':'' @ key
      in case redis_call n (redisFixedWindowScript R tos ton now storeKey (storeKey @ '':sw'') (storeKey @ '':seq'')
                nowMS (rp_BurstCapacity policy) refillPerMS (rp_SustainedLimit policy) windowMS) r of
           (Inl e, r') \<Rightarrow> (Inl e, r')
         | (Inr (allowedInt, retry0, remainingInt, reset0), r') \<Rightarrow>
             (let retryMS = (if retry0 \<le> 0 then 1 else retry0);
                  resetMS = (if reset0 \<le> nowMS then nowMS + retryMS else reset0)
              in (Inr \<lparr>dc_Allowed = (allowedInt = 1), dc_RetryAfter = milliseconds retryMS,
                       dc_Remaining = max remainingInt 0, dc_ResetAt = milliseconds resetMS, dc_Reason = []\<rparr>, r')))"

subsection \<open>The middleware\<close>

datatype FailureMode = FailOpen | FailClosed

record 's RateLimiter =
  rl_allow :: "string \<Rightarrow> RateLimitPolicy \<Rightarrow> 's \<Rightarrow> Decision result \<times> 's"
  rl_policy :: RateLimitPolicy
  rl_mode :: FailureMode
  rl_keyFunc :: "request \<Rightarrow> string"
  rl_bypass :: "(request \<Rightarrow> bool \<times> string) option"

text \<open>
  The constructors.  The scope labels metrics only and is left out; a missing key function is
  \<open>None\<close>, and \<open>clientIPKey\<close> reads the address of the request with the library's IP parser.
\<close>

definition NewDistributedRateLimiterWithKeyAndPolicy ::
    "(request \<Rightarrow> string) \<Rightarrow> (string \<Rightarrow> RateLimitPolicy \<Rightarrow> 's \<Rightarrow> Decision result \<times> 's) \<Rightarrow> RateLimitPolicy
     \<Rightarrow> FailureMode \<Rightarrow> (request \<Rightarrow> string) option \<Rightarrow> 's RateLimiter" where
  "NewDistributedRateLimiterWithKeyAndPolicy clientIPKey limiter policy mode keyFunc =
     \<lparr>rl_allow = limiter, rl_policy = normalizePolicy policy, rl_mode = mode,
      rl_keyFunc = (case keyFunc of None \<Rightarrow> clientIPKey | Some f \<Rightarrow> f), rl_bypass = None\<rparr>"

definition NewDistributedRateLimiterWithKey ::
    "(request \<Rightarrow> string) \<Rightarrow> (string \<Rightarrow> RateLimitPolicy \<Rightarrow> 's \<Rightarrow> Decision result \<times> 's) \<Rightarrow> int \<Rightarrow> duration
     \<Rightarrow> FailureMode \<Rightarrow> (request \<Rightarrow> string) option \<Rightarrow> 's RateLimiter" where
  "NewDistributedRateLimiterWithKey clientIPKey limiter limit window mode keyFunc =
     NewDistributedRateLimiterWithKeyAndPolicy clientIPKey limiter (newRateLimitPolicy limit window 1) mode keyFunc"

definition NewDistributedRateLimiter ::
    "(request \<Rightarrow> string) \<Rightarrow> (string \<Rightarrow> RateLimitPolicy \<Rightarrow> 's \<Rightarrow> Decision result \<times> 's) \<Rightarrow> int \<Rightarrow> duration
     \<Rightarrow> FailureMode \<Rightarrow> 's RateLimiter" where
  "NewDistributedRateLimiter clientIPKey limiter limit window mode =
     NewDistributedRateLimiterWithKeyAndPolicy clientIPKey limiter (newRateLimitPolicy limit window 1) mode None"

text \<open>The local limiter never fails; \<open>now\<close> is its clock reading.\<close>

definition NewRateLimiterWithPolicy ::
    "(request \<Rightarrow> string) \<Rightarrow> gotime \<Rightarrow> RateLimitPolicy \<Rightarrow> (request \<Rightarrow> string) option \<Rightarrow> limiter_mem RateLimiter" where
  "NewRateLimiterWithPolicy clientIPKey now policy keyFunc =
     NewDistributedRateLimiterWithKeyAndPolicy clientIPKey
       (\<lambda>key p m. case localFixedWindowLimiter_Allow now key p m of (d, m') \<Rightarrow> (Inr d, m'))
       policy FailClosed keyFunc"

definition NewRateLimiterWithKey ::
    "(request \<Rightarrow> string) \<Rightarrow> gotime \<Rightarrow> int \<Rightarrow> duration \<Rightarrow> (request \<Rightarrow> string) option \<Rightarrow> limiter_mem RateLimiter" where
  "NewRateLimiterWithKey clientIPKey now limit window keyFunc =
     NewRateLimiterWithPolicy clientIPKey now (newRateLimitPolicy limit window 1) keyFunc"

definition NewRateLimiter :: "(request \<Rightarrow> string) \<Rightarrow> gotime \<Rightarrow> int \<Rightarrow> duration \<Rightarrow> limiter_mem RateLimiter" where
  "NewRateLimiter clientIPKey now limit window =
     NewRateLimiterWithPolicy clientIPKey now (newRateLimitPolicy limit window 1) None"

definition WithBypassEvaluator :: "(request \<Rightarrow> bool \<times> string) option \<Rightarrow> 's RateLimiter \<Rightarrow> 's RateLimiter" where
  "WithBypassEvaluator f rl = rl\<lparr>rl_bypass := f\<rparr>"

text \<open>\<open>d.Round(time.Second)\<close> rounds half away from zero; it is used for positive durations only.\<close>

definition round_seconds :: "duration \<Rightarrow> int" where
  "round_seconds d = (d + 500000000) div seconds 1"

definition retryAfterHeader :: "duration \<Rightarrow> string" where
  "retryAfterHeader d =
     (if d \<le> 0 then ''1'' else
        (let secs = round_seconds d in FormatInt (if secs \<le> 0 then 1 else secs)))"

text \<open>\<open>now\<close> is the clock reading taken in the place of a zero time.\<close>

definition writeRateLimitHeaders :: "gotime \<Rightarrow> headers \<Rightarrow> int \<Rightarrow> int \<Rightarrow> gotime \<Rightarrow> headers" where
  "writeRateLimitHeaders now hs limit remaining resetAt0 =
     (let resetAt = (if resetAt0 = zero_time then now + seconds 1 else resetAt0) in
      header_set ''X-RateLimit-Reset'' (FormatInt (resetAt div seconds 1))
       (header_set ''X-RateLimit-Remaining'' (FormatInt (max remaining 0))
         (header_set ''X-RateLimit-Limit'' (FormatInt (max limit 0)) hs)))"

definition RateLimiter_Middleware ::
    "'s RateLimiter \<Rightarrow> (request \<Rightarrow> string) \<Rightarrow> gotime \<Rightarrow> string \<Rightarrow> 'w handler \<Rightarrow> ('s \<times> 'w) handler" where
  "RateLimiter_Middleware rl clientIPKey now reqID next_h = (\<lambda>r hs (s, w).
     if (case rl_bypass rl of None \<Rightarrow> False | Some f \<Rightarrow> fst (f r)) then
       (case next_h r hs w of (resp, w') \<Rightarrow> (resp, (s, w')))
     else
       (let key0 = rl_keyFunc rl r; key = (if key0 = [] then clientIPKey r else key0);
            limit = rp_SustainedLimit (rl_policy rl); window = rp_SustainedWindow (rl_policy rl)
        in case rl_allow rl key (rl_policy rl) s of
             (Inl e, s') \<Rightarrow>
               if rl_mode rl = FailOpen then (case next_h r hs w of (resp, w') \<Rightarrow> (resp, (s', w')))
               else
                 (response_Error reqID r
                    (header_set ''Retry-After'' (retryAfterHeader window) (writeRateLimitHeaders now hs limit 0 (now + window)))
                    429 ''RATE_LIMITED'' ''too many requests'' [], (s', w))
           | (Inr d, s') \<Rightarrow>
               (let hs' = writeRateLimitHeaders now hs limit (dc_Remaining d) (dc_ResetAt d)
                in if \<not> dc_Allowed d then
                     (response_Error reqID r (header_set ''Retry-After'' (retryAfterHeader (dc_RetryAfter d)) hs')
                        429 ''RATE_LIMITED'' ''too many requests'' [], (s', w))
                   else (case next_h r hs' w of (resp, w') \<Rightarrow> (resp, (s', w'))))))"

definition rateLimitKeyType :: "string \<Rightarrow> string" where
  "rateLimitKeyType key = (if HasPrefix key ''sub:'' then ''subject'' else ''ip'')"

subsection \<open>The decision on one key\<close>

definition policy_wf :: "RateLimitPolicy \<Rightarrow> bool" where
  "policy_wf p \<longleftrightarrow> 1 \<le> rp_SustainedLimit p \<and> 0 < rp_SustainedWindow p
     \<and> rp_SustainedLimit p \<le> rp_BurstCapacity p \<and> 0 < rp_BurstRefillPerSec p"

lemma normalizePolicy_wf: "policy_wf (normalizePolicy p)"
  by (auto simp: normalizePolicy_def policy_wf_def Let_def)

lemma normalizePolicy_id: "policy_wf p \<Longrightarrow> normalizePolicy p = p"
  by (simp add: normalizePolicy_def policy_wf_def Let_def)

lemma newRateLimitPolicy_wf: "policy_wf (newRateLimitPolicy l w b)"
  by (auto simp: newRateLimitPolicy_def policy_wf_def Let_def)

lemma local_refill_simps:
  "lh_tokens (local_refill p now st) =
     (if now > lh_lastRefill st
      then min (round64 (of_int (rp_BurstCapacity p)))
             (round64 (lh_tokens st + round64 (Duration_Seconds (now - lh_lastRefill st) * rp_BurstRefillPerSec p)))
      else lh_tokens st)"
  "lh_hits (local_refill p now st) = filter (\<lambda>hit. hit > now - rp_SustainedWindow p) (lh_hits st)"
  "lh_lastRefill (local_refill p now st) = max now (lh_lastRefill st)"
  by (auto simp: local_refill_def Let_def)

definition bucket_wait :: "RateLimitPolicy \<Rightarrow> localHybridState \<Rightarrow> duration" where
  "bucket_wait p st =
     (if lh_tokens st < 1
      then to_int64 (of_int \<lceil>round64 (round64 (round64 (1 - lh_tokens st) / rp_BurstRefillPerSec p) * 1000000000)\<rceil>)
      else 0)"

definition window_wait :: "RateLimitPolicy \<Rightarrow> gotime \<Rightarrow> localHybridState \<Rightarrow> duration" where
  "window_wait p now st =
     (if rp_SustainedLimit p \<le> int (length (lh_hits st))
      then max (hd (lh_hits st) + rp_SustainedWindow p - now) 0 else 0)"

definition admits :: "RateLimitPolicy \<Rightarrow> gotime \<Rightarrow> localHybridState \<Rightarrow> bool" where
  "admits p now st \<longleftrightarrow> bucket_wait p st \<le> 0 \<and> window_wait p now st \<le> 0"

lemma admits_window:
  assumes wf: "policy_wf p" and fresh: "\<forall>hit \<in> set (lh_hits st). now - rp_SustainedWindow p < hit"
    and "admits p now st"
  shows "int (length (lh_hits st)) < rp_SustainedLimit p"
proof (rule ccontr)
  assume full: "\<not> ?thesis"
  then have "hd (lh_hits st) \<in> set (lh_hits st)" using wf by (intro hd_in_set) (auto simp: policy_wf_def)
  with fresh have "now - rp_SustainedWindow p < hd (lh_hits st)" by blast
  with full assms(3) show False by (auto simp: admits_def window_wait_def)
qed


lemma local_decide_cases:
  assumes run: "local_decide p now st = (d, st')"
  shows "dc_Allowed d = admits p now st"
    and "st' = (if admits p now st then st\<lparr>lh_tokens := max (round64 (lh_tokens st - 1)) 0, lh_hits := lh_hits st @ [now]\<rparr> else st)"
    and "dc_RetryAfter d = max (bucket_wait p st) (window_wait p now st)"
    and "\<not> admits p now st \<Longrightarrow> 0 < dc_RetryAfter d \<and> dc_ResetAt d = now + dc_RetryAfter d"
proof -
  have ww: "window_wait p now st = (if rp_SustainedLimit p - int (length (lh_hits st)) \<le> 0
      then max (hd (lh_hits st) + rp_SustainedWindow p - now) 0 else 0)"
    by (simp add: window_wait_def)
  note eq = run [unfolded local_decide_def Let_def, folded ww bucket_wait_def, folded admits_def]
  have pos: "admits p now st \<or> 0 < max (bucket_wait p st) (window_wait p now st)" unfolding admits_def by linarith
  show "dc_Allowed d = admits p now st" using eq by auto
  show "st' = (if admits p now st then st\<lparr>lh_tokens := max (round64 (lh_tokens st - 1)) 0, lh_hits := lh_hits st @ [now]\<rparr> else st)"
    using eq by (cases "admits p now st") auto
  show retry: "dc_RetryAfter d = max (bucket_wait p st) (window_wait p now st)"
    using eq pos by (cases "admits p now st") auto
  show "\<not> admits p now st \<Longrightarrow> 0 < dc_RetryAfter d \<and> dc_ResetAt d = now + dc_RetryAfter d"
    unfolding retry using eq pos by (cases "admits p now st") auto
qed

subsection \<open>Sequences of calls\<close>

text \<open>
  The calls of \<open>Allow\<close> are serialised by the mutex; \<open>allow_run\<close> is a sequence of them with the
  clock reading and the key of each, and \<open>granted\<close> the times at which requests of a key were let in.
\<close>

fun allow_run :: "RateLimitPolicy \<Rightarrow> (gotime \<times> string) list \<Rightarrow> limiter_mem \<Rightarrow> Decision list \<times> limiter_mem" where
  "allow_run p [] m = ([], m)"
| "allow_run p ((now, key) # cs) m =
     (case localFixedWindowLimiter_Allow now key p m of
        (d, m') \<Rightarrow> (case allow_run p cs m' of (ds, m'') \<Rightarrow> (d # ds, m'')))"

definition granted :: "string \<Rightarrow> (gotime \<times> string) list \<Rightarrow> Decision list \<Rightarrow> gotime list" where
  "granted key calls ds =
     map (fst \<circ> fst) (filter (\<lambda>((now, k), d). k = key \<and> dc_Allowed d) (zip calls ds))"

lemma granted_simps [simp]:
  "granted key [] ds = []"
  "granted key ((now, k) # cs) (d # ds) = (if key = k \<and> dc_Allowed d then [now] else []) @ granted key cs ds"
  by (auto simp: granted_def)

definition fetched :: "RateLimitPolicy \<Rightarrow> gotime \<Rightarrow> string \<Rightarrow> limiter_mem \<Rightarrow> localHybridState" where
  "fetched p now key m = (case lm_store (local_cleanup p now m) key of
       None \<Rightarrow> \<lparr>lh_tokens = round64 (of_int (rp_BurstCapacity p)), lh_lastRefill = now, lh_hits = []\<rparr>
     | Some v \<Rightarrow> v)"

definition hits_at :: "limiter_mem \<Rightarrow> string \<Rightarrow> gotime list" where
  "hits_at m k = (case lm_store m k of None \<Rightarrow> [] | Some st \<Rightarrow> lh_hits st)"

lemma hits_at_cleanup [simp]: "hits_at (local_cleanup p now m) k = hits_at m k"
  by (auto simp: hits_at_def local_cleanup_def split: option.splits)

lemma hits_fetched [simp]: "lh_hits (fetched p now key m) = hits_at m key"
  by (subst hits_at_cleanup [of p now, symmetric]) (simp add: fetched_def hits_at_def split: option.splits)

lemma Allow_step:
  assumes "policy_wf p" and "localFixedWindowLimiter_Allow now key p m = (d, m')"
    and st: "st = local_refill p now (fetched p now key m)"
  shows "dc_Allowed d = admits p now st"
    and "lm_store m' = (lm_store (local_cleanup p now m))(key \<mapsto>
       (if admits p now st then st\<lparr>lh_tokens := max (round64 (lh_tokens st - 1)) 0, lh_hits := lh_hits st @ [now]\<rparr> else st))"
    and "dc_RetryAfter d = max (bucket_wait p st) (window_wait p now st)"
    and "\<not> admits p now st \<Longrightarrow> 0 < dc_RetryAfter d"
    and "admits p now st \<Longrightarrow> int (length (lh_hits st)) < rp_SustainedLimit p"
proof -
  obtain st' where run: "local_decide p now st = (d, st')"
    and m': "lm_store m' = (lm_store (local_cleanup p now m))(key \<mapsto> st')"
    using assms(2) unfolding st fetched_def localFixedWindowLimiter_Allow_def normalizePolicy_id [OF assms(1)] Let_def
    by (auto split: prod.splits)
  have fresh: "\<forall>hit \<in> set (lh_hits st). now - rp_SustainedWindow p < hit"
    by (simp add: st local_refill_simps)
  note cs = local_decide_cases [OF run]
  show "dc_Allowed d = admits p now st" "dc_RetryAfter d = max (bucket_wait p st) (window_wait p now st)"
    "\<not> admits p now st \<Longrightarrow> 0 < dc_RetryAfter d"
    using cs by blast+
  show "lm_store m' = (lm_store (local_cleanup p now m))(key \<mapsto>
       (if admits p now st then st\<lparr>lh_tokens := max (round64 (lh_tokens st - 1)) 0, lh_hits := lh_hits st @ [now]\<rparr> else st))"
    unfolding m' cs(2) by (rule refl)
  show "admits p now st \<Longrightarrow> int (length (lh_hits st)) < rp_SustainedLimit p"
    by (rule admits_window [OF assms(1) fresh])
qed

lemma Allow_hits:
  assumes "policy_wf p" and "localFixedWindowLimiter_Allow now key p m = (d, m')"
  defines "old \<equiv> filter (\<lambda>hit. now - rp_SustainedWindow p < hit) (hits_at m key)"
  shows "hits_at m' k = (if k = key then old @ (if dc_Allowed d then [now] else []) else hits_at m k)"
    and "dc_Allowed d \<Longrightarrow> int (length old) < rp_SustainedLimit p"
proof -
  define st where "st = local_refill p now (fetched p now key m)"
  have hs: "lh_hits st = old" by (simp add: st_def local_refill_simps old_def)
  note step = Allow_step [OF assms(1,2) st_def]
  show "hits_at m' k = (if k = key then old @ (if dc_Allowed d then [now] else []) else hits_at m k)"
    using hits_at_cleanup [of p now m k] by (simp add: hits_at_def step(1,2) hs)
  show "dc_Allowed d \<Longrightarrow> int (length old) < rp_SustainedLimit p"
    using step(1,5) hs by simp
qed

definition window_inv :: "RateLimitPolicy \<Rightarrow> gotime \<Rightarrow> (string \<Rightarrow> gotime list) \<Rightarrow> limiter_mem \<Rightarrow> bool" where
  "window_inv p upto_t h m \<longleftrightarrow> (\<forall>k.
       (\<exists>c \<le> upto_t - rp_SustainedWindow p. hits_at m k = filter (\<lambda>x. c < x) (h k))
     \<and> (\<forall>x \<in> set (h k). x \<le> upto_t)
     \<and> (\<forall>t. int (length (filter (\<lambda>x. t - rp_SustainedWindow p < x \<and> x \<le> t) (h k))) \<le> rp_SustainedLimit p))"

lemma window_inv_step:
  assumes wf: "policy_wf p" and run: "localFixedWindowLimiter_Allow now key p m = (d, m')"
    and inv: "window_inv p upto_t h m" and "upto_t \<le> now"
  shows "window_inv p now (\<lambda>k. h k @ (if k = key \<and> dc_Allowed d then [now] else [])) m'"
  unfolding window_inv_def
proof (intro allI conjI)
  fix k
  let ?W = "rp_SustainedWindow p" and ?h = "h k @ (if k = key \<and> dc_Allowed d then [now] else [])"
  note iv = inv [unfolded window_inv_def, rule_format, of k]
  from iv obtain c where c: "c \<le> upto_t - ?W" "hits_at m k = filter (\<lambda>x. c < x) (h k)" by blast
  have old: "filter (\<lambda>hit. now - ?W < hit) (hits_at m k) = filter (\<lambda>x. now - ?W < x) (h k)"
    unfolding c(2) filter_filter using c(1) assms(4) by (intro filter_cong) auto
  note hs = Allow_hits [OF wf run]
  show "\<exists>c \<le> now - ?W. hits_at m' k = filter (\<lambda>x. c < x) ?h"
  proof (cases "k = key")
    case True
    have "hits_at m' k = filter (\<lambda>x. now - ?W < x) ?h"
      using wf by (simp add: hs(1) True old [unfolded True] policy_wf_def)
    then show ?thesis by blast
  next
    case False
    with c assms(4) show ?thesis by (intro exI [of _ c]) (simp add: hs(1))
  qed
  show "\<forall>x \<in> set ?h. x \<le> now" using iv assms(4) by fastforce
  fix t
  show "int (length (filter (\<lambda>x. t - ?W < x \<and> x \<le> t) ?h)) \<le> rp_SustainedLimit p"
  proof (cases "k = key \<and> dc_Allowed d \<and> t - ?W < now \<and> now \<le> t")
    case True
    have "length (filter (\<lambda>x. t - ?W < x \<and> x \<le> t) (h k)) \<le> length (filter (\<lambda>x. now - ?W < x) (h k))"
      using True by (intro length_filter_mono) auto
    with True hs(2) old show ?thesis by auto
  next
    case False
    with iv show ?thesis by auto
  qed
qed

lemma window_inv_run:
  assumes "policy_wf p" and "window_inv p upto_t h m" and "sorted (upto_t # map fst calls)"
    and "allow_run p calls m = (ds, m')"
  shows "\<exists>upto_t'. window_inv p upto_t' (\<lambda>k. h k @ granted k calls ds) m'"
  using assms(2-)
proof (induction calls arbitrary: upto_t h m ds)
  case Nil
  then show ?case by auto
next
  case (Cons call cs)
  obtain now key where call: "call = (now, key)" by fastforce
  obtain d m1 where step: "localFixedWindowLimiter_Allow now key p m = (d, m1)" by fastforce
  obtain ds' where ds: "allow_run p cs m1 = (ds', m')" "ds = d # ds'"
    using Cons.prems(3) by (auto simp: call step split: prod.splits)
  have le: "upto_t \<le> now" "sorted (now # map fst cs)" using Cons.prems(2) by (auto simp: call)
  from Cons.IH [OF window_inv_step [OF assms(1) step Cons.prems(1) le(1)] le(2) ds(1)]
  show ?case by (simp add: call ds(2))
qed

text \<open>
  C13: The in-memory limiter never lets more than \<open>SustainedLimit\<close> requests of a key through in any
  span of \<open>SustainedWindow\<close>: for every sequence of calls with clock readings in order, on a fresh
  limiter, with any mix of keys and with the cleanups in between, the number of requests of a key let
  in during \<open>(t - SustainedWindow, t]\<close> is at most \<open>SustainedLimit\<close> of the normalised policy.
\<close>

theorem limiter_window_bound:
  assumes "sorted (map fst calls)"
    and "allow_run (normalizePolicy p) calls (NewLocalFixedWindowLimiter t0) = (ds, m)"
  shows "int (length (filter (\<lambda>x. t - rp_SustainedWindow (normalizePolicy p) < x \<and> x \<le> t) (granted key calls ds)))
           \<le> rp_SustainedLimit (normalizePolicy p)"
proof (cases calls)
  case Nil
  then show ?thesis using normalizePolicy_wf [of p] by (simp add: policy_wf_def)
next
  case (Cons call cs)
  let ?p = "normalizePolicy p"
  have "window_inv ?p (fst call) (\<lambda>_. []) (NewLocalFixedWindowLimiter t0)"
    using normalizePolicy_wf [of p]
    by (auto simp: window_inv_def hits_at_def NewLocalFixedWindowLimiter_def policy_wf_def)
  moreover have "sorted (fst call # map fst calls)" using assms(1) Cons by auto
  ultimately obtain upto_t' where "window_inv ?p upto_t' (\<lambda>k. [] @ granted k calls ds) m"
    using window_inv_run [OF normalizePolicy_wf _ _ assms(2)] by blast
  then show ?thesis by (simp add: window_inv_def)
qed

definition demo_limit :: RateLimitPolicy where
  "demo_limit = \<lparr>rp_SustainedLimit = 1, rp_SustainedWindow = seconds 10, rp_BurstCapacity = 4,
     rp_BurstRefillPerSec = 1\<rparr>"

definition demo_calls :: "(gotime \<times> string) list" where
  "demo_calls = [(seconds 100, ''a''), (seconds 101, ''a''), (seconds 102, ''b''), (seconds 103, ''a'')]"

theorem limiter_window_bound_witness:
  "\<exists>ds m. allow_run (normalizePolicy demo_limit) demo_calls (NewLocalFixedWindowLimiter 0) = (ds, m)
     \<and> int (length (filter (\<lambda>x. seconds 105 - seconds 10 < x \<and> x \<le> seconds 105) (granted ''a'' demo_calls ds))) \<le> 1"
proof -
  obtain ds m where run: "allow_run (normalizePolicy demo_limit) demo_calls (NewLocalFixedWindowLimiter 0) = (ds, m)"
    by fastforce
  have n: "normalizePolicy demo_limit = demo_limit" by (rule normalizePolicy_id) (simp add: policy_wf_def demo_limit_def)
  from run limiter_window_bound [OF _ run, of "seconds 105" "''a''"] show ?thesis
    unfolding n by (simp add: demo_calls_def demo_limit_def)
qed

subsection \<open>A request that is turned away can be repeated\<close>












lemma demo_limit_wf: "policy_wf demo_limit"
  by (simp add: policy_wf_def demo_limit_def)



text \<open>
  The slack is needed.  \<open>local_run\<close> is what \<open>Allow\<close> does to the state of one key at the given clock
  readings.  Under one request a minute, a client that was served at 0 and turned away at 4.5 s is told to
  wait 55.5 s; at 60 s the bucket holds \<open>1 - 2 ^ -53\<close> tokens and the client is turned away once more, for
  a nanosecond.
\<close>

fun local_run :: "RateLimitPolicy \<Rightarrow> gotime list \<Rightarrow> localHybridState \<Rightarrow> Decision list \<times> localHybridState" where
  "local_run p [] st = ([], st)"
| "local_run p (now # ts) st =
     (case local_decide p now (local_refill p now st) of
        (d, st') \<Rightarrow> (case local_run p ts st' of (ds, st'') \<Rightarrow> (d # ds, st'')))"

definition one_a_minute :: RateLimitPolicy where
  "one_a_minute = \<lparr>rp_SustainedLimit = 1, rp_SustainedWindow = 60000000000, rp_BurstCapacity = 1,
     rp_BurstRefillPerSec = 4803839602528529 / 288230376151711744\<rparr>"

lemma one_a_minute_policy: "newRateLimitPolicy 1 (minutes 1) 1 = one_a_minute"
  by code_simp

lemma short_wait_steps:
  "local_decide one_a_minute 0 (local_refill one_a_minute 0 \<lparr>lh_tokens = 1, lh_lastRefill = 0, lh_hits = []\<rparr>)
     = (\<lparr>dc_Allowed = True, dc_RetryAfter = 0, dc_Remaining = 0, dc_ResetAt = 60000000000, dc_Reason = []\<rparr>,
        \<lparr>lh_tokens = 0, lh_lastRefill = 0, lh_hits = [0]\<rparr>)"
  "local_decide one_a_minute 4500000000 (local_refill one_a_minute 4500000000 \<lparr>lh_tokens = 0, lh_lastRefill = 0, lh_hits = [0]\<rparr>)
     = (\<lparr>dc_Allowed = False, dc_RetryAfter = 55500000000, dc_Remaining = 0, dc_ResetAt = 60000000000, dc_Reason = ''window''\<rparr>,
        \<lparr>lh_tokens = 5404319552844595 / 72057594037927936, lh_lastRefill = 4500000000, lh_hits = [0]\<rparr>)"
  "local_decide one_a_minute 60000000000 (local_refill one_a_minute 60000000000
        \<lparr>lh_tokens = 5404319552844595 / 72057594037927936, lh_lastRefill = 4500000000, lh_hits = [0]\<rparr>)
     = (\<lparr>dc_Allowed = False, dc_RetryAfter = 1, dc_Remaining = 0, dc_ResetAt = 60000000001, dc_Reason = ''bucket''\<rparr>,
        \<lparr>lh_tokens = 9007199254740991 / 9007199254740992, lh_lastRefill = 60000000000, lh_hits = []\<rparr>)"
  by code_simp+

lemma retry_after_is_a_rounding_error_short:
  "fst (local_run (newRateLimitPolicy 1 (minutes 1) 1) [0, 4500000000, 4500000000 + 55500000000]
        \<lparr>lh_tokens = 1, lh_lastRefill = 0, lh_hits = []\<rparr>) = [d1, d2, d3] \<Longrightarrow>
   \<not> dc_Allowed d2 \<and> dc_RetryAfter d2 = 55500000000 \<and> \<not> dc_Allowed d3"
  unfolding one_a_minute_policy by (auto simp: short_wait_steps)

text \<open>
  The order of the clock readings matters, too.  \<open>Allow\<close> reads the clock before it takes the lock, so a
  call can run after one with a later reading; the later one may already have forgotten the requests that
  the earlier one should count.  Here three requests are let in within \<open>(95 s, 105 s]\<close> under a limit of two.
\<close>

definition two_in_ten :: RateLimitPolicy where
  "two_in_ten = \<lparr>rp_SustainedLimit = 2, rp_SustainedWindow = seconds 10, rp_BurstCapacity = 4, rp_BurstRefillPerSec = 1\<rparr>"

lemma late_call_steps:
  "local_decide two_in_ten 100000000000 (local_refill two_in_ten 100000000000 \<lparr>lh_tokens = 4, lh_lastRefill = 100000000000, lh_hits = []\<rparr>)
     = (\<lparr>dc_Allowed = True, dc_RetryAfter = 0, dc_Remaining = 1, dc_ResetAt = 110000000000, dc_Reason = []\<rparr>,
        \<lparr>lh_tokens = 3, lh_lastRefill = 100000000000, lh_hits = [100000000000]\<rparr>)"
  "local_decide two_in_ten 102000000000 (local_refill two_in_ten 102000000000 \<lparr>lh_tokens = 3, lh_lastRefill = 100000000000, lh_hits = [100000000000]\<rparr>)
     = (\<lparr>dc_Allowed = True, dc_RetryAfter = 0, dc_Remaining = 0, dc_ResetAt = 110000000000, dc_Reason = []\<rparr>,
        \<lparr>lh_tokens = 3, lh_lastRefill = 102000000000, lh_hits = [100000000000, 102000000000]\<rparr>)"
  "local_decide two_in_ten 113000000000 (local_refill two_in_ten 113000000000 \<lparr>lh_tokens = 3, lh_lastRefill = 102000000000, lh_hits = [100000000000, 102000000000]\<rparr>)
     = (\<lparr>dc_Allowed = True, dc_RetryAfter = 0, dc_Remaining = 1, dc_ResetAt = 123000000000, dc_Reason = []\<rparr>,
        \<lparr>lh_tokens = 3, lh_lastRefill = 113000000000, lh_hits = [113000000000]\<rparr>)"
  "local_decide two_in_ten 105000000000 (local_refill two_in_ten 105000000000 \<lparr>lh_tokens = 3, lh_lastRefill = 113000000000, lh_hits = [113000000000]\<rparr>)
     = (\<lparr>dc_Allowed = True, dc_RetryAfter = 0, dc_Remaining = 0, dc_ResetAt = 123000000000, dc_Reason = []\<rparr>,
        \<lparr>lh_tokens = 2, lh_lastRefill = 113000000000, lh_hits = [113000000000, 105000000000]\<rparr>)"
  by code_simp+

lemma late_call_exceeds_the_limit:
  "map dc_Allowed (fst (local_run two_in_ten [seconds 100, seconds 102, seconds 113, seconds 105]
        \<lparr>lh_tokens = 4, lh_lastRefill = seconds 100, lh_hits = []\<rparr>)) = [True, True, True, True]"
  by (simp add: late_call_steps)

text \<open>
  The \<open>Retry-After\<close> header rounds the wait to the nearest second: a wait of 55.4 s is announced as 55 s.
\<close>

lemma retryAfterHeader_can_be_short: "retryAfterHeader (milliseconds 55400) = ''55''"
  by code_simp

subsection \<open>What the middleware lets through\<close>

definition rl_bypassed :: "'s RateLimiter \<Rightarrow> request \<Rightarrow> bool" where
  "rl_bypassed rl r \<longleftrightarrow> (\<exists>f. rl_bypass rl = Some f \<and> fst (f r))"

definition rl_key :: "'s RateLimiter \<Rightarrow> (request \<Rightarrow> string) \<Rightarrow> request \<Rightarrow> string" where
  "rl_key rl clientIPKey r = (if rl_keyFunc rl r = [] then clientIPKey r else rl_keyFunc rl r)"

text \<open>
  The rate-limit middleware runs the handler behind it exactly when the request is exempt, or the
  limiter allows it, or the limiter fails and the mode is \<open>FailOpen\<close>; otherwise it answers 429 with a
  \<open>Retry-After\<close> of at least a second and the application is left as it was.  An exempt request does
  not count against the limit.
\<close>

theorem RateLimiter_Middleware_gate:
  "case RateLimiter_Middleware rl clientIPKey now reqID next_h r hs (s, w) of (resp, (s', w')) \<Rightarrow>
   (let verdict = rl_allow rl (rl_key rl clientIPKey r) (rl_policy rl) s
    in s' = (if rl_bypassed rl r then s else snd verdict)
     \<and> (if rl_bypassed rl r
            \<or> (case fst verdict of Inl e \<Rightarrow> rl_mode rl = FailOpen | Inr d \<Rightarrow> dc_Allowed d)
        then \<exists>hs'. next_h r hs' w = (resp, w')
        else rs_Status resp = 429 \<and> w' = w
           \<and> (\<exists>secs \<ge> 1. header_get ''Retry-After'' (rs_Headers resp) = FormatInt secs)))"
proof -
  have retry: "\<exists>secs \<ge> 1. retryAfterHeader d = FormatInt secs" for d
  proof (cases "d \<le> 0")
    case True
    have "CHR ''1'' = char_of (49 :: nat)" by code_simp
    with True have "retryAfterHeader d = FormatInt 1"
      by (simp add: retryAfterHeader_def FormatInt_def FormatUint.simps [of "Suc 0"])
    then show ?thesis by blast
  next
    case False
    then show ?thesis
      by (intro exI [of _ "if round_seconds d \<le> 0 then 1 else round_seconds d"]) (simp add: retryAfterHeader_def Let_def)
  qed
  have hdr: "header_get ''Retry-After'' (rs_Headers (response_Error q r' (header_set ''Retry-After'' v h) n c msg det)) = v"
    for q r' v h n c msg det by (simp add: response_Error_def)
  have byp: "(case rl_bypass rl of None \<Rightarrow> False | Some f \<Rightarrow> fst (f r)) = rl_bypassed rl r"
    by (simp add: rl_bypassed_def split: option.splits)
  show ?thesis
    using retry
    unfolding RateLimiter_Middleware_def Let_def byp rl_key_def [symmetric] prod.case
    by (cases "rl_bypassed rl r"; cases "rl_allow rl (rl_key rl clientIPKey r) (rl_policy rl) s"; cases "fst (rl_allow rl (rl_key rl clientIPKey r) (rl_policy rl) s)")
       (auto simp: hdr split: prod.splits if_splits)
qed

subsection \<open>The window in Redis\<close>

lemma v_zset_frame [simp]:
  "k \<noteq> k' \<Longrightarrow> v_zset now k (v_HSET now k' fs V) = v_zset now k V"
  "k \<noteq> k' \<Longrightarrow> v_zset now k (snd (v_INCR now k' V)) = v_zset now k V"
  "k \<noteq> k' \<or> 0 < ms \<Longrightarrow> v_zset now k (v_PEXPIRE now k' ms V) = v_zset now k V"
  by (auto simp: v_zset_def v_HSET_def v_INCR_def v_PEXPIRE_def Let_def split: option.splits rvalue.splits)

lemma length_insert_by [simp]: "length (insert_by le x ys) = Suc (length ys)"
  by (induction ys) auto

lemma length_sort_by [simp]: "length (sort_by le xs) = length xs"
  by (induction xs) (auto simp: sort_by_def)

lemma v_zset_ZREM:
  "length (v_zset now k (v_ZREMRANGEBYSCORE now k b V)) \<le> length (v_zset now k V)"
  by (auto simp: v_zset_def v_ZREMRANGEBYSCORE_def Let_def split: option.splits rvalue.splits)

lemma v_zset_ZADD:
  "length (v_zset now k (v_ZADD now k sc m V)) \<le> Suc (length (v_zset now k V))"
  by (auto simp: v_zset_def v_ZADD_def Let_def split: option.splits rvalue.splits prod.splits)

context redis_server begin

lemma script_window:
  assumes keys: "wk \<noteq> bk" "wk \<noteq> sk" and ms: "0 < ms"
    and inv: "int (length (v_zset now wk (view r))) \<le> limit"
    and run: "redisFixedWindowScript R tos ton now bk wk sk now_ms burst refill limit ms r = ((a, b, c, d), r')"
  shows "int (length (v_zset now wk (view r'))) \<le> limit"
    and "a = 1 \<Longrightarrow> int (length (v_zset now wk (v_ZREMRANGEBYSCORE now wk (now_ms - ms) (view r)))) < limit"
proof -
  let ?V1 = "v_ZREMRANGEBYSCORE now wk (now_ms - ms) (view r)"
  have l1: "int (length (v_zset now wk ?V1)) \<le> limit" using v_zset_ZREM [of now wk "now_ms - ms" "view r"] inv by linarith
  have l2: "int (length (v_zset now wk ?V1)) < limit \<Longrightarrow>
      int (length (v_zset now wk (v_ZADD now wk sc m (snd (v_INCR now sk ?V1))))) \<le> limit" for sc m
    using v_zset_ZADD [of now wk sc m "snd (v_INCR now sk ?V1)"] keys by simp
  define rf where "rf = (if refill \<le> 0 then round64 (1 / 1000) else refill)"
  obtain ok tk n r2 where adm: "script_admit R tos ton now bk wk sk now_ms burst rf limit ms r = ((ok, tk, n), r2)"
    by (metis prod.exhaust)
  have admitted: "if ok then int (length (v_zset now wk ?V1)) < limit
         \<and> (\<exists>m. view r2 = v_ZADD now wk now_ms m (snd (v_INCR now sk ?V1))) else view r2 = ?V1"
    using adm incr_law [of now sk "rd_ZREMRANGEBYSCORE R now wk (now_ms - ms) r"]
    unfolding script_admit_def Let_def
    by (cases "rd_INCR R now sk (rd_ZREMRANGEBYSCORE R now wk (now_ms - ms) r)") (auto split: if_splits)
  let ?S = "redisFixedWindowScript R tos ton now bk wk sk now_ms burst refill limit ms r"
  note eqs = redisFixedWindowScript_def Let_def rf_def [symmetric] adm prod.case fst_conv snd_conv
  have "fst (fst ?S) = (if ok then 1 else 0)" by (simp only: eqs)
  then have res: "a = (if ok then 1 else 0)" by (simp add: run)
  have "v_zset now wk (view (snd ?S)) = v_zset now wk (view r2)"
    unfolding eqs pexpire_law hset_law using keys ms by simp
  then have tail: "v_zset now wk (view r') = v_zset now wk (view r2)" by (simp add: run)
  show "int (length (v_zset now wk (view r'))) \<le> limit"
    unfolding tail using admitted l1 l2 by (cases ok) auto
  show "a = 1 \<Longrightarrow> int (length (v_zset now wk ?V1)) < limit"
    using res admitted by (cases ok) auto
qed

end

text \<open>
  In Redis, too, the window of a key never holds more than \<open>SustainedLimit\<close> requests: if the
  sorted set of the key holds at most that many, it still does after \<open>Allow\<close>, whatever happens to the
  connection; and a request is let in only if fewer than \<open>SustainedLimit\<close> remained in the window
  before it.
\<close>

theorem redis_limiter_window_bound:
  assumes "redis_server R view" and "key \<noteq> []"
    and "int (length (v_zset now (pfx @ '':'' @ key @ '':sw'') (view r))) \<le> rp_SustainedLimit (normalizePolicy p)"
    and "RedisFixedWindowLimiter_Allow R tos ton n now pfx now_t key p r = (res, r')"
  shows "int (length (v_zset now (pfx @ '':'' @ key @ '':sw'') (view r'))) \<le> rp_SustainedLimit (normalizePolicy p)
     \<and> (case res of Inl _ \<Rightarrow> True | Inr d \<Rightarrow> dc_Allowed d \<longrightarrow>
          (\<exists>start < now_t. int (length (v_zset now (pfx @ '':'' @ key @ '':sw'')
              (v_ZREMRANGEBYSCORE now (pfx @ '':'' @ key @ '':sw'') (start div milliseconds 1) (view r))))
            < rp_SustainedLimit (normalizePolicy p)))"
proof -
  define bk wk sk where keys: "bk = pfx @ '':'' @ key" "wk = pfx @ '':'' @ key @ '':sw''" "sk = pfx @ '':'' @ key @ '':seq''"
  define ms where "ms = (if rp_SustainedWindow (normalizePolicy p) div milliseconds 1 \<le> 0 then 1000
       else rp_SustainedWindow (normalizePolicy p) div milliseconds 1)"
  define script where "script = redisFixedWindowScript R tos ton now bk wk sk (now_t div milliseconds 1)
       (rp_BurstCapacity (normalizePolicy p)) (round64 (rp_BurstRefillPerSec (normalizePolicy p) / 1000))
       (rp_SustainedLimit (normalizePolicy p)) ms"
  have neq: "wk \<noteq> bk" "wk \<noteq> sk" by (simp_all add: keys)
  have ms: "0 < ms" by (simp add: ms_def)
  obtain a b c d r1 where s: "script r = ((a, b, c, d), r1)" by (metis prod.exhaust)
  note w = redis_server.script_window [OF assms(1) neq ms assms(3) [folded keys] s [unfolded script_def]]
  have run: "RedisFixedWindowLimiter_Allow R tos ton n now pfx now_t key p r =
      (case redis_call n script r of
           (Inl e, r') \<Rightarrow> (Inl e, r')
         | (Inr (allowedInt, retry0, remainingInt, reset0), r') \<Rightarrow>
             (let retryMS = (if retry0 \<le> 0 then 1 else retry0);
                  resetMS = (if reset0 \<le> now_t div milliseconds 1 then now_t div milliseconds 1 + retryMS else reset0)
              in (Inr \<lparr>dc_Allowed = (allowedInt = 1), dc_RetryAfter = milliseconds retryMS,
                       dc_Remaining = max remainingInt 0, dc_ResetAt = milliseconds resetMS, dc_Reason = []\<rparr>, r')))"
    unfolding RedisFixedWindowLimiter_Allow_def Let_def script_def ms_def keys
    by (simp only: assms(2) if_False append_assoc)
  have start: "(now_t - milliseconds ms) div milliseconds 1 = now_t div milliseconds 1 - ms" by simp
  have "\<exists>start < now_t. int (length (v_zset now wk (v_ZREMRANGEBYSCORE now wk (start div milliseconds 1) (view r))))
      < rp_SustainedLimit (normalizePolicy p)" if "a = 1"
    using w(2) [OF that] ms by (intro exI [of _ "now_t - milliseconds ms"]) (simp only: start, simp)
  with w(1) assms(3,4) s show ?thesis
    unfolding run keys(2) [symmetric] redis_call_def Let_def by (cases n) auto
qed

theorem redis_limiter_window_bound_witness:
  "\<exists>res r'. RedisFixedWindowLimiter_Allow mem_redis (\<lambda>x. FormatInt \<lfloor>x\<rfloor>) (\<lambda>s. 0) Up 0 ''rl'' 0 ''a'' demo_limit
        (\<lambda>_. None) = (res, r') \<and> int (length (v_zset 0 ''rl:a:sw'' r')) \<le> 1"
proof -
  obtain res r' where run: "RedisFixedWindowLimiter_Allow mem_redis (\<lambda>x. FormatInt \<lfloor>x\<rfloor>) (\<lambda>s. 0) Up 0 ''rl'' 0 ''a''
      demo_limit (\<lambda>_. None) = (res, r')" by fastforce
  have "int (length (v_zset 0 (''rl'' @ '':'' @ ''a'' @ '':sw'') (id (\<lambda>_. None)))) \<le> rp_SustainedLimit (normalizePolicy demo_limit)"
    using normalizePolicy_wf [of demo_limit] by (simp add: v_zset_def alive_def policy_wf_def)
  from redis_limiter_window_bound [OF mem_redis.redis_server_axioms _ this run] run show ?thesis
    by (simp add: normalizePolicy_id [OF demo_limit_wf]) (simp add: demo_limit_def)
qed

text \<open>
  An entry with a hit in it is never removed by the cleanup, however old it is: the hits of a key are
  pruned only when the key is used again.
\<close>

lemma cleanup_keeps_idle_keys:
  "lm_store m k = Some st \<Longrightarrow> lh_hits st \<noteq> [] \<Longrightarrow> lm_store (local_cleanup p now m) k = Some st"
  by (simp add: local_cleanup_def)

end
