(* ===== verification/Identity_Repo.thy ===== *)
theory Identity_Repo
  imports Domain Pagination
begin

section \<open>Users, roles, permissions, credentials: the repositories of \<open>src/internal/repository\<close>\<close>

text \<open>
  The tables of the accounts are the record \<open>tables\<close>; the many-to-many associations are the tables
  of pairs \<open>user_role\<close> and \<open>role_permission\<close>.  GORM's association calls are a parameter of their own,
  the record \<open>'l links\<close> with the laws of \<open>gorm_links\<close>.  A \<open>Preload\<close> is the reads it makes: the pairs,
  then the rows they name.  The order of the database on a column is the parameter \<open>ord\<close>, because it
  depends on the collation.  Metrics are left out.
\<close>

subsection \<open>Associations\<close>

record 'l links =
  lk_Refs :: "uint \<Rightarrow> 'l list \<Rightarrow> uint list result"
  lk_Replace :: "uint \<Rightarrow> uint list \<Rightarrow> 'l list \<Rightarrow> 'l list result"
  lk_Append :: "uint \<Rightarrow> uint \<Rightarrow> 'l list \<Rightarrow> 'l list result"

locale gorm_links =
  fixes L :: "'l links" and mk :: "uint \<Rightarrow> uint \<Rightarrow> 'l" and own :: "'l \<Rightarrow> uint" and target :: "'l \<Rightarrow> uint"
  assumes own_mk [simp]: "own (mk a b) = a" and target_mk [simp]: "target (mk a b) = b"
    and refs_law: "lk_Refs L a t = Inr rs \<Longrightarrow> set rs = target ` {l \<in> set t. own l = a}"
    and replace_law: "lk_Replace L a ids t = Inr t' \<Longrightarrow> set t' = {l \<in> set t. own l \<noteq> a} \<union> mk a ` set ids"
    and append_law: "lk_Append L a b t = Inr t' \<Longrightarrow> set t' = insert (mk a b) (set t)"
begin

lemma refs_after_replace:
  assumes "lk_Replace L a ids t = Inr t'" and "lk_Refs L a t' = Inr rs"
  shows "set rs = set ids"
proof -
  have "{l \<in> set t'. own l = a} = mk a ` set ids" unfolding replace_law [OF assms(1)] by auto
  then show ?thesis by (simp add: refs_law [OF assms(2)] image_image)
qed

lemma refs_after_append:
  assumes "lk_Append L a c t = Inr t'" and "lk_Refs L b t' = Inr rs"
  shows "set rs = (if b = a then {c} else {}) \<union> target ` {l \<in> set t. own l = b}"
proof -
  have "{l \<in> set t'. own l = b} = (if b = a then {mk a c} else {}) \<union> {l \<in> set t. own l = b}"
    unfolding append_law [OF assms(1)] by auto
  then show ?thesis by (simp add: refs_law [OF assms(2)])
qed

end

definition mem_links :: "(uint \<Rightarrow> uint \<Rightarrow> 'l) \<Rightarrow> ('l \<Rightarrow> uint) \<Rightarrow> ('l \<Rightarrow> uint) \<Rightarrow> 'l links" where
  "mem_links mk own target =
     \<lparr>lk_Refs = (\<lambda>a t. Inr (map target (filter (\<lambda>l. own l = a) t))),
      lk_Replace = (\<lambda>a ids t. Inr (filter (\<lambda>l. own l \<noteq> a) t @ map (mk a) ids)),
      lk_Append = (\<lambda>a b t. Inr (List.insert (mk a b) t))\<rparr>"

definition mk_user_role :: "uint \<Rightarrow> uint \<Rightarrow> user_role" where
  "mk_user_role a b = \<lparr>ur_UserID = a, ur_RoleID = b\<rparr>"

definition mk_role_permission :: "uint \<Rightarrow> uint \<Rightarrow> role_permission" where
  "mk_role_permission a b = \<lparr>rp_RoleID = a, rp_PermissionID = b\<rparr>"

lemma mem_links_law:
  "(\<And>a b. own (mk a b) = a) \<Longrightarrow> (\<And>a b. target (mk a b) = b) \<Longrightarrow> gorm_links (mem_links mk own target) mk own target"
  by unfold_locales (auto simp: mem_links_def)

interpretation mem_user_roles: gorm_links "mem_links mk_user_role ur_UserID ur_RoleID" mk_user_role ur_UserID ur_RoleID
  by (rule mem_links_law) (simp_all add: mk_user_role_def)

interpretation mem_role_perms:
  gorm_links "mem_links mk_role_permission rp_RoleID rp_PermissionID" mk_role_permission rp_RoleID rp_PermissionID
  by (rule mem_links_law) (simp_all add: mk_role_permission_def)

subsection \<open>The database\<close>

record tables =
  tb_users :: "user list"
  tb_roles :: "role list"
  tb_perms :: "permission list"
  tb_user_roles :: "user_role list"
  tb_role_perms :: "role_permission list"
  tb_creds :: "local_credential list"
  tb_vtokens :: "verification_token list"
  tb_oauth :: "oauth_account list"
  tb_sessions :: "session list"

record dbconn =
  g_users :: "user gorm"
  g_roles :: "role gorm"
  g_perms :: "permission gorm"
  g_user_roles :: "user_role links"
  g_role_perms :: "role_permission links"
  g_creds :: "local_credential gorm"
  g_vtokens :: "verification_token gorm"
  g_oauth :: "oauth_account gorm"
  g_sessions :: "session gorm"
  g_save_user :: "user \<Rightarrow> user list \<Rightarrow> user list result"
  g_ord_users :: "string \<Rightarrow> user \<Rightarrow> user \<Rightarrow> bool"
  g_ord_roles :: "string \<Rightarrow> role \<Rightarrow> role \<Rightarrow> bool"
  g_ord_perms :: "string \<Rightarrow> permission \<Rightarrow> permission \<Rightarrow> bool"

text \<open>\<open>Save\<close> writes every column of the row with the same primary key, or inserts it when there is none.\<close>

locale database =
  fixes D :: dbconn
  assumes users: "user_table (g_users D)" and roles: "role_table (g_roles D)"
    and perms: "permission_table (g_perms D)" and creds: "credential_table (g_creds D)"
    and vtokens: "vtoken_table (g_vtokens D)" and oauth: "oauth_table (g_oauth D)"
    and sessions: "session_table (g_sessions D)"
    and user_roles: "gorm_links (g_user_roles D) mk_user_role ur_UserID ur_RoleID"
    and role_perms: "gorm_links (g_role_perms D) mk_role_permission rp_RoleID rp_PermissionID"
    and save_user: "g_save_user D u t = Inr t' \<Longrightarrow>
      t' = (if u_ID u \<in> u_ID ` set t then upd_where (\<lambda>r. u_ID r = u_ID u) (\<lambda>_. u\<lparr>u_Roles := []\<rparr>) t
            else t @ [u\<lparr>u_Roles := []\<rparr>])"

definition mem_db :: "gotime \<Rightarrow> dbconn" where
  "mem_db now =
     \<lparr>g_users = mem_users now, g_roles = mem_roles now, g_perms = mem_permissions now,
      g_user_roles = mem_links mk_user_role ur_UserID ur_RoleID,
      g_role_perms = mem_links mk_role_permission rp_RoleID rp_PermissionID,
      g_creds = mem_credentials now, g_vtokens = mem_vtokens now, g_oauth = mem_oauth now,
      g_sessions = mem_sessions now,
      g_save_user = (\<lambda>u t. Inr (if u_ID u \<in> set (map u_ID t)
                         then upd_where (\<lambda>r. u_ID r = u_ID u) (\<lambda>_. u\<lparr>u_Roles := []\<rparr>) t
                         else t @ [u\<lparr>u_Roles := []\<rparr>])),
      g_ord_users = (\<lambda>_ a b. u_ID a \<le> u_ID b), g_ord_roles = (\<lambda>_ a b. r_ID a \<le> r_ID b),
      g_ord_perms = (\<lambda>_ a b. p_ID a \<le> p_ID b)\<rparr>"

interpretation mem_db: database "mem_db now" for now
  by (rule database.intro)
    (simp_all add: mem_db_def mem_users_table.gorm_table_axioms mem_roles_table.gorm_table_axioms
      mem_permissions_table.gorm_table_axioms mem_credentials_table.gorm_table_axioms
      mem_vtokens_table.gorm_table_axioms mem_oauth_table.gorm_table_axioms
      mem_sessions_table.gorm_table_axioms mem_user_roles.gorm_links_axioms mem_role_perms.gorm_links_axioms
      split: if_splits)

subsection \<open>Reading rows with their associations\<close>

text \<open>A loop that stops at the first error.\<close>

fun map_result :: "('a \<Rightarrow> 'b result) \<Rightarrow> 'a list \<Rightarrow> 'b list result" where
  "map_result f [] = Inr []"
| "map_result f (x # xs) =
     (case f x of Inl e \<Rightarrow> Inl e
      | Inr y \<Rightarrow> (case map_result f xs of Inl e \<Rightarrow> Inl e | Inr ys \<Rightarrow> Inr (y # ys)))"

lemma map_result_ok: "map_result f xs = Inr ys \<Longrightarrow> list_all2 (\<lambda>x y. f x = Inr y) xs ys"
  by (induction xs arbitrary: ys) (auto split: sum.splits)

definition preload_permissions :: "dbconn \<Rightarrow> tables \<Rightarrow> role \<Rightarrow> role result" where
  "preload_permissions D T r =
     (case lk_Refs (g_role_perms D) (r_ID r) (tb_role_perms T) of
        Inl e \<Rightarrow> Inl e
      | Inr pids \<Rightarrow>
          (case gorm_Find (g_perms D) (\<lambda>p. p_ID p \<in> set pids) (tb_perms T) of
             Inl e \<Rightarrow> Inl e
           | Inr ps \<Rightarrow> Inr (r\<lparr>r_Permissions := ps\<rparr>)))"

definition preload_roles :: "dbconn \<Rightarrow> tables \<Rightarrow> user \<Rightarrow> user result" where
  "preload_roles D T u =
     (case lk_Refs (g_user_roles D) (u_ID u) (tb_user_roles T) of
        Inl e \<Rightarrow> Inl e
      | Inr rids \<Rightarrow>
          (case gorm_Find (g_roles D) (\<lambda>r. r_ID r \<in> set rids) (tb_roles T) of
             Inl e \<Rightarrow> Inl e
           | Inr rs \<Rightarrow> Inr (u\<lparr>u_Roles := rs\<rparr>)))"

definition preload_roles_permissions :: "dbconn \<Rightarrow> tables \<Rightarrow> user \<Rightarrow> user result" where
  "preload_roles_permissions D T u =
     (case preload_roles D T u of
        Inl e \<Rightarrow> Inl e
      | Inr u1 \<Rightarrow>
          (case map_result (preload_permissions D T) (u_Roles u1) of
             Inl e \<Rightarrow> Inl e
           | Inr rs \<Rightarrow> Inr (u1\<lparr>u_Roles := rs\<rparr>)))"

text \<open>\<open>LIKE\<close> of SQL: \<open>%\<close> stands for any string, \<open>_\<close> for any character and a backslash quotes the next one.\<close>

fun sql_like :: "string \<Rightarrow> string \<Rightarrow> bool" where
  "sql_like [] s \<longleftrightarrow> s = []"
| "sql_like (c # p) [] \<longleftrightarrow> c = CHR ''%'' \<and> sql_like p []"
| "sql_like (c # p) (x # s) \<longleftrightarrow>
     (if c = CHR ''%'' then sql_like p (x # s) \<or> sql_like (c # p) s
      else if c = CHR ''_'' then sql_like p s
      else if c = CHR 0x5C \<and> p \<noteq> [] then hd p = x \<and> sql_like (tl p) s
      else c = x \<and> sql_like p s)"

text \<open>\<open>Order(sortBy sortOrder).Order(id sortOrder)\<close>, for the order \<open>le\<close> of the database on the column.\<close>

definition order_by :: "(string \<Rightarrow> 'r \<Rightarrow> 'r \<Rightarrow> bool) \<Rightarrow> ('r \<Rightarrow> uint) \<Rightarrow> string \<Rightarrow> string \<Rightarrow> 'r \<Rightarrow> 'r \<Rightarrow> bool" where
  "order_by le pk sortBy sortOrder a b =
     (let (x, y) = (if ToLower sortOrder = ''desc'' then (b, a) else (a, b))
      in if sortBy = [] then pk x \<le> pk y
         else if le sortBy x y \<and> le sortBy y x then pk x \<le> pk y
         else le sortBy x y)"

text \<open>
  Count, then one page in order: the common part of the \<open>ListPaged\<close> methods.  \<open>preload\<close> is what the
  query preloads for each row.
\<close>

definition list_page ::
    "'r gorm \<Rightarrow> ('r \<Rightarrow> bool) \<Rightarrow> ('r \<Rightarrow> 'r \<Rightarrow> bool) \<Rightarrow> ('r \<Rightarrow> 'r result) \<Rightarrow> PageRequest \<Rightarrow> 'r list
     \<Rightarrow> 'r PageResult result" where
  "list_page G p le preload q t =
     (let req = normalizePageRequest q in
      case gorm_Count G p t of
        Inl e \<Rightarrow> Inl e
      | Inr n \<Rightarrow>
          (case gorm_FindPage G p le (nat (page_offset req)) (nat (pq_PageSize req)) t of
             Inl e \<Rightarrow> Inl e
           | Inr rows \<Rightarrow>
               (case map_result preload rows of
                  Inl e \<Rightarrow> Inl e
                | Inr items \<Rightarrow>
                    Inr \<lparr>pg_Items = items, pg_Page = pq_Page req, pg_PageSize = pq_PageSize req,
                         pg_Total = int n, pg_TotalPages = calcTotalPages (int n) (pq_PageSize req)\<rparr>)))"

subsection \<open>\<open>GormUserRepository\<close>\<close>

record UserListQuery =
  uq_Page :: PageRequest
  uq_SortBy :: string
  uq_SortOrder :: string
  uq_Email :: string
  uq_Status :: string
  uq_Role :: string

definition UserRepository_FindByID :: "dbconn \<Rightarrow> uint \<Rightarrow> tables \<Rightarrow> user result" where
  "UserRepository_FindByID D uid T =
     (case gorm_First (g_users D) (\<lambda>u. u_ID u = uid) (tb_users T) of
        Inl e \<Rightarrow> Inl e | Inr u \<Rightarrow> preload_roles_permissions D T u)"

definition UserRepository_FindByEmail :: "dbconn \<Rightarrow> string \<Rightarrow> tables \<Rightarrow> user result" where
  "UserRepository_FindByEmail D email T =
     (case gorm_First (g_users D) (\<lambda>u. u_Email u = email) (tb_users T) of
        Inl e \<Rightarrow> Inl e | Inr u \<Rightarrow> preload_roles_permissions D T u)"

definition UserRepository_Create :: "dbconn \<Rightarrow> user \<Rightarrow> tables \<Rightarrow> user result \<times> tables" where
  "UserRepository_Create D u T =
     (case gorm_Create (g_users D) u (tb_users T) of
        Inl e \<Rightarrow> (Inl e, T) | Inr (u', t) \<Rightarrow> (Inr u', T\<lparr>tb_users := t\<rparr>))"

definition UserRepository_Update :: "dbconn \<Rightarrow> user \<Rightarrow> tables \<Rightarrow> unit result \<times> tables" where
  "UserRepository_Update D u T =
     (case g_save_user D u (tb_users T) of
        Inl e \<Rightarrow> (Inl e, T) | Inr t \<Rightarrow> (Inr (), T\<lparr>tb_users := t\<rparr>))"

definition UserRepository_List :: "dbconn \<Rightarrow> tables \<Rightarrow> user list result" where
  "UserRepository_List D T =
     (case gorm_Find (g_users D) (\<lambda>_. True) (tb_users T) of
        Inl e \<Rightarrow> Inl e | Inr us \<Rightarrow> map_result (preload_roles D T) us)"

definition has_role :: "tables \<Rightarrow> string \<Rightarrow> user \<Rightarrow> bool" where
  "has_role T name u \<longleftrightarrow>
     list_ex (\<lambda>l. ur_UserID l = u_ID u \<and> list_ex (\<lambda>r. r_ID r = ur_RoleID l \<and> r_Name r = name) (tb_roles T))
       (tb_user_roles T)"

definition UserRepository_ListPaged :: "dbconn \<Rightarrow> UserListQuery \<Rightarrow> tables \<Rightarrow> user PageResult result" where
  "UserRepository_ListPaged D q T =
     list_page (g_users D)
       (\<lambda>u. (uq_Email q \<noteq> [] \<longrightarrow> sql_like (uq_Email q @ ''%'') (u_Email u))
          \<and> (uq_Status q \<noteq> [] \<longrightarrow> u_Status u = uq_Status q)
          \<and> (uq_Role q \<noteq> [] \<longrightarrow> has_role T (uq_Role q) u))
       (order_by (g_ord_users D) u_ID (uq_SortBy q) (uq_SortOrder q))
       (preload_roles D T) (uq_Page q) (tb_users T)"

definition UserRepository_SetRoles :: "dbconn \<Rightarrow> uint \<Rightarrow> uint list \<Rightarrow> tables \<Rightarrow> unit result \<times> tables" where
  "UserRepository_SetRoles D userID roleIDs T =
     (case (if roleIDs \<noteq> [] then gorm_Find (g_roles D) (\<lambda>r. r_ID r \<in> set roleIDs) (tb_roles T) else Inr []) of
        Inl e \<Rightarrow> (Inl e, T)
      | Inr rs \<Rightarrow>
          (case lk_Replace (g_user_roles D) userID (map r_ID rs) (tb_user_roles T) of
             Inl e \<Rightarrow> (Inl e, T) | Inr t \<Rightarrow> (Inr (), T\<lparr>tb_user_roles := t\<rparr>)))"

definition UserRepository_AddRole :: "dbconn \<Rightarrow> uint \<Rightarrow> uint \<Rightarrow> tables \<Rightarrow> unit result \<times> tables" where
  "UserRepository_AddRole D userID roleID T =
     (case lk_Append (g_user_roles D) userID roleID (tb_user_roles T) of
        Inl e \<Rightarrow> (Inl e, T) | Inr t \<Rightarrow> (Inr (), T\<lparr>tb_user_roles := t\<rparr>))"

subsection \<open>\<open>GormRoleRepository\<close>\<close>

definition RoleRepository_FindByID :: "dbconn \<Rightarrow> uint \<Rightarrow> tables \<Rightarrow> role result" where
  "RoleRepository_FindByID D rid T =
     (case gorm_First (g_roles D) (\<lambda>r. r_ID r = rid) (tb_roles T) of
        Inl e \<Rightarrow> Inl (not_found ErrRoleNotFound e) | Inr r \<Rightarrow> preload_permissions D T r)"

definition RoleRepository_FindByName :: "dbconn \<Rightarrow> string \<Rightarrow> tables \<Rightarrow> role result" where
  "RoleRepository_FindByName D name T =
     (case gorm_First (g_roles D) (\<lambda>r. r_Name r = name) (tb_roles T) of
        Inl e \<Rightarrow> Inl (not_found ErrRoleNotFound e) | Inr r \<Rightarrow> preload_permissions D T r)"

definition RoleRepository_List :: "dbconn \<Rightarrow> tables \<Rightarrow> role list result" where
  "RoleRepository_List D T =
     (case gorm_Find (g_roles D) (\<lambda>_. True) (tb_roles T) of
        Inl e \<Rightarrow> Inl e | Inr rs \<Rightarrow> map_result (preload_permissions D T) rs)"

definition RoleRepository_ListPaged ::
    "dbconn \<Rightarrow> PageRequest \<Rightarrow> string \<Rightarrow> string \<Rightarrow> string \<Rightarrow> tables \<Rightarrow> role PageResult result" where
  "RoleRepository_ListPaged D req sortBy sortOrder name T =
     list_page (g_roles D) (\<lambda>r. name \<noteq> [] \<longrightarrow> sql_like (name @ ''%'') (r_Name r))
       (order_by (g_ord_roles D) r_ID sortBy sortOrder) (preload_permissions D T) req (tb_roles T)"

definition RoleRepository_Create :: "dbconn \<Rightarrow> role \<Rightarrow> uint list \<Rightarrow> tables \<Rightarrow> role result \<times> tables" where
  "RoleRepository_Create D r permissionIDs T =
     (case gorm_Create (g_roles D) r (tb_roles T) of
        Inl e \<Rightarrow> (Inl e, T)
      | Inr (r', t) \<Rightarrow>
          (let T1 = T\<lparr>tb_roles := t\<rparr> in
           if permissionIDs = [] then (Inr r', T1)
           else (case gorm_Find (g_perms D) (\<lambda>p. p_ID p \<in> set permissionIDs) (tb_perms T1) of
                   Inl e \<Rightarrow> (Inl e, T1)
                 | Inr ps \<Rightarrow>
                     (case lk_Replace (g_role_perms D) (r_ID r') (map p_ID ps) (tb_role_perms T1) of
                        Inl e \<Rightarrow> (Inl e, T1)
                      | Inr l \<Rightarrow> (Inr (r'\<lparr>r_Permissions := ps\<rparr>), T1\<lparr>tb_role_perms := l\<rparr>)))))"

definition RoleRepository_Update :: "dbconn \<Rightarrow> role \<Rightarrow> uint list \<Rightarrow> tables \<Rightarrow> unit result \<times> tables" where
  "RoleRepository_Update D r permissionIDs T =
     (case RoleRepository_FindByID D (r_ID r) T of
        Inl e \<Rightarrow> (Inl e, T)
      | Inr existing \<Rightarrow>
          (case gorm_Updates (g_roles D) (\<lambda>x. r_ID x = r_ID existing)
                  (\<lambda>x. x\<lparr>r_Name := r_Name r, r_Description := r_Description r\<rparr>) (tb_roles T) of
             Inl e \<Rightarrow> (Inl e, T)
           | Inr (n, t) \<Rightarrow>
               (case (if permissionIDs \<noteq> [] then gorm_Find (g_perms D) (\<lambda>p. p_ID p \<in> set permissionIDs) (tb_perms T)
                      else Inr []) of
                  Inl e \<Rightarrow> (Inl e, T)
                | Inr ps \<Rightarrow>
                    (case lk_Replace (g_role_perms D) (r_ID existing) (map p_ID ps) (tb_role_perms T) of
                       Inl e \<Rightarrow> (Inl e, T)
                     | Inr l \<Rightarrow> (Inr (), T\<lparr>tb_roles := t, tb_role_perms := l\<rparr>)))))"

definition RoleRepository_DeleteByID :: "dbconn \<Rightarrow> uint \<Rightarrow> tables \<Rightarrow> unit result \<times> tables" where
  "RoleRepository_DeleteByID D rid T =
     (case gorm_Delete (g_roles D) (\<lambda>r. r_ID r = rid) (tb_roles T) of
        Inl e \<Rightarrow> (Inl e, T)
      | Inr (n, t) \<Rightarrow> if n = 0 then (Inl ErrRoleNotFound, T\<lparr>tb_roles := t\<rparr>) else (Inr (), T\<lparr>tb_roles := t\<rparr>))"

subsection \<open>\<open>GormPermissionRepository\<close>\<close>

definition PermissionRepository_List :: "dbconn \<Rightarrow> tables \<Rightarrow> permission list result" where
  "PermissionRepository_List D T = gorm_Find (g_perms D) (\<lambda>_. True) (tb_perms T)"

definition PermissionRepository_ListPaged ::
    "dbconn \<Rightarrow> PageRequest \<Rightarrow> string \<Rightarrow> string \<Rightarrow> string \<Rightarrow> string \<Rightarrow> tables \<Rightarrow> permission PageResult result" where
  "PermissionRepository_ListPaged D req sortBy sortOrder resource action T =
     list_page (g_perms D)
       (\<lambda>p. (resource \<noteq> [] \<longrightarrow> sql_like (resource @ ''%'') (p_Resource p))
          \<and> (action \<noteq> [] \<longrightarrow> sql_like (action @ ''%'') (p_Action p)))
       (order_by (g_ord_perms D) p_ID sortBy sortOrder) Inr req (tb_perms T)"

definition PermissionRepository_FindByID :: "dbconn \<Rightarrow> uint \<Rightarrow> tables \<Rightarrow> permission result" where
  "PermissionRepository_FindByID D pid T =
     (case gorm_First (g_perms D) (\<lambda>p. p_ID p = pid) (tb_perms T) of
        Inl e \<Rightarrow> Inl (not_found ErrPermissionNotFound e) | Inr p \<Rightarrow> Inr p)"

definition PermissionRepository_FindByPairs :: "dbconn \<Rightarrow> (string \<times> string) list \<Rightarrow> tables \<Rightarrow> permission list result" where
  "PermissionRepository_FindByPairs D pairs T =
     (if pairs = [] then Inr []
      else gorm_Find (g_perms D) (\<lambda>p. (p_Resource p, p_Action p) \<in> set pairs) (tb_perms T))"

definition PermissionRepository_FindByResourceAction :: "dbconn \<Rightarrow> string \<Rightarrow> string \<Rightarrow> tables \<Rightarrow> permission result" where
  "PermissionRepository_FindByResourceAction D resource action T =
     (case gorm_First (g_perms D) (\<lambda>p. p_Resource p = resource \<and> p_Action p = action) (tb_perms T) of
        Inl e \<Rightarrow> Inl (not_found ErrPermissionNotFound e) | Inr p \<Rightarrow> Inr p)"

definition PermissionRepository_Create :: "dbconn \<Rightarrow> permission \<Rightarrow> tables \<Rightarrow> permission result \<times> tables" where
  "PermissionRepository_Create D p T =
     (case gorm_Create (g_perms D) p (tb_perms T) of
        Inl e \<Rightarrow> (Inl e, T) | Inr (p', t) \<Rightarrow> (Inr p', T\<lparr>tb_perms := t\<rparr>))"

definition PermissionRepository_Update :: "dbconn \<Rightarrow> permission \<Rightarrow> tables \<Rightarrow> unit result \<times> tables" where
  "PermissionRepository_Update D p T =
     (case gorm_Updates (g_perms D) (\<lambda>x. p_ID x = p_ID p)
             (\<lambda>x. x\<lparr>p_Resource := p_Resource p, p_Action := p_Action p\<rparr>) (tb_perms T) of
        Inl e \<Rightarrow> (Inl e, T)
      | Inr (n, t) \<Rightarrow> if n = 0 then (Inl ErrPermissionNotFound, T\<lparr>tb_perms := t\<rparr>) else (Inr (), T\<lparr>tb_perms := t\<rparr>))"

definition PermissionRepository_DeleteByID :: "dbconn \<Rightarrow> uint \<Rightarrow> tables \<Rightarrow> unit result \<times> tables" where
  "PermissionRepository_DeleteByID D pid T =
     (case gorm_Delete (g_perms D) (\<lambda>p. p_ID p = pid) (tb_perms T) of
        Inl e \<Rightarrow> (Inl e, T)
      | Inr (n, t) \<Rightarrow> if n = 0 then (Inl ErrPermissionNotFound, T\<lparr>tb_perms := t\<rparr>) else (Inr (), T\<lparr>tb_perms := t\<rparr>))"

subsection \<open>\<open>GormLocalCredentialRepository\<close>, \<open>GormOAuthRepository\<close>, \<open>GormVerificationTokenRepository\<close>\<close>

definition LocalCredentialRepository_Create ::
    "dbconn \<Rightarrow> local_credential \<Rightarrow> tables \<Rightarrow> local_credential result \<times> tables" where
  "LocalCredentialRepository_Create D c T =
     (case gorm_Create (g_creds D) c (tb_creds T) of
        Inl e \<Rightarrow> (Inl e, T) | Inr (c', t) \<Rightarrow> (Inr c', T\<lparr>tb_creds := t\<rparr>))"

definition LocalCredentialRepository_FindByUserID :: "dbconn \<Rightarrow> uint \<Rightarrow> tables \<Rightarrow> local_credential result" where
  "LocalCredentialRepository_FindByUserID D userID T =
     gorm_First (g_creds D) (\<lambda>c. lc_UserID c = userID) (tb_creds T)"

definition LocalCredentialRepository_FindByEmail :: "dbconn \<Rightarrow> string \<Rightarrow> tables \<Rightarrow> local_credential result" where
  "LocalCredentialRepository_FindByEmail D email T =
     (let normalized = TrimSpace (ToLower email)
      in gorm_First (g_creds D)
           (\<lambda>c. list_ex (\<lambda>u. u_ID u = lc_UserID c \<and> u_Email u = normalized) (tb_users T)) (tb_creds T))"

definition LocalCredentialRepository_UpdatePassword ::
    "dbconn \<Rightarrow> uint \<Rightarrow> string \<Rightarrow> tables \<Rightarrow> unit result \<times> tables" where
  "LocalCredentialRepository_UpdatePassword D userID newHash T =
     (case gorm_Updates (g_creds D) (\<lambda>c. lc_UserID c = userID) (\<lambda>c. c\<lparr>lc_PasswordHash := newHash\<rparr>) (tb_creds T) of
        Inl e \<Rightarrow> (Inl e, T) | Inr (n, t) \<Rightarrow> (Inr (), T\<lparr>tb_creds := t\<rparr>))"

definition LocalCredentialRepository_MarkEmailVerified ::
    "dbconn \<Rightarrow> gotime \<Rightarrow> uint \<Rightarrow> tables \<Rightarrow> unit result \<times> tables" where
  "LocalCredentialRepository_MarkEmailVerified D now userID T =
     (case gorm_Updates (g_creds D) (\<lambda>c. lc_UserID c = userID)
             (\<lambda>c. c\<lparr>lc_EmailVerified := True, lc_EmailVerifiedAt := Some now\<rparr>) (tb_creds T) of
        Inl e \<Rightarrow> (Inl e, T) | Inr (n, t) \<Rightarrow> (Inr (), T\<lparr>tb_creds := t\<rparr>))"

definition OAuthRepository_FindByProvider :: "dbconn \<Rightarrow> string \<Rightarrow> string \<Rightarrow> tables \<Rightarrow> oauth_account result" where
  "OAuthRepository_FindByProvider D provider providerUserID T =
     gorm_First (g_oauth D) (\<lambda>a. oa_Provider a = provider \<and> oa_ProviderUserID a = providerUserID) (tb_oauth T)"

definition OAuthRepository_Create :: "dbconn \<Rightarrow> oauth_account \<Rightarrow> tables \<Rightarrow> oauth_account result \<times> tables" where
  "OAuthRepository_Create D a T =
     (case gorm_Create (g_oauth D) a (tb_oauth T) of
        Inl e \<Rightarrow> (Inl e, T) | Inr (a', t) \<Rightarrow> (Inr a', T\<lparr>tb_oauth := t\<rparr>))"

definition VerificationTokenRepository_Create ::
    "dbconn \<Rightarrow> verification_token \<Rightarrow> tables \<Rightarrow> verification_token result \<times> tables" where
  "VerificationTokenRepository_Create D v T =
     (case gorm_Create (g_vtokens D) v (tb_vtokens T) of
        Inl e \<Rightarrow> (Inl e, T) | Inr (v', t) \<Rightarrow> (Inr v', T\<lparr>tb_vtokens := t\<rparr>))"

definition VerificationTokenRepository_InvalidateActiveByUserPurpose ::
    "dbconn \<Rightarrow> uint \<Rightarrow> string \<Rightarrow> gotime \<Rightarrow> tables \<Rightarrow> unit result \<times> tables" where
  "VerificationTokenRepository_InvalidateActiveByUserPurpose D userID purpose now T =
     (case gorm_Updates (g_vtokens D)
             (\<lambda>v. vt_UserID v = userID \<and> vt_Purpose v = purpose \<and> vt_UsedAt v = None \<and> vt_ExpiresAt v > now)
             (\<lambda>v. v\<lparr>vt_UsedAt := Some now\<rparr>) (tb_vtokens T) of
        Inl e \<Rightarrow> (Inl e, T) | Inr (n, t) \<Rightarrow> (Inr (), T\<lparr>tb_vtokens := t\<rparr>))"

definition VerificationTokenRepository_FindActiveByHashPurpose ::
    "dbconn \<Rightarrow> string \<Rightarrow> string \<Rightarrow> gotime \<Rightarrow> tables \<Rightarrow> verification_token result" where
  "VerificationTokenRepository_FindActiveByHashPurpose D hash purpose now T =
     (case gorm_First (g_vtokens D)
             (\<lambda>v. vt_TokenHash v = hash \<and> vt_Purpose v = purpose \<and> vt_UsedAt v = None \<and> vt_ExpiresAt v > now)
             (tb_vtokens T) of
        Inl e \<Rightarrow> Inl (not_found ErrVerificationTokenNotFound e) | Inr v \<Rightarrow> Inr v)"

definition VerificationTokenRepository_Consume ::
    "dbconn \<Rightarrow> uint \<Rightarrow> uint \<Rightarrow> gotime \<Rightarrow> tables \<Rightarrow> unit result \<times> tables" where
  "VerificationTokenRepository_Consume D tokenID userID now T =
     (case gorm_Updates (g_vtokens D) (\<lambda>v. vt_ID v = tokenID \<and> vt_UserID v = userID \<and> vt_UsedAt v = None)
             (\<lambda>v. v\<lparr>vt_UsedAt := Some now\<rparr>) (tb_vtokens T) of
        Inl e \<Rightarrow> (Inl e, T)
      | Inr (n, t) \<Rightarrow>
          if n = 0 then (Inl ErrVerificationTokenNotFound, T\<lparr>tb_vtokens := t\<rparr>)
          else (Inr (), T\<lparr>tb_vtokens := t\<rparr>))"

end
