(* ===== verification/Rbac.thy ===== *)
theory Rbac
  imports Identity_Repo Http Redis
begin

section \<open>Permissions: \<open>rbac_*.go\<close>, \<open>user_service.go\<close>, \<open>rbac_middleware.go\<close>\<close>

text \<open>
  \<open>RBACService\<close> and \<open>UserService\<close>, the caches of resolved permissions in memory and in Redis, the
  resolver that reads through a cache, and the middleware that asks it.

  Go leaves the order in which a map is iterated open; \<open>PermissionsFromRoles\<close> lists the permissions in
  the order in which the roles name them, and nothing below depends on it.
  \<open>singleflight.Do\<close> runs its function once for simultaneous callers; in a sequence of calls it is the
  function.
\<close>

definition PermissionsFromRoles :: "role list \<Rightarrow> string list" where
  "PermissionsFromRoles rs =
     remdups (concat (map (\<lambda>r. map (\<lambda>p. p_Resource p @ '':'' @ p_Action p) (r_Permissions r)) rs))"

definition HasPermission :: "string list \<Rightarrow> string \<Rightarrow> bool" where
  "HasPermission permissions required = list_ex (\<lambda>p. p = required) permissions"

definition UserService_GetByID :: "dbconn \<Rightarrow> uint \<Rightarrow> tables \<Rightarrow> (user \<times> string list) result" where
  "UserService_GetByID D uid T =
     (case UserRepository_FindByID D uid T of
        Inl e \<Rightarrow> Inl e | Inr u \<Rightarrow> Inr (u, PermissionsFromRoles (u_Roles u)))"

definition UserService_List :: "dbconn \<Rightarrow> tables \<Rightarrow> user list result" where
  "UserService_List D T = UserRepository_List D T"

definition UserService_SetRoles :: "dbconn \<Rightarrow> uint \<Rightarrow> uint list \<Rightarrow> tables \<Rightarrow> unit result \<times> tables" where
  "UserService_SetRoles D userID roleIDs T = UserRepository_SetRoles D userID roleIDs T"

definition UserService_AddRole :: "dbconn \<Rightarrow> uint \<Rightarrow> uint \<Rightarrow> tables \<Rightarrow> unit result \<times> tables" where
  "UserService_AddRole D userID roleID T = UserRepository_AddRole D userID roleID T"

subsection \<open>The cache interface and its implementations\<close>

record 's rbac_store =
  rb_Get :: "gotime \<Rightarrow> uint \<Rightarrow> string \<Rightarrow> 's \<Rightarrow> string list option result \<times> 's"
  rb_Set :: "gotime \<Rightarrow> uint \<Rightarrow> string \<Rightarrow> string list \<Rightarrow> duration \<Rightarrow> 's \<Rightarrow> unit result \<times> 's"
  rb_InvalidateUser :: "gotime \<Rightarrow> uint \<Rightarrow> 's \<Rightarrow> unit result \<times> 's"
  rb_InvalidateAll :: "gotime \<Rightarrow> 's \<Rightarrow> unit result \<times> 's"

definition NoopRBACPermissionCacheStore :: "'s rbac_store" where
  "NoopRBACPermissionCacheStore =
     \<lparr>rb_Get = (\<lambda>_ _ _ s. (Inr None, s)), rb_Set = (\<lambda>_ _ _ _ _ s. (Inr (), s)),
      rb_InvalidateUser = (\<lambda>_ _ s. (Inr (), s)), rb_InvalidateAll = (\<lambda>_ s. (Inr (), s))\<rparr>"

definition buildRBACPermissionCacheKey :: "nat \<Rightarrow> nat \<Rightarrow> uint \<Rightarrow> string \<Rightarrow> string" where
  "buildRBACPermissionCacheKey globalEpoch userEpoch userID sessionTokenID =
     ''rbacperm:g'' @ FormatUint globalEpoch @ '':u'' @ FormatUint userEpoch @ '':user:'' @ FormatUint userID
       @ '':s:'' @ (if sessionTokenID = [] then ''none'' else sessionTokenID)"

record rbacCacheEntry =
  re_permissions :: "string list"
  re_expiresAt :: gotime

record rbac_mem =
  rm_data :: "string \<Rightarrow> rbacCacheEntry option"
  rm_globalEpoch :: nat
  rm_userEpoch :: "uint \<Rightarrow> nat"

definition NewInMemoryRBACPermissionCacheStore :: rbac_mem where
  "NewInMemoryRBACPermissionCacheStore = \<lparr>rm_data = (\<lambda>_. None), rm_globalEpoch = 0, rm_userEpoch = (\<lambda>_. 0)\<rparr>"

definition rbac_cacheKeyLocked :: "uint \<Rightarrow> string \<Rightarrow> rbac_mem \<Rightarrow> string" where
  "rbac_cacheKeyLocked userID sessionTokenID s =
     buildRBACPermissionCacheKey (rm_globalEpoch s) (rm_userEpoch s userID) userID sessionTokenID"

definition InMemoryRBAC_Get :: "gotime \<Rightarrow> uint \<Rightarrow> string \<Rightarrow> rbac_mem \<Rightarrow> string list option result \<times> rbac_mem" where
  "InMemoryRBAC_Get now userID sessionTokenID s =
     (let key = rbac_cacheKeyLocked userID sessionTokenID s in
      case rm_data s key of
        None \<Rightarrow> (Inr None, s)
      | Some entry \<Rightarrow>
          if now > re_expiresAt entry then (Inr None, s\<lparr>rm_data := (rm_data s)(key := None)\<rparr>)
          else (Inr (Some (re_permissions entry)), s))"

definition InMemoryRBAC_Set ::
    "gotime \<Rightarrow> uint \<Rightarrow> string \<Rightarrow> string list \<Rightarrow> duration \<Rightarrow> rbac_mem \<Rightarrow> unit result \<times> rbac_mem" where
  "InMemoryRBAC_Set now userID sessionTokenID permissions ttl s =
     (if ttl \<le> 0 then (Inr (), s)
      else (Inr (), s\<lparr>rm_data := (rm_data s)(rbac_cacheKeyLocked userID sessionTokenID s \<mapsto>
              \<lparr>re_permissions = permissions, re_expiresAt = now + ttl\<rparr>)\<rparr>))"

text \<open>The epochs are of type \<open>uint64\<close>.\<close>

definition InMemoryRBAC_InvalidateUser :: "gotime \<Rightarrow> uint \<Rightarrow> rbac_mem \<Rightarrow> unit result \<times> rbac_mem" where
  "InMemoryRBAC_InvalidateUser now userID s =
     (Inr (), s\<lparr>rm_userEpoch := (rm_userEpoch s)(userID := (rm_userEpoch s userID + 1) mod 2 ^ 64)\<rparr>)"

definition InMemoryRBAC_InvalidateAll :: "gotime \<Rightarrow> rbac_mem \<Rightarrow> unit result \<times> rbac_mem" where
  "InMemoryRBAC_InvalidateAll now s = (Inr (), s\<lparr>rm_globalEpoch := (rm_globalEpoch s + 1) mod 2 ^ 64\<rparr>)"

definition InMemoryRBACPermissionCacheStore :: "rbac_mem rbac_store" where
  "InMemoryRBACPermissionCacheStore =
     \<lparr>rb_Get = InMemoryRBAC_Get, rb_Set = InMemoryRBAC_Set, rb_InvalidateUser = InMemoryRBAC_InvalidateUser,
      rb_InvalidateAll = InMemoryRBAC_InvalidateAll\<rparr>"

text \<open>
  In Redis.  The state is the server and what will become of the calls to come (\<open>Up\<close> when nothing is
  said); \<open>tick\<close> is the clock of the server.  The client is present, as the constructor of the
  application makes it.
\<close>

definition redis_io :: "('r \<Rightarrow> 'a \<times> 'r) \<Rightarrow> 'r \<times> net list \<Rightarrow> 'a result \<times> 'r \<times> net list" where
  "redis_io f s =
     (case snd s of
        [] \<Rightarrow> (case redis_call Up f (fst s) of (a, r) \<Rightarrow> (a, r, []))
      | n # ns \<Rightarrow> (case redis_call n f (fst s) of (a, r) \<Rightarrow> (a, r, ns)))"

definition rbac_globalEpochKey :: "string \<Rightarrow> string" where
  "rbac_globalEpochKey pfx = pfx @ '':epoch:global''"

definition rbac_userEpochKey :: "string \<Rightarrow> uint \<Rightarrow> string" where
  "rbac_userEpochKey pfx userID = pfx @ '':epoch:user:'' @ FormatUint userID"

definition parseEpoch :: "string option \<Rightarrow> nat result" where
  "parseEpoch v = (case v of
       None \<Rightarrow> Inr 0
     | Some s \<Rightarrow> if s = [] then Inr 0
                 else (case ParseUint s of None \<Rightarrow> Inl (External ''strconv.ParseUint'') | Some n \<Rightarrow> Inr n))"

definition RedisRBAC_dataKey ::
    "'r redis \<Rightarrow> (gotime \<Rightarrow> int) \<Rightarrow> string \<Rightarrow> gotime \<Rightarrow> uint \<Rightarrow> string \<Rightarrow> 'r \<times> net list \<Rightarrow> string result \<times> 'r \<times> net list" where
  "RedisRBAC_dataKey R tick pfx now userID sessionTokenID s =
     (case redis_io (\<lambda>r. ((rd_GET R (tick now) (rbac_globalEpochKey pfx) r,
                            rd_GET R (tick now) (rbac_userEpochKey pfx userID) r), r)) s of
        (Inl e, s') \<Rightarrow> (Inl e, s')
      | (Inr (g, u), s') \<Rightarrow>
          (case parseEpoch g of
             Inl e \<Rightarrow> (Inl e, s')
           | Inr globalEpoch \<Rightarrow>
               (case parseEpoch u of
                  Inl e \<Rightarrow> (Inl e, s')
                | Inr userEpoch \<Rightarrow> (Inr (buildRBACPermissionCacheKey globalEpoch userEpoch userID sessionTokenID), s'))))"

definition RedisRBAC_Get ::
    "'r redis \<Rightarrow> (gotime \<Rightarrow> int) \<Rightarrow> (string \<Rightarrow> string list option) \<Rightarrow> string \<Rightarrow> gotime \<Rightarrow> uint \<Rightarrow> string \<Rightarrow> 'r \<times> net list
     \<Rightarrow> string list option result \<times> 'r \<times> net list" where
  "RedisRBAC_Get R tick unmarshal pfx now userID sessionTokenID s =
     (case RedisRBAC_dataKey R tick pfx now userID sessionTokenID s of
        (Inl e, s1) \<Rightarrow> (Inl e, s1)
      | (Inr key, s1) \<Rightarrow>
          (case redis_io (\<lambda>r. (rd_GET R (tick now) key r, r)) s1 of
             (Inl e, s2) \<Rightarrow> (Inl e, s2)
           | (Inr None, s2) \<Rightarrow> (Inr None, s2)
           | (Inr (Some raw), s2) \<Rightarrow>
               (case unmarshal raw of
                  None \<Rightarrow> (Inl (External ''json.Unmarshal''), s2)
                | Some perms \<Rightarrow> (Inr (Some perms), s2))))"

text \<open>go-redis sends a duration in milliseconds and at least one.\<close>

definition redis_ttl :: "duration \<Rightarrow> int" where
  "redis_ttl ttl = max 1 (ttl div milliseconds 1)"

definition RedisRBAC_Set ::
    "'r redis \<Rightarrow> (gotime \<Rightarrow> int) \<Rightarrow> (string list \<Rightarrow> string) \<Rightarrow> string \<Rightarrow> gotime \<Rightarrow> uint \<Rightarrow> string \<Rightarrow> string list \<Rightarrow> duration
     \<Rightarrow> 'r \<times> net list \<Rightarrow> unit result \<times> 'r \<times> net list" where
  "RedisRBAC_Set R tick marshal pfx now userID sessionTokenID permissions ttl s =
     (if ttl \<le> 0 then (Inr (), s)
      else (case RedisRBAC_dataKey R tick pfx now userID sessionTokenID s of
              (Inl e, s1) \<Rightarrow> (Inl e, s1)
            | (Inr key, s1) \<Rightarrow>
                redis_io (\<lambda>r. ((), rd_SET R (tick now) key (marshal permissions) (Some (redis_ttl ttl)) r)) s1))"

definition RedisRBAC_InvalidateUser ::
    "'r redis \<Rightarrow> (gotime \<Rightarrow> int) \<Rightarrow> string \<Rightarrow> gotime \<Rightarrow> uint \<Rightarrow> 'r \<times> net list \<Rightarrow> unit result \<times> 'r \<times> net list" where
  "RedisRBAC_InvalidateUser R tick pfx now userID s =
     redis_io (\<lambda>r. ((), snd (rd_INCR R (tick now) (rbac_userEpochKey pfx userID) r))) s"

definition RedisRBAC_InvalidateAll ::
    "'r redis \<Rightarrow> (gotime \<Rightarrow> int) \<Rightarrow> string \<Rightarrow> gotime \<Rightarrow> 'r \<times> net list \<Rightarrow> unit result \<times> 'r \<times> net list" where
  "RedisRBAC_InvalidateAll R tick pfx now s =
     redis_io (\<lambda>r. ((), snd (rd_INCR R (tick now) (rbac_globalEpochKey pfx) r))) s"

definition RedisRBACPermissionCacheStore ::
    "'r redis \<Rightarrow> (gotime \<Rightarrow> int) \<Rightarrow> (string list \<Rightarrow> string) \<Rightarrow> (string \<Rightarrow> string list option) \<Rightarrow> string
     \<Rightarrow> ('r \<times> net list) rbac_store" where
  "RedisRBACPermissionCacheStore R tick marshal unmarshal prefix0 =
     (let pfx = (if prefix0 = [] then ''rbac_perm'' else prefix0) in
      \<lparr>rb_Get = RedisRBAC_Get R tick unmarshal pfx, rb_Set = RedisRBAC_Set R tick marshal pfx,
       rb_InvalidateUser = RedisRBAC_InvalidateUser R tick pfx, rb_InvalidateAll = RedisRBAC_InvalidateAll R tick pfx\<rparr>)"

subsection \<open>The resolver and the middleware\<close>

record 's CachedPermissionResolver =
  cp_store :: "'s rbac_store option"
  cp_ttl :: duration

definition cached_perms ::
    "'s CachedPermissionResolver \<Rightarrow> gotime \<Rightarrow> uint \<Rightarrow> string \<Rightarrow> 's \<Rightarrow> string list option \<times> 's" where
  "cached_perms c now userID sessionTokenID s =
     (case cp_store c of
        None \<Rightarrow> (None, s)
      | Some S \<Rightarrow>
          if cp_ttl c > 0 then
            (case rb_Get S now userID sessionTokenID s of
               (Inr (Some ps), s') \<Rightarrow> (Some ps, s') | (_, s') \<Rightarrow> (None, s'))
          else (None, s))"

text \<open>\<open>clk\<close> gives the clock readings: of the first look-up, of the second, of the \<open>Set\<close>.\<close>

definition ResolvePermissions ::
    "'s CachedPermissionResolver \<Rightarrow> (uint \<Rightarrow> (user \<times> string list) result) \<Rightarrow> clock \<Rightarrow> claims option \<Rightarrow> 's
     \<Rightarrow> string list result \<times> 's" where
  "ResolvePermissions c getByID clk claims0 s =
     (case claims0 of
        None \<Rightarrow> (Inl (Errorf ''missing claims''), s)
      | Some claims \<Rightarrow>
          (case ParseUint (cl_Subject claims) of
             None \<Rightarrow> (Inl (Errorf ''invalid subject''), s)
           | Some userID \<Rightarrow>
               (let sid = (if TrimSpace (cl_ID claims) = [] then ''none'' else TrimSpace (cl_ID claims)) in
                case cached_perms c (clk 0) userID sid s of
                  (Some ps, s1) \<Rightarrow> (Inr ps, s1)
                | (None, s1) \<Rightarrow>
                    (case cached_perms c (clk 1) userID sid s1 of
                       (Some ps, s2) \<Rightarrow> (Inr ps, s2)
                     | (None, s2) \<Rightarrow>
                         (case getByID userID of
                            Inl e \<Rightarrow> (Inl e, s2)
                          | Inr (u, perms) \<Rightarrow>
                              (case cp_store c of
                                 None \<Rightarrow> (Inr perms, s2)
                               | Some S \<Rightarrow>
                                   if cp_ttl c > 0 then (Inr perms, snd (rb_Set S (clk 2) userID sid perms (cp_ttl c) s2))
                                   else (Inr perms, s2)))))))"

definition Resolver_InvalidateUser :: "'s CachedPermissionResolver \<Rightarrow> gotime \<Rightarrow> uint \<Rightarrow> 's \<Rightarrow> unit result \<times> 's" where
  "Resolver_InvalidateUser c now userID s =
     (case cp_store c of None \<Rightarrow> (Inr (), s) | Some S \<Rightarrow> rb_InvalidateUser S now userID s)"

definition Resolver_InvalidateAll :: "'s CachedPermissionResolver \<Rightarrow> gotime \<Rightarrow> 's \<Rightarrow> unit result \<times> 's" where
  "Resolver_InvalidateAll c now s =
     (case cp_store c of None \<Rightarrow> (Inr (), s) | Some S \<Rightarrow> rb_InvalidateAll S now s)"

text \<open>\<open>resolve\<close> is \<open>None\<close> when the middleware was built without a resolver.\<close>

definition RequirePermission ::
    "(claims option \<Rightarrow> 'w \<Rightarrow> string list result \<times> 'w) option \<Rightarrow> string \<Rightarrow> string \<Rightarrow> 'w handler \<Rightarrow> 'w handler" where
  "RequirePermission resolve permission reqID next_h = (\<lambda>r hs w.
     case ClaimsFromContext r of
       None \<Rightarrow> (response_Error reqID r hs 401 ''UNAUTHORIZED'' ''missing auth context'' [], w)
     | Some claims \<Rightarrow>
         (case (case resolve of None \<Rightarrow> (Inr (cl_Permissions claims), w) | Some f \<Rightarrow> f (Some claims) w) of
            (Inl e, w1) \<Rightarrow>
              (response_Error reqID r hs 503 ''RBAC_UNAVAILABLE'' ''permission resolution unavailable'' [], w1)
          | (Inr perms, w1) \<Rightarrow>
              if \<not> HasPermission perms permission then
                (response_Error reqID r hs 403 ''FORBIDDEN'' ''insufficient permission'' [(''required'', permission)], w1)
              else next_h r hs w1))"

subsection \<open>Keys\<close>

lemma dec_then_sep:
  assumes "FormatUint a @ c # x = FormatUint b @ c # y" and "\<not> is_digit c"
  shows "a = b \<and> x = y"
proof -
  have *: "takeWhile is_digit (FormatUint n @ c # z) = FormatUint n \<and> dropWhile is_digit (FormatUint n @ c # z) = c # z" for n z
    using assms(2) digit_not_sep by (simp add: takeWhile_append2 dropWhile_append2)
  have "FormatUint a = FormatUint b" using * [of a x] * [of b y] assms(1) by metis
  then have "a = b" by (rule FormatUint_inj)
  with assms(1) show ?thesis by simp
qed

definition session_part :: "string \<Rightarrow> string" where
  "session_part sid = (if sid = [] then ''none'' else sid)"

lemma key_inj:
  "buildRBACPermissionCacheKey g u uid sid = buildRBACPermissionCacheKey g' u' uid' sid' \<longleftrightarrow>
   g = g' \<and> u = u' \<and> uid = uid' \<and> session_part sid = session_part sid'"
proof
  have colon: "\<not> is_digit (CHR '':'')" by (simp add: is_digit_def)
  assume eq: "buildRBACPermissionCacheKey g u uid sid = buildRBACPermissionCacheKey g' u' uid' sid'"
  have "FormatUint g @ CHR '':'' # ''u'' @ FormatUint u @ CHR '':'' # ''user:'' @ FormatUint uid @ CHR '':'' # ''s:'' @ session_part sid
     = FormatUint g' @ CHR '':'' # ''u'' @ FormatUint u' @ CHR '':'' # ''user:'' @ FormatUint uid' @ CHR '':'' # ''s:'' @ session_part sid'"
    using eq unfolding buildRBACPermissionCacheKey_def session_part_def [symmetric] by simp
  from dec_then_sep [OF this colon] have 1: "g = g'"
    and "FormatUint u @ CHR '':'' # ''user:'' @ FormatUint uid @ CHR '':'' # ''s:'' @ session_part sid
     = FormatUint u' @ CHR '':'' # ''user:'' @ FormatUint uid' @ CHR '':'' # ''s:'' @ session_part sid'"
    by simp_all
  from dec_then_sep [OF this(2) colon] have 2: "u = u'"
    and "FormatUint uid @ CHR '':'' # ''s:'' @ session_part sid = FormatUint uid' @ CHR '':'' # ''s:'' @ session_part sid'"
    by auto
  from dec_then_sep [OF this(2) colon] 1 2 show "g = g' \<and> u = u' \<and> uid = uid' \<and> session_part sid = session_part sid'"
    by auto
qed (auto simp: buildRBACPermissionCacheKey_def session_part_def)

subsection \<open>The contract of a cache\<close>

text \<open>
  What happens to the permissions and to a cache of them: the resolver is asked; the permissions of a
  user, or of many users, change and the cache is told so successfully.  \<open>getByID\<close> is what the user
  service reports at the time.
\<close>

inductive rbac_step ::
    "'s rbac_store \<Rightarrow> duration \<Rightarrow> ('s \<Rightarrow> bool) \<Rightarrow> (string list \<Rightarrow> bool)
     \<Rightarrow> (uint \<Rightarrow> (user \<times> string list) result) \<times> 's \<Rightarrow> (uint \<Rightarrow> (user \<times> string list) result) \<times> 's \<Rightarrow> bool"
  for S ttl room storable where
    Resolve: "ResolvePermissions \<lparr>cp_store = Some S, cp_ttl = ttl\<rparr> getByID clk claims0 s = (res, s') \<Longrightarrow>
      rbac_step S ttl room storable (getByID, s) (getByID, s')"
  | ChangeUser: "rb_InvalidateUser S now u s = (Inr (), s') \<Longrightarrow> room s \<Longrightarrow> (\<And>v. v \<noteq> u \<Longrightarrow> getByID' v = getByID v) \<Longrightarrow>
      (\<And>us ps. getByID' u = Inr (us, ps) \<Longrightarrow> storable ps) \<Longrightarrow>
      rbac_step S ttl room storable (getByID, s) (getByID', s')"
  | ChangeAll: "rb_InvalidateAll S now s = (Inr (), s') \<Longrightarrow> room s \<Longrightarrow>
      (\<And>v us ps. getByID' v = Inr (us, ps) \<Longrightarrow> storable ps) \<Longrightarrow>
      rbac_step S ttl room storable (getByID, s) (getByID', s')"

text \<open>
  \<open>may_return s u sid ps\<close> says that a look-up in \<open>s\<close> may return \<open>ps\<close> for the session \<open>sid\<close> of user \<open>u\<close>.
  A cache may forget, but it returns nothing that was not stored since the last invalidation.
  \<open>room\<close> says that the counter behind an invalidation can still be incremented, and \<open>storable\<close> that
  the encoding used by the cache can represent the permissions.
\<close>

locale rbac_cache =
  fixes S :: "'s rbac_store" and inv :: "'s \<Rightarrow> bool" and may_return :: "'s \<Rightarrow> uint \<Rightarrow> string \<Rightarrow> string list \<Rightarrow> bool"
    and room :: "'s \<Rightarrow> bool" and storable :: "string list \<Rightarrow> bool"
  assumes get_sound: "inv s \<Longrightarrow> rb_Get S now u sid s = (Inr (Some ps), s') \<Longrightarrow> may_return s u sid ps"
    and get_keeps: "inv s \<Longrightarrow> rb_Get S now u sid s = (res, s') \<Longrightarrow>
      inv s' \<and> (may_return s' u' sid' ps' \<longrightarrow> may_return s u' sid' ps')"
    and set_keeps: "inv s \<Longrightarrow> storable ps \<Longrightarrow> rb_Set S now u sid ps ttl s = (r, s') \<Longrightarrow>
      inv s' \<and> (may_return s' u' sid' ps' \<longrightarrow> may_return s u' sid' ps' \<or> u' = u \<and> ps' = ps)"
    and invalidate_user: "inv s \<Longrightarrow> room s \<Longrightarrow> rb_InvalidateUser S now u s = (Inr (), s') \<Longrightarrow>
      inv s' \<and> (may_return s' u' sid' ps' \<longrightarrow> u' \<noteq> u \<and> may_return s u' sid' ps')"
    and invalidate_all: "inv s \<Longrightarrow> room s \<Longrightarrow> rb_InvalidateAll S now s = (Inr (), s') \<Longrightarrow>
      inv s' \<and> \<not> may_return s' u' sid' ps'"
begin

text \<open>The cache agrees with the permissions \<open>perms\<close> that the user service would report.\<close>

definition coherent :: "(uint \<Rightarrow> string list result) \<Rightarrow> 's \<Rightarrow> bool" where
  "coherent perms s \<longleftrightarrow> inv s \<and> (\<forall>u sid ps. may_return s u sid ps \<longrightarrow> perms u = Inr ps)"

lemma coherent_get:
  assumes "coherent perms s" "cached_perms \<lparr>cp_store = Some S, cp_ttl = ttl\<rparr> now u sid s = (res, s')"
  shows "coherent perms s'" and "res = Some ps \<Longrightarrow> perms u = Inr ps"
proof -
  have "coherent perms s' \<and> (res = Some ps \<longrightarrow> perms u = Inr ps)"
  proof (cases "ttl > 0")
    case True
    obtain out s1 where get: "rb_Get S now u sid s = (out, s1)" by fastforce
    have inv: "inv s" and co: "may_return s u sid qs \<Longrightarrow> perms u = Inr qs" for u sid qs
      using assms(1) by (auto simp: coherent_def)
    have "coherent perms s1" using get_keeps [OF inv get] co unfolding coherent_def by blast
    moreover have "perms u = Inr qs" if "out = Inr (Some qs)" for qs
      using get_sound [OF inv] get that co by blast
    ultimately show ?thesis
      using assms(2) True get by (auto simp: cached_perms_def split: sum.splits option.splits)
  next
    case False
    with assms show ?thesis by (auto simp: cached_perms_def)
  qed
  then show "coherent perms s'" "res = Some ps \<Longrightarrow> perms u = Inr ps" by auto
qed

lemma resolve_coherent:
  assumes co: "coherent perms s"
    and perms: "\<And>u. perms u = map_sum id snd (getByID u)" and st: "\<And>u ps. perms u = Inr ps \<Longrightarrow> storable ps"
    and run: "ResolvePermissions \<lparr>cp_store = Some S, cp_ttl = ttl\<rparr> getByID clk claims0 s = (res, s')"
  shows "coherent perms s'"
    and "claims0 = Some c \<Longrightarrow> ParseUint (cl_Subject c) = Some u \<Longrightarrow> res = perms u"
proof -
  have "coherent perms s' \<and> (\<forall>c u. claims0 = Some c \<longrightarrow> ParseUint (cl_Subject c) = Some u \<longrightarrow> res = perms u)"
  proof (cases "\<exists>c u. claims0 = Some c \<and> ParseUint (cl_Subject c) = Some u")
    case False
    with co run show ?thesis by (auto simp: ResolvePermissions_def split: option.splits)
  next
    case True
    then obtain c u where c: "claims0 = Some c" "ParseUint (cl_Subject c) = Some u" by blast
    define sid where "sid = (if TrimSpace (cl_ID c) = [] then ''none'' else TrimSpace (cl_ID c))"
    let ?R = "\<lparr>cp_store = Some S, cp_ttl = ttl\<rparr>"
    obtain r1 s1 where g1: "cached_perms ?R (clk 0) u sid s = (r1, s1)" by fastforce
    obtain r2 s2 where g2: "cached_perms ?R (clk (Suc 0)) u sid s1 = (r2, s2)" by fastforce
    note c1 = coherent_get [OF co g1] note c2 = coherent_get [OF c1(1) g2]
    note step = run [unfolded ResolvePermissions_def c option.case sid_def [symmetric] Let_def, simplified, unfolded g1 prod.case]
    show ?thesis
    proof (cases r1)
      case (Some ps)
      with step c1 c show ?thesis by auto
    next
      case r1: None
      show ?thesis
      proof (cases r2)
        case (Some ps)
        with r1 step c2 c g2 show ?thesis by auto
      next
        case None
        show ?thesis
        proof (cases "getByID u")
          case (Inl e)
          with r1 None step c2 c g2 perms [of u] show ?thesis by auto
        next
          case (Inr up)
          then have pu: "perms u = Inr (snd up)" using perms by simp
          have "coherent perms (snd (rb_Set S (clk 2) u sid (snd up) ttl s2))"
            using set_keeps [OF _ st [OF pu] prod.collapse [symmetric]] c2(1) pu
            unfolding coherent_def by blast
          with Inr r1 None step c2(1) c g2 pu show ?thesis
            by (auto simp: numeral_2_eq_2 split: prod.splits if_splits)
        qed
      qed
    qed
  qed
  then show "coherent perms s'" "claims0 = Some c \<Longrightarrow> ParseUint (cl_Subject c) = Some u \<Longrightarrow> res = perms u" by auto
qed

lemma invalidate_user_coherent:
  assumes "coherent perms s" "room s" "rb_InvalidateUser S now u s = (Inr (), s')" "\<And>v. v \<noteq> u \<Longrightarrow> perms' v = perms v"
  shows "coherent perms' s'"
  using assms invalidate_user unfolding coherent_def by metis

lemma invalidate_all_coherent:
  assumes "coherent perms s" "room s" "rb_InvalidateAll S now s = (Inr (), s')"
  shows "coherent perms' s'"
  using assms invalidate_all unfolding coherent_def by metis

definition run_inv :: "(uint \<Rightarrow> (user \<times> string list) result) \<Rightarrow> 's \<Rightarrow> bool" where
  "run_inv getByID s \<longleftrightarrow> coherent (\<lambda>u. map_sum id snd (getByID u)) s \<and> (\<forall>u us ps. getByID u = Inr (us, ps) \<longrightarrow> storable ps)"

lemma storable_perms:
  "run_inv getByID s \<Longrightarrow> map_sum id snd (getByID u) = Inr ps \<Longrightarrow> storable ps"
  by (cases "getByID u") (auto simp: run_inv_def)

lemma run_inv_step:
  assumes "rbac_step S ttl room storable (getByID, s) (getByID', s')" "run_inv getByID s"
  shows "run_inv getByID' s'"
  using assms(1)
proof cases
  case (Resolve clk claims0 res)
  from resolve_coherent(1) [OF _ refl storable_perms [OF assms(2)] Resolve(2)] assms(2) Resolve(1)
  show ?thesis by (simp add: run_inv_def)
next
  case (ChangeUser now u)
  have "coherent (\<lambda>u. map_sum id snd (getByID' u)) s'"
    using assms(2) ChangeUser by (intro invalidate_user_coherent [OF _ ChangeUser(2,1)]) (simp_all add: run_inv_def)
  moreover have "storable ps" if "getByID' v = Inr (us, ps)" for v us ps
    using that ChangeUser(3,4) assms(2) by (cases "v = u") (auto simp: run_inv_def)
  ultimately show ?thesis by (simp add: run_inv_def)
next
  case (ChangeAll now)
  then show ?thesis
    using assms(2) invalidate_all_coherent by (auto simp: run_inv_def)
qed

lemma run_answers_current:
  assumes "(rbac_step S ttl room storable)\<^sup>*\<^sup>* (g0, s0) (getByID, s)" "run_inv g0 s0"
    and run: "ResolvePermissions \<lparr>cp_store = Some S, cp_ttl = ttl\<rparr> getByID clk (Some c) s = (res, s')"
    and u: "ParseUint (cl_Subject c) = Some u"
  shows "res = map_sum id snd (getByID u)"
proof -
  have "run_inv (fst q) (snd q)" if "(rbac_step S ttl room storable)\<^sup>*\<^sup>* p q" "run_inv (fst p) (snd p)" for p q
    using that
  proof (induction rule: rtranclp_induct)
    case (step y z)
    then show ?case using run_inv_step [of ttl "fst y" "snd y" "fst z" "snd z"] by simp
  qed
  from this [OF assms(1)] assms(2) have inv: "run_inv getByID s" by simp
  from resolve_coherent(2) [OF _ refl storable_perms [OF inv] run refl u] inv
  show ?thesis by (simp add: run_inv_def)
qed

end

subsection \<open>The cache in memory keeps the contract\<close>

definition rbac_mem_inv :: "rbac_mem \<Rightarrow> bool" where
  "rbac_mem_inv s \<longleftrightarrow> (\<forall>g u uid sid. rm_data s (buildRBACPermissionCacheKey g u uid sid) \<noteq> None \<longrightarrow>
     g \<le> rm_globalEpoch s \<and> u \<le> rm_userEpoch s uid)"

definition rbac_mem_may_return :: "rbac_mem \<Rightarrow> uint \<Rightarrow> string \<Rightarrow> string list \<Rightarrow> bool" where
  "rbac_mem_may_return s u sid ps \<longleftrightarrow> (\<exists>e. rm_data s (rbac_cacheKeyLocked u sid s) = Some e \<and> re_permissions e = ps)"

definition rbac_mem_room :: "rbac_mem \<Rightarrow> bool" where
  "rbac_mem_room s \<longleftrightarrow> rm_globalEpoch s + 1 < 2 ^ 64 \<and> (\<forall>u. rm_userEpoch s u + 1 < 2 ^ 64)"

lemmas rbac_mem_defs = rbac_mem_inv_def rbac_mem_may_return_def rbac_cacheKeyLocked_def

interpretation mem_rbac: rbac_cache InMemoryRBACPermissionCacheStore rbac_mem_inv rbac_mem_may_return rbac_mem_room
  "\<lambda>_. True"
proof (unfold_locales, goal_cases)
  case (1 s now u sid ps s')
  then show ?case
    by (auto simp: InMemoryRBACPermissionCacheStore_def InMemoryRBAC_Get_def Let_def rbac_mem_may_return_def
        split: option.splits if_splits)
next
  case (2 s now u sid res s' u' sid' ps')
  then show ?case
    by (auto simp: InMemoryRBACPermissionCacheStore_def InMemoryRBAC_Get_def Let_def rbac_mem_defs
        split: option.splits if_splits) blast+
next
  case (3 s ps now u sid ttl r s' u' sid' ps')
  then show ?case
    by (auto simp: InMemoryRBACPermissionCacheStore_def InMemoryRBAC_Set_def Let_def rbac_mem_defs key_inj
        split: if_splits) blast+
next
  case (4 s now u s' u' sid' ps')
  then have s': "s' = s\<lparr>rm_userEpoch := (rm_userEpoch s)(u := Suc (rm_userEpoch s u))\<rparr>"
    by (simp add: InMemoryRBACPermissionCacheStore_def InMemoryRBAC_InvalidateUser_def rbac_mem_room_def)
  show ?case using 4(1) unfolding s' rbac_mem_defs by (cases "u' = u") (fastforce split: if_splits)+
next
  case (5 s now s' u' sid' ps')
  then have s': "s' = s\<lparr>rm_globalEpoch := Suc (rm_globalEpoch s)\<rparr>"
    by (simp add: InMemoryRBACPermissionCacheStore_def InMemoryRBAC_InvalidateAll_def rbac_mem_room_def)
  show ?case using 5(1) unfolding s' rbac_mem_defs by fastforce
qed

subsection \<open>The cache in Redis keeps the contract\<close>

lemma redis_io_cases:
  assumes "redis_io f s = (res, s')"
  obtains (answer) "res = Inr (fst (f (fst s)))" "fst s' = snd (f (fst s))"
    | (failure) e where "res = Inl e" "fst s' = fst s \<or> fst s' = snd (f (fst s))"
  using assms
  by (cases "snd s"; cases "hd (snd s)") (auto simp: redis_io_def redis_call_def split: prod.splits)

definition epoch_of :: "rview \<Rightarrow> string \<Rightarrow> nat" where
  "epoch_of V k = (case V k of Some (RStr s, _) \<Rightarrow> (case ParseUint s of Some n \<Rightarrow> n | None \<Rightarrow> 0) | _ \<Rightarrow> 0)"

definition epoch_key :: "string \<Rightarrow> string \<Rightarrow> bool" where
  "epoch_key pfx k \<longleftrightarrow> k = rbac_globalEpochKey pfx \<or> (\<exists>u. k = rbac_userEpochKey pfx u)"

definition current_key :: "string \<Rightarrow> rview \<Rightarrow> uint \<Rightarrow> string \<Rightarrow> string" where
  "current_key pfx V u sid =
     buildRBACPermissionCacheKey (epoch_of V (rbac_globalEpochKey pfx)) (epoch_of V (rbac_userEpochKey pfx u)) u sid"

definition rbac_view_inv :: "string \<Rightarrow> rview \<Rightarrow> bool" where
  "rbac_view_inv pfx V \<longleftrightarrow>
     (\<forall>k. epoch_key pfx k \<longrightarrow> V k = None \<or> (\<exists>n < 2 ^ 64. V k = Some (RStr (FormatUint n), None)))
     \<and> (\<forall>g u uid sid. V (buildRBACPermissionCacheKey g u uid sid) \<noteq> None \<longrightarrow>
          g \<le> epoch_of V (rbac_globalEpochKey pfx) \<and> u \<le> epoch_of V (rbac_userEpochKey pfx uid))"

definition rbac_view_may_return ::
    "(string \<Rightarrow> string list option) \<Rightarrow> string \<Rightarrow> rview \<Rightarrow> uint \<Rightarrow> string \<Rightarrow> string list \<Rightarrow> bool" where
  "rbac_view_may_return unmarshal pfx V u sid ps \<longleftrightarrow>
     (\<exists>raw e. V (current_key pfx V u sid) = Some (RStr raw, e) \<and> unmarshal raw = Some ps)"

definition rbac_view_room :: "string \<Rightarrow> rview \<Rightarrow> bool" where
  "rbac_view_room pfx V \<longleftrightarrow> (\<forall>k. epoch_key pfx k \<longrightarrow> epoch_of V k + 1 < 2 ^ 64)"

lemma epoch_key_not_data:
  assumes "\<not> prefix ''rbacperm:g'' pfx" and "epoch_key pfx k"
  shows "k \<noteq> buildRBACPermissionCacheKey g u uid sid"
proof
  assume eq: "k = buildRBACPermissionCacheKey g u uid sid"
  obtain rest where k: "k = pfx @ CHR '':'' # CHR ''e'' # rest"
    using assms(2) by (auto simp: epoch_key_def rbac_globalEpochKey_def rbac_userEpochKey_def)
  have "prefix ''rbacperm:g'' k" using eq by (simp add: buildRBACPermissionCacheKey_def)
  with k assms(1) show False
    by (auto simp: prefix_append prefix_Cons Cons_eq_append_conv append_eq_Cons_conv)
qed

lemma parse_epoch:
  assumes "rbac_view_inv pfx V" "epoch_key pfx k"
  shows "parseEpoch (v_GET t k V) = Inr (epoch_of V k)" and "v_counter t k V = epoch_of V k"
proof -
  note iv = assms(1) [unfolded rbac_view_inv_def, THEN conjunct1, rule_format, OF assms(2)]
  from iv consider "V k = None" | n where "n < 2 ^ 64" "V k = Some (RStr (FormatUint n), None)"
    by (elim disjE exE conjE)
  then have "parseEpoch (v_GET t k V) = Inr (epoch_of V k) \<and> v_counter t k V = epoch_of V k"
    by cases (use FormatUint_digits in \<open>auto simp: parseEpoch_def v_GET_def v_counter_def alive_def epoch_of_def
        ParseUint_FormatUint\<close>)
  then show "parseEpoch (v_GET t k V) = Inr (epoch_of V k)" "v_counter t k V = epoch_of V k" by auto
qed

lemma epoch_keys [simp]:
  "epoch_key pfx (rbac_globalEpochKey pfx)" "epoch_key pfx (rbac_userEpochKey pfx u)"
  by (auto simp: epoch_key_def)

lemma epoch_keys_neq:
  "rbac_userEpochKey pfx u = rbac_userEpochKey pfx u' \<longleftrightarrow> u = u'"
  "rbac_userEpochKey pfx u \<noteq> rbac_globalEpochKey pfx" "rbac_globalEpochKey pfx \<noteq> rbac_userEpochKey pfx u"
  by (auto simp: rbac_userEpochKey_def rbac_globalEpochKey_def dest: FormatUint_inj)

lemma bump_epoch:
  assumes pfx: "\<not> prefix ''rbacperm:g'' pfx" and inv: "rbac_view_inv pfx V" and room: "rbac_view_room pfx V"
    and k: "epoch_key pfx k"
  shows "rbac_view_inv pfx (snd (v_INCR t k V))"
    and "epoch_of (snd (v_INCR t k V)) k' = (if k' = k then Suc (epoch_of V k) else epoch_of V k')"
    and "snd (v_INCR t k V) (buildRBACPermissionCacheKey g u uid sid) = V (buildRBACPermissionCacheKey g u uid sid)"
proof -
  let ?n = "epoch_of V k" and ?V = "snd (v_INCR t k V)"
  have exp: "(case alive t V k of None \<Rightarrow> None | Some (v, e) \<Rightarrow> e) = None"
    using inv k unfolding rbac_view_inv_def by (fastforce simp: alive_def)
  have V': "?V = V(k \<mapsto> (RStr (FormatUint (Suc ?n)), None))"
    using parse_epoch(2) [OF inv k] by (simp add: v_INCR_def Let_def exp)
  have room': "Suc ?n < 2 ^ 64" using room k by (simp add: rbac_view_room_def)
  show eps: "epoch_of ?V k' = (if k' = k then Suc ?n else epoch_of V k')" for k'
    using room' by (simp add: V' epoch_of_def ParseUint_FormatUint)
  show dat: "?V (buildRBACPermissionCacheKey g u uid sid) = V (buildRBACPermissionCacheKey g u uid sid)" for g u uid sid
    using epoch_key_not_data [OF pfx k, of g u uid sid] by (auto simp: V')
  have mono: "epoch_of V k' \<le> epoch_of ?V k'" for k' by (simp add: eps)
  show "rbac_view_inv pfx ?V"
    unfolding rbac_view_inv_def
  proof (intro conjI allI impI)
    fix k' assume "epoch_key pfx k'"
    note iv = inv [unfolded rbac_view_inv_def, THEN conjunct1, rule_format, OF this]
    show "?V k' = None \<or> (\<exists>n < 2 ^ 64. ?V k' = Some (RStr (FormatUint n), None))"
    proof (cases "k' = k")
      case True
      with room' show ?thesis unfolding V' by (intro disjI2 exI [of _ "Suc ?n"]) simp
    next
      case False
      with iv show ?thesis unfolding V' by (simp only: fun_upd_other not_False_eq_True)
    qed
  next
    fix g u uid sid assume "?V (buildRBACPermissionCacheKey g u uid sid) \<noteq> None"
    then have "g \<le> epoch_of V (rbac_globalEpochKey pfx) \<and> u \<le> epoch_of V (rbac_userEpochKey pfx uid)"
      using inv unfolding dat rbac_view_inv_def by blast
    then show "g \<le> epoch_of ?V (rbac_globalEpochKey pfx)" "u \<le> epoch_of ?V (rbac_userEpochKey pfx uid)"
      using mono order_trans by blast+
  qed
qed

lemma store_permissions:
  assumes pfx: "\<not> prefix ''rbacperm:g'' pfx" and inv: "rbac_view_inv pfx V"
    and V': "V' = v_SET t (current_key pfx V u sid) raw ttl V"
  shows "rbac_view_inv pfx V'" and "current_key pfx V' u' sid' = current_key pfx V u' sid'"
    and "V' (current_key pfx V u' sid') = (if u' = u \<and> session_part sid' = session_part sid
           then Some (RStr raw, map_option (\<lambda>ms. t + ms) ttl) else V (current_key pfx V u' sid'))"
proof -
  have ek: "V' k = V k" if "epoch_key pfx k" for k
    using epoch_key_not_data [OF pfx that] by (auto simp: V' v_SET_def current_key_def)
  then have eo: "epoch_of V' k = epoch_of V k" if "epoch_key pfx k" for k
    using that by (simp add: epoch_of_def)
  then show "current_key pfx V' u' sid' = current_key pfx V u' sid'" by (simp add: current_key_def)
  show "V' (current_key pfx V u' sid') = (if u' = u \<and> session_part sid' = session_part sid
           then Some (RStr raw, map_option (\<lambda>ms. t + ms) ttl) else V (current_key pfx V u' sid'))"
    by (auto simp: V' v_SET_def current_key_def key_inj)
  show "rbac_view_inv pfx V'"
    unfolding rbac_view_inv_def
  proof (intro conjI allI impI)
    fix k assume "epoch_key pfx k"
    with inv show "V' k = None \<or> (\<exists>n < 2 ^ 64. V' k = Some (RStr (FormatUint n), None))"
      unfolding ek [OF \<open>epoch_key pfx k\<close>] rbac_view_inv_def by blast
  next
    fix g w uid sid2 assume "V' (buildRBACPermissionCacheKey g w uid sid2) \<noteq> None"
    then have "V (buildRBACPermissionCacheKey g w uid sid2) \<noteq> None
        \<or> g = epoch_of V (rbac_globalEpochKey pfx) \<and> w = epoch_of V (rbac_userEpochKey pfx uid)"
      by (auto simp: V' v_SET_def current_key_def key_inj split: if_splits)
    with inv show "g \<le> epoch_of V' (rbac_globalEpochKey pfx)" "w \<le> epoch_of V' (rbac_userEpochKey pfx uid)"
      unfolding eo [OF epoch_keys(1)] eo [OF epoch_keys(2)] rbac_view_inv_def by blast+
  qed
qed

context redis_server begin

lemma dataKey_result:
  assumes "rbac_view_inv pfx (view (fst s))" "RedisRBAC_dataKey R tick pfx now u sid s = (res, s')"
  shows "fst s' = fst s" and "res = Inr key \<Longrightarrow> key = current_key pfx (view (fst s)) u sid"
proof -
  obtain out s1 where io: "redis_io (\<lambda>r. ((rd_GET R (tick now) (rbac_globalEpochKey pfx) r,
      rd_GET R (tick now) (rbac_userEpochKey pfx u) r), r)) s = (out, s1)" by (meson surj_pair)
  have "fst s' = fst s \<and> (res = Inr key \<longrightarrow> key = current_key pfx (view (fst s)) u sid)"
    using io
  proof (cases rule: redis_io_cases)
    case answer
    then show ?thesis
      using assms(2) [unfolded RedisRBAC_dataKey_def io]
        parse_epoch(1) [OF assms(1) epoch_keys(1)] parse_epoch(1) [OF assms(1) epoch_keys(2)]
      by (auto simp: current_key_def)
  next
    case (failure e)
    then show ?thesis using assms(2) [unfolded RedisRBAC_dataKey_def io] by auto
  qed
  then show "fst s' = fst s" "res = Inr key \<Longrightarrow> key = current_key pfx (view (fst s)) u sid" by auto
qed

lemma redis_rbac_cache:
  assumes pfx: "\<not> prefix ''rbacperm:g'' pfx" "pfx \<noteq> []"
  shows "rbac_cache (RedisRBACPermissionCacheStore R tick marshal unmarshal pfx) (\<lambda>s. rbac_view_inv pfx (view (fst s)))
     (\<lambda>s. rbac_view_may_return unmarshal pfx (view (fst s))) (\<lambda>s. rbac_view_room pfx (view (fst s)))
     (\<lambda>ps. unmarshal (marshal ps) = Some ps)"
proof (unfold_locales, goal_cases)
  case (1 s now u sid ps s')
  then have run: "RedisRBAC_Get R tick unmarshal pfx now u sid s = (Inr (Some ps), s')"
    using pfx by (simp add: RedisRBACPermissionCacheStore_def Let_def)
  then obtain key s1 where dk: "RedisRBAC_dataKey R tick pfx now u sid s = (Inr key, s1)"
    by (auto simp: RedisRBAC_Get_def split: prod.splits sum.splits)
  obtain out s2 where io: "redis_io (\<lambda>r. (rd_GET R (tick now) key r, r)) s1 = (out, s2)" by (meson surj_pair)
  note d = dataKey_result [OF 1(1) dk]
  from io show ?case
  proof (cases rule: redis_io_cases)
    case answer
    with run [unfolded RedisRBAC_Get_def dk prod.case sum.case io] d show ?thesis
      by (auto simp: rbac_view_may_return_def v_GET_def alive_def
          split: option.splits rvalue.splits if_splits prod.splits)
  next
    case (failure e)
    with run [unfolded RedisRBAC_Get_def dk prod.case sum.case io] show ?thesis by auto
  qed
next
  case (2 s now u sid res s' u' sid' ps')
  then have run: "RedisRBAC_Get R tick unmarshal pfx now u sid s = (res, s')"
    using pfx by (simp add: RedisRBACPermissionCacheStore_def Let_def)
  obtain k s1 where dk: "RedisRBAC_dataKey R tick pfx now u sid s = (k, s1)" by (meson surj_pair)
  have "fst s2 = fst s1" if "redis_io (\<lambda>r. (rd_GET R (tick now) key r, r)) s1 = (out, s2)" for key out s2
    using that by (cases rule: redis_io_cases) auto
  with dataKey_result(1) [OF 2(1) dk] have "fst s' = fst s"
    using run by (auto simp: RedisRBAC_Get_def dk split: sum.splits prod.splits option.splits)
  with 2(1) show ?case by simp
next
  case (3 s ps now u sid ttl r s' u' sid' ps')
  then have run: "RedisRBAC_Set R tick marshal pfx now u sid ps ttl s = (r, s')"
    using pfx by (simp add: RedisRBACPermissionCacheStore_def Let_def)
  obtain k s1 where dk: "RedisRBAC_dataKey R tick pfx now u sid s = (k, s1)" by (meson surj_pair)
  note d = dataKey_result [OF 3(1) dk]
  have out: "fst s' = fst s \<or> view (fst s') = v_SET (tick now) (current_key pfx (view (fst s)) u sid) (marshal ps)
      (Some (redis_ttl ttl)) (view (fst s))"
  proof (cases "ttl \<le> 0 \<or> isl k")
    case True
    with run d show ?thesis by (cases k) (auto simp: RedisRBAC_Set_def dk split: if_splits)
  next
    case False
    then obtain key where k: "k = Inr key" by (cases k) auto
    with False run have "redis_io (\<lambda>r. ((), rd_SET R (tick now) key (marshal ps) (Some (redis_ttl ttl)) r)) s1 = (r, s')"
      by (simp add: RedisRBAC_Set_def dk)
    then show ?thesis using d k by (cases rule: redis_io_cases) auto
  qed
  show ?case
  proof (cases "fst s' = fst s")
    case True
    with 3(1) show ?thesis by simp
  next
    case False
    with out have V': "view (fst s') = v_SET (tick now) (current_key pfx (view (fst s)) u sid) (marshal ps)
      (Some (redis_ttl ttl)) (view (fst s))" by simp
    note st = store_permissions [OF pfx(1) 3(1) V']
    show ?thesis
      using st(1) 3(2) st(3) [of u' sid'] by (auto simp: rbac_view_may_return_def st(2) split: if_splits)
  qed
next
  case (4 s now u s' u' sid' ps')
  then have io: "redis_io (\<lambda>r. ((), snd (rd_INCR R (tick now) (rbac_userEpochKey pfx u) r))) s = (Inr (), s')"
    using pfx by (simp add: RedisRBACPermissionCacheStore_def RedisRBAC_InvalidateUser_def Let_def)
  have V': "view (fst s') = snd (v_INCR (tick now) (rbac_userEpochKey pfx u) (view (fst s)))"
    using io by (cases rule: redis_io_cases) auto
  note b = bump_epoch [OF pfx(1) 4(1,2) epoch_keys(2), of "tick now" u, folded V']
  have "view (fst s) (buildRBACPermissionCacheKey g (Suc (epoch_of (view (fst s)) (rbac_userEpochKey pfx u))) u sid) = None" for g sid
    using 4(1) unfolding rbac_view_inv_def by (metis not_less_eq_eq order_refl)
  with b show ?case
    by (cases "u' = u") (auto simp: rbac_view_may_return_def current_key_def epoch_keys_neq)
next
  case (5 s now s' u' sid' ps')
  then have io: "redis_io (\<lambda>r. ((), snd (rd_INCR R (tick now) (rbac_globalEpochKey pfx) r))) s = (Inr (), s')"
    using pfx by (simp add: RedisRBACPermissionCacheStore_def RedisRBAC_InvalidateAll_def Let_def)
  have V': "view (fst s') = snd (v_INCR (tick now) (rbac_globalEpochKey pfx) (view (fst s)))"
    using io by (cases rule: redis_io_cases) auto
  note b = bump_epoch [OF pfx(1) 5(1,2) epoch_keys(1), of "tick now", folded V']
  have "view (fst s) (buildRBACPermissionCacheKey (Suc (epoch_of (view (fst s)) (rbac_globalEpochKey pfx))) v w sid) = None" for v w sid
    using 5(1) unfolding rbac_view_inv_def by (metis not_less_eq_eq order_refl)
  with b show ?case
    by (auto simp: rbac_view_may_return_def current_key_def epoch_keys_neq)
qed

end

interpretation redis_rbac: rbac_cache "RedisRBACPermissionCacheStore mem_redis tick marshal unmarshal ''rbac_perm''"
    "\<lambda>s. rbac_view_inv ''rbac_perm'' (id (fst s))"
    "\<lambda>s. rbac_view_may_return unmarshal ''rbac_perm'' (id (fst s))"
    "\<lambda>s. rbac_view_room ''rbac_perm'' (id (fst s))" "\<lambda>ps. unmarshal (marshal ps) = Some ps" for tick marshal unmarshal
  by (rule mem_redis.redis_rbac_cache) simp_all

subsection \<open>What the resolver answers\<close>

text \<open>
  C15: With the cache in memory the resolver never answers with outdated permissions: after any
  sequence of resolutions and of changes of permissions, each followed by the invalidation of the
  user or of all users before the next call, \<open>ResolvePermissions\<close> answers what the user service
  reports at that time (or fails as it does), whatever the clock readings and the time to live.
  Calls run one after the other: a change of permissions between the read and the store of one
  resolution is not covered.  The 64-bit counters must not be exhausted.
\<close>

theorem memory_permissions_are_current:
  assumes "(rbac_step InMemoryRBACPermissionCacheStore ttl rbac_mem_room (\<lambda>_. True))\<^sup>*\<^sup>*
             (g0, NewInMemoryRBACPermissionCacheStore) (getByID, s)"
    and "ResolvePermissions \<lparr>cp_store = Some InMemoryRBACPermissionCacheStore, cp_ttl = ttl\<rparr> getByID clk (Some c) s = (res, s')"
    and "ParseUint (cl_Subject c) = Some u"
  shows "res = map_sum id snd (getByID u)"
proof (rule mem_rbac.run_answers_current [OF assms(1) _ assms(2,3)])
  show "mem_rbac.run_inv g0 NewInMemoryRBACPermissionCacheStore"
    by (simp add: mem_rbac.run_inv_def mem_rbac.coherent_def rbac_mem_defs NewInMemoryRBACPermissionCacheStore_def)
qed

definition demo_claims :: claims where
  "demo_claims = \<lparr>cl_TokenType = ''access'', cl_Roles = [], cl_Permissions = [], cl_Issuer = [], cl_Subject = ''7'',
     cl_Audience = [], cl_ExpiresAt = None, cl_IssuedAt = None, cl_ID = ''jti''\<rparr>"

definition rbac_demo_user :: user where
  "rbac_demo_user = \<lparr>u_ID = 7, u_Email = ''a@b.c'', u_Name = ''a'', u_AvatarURL = [], u_Status = ''active'',
     u_LastLoginAt = 0, u_CreatedAt = 0, u_Roles = []\<rparr>"

definition rbac_demo_get :: "string \<Rightarrow> uint \<Rightarrow> (user \<times> string list) result" where
  "rbac_demo_get perm u = Inr (rbac_demo_user, [perm])"

lemma demo_subject: "ParseUint (cl_Subject demo_claims) = Some 7"
  by (simp add: demo_claims_def ParseUint_def is_digit_def digits_value_def)

theorem memory_permissions_are_current_witness:
  "\<exists>s1 s2. rbac_step InMemoryRBACPermissionCacheStore (seconds 60) rbac_mem_room (\<lambda>_. True)
        (rbac_demo_get ''users:read'', NewInMemoryRBACPermissionCacheStore) (rbac_demo_get ''users:read'', s1)
     \<and> rbac_step InMemoryRBACPermissionCacheStore (seconds 60) rbac_mem_room (\<lambda>_. True)
        (rbac_demo_get ''users:read'', s1) (rbac_demo_get ''users:write'', s2)
     \<and> fst (ResolvePermissions \<lparr>cp_store = Some InMemoryRBACPermissionCacheStore, cp_ttl = seconds 60\<rparr>
          (rbac_demo_get ''users:write'') (\<lambda>_. 5) (Some demo_claims) s2) = Inr [''users:write'']"
proof -
  let ?S = InMemoryRBACPermissionCacheStore
  let ?R = "\<lparr>cp_store = Some ?S, cp_ttl = seconds 60\<rparr>"
  let ?s0 = NewInMemoryRBACPermissionCacheStore
  define s1 where "s1 = snd (ResolvePermissions ?R (rbac_demo_get ''users:read'') (\<lambda>_. 0) None ?s0)"
  have s1: "s1 = ?s0" by (simp add: s1_def ResolvePermissions_def)
  have st1: "rbac_step ?S (seconds 60) rbac_mem_room (\<lambda>_. True) (rbac_demo_get ''users:read'', ?s0) (rbac_demo_get ''users:read'', s1)"
    unfolding s1_def by (rule rbac_step.Resolve [OF prod.collapse [symmetric]])
  define s2 where "s2 = snd (rb_InvalidateAll ?S 0 s1)"
  have "rb_InvalidateAll ?S 0 s1 = (Inr (), s2)"
    by (simp add: s2_def InMemoryRBACPermissionCacheStore_def InMemoryRBAC_InvalidateAll_def)
  then have st2: "rbac_step ?S (seconds 60) rbac_mem_room (\<lambda>_. True) (rbac_demo_get ''users:read'', s1) (rbac_demo_get ''users:write'', s2)"
    by (rule rbac_step.ChangeAll) (simp_all add: s1 rbac_mem_room_def NewInMemoryRBACPermissionCacheStore_def)
  have path: "(rbac_step ?S (seconds 60) rbac_mem_room (\<lambda>_. True))\<^sup>*\<^sup>* (rbac_demo_get ''users:read'', ?s0) (rbac_demo_get ''users:write'', s2)"
    by (rule rtranclp.rtrancl_into_rtrancl, rule r_into_rtranclp, rule st1, rule st2)
  obtain res s3 where run: "ResolvePermissions ?R (rbac_demo_get ''users:write'') (\<lambda>_. 5) (Some demo_claims) s2 = (res, s3)"
    by (meson surj_pair)
  have "res = Inr [''users:write'']"
    using memory_permissions_are_current [OF path run demo_subject] by (simp add: rbac_demo_get_def)
  then have "fst (ResolvePermissions ?R (rbac_demo_get ''users:write'') (\<lambda>_. 5) (Some demo_claims) s2) = Inr [''users:write'']"
    unfolding run by simp
  with st1 st2 show ?thesis by blast
qed

text \<open>
  C16: The same holds for the cache in Redis, for every server that keeps the laws of Redis, with
  calls that may fail before or after they are executed, as long as an invalidation is answered: the
  data keys carry the epochs of the time of their writing.  The prefix of the epoch keys must not
  begin like a data key, and JSON must reproduce the permissions.
\<close>

theorem redis_permissions_are_current:
  assumes "redis_server R view" and "\<not> prefix ''rbacperm:g'' pfx" and "pfx \<noteq> []"
    and "rbac_view_inv pfx (view r0)" and "\<And>g e w sid. view r0 (buildRBACPermissionCacheKey g e w sid) = None"
    and "\<And>v us ps. g0 v = Inr (us, ps) \<Longrightarrow> unmarshal (marshal ps) = Some ps"
    and "(rbac_step (RedisRBACPermissionCacheStore R tick marshal unmarshal pfx) ttl (\<lambda>s. rbac_view_room pfx (view (fst s)))
            (\<lambda>ps. unmarshal (marshal ps) = Some ps))\<^sup>*\<^sup>* (g0, r0, ns) (getByID, s)"
    and "ResolvePermissions \<lparr>cp_store = Some (RedisRBACPermissionCacheStore R tick marshal unmarshal pfx), cp_ttl = ttl\<rparr>
            getByID clk (Some c) s = (res, s')"
    and "ParseUint (cl_Subject c) = Some u"
  shows "res = map_sum id snd (getByID u)"
proof -
  note cache = redis_server.redis_rbac_cache [OF assms(1-3), of tick marshal unmarshal]
  have "rbac_cache.run_inv (\<lambda>s. rbac_view_inv pfx (view (fst s))) (\<lambda>s. rbac_view_may_return unmarshal pfx (view (fst s)))
      (\<lambda>ps. unmarshal (marshal ps) = Some ps) g0 (r0, ns)"
    using assms(4-6)
    by (simp add: rbac_cache.run_inv_def [OF cache] rbac_cache.coherent_def [OF cache] rbac_view_may_return_def current_key_def)
  from rbac_cache.run_answers_current [OF cache assms(7) this assms(8,9)] show ?thesis .
qed

theorem redis_permissions_are_current_witness:
  "fst (ResolvePermissions
        \<lparr>cp_store = Some (RedisRBACPermissionCacheStore mem_redis (\<lambda>t. t div 1000000) concat (\<lambda>s. Some [s]) ''rbac_perm''),
         cp_ttl = seconds 60\<rparr> (rbac_demo_get ''users:read'') (\<lambda>_. 5) (Some demo_claims) (\<lambda>_. None, []))
     = Inr [''users:read'']"
proof -
  have "fst (ResolvePermissions
        \<lparr>cp_store = Some (RedisRBACPermissionCacheStore mem_redis (\<lambda>t. t div 1000000) concat (\<lambda>s. Some [s]) ''rbac_perm''),
         cp_ttl = seconds 60\<rparr> (rbac_demo_get ''users:read'') (\<lambda>_. 5) (Some demo_claims) (\<lambda>_. None, []))
      = map_sum id snd (rbac_demo_get ''users:read'' 7)"
    by (rule redis_permissions_are_current [OF mem_redis.redis_server_axioms _ _ _ _ _ rtranclp.rtrancl_refl
          prod.collapse [symmetric] demo_subject]) (simp_all add: rbac_view_inv_def rbac_demo_get_def)
  then show ?thesis by (simp add: rbac_demo_get_def)
qed

text \<open>
  An invalidation between the read of the user and the \<open>Set\<close> of the resolver is lost: \<open>Set\<close> computes
  its key with the epochs of its own time, so that the outdated permissions are stored as current and
  returned until they expire.
\<close>

lemma stale_permissions_survive_invalidation:
  assumes "0 < ttl" and "t' \<le> t + ttl"
    and "InMemoryRBAC_InvalidateUser now u s = (Inr (), s1)"
    and "InMemoryRBAC_Set t u sid old ttl s1 = (Inr (), s2)"
  shows "fst (InMemoryRBAC_Get t' u sid s2) = Inr (Some old)"
  using assms by (auto simp: InMemoryRBAC_Set_def InMemoryRBAC_Get_def rbac_cacheKeyLocked_def Let_def)

text \<open>
  Behind \<open>RequirePermission\<close> the handler runs exactly when the request carries claims, the
  permissions are resolved and the required one is among them; a request without claims is answered
  401, a failed resolution 503 and a missing permission 403, and the state is then as the resolver left it.
\<close>

theorem RequirePermission_gate:
  "case RequirePermission resolve permission reqID next_h r hs w of (resp, w') \<Rightarrow>
   (case rq_Claims r of
      None \<Rightarrow> rs_Status resp = 401 \<and> w' = w
    | Some c \<Rightarrow>
        (case (case resolve of None \<Rightarrow> (Inr (cl_Permissions c), w) | Some f \<Rightarrow> f (Some c) w) of
           (Inl e, w1) \<Rightarrow> rs_Status resp = 503 \<and> w' = w1
         | (Inr ps, w1) \<Rightarrow>
             if permission \<in> set ps then next_h r hs w1 = (resp, w') else rs_Status resp = 403 \<and> w' = w1))"
  by (auto simp: RequirePermission_def ClaimsFromContext_def HasPermission_def list_ex_iff
      split: option.splits sum.splits prod.splits)

end
