(* ===== verification/Auth_Service.thy ===== *)
theory Auth_Service
  imports Rbac Token_Service
begin

section \<open>Accounts: \<open>auth_service.go\<close>, \<open>oauth_service.go\<close>, \<open>email_verification_notifier.go\<close>\<close>

text \<open>
  Registration, login, verification of an address, reset and change of a password, and login with
  Google, over the tables of \<open>Identity_Repo\<close>.  An operation returns its result and the tables
  afterwards: the source makes no transaction, so that an early return keeps the writes before it.

  What the operations take from outside is the record \<open>auth_env\<close>: the clock readings, randomness,
  Argon2 and SHA-256, \<open>mail.ParseAddress\<close> (\<open>av_parseAddress\<close>), the URL with the token appended
  (\<open>av_addToken\<close>, which is \<open>url.Parse\<close>, \<open>Query().Set\<close> and \<open>String\<close>), the notifiers and the
  OAuth provider.
\<close>

record auth_config =
  ac_AuthGoogleEnabled :: bool
  ac_AuthLocalEnabled :: bool
  ac_AuthLocalRequireEmailVerification :: bool
  ac_AuthEmailVerifyTokenTTL :: duration
  ac_AuthEmailVerifyBaseURL :: string
  ac_AuthPasswordResetTokenTTL :: duration
  ac_AuthPasswordResetBaseURL :: string
  ac_BootstrapAdminEmail :: string
  ac_JWTAccessTTL :: duration

record VerificationNotification =
  vn_UserID :: uint
  vn_Email :: string
  vn_Token :: string
  vn_ExpiresAt :: gotime
  vn_VerificationURL :: string

record PasswordResetNotification =
  pn_UserID :: uint
  pn_Email :: string
  pn_Token :: string
  pn_ExpiresAt :: gotime
  pn_PasswordURL :: string

record OAuthUserInfo =
  oi_ProviderUserID :: string
  oi_Email :: string
  oi_Name :: string
  oi_Picture :: string
  oi_EmailVerified :: bool

record auth_env =
  av_cfg :: auth_config
  av_ts :: token_service
  av_tok :: token_env
  av_clk :: clock
  av_idkey :: idkey
  av_salt :: "string result"
  av_rand :: "string result"
  av_sha256 :: "string \<Rightarrow> string"
  av_parseAddress :: "string \<Rightarrow> bool"
  av_addToken :: "string \<Rightarrow> string \<Rightarrow> string result"
  av_sendVerification :: "VerificationNotification \<Rightarrow> unit result"
  av_sendReset :: "PasswordResetNotification \<Rightarrow> unit result"
  av_authCodeURL :: "string \<Rightarrow> string"
  av_exchange :: "string \<Rightarrow> string result"
  av_fetchUserInfo :: "string \<Rightarrow> OAuthUserInfo option result"

record LoginResult =
  lr_User :: user
  lr_AccessToken :: string
  lr_RefreshToken :: string
  lr_CSRFToken :: string
  lr_ExpiresAt :: gotime
  lr_RequiresVerification :: bool

subsection \<open>Validation\<close>

definition validateEmail :: "auth_env \<Rightarrow> string \<Rightarrow> unit result" where
  "validateEmail A email =
     (if email = [] then Inl (Errorf ''email is required'')
      else if \<not> av_parseAddress A email then Inl (Errorf ''invalid email'')
      else Inr ())"

definition is_upper :: "char \<Rightarrow> bool" where "is_upper c \<longleftrightarrow> CHR ''A'' \<le> c \<and> c \<le> CHR ''Z''"
definition is_lower :: "char \<Rightarrow> bool" where "is_lower c \<longleftrightarrow> CHR ''a'' \<le> c \<and> c \<le> CHR ''z''"

definition validatePassword :: "string \<Rightarrow> unit result" where
  "validatePassword password =
     (if length password < 12 \<or> \<not> list_ex is_upper password \<or> \<not> list_ex is_lower password
         \<or> \<not> list_ex is_digit password \<or> \<not> list_ex (\<lambda>c. \<not> (is_upper c \<or> is_lower c \<or> is_digit c)) password
      then Inl ErrWeakPassword else Inr ())"

definition hashVerificationToken :: "(string \<Rightarrow> string) \<Rightarrow> string \<Rightarrow> string" where
  "hashVerificationToken sha256 raw = hexEncode (sha256 raw)"

subsection \<open>Login and registration\<close>

text \<open>Issue a token pair for the user and build the result, as every login ends.\<close>

definition issue_login ::
    "dbconn \<Rightarrow> auth_env \<Rightarrow> user \<Rightarrow> string list \<Rightarrow> string \<Rightarrow> string \<Rightarrow> gotime \<Rightarrow> tables \<Rightarrow> LoginResult result \<times> tables" where
  "issue_login D A user perms ua ip now T =
     (case TokenService_Issue (g_sessions D) (av_tok A) (av_ts A) user perms ua ip (tb_sessions T) of
        (Inl e, t) \<Rightarrow> (Inl e, T\<lparr>tb_sessions := t\<rparr>)
      | (Inr (access, refresh, csrf), t) \<Rightarrow>
          (Inr \<lparr>lr_User = user, lr_AccessToken = access, lr_RefreshToken = refresh, lr_CSRFToken = csrf,
                lr_ExpiresAt = now + ac_JWTAccessTTL (av_cfg A), lr_RequiresVerification = False\<rparr>,
           T\<lparr>tb_sessions := t\<rparr>))"

definition assignBootstrapAdminIfNeeded :: "dbconn \<Rightarrow> auth_env \<Rightarrow> user \<Rightarrow> tables \<Rightarrow> unit result \<times> tables" where
  "assignBootstrapAdminIfNeeded D A user T =
     (let target = TrimSpace (ToLower (ac_BootstrapAdminEmail (av_cfg A))) in
      if target = [] \<or> ToLower (u_Email user) \<noteq> target then (Inr (), T)
      else (case RoleRepository_FindByName D ''admin'' T of
              Inl e \<Rightarrow> (Inl e, T)
            | Inr admin \<Rightarrow> UserService_AddRole D (u_ID user) (r_ID admin) T))"

definition new_user :: "string \<Rightarrow> string \<Rightarrow> string \<Rightarrow> user" where
  "new_user email name picture =
     \<lparr>u_ID = 0, u_Email = email, u_Name = name, u_AvatarURL = picture, u_Status = ''active'',
      u_LastLoginAt = zero_time, u_CreatedAt = zero_time, u_Roles = []\<rparr>"

text \<open>The role \<open>user\<close> of a new account; a failure to find or to add it is ignored.\<close>

definition add_default_role :: "dbconn \<Rightarrow> uint \<Rightarrow> tables \<Rightarrow> tables" where
  "add_default_role D userID T =
     (case RoleRepository_FindByName D ''user'' T of
        Inl e \<Rightarrow> T
      | Inr r \<Rightarrow> snd (UserService_AddRole D userID (r_ID r) T))"

definition register_new ::
    "dbconn \<Rightarrow> auth_env \<Rightarrow> string \<Rightarrow> string \<Rightarrow> string \<Rightarrow> string \<Rightarrow> string \<Rightarrow> tables \<Rightarrow> LoginResult result \<times> tables" where
  "register_new D A email name password ua ip T =
     (case UserRepository_Create D (new_user email name []) T of
        (Inl e, T1) \<Rightarrow> (Inl e, T1)
      | (Inr user, T1) \<Rightarrow>
          (let T2 = add_default_role D (u_ID user) T1;
               verified = (\<not> ac_AuthLocalRequireEmailVerification (av_cfg A))
           in case HashPassword (av_idkey A) (av_salt A) password of
                Inl e \<Rightarrow> (Inl e, T2)
              | Inr hash \<Rightarrow>
                  (case LocalCredentialRepository_Create D
                          \<lparr>lc_ID = 0, lc_UserID = u_ID user, lc_PasswordHash = hash, lc_EmailVerified = verified,
                           lc_EmailVerifiedAt = (if verified then Some (av_clk A 0) else None),
                           lc_CreatedAt = zero_time\<rparr> T2 of
                     (Inl e, T3) \<Rightarrow> (Inl e, T3)
                   | (Inr c, T3) \<Rightarrow>
                       (case assignBootstrapAdminIfNeeded D A user T3 of
                          (Inl e, T4) \<Rightarrow> (Inl e, T4)
                        | (Inr _, T4) \<Rightarrow>
                            (case UserService_GetByID D (u_ID user) T4 of
                               Inl e \<Rightarrow> (Inl e, T4)
                             | Inr (freshUser, perms) \<Rightarrow>
                                 if \<not> verified then
                                   (Inr \<lparr>lr_User = freshUser, lr_AccessToken = [], lr_RefreshToken = [],
                                         lr_CSRFToken = [], lr_ExpiresAt = zero_time,
                                         lr_RequiresVerification = True\<rparr>, T4)
                                 else issue_login D A freshUser perms ua ip (av_clk A 1) T4)))))"

definition RegisterLocal ::
    "dbconn \<Rightarrow> auth_env \<Rightarrow> string \<Rightarrow> string \<Rightarrow> string \<Rightarrow> string \<Rightarrow> string \<Rightarrow> tables \<Rightarrow> LoginResult result \<times> tables" where
  "RegisterLocal D A email0 name0 password ua ip T =
     (if \<not> ac_AuthLocalEnabled (av_cfg A) then (Inl ErrLocalAuthDisabled, T)
      else
        (let email = TrimSpace (ToLower email0); name = TrimSpace name0 in
         case validateEmail A email of
           Inl e \<Rightarrow> (Inl e, T)
         | Inr _ \<Rightarrow>
             if name = [] then (Inl (Errorf ''name is required''), T)
             else (case validatePassword password of
                     Inl e \<Rightarrow> (Inl e, T)
                   | Inr _ \<Rightarrow>
                       (case UserRepository_FindByEmail D email T of
                          Inr _ \<Rightarrow> (Inl (Errorf ''email already registered''), T)
                        | Inl e \<Rightarrow>
                            if e \<noteq> ErrRecordNotFound then (Inl e, T)
                            else register_new D A email name password ua ip T))))"

definition LoginWithLocalPassword ::
    "dbconn \<Rightarrow> auth_env \<Rightarrow> string \<Rightarrow> string \<Rightarrow> string \<Rightarrow> string \<Rightarrow> tables \<Rightarrow> LoginResult result \<times> tables" where
  "LoginWithLocalPassword D A email0 password ua ip T =
     (if \<not> ac_AuthLocalEnabled (av_cfg A) then (Inl ErrLocalAuthDisabled, T)
      else
        (let email = TrimSpace (ToLower email0) in
         case LocalCredentialRepository_FindByEmail D email T of
           Inl e \<Rightarrow> (Inl ErrInvalidCredentials, T)
         | Inr cred \<Rightarrow>
             (case VerifyPassword (av_idkey A) (lc_PasswordHash cred) password of
                Inl e \<Rightarrow> (Inl e, T)
              | Inr ok \<Rightarrow>
                  if \<not> ok then (Inl ErrInvalidCredentials, T)
                  else if ac_AuthLocalRequireEmailVerification (av_cfg A) \<and> \<not> lc_EmailVerified cred
                  then (Inl ErrLocalEmailUnverified, T)
                  else (case UserService_GetByID D (lc_UserID cred) T of
                          Inl e \<Rightarrow> (Inl e, T)
                        | Inr (user, perms) \<Rightarrow> issue_login D A user perms ua ip (av_clk A 0) T))))"

subsection \<open>Verification of an address, reset and change of a password\<close>

text \<open>The link of a notification: empty without a base URL, else the URL with the token (the text of the
  wrapped error is left out).\<close>

definition token_url :: "auth_env \<Rightarrow> string \<Rightarrow> string \<Rightarrow> string \<Rightarrow> string result" where
  "token_url A name base token =
     (if TrimSpace base \<noteq> [] then
        (case av_addToken A base token of Inl e \<Rightarrow> Inl (Errorf (''invalid '' @ name)) | Inr u \<Rightarrow> Inr u)
      else Inr [])"

definition new_vtoken :: "uint \<Rightarrow> string \<Rightarrow> string \<Rightarrow> gotime \<Rightarrow> verification_token" where
  "new_vtoken userID hash purpose expires =
     \<lparr>vt_ID = 0, vt_UserID = userID, vt_TokenHash = hash, vt_Purpose = purpose, vt_ExpiresAt = expires,
      vt_UsedAt = None, vt_CreatedAt = zero_time\<rparr>"

text \<open>Both requests issue their token alike: the active tokens are invalidated, then a new one is stored.\<close>

definition issue_vtoken ::
    "dbconn \<Rightarrow> auth_env \<Rightarrow> uint \<Rightarrow> string \<Rightarrow> gotime \<Rightarrow> gotime \<Rightarrow> tables \<Rightarrow> string result \<times> tables" where
  "issue_vtoken D A userID purpose now expiresAt T =
     (case VerificationTokenRepository_InvalidateActiveByUserPurpose D userID purpose now T of
        (Inl e, T1) \<Rightarrow> (Inl e, T1)
      | (Inr _, T1) \<Rightarrow>
          (case NewRandomString (av_rand A) of
             Inl e \<Rightarrow> (Inl e, T1)
           | Inr rawToken \<Rightarrow>
               (case VerificationTokenRepository_Create D
                       (new_vtoken userID (hashVerificationToken (av_sha256 A) rawToken) purpose expiresAt) T1 of
                  (Inl e, T2) \<Rightarrow> (Inl e, T2)
                | (Inr _, T2) \<Rightarrow> (Inr rawToken, T2))))"

definition RequestLocalEmailVerification :: "dbconn \<Rightarrow> auth_env \<Rightarrow> string \<Rightarrow> tables \<Rightarrow> unit result \<times> tables" where
  "RequestLocalEmailVerification D A email0 T =
     (if \<not> ac_AuthLocalEnabled (av_cfg A) then (Inl ErrLocalAuthDisabled, T)
      else
        (let email = TrimSpace (ToLower email0) in
         case validateEmail A email of
           Inl e \<Rightarrow> (Inl e, T)
         | Inr _ \<Rightarrow>
             (case LocalCredentialRepository_FindByEmail D email T of
                Inl e \<Rightarrow> if e = ErrRecordNotFound then (Inr (), T) else (Inl e, T)
              | Inr cred \<Rightarrow>
                  if lc_EmailVerified cred then (Inr (), T)
                  else
                    (let now = av_clk A 0; expiresAt = now + ac_AuthEmailVerifyTokenTTL (av_cfg A) in
                     case issue_vtoken D A (lc_UserID cred) ''email_verify'' now expiresAt T of
                       (Inl e, T1) \<Rightarrow> (Inl e, T1)
                     | (Inr rawToken, T1) \<Rightarrow>
                         (case token_url A ''AUTH_EMAIL_VERIFY_BASE_URL'' (ac_AuthEmailVerifyBaseURL (av_cfg A)) rawToken of
                            Inl e \<Rightarrow> (Inl e, T1)
                          | Inr verifyURL \<Rightarrow>
                              (av_sendVerification A
                                 \<lparr>vn_UserID = lc_UserID cred, vn_Email = email, vn_Token = rawToken,
                                  vn_ExpiresAt = expiresAt, vn_VerificationURL = verifyURL\<rparr>, T1))))))"

definition ForgotLocalPassword :: "dbconn \<Rightarrow> auth_env \<Rightarrow> string \<Rightarrow> tables \<Rightarrow> unit result \<times> tables" where
  "ForgotLocalPassword D A email0 T =
     (if \<not> ac_AuthLocalEnabled (av_cfg A) then (Inl ErrLocalAuthDisabled, T)
      else
        (let email = TrimSpace (ToLower email0) in
         if email = [] then (Inr (), T)
         else
           (case LocalCredentialRepository_FindByEmail D email T of
              Inl e \<Rightarrow> if e = ErrRecordNotFound then (Inr (), T) else (Inl e, T)
            | Inr cred \<Rightarrow>
                (let now = av_clk A 0; expiresAt = now + ac_AuthPasswordResetTokenTTL (av_cfg A) in
                 case issue_vtoken D A (lc_UserID cred) ''password_reset'' now expiresAt T of
                   (Inl e, T1) \<Rightarrow> (Inl e, T1)
                 | (Inr rawToken, T1) \<Rightarrow>
                     (case token_url A ''AUTH_PASSWORD_RESET_BASE_URL'' (ac_AuthPasswordResetBaseURL (av_cfg A)) rawToken of
                        Inl e \<Rightarrow> (Inl e, T1)
                      | Inr resetURL \<Rightarrow>
                          (av_sendReset A
                             \<lparr>pn_UserID = lc_UserID cred, pn_Email = email, pn_Token = rawToken,
                              pn_ExpiresAt = expiresAt, pn_PasswordURL = resetURL\<rparr>, T1))))))"

text \<open>A token is looked up and consumed alike for both purposes; the user it belongs to is returned.\<close>

definition as_invalid_token :: "goerr \<Rightarrow> goerr" where
  "as_invalid_token e = (if e = ErrVerificationTokenNotFound then ErrInvalidVerifyToken else e)"

definition redeem_token :: "dbconn \<Rightarrow> auth_env \<Rightarrow> string \<Rightarrow> string \<Rightarrow> gotime \<Rightarrow> tables \<Rightarrow> uint result \<times> tables" where
  "redeem_token D A token purpose now T =
     (case VerificationTokenRepository_FindActiveByHashPurpose D (hashVerificationToken (av_sha256 A) token) purpose now T of
        Inl e \<Rightarrow> (Inl (as_invalid_token e), T)
      | Inr rec \<Rightarrow>
          (case VerificationTokenRepository_Consume D (vt_ID rec) (vt_UserID rec) now T of
             (Inl e, T1) \<Rightarrow> (Inl (as_invalid_token e), T1)
           | (Inr _, T1) \<Rightarrow> (Inr (vt_UserID rec), T1)))"

definition ConfirmLocalEmailVerification :: "dbconn \<Rightarrow> auth_env \<Rightarrow> string \<Rightarrow> tables \<Rightarrow> unit result \<times> tables" where
  "ConfirmLocalEmailVerification D A token0 T =
     (if \<not> ac_AuthLocalEnabled (av_cfg A) then (Inl ErrLocalAuthDisabled, T)
      else
        (let token = TrimSpace token0 in
         if token = [] then (Inl ErrInvalidVerifyToken, T)
         else (case redeem_token D A token ''email_verify'' (av_clk A 0) T of
                 (Inl e, T1) \<Rightarrow> (Inl e, T1)
               | (Inr userID, T1) \<Rightarrow> LocalCredentialRepository_MarkEmailVerified D (av_clk A 1) userID T1)))"

definition RevokeAll_sessions :: "dbconn \<Rightarrow> gotime \<Rightarrow> uint \<Rightarrow> string \<Rightarrow> tables \<Rightarrow> unit result \<times> tables" where
  "RevokeAll_sessions D now userID reason T =
     (case TokenService_RevokeAll (g_sessions D) now userID reason (tb_sessions T) of
        (res, t) \<Rightarrow> (res, T\<lparr>tb_sessions := t\<rparr>))"

definition ResetLocalPassword :: "dbconn \<Rightarrow> auth_env \<Rightarrow> string \<Rightarrow> string \<Rightarrow> tables \<Rightarrow> unit result \<times> tables" where
  "ResetLocalPassword D A token0 newPassword T =
     (if \<not> ac_AuthLocalEnabled (av_cfg A) then (Inl ErrLocalAuthDisabled, T)
      else (case validatePassword newPassword of
              Inl e \<Rightarrow> (Inl e, T)
            | Inr _ \<Rightarrow>
                (let token = TrimSpace token0 in
                 if token = [] then (Inl ErrInvalidVerifyToken, T)
                 else (case redeem_token D A token ''password_reset'' (av_clk A 0) T of
                         (Inl e, T1) \<Rightarrow> (Inl e, T1)
                       | (Inr userID, T1) \<Rightarrow>
                           (case HashPassword (av_idkey A) (av_salt A) newPassword of
                              Inl e \<Rightarrow> (Inl e, T1)
                            | Inr newHash \<Rightarrow>
                                (case LocalCredentialRepository_UpdatePassword D userID newHash T1 of
                                   (Inl e, T2) \<Rightarrow> (Inl e, T2)
                                 | (Inr _, T2) \<Rightarrow> RevokeAll_sessions D (av_clk A 1) userID ''password_reset'' T2))))))"

definition ChangeLocalPassword ::
    "dbconn \<Rightarrow> auth_env \<Rightarrow> uint \<Rightarrow> string \<Rightarrow> string \<Rightarrow> tables \<Rightarrow> unit result \<times> tables" where
  "ChangeLocalPassword D A userID currentPassword newPassword T =
     (if \<not> ac_AuthLocalEnabled (av_cfg A) then (Inl ErrLocalAuthDisabled, T)
      else (case validatePassword newPassword of
              Inl e \<Rightarrow> (Inl e, T)
            | Inr _ \<Rightarrow>
                (case LocalCredentialRepository_FindByUserID D userID T of
                   Inl e \<Rightarrow> (Inl ErrInvalidCredentials, T)
                 | Inr cred \<Rightarrow>
                     (case VerifyPassword (av_idkey A) (lc_PasswordHash cred) currentPassword of
                        Inl e \<Rightarrow> (Inl e, T)
                      | Inr ok \<Rightarrow>
                          if \<not> ok then (Inl ErrInvalidCredentials, T)
                          else if currentPassword = newPassword
                          then (Inl (Errorf ''new password must differ from current password''), T)
                          else (case HashPassword (av_idkey A) (av_salt A) newPassword of
                                  Inl e \<Rightarrow> (Inl e, T)
                                | Inr newHash \<Rightarrow>
                                    (case LocalCredentialRepository_UpdatePassword D userID newHash T of
                                       (Inl e, T1) \<Rightarrow> (Inl e, T1)
                                     | (Inr _, T1) \<Rightarrow> RevokeAll_sessions D (av_clk A 0) userID ''password_change'' T1))))))"

definition Refresh :: "dbconn \<Rightarrow> auth_env \<Rightarrow> string \<Rightarrow> string \<Rightarrow> string \<Rightarrow> tables \<Rightarrow> LoginResult result \<times> tables" where
  "Refresh D A refreshToken ua ip T =
     (case TokenService_Rotate (g_sessions D) (av_tok A) (av_ts A) refreshToken (\<lambda>uid. UserService_GetByID D uid T)
             ua ip (tb_sessions T) of
        (Inl e, t) \<Rightarrow> (Inl e, T\<lparr>tb_sessions := t\<rparr>)
      | (Inr (access, newRefresh, csrf, uid), t) \<Rightarrow>
          (case UserService_GetByID D uid (T\<lparr>tb_sessions := t\<rparr>) of
             Inl e \<Rightarrow> (Inl e, T\<lparr>tb_sessions := t\<rparr>)
           | Inr (u, perms) \<Rightarrow>
               (Inr \<lparr>lr_User = u, lr_AccessToken = access, lr_RefreshToken = newRefresh, lr_CSRFToken = csrf,
                     lr_ExpiresAt = av_clk A 0 + ac_JWTAccessTTL (av_cfg A), lr_RequiresVerification = False\<rparr>,
                T\<lparr>tb_sessions := t\<rparr>)))"

definition Logout :: "dbconn \<Rightarrow> auth_env \<Rightarrow> uint \<Rightarrow> tables \<Rightarrow> unit result \<times> tables" where
  "Logout D A userID T = RevokeAll_sessions D (av_clk A 0) userID ''logout'' T"

definition ParseUserID :: "string \<Rightarrow> uint result" where
  "ParseUserID subject = (case ParseUint subject of None \<Rightarrow> Inl (Errorf ''invalid user subject'') | Some n \<Rightarrow> Inr n)"

subsection \<open>Login with Google\<close>

text \<open>The account of a verified provider identity: found by the identity, else by the address, else created.\<close>

definition oauth_account_user :: "dbconn \<Rightarrow> OAuthUserInfo \<Rightarrow> tables \<Rightarrow> user result \<times> tables" where
  "oauth_account_user D info T =
     (case OAuthRepository_FindByProvider D ''google'' (oi_ProviderUserID info) T of
        Inr acct \<Rightarrow> (UserRepository_FindByID D (oa_UserID acct) T, T)
      | Inl e \<Rightarrow>
          if e \<noteq> ErrRecordNotFound then (Inl e, T)
          else
            (case (case UserRepository_FindByEmail D (oi_Email info) T of
                     Inr u \<Rightarrow> (Inr u, T)
                   | Inl findErr \<Rightarrow>
                       if findErr \<noteq> ErrRecordNotFound then (Inl findErr, T)
                       else (case UserRepository_Create D (new_user (oi_Email info) (oi_Name info) (oi_Picture info)) T of
                               (Inl e, T1) \<Rightarrow> (Inl e, T1)
                             | (Inr user, T1) \<Rightarrow> (Inr user, add_default_role D (u_ID user) T1))) of
               (Inl e, T2) \<Rightarrow> (Inl e, T2)
             | (Inr user, T2) \<Rightarrow>
                 (case OAuthRepository_Create D
                         \<lparr>oa_ID = 0, oa_UserID = u_ID user, oa_Provider = ''google'',
                          oa_ProviderUserID = oi_ProviderUserID info, oa_EmailVerified = True,
                          oa_CreatedAt = zero_time\<rparr> T2 of
                    (Inl e, T3) \<Rightarrow> (Inl e, T3)
                  | (Inr _, T3) \<Rightarrow> (Inr user, T3))))"

definition HandleGoogleCallback :: "dbconn \<Rightarrow> auth_env \<Rightarrow> string \<Rightarrow> tables \<Rightarrow> user result \<times> tables" where
  "HandleGoogleCallback D A code T =
     (case av_exchange A code of
        Inl e \<Rightarrow> (Inl e, T)
      | Inr token \<Rightarrow>
          (case av_fetchUserInfo A token of
             Inl e \<Rightarrow> (Inl e, T)
           | Inr None \<Rightarrow> (Inl (Errorf ''missing required userinfo fields''), T)
           | Inr (Some info) \<Rightarrow>
               if \<not> oi_EmailVerified info then (Inl (Errorf ''google email not verified''), T)
               else (case oauth_account_user D info T of
                       (Inl e, T1) \<Rightarrow> (Inl e, T1)
                     | (Inr user, T1) \<Rightarrow>
                         (case UserRepository_Update D (user\<lparr>u_Name := oi_Name info, u_AvatarURL := oi_Picture info\<rparr>) T1 of
                            (Inl e, T2) \<Rightarrow> (Inl e, T2)
                          | (Inr _, T2) \<Rightarrow> (UserRepository_FindByID D (u_ID user) T2, T2)))))"

definition GoogleLoginURL :: "auth_env \<Rightarrow> string \<Rightarrow> string" where
  "GoogleLoginURL A state = (if \<not> ac_AuthGoogleEnabled (av_cfg A) then [] else av_authCodeURL A state)"

definition LoginWithGoogleCode ::
    "dbconn \<Rightarrow> auth_env \<Rightarrow> string \<Rightarrow> string \<Rightarrow> string \<Rightarrow> tables \<Rightarrow> LoginResult result \<times> tables" where
  "LoginWithGoogleCode D A code ua ip T =
     (if \<not> ac_AuthGoogleEnabled (av_cfg A) then (Inl ErrGoogleAuthDisabled, T)
      else (case HandleGoogleCallback D A code T of
              (Inl e, T1) \<Rightarrow> (Inl e, T1)
            | (Inr user, T1) \<Rightarrow>
                (case assignBootstrapAdminIfNeeded D A user T1 of
                   (Inl e, T2) \<Rightarrow> (Inl e, T2)
                 | (Inr _, T2) \<Rightarrow>
                     (case UserService_GetByID D (u_ID user) T2 of
                        Inl e \<Rightarrow> (Inl e, T2)
                      | Inr (user', perms) \<Rightarrow> issue_login D A user' perms ua ip (av_clk A 0) T2))))"

text \<open>The notifier of the development set-up logs a link, or the token when there is none.\<close>

definition DevNotifier_link :: "string \<Rightarrow> string \<Rightarrow> string" where
  "DevNotifier_link url token = (if TrimSpace url = [] then ''token='' @ token else url)"

definition DevNotifier_SendEmailVerification :: "VerificationNotification \<Rightarrow> string list \<Rightarrow> unit result \<times> string list" where
  "DevNotifier_SendEmailVerification n lines = (Inr (), lines @ [DevNotifier_link (vn_VerificationURL n) (vn_Token n)])"

definition DevNotifier_SendPasswordReset :: "PasswordResetNotification \<Rightarrow> string list \<Rightarrow> unit result \<times> string list" where
  "DevNotifier_SendPasswordReset n lines = (Inr (), lines @ [DevNotifier_link (pn_PasswordURL n) (pn_Token n)])"

end
