(* ===== verification/Account_Security.thy ===== *)
theory Account_Security
  imports Auth_Service
begin

section \<open>What the account operations guarantee\<close>

text \<open>
  Properties of \<open>Auth_Service\<close> for every database that keeps the laws of \<open>database\<close>: a login needs
  the password of the account; a password reset needs an unused token and ends all sessions; a
  token works once; at most one reset token of a user is active; registration takes an address once;
  a login with Google needs an address that Google has verified.
\<close>

subsection \<open>The steps of the operations\<close>

lemma Issue_outcome:
  assumes "session_table G" "TokenService_Issue G E s user perms ua ip t = (res, t')"
  shows "case res of Inl _ \<Rightarrow> t' = t
    | Inr (a, r, x) \<Rightarrow> \<exists>sess. t' = t @ [sess] \<and> s_UserID sess = u_ID user \<and> live sess
        \<and> s_RefreshTokenHash sess = token_hash E s r"
  using assms(2) gorm_table.create_row [OF assms(1)]
  by (auto simp: TokenService_Issue_def SessionRepository_Create_def Let_def token_hash_def stamp_session_def
      split: sum.splits prod.splits) (fastforce simp: stamp_session_def)+

context database begin

lemma issue_login_outcome:
  assumes "issue_login D A user perms ua ip now T = (res, T')"
  shows "case res of Inl _ \<Rightarrow> T' = T
    | Inr l \<Rightarrow> lr_User l = user \<and> \<not> lr_RequiresVerification l \<and>
        (\<exists>sess. T' = T\<lparr>tb_sessions := tb_sessions T @ [sess]\<rparr> \<and> s_UserID sess = u_ID user \<and> live sess
           \<and> s_RefreshTokenHash sess = token_hash (av_tok A) (av_ts A) (lr_RefreshToken l))"
proof -
  obtain out t where iss: "TokenService_Issue (g_sessions D) (av_tok A) (av_ts A) user perms ua ip (tb_sessions T) = (out, t)"
    by fastforce
  show ?thesis
    using Issue_outcome [OF sessions iss] assms by (auto simp: issue_login_def iss split: sum.splits)
qed

lemma FindByID_found:
  assumes "UserRepository_FindByID D uid T = Inr u"
  shows "u_ID u = uid" and "\<exists>u0 \<in> set (tb_users T). u_ID u0 = uid \<and> u_Email u0 = u_Email u"
  using assms gorm_table.first_found [OF users]
  by (fastforce simp: UserRepository_FindByID_def preload_roles_permissions_def preload_roles_def split: sum.splits)+

lemma GetByID_found:
  "UserService_GetByID D uid T = Inr (u, ps) \<Longrightarrow> u_ID u = uid"
  by (auto simp: UserService_GetByID_def FindByID_found(1) split: sum.splits)

lemma FindByEmail_found:
  assumes "LocalCredentialRepository_FindByEmail D email T = Inr cred"
  shows "cred \<in> set (tb_creds T)"
    and "\<exists>u \<in> set (tb_users T). u_ID u = lc_UserID cred \<and> u_Email u = TrimSpace (ToLower email)"
  using gorm_table.first_found [OF creds] assms
  by (fastforce simp: LocalCredentialRepository_FindByEmail_def list_ex_iff Let_def)+

end

subsection \<open>Login with a password\<close>

text \<open>
  C17: A login with a password that succeeds was allowed by the configuration and presented the
  password stored for an account of the (normalised) address, which is verified if the configuration
  asks for that; it adds exactly one live session, of that account, under the hash of the refresh
  token it returns.  A login that fails changes nothing.
\<close>

theorem password_login_checked:
  assumes "database D" and "LoginWithLocalPassword D A email password ua ip T = (res, T')"
  shows "case res of
      Inl _ \<Rightarrow> T' = T
    | Inr l \<Rightarrow> ac_AuthLocalEnabled (av_cfg A) \<and>
        (\<exists>cred \<in> set (tb_creds T). \<exists>u \<in> set (tb_users T). \<exists>sess.
           u_ID u = lc_UserID cred \<and> u_Email u = TrimSpace (ToLower email)
           \<and> VerifyPassword (av_idkey A) (lc_PasswordHash cred) password = Inr True
           \<and> (ac_AuthLocalRequireEmailVerification (av_cfg A) \<longrightarrow> lc_EmailVerified cred)
           \<and> u_ID (lr_User l) = lc_UserID cred
           \<and> T' = T\<lparr>tb_sessions := tb_sessions T @ [sess]\<rparr> \<and> s_UserID sess = lc_UserID cred \<and> live sess
           \<and> s_RefreshTokenHash sess = token_hash (av_tok A) (av_ts A) (lr_RefreshToken l))"
proof (cases "\<exists>cred user perms. ac_AuthLocalEnabled (av_cfg A)
      \<and> LocalCredentialRepository_FindByEmail D (TrimSpace (ToLower email)) T = Inr cred
      \<and> VerifyPassword (av_idkey A) (lc_PasswordHash cred) password = Inr True
      \<and> (ac_AuthLocalRequireEmailVerification (av_cfg A) \<longrightarrow> lc_EmailVerified cred)
      \<and> UserService_GetByID D (lc_UserID cred) T = Inr (user, perms)")
  case False
  then have "isl res \<and> T' = T"
    using assms(2) by (auto simp: LoginWithLocalPassword_def Let_def split: sum.splits if_splits prod.splits)
  then show ?thesis by (cases res) auto
next
  case True
  then obtain cred user perms where ok: "ac_AuthLocalEnabled (av_cfg A)"
      "LocalCredentialRepository_FindByEmail D (TrimSpace (ToLower email)) T = Inr cred"
      "VerifyPassword (av_idkey A) (lc_PasswordHash cred) password = Inr True"
      "ac_AuthLocalRequireEmailVerification (av_cfg A) \<longrightarrow> lc_EmailVerified cred"
      "UserService_GetByID D (lc_UserID cred) T = Inr (user, perms)" by blast
  then have run: "issue_login D A user perms ua ip (av_clk A 0) T = (res, T')"
    using assms(2) by (auto simp: LoginWithLocalPassword_def Let_def)
  note out = database.issue_login_outcome [OF assms(1) run]
  note cr = database.FindByEmail_found [OF assms(1) ok(2), simplified]
  note uid = database.GetByID_found [OF assms(1) ok(5)]
  show ?thesis
  proof (cases res)
    case (Inl e)
    with out show ?thesis by simp
  next
    case (Inr l)
    with out cr ok uid show ?thesis by simp blast
  qed
qed

subsection \<open>Verification tokens\<close>

definition active_token :: "uint \<Rightarrow> string \<Rightarrow> gotime \<Rightarrow> verification_token \<Rightarrow> bool" where
  "active_token userID purpose now v \<longleftrightarrow>
     vt_UserID v = userID \<and> vt_Purpose v = purpose \<and> vt_UsedAt v = None \<and> vt_ExpiresAt v > now"

text \<open>
  The writes to the table of verification tokens: some tokens are marked as used, or one is added.
  \<open>vtokens_step\<close> collects them, and every operation of the service makes only such writes.
\<close>

inductive vtokens_step :: "verification_token list \<Rightarrow> verification_token list \<Rightarrow> bool" where
  mark: "vtokens_step t (upd_where p (\<lambda>v. v\<lparr>vt_UsedAt := Some now\<rparr>) t)"
| insert: "(unique_rows clash_vtoken t \<longrightarrow> unique_rows clash_vtoken (t @ [v])) \<Longrightarrow> vtokens_step t (t @ [v])"

abbreviation vtokens_steps :: "tables \<Rightarrow> tables \<Rightarrow> bool" where
  "vtokens_steps T T' \<equiv> vtokens_step\<^sup>*\<^sup>* (tb_vtokens T) (tb_vtokens T')"

lemma mark_steps: "vtokens_step\<^sup>*\<^sup>* t (upd_where p (\<lambda>v. v\<lparr>vt_UsedAt := Some now\<rparr>) t)"
  by (rule r_into_rtranclp, rule vtokens_step.mark)

lemma insert_steps:
  "(unique_rows clash_vtoken t \<longrightarrow> unique_rows clash_vtoken (t @ [v])) \<Longrightarrow> vtokens_step\<^sup>*\<^sup>* t (t @ [v])"
  by (rule r_into_rtranclp, rule vtokens_step.insert)

text \<open>A used token of the hash \<open>h\<close>, and no other of that hash.\<close>

definition spent :: "string \<Rightarrow> verification_token list \<Rightarrow> bool" where
  "spent h t \<longleftrightarrow> unique_rows clash_vtoken t \<and> (\<exists>v \<in> set t. vt_TokenHash v = h)
     \<and> (\<forall>v \<in> set t. vt_TokenHash v = h \<longrightarrow> vt_UsedAt v \<noteq> None)"

lemma unique_mark: "unique_rows clash_vtoken t \<Longrightarrow> unique_rows clash_vtoken (upd_where p (\<lambda>v. v\<lparr>vt_UsedAt := Some now\<rparr>) t)"
  by (auto simp: unique_rows_def upd_where_def clash_vtoken_def sorted_wrt_map sorted_wrt_mono_rel split: if_splits
      elim!: sorted_wrt_mono_rel [rotated])

lemma spent_step: "vtokens_step t t' \<Longrightarrow> spent h t \<Longrightarrow> spent h t'"
proof (induction rule: vtokens_step.induct)
  case (mark t p now)
  define f where "f v = (if p v then v\<lparr>vt_UsedAt := Some now\<rparr> else v)" for v :: verification_token
  have f: "vt_TokenHash (f v) = vt_TokenHash v" "vt_UsedAt v \<noteq> None \<Longrightarrow> vt_UsedAt (f v) \<noteq> None" for v
    by (simp_all add: f_def)
  have t': "set (upd_where p (\<lambda>v. v\<lparr>vt_UsedAt := Some now\<rparr>) t) = f ` set t"
    unfolding upd_where_def set_map f_def by simp
  from mark show ?case unfolding spent_def t' using unique_mark [of t p now] f by auto
next
  case (insert t v)
  then show ?case by (auto simp: spent_def unique_rows_append clash_vtoken_def)
qed

lemma spent_steps: "vtokens_step\<^sup>*\<^sup>* t t' \<Longrightarrow> spent h t \<Longrightarrow> spent h t'"
  by (induction rule: rtranclp_induct) (auto intro: spent_step)

lemma unique_steps: "vtokens_step\<^sup>*\<^sup>* t t' \<Longrightarrow> unique_rows clash_vtoken t \<Longrightarrow> unique_rows clash_vtoken t'"
  by (induction rule: rtranclp_induct) (auto elim!: vtokens_step.cases intro: unique_mark)

text \<open>The operations that do not touch the table.\<close>

named_theorems same_vtokens "operations that leave the verification tokens as they are"

lemma repo_same_vtokens [same_vtokens]:
  "UserRepository_Create D u T = (r1, T') \<Longrightarrow> tb_vtokens T' = tb_vtokens T"
  "UserRepository_Update D u T = (r2, T') \<Longrightarrow> tb_vtokens T' = tb_vtokens T"
  "UserRepository_AddRole D a b T = (r2, T') \<Longrightarrow> tb_vtokens T' = tb_vtokens T"
  "UserService_AddRole D a b T = (r2, T') \<Longrightarrow> tb_vtokens T' = tb_vtokens T"
  "LocalCredentialRepository_Create D c T = (r3, T') \<Longrightarrow> tb_vtokens T' = tb_vtokens T"
  "LocalCredentialRepository_UpdatePassword D a h T = (r2, T') \<Longrightarrow> tb_vtokens T' = tb_vtokens T"
  "LocalCredentialRepository_MarkEmailVerified D now a T = (r2, T') \<Longrightarrow> tb_vtokens T' = tb_vtokens T"
  "OAuthRepository_Create D oa T = (r4, T') \<Longrightarrow> tb_vtokens T' = tb_vtokens T"
  "RevokeAll_sessions D now a reason T = (r2, T') \<Longrightarrow> tb_vtokens T' = tb_vtokens T"
  "issue_login D A user perms ua ip now T = (r5, T') \<Longrightarrow> tb_vtokens T' = tb_vtokens T"
  by (auto simp: UserRepository_Create_def UserRepository_Update_def UserRepository_AddRole_def UserService_AddRole_def
      LocalCredentialRepository_Create_def LocalCredentialRepository_UpdatePassword_def
      LocalCredentialRepository_MarkEmailVerified_def OAuthRepository_Create_def RevokeAll_sessions_def issue_login_def
      split: sum.splits prod.splits)

lemma default_role_same_vtokens [simp]: "tb_vtokens (add_default_role D uid T) = tb_vtokens T"
  by (simp add: add_default_role_def UserService_AddRole_def UserRepository_AddRole_def split: sum.splits)

lemma bootstrap_same_vtokens [same_vtokens]:
  "assignBootstrapAdminIfNeeded D A u T = (res, T') \<Longrightarrow> tb_vtokens T' = tb_vtokens T"
  by (auto simp: assignBootstrapAdminIfNeeded_def Let_def dest: same_vtokens split: sum.splits if_splits)

lemma register_new_same_vtokens [same_vtokens]:
  "register_new D A email name pw ua ip T = (res, T') \<Longrightarrow> tb_vtokens T' = tb_vtokens T"
  by (auto simp: register_new_def Let_def dest!: same_vtokens split: sum.splits prod.splits if_splits)

lemma service_same_vtokens [same_vtokens]:
  "RegisterLocal D A email name pw ua ip T = (res, T') \<Longrightarrow> tb_vtokens T' = tb_vtokens T"
  "LoginWithLocalPassword D A email pw ua ip T = (res, T') \<Longrightarrow> tb_vtokens T' = tb_vtokens T"
  "ChangeLocalPassword D A uid pw pw' T = (res2, T') \<Longrightarrow> tb_vtokens T' = tb_vtokens T"
  "Refresh D A token ua ip T = (res, T') \<Longrightarrow> tb_vtokens T' = tb_vtokens T"
  "Logout D A uid T = (res2, T') \<Longrightarrow> tb_vtokens T' = tb_vtokens T"
  by (auto simp: RegisterLocal_def LoginWithLocalPassword_def ChangeLocalPassword_def Refresh_def Logout_def Let_def
      dest!: same_vtokens split: sum.splits prod.splits if_splits)

lemma oauth_same_vtokens [same_vtokens]:
  "oauth_account_user D info T = (res, T') \<Longrightarrow> tb_vtokens T' = tb_vtokens T"
  by (auto simp: oauth_account_user_def dest!: same_vtokens split: sum.splits prod.splits if_splits)

lemma google_same_vtokens [same_vtokens]:
  "HandleGoogleCallback D A code T = (res, T') \<Longrightarrow> tb_vtokens T' = tb_vtokens T"
  by (auto simp: HandleGoogleCallback_def dest!: same_vtokens split: sum.splits prod.splits if_splits option.splits)

lemma google_login_same_vtokens [same_vtokens]:
  "LoginWithGoogleCode D A code ua ip T = (res, T') \<Longrightarrow> tb_vtokens T' = tb_vtokens T"
  by (auto simp: LoginWithGoogleCode_def dest!: same_vtokens split: sum.splits prod.splits if_splits)

context database begin

lemma Invalidate_outcome:
  assumes "VerificationTokenRepository_InvalidateActiveByUserPurpose D uid purpose now T = (res, T')"
  shows "(isl res \<and> T' = T) \<or> (\<not> isl res \<and>
     T' = T\<lparr>tb_vtokens := upd_where (active_token uid purpose now) (\<lambda>v. v\<lparr>vt_UsedAt := Some now\<rparr>) (tb_vtokens T)\<rparr>)"
  using assms gorm_table.updates_rows [OF vtokens] unfolding active_token_def
  by (auto simp: VerificationTokenRepository_InvalidateActiveByUserPurpose_def split: sum.splits)

lemma Create_vtoken_outcome:
  assumes "VerificationTokenRepository_Create D v T = (res, T')"
  shows "(isl res \<and> T' = T) \<or> (\<exists>i c. res = Inr (stamp_vtoken i c v)
     \<and> T' = T\<lparr>tb_vtokens := tb_vtokens T @ [stamp_vtoken i c v]\<rparr>
     \<and> (unique_rows clash_vtoken (tb_vtokens T) \<longrightarrow> unique_rows clash_vtoken (tb_vtokens T @ [stamp_vtoken i c v])))"
proof (cases "gorm_Create (g_vtokens D) v (tb_vtokens T)")
  case (Inl e)
  with assms show ?thesis by (auto simp: VerificationTokenRepository_Create_def)
next
  case (Inr vt)
  obtain v' t' where vt: "vt = (v', t')" by fastforce
  from gorm_table.create_row [OF vtokens Inr [unfolded vt]] gorm_table.create_unique [OF vtokens Inr [unfolded vt]]
  show ?thesis using assms by (auto simp: VerificationTokenRepository_Create_def Inr vt)
qed

lemma Consume_outcome:
  assumes "VerificationTokenRepository_Consume D tid uid now T = (res, T')"
  shows "T' = T \<or> T' = T\<lparr>tb_vtokens := upd_where (\<lambda>v. vt_ID v = tid \<and> vt_UserID v = uid \<and> vt_UsedAt v = None)
           (\<lambda>v. v\<lparr>vt_UsedAt := Some now\<rparr>) (tb_vtokens T)\<rparr>"
    and "res = Inr () \<Longrightarrow> T' = T\<lparr>tb_vtokens := upd_where (\<lambda>v. vt_ID v = tid \<and> vt_UserID v = uid \<and> vt_UsedAt v = None)
           (\<lambda>v. v\<lparr>vt_UsedAt := Some now\<rparr>) (tb_vtokens T)\<rparr>"
  using assms gorm_table.updates_rows [OF vtokens]
  by (fastforce simp: VerificationTokenRepository_Consume_def split: sum.splits if_splits)+

lemma issue_vtoken_steps:
  assumes "issue_vtoken D A uid purpose now ex T = (res, T')"
  shows "vtokens_steps T T'"
proof -
  obtain r1 T1 where inv: "VerificationTokenRepository_InvalidateActiveByUserPurpose D uid purpose now T = (r1, T1)"
    by fastforce
  have s1: "vtokens_steps T T1" using Invalidate_outcome [OF inv] mark_steps by auto
  have s2: "vtokens_steps T1 T2" if "VerificationTokenRepository_Create D v T1 = (r2, T2)" for v r2 T2
    using Create_vtoken_outcome [OF that] insert_steps by auto
  show ?thesis
    using assms s1 rtranclp_trans [OF s1 s2]
    by (auto simp: issue_vtoken_def inv split: sum.splits prod.splits)
qed

lemma redeem_steps: "redeem_token D A token purpose now T = (res, T') \<Longrightarrow> vtokens_steps T T'"
  by (auto simp: redeem_token_def dest!: Consume_outcome(1) intro: mark_steps split: sum.splits prod.splits)

end

text \<open>The operations of the service, as steps on the tables.\<close>

inductive account_step :: "dbconn \<Rightarrow> tables \<Rightarrow> tables \<Rightarrow> bool" for D where
    Register: "RegisterLocal D A email name pw ua ip T = (res, T') \<Longrightarrow> account_step D T T'"
  | Login: "LoginWithLocalPassword D A email pw ua ip T = (res, T') \<Longrightarrow> account_step D T T'"
  | Google: "LoginWithGoogleCode D A code ua ip T = (res, T') \<Longrightarrow> account_step D T T'"
  | RequestVerification: "RequestLocalEmailVerification D A email T = (r, T') \<Longrightarrow> account_step D T T'"
  | ConfirmVerification: "ConfirmLocalEmailVerification D A token T = (r, T') \<Longrightarrow> account_step D T T'"
  | Forgot: "ForgotLocalPassword D A email T = (r, T') \<Longrightarrow> account_step D T T'"
  | Reset: "ResetLocalPassword D A token pw T = (r, T') \<Longrightarrow> account_step D T T'"
  | Change: "ChangeLocalPassword D A uid pw pw' T = (r, T') \<Longrightarrow> account_step D T T'"
  | Refresh: "Refresh D A token ua ip T = (res, T') \<Longrightarrow> account_step D T T'"
  | Logout: "Logout D A uid T = (r, T') \<Longrightarrow> account_step D T T'"

context database begin

lemma mail_steps:
  "RequestLocalEmailVerification D A email T = (r, T') \<Longrightarrow> vtokens_steps T T'"
  "ForgotLocalPassword D A email T = (r, T') \<Longrightarrow> vtokens_steps T T'"
  by (auto simp: RequestLocalEmailVerification_def ForgotLocalPassword_def Let_def
      dest!: issue_vtoken_steps split: sum.splits prod.splits if_splits)

lemma token_steps:
  "ConfirmLocalEmailVerification D A token T = (r, T') \<Longrightarrow> vtokens_steps T T'"
  "ResetLocalPassword D A token pw T = (r, T') \<Longrightarrow> vtokens_steps T T'"
  by (auto simp: ConfirmLocalEmailVerification_def ResetLocalPassword_def Let_def
      dest!: redeem_steps same_vtokens split: sum.splits prod.splits if_splits)

lemma account_vtokens: "account_step D T T' \<Longrightarrow> vtokens_steps T T'"
  by (induction rule: account_step.induct) (auto dest: mail_steps token_steps same_vtokens)

lemma accounts_vtokens: "(account_step D)\<^sup>*\<^sup>* T T' \<Longrightarrow> vtokens_steps T T'"
  by (induction rule: rtranclp_induct) (auto dest: account_vtokens)

lemma redeem_success:
  assumes "redeem_token D A token purpose now T = (Inr uid, T')"
  obtains v where "v \<in> set (tb_vtokens T)" "vt_TokenHash v = hashVerificationToken (av_sha256 A) token"
    "active_token uid purpose now v"
    "T' = T\<lparr>tb_vtokens := upd_where (\<lambda>w. vt_ID w = vt_ID v \<and> vt_UserID w = uid \<and> vt_UsedAt w = None)
           (\<lambda>v. v\<lparr>vt_UsedAt := Some now\<rparr>) (tb_vtokens T)\<rparr>"
proof -
  obtain v where f: "VerificationTokenRepository_FindActiveByHashPurpose D (hashVerificationToken (av_sha256 A) token) purpose now T = Inr v"
    and c: "VerificationTokenRepository_Consume D (vt_ID v) (vt_UserID v) now T = (Inr (), T')" "uid = vt_UserID v"
    using assms by (auto simp: redeem_token_def split: sum.splits prod.splits)
  from f have "v \<in> set (tb_vtokens T)" "vt_TokenHash v = hashVerificationToken (av_sha256 A) token"
      "active_token uid purpose now v"
    using gorm_table.first_found [OF vtokens]
    by (fastforce simp: VerificationTokenRepository_FindActiveByHashPurpose_def active_token_def c(2) split: sum.splits)+
  then show thesis using that Consume_outcome(2) [OF c(1)] c(2) by blast
qed

lemma redeem_spends:
  assumes "redeem_token D A token purpose now T = (Inr uid, T')" "unique_rows clash_vtoken (tb_vtokens T)"
  shows "spent (hashVerificationToken (av_sha256 A) token) (tb_vtokens T')"
proof -
  let ?h = "hashVerificationToken (av_sha256 A) token"
  from assms(1) obtain v where v: "v \<in> set (tb_vtokens T)" "vt_TokenHash v = ?h" "active_token uid purpose now v"
    and T': "T' = T\<lparr>tb_vtokens := upd_where (\<lambda>w. vt_ID w = vt_ID v \<and> vt_UserID w = uid \<and> vt_UsedAt w = None)
           (\<lambda>v. v\<lparr>vt_UsedAt := Some now\<rparr>) (tb_vtokens T)\<rparr>" by (rule redeem_success)
  have only: "w = v" if "w \<in> set (tb_vtokens T)" "vt_TokenHash w = ?h" for w
    using unique_rows_eq [OF assms(2) _ that(1) v(1)] that(2) v(2) by (simp add: clash_vtoken_def)
  have "v\<lparr>vt_UsedAt := Some now\<rparr> \<in> set (tb_vtokens T')"
    using v by (auto simp: T' set_upd_where active_token_def)
  then have "\<exists>w \<in> set (tb_vtokens T'). vt_TokenHash w = ?h" by (rule bexI [rotated]) (simp add: v(2))
  moreover have "vt_UsedAt w \<noteq> None" if "w \<in> set (tb_vtokens T')" "vt_TokenHash w = ?h" for w
  proof -
    from that(1) have "w \<in> set (upd_where (\<lambda>w. vt_ID w = vt_ID v \<and> vt_UserID w = uid \<and> vt_UsedAt w = None)
           (\<lambda>v. v\<lparr>vt_UsedAt := Some now\<rparr>) (tb_vtokens T))" by (simp add: T')
    then show ?thesis
    proof (cases rule: in_upd_where_cases)
      case (kept)
      with only that(2) v(3) show ?thesis by (auto simp: active_token_def)
    qed simp
  qed
  ultimately show ?thesis
    using unique_mark [OF assms(2)] v(2) by (auto simp: spent_def T')
qed

lemma redeem_spent_fails:
  assumes "spent (hashVerificationToken (av_sha256 A) token) (tb_vtokens T)"
  shows "\<exists>e. redeem_token D A token purpose now T = (Inl e, T)"
proof -
  have "\<exists>e. VerificationTokenRepository_FindActiveByHashPurpose D (hashVerificationToken (av_sha256 A) token) purpose now T = Inl e"
    using assms gorm_table.first_found [OF vtokens]
    by (fastforce simp: VerificationTokenRepository_FindActiveByHashPurpose_def spent_def split: sum.splits)
  then show ?thesis by (auto simp: redeem_token_def)
qed

end

context database begin

lemma UpdatePassword_done:
  "LocalCredentialRepository_UpdatePassword D uid h T = (Inr (), T') \<Longrightarrow>
   T' = T\<lparr>tb_creds := upd_where (\<lambda>c. lc_UserID c = uid) (\<lambda>c. c\<lparr>lc_PasswordHash := h\<rparr>) (tb_creds T)\<rparr>"
  using gorm_table.updates_rows [OF creds]
  by (fastforce simp: LocalCredentialRepository_UpdatePassword_def split: sum.splits)

lemma RevokeAll_done:
  "RevokeAll_sessions D now uid reason T = (Inr (), T') \<Longrightarrow>
   T' = T\<lparr>tb_sessions := upd_where (\<lambda>s. s_UserID s = uid \<and> live s) (revoke now reason) (tb_sessions T)\<rparr>"
  using gorm_table.updates_rows [OF sessions]
  by (fastforce simp: RevokeAll_sessions_def TokenService_RevokeAll_def SessionRepository_RevokeByUserID_def
      split: sum.splits)

end

lemma all_revoked:
  "s \<in> set (upd_where (\<lambda>s. s_UserID s = uid \<and> live s) (revoke now reason) t) \<Longrightarrow> s_UserID s = uid \<Longrightarrow> \<not> live s"
  by (erule in_upd_where_cases) (auto simp: revoke_def)

text \<open>
  C18: A password reset that succeeds was made with the raw text of a token stored for that purpose,
  unused and unexpired; the new password meets the policy; the credential of the token's user, and no
  other, gets the hash of the new password; and no session of that user is left alive, while the
  sessions of the others are as before.
\<close>

theorem password_reset_effect:
  assumes "database D" and "ResetLocalPassword D A token password T = (Inr (), T')"
  shows "\<exists>v h. v \<in> set (tb_vtokens T) \<and> vt_TokenHash v = hashVerificationToken (av_sha256 A) (TrimSpace token)
     \<and> active_token (vt_UserID v) ''password_reset'' (av_clk A 0) v
     \<and> validatePassword password = Inr () \<and> HashPassword (av_idkey A) (av_salt A) password = Inr h
     \<and> tb_creds T' = upd_where (\<lambda>c. lc_UserID c = vt_UserID v) (\<lambda>c. c\<lparr>lc_PasswordHash := h\<rparr>) (tb_creds T)
     \<and> (\<forall>s. s \<in> set (tb_sessions T') \<and> s_UserID s = vt_UserID v \<longrightarrow> s_RevokedAt s \<noteq> None)
     \<and> filter (\<lambda>s. s_UserID s \<noteq> vt_UserID v) (tb_sessions T') = filter (\<lambda>s. s_UserID s \<noteq> vt_UserID v) (tb_sessions T)
     \<and> tb_users T' = tb_users T"
proof -
  obtain uid T1 h T2 where red: "redeem_token D A (TrimSpace token) ''password_reset'' (av_clk A 0) T = (Inr uid, T1)"
    and pw: "validatePassword password = Inr ()" and h: "HashPassword (av_idkey A) (av_salt A) password = Inr h"
    and upd: "LocalCredentialRepository_UpdatePassword D uid h T1 = (Inr (), T2)"
    and rev: "RevokeAll_sessions D (av_clk A 1) uid ''password_reset'' T2 = (Inr (), T')"
    using assms(2) by (auto simp: ResetLocalPassword_def Let_def split: sum.splits prod.splits if_splits)
  from database.redeem_success [OF assms(1) red] obtain v where v: "v \<in> set (tb_vtokens T)"
      "vt_TokenHash v = hashVerificationToken (av_sha256 A) (TrimSpace token)"
      "active_token uid ''password_reset'' (av_clk A 0) v"
    and T1: "T1 = T\<lparr>tb_vtokens := upd_where (\<lambda>w. vt_ID w = vt_ID v \<and> vt_UserID w = uid \<and> vt_UsedAt w = None)
           (\<lambda>v. v\<lparr>vt_UsedAt := Some (av_clk A 0)\<rparr>) (tb_vtokens T)\<rparr>" by blast
  note T2 = database.UpdatePassword_done [OF assms(1) upd] and T' = database.RevokeAll_done [OF assms(1) rev]
  have uid: "vt_UserID v = uid" using v(3) by (simp add: active_token_def)
  let ?p = "\<lambda>s. s_UserID s = uid \<and> live s" and ?f = "revoke (av_clk A 1) ''password_reset''"
  have "filter (\<lambda>s. s_UserID s \<noteq> uid) (upd_where ?p ?f (tb_sessions T)) = upd_where ?p ?f (filter (\<lambda>s. s_UserID s \<noteq> uid) (tb_sessions T))"
    by (rule filter_upd_where) (simp add: revoke_def)
  also have "\<dots> = filter (\<lambda>s. s_UserID s \<noteq> uid) (tb_sessions T)" by (rule upd_where_id) simp
  finally show ?thesis
    using v pw h all_revoked [of _ uid "av_clk A 1" "''password_reset''" "tb_sessions T"]
    by (intro exI [of _ v] exI [of _ h]) (simp add: uid T1 T2 T')
qed

text \<open>
  C19: A verification or reset token works once: after a reset with it has succeeded, and whatever
  registrations, logins, requests, confirmations, resets, changes and logouts follow, by anybody and
  with any clock, neither a reset nor a confirmation with the same token succeeds or changes the
  tables.
\<close>

theorem reset_token_single_use:
  assumes "database D" and "unique_rows clash_vtoken (tb_vtokens T)"
    and "ResetLocalPassword D A token password T = (Inr (), T1)" and "(account_step D)\<^sup>*\<^sup>* T1 T2"
    and "av_sha256 A' = av_sha256 A" and "TrimSpace token' = TrimSpace token"
  shows "(\<exists>e. ResetLocalPassword D A' token' password' T2 = (Inl e, T2))
     \<and> (\<exists>e. ConfirmLocalEmailVerification D A' token' T2 = (Inl e, T2))"
proof -
  let ?h = "hashVerificationToken (av_sha256 A) (TrimSpace token)"
  obtain uid T0 where red: "redeem_token D A (TrimSpace token) ''password_reset'' (av_clk A 0) T = (Inr uid, T0)"
    and rest: "tb_vtokens T1 = tb_vtokens T0"
    using assms(3) by (auto simp: ResetLocalPassword_def Let_def dest!: same_vtokens split: sum.splits prod.splits if_splits)
  have "spent ?h (tb_vtokens T1)" unfolding rest by (rule database.redeem_spends [OF assms(1) red assms(2)])
  then have "spent (hashVerificationToken (av_sha256 A') (TrimSpace token')) (tb_vtokens T2)"
    using spent_steps [OF database.accounts_vtokens [OF assms(1,4)]] assms(5,6) by simp
  then obtain e where "redeem_token D A' (TrimSpace token') purpose now T2 = (Inl (e purpose now), T2)" for purpose now
    using database.redeem_spent_fails [OF assms(1)] by metis
  then show ?thesis
    by (auto simp: ResetLocalPassword_def ConfirmLocalEmailVerification_def Let_def split: sum.splits)
qed

text \<open>
  A request to reset the password of an existing account leaves exactly one reset token of its
  user active: the one just stored, under the hash of the random text, expiring after the configured
  time.  A request for an unknown address succeeds as well and changes nothing, so that it does not
  tell which addresses have accounts.
\<close>

theorem forgot_password_one_active_token:
  assumes "database D" and "ForgotLocalPassword D A email T = (Inr (), T')" and "0 < ac_AuthPasswordResetTokenTTL (av_cfg A)"
  shows "case LocalCredentialRepository_FindByEmail D (TrimSpace (ToLower email)) T of
      Inl e \<Rightarrow> T' = T
    | Inr cred \<Rightarrow> TrimSpace (ToLower email) \<noteq> [] \<longrightarrow>
        (\<exists>v raw. NewRandomString (av_rand A) = Inr raw \<and> vt_TokenHash v = hashVerificationToken (av_sha256 A) raw
           \<and> vt_ExpiresAt v = av_clk A 0 + ac_AuthPasswordResetTokenTTL (av_cfg A)
           \<and> filter (active_token (lc_UserID cred) ''password_reset'' (av_clk A 0)) (tb_vtokens T') = [v])"
proof -
  let ?email = "TrimSpace (ToLower email)" and ?now = "av_clk A 0"
  let ?ex = "?now + ac_AuthPasswordResetTokenTTL (av_cfg A)"
  have on: "ac_AuthLocalEnabled (av_cfg A)" using assms(2) by (auto simp: ForgotLocalPassword_def split: if_splits)
  show ?thesis
  proof (cases "LocalCredentialRepository_FindByEmail D ?email T")
    case (Inl e)
    with assms(2) on show ?thesis by (auto simp: ForgotLocalPassword_def Let_def split: if_splits)
  next
    case (Inr cred)
    let ?act = "active_token (lc_UserID cred) ''password_reset'' ?now"
    have "\<exists>v raw. NewRandomString (av_rand A) = Inr raw \<and> vt_TokenHash v = hashVerificationToken (av_sha256 A) raw
        \<and> vt_ExpiresAt v = ?ex \<and> filter ?act (tb_vtokens T') = [v]" if ne: "?email \<noteq> []"
    proof -
      obtain raw where iss: "issue_vtoken D A (lc_UserID cred) ''password_reset'' ?now ?ex T = (Inr raw, T')"
        using assms(2) on ne unfolding ForgotLocalPassword_def Let_def Inr sum.case
        by (auto split: sum.splits prod.splits if_splits)
      let ?v = "new_vtoken (lc_UserID cred) (hashVerificationToken (av_sha256 A) raw) ''password_reset'' ?ex"
      obtain T1 v' where inv: "VerificationTokenRepository_InvalidateActiveByUserPurpose D (lc_UserID cred) ''password_reset'' ?now T = (Inr (), T1)"
        and raw: "NewRandomString (av_rand A) = Inr raw" and cr: "VerificationTokenRepository_Create D ?v T1 = (Inr v', T')"
        using iss by (auto simp: issue_vtoken_def split: sum.splits prod.splits)
      have T1: "tb_vtokens T1 = upd_where ?act (\<lambda>v. v\<lparr>vt_UsedAt := Some ?now\<rparr>) (tb_vtokens T)"
        using database.Invalidate_outcome [OF assms(1) inv] by auto
      obtain i c where T': "tb_vtokens T' = tb_vtokens T1 @ [stamp_vtoken i c ?v]"
        using database.Create_vtoken_outcome [OF assms(1) cr] by auto
      have "filter ?act (tb_vtokens T1) = []"
        unfolding T1 upd_where_def by (subst filter_map_if) (simp add: active_token_def, simp)
      moreover have "?act (stamp_vtoken i c ?v)"
        using assms(3) by (simp add: active_token_def stamp_vtoken_def new_vtoken_def)
      ultimately have "filter ?act (tb_vtokens T') = [stamp_vtoken i c ?v]" by (simp add: T')
      with raw show ?thesis by (intro exI [of _ "stamp_vtoken i c ?v"]) (simp add: stamp_vtoken_def new_vtoken_def)
    qed
    with Inr show ?thesis by simp
  qed
qed

subsection \<open>Registration and login with Google\<close>

named_theorems keeps_users "operations that leave the users as they are"

lemma repo_keeps_users [keeps_users]:
  "UserService_AddRole D a b T = (r2, T') \<Longrightarrow> tb_users T' = tb_users T \<and> tb_sessions T' = tb_sessions T \<and> tb_creds T' = tb_creds T"
  "assignBootstrapAdminIfNeeded D A u T = (r2, T') \<Longrightarrow> tb_users T' = tb_users T \<and> tb_sessions T' = tb_sessions T \<and> tb_creds T' = tb_creds T"
  "LocalCredentialRepository_Create D c T = (r3, T') \<Longrightarrow> tb_users T' = tb_users T \<and> tb_sessions T' = tb_sessions T"
  "issue_login D A user perms ua ip now T = (r5, T') \<Longrightarrow> tb_users T' = tb_users T \<and> tb_creds T' = tb_creds T"
  by (auto simp: UserService_AddRole_def UserRepository_AddRole_def assignBootstrapAdminIfNeeded_def Let_def
      LocalCredentialRepository_Create_def issue_login_def split: sum.splits prod.splits if_splits)

lemma default_role_keeps [simp]:
  "tb_users (add_default_role D uid T) = tb_users T" "tb_sessions (add_default_role D uid T) = tb_sessions T"
  "tb_creds (add_default_role D uid T) = tb_creds T" "tb_oauth (add_default_role D uid T) = tb_oauth T"
  by (simp_all add: add_default_role_def UserService_AddRole_def UserRepository_AddRole_def split: sum.splits)

context database begin

lemma Create_user_done:
  assumes "UserRepository_Create D u T = (Inr u', T')"
  obtains i c where "u' = stamp_user i c u" "i \<notin> u_ID ` set (tb_users T)" "T' = T\<lparr>tb_users := tb_users T @ [u']\<rparr>"
  using assms gorm_table.create_row [OF users]
  by (fastforce simp: UserRepository_Create_def split: sum.splits prod.splits)

lemma Create_cred_done:
  assumes "LocalCredentialRepository_Create D c T = (Inr c', T')"
  obtains i t where "c' = stamp_credential i t c" "T' = T\<lparr>tb_creds := tb_creds T @ [c']\<rparr>"
  using assms gorm_table.create_row [OF creds]
  by (fastforce simp: LocalCredentialRepository_Create_def split: sum.splits prod.splits)

end

text \<open>
  C27: A registration that succeeds was allowed by the configuration and had a name and a password that
  meets the policy; it adds one user, under a new key, with the normalised address and one credential with
  the hash of the password, for that user.  If addresses have to be verified the account is unverified, no
  session is opened and no refresh token is returned; otherwise one live session of the new user is opened.
\<close>

theorem registration_effect:
  assumes "database D" and "RegisterLocal D A email name password ua ip T = (Inr l, T')"
  shows "\<exists>u c h. ac_AuthLocalEnabled (av_cfg A) \<and> TrimSpace name \<noteq> [] \<and> validatePassword password = Inr ()
     \<and> HashPassword (av_idkey A) (av_salt A) password = Inr h
     \<and> u_Email u = TrimSpace (ToLower email) \<and> u_ID u \<notin> u_ID ` set (tb_users T) \<and> tb_users T' = tb_users T @ [u]
     \<and> lc_UserID c = u_ID u \<and> lc_PasswordHash c = h \<and> tb_creds T' = tb_creds T @ [c]
     \<and> lc_EmailVerified c = (\<not> ac_AuthLocalRequireEmailVerification (av_cfg A))
     \<and> u_ID (lr_User l) = u_ID u \<and> lr_RequiresVerification l = ac_AuthLocalRequireEmailVerification (av_cfg A)
     \<and> (if ac_AuthLocalRequireEmailVerification (av_cfg A) then tb_sessions T' = tb_sessions T \<and> lr_RefreshToken l = []
        else \<exists>sess. tb_sessions T' = tb_sessions T @ [sess] \<and> s_UserID sess = u_ID u \<and> live sess)"
proof -
  let ?email = "TrimSpace (ToLower email)" and ?ver = "\<not> ac_AuthLocalRequireEmailVerification (av_cfg A)"
  have guards: "ac_AuthLocalEnabled (av_cfg A)" "TrimSpace name \<noteq> []" "validatePassword password = Inr ()"
    and new: "register_new D A ?email (TrimSpace name) password ua ip T = (Inr l, T')"
    using assms(2) by (auto simp: RegisterLocal_def Let_def split: sum.splits if_splits)
  let ?cred = "\<lambda>user hash. \<lparr>lc_ID = 0, lc_UserID = u_ID user, lc_PasswordHash = hash, lc_EmailVerified = ?ver,
      lc_EmailVerifiedAt = (if ?ver then Some (av_clk A 0) else None), lc_CreatedAt = zero_time\<rparr>"
  obtain u T1 h c T3 T4 fresh perms
    where cu: "UserRepository_Create D (new_user ?email (TrimSpace name) []) T = (Inr u, T1)"
      and h: "HashPassword (av_idkey A) (av_salt A) password = Inr h"
      and cc: "LocalCredentialRepository_Create D (?cred u h) (add_default_role D (u_ID u) T1) = (Inr c, T3)"
      and boot: "assignBootstrapAdminIfNeeded D A u T3 = (Inr (), T4)"
      and get: "UserService_GetByID D (u_ID u) T4 = Inr (fresh, perms)"
      and fin: "(if \<not> ?ver then (Inr \<lparr>lr_User = fresh, lr_AccessToken = [], lr_RefreshToken = [], lr_CSRFToken = [],
             lr_ExpiresAt = zero_time, lr_RequiresVerification = True\<rparr>, T4)
           else issue_login D A fresh perms ua ip (av_clk A 1) T4) = (Inr l, T')"
    using new by (auto simp: register_new_def Let_def split: sum.splits prod.splits)
  from database.Create_user_done [OF assms(1) cu] obtain i t where u: "u = stamp_user i t (new_user ?email (TrimSpace name) [])"
      "i \<notin> u_ID ` set (tb_users T)" "T1 = T\<lparr>tb_users := tb_users T @ [u]\<rparr>" by blast
  from database.Create_cred_done [OF assms(1) cc] obtain j k where c: "c = stamp_credential j k (?cred u h)"
      "T3 = (add_default_role D (u_ID u) T1)\<lparr>tb_creds := tb_creds (add_default_role D (u_ID u) T1) @ [c]\<rparr>" by blast
  note b = repo_keeps_users(2) [OF boot] and uid = database.GetByID_found [OF assms(1) get]
  have T4: "tb_users T4 = tb_users T @ [u]" "tb_creds T4 = tb_creds T @ [c]" "tb_sessions T4 = tb_sessions T"
    using b by (simp_all add: c(2) u(3))
  have uc: "u_ID u = i" "u_Email u = ?email" "lc_UserID c = u_ID u" "lc_PasswordHash c = h" "lc_EmailVerified c = ?ver"
    by (simp_all add: u(1) c(1) stamp_user_def new_user_def stamp_credential_def)
  show ?thesis
  proof (cases ?ver)
    case False
    then have "l = \<lparr>lr_User = fresh, lr_AccessToken = [], lr_RefreshToken = [], lr_CSRFToken = [],
             lr_ExpiresAt = zero_time, lr_RequiresVerification = True\<rparr>" "T' = T4" using fin by simp_all
    with False guards h uc T4 u(2) uid show ?thesis by (intro exI [of _ u] exI [of _ c] exI [of _ h]) simp
  next
    case True
    then have "issue_login D A fresh perms ua ip (av_clk A 1) T4 = (Inr l, T')" using fin by simp
    from database.issue_login_outcome [OF assms(1) this] obtain sess where "lr_User l = fresh" "\<not> lr_RequiresVerification l"
      "T' = T4\<lparr>tb_sessions := tb_sessions T4 @ [sess]\<rparr>" "s_UserID sess = u_ID fresh" "live sess" by auto
    with True guards h uc T4 u(2) uid show ?thesis by (intro exI [of _ u] exI [of _ c] exI [of _ h]) simp
  qed
qed

named_theorems keeps_oauth "operations that leave the linked accounts as they are"

lemma repo_keeps_oauth [keeps_oauth]:
  "UserService_AddRole D a b T = (r2, T') \<Longrightarrow> tb_oauth T' = tb_oauth T"
  "assignBootstrapAdminIfNeeded D A u T = (r2, T') \<Longrightarrow> tb_oauth T' = tb_oauth T"
  "UserRepository_Update D u T = (r2, T') \<Longrightarrow> tb_oauth T' = tb_oauth T"
  "issue_login D A user perms ua ip now T = (r5, T') \<Longrightarrow> tb_oauth T' = tb_oauth T"
  by (auto simp: UserService_AddRole_def UserRepository_AddRole_def assignBootstrapAdminIfNeeded_def Let_def
      UserRepository_Update_def issue_login_def split: sum.splits prod.splits if_splits)

definition linked :: "string \<Rightarrow> uint \<Rightarrow> oauth_account list \<Rightarrow> bool" where
  "linked puid uid t \<longleftrightarrow> (\<exists>a \<in> set t. oa_Provider a = ''google'' \<and> oa_ProviderUserID a = puid \<and> oa_UserID a = uid)"

context database begin

lemma Create_oauth_done:
  "OAuthRepository_Create D a T = (Inr a', T') \<Longrightarrow> \<exists>i c. T' = T\<lparr>tb_oauth := tb_oauth T @ [stamp_oauth i c a]\<rparr>"
  using gorm_table.create_row [OF oauth] by (fastforce simp: OAuthRepository_Create_def split: sum.splits prod.splits)

lemma oauth_account_linked:
  assumes "oauth_account_user D info T = (Inr user, T')"
  shows "linked (oi_ProviderUserID info) (u_ID user) (tb_oauth T')"
proof (cases "OAuthRepository_FindByProvider D ''google'' (oi_ProviderUserID info) T")
  case (Inr acct)
  with assms have "T' = T" "u_ID user = oa_UserID acct" by (auto simp: oauth_account_user_def FindByID_found(1))
  moreover have "acct \<in> set (tb_oauth T)" "oa_Provider acct = ''google''" "oa_ProviderUserID acct = oi_ProviderUserID info"
    using gorm_table.first_found [OF oauth Inr [unfolded OAuthRepository_FindByProvider_def]] by auto
  ultimately show ?thesis by (auto simp: linked_def)
next
  case (Inl e)
  let ?a = "\<lparr>oa_ID = 0, oa_UserID = u_ID user, oa_Provider = ''google'', oa_ProviderUserID = oi_ProviderUserID info,
    oa_EmailVerified = True, oa_CreatedAt = zero_time\<rparr>"
  from Inl assms obtain T2 a' where "OAuthRepository_Create D ?a T2 = (Inr a', T')"
    by (auto simp: oauth_account_user_def split: if_splits sum.splits prod.splits)
  from Create_oauth_done [OF this] show ?thesis by (auto simp: linked_def stamp_oauth_def)
qed

end

text \<open>
  C20: A login with Google that succeeds was allowed by the configuration, and the provider named an
  identity with a verified address for the code; the user who is logged in is the one this identity
  is linked to in the table of linked accounts, and one session of that user is opened.  An
  unverified address never logs in and changes nothing.
\<close>

theorem google_login_checked:
  assumes "database D" and "LoginWithGoogleCode D A code ua ip T = (res, T')"
  shows "(case res of
       Inl _ \<Rightarrow> True
     | Inr l \<Rightarrow> ac_AuthGoogleEnabled (av_cfg A) \<and>
         (\<exists>token info. av_exchange A code = Inr token \<and> av_fetchUserInfo A token = Inr (Some info) \<and> oi_EmailVerified info
            \<and> linked (oi_ProviderUserID info) (u_ID (lr_User l)) (tb_oauth T'))
       \<and> (\<exists>sess \<in> set (tb_sessions T'). s_UserID sess = u_ID (lr_User l) \<and> live sess
            \<and> s_RefreshTokenHash sess = token_hash (av_tok A) (av_ts A) (lr_RefreshToken l)))
     \<and> (\<forall>token info. av_exchange A code = Inr token \<and> av_fetchUserInfo A token = Inr (Some info) \<and> \<not> oi_EmailVerified info
          \<longrightarrow> isl res \<and> T' = T)"
proof (intro conjI)
  show "\<forall>token info. av_exchange A code = Inr token \<and> av_fetchUserInfo A token = Inr (Some info) \<and> \<not> oi_EmailVerified info
          \<longrightarrow> isl res \<and> T' = T"
    using assms(2) by (auto simp: LoginWithGoogleCode_def HandleGoogleCallback_def split: if_splits)
  show "case res of
       Inl _ \<Rightarrow> True
     | Inr l \<Rightarrow> ac_AuthGoogleEnabled (av_cfg A) \<and>
         (\<exists>token info. av_exchange A code = Inr token \<and> av_fetchUserInfo A token = Inr (Some info) \<and> oi_EmailVerified info
            \<and> linked (oi_ProviderUserID info) (u_ID (lr_User l)) (tb_oauth T'))
       \<and> (\<exists>sess \<in> set (tb_sessions T'). s_UserID sess = u_ID (lr_User l) \<and> live sess
            \<and> s_RefreshTokenHash sess = token_hash (av_tok A) (av_ts A) (lr_RefreshToken l))"
  proof (cases res)
    case (Inr l)
    then obtain user T1 T2 user' perms where cb: "HandleGoogleCallback D A code T = (Inr user, T1)"
      and boot: "assignBootstrapAdminIfNeeded D A user T1 = (Inr (), T2)"
      and get: "UserService_GetByID D (u_ID user) T2 = Inr (user', perms)"
      and iss: "issue_login D A user' perms ua ip (av_clk A 0) T2 = (Inr l, T')"
      and on: "ac_AuthGoogleEnabled (av_cfg A)"
      using assms(2) by (auto simp: LoginWithGoogleCode_def split: if_splits sum.splits prod.splits)
    obtain token info u0 T0 where info: "av_exchange A code = Inr token" "av_fetchUserInfo A token = Inr (Some info)"
        "oi_EmailVerified info"
      and acc: "oauth_account_user D info T = (Inr u0, T0)"
      and upd: "UserRepository_Update D (u0\<lparr>u_Name := oi_Name info, u_AvatarURL := oi_Picture info\<rparr>) T0 = (Inr (), T1)"
      and fnd: "UserRepository_FindByID D (u_ID u0) T1 = Inr user"
      using cb by (auto simp: HandleGoogleCallback_def split: if_splits sum.splits prod.splits option.splits)
    have "tb_oauth T' = tb_oauth T0" using upd boot iss by (simp add: keeps_oauth)
    moreover have "u_ID user' = u_ID u0"
      using database.FindByID_found(1) [OF assms(1) fnd] database.GetByID_found [OF assms(1) get] by simp
    ultimately have "linked (oi_ProviderUserID info) (u_ID user') (tb_oauth T')"
      using database.oauth_account_linked [OF assms(1) acc] by simp
    with database.issue_login_outcome [OF assms(1) iss] Inr on info show ?thesis by auto
  qed simp
qed

subsection \<open>An example\<close>

definition demo_config :: "bool \<Rightarrow> auth_config" where
  "demo_config verify = \<lparr>ac_AuthGoogleEnabled = True, ac_AuthLocalEnabled = True,
     ac_AuthLocalRequireEmailVerification = verify, ac_AuthEmailVerifyTokenTTL = seconds 600, ac_AuthEmailVerifyBaseURL = [],
     ac_AuthPasswordResetTokenTTL = seconds 600, ac_AuthPasswordResetBaseURL = [], ac_BootstrapAdminEmail = [],
     ac_JWTAccessTTL = seconds 600\<rparr>"

definition demo_auth :: "bool \<Rightarrow> auth_env" where
  "demo_auth verify = \<lparr>av_cfg = demo_config verify, av_ts = demo_ts, av_tok = demo_env ''t1'', av_clk = (\<lambda>_. 0),
     av_idkey = demo_idkey, av_salt = Inr ''salt'', av_rand = Inr ''rnd'', av_sha256 = id,
     av_parseAddress = (\<lambda>_. True), av_addToken = (\<lambda>u t. Inr u), av_sendVerification = (\<lambda>_. Inr ()),
     av_sendReset = (\<lambda>_. Inr ()), av_authCodeURL = id, av_exchange = Inr,
     av_fetchUserInfo = (\<lambda>t. Inr (Some \<lparr>oi_ProviderUserID = ''g1'', oi_Email = ''a@b.c'', oi_Name = ''a'', oi_Picture = [],
        oi_EmailVerified = False\<rparr>))\<rparr>"

definition demo_cred :: local_credential where
  "demo_cred = \<lparr>lc_ID = 3, lc_UserID = 7, lc_PasswordHash = ''old'', lc_EmailVerified = True, lc_EmailVerifiedAt = None,
     lc_CreatedAt = 0\<rparr>"

definition demo_token :: verification_token where
  "demo_token = \<lparr>vt_ID = 5, vt_UserID = 7, vt_TokenHash = hashVerificationToken id ''tok'', vt_Purpose = ''password_reset'',
     vt_ExpiresAt = 100, vt_UsedAt = None, vt_CreatedAt = 0\<rparr>"

definition demo_tables :: tables where
  "demo_tables = \<lparr>tb_users = [demo_user], tb_roles = [], tb_perms = [], tb_user_roles = [], tb_role_perms = [],
     tb_creds = [demo_cred], tb_vtokens = [demo_token], tb_oauth = [], tb_sessions = []\<rparr>"

lemmas demo_defs = demo_auth_def demo_config_def demo_cred_def demo_token_def demo_tables_def demo_user_def mem_db_def
  mem_table_defs

lemma demo_password: "validatePassword ''Str0ng-Password'' = Inr ()"
  by code_simp

lemma demo_trim: "TrimSpace ''tok'' = ''tok''" "TrimSpace (ToLower ''a@b.c'') = ''a@b.c''" "TrimSpace (ToLower ''x@b.c'') = ''x@b.c''"
  by code_simp+

lemma demo_redeem:
  "redeem_token (mem_db 0) (demo_auth verify) ''tok'' ''password_reset'' 0 demo_tables
     = (Inr 7, demo_tables\<lparr>tb_vtokens := [demo_token\<lparr>vt_UsedAt := Some 0\<rparr>]\<rparr>)"
  by (simp add: redeem_token_def VerificationTokenRepository_FindActiveByHashPurpose_def
      VerificationTokenRepository_Consume_def demo_defs Let_def)

lemma demo_reset:
  "\<exists>T1. ResetLocalPassword (mem_db 0) (demo_auth False) ''tok'' ''Str0ng-Password'' demo_tables = (Inr (), T1)"
proof -
  obtain h where h: "HashPassword demo_idkey (Inr ''salt'') ''Str0ng-Password'' = Inr h" by (simp add: HashPassword_def)
  have cfg: "ac_AuthLocalEnabled (av_cfg (demo_auth False))" "av_clk (demo_auth False) n = 0"
    "av_idkey (demo_auth False) = demo_idkey" "av_salt (demo_auth False) = Inr ''salt''" for n
    by (simp_all add: demo_auth_def demo_config_def)
  show ?thesis
    unfolding ResetLocalPassword_def Let_def demo_password demo_trim cfg demo_redeem h
    by (simp add: LocalCredentialRepository_UpdatePassword_def RevokeAll_sessions_def TokenService_RevokeAll_def
        SessionRepository_RevokeByUserID_def demo_defs Let_def)
qed

theorem password_reset_effect_witness:
  "\<exists>T' (v :: verification_token). ResetLocalPassword (mem_db 0) (demo_auth False) ''tok'' ''Str0ng-Password'' demo_tables = (Inr (), T')
     \<and> v \<in> set (tb_vtokens demo_tables) \<and> active_token (vt_UserID v) ''password_reset'' 0 v"
proof -
  obtain T' where run: "ResetLocalPassword (mem_db 0) (demo_auth False) ''tok'' ''Str0ng-Password'' demo_tables = (Inr (), T')"
    using demo_reset by blast
  from password_reset_effect [OF mem_db.database_axioms run] run show ?thesis
    by (auto simp: demo_auth_def)
qed

theorem reset_token_single_use_witness:
  "\<exists>T1 e. ResetLocalPassword (mem_db 0) (demo_auth False) ''tok'' ''Str0ng-Password'' demo_tables = (Inr (), T1)
     \<and> ResetLocalPassword (mem_db 0) (demo_auth False) ''tok'' ''0ther-Password'' T1 = (Inl e, T1)"
proof -
  obtain T1 where run: "ResetLocalPassword (mem_db 0) (demo_auth False) ''tok'' ''Str0ng-Password'' demo_tables = (Inr (), T1)"
    using demo_reset by blast
  have "unique_rows clash_vtoken (tb_vtokens demo_tables)" by (simp add: unique_rows_def demo_tables_def)
  from reset_token_single_use [OF mem_db.database_axioms this run rtranclp.rtrancl_refl refl refl] run
  show ?thesis by blast
qed

lemma demo_auth_simps:
  "ac_AuthLocalEnabled (av_cfg (demo_auth v))" "ac_AuthLocalRequireEmailVerification (av_cfg (demo_auth v)) = v"
  "av_clk (demo_auth v) n = 0" "av_idkey (demo_auth v) = demo_idkey" "av_salt (demo_auth v) = Inr ''salt''"
  "av_rand (demo_auth v) = Inr ''rnd''" "ac_AuthPasswordResetTokenTTL (av_cfg (demo_auth v)) = seconds 600"
  "ac_AuthPasswordResetBaseURL (av_cfg (demo_auth v)) = []" "av_sendReset (demo_auth v) m = Inr ()"
  "av_ts (demo_auth v) = demo_ts" "av_tok (demo_auth v) = demo_env ''t1''" "ac_BootstrapAdminEmail (av_cfg (demo_auth v)) = []"
  by (simp_all add: demo_auth_def demo_config_def)

theorem forgot_password_one_active_token_witness:
  "\<exists>T' (v :: verification_token). ForgotLocalPassword (mem_db 0) (demo_auth False) ''a@b.c'' (demo_tables\<lparr>tb_vtokens := []\<rparr>) = (Inr (), T')
     \<and> filter (active_token 7 ''password_reset'' 0) (tb_vtokens T') = [v]"
proof -
  let ?T = "demo_tables\<lparr>tb_vtokens := []\<rparr>"
  have cred: "LocalCredentialRepository_FindByEmail (mem_db 0) ''a@b.c'' ?T = Inr demo_cred"
    by (simp add: LocalCredentialRepository_FindByEmail_def Let_def demo_trim) (simp add: demo_defs)
  have uid: "lc_UserID demo_cred = 7" by (simp add: demo_cred_def)
  have "\<exists>raw T'. issue_vtoken (mem_db 0) (demo_auth False) 7 ''password_reset'' 0 (seconds 600) ?T = (Inr raw, T')"
    by (simp add: issue_vtoken_def VerificationTokenRepository_InvalidateActiveByUserPurpose_def NewRandomString_def
        VerificationTokenRepository_Create_def demo_defs Let_def)
  then obtain raw T' where iss: "issue_vtoken (mem_db 0) (demo_auth False) 7 ''password_reset'' 0 (seconds 600) ?T = (Inr raw, T')"
    by blast
  have run: "ForgotLocalPassword (mem_db 0) (demo_auth False) ''a@b.c'' ?T = (Inr (), T')"
    unfolding ForgotLocalPassword_def Let_def demo_trim cred sum.case demo_auth_simps uid add_0 iss prod.case
    by (simp add: token_url_def TrimSpace_def demo_auth_simps)
  from forgot_password_one_active_token [OF mem_db.database_axioms run] run show ?thesis
    by (auto simp: demo_trim cred uid demo_auth_simps)
qed

theorem registration_effect_witness:
  "\<exists>l T' (u :: user). RegisterLocal (mem_db 0) (demo_auth True) ''x@b.c'' ''tok'' ''Str0ng-Password'' [] [] demo_tables = (Inr l, T')
     \<and> tb_users T' = [demo_user, u] \<and> u_Email u = ''x@b.c'' \<and> tb_sessions T' = []"
proof -
  obtain h where h: "HashPassword demo_idkey (Inr ''salt'') ''Str0ng-Password'' = Inr h" by (simp add: HashPassword_def)
  have val: "validateEmail (demo_auth True) ''x@b.c'' = Inr ()" by (simp add: validateEmail_def demo_auth_def)
  have none: "UserRepository_FindByEmail (mem_db 0) ''x@b.c'' demo_tables = Inl ErrRecordNotFound"
    by (simp add: UserRepository_FindByEmail_def demo_defs)
  have "\<exists>l T'. register_new (mem_db 0) (demo_auth True) ''x@b.c'' ''tok'' ''Str0ng-Password'' [] [] demo_tables = (Inr l, T')"
    unfolding register_new_def Let_def demo_auth_simps h
    by (simp add: UserRepository_Create_def add_default_role_def RoleRepository_FindByName_def
        LocalCredentialRepository_Create_def assignBootstrapAdminIfNeeded_def demo_auth_simps TrimSpace_def ToLower_def
        UserService_GetByID_def UserRepository_FindByID_def preload_roles_permissions_def preload_roles_def mem_links_def
        new_user_def stamp_user_def clash_user_def stamp_credential_def clash_credential_def demo_tables_def demo_cred_def
        demo_user_def mem_db_def mem_table_defs Let_def not_found_def)
  then obtain l T' where "register_new (mem_db 0) (demo_auth True) ''x@b.c'' ''tok'' ''Str0ng-Password'' [] [] demo_tables = (Inr l, T')"
    by blast
  then have run: "RegisterLocal (mem_db 0) (demo_auth True) ''x@b.c'' ''tok'' ''Str0ng-Password'' [] [] demo_tables = (Inr l, T')"
    by (simp add: RegisterLocal_def Let_def demo_auth_simps demo_trim val none demo_password)
  from registration_effect [OF mem_db.database_axioms run] run show ?thesis
    by (auto simp: demo_trim demo_auth_simps demo_tables_def)
qed

theorem google_login_checked_witness:
  "\<exists>res T'. LoginWithGoogleCode (mem_db 0) (demo_auth False) ''code'' [] [] demo_tables = (res, T') \<and> isl res \<and> T' = demo_tables"
proof -
  obtain res T' where run: "LoginWithGoogleCode (mem_db 0) (demo_auth False) ''code'' [] [] demo_tables = (res, T')"
    by (meson surj_pair)
  from google_login_checked [OF mem_db.database_axioms run] run show ?thesis by (simp add: demo_auth_def)
qed

theorem password_login_checked_witness:
  "\<exists>h l T'. HashPassword demo_idkey (Inr ''salt'') ''secret'' = Inr h
     \<and> LoginWithLocalPassword (mem_db 0) (demo_auth True) ''a@b.c'' ''secret'' [] []
          (demo_tables\<lparr>tb_creds := [demo_cred\<lparr>lc_PasswordHash := h\<rparr>]\<rparr>) = (Inr l, T')
     \<and> length (tb_sessions T') = 1"
proof -
  obtain h where h: "HashPassword demo_idkey (Inr ''salt'') ''secret'' = Inr h" by (simp add: HashPassword_def)
  let ?T = "demo_tables\<lparr>tb_creds := [demo_cred\<lparr>lc_PasswordHash := h\<rparr>]\<rparr>"
  have len: "length (demo_idkey p s t m th k) = k" for p s t m th k by (simp add: demo_idkey_def)
  obtain salt where "decodeHash h = Inr (argonMemory, argonTime, argonThreads, salt,
      demo_idkey ''secret'' salt argonTime argonMemory argonThreads argonKeyLen)"
    using h by (rule decodeHash_HashPassword)
  then have ver: "VerifyPassword demo_idkey h ''secret'' = Inr True"
    by (simp add: VerifyPassword_def len argonKeyLen_def)
  have cred: "LocalCredentialRepository_FindByEmail (mem_db 0) ''a@b.c'' ?T = Inr (demo_cred\<lparr>lc_PasswordHash := h\<rparr>)"
    by (simp add: LocalCredentialRepository_FindByEmail_def Let_def demo_trim) (simp add: demo_defs)
  have flags: "lc_UserID (demo_cred\<lparr>lc_PasswordHash := h\<rparr>) = 7" "lc_EmailVerified (demo_cred\<lparr>lc_PasswordHash := h\<rparr>)"
    "lc_PasswordHash (demo_cred\<lparr>lc_PasswordHash := h\<rparr>) = h" by (simp_all add: demo_cred_def)
  have get: "UserService_GetByID (mem_db 0) 7 ?T = Inr (demo_user, [])"
    by (simp add: UserService_GetByID_def UserRepository_FindByID_def preload_roles_permissions_def preload_roles_def
        mem_links_def PermissionsFromRoles_def demo_defs)
  obtain access csrf where mint: "mintTokenPair (demo_env ''t1'') demo_ts (\<lambda>_. 0) demo_user []
     = Inr (access, demo_refresh ''t1'', refresh_claims mem_jwt demo_manager (\<lambda>_. 0) ''t1'' 7 (seconds 600), csrf)"
    using demo_mint by blast
  have "\<exists>l T'. issue_login (mem_db 0) (demo_auth True) demo_user [] [] [] 0 ?T = (Inr l, T')"
    using mint
    by (simp add: issue_login_def demo_auth_simps TokenService_Issue_def demo_env_def [of "''t1''"] Let_def
        SessionRepository_Create_def mem_db_def mem_table_defs demo_tables_def)
  then obtain l T' where "issue_login (mem_db 0) (demo_auth True) demo_user [] [] [] 0 ?T = (Inr l, T')" by blast
  then have run: "LoginWithLocalPassword (mem_db 0) (demo_auth True) ''a@b.c'' ''secret'' [] [] ?T = (Inr l, T')"
    unfolding LoginWithLocalPassword_def Let_def demo_trim cred sum.case demo_auth_simps flags ver get prod.case
    by (simp add: demo_auth_simps demo_cred_def)
  from password_login_checked [OF mem_db.database_axioms run] have "length (tb_sessions T') = 1"
    by (auto simp: demo_tables_def)
  with h run show ?thesis by blast
qed

end
