(* ===== verification/Feature_Flags.thy ===== *)
theory Feature_Flags
  imports Identity_Repo Rbac Abuse_Guard
begin

section \<open>Feature flags: \<open>feature_flag_repository.go\<close>, \<open>feature_flag_service.go\<close>, \<open>feature_flag_cache_store*.go\<close>\<close>

text \<open>
  The repository of flags and their rules, the evaluation of a flag for a user, the validation of rules,
  and the service that evaluates through a cache (none, in memory or in Redis).

  The rules of a flag are rows of their own table; \<open>ff_Rules\<close> is filled in by \<open>Preload\<close>.  The table of
  rules references the flags with \<open>ON DELETE CASCADE\<close> (the tag of \<open>FeatureFlag.Rules\<close>), so that the
  database deletes the rules of a deleted flag.
\<close>

subsection \<open>\<open>GormFeatureFlagRepository\<close>\<close>

record flag_tables =
  ft_flags :: "feature_flag list"
  ft_rules :: "feature_flag_rule list"

text \<open>\<open>fd_key_le\<close> is the order of the database on strings, which depends on its collation.\<close>

record flag_db =
  fd_flags :: "feature_flag gorm"
  fd_rules :: "feature_flag_rule gorm"
  fd_key_le :: "string \<Rightarrow> string \<Rightarrow> bool"

definition rule_le :: "feature_flag_rule \<Rightarrow> feature_flag_rule \<Rightarrow> bool" where
  "rule_le a b \<longleftrightarrow> fr_Priority a < fr_Priority b \<or> fr_Priority a = fr_Priority b \<and> fr_ID a \<le> fr_ID b"

definition preload_rules :: "flag_db \<Rightarrow> flag_tables \<Rightarrow> feature_flag \<Rightarrow> feature_flag result" where
  "preload_rules D T f =
     (case gorm_FindOrder (fd_rules D) (\<lambda>r. fr_FeatureFlagID r = ff_ID f) rule_le (ft_rules T) of
        Inl e \<Rightarrow> Inl e | Inr rs \<Rightarrow> Inr (f\<lparr>ff_Rules := rs\<rparr>))"

definition FlagRepository_ListFlags :: "flag_db \<Rightarrow> flag_tables \<Rightarrow> feature_flag list result" where
  "FlagRepository_ListFlags D T =
     (case gorm_FindOrder (fd_flags D) (\<lambda>_. True) (\<lambda>a b. fd_key_le D (ff_Key a) (ff_Key b)) (ft_flags T) of
        Inl e \<Rightarrow> Inl e | Inr fs \<Rightarrow> map_result (preload_rules D T) fs)"

definition first_flag :: "flag_db \<Rightarrow> (feature_flag \<Rightarrow> bool) \<Rightarrow> flag_tables \<Rightarrow> feature_flag result" where
  "first_flag D p T =
     (case gorm_First (fd_flags D) p (ft_flags T) of
        Inl e \<Rightarrow> Inl (not_found ErrFeatureFlagNotFound e) | Inr f \<Rightarrow> preload_rules D T f)"

definition FlagRepository_FindFlagByID :: "flag_db \<Rightarrow> uint \<Rightarrow> flag_tables \<Rightarrow> feature_flag result" where
  "FlagRepository_FindFlagByID D i T = first_flag D (\<lambda>f. ff_ID f = i) T"

definition FlagRepository_FindFlagByKey :: "flag_db \<Rightarrow> string \<Rightarrow> flag_tables \<Rightarrow> feature_flag result" where
  "FlagRepository_FindFlagByKey D key T = first_flag D (\<lambda>f. ff_Key f = TrimSpace (ToLower key)) T"

text \<open>The caller's struct has no rules, so only a row of the table of flags is inserted.\<close>

definition FlagRepository_CreateFlag :: "flag_db \<Rightarrow> feature_flag \<Rightarrow> flag_tables \<Rightarrow> feature_flag result \<times> flag_tables" where
  "FlagRepository_CreateFlag D f T =
     (case gorm_Create (fd_flags D) f (ft_flags T) of
        Inl e \<Rightarrow> (Inl e, T) | Inr (f', t) \<Rightarrow> (Inr f', T\<lparr>ft_flags := t\<rparr>))"

definition FlagRepository_UpdateFlag :: "flag_db \<Rightarrow> feature_flag \<Rightarrow> flag_tables \<Rightarrow> unit result \<times> flag_tables" where
  "FlagRepository_UpdateFlag D f T =
     (case gorm_Updates (fd_flags D) (\<lambda>r. ff_ID r = ff_ID f)
             (\<lambda>r. r\<lparr>ff_Key := TrimSpace (ToLower (ff_Key f)), ff_Description := TrimSpace (ff_Description f),
                    ff_Enabled := ff_Enabled f\<rparr>) (ft_flags T) of
        Inl e \<Rightarrow> (Inl e, T)
      | Inr (n, t) \<Rightarrow> if n = 0 then (Inl ErrFeatureFlagNotFound, T\<lparr>ft_flags := t\<rparr>) else (Inr (), T\<lparr>ft_flags := t\<rparr>))"

definition FlagRepository_DeleteFlag :: "flag_db \<Rightarrow> uint \<Rightarrow> flag_tables \<Rightarrow> unit result \<times> flag_tables" where
  "FlagRepository_DeleteFlag D i T =
     (case gorm_Delete (fd_flags D) (\<lambda>r. ff_ID r = i) (ft_flags T) of
        Inl e \<Rightarrow> (Inl e, T)
      | Inr (n, t) \<Rightarrow>
          if n = 0 then (Inl ErrFeatureFlagNotFound, T\<lparr>ft_flags := t\<rparr>)
          else (Inr (), T\<lparr>ft_flags := t, ft_rules := filter (\<lambda>r. fr_FeatureFlagID r \<noteq> i) (ft_rules T)\<rparr>))"

definition FlagRepository_ListRules :: "flag_db \<Rightarrow> uint \<Rightarrow> flag_tables \<Rightarrow> feature_flag_rule list result" where
  "FlagRepository_ListRules D flagID T =
     gorm_FindOrder (fd_rules D) (\<lambda>r. fr_FeatureFlagID r = flagID) rule_le (ft_rules T)"

definition FlagRepository_CreateRule ::
    "flag_db \<Rightarrow> feature_flag_rule \<Rightarrow> flag_tables \<Rightarrow> feature_flag_rule result \<times> flag_tables" where
  "FlagRepository_CreateRule D r T =
     (case gorm_Create (fd_rules D) r (ft_rules T) of
        Inl e \<Rightarrow> (Inl e, T) | Inr (r', t) \<Rightarrow> (Inr r', T\<lparr>ft_rules := t\<rparr>))"

definition FlagRepository_UpdateRule :: "flag_db \<Rightarrow> feature_flag_rule \<Rightarrow> flag_tables \<Rightarrow> unit result \<times> flag_tables" where
  "FlagRepository_UpdateRule D rule T =
     (case gorm_Updates (fd_rules D) (\<lambda>r. fr_ID r = fr_ID rule \<and> fr_FeatureFlagID r = fr_FeatureFlagID rule)
             (\<lambda>r. r\<lparr>fr_Type := TrimSpace (ToLower (fr_Type rule)),
                    fr_MatchValue := TrimSpace (ToLower (fr_MatchValue rule)),
                    fr_Percentage := fr_Percentage rule, fr_Enabled := fr_Enabled rule,
                    fr_Priority := fr_Priority rule\<rparr>) (ft_rules T) of
        Inl e \<Rightarrow> (Inl e, T)
      | Inr (n, t) \<Rightarrow> if n = 0 then (Inl ErrFeatureFlagRuleNotFound, T\<lparr>ft_rules := t\<rparr>) else (Inr (), T\<lparr>ft_rules := t\<rparr>))"

definition FlagRepository_DeleteRule :: "flag_db \<Rightarrow> uint \<Rightarrow> uint \<Rightarrow> flag_tables \<Rightarrow> unit result \<times> flag_tables" where
  "FlagRepository_DeleteRule D flagID ruleID T =
     (case gorm_Delete (fd_rules D) (\<lambda>r. fr_ID r = ruleID \<and> fr_FeatureFlagID r = flagID) (ft_rules T) of
        Inl e \<Rightarrow> (Inl e, T)
      | Inr (n, t) \<Rightarrow> if n = 0 then (Inl ErrFeatureFlagRuleNotFound, T\<lparr>ft_rules := t\<rparr>) else (Inr (), T\<lparr>ft_rules := t\<rparr>))"

subsection \<open>Evaluation\<close>

record FeatureFlagEvaluationContext =
  ec_UserID :: uint
  ec_Roles :: "string list"
  ec_Org :: string
  ec_Environment :: string

record FeatureFlagEvaluationResult =
  er_Key :: string
  er_Enabled :: bool
  er_Source :: string
  er_Description :: string

definition bigEndian_Uint16 :: "char \<Rightarrow> char \<Rightarrow> nat" where
  "bigEndian_Uint16 a b = 256 * of_char a + of_char b"

text \<open>The loop of \<open>stablePercentBucket\<close> over the two-byte pieces of the digest.\<close>

fun bucket_loop :: "nat \<Rightarrow> string \<Rightarrow> nat option" where
  "bucket_loop bound (a # b # rest) =
     (let candidate = bigEndian_Uint16 a b
      in if candidate < bound then Some (candidate mod 100) else bucket_loop bound rest)"
| "bucket_loop bound _ = None"

definition stablePercentBucket :: "(string \<Rightarrow> string) \<Rightarrow> uint \<Rightarrow> uint \<Rightarrow> int" where
  "stablePercentBucket sha256 flagID userID =
     (let digest = sha256 (FormatUint flagID @ '':'' @ FormatUint userID);
          bound = 65535 - 65535 mod 100
      in case bucket_loop bound digest of
           Some b \<Rightarrow> int b
         | None \<Rightarrow> int (bigEndian_Uint16 (digest ! 0) (digest ! 1) mod 100))"

definition matchesRule :: "(string \<Rightarrow> string) \<Rightarrow> feature_flag_rule \<Rightarrow> FeatureFlagEvaluationContext \<Rightarrow> bool" where
  "matchesRule sha256 rule ctx =
     (if fr_Type rule = ''user'' then fr_MatchValue rule = FormatUint (ec_UserID ctx)
      else if fr_Type rule = ''role'' then
        (let target = ToLower (TrimSpace (fr_MatchValue rule))
         in list_ex (\<lambda>role. ToLower (TrimSpace role) = target) (ec_Roles ctx))
      else if fr_Type rule = ''org'' then EqualFold (TrimSpace (fr_MatchValue rule)) (TrimSpace (ec_Org ctx))
      else if fr_Type rule = ''environment'' then
        EqualFold (TrimSpace (fr_MatchValue rule)) (TrimSpace (ec_Environment ctx))
      else if fr_Type rule = ''percent'' then
        (if fr_Percentage rule \<le> 0 \<or> ec_UserID ctx = 0 then False
         else if fr_Percentage rule \<ge> 100 then True
         else stablePercentBucket sha256 (fr_FeatureFlagID rule) (ec_UserID ctx) < fr_Percentage rule)
      else False)"

text \<open>\<open>None\<close> is the result \<open>false, false\<close>, and \<open>Some v\<close> is \<open>true, v\<close>.\<close>

fun evaluateRuleByType ::
    "(string \<Rightarrow> string) \<Rightarrow> feature_flag_rule list \<Rightarrow> string \<Rightarrow> FeatureFlagEvaluationContext \<Rightarrow> bool option" where
  "evaluateRuleByType sha256 [] ruleType ctx = None"
| "evaluateRuleByType sha256 (rule # rules) ruleType ctx =
     (if fr_Type rule \<noteq> ruleType then evaluateRuleByType sha256 rules ruleType ctx
      else if matchesRule sha256 rule ctx then Some (fr_Enabled rule)
      else evaluateRuleByType sha256 rules ruleType ctx)"

definition rule_lt :: "feature_flag_rule \<Rightarrow> feature_flag_rule \<Rightarrow> bool" where
  "rule_lt a b = (if fr_Priority a = fr_Priority b then fr_ID a < fr_ID b else fr_Priority a < fr_Priority b)"

definition evaluateFeatureFlag ::
    "(string \<Rightarrow> string) \<Rightarrow> feature_flag \<Rightarrow> FeatureFlagEvaluationContext \<Rightarrow> bool \<times> string" where
  "evaluateFeatureFlag sha256 flag ctx =
     (let rules = SliceStable rule_lt (ff_Rules flag) in
      case evaluateRuleByType sha256 rules ''user'' ctx of Some v \<Rightarrow> (v, ''rule:user'')
      | None \<Rightarrow> (case evaluateRuleByType sha256 rules ''role'' ctx of Some v \<Rightarrow> (v, ''rule:role'')
      | None \<Rightarrow> (case evaluateRuleByType sha256 rules ''org'' ctx of Some v \<Rightarrow> (v, ''rule:org'')
      | None \<Rightarrow> (case evaluateRuleByType sha256 rules ''environment'' ctx of Some v \<Rightarrow> (v, ''rule:environment'')
      | None \<Rightarrow> (case evaluateRuleByType sha256 rules ''percent'' ctx of Some v \<Rightarrow> (v, ''rule:percent'')
      | None \<Rightarrow> (ff_Enabled flag, ''default''))))))"

text \<open>The rule is normalised in place: the rule afterwards is part of the result, also on an error.\<close>

definition normalizeAndValidateRule :: "feature_flag_rule \<Rightarrow> unit result \<times> feature_flag_rule" where
  "normalizeAndValidateRule rule0 =
     (let rule = rule0\<lparr>fr_Type := TrimSpace (ToLower (fr_Type rule0)),
                       fr_MatchValue := TrimSpace (ToLower (fr_MatchValue rule0)),
                       fr_Priority := (if fr_Priority rule0 = 0 then 100 else fr_Priority rule0)\<rparr>
      in if fr_Type rule \<in> {''user'', ''role'', ''org'', ''environment''} then
           (if fr_MatchValue rule = [] then (Inl ErrFeatureFlagInvalidRuleValue, rule)
            else (Inr (), rule\<lparr>fr_Percentage := 0\<rparr>))
         else if fr_Type rule = ''percent'' then
           (if fr_Percentage rule < 0 \<or> fr_Percentage rule > 100 then (Inl ErrFeatureFlagInvalidRuleValue, rule)
            else (Inr (), rule\<lparr>fr_MatchValue := []\<rparr>))
         else (Inl ErrFeatureFlagInvalidRuleType, rule))"

definition buildFeatureFlagCacheKey :: "FeatureFlagEvaluationContext \<Rightarrow> string" where
  "buildFeatureFlagCacheKey ctx =
     ''u:'' @ FormatUint (ec_UserID ctx)
     @ ''|roles:'' @ Join (sort (map (\<lambda>r. TrimSpace (ToLower r)) (ec_Roles ctx))) '',''
     @ ''|org:'' @ TrimSpace (ToLower (ec_Org ctx))
     @ ''|env:'' @ TrimSpace (ToLower (ec_Environment ctx))"

subsection \<open>The caches of evaluations\<close>

record 's flag_cache =
  fc_Get :: "gotime \<Rightarrow> string \<Rightarrow> 's \<Rightarrow> string option result \<times> 's"
  fc_Set :: "gotime \<Rightarrow> string \<Rightarrow> string \<Rightarrow> duration \<Rightarrow> 's \<Rightarrow> unit result \<times> 's"
  fc_InvalidateUser :: "gotime \<Rightarrow> uint \<Rightarrow> 's \<Rightarrow> unit result \<times> 's"
  fc_InvalidateAll :: "gotime \<Rightarrow> 's \<Rightarrow> unit result \<times> 's"

definition NoopFeatureFlagEvaluationCacheStore :: "'s flag_cache" where
  "NoopFeatureFlagEvaluationCacheStore =
     \<lparr>fc_Get = (\<lambda>_ _ s. (Inr None, s)), fc_Set = (\<lambda>_ _ _ _ s. (Inr (), s)),
      fc_InvalidateUser = (\<lambda>_ _ s. (Inr (), s)), fc_InvalidateAll = (\<lambda>_ s. (Inr (), s))\<rparr>"

record featureFlagCacheEntry =
  fe_payload :: string
  fe_expiresAt :: gotime

type_synonym flag_mem = "string \<Rightarrow> featureFlagCacheEntry option"

definition InMemoryFlagCache_Get :: "gotime \<Rightarrow> string \<Rightarrow> flag_mem \<Rightarrow> string option result \<times> flag_mem" where
  "InMemoryFlagCache_Get now key s =
     (case s key of
        None \<Rightarrow> (Inr None, s)
      | Some entry \<Rightarrow>
          if now > fe_expiresAt entry then (Inr None, s(key := None))
          else (Inr (Some (fe_payload entry)), s))"

definition InMemoryFlagCache_Set ::
    "gotime \<Rightarrow> string \<Rightarrow> string \<Rightarrow> duration \<Rightarrow> flag_mem \<Rightarrow> unit result \<times> flag_mem" where
  "InMemoryFlagCache_Set now key v ttl s =
     (if ttl \<le> 0 then (Inr (), s)
      else (Inr (), s(key \<mapsto> \<lparr>fe_payload = v, fe_expiresAt = now + ttl\<rparr>)))"

text \<open>
  \<open>uintString\<close> fills a buffer of twenty bytes from the end; \<open>i\<close> is the index of the first byte written
  so far, and \<open>None\<close> is the panic of a write before the buffer.
\<close>

fun uintString_loop :: "nat \<Rightarrow> nat \<Rightarrow> string \<Rightarrow> string option" where
  "uintString_loop i v buf =
     (if v = 0 then Some buf
      else if i = 0 then None
      else uintString_loop (i - 1) (v div 10) (char_of (48 + v mod 10) # buf))"

declare uintString_loop.simps [simp del]

definition uintString :: "uint \<Rightarrow> string option" where
  "uintString v = (if v = 0 then Some ''0'' else uintString_loop 20 v [])"

definition InMemoryFlagCache_InvalidateUser :: "gotime \<Rightarrow> uint \<Rightarrow> flag_mem \<Rightarrow> unit result \<times> flag_mem" where
  "InMemoryFlagCache_InvalidateUser now userID s =
     (case uintString userID of
        None \<Rightarrow> (Inl (External ''index out of range''), s)
      | Some u \<Rightarrow> (let pfx = ''u:'' @ u @ ''|'' in (Inr (), \<lambda>key. if prefix pfx key then None else s key)))"

definition InMemoryFlagCache_InvalidateAll :: "gotime \<Rightarrow> flag_mem \<Rightarrow> unit result \<times> flag_mem" where
  "InMemoryFlagCache_InvalidateAll now s = (Inr (), \<lambda>_. None)"

definition InMemoryFeatureFlagEvaluationCacheStore :: "flag_mem flag_cache" where
  "InMemoryFeatureFlagEvaluationCacheStore =
     \<lparr>fc_Get = InMemoryFlagCache_Get, fc_Set = InMemoryFlagCache_Set,
      fc_InvalidateUser = InMemoryFlagCache_InvalidateUser, fc_InvalidateAll = InMemoryFlagCache_InvalidateAll\<rparr>"

text \<open>
  In Redis, with the index sets by which entries are found again.  \<open>tick\<close> is the clock of the server and
  the client is present, as the application makes it.
\<close>

definition flag_dataKey :: "(string \<Rightarrow> string) \<Rightarrow> string \<Rightarrow> string \<Rightarrow> string" where
  "flag_dataKey sha256 pfx cacheKey = pfx @ '':data:'' @ hashToken sha256 cacheKey"

definition flag_allIndexKey :: "string \<Rightarrow> string" where
  "flag_allIndexKey pfx = pfx @ '':index:all''"

definition flag_userIndexKey :: "string \<Rightarrow> uint \<Rightarrow> string" where
  "flag_userIndexKey pfx userID = pfx @ '':index:user:'' @ FormatUint userID"

definition userIndexKeyFromCacheKey :: "string \<Rightarrow> string \<Rightarrow> string" where
  "userIndexKeyFromCacheKey pfx cacheKey =
     (if \<not> HasPrefix cacheKey ''u:'' then []
      else (let rest = drop 2 cacheKey; uid = takeWhile (\<lambda>c. c \<noteq> CHR ''|'') rest
            in if CHR ''|'' \<notin> set rest \<or> uid = [] then [] else pfx @ '':index:user:'' @ uid))"

definition RedisFlagCache_Get ::
    "'r redis \<Rightarrow> (gotime \<Rightarrow> int) \<Rightarrow> (string \<Rightarrow> string) \<Rightarrow> string \<Rightarrow> gotime \<Rightarrow> string \<Rightarrow> 'r \<times> net list
     \<Rightarrow> string option result \<times> 'r \<times> net list" where
  "RedisFlagCache_Get R tick sha256 pfx now key s =
     redis_io (\<lambda>r. (rd_GET R (tick now) (flag_dataKey sha256 pfx key) r, r)) s"

definition index_add :: "'r redis \<Rightarrow> int \<Rightarrow> string \<Rightarrow> string \<Rightarrow> duration \<Rightarrow> 'r \<Rightarrow> 'r" where
  "index_add R t indexKey dataKey ttl r =
     rd_PEXPIRE R t indexKey (redis_ttl (ttl + minutes 1)) (rd_SADD R t indexKey dataKey r)"

definition RedisFlagCache_Set ::
    "'r redis \<Rightarrow> (gotime \<Rightarrow> int) \<Rightarrow> (string \<Rightarrow> string) \<Rightarrow> string \<Rightarrow> gotime \<Rightarrow> string \<Rightarrow> string \<Rightarrow> duration \<Rightarrow> 'r \<times> net list
     \<Rightarrow> unit result \<times> 'r \<times> net list" where
  "RedisFlagCache_Set R tick sha256 pfx now key v ttl s =
     (if ttl \<le> 0 then (Inr (), s)
      else (let dataKey = flag_dataKey sha256 pfx key; userIndex = userIndexKeyFromCacheKey pfx key in
            redis_io (\<lambda>r. ((),
              let r1 = rd_SET R (tick now) dataKey v (Some (redis_ttl ttl)) r;
                  r2 = index_add R (tick now) (flag_allIndexKey pfx) dataKey ttl r1
              in if userIndex \<noteq> [] then index_add R (tick now) userIndex dataKey ttl r2 else r2)) s))"

text \<open>The entries an index lists are deleted, and then the index.\<close>

definition drop_index ::
    "'r redis \<Rightarrow> (gotime \<Rightarrow> int) \<Rightarrow> string \<Rightarrow> gotime \<Rightarrow> 'r \<times> net list \<Rightarrow> unit result \<times> 'r \<times> net list" where
  "drop_index R tick indexKey now s =
     (case redis_io (\<lambda>r. (rd_SMEMBERS R (tick now) indexKey r, r)) s of
        (Inl e, s1) \<Rightarrow> (Inl e, s1)
      | (Inr keys, s1) \<Rightarrow>
          redis_io (\<lambda>r. ((), rd_DEL R [indexKey] (if keys \<noteq> [] then rd_DEL R keys r else r))) s1)"

definition RedisFlagCache_InvalidateUser ::
    "'r redis \<Rightarrow> (gotime \<Rightarrow> int) \<Rightarrow> string \<Rightarrow> gotime \<Rightarrow> uint \<Rightarrow> 'r \<times> net list \<Rightarrow> unit result \<times> 'r \<times> net list" where
  "RedisFlagCache_InvalidateUser R tick pfx now userID s = drop_index R tick (flag_userIndexKey pfx userID) now s"

definition RedisFlagCache_InvalidateAll ::
    "'r redis \<Rightarrow> (gotime \<Rightarrow> int) \<Rightarrow> string \<Rightarrow> gotime \<Rightarrow> 'r \<times> net list \<Rightarrow> unit result \<times> 'r \<times> net list" where
  "RedisFlagCache_InvalidateAll R tick pfx now s = drop_index R tick (flag_allIndexKey pfx) now s"

definition RedisFeatureFlagEvaluationCacheStore ::
    "'r redis \<Rightarrow> (gotime \<Rightarrow> int) \<Rightarrow> (string \<Rightarrow> string) \<Rightarrow> string \<Rightarrow> ('r \<times> net list) flag_cache" where
  "RedisFeatureFlagEvaluationCacheStore R tick sha256 prefix0 =
     (let pfx = (if prefix0 = [] then ''feature_flag_eval_cache'' else prefix0) in
      \<lparr>fc_Get = RedisFlagCache_Get R tick sha256 pfx, fc_Set = RedisFlagCache_Set R tick sha256 pfx,
       fc_InvalidateUser = RedisFlagCache_InvalidateUser R tick pfx,
       fc_InvalidateAll = RedisFlagCache_InvalidateAll R tick pfx\<rparr>)"

subsection \<open>\<open>DefaultFeatureFlagService\<close>\<close>

text \<open>
  The service: its cache, the digest and the JSON encoding of the cached payload.  The time to live of
  an entry is fixed at thirty seconds by the constructor.
\<close>

record 's flag_service =
  fs_cache :: "'s flag_cache"
  fs_sha256 :: "string \<Rightarrow> string"
  fs_marshal :: "FeatureFlagEvaluationResult list \<Rightarrow> string"
  fs_unmarshal :: "string \<Rightarrow> FeatureFlagEvaluationResult list option"

definition flag_cacheTTL :: duration where
  "flag_cacheTTL = seconds 30"

definition readCachedEvaluation ::
    "'s flag_service \<Rightarrow> gotime \<Rightarrow> string \<Rightarrow> 's \<Rightarrow> FeatureFlagEvaluationResult list option \<times> 's" where
  "readCachedEvaluation F now key s =
     (case fc_Get (fs_cache F) now key s of
        (Inr (Some raw), s') \<Rightarrow> (fs_unmarshal F raw, s')
      | (_, s') \<Rightarrow> (None, s'))"

definition writeCachedEvaluation ::
    "'s flag_service \<Rightarrow> gotime \<Rightarrow> string \<Rightarrow> FeatureFlagEvaluationResult list \<Rightarrow> 's \<Rightarrow> unit result \<times> 's" where
  "writeCachedEvaluation F now key values s = fc_Set (fs_cache F) now key (fs_marshal F values) flag_cacheTTL s"

definition evaluation_of ::
    "(string \<Rightarrow> string) \<Rightarrow> FeatureFlagEvaluationContext \<Rightarrow> feature_flag \<Rightarrow> FeatureFlagEvaluationResult" where
  "evaluation_of sha256 ctx flag =
     (case evaluateFeatureFlag sha256 flag ctx of (enabled, source) \<Rightarrow>
        \<lparr>er_Key = ff_Key flag, er_Enabled = enabled, er_Source = source, er_Description = ff_Description flag\<rparr>)"

text \<open>
  \<open>sort.Slice\<close> is not stable; as the keys of flags are unique, its result is that of \<open>SliceStable\<close>.
\<close>

definition FlagService_EvaluateAll ::
    "'s flag_service \<Rightarrow> flag_db \<Rightarrow> clock \<Rightarrow> FeatureFlagEvaluationContext \<Rightarrow> flag_tables \<Rightarrow> 's
     \<Rightarrow> FeatureFlagEvaluationResult list result \<times> 's" where
  "FlagService_EvaluateAll F D clk ctx T s =
     (let cacheKey = buildFeatureFlagCacheKey ctx in
      case readCachedEvaluation F (clk 0) cacheKey s of
        (Some values, s1) \<Rightarrow> (Inr values, s1)
      | (None, s1) \<Rightarrow>
          (case FlagRepository_ListFlags D T of
             Inl e \<Rightarrow> (Inl e, s1)
           | Inr flags \<Rightarrow>
               (let results = SliceStable (\<lambda>a b. er_Key a < er_Key b) (map (evaluation_of (fs_sha256 F) ctx) flags)
                in (Inr results, snd (writeCachedEvaluation F (clk 1) cacheKey results s1)))))"

definition FlagService_EvaluateByKey ::
    "'s flag_service \<Rightarrow> flag_db \<Rightarrow> string \<Rightarrow> FeatureFlagEvaluationContext \<Rightarrow> flag_tables \<Rightarrow> FeatureFlagEvaluationResult result" where
  "FlagService_EvaluateByKey F D key ctx T =
     (case FlagRepository_FindFlagByKey D (TrimSpace (ToLower key)) T of
        Inl e \<Rightarrow> Inl e | Inr flag \<Rightarrow> Inr (evaluation_of (fs_sha256 F) ctx flag))"

definition FlagService_ListFlags :: "flag_db \<Rightarrow> flag_tables \<Rightarrow> feature_flag list result" where
  "FlagService_ListFlags D T = FlagRepository_ListFlags D T"

definition FlagService_GetFlagByID :: "flag_db \<Rightarrow> uint \<Rightarrow> flag_tables \<Rightarrow> feature_flag result" where
  "FlagService_GetFlagByID D i T = FlagRepository_FindFlagByID D i T"

definition FlagService_ListRules :: "flag_db \<Rightarrow> uint \<Rightarrow> flag_tables \<Rightarrow> feature_flag_rule list result" where
  "FlagService_ListRules D flagID T = FlagRepository_ListRules D flagID T"

text \<open>
  The operations that change flags or rules; the tables and the cache are returned beside the result.
  \<open>then_invalidate\<close> is their common end.
\<close>

definition then_invalidate ::
    "'s flag_service \<Rightarrow> gotime \<Rightarrow> 'a result \<times> flag_tables \<Rightarrow> 's \<Rightarrow> unit result \<times> flag_tables \<times> 's" where
  "then_invalidate F now out s =
     (case out of
        (Inl e, T) \<Rightarrow> (Inl e, T, s)
      | (Inr _, T) \<Rightarrow> (case fc_InvalidateAll (fs_cache F) now s of (r, s') \<Rightarrow> (r, T, s')))"

definition FlagService_CreateFlag ::
    "'s flag_service \<Rightarrow> flag_db \<Rightarrow> gotime \<Rightarrow> feature_flag \<Rightarrow> flag_tables \<Rightarrow> 's \<Rightarrow> unit result \<times> flag_tables \<times> 's" where
  "FlagService_CreateFlag F D now flag T s =
     (let key = TrimSpace (ToLower (ff_Key flag)) in
      if key = [] then (Inl ErrFeatureFlagInvalidRuleValue, T, s)
      else then_invalidate F now (FlagRepository_CreateFlag D (flag\<lparr>ff_Key := key\<rparr>) T) s)"

definition FlagService_UpdateFlag ::
    "'s flag_service \<Rightarrow> flag_db \<Rightarrow> gotime \<Rightarrow> feature_flag \<Rightarrow> flag_tables \<Rightarrow> 's \<Rightarrow> unit result \<times> flag_tables \<times> 's" where
  "FlagService_UpdateFlag F D now flag T s =
     (let key = TrimSpace (ToLower (ff_Key flag)) in
      if key = [] then (Inl ErrFeatureFlagInvalidRuleValue, T, s)
      else then_invalidate F now (FlagRepository_UpdateFlag D (flag\<lparr>ff_Key := key\<rparr>) T) s)"

definition FlagService_DeleteFlag ::
    "'s flag_service \<Rightarrow> flag_db \<Rightarrow> gotime \<Rightarrow> uint \<Rightarrow> flag_tables \<Rightarrow> 's \<Rightarrow> unit result \<times> flag_tables \<times> 's" where
  "FlagService_DeleteFlag F D now i T s = then_invalidate F now (FlagRepository_DeleteFlag D i T) s"

definition FlagService_CreateRule ::
    "'s flag_service \<Rightarrow> flag_db \<Rightarrow> gotime \<Rightarrow> feature_flag_rule \<Rightarrow> flag_tables \<Rightarrow> 's \<Rightarrow> unit result \<times> flag_tables \<times> 's" where
  "FlagService_CreateRule F D now rule T s =
     (case normalizeAndValidateRule rule of
        (Inl e, _) \<Rightarrow> (Inl e, T, s)
      | (Inr _, rule') \<Rightarrow> then_invalidate F now (FlagRepository_CreateRule D rule' T) s)"

definition FlagService_UpdateRule ::
    "'s flag_service \<Rightarrow> flag_db \<Rightarrow> gotime \<Rightarrow> feature_flag_rule \<Rightarrow> flag_tables \<Rightarrow> 's \<Rightarrow> unit result \<times> flag_tables \<times> 's" where
  "FlagService_UpdateRule F D now rule T s =
     (case normalizeAndValidateRule rule of
        (Inl e, _) \<Rightarrow> (Inl e, T, s)
      | (Inr _, rule') \<Rightarrow> then_invalidate F now (FlagRepository_UpdateRule D rule' T) s)"

definition FlagService_DeleteRule ::
    "'s flag_service \<Rightarrow> flag_db \<Rightarrow> gotime \<Rightarrow> uint \<Rightarrow> uint \<Rightarrow> flag_tables \<Rightarrow> 's \<Rightarrow> unit result \<times> flag_tables \<times> 's" where
  "FlagService_DeleteRule F D now flagID ruleID T s = then_invalidate F now (FlagRepository_DeleteRule D flagID ruleID T) s"

end
