(* ===== verification/Flag_Consistency.thy ===== *)
theory Flag_Consistency
  imports Feature_Flags
begin

section \<open>What a flag evaluates to, and that cached evaluations are current\<close>

text \<open>
  The evaluation of a flag is the verdict of one rule, the least one that matches in the order of rule
  type, priority and identity: sorting and five passes are the same as one pass for that rule.
  Then: the rules stored by the service are valid; the cache key of a context determines the evaluation
  of every flag as long as roles and organisation contain no separator; and a service with a cache
  answers \<open>EvaluateAll\<close> as the tables demand.
\<close>

subsection \<open>Sorting and searching\<close>

text \<open>The first least element that satisfies \<open>P\<close>, in one pass.\<close>

fun best_by :: "('a \<Rightarrow> bool) \<Rightarrow> ('a \<Rightarrow> 'a \<Rightarrow> bool) \<Rightarrow> 'a list \<Rightarrow> 'a option" where
  "best_by P le [] = None"
| "best_by P le (x # xs) =
     (case best_by P le xs of
        None \<Rightarrow> if P x then Some x else None
      | Some y \<Rightarrow> if P x \<and> le x y then Some x else Some y)"

lemma best_by_None: "best_by P le xs = None \<longleftrightarrow> (\<forall>x \<in> set xs. \<not> P x)"
  by (induction xs) (auto split: option.splits)

lemma best_by_Some: "best_by P le xs = Some y \<Longrightarrow> y \<in> set xs \<and> P y"
  by (induction xs arbitrary: y) (auto split: option.splits if_splits)

lemma find_insert_by:
  assumes "total_preorder le" and "sorted_wrt le ys"
  shows "find P (insert_by le x ys) =
    (case find P ys of None \<Rightarrow> if P x then Some x else None
     | Some y \<Rightarrow> if P x \<and> le x y then Some x else Some y)"
  using assms(2)
proof (induction ys)
  case Nil
  then show ?case by simp
next
  case (Cons y ys)
  have "le x z" if "le x y" "find P ys = Some z" for z
    using that Cons.prems assms(1) by (auto simp: total_preorder_def find_Some_iff)
  with Cons show ?case by (auto split: option.splits)
qed

lemma find_sort_by: "total_preorder le \<Longrightarrow> find P (sort_by le xs) = best_by P le xs"
proof (induction xs)
  case Nil
  then show ?case by (simp add: sort_by_def)
next
  case (Cons x xs)
  then have "find P (insert_by le x (sort_by le xs)) = best_by P le (x # xs)"
    by (simp add: find_insert_by sorted_sort_by)
  then show ?case by (simp add: sort_by_def)
qed

text \<open>Two sorted arrangements of the same elements are equal when the order tells the elements apart.\<close>

lemma sorted_unique:
  assumes "sorted_wrt le xs" "sorted_wrt le ys" "mset xs = mset ys"
    and "\<And>a b. a \<in> set xs \<Longrightarrow> b \<in> set xs \<Longrightarrow> le a b \<Longrightarrow> le b a \<Longrightarrow> a = b"
  shows "xs = ys"
  using assms
proof (induction xs arbitrary: ys)
  case Nil
  then show ?case by simp
next
  case (Cons x xs)
  then obtain y zs where ys: "ys = y # zs" by (cases ys) auto
  have sets: "set (x # xs) = set (y # zs)" using Cons.prems(3) ys by (metis mset_eq_setD)
  have "x = y"
  proof (rule ccontr)
    assume ne: "x \<noteq> y"
    with sets have "x \<in> set zs" "y \<in> set xs" by auto
    with Cons.prems(1,2) ys have "le x y" "le y x" by auto
    with Cons.prems(4) ne \<open>y \<in> set xs\<close> show False by simp
  qed
  moreover have "xs = zs"
    using Cons.IH [of zs] Cons.prems ys \<open>x = y\<close> by simp
  ultimately show ?case using ys by simp
qed

lemma rule_le_preorder: "total_preorder rule_le"
  by (rule total_preorderI) (auto simp: rule_le_def)

lemma SliceStable_rules: "SliceStable rule_lt rs = sort_by rule_le rs"
proof -
  have "(\<lambda>x y. \<not> rule_lt y x) = rule_le"
    by (intro ext) (auto simp: rule_lt_def rule_le_def)
  then show ?thesis by (simp add: SliceStable_def)
qed

subsection \<open>The verdict\<close>

definition type_rank :: "string \<Rightarrow> nat" where
  "type_rank t = (if t = ''user'' then 0 else if t = ''role'' then 1 else if t = ''org'' then 2
                  else if t = ''environment'' then 3 else 4)"

definition outranks :: "feature_flag_rule \<Rightarrow> feature_flag_rule \<Rightarrow> bool" where
  "outranks a b \<longleftrightarrow> type_rank (fr_Type a) < type_rank (fr_Type b)
     \<or> type_rank (fr_Type a) = type_rank (fr_Type b) \<and> rule_le a b"

definition flag_verdict ::
    "(string \<Rightarrow> string) \<Rightarrow> feature_flag \<Rightarrow> FeatureFlagEvaluationContext \<Rightarrow> bool \<times> string" where
  "flag_verdict sha256 flag ctx =
     (case best_by (\<lambda>r. matchesRule sha256 r ctx) outranks (ff_Rules flag) of
        None \<Rightarrow> (ff_Enabled flag, ''default'')
      | Some r \<Rightarrow> (fr_Enabled r, ''rule:'' @ fr_Type r))"

lemma evaluateRuleByType_find:
  "evaluateRuleByType sha256 rs ty ctx =
     map_option fr_Enabled (find (\<lambda>r. fr_Type r = ty \<and> matchesRule sha256 r ctx) rs)"
  by (induction rs) auto

lemma matchesRule_type:
  "matchesRule sha256 r ctx \<Longrightarrow> fr_Type r \<in> {''user'', ''role'', ''org'', ''environment'', ''percent''}"
  by (auto simp: matchesRule_def split: if_splits)

text \<open>Passes over disjoint classes of elements, one class after the other.\<close>

lemma best_by_ranked:
  fixes rank :: "'a \<Rightarrow> nat"
  assumes tot: "total_preorder le"
    and P: "\<And>x. P x \<longleftrightarrow> Q x \<or> R x" and lo: "\<And>x y. Q x \<Longrightarrow> R y \<Longrightarrow> rank x < rank y"
    and Q: "\<And>x y. Q x \<Longrightarrow> Q y \<Longrightarrow> rank x = rank y"
  defines "ranked \<equiv> \<lambda>a b. rank a < rank b \<or> rank a = rank b \<and> le a b"
  shows "best_by P ranked xs = (case best_by Q le xs of Some y \<Rightarrow> Some y | None \<Rightarrow> best_by R ranked xs)"
proof (induction xs)
  case Nil
  then show ?case by simp
next
  case (Cons x xs)
  show ?case
  proof (cases "best_by Q le xs")
    case None
    show ?thesis
    proof (cases "best_by R ranked xs")
      case None
      then show ?thesis using Cons \<open>best_by Q le xs = None\<close> P lo by (auto simp: ranked_def)
    next
      case (Some z)
      then have "R z" using best_by_Some by fastforce
      with Some show ?thesis using Cons \<open>best_by Q le xs = None\<close> P lo [of x z] by (auto simp: ranked_def)
    qed
  next
    case (Some y)
    then have y: "Q y" using best_by_Some by fastforce
    have "P x \<and> ranked x y \<longleftrightarrow> Q x \<and> le x y"
      using P lo [OF y, of x] Q [OF _ y, of x] by (auto simp: ranked_def)
    with Some y show ?thesis using Cons by (auto simp: P)
  qed
qed

lemma best_by_type:
  assumes "list_all (\<lambda>u. type_rank ty < type_rank u) tys"
  shows "best_by (\<lambda>r. fr_Type r \<in> set (ty # tys) \<and> matchesRule sha256 r ctx) outranks xs =
    (case best_by (\<lambda>r. fr_Type r = ty \<and> matchesRule sha256 r ctx) rule_le xs of
       Some r \<Rightarrow> Some r
     | None \<Rightarrow> best_by (\<lambda>r. fr_Type r \<in> set tys \<and> matchesRule sha256 r ctx) outranks xs)"
proof -
  have out: "outranks = (\<lambda>a b. type_rank (fr_Type a) < type_rank (fr_Type b)
      \<or> type_rank (fr_Type a) = type_rank (fr_Type b) \<and> rule_le a b)"
    by (intro ext) (simp add: outranks_def)
  show ?thesis
    unfolding out by (rule best_by_ranked [OF rule_le_preorder]) (use assms in \<open>auto simp: list_all_iff\<close>)
qed

lemma evaluate_is_verdict: "evaluateFeatureFlag sha256 flag ctx = flag_verdict sha256 flag ctx"
proof -
  let ?types = "[''user'', ''role'', ''org'', ''environment'', ''percent'']"
  have all: "(\<lambda>r. matchesRule sha256 r ctx) = (\<lambda>r. fr_Type r \<in> set ?types \<and> matchesRule sha256 r ctx)"
    using matchesRule_type by fastforce
  have eval: "evaluateRuleByType sha256 (SliceStable rule_lt (ff_Rules flag)) ty ctx =
      map_option fr_Enabled (best_by (\<lambda>r. fr_Type r = ty \<and> matchesRule sha256 r ctx) rule_le (ff_Rules flag))" for ty
    by (simp add: evaluateRuleByType_find SliceStable_rules find_sort_by rule_le_preorder)
  have ty: "fr_Type r = ty" if "best_by (\<lambda>r. fr_Type r = ty \<and> matchesRule sha256 r ctx) rule_le xs = Some r" for r ty xs
    using best_by_Some [OF that] by simp
  have none: "best_by (\<lambda>r. fr_Type r \<in> set [] \<and> matchesRule sha256 r ctx) outranks xs = None" for xs
    by (simp add: best_by_None)
  have "best_by (\<lambda>r. matchesRule sha256 r ctx) outranks xs =
     (case best_by (\<lambda>r. fr_Type r = ''user'' \<and> matchesRule sha256 r ctx) rule_le xs of Some r \<Rightarrow> Some r | None \<Rightarrow>
     (case best_by (\<lambda>r. fr_Type r = ''role'' \<and> matchesRule sha256 r ctx) rule_le xs of Some r \<Rightarrow> Some r | None \<Rightarrow>
     (case best_by (\<lambda>r. fr_Type r = ''org'' \<and> matchesRule sha256 r ctx) rule_le xs of Some r \<Rightarrow> Some r | None \<Rightarrow>
     (case best_by (\<lambda>r. fr_Type r = ''environment'' \<and> matchesRule sha256 r ctx) rule_le xs of Some r \<Rightarrow> Some r | None \<Rightarrow>
     (case best_by (\<lambda>r. fr_Type r = ''percent'' \<and> matchesRule sha256 r ctx) rule_le xs of Some r \<Rightarrow> Some r | None \<Rightarrow> None)))))" for xs
    unfolding all
    by (subst best_by_type, simp add: type_rank_def)+ (simp only: none)
  then show ?thesis
    by (auto simp: evaluateFeatureFlag_def flag_verdict_def eval Let_def split: option.splits dest!: ty)
qed

text \<open>
  The verdict depends on the rules as a set with distinct identities, not on the order in which the
  database lists them.
\<close>

lemma evaluate_mset:
  assumes "mset (ff_Rules f) = mset (ff_Rules g)" "distinct (map fr_ID (ff_Rules f))" "ff_Enabled f = ff_Enabled g"
  shows "evaluateFeatureFlag sha256 f ctx = evaluateFeatureFlag sha256 g ctx"
proof -
  have "sort_by rule_le (ff_Rules f) = sort_by rule_le (ff_Rules g)"
  proof (rule sorted_unique)
    show "a = b" if "a \<in> set (sort_by rule_le (ff_Rules f))" "b \<in> set (sort_by rule_le (ff_Rules f))"
      "rule_le a b" "rule_le b a" for a b
      using that assms(2) by (auto simp: rule_le_def dest: inj_onD simp: distinct_map)
  qed (simp_all add: sorted_sort_by rule_le_preorder assms(1))
  then show ?thesis by (simp only: evaluateFeatureFlag_def SliceStable_rules assms(3))
qed

subsection \<open>What the cache key says of a context\<close>

abbreviation folded :: "string \<Rightarrow> string" where
  "folded s \<equiv> TrimSpace (ToLower s)"

lemma matchesRule_folded:
  assumes "ec_UserID c = ec_UserID d" "folded ` set (ec_Roles c) = folded ` set (ec_Roles d)"
    "folded (ec_Org c) = folded (ec_Org d)" "folded (ec_Environment c) = folded (ec_Environment d)"
  shows "matchesRule sha256 r c = matchesRule sha256 r d"
proof -
  have role: "list_ex (\<lambda>role. folded role = target) rs \<longleftrightarrow> target \<in> folded ` set rs" for target rs
    by (auto simp: list_ex_iff)
  show ?thesis
    using assms by (simp add: matchesRule_def role EqualFold_def flip: TrimSpace_ToLower)
qed

lemma evaluate_folded:
  assumes "ec_UserID c = ec_UserID d" "folded ` set (ec_Roles c) = folded ` set (ec_Roles d)"
    "folded (ec_Org c) = folded (ec_Org d)" "folded (ec_Environment c) = folded (ec_Environment d)"
  shows "evaluateFeatureFlag sha256 f c = evaluateFeatureFlag sha256 f d"
  by (simp add: evaluate_is_verdict flag_verdict_def matchesRule_folded [OF assms])

text \<open>Roles that are not blank and have no comma, and no bar in roles and organisation.\<close>

definition safe_context :: "FeatureFlagEvaluationContext \<Rightarrow> bool" where
  "safe_context c \<longleftrightarrow>
     list_all (\<lambda>r. folded r \<noteq> [] \<and> CHR '','' \<notin> set (folded r) \<and> CHR ''|'' \<notin> set (folded r)) (ec_Roles c)
     \<and> CHR ''|'' \<notin> set (folded (ec_Org c))"

lemma sep_inj: "a @ c # x = b @ c # y \<Longrightarrow> c \<notin> set a \<Longrightarrow> c \<notin> set b \<Longrightarrow> a = b \<and> x = y"
  by (induction a arbitrary: b) (auto simp: append_eq_Cons_conv Cons_eq_append_conv)

lemma Split_Join: "xs \<noteq> [] \<Longrightarrow> \<forall>x \<in> set xs. c \<notin> set x \<Longrightarrow> Split (Join xs [c]) c = xs"
proof (induction xs "[c]" rule: Join.induct)
  case (3 x y ys)
  then show ?case using Split_append [of c x "Join (y # ys) [c]"] by simp
qed (simp_all add: Split_no_sep)

lemma Join_inj:
  assumes "\<forall>x \<in> set xs. x \<noteq> [] \<and> c \<notin> set x" "\<forall>y \<in> set ys. y \<noteq> [] \<and> c \<notin> set y" "Join xs [c] = Join ys [c]"
  shows "xs = ys"
proof -
  have ne: "Join zs [c] \<noteq> []" if "zs \<noteq> []" "\<forall>z \<in> set zs. z \<noteq> [] \<and> c \<notin> set z" for zs
    using that by (cases "(zs, [c])" rule: Join.cases) auto
  show ?thesis
    using assms ne [of xs] ne [of ys] Split_Join [of xs c] Split_Join [of ys c] by (cases xs; cases ys) auto
qed

lemma set_Join: "c \<in> set (Join xs sep) \<Longrightarrow> c \<in> set sep \<or> (\<exists>x \<in> set xs. c \<in> set x)"
  by (induction xs sep rule: Join.induct) auto

lemma cache_key_determines:
  assumes "safe_context c" "safe_context d" "buildFeatureFlagCacheKey c = buildFeatureFlagCacheKey d"
  shows "evaluateFeatureFlag sha256 f c = evaluateFeatureFlag sha256 f d"
proof -
  let ?roles = "\<lambda>c. sort (map folded (ec_Roles c))"
  let ?tail = "\<lambda>c. ''env:'' @ folded (ec_Environment c)"
  have bar: "\<not> is_digit (CHR ''|'')" by (simp add: is_digit_def)
  have no_bar: "CHR ''|'' \<notin> set (''roles:'' @ Join (?roles e) '','')" "CHR ''|'' \<notin> set (''org:'' @ folded (ec_Org e))"
    if "safe_context e" for e
    using that by (auto simp: safe_context_def list_all_iff dest!: set_Join)
  have "FormatUint (ec_UserID c) @ CHR ''|'' # (''roles:'' @ Join (?roles c) '','') @ CHR ''|'' # (''org:'' @ folded (ec_Org c)) @ CHR ''|'' # ?tail c
      = FormatUint (ec_UserID d) @ CHR ''|'' # (''roles:'' @ Join (?roles d) '','') @ CHR ''|'' # (''org:'' @ folded (ec_Org d)) @ CHR ''|'' # ?tail d"
    using assms(3) by (simp add: buildFeatureFlagCacheKey_def)
  from dec_then_sep [OF this bar] have u: "ec_UserID c = ec_UserID d" and
    "(''roles:'' @ Join (?roles c) '','') @ CHR ''|'' # (''org:'' @ folded (ec_Org c)) @ CHR ''|'' # ?tail c
      = (''roles:'' @ Join (?roles d) '','') @ CHR ''|'' # (''org:'' @ folded (ec_Org d)) @ CHR ''|'' # ?tail d"
    by blast+
  from sep_inj [OF this(2) no_bar(1) [OF assms(1)] no_bar(1) [OF assms(2)]]
  have r: "Join (?roles c) '','' = Join (?roles d) '',''" and
    "(''org:'' @ folded (ec_Org c)) @ CHR ''|'' # ?tail c = (''org:'' @ folded (ec_Org d)) @ CHR ''|'' # ?tail d"
    by simp_all
  from sep_inj [OF this(2) no_bar(2) [OF assms(1)] no_bar(2) [OF assms(2)]]
  have oe: "folded (ec_Org c) = folded (ec_Org d)" "folded (ec_Environment c) = folded (ec_Environment d)"
    by simp_all
  have "?roles c = ?roles d"
    using Join_inj [OF _ _ r] assms(1,2) by (auto simp: safe_context_def list_all_iff)
  then have "folded ` set (ec_Roles c) = folded ` set (ec_Roles d)"
    by (metis set_map set_sort)
  with u oe show ?thesis by (intro evaluate_folded)
qed

text \<open>
  A separator in the organisation or the environment makes two contexts share a key although a flag
  tells them apart.
\<close>

definition org_rule :: feature_flag_rule where
  "org_rule = \<lparr>fr_ID = 1, fr_FeatureFlagID = 1, fr_Type = ''org'', fr_MatchValue = ''a'', fr_Percentage = 0,
     fr_Enabled = True, fr_Priority = 100, fr_CreatedAt = 0\<rparr>"

definition org_flag :: feature_flag where
  "org_flag = \<lparr>ff_ID = 1, ff_Key = ''beta'', ff_Description = [], ff_Enabled = False, ff_Rules = [org_rule], ff_CreatedAt = 0\<rparr>"

lemma cache_key_collision:
  "\<exists>c d. buildFeatureFlagCacheKey c = buildFeatureFlagCacheKey d
     \<and> evaluateFeatureFlag sha256 org_flag c \<noteq> evaluateFeatureFlag sha256 org_flag d"
proof (intro exI conjI)
  let ?c = "\<lparr>ec_UserID = 1, ec_Roles = [], ec_Org = ''a'', ec_Environment = ''b|env:c''\<rparr>"
  let ?d = "\<lparr>ec_UserID = 1, ec_Roles = [], ec_Org = ''a|env:b'', ec_Environment = ''c''\<rparr>"
  have t: "TrimSpace (ToLower ''a'') = ''a''" "TrimSpace (ToLower ''c'') = ''c''"
    "TrimSpace (ToLower ''b|env:c'') = ''b|env:c''" "TrimSpace (ToLower ''a|env:b'') = ''a|env:b''"
    by code_simp+
  show "buildFeatureFlagCacheKey ?c = buildFeatureFlagCacheKey ?d"
    by (simp add: buildFeatureFlagCacheKey_def t)
  show "evaluateFeatureFlag sha256 org_flag ?c \<noteq> evaluateFeatureFlag sha256 org_flag ?d"
    by (simp add: evaluate_is_verdict flag_verdict_def org_flag_def org_rule_def matchesRule_def EqualFold_def t
        flip: TrimSpace_ToLower)
qed

subsection \<open>The rows of flags and rules\<close>

locale flag_database =
  fixes D :: flag_db
  assumes flags: "flag_table (fd_flags D)" and rules: "rule_table (fd_rules D)"
    and collation: "total_preorder (fd_key_le D)"

definition mem_flag_db :: "gotime \<Rightarrow> flag_db" where
  "mem_flag_db now = \<lparr>fd_flags = mem_flags now, fd_rules = mem_rules now, fd_key_le = (\<le>)\<rparr>"

interpretation mem_flag_db: flag_database "mem_flag_db now" for now
  by (rule flag_database.intro)
    (auto simp: mem_flag_db_def mem_flags_table.gorm_table_axioms mem_rules_table.gorm_table_axioms
      intro!: total_preorderI)

definition valid_rule :: "feature_flag_rule \<Rightarrow> bool" where
  "valid_rule r \<longleftrightarrow>
     (if fr_Type r \<in> {''user'', ''role'', ''org'', ''environment''}
      then fr_MatchValue r \<noteq> [] \<and> folded (fr_MatchValue r) = fr_MatchValue r \<and> fr_Percentage r = 0
      else fr_Type r = ''percent'' \<and> fr_MatchValue r = [] \<and> 0 \<le> fr_Percentage r \<and> fr_Percentage r \<le> 100)
     \<and> fr_Priority r \<noteq> 0"

definition wf_flags :: "flag_tables \<Rightarrow> bool" where
  "wf_flags T \<longleftrightarrow> unique_rows clash_flag (ft_flags T) \<and> distinct (map fr_ID (ft_rules T))
     \<and> (\<forall>f \<in> set (ft_flags T). ff_Key f \<noteq> [] \<and> folded (ff_Key f) = ff_Key f) \<and> (\<forall>r \<in> set (ft_rules T). valid_rule r)"

lemma folded_idem [simp]: "folded (folded s) = folded s"
  by (simp add: TrimSpace_ToLower)

lemma folded_Nil [simp]: "folded [] = []"
  by (simp add: TrimSpace_def ToLower_def)

lemma normalized_valid:
  assumes "normalizeAndValidateRule r = (Inr u, r')"
  shows "valid_rule r' \<and> folded (fr_Type r') = fr_Type r' \<and> folded (fr_MatchValue r') = fr_MatchValue r'"
proof -
  define ty mv where "ty = folded (fr_Type r)" and "mv = folded (fr_MatchValue r)"
  define q where "q = r\<lparr>fr_Type := ty, fr_MatchValue := mv, fr_Priority := (if fr_Priority r = 0 then 100 else fr_Priority r)\<rparr>"
  have f: "folded ty = ty" "folded mv = mv" by (simp_all add: ty_def mv_def)
  have q: "fr_Type q = ty" "fr_MatchValue q = mv" "fr_Priority q \<noteq> 0" by (simp_all add: q_def)
  consider (matched) "ty \<in> {''user'', ''role'', ''org'', ''environment''}" "mv \<noteq> []" "r' = q\<lparr>fr_Percentage := 0\<rparr>"
    | (percent) "ty = ''percent''" "0 \<le> fr_Percentage q" "fr_Percentage q \<le> 100" "r' = q\<lparr>fr_MatchValue := []\<rparr>"
    using assms
    unfolding normalizeAndValidateRule_def Let_def ty_def [symmetric] mv_def [symmetric] q_def [symmetric] q
    by (auto split: if_splits)
  then show ?thesis by cases (use f q in \<open>simp_all add: valid_rule_def\<close>)
qed

lemma valid_rule_columns:
  "valid_rule r \<Longrightarrow> fr_Type q = fr_Type r \<Longrightarrow> fr_MatchValue q = fr_MatchValue r \<Longrightarrow>
   fr_Percentage q = fr_Percentage r \<Longrightarrow> fr_Priority q = fr_Priority r \<Longrightarrow> valid_rule q"
  by (simp add: valid_rule_def)

context flag_database
begin

lemma CreateFlag_wf:
  assumes "FlagRepository_CreateFlag D f T = (out, T')" "wf_flags T" "ff_Key f \<noteq> []" "folded (ff_Key f) = ff_Key f"
  shows "wf_flags T'"
proof (cases "gorm_Create (fd_flags D) f (ft_flags T)")
  case (Inr ft)
  then obtain g t where ft: "gorm_Create (fd_flags D) f (ft_flags T) = Inr (g, t)" by (cases ft) auto
  from gorm_table.create_row [OF flags ft] gorm_table.create_unique [OF flags ft] ft assms show ?thesis
    by (auto simp: FlagRepository_CreateFlag_def wf_flags_def stamp_flag_def)
qed (use assms in \<open>auto simp: FlagRepository_CreateFlag_def\<close>)

lemma UpdateFlag_wf:
  assumes "FlagRepository_UpdateFlag D f T = (out, T')" "wf_flags T" "ff_Key f \<noteq> []" "folded (ff_Key f) = ff_Key f"
  shows "wf_flags T'"
proof -
  let ?p = "\<lambda>r. ff_ID r = ff_ID f"
  let ?u = "\<lambda>r. r\<lparr>ff_Key := folded (ff_Key f), ff_Description := TrimSpace (ff_Description f), ff_Enabled := ff_Enabled f\<rparr>"
  show ?thesis
  proof (cases "gorm_Updates (fd_flags D) ?p ?u (ft_flags T)")
    case (Inr nt)
    then obtain n t where nt: "gorm_Updates (fd_flags D) ?p ?u (ft_flags T) = Inr (n, t)" by (cases nt) auto
    from gorm_table.updates_rows [OF flags nt] gorm_table.updates_unique [OF flags nt] nt assms show ?thesis
      by (auto simp: FlagRepository_UpdateFlag_def wf_flags_def set_upd_where split: if_splits)
  qed (use assms in \<open>auto simp: FlagRepository_UpdateFlag_def\<close>)
qed

lemma DeleteFlag_wf:
  assumes "FlagRepository_DeleteFlag D i T = (out, T')" "wf_flags T"
  shows "wf_flags T'"
proof (cases "gorm_Delete (fd_flags D) (\<lambda>r. ff_ID r = i) (ft_flags T)")
  case (Inr nt)
  then obtain n t where nt: "gorm_Delete (fd_flags D) (\<lambda>r. ff_ID r = i) (ft_flags T) = Inr (n, t)" by (cases nt) auto
  from gorm_table.delete_rows [OF flags nt] nt assms show ?thesis
    by (auto simp: FlagRepository_DeleteFlag_def wf_flags_def unique_rows_filter distinct_map_filter split: if_splits)
qed (use assms in \<open>auto simp: FlagRepository_DeleteFlag_def\<close>)

lemma CreateRule_wf:
  assumes "FlagRepository_CreateRule D r T = (out, T')" "wf_flags T" "valid_rule r"
  shows "wf_flags T'"
proof (cases "gorm_Create (fd_rules D) r (ft_rules T)")
  case (Inr rt)
  then obtain q t where rt: "gorm_Create (fd_rules D) r (ft_rules T) = Inr (q, t)" by (cases rt) auto
  have "valid_rule (stamp_rule i c r)" for i c by (rule valid_rule_columns [OF assms(3)]) (simp_all add: stamp_rule_def)
  with gorm_table.create_row [OF rules rt] rt assms show ?thesis
    by (auto simp: FlagRepository_CreateRule_def wf_flags_def stamp_rule_def)
qed (use assms in \<open>auto simp: FlagRepository_CreateRule_def\<close>)

lemma UpdateRule_wf:
  assumes "FlagRepository_UpdateRule D r T = (out, T')" "wf_flags T" "valid_rule r"
    "folded (fr_Type r) = fr_Type r" "folded (fr_MatchValue r) = fr_MatchValue r"
  shows "wf_flags T'"
proof -
  let ?p = "\<lambda>q. fr_ID q = fr_ID r \<and> fr_FeatureFlagID q = fr_FeatureFlagID r"
  let ?u = "\<lambda>q. q\<lparr>fr_Type := folded (fr_Type r), fr_MatchValue := folded (fr_MatchValue r),
                    fr_Percentage := fr_Percentage r, fr_Enabled := fr_Enabled r, fr_Priority := fr_Priority r\<rparr>"
  have v: "valid_rule (?u q)" for q by (rule valid_rule_columns [OF assms(3)]) (simp_all add: assms)
  show ?thesis
  proof (cases "gorm_Updates (fd_rules D) ?p ?u (ft_rules T)")
    case (Inr nt)
    then obtain n t where nt: "gorm_Updates (fd_rules D) ?p ?u (ft_rules T) = Inr (n, t)" by (cases nt) auto
    have "map fr_ID (upd_where ?p ?u (ft_rules T)) = map fr_ID (ft_rules T)" by (rule map_upd_where) simp
    with gorm_table.updates_rows [OF rules nt] nt assms(1,2) v show ?thesis
      by (auto simp: FlagRepository_UpdateRule_def wf_flags_def set_upd_where split: if_splits)
  qed (use assms in \<open>auto simp: FlagRepository_UpdateRule_def\<close>)
qed

lemma DeleteRule_wf:
  assumes "FlagRepository_DeleteRule D flagID i T = (out, T')" "wf_flags T"
  shows "wf_flags T'"
proof -
  let ?p = "\<lambda>q. fr_ID q = i \<and> fr_FeatureFlagID q = flagID"
  show ?thesis
  proof (cases "gorm_Delete (fd_rules D) ?p (ft_rules T)")
    case (Inr nt)
    then obtain n t where nt: "gorm_Delete (fd_rules D) ?p (ft_rules T) = Inr (n, t)" by (cases nt) auto
    from gorm_table.delete_rows [OF rules nt] nt assms show ?thesis
      by (auto simp: FlagRepository_DeleteRule_def wf_flags_def distinct_map_filter split: if_splits)
  qed (use assms in \<open>auto simp: FlagRepository_DeleteRule_def\<close>)
qed

end

subsection \<open>The abstract evaluation\<close>

text \<open>What \<open>EvaluateAll\<close> means: the verdict on every flag of the tables, by key.\<close>

definition with_rules :: "flag_tables \<Rightarrow> feature_flag \<Rightarrow> feature_flag" where
  "with_rules T f = f\<lparr>ff_Rules := filter (\<lambda>r. fr_FeatureFlagID r = ff_ID f) (ft_rules T)\<rparr>"

definition flag_values ::
    "(string \<Rightarrow> string) \<Rightarrow> flag_tables \<Rightarrow> FeatureFlagEvaluationContext \<Rightarrow> FeatureFlagEvaluationResult list" where
  "flag_values sha256 T ctx =
     sort_by (\<lambda>a b. er_Key a \<le> er_Key b) (map (\<lambda>f. evaluation_of sha256 ctx (with_rules T f)) (ft_flags T))"

lemma er_Key_evaluation [simp]: "er_Key (evaluation_of sha256 ctx f) = ff_Key f"
  by (simp add: evaluation_of_def split: prod.splits)

lemma ff_Key_with_rules [simp]: "ff_Key (with_rules T f) = ff_Key f"
  by (simp add: with_rules_def)

lemma evaluation_mset:
  assumes "mset rs = mset (ff_Rules (with_rules T f))" "distinct (map fr_ID (ft_rules T))"
  shows "evaluation_of sha256 ctx (f\<lparr>ff_Rules := rs\<rparr>) = evaluation_of sha256 ctx (with_rules T f)"
proof -
  have "evaluateFeatureFlag sha256 (with_rules T f) ctx = evaluateFeatureFlag sha256 (f\<lparr>ff_Rules := rs\<rparr>) ctx"
    by (rule evaluate_mset) (use assms in \<open>simp_all add: with_rules_def distinct_map_filter\<close>)
  then show ?thesis by (simp add: evaluation_of_def with_rules_def)
qed

lemma flag_values_context:
  "(\<And>f. evaluateFeatureFlag sha256 f c = evaluateFeatureFlag sha256 f d) \<Longrightarrow> flag_values sha256 T c = flag_values sha256 T d"
  by (simp add: flag_values_def evaluation_of_def)

lemma by_key_unique:
  assumes "unique_rows clash_flag fs" "mset xs = mset (map g fs)" "\<And>f. er_Key (g f) = ff_Key f"
  shows "SliceStable (\<lambda>a b. er_Key a < er_Key b) xs = sort_by (\<lambda>a b. er_Key a \<le> er_Key b) (map g fs)"
proof -
  let ?le = "\<lambda>a b. er_Key a \<le> er_Key b"
  have tot: "total_preorder ?le" by (rule total_preorderI) auto
  have "sort_by ?le xs = sort_by ?le (map g fs)"
  proof (rule sorted_unique)
    fix a b assume "a \<in> set (sort_by ?le xs)" "b \<in> set (sort_by ?le xs)" "?le a b" "?le b a"
    then have "a \<in> g ` set fs" "b \<in> g ` set fs" "er_Key a = er_Key b"
      using mset_eq_setD [OF assms(2)] by auto
    then obtain f h where "a = g f" "b = g h" "f \<in> set fs" "h \<in> set fs" "ff_Key f = ff_Key h"
      using assms(3) by auto
    then show "a = b" using unique_rows_eq [OF assms(1), of f h] by (simp add: clash_flag_def)
  qed (simp_all add: sorted_sort_by tot assms(2))
  then show ?thesis by (simp add: SliceStable_def linorder_not_less)
qed

context flag_database
begin

lemma preload_evaluation:
  assumes "preload_rules D T f = Inr g" "wf_flags T"
  shows "evaluation_of sha256 ctx g = evaluation_of sha256 ctx (with_rules T f)"
proof -
  obtain rs where rs: "gorm_FindOrder (fd_rules D) (\<lambda>r. fr_FeatureFlagID r = ff_ID f) rule_le (ft_rules T) = Inr rs"
    and "g = f\<lparr>ff_Rules := rs\<rparr>" using assms(1) by (auto simp: preload_rules_def split: sum.splits)
  with gorm_table.find_order [OF rules rs rule_le_preorder] evaluation_mset [of rs T f] assms(2) show ?thesis
    by (simp add: with_rules_def wf_flags_def)
qed

lemma ListFlags_values:
  assumes "FlagRepository_ListFlags D T = Inr fs" "wf_flags T"
  shows "SliceStable (\<lambda>a b. er_Key a < er_Key b) (map (evaluation_of sha256 ctx) fs) = flag_values sha256 T ctx"
proof -
  let ?le = "\<lambda>a b :: feature_flag. fd_key_le D (ff_Key a) (ff_Key b)"
  obtain fs0 where fs0: "gorm_FindOrder (fd_flags D) (\<lambda>_. True) ?le (ft_flags T) = Inr fs0"
    and pre: "map_result (preload_rules D T) fs0 = Inr fs"
    using assms(1) by (auto simp: FlagRepository_ListFlags_def split: sum.splits)
  have "total_preorder ?le" using collation by (auto simp: total_preorder_def)
  with gorm_table.find_order [OF flags fs0] have rows: "mset fs0 = mset (ft_flags T)" by simp
  have "map (evaluation_of sha256 ctx) fs = map (\<lambda>f. evaluation_of sha256 ctx (with_rules T f)) fs0"
    using map_result_ok [OF pre] by (induction rule: list_all2_induct) (simp_all add: preload_evaluation [OF _ assms(2)])
  then show ?thesis
    unfolding flag_values_def by (intro by_key_unique) (use rows assms(2) in \<open>simp_all add: wf_flags_def\<close>)
qed

end

subsection \<open>Changes\<close>

datatype flag_change =
    CreateFlag feature_flag
  | UpdateFlag feature_flag
  | DeleteFlag uint
  | CreateRule feature_flag_rule
  | UpdateRule feature_flag_rule
  | DeleteRule uint uint

fun change_flags ::
    "'s flag_service \<Rightarrow> flag_db \<Rightarrow> gotime \<Rightarrow> flag_change \<Rightarrow> flag_tables \<Rightarrow> 's \<Rightarrow> unit result \<times> flag_tables \<times> 's" where
  "change_flags F D now (CreateFlag f) T s = FlagService_CreateFlag F D now f T s"
| "change_flags F D now (UpdateFlag f) T s = FlagService_UpdateFlag F D now f T s"
| "change_flags F D now (DeleteFlag i) T s = FlagService_DeleteFlag F D now i T s"
| "change_flags F D now (CreateRule r) T s = FlagService_CreateRule F D now r T s"
| "change_flags F D now (UpdateRule r) T s = FlagService_UpdateRule F D now r T s"
| "change_flags F D now (DeleteRule f r) T s = FlagService_DeleteRule F D now f r T s"

definition fails_clean :: "flag_tables \<Rightarrow> 'a result \<times> flag_tables \<Rightarrow> bool" where
  "fails_clean T repo \<longleftrightarrow> (\<forall>e T1. repo = (Inl e, T1) \<longrightarrow> T1 = T)"

lemma then_invalidate_result:
  assumes "then_invalidate F now repo s = (out, T', s')" "fails_clean T repo"
  shows "(\<exists>e. out = Inl e) \<and> T' = T \<and> s' = s \<or> fc_InvalidateAll (fs_cache F) now s = (out, s')"
  using assms by (cases repo; cases "fst repo") (auto simp: then_invalidate_def fails_clean_def split: prod.splits)

lemma then_invalidate_tables: "then_invalidate F now repo s = (out, T', s') \<Longrightarrow> snd repo = T'"
  by (auto simp: then_invalidate_def split: prod.splits sum.splits)

context flag_database
begin

lemma failed_keeps:
  "fails_clean T (FlagRepository_CreateFlag D f T)" "fails_clean T (FlagRepository_UpdateFlag D f T)"
  "fails_clean T (FlagRepository_DeleteFlag D i T)" "fails_clean T (FlagRepository_CreateRule D r T)"
  "fails_clean T (FlagRepository_UpdateRule D r T)" "fails_clean T (FlagRepository_DeleteRule D i j T)"
  by (auto simp: fails_clean_def FlagRepository_CreateFlag_def FlagRepository_UpdateFlag_def FlagRepository_DeleteFlag_def
      FlagRepository_CreateRule_def FlagRepository_UpdateRule_def FlagRepository_DeleteRule_def filter_empty_conv
      filter_id_conv upd_where_id
      split: sum.splits prod.splits if_splits
      dest!: gorm_table.updates_rows [OF flags] gorm_table.delete_rows [OF flags]
        gorm_table.updates_rows [OF rules] gorm_table.delete_rows [OF rules])

text \<open>A change either fails before anything is written, or is written and the cache is told.\<close>

lemma change_flags_result:
  assumes "change_flags F D now ch T s = (out, T', s')"
  shows "(\<exists>e. out = Inl e) \<and> T' = T \<and> s' = s \<or> fc_InvalidateAll (fs_cache F) now s = (out, s')"
proof (cases ch)
  case (CreateFlag f)
  with assms show ?thesis
    by (auto simp: FlagService_CreateFlag_def Let_def split: if_splits dest!: then_invalidate_result [OF _ failed_keeps(1)])
next
  case (UpdateFlag f)
  with assms show ?thesis
    by (auto simp: FlagService_UpdateFlag_def Let_def split: if_splits dest!: then_invalidate_result [OF _ failed_keeps(2)])
next
  case (DeleteFlag i)
  with assms then_invalidate_result [OF _ failed_keeps(3)] show ?thesis by (simp add: FlagService_DeleteFlag_def)
next
  case (CreateRule r)
  with assms show ?thesis
    by (auto simp: FlagService_CreateRule_def split: prod.splits sum.splits dest!: then_invalidate_result [OF _ failed_keeps(4)])
next
  case (UpdateRule r)
  with assms show ?thesis
    by (auto simp: FlagService_UpdateRule_def split: prod.splits sum.splits dest!: then_invalidate_result [OF _ failed_keeps(5)])
next
  case (DeleteRule i j)
  with assms then_invalidate_result [OF _ failed_keeps(6)] show ?thesis by (simp add: FlagService_DeleteRule_def)
qed

lemma change_flags_wf:
  assumes "change_flags F D now ch T s = (out, T', s')" "wf_flags T"
  shows "wf_flags T'"
proof (cases ch)
  case (CreateFlag f)
  with assms CreateFlag_wf [OF prod.collapse [symmetric] assms(2)] show ?thesis
    by (auto simp: FlagService_CreateFlag_def Let_def split: if_splits dest!: then_invalidate_tables)
next
  case (UpdateFlag f)
  with assms UpdateFlag_wf [OF prod.collapse [symmetric] assms(2)] show ?thesis
    by (auto simp: FlagService_UpdateFlag_def Let_def split: if_splits dest!: then_invalidate_tables)
next
  case (DeleteFlag i)
  with assms DeleteFlag_wf [OF prod.collapse [symmetric] assms(2)] show ?thesis
    by (auto simp: FlagService_DeleteFlag_def dest!: then_invalidate_tables)
next
  case (CreateRule r)
  with assms CreateRule_wf [OF prod.collapse [symmetric] assms(2)] normalized_valid [of r] show ?thesis
    by (auto simp: FlagService_CreateRule_def split: prod.splits sum.splits dest!: then_invalidate_tables)
next
  case (UpdateRule r)
  with assms UpdateRule_wf [OF prod.collapse [symmetric] assms(2)] normalized_valid [of r] show ?thesis
    by (auto simp: FlagService_UpdateRule_def split: prod.splits sum.splits dest!: then_invalidate_tables)
next
  case (DeleteRule i j)
  with assms DeleteRule_wf [OF prod.collapse [symmetric] assms(2)] show ?thesis
    by (auto simp: FlagService_DeleteRule_def dest!: then_invalidate_tables)
qed

end

subsection \<open>The contract of a cache\<close>

text \<open>
  \<open>may_return s t x raw\<close> says that from time \<open>t\<close> on (or later) the slot \<open>x\<close> may give \<open>raw\<close>; \<open>slot key\<close> is
  where a key is kept.  A cache may forget at any time; it returns nothing that was not stored since the
  last successful invalidation.  The clock does not run backwards: \<open>inv t s\<close> holds of the states of a
  cache that was last used at \<open>t\<close>.
\<close>

locale flag_cache_store =
  fixes S :: "'s flag_cache" and inv :: "gotime \<Rightarrow> 's \<Rightarrow> bool" and may_return :: "'s \<Rightarrow> gotime \<Rightarrow> string \<Rightarrow> string \<Rightarrow> bool"
    and slot :: "string \<Rightarrow> string"
  assumes wait: "inv t s \<Longrightarrow> t \<le> now \<Longrightarrow> inv now s"
    and get_sound: "inv t s \<Longrightarrow> t \<le> now \<Longrightarrow> fc_Get S now k s = (Inr (Some raw), s') \<Longrightarrow> may_return s now (slot k) raw"
    and get_keeps: "inv t s \<Longrightarrow> t \<le> now \<Longrightarrow> fc_Get S now k s = (out, s') \<Longrightarrow>
      inv now s' \<and> (may_return s' t' x raw \<longrightarrow> may_return s t' x raw)"
    and set_keeps: "inv t s \<Longrightarrow> t \<le> now \<Longrightarrow> fc_Set S now k v flag_cacheTTL s = (ack, s') \<Longrightarrow>
      inv now s' \<and> (may_return s' t' x raw \<longrightarrow> may_return s t' x raw \<or> x = slot k \<and> raw = v)"
    and invalidate: "inv t s \<Longrightarrow> t \<le> now \<Longrightarrow> fc_InvalidateAll S now s = (ack, s') \<Longrightarrow>
      inv now s' \<and> (may_return s' t' x raw \<longrightarrow> may_return s t' x raw)
      \<and> (ack = Inr () \<longrightarrow> now \<le> t' \<longrightarrow> \<not> may_return s' t' x raw)"

text \<open>
  What the users of the service do: ask for all evaluations, or change flags and rules.  A change may
  fail, but not in the one way that leaves the tables changed and the cache as it was: when the cache
  reports an error after the tables were written.  \<open>storable\<close> holds of the results that JSON can
  represent, and \<open>C\<close> is the set of the contexts that are asked about.
\<close>

inductive flag_step ::
    "'s flag_service \<Rightarrow> (FeatureFlagEvaluationResult \<Rightarrow> bool) \<Rightarrow> FeatureFlagEvaluationContext set \<Rightarrow> flag_tables \<times> 's \<times> gotime \<Rightarrow> flag_tables \<times> 's \<times> gotime \<Rightarrow> bool"
  for F storable C where
    Evaluate: "flag_database D \<Longrightarrow> now \<le> clk 0 \<Longrightarrow> mono clk \<Longrightarrow> ctx \<in> C \<Longrightarrow>
      list_all storable (flag_values (fs_sha256 F) T ctx) \<Longrightarrow> FlagService_EvaluateAll F D clk ctx T s = (res, s') \<Longrightarrow>
      flag_step F storable C (T, s, now) (T, s', clk 1)"
  | Change: "flag_database D \<Longrightarrow> now \<le> now' \<Longrightarrow> change_flags F D now' ch T s = (res, T', s') \<Longrightarrow> res = Inr () \<or> T' = T \<Longrightarrow>
      flag_step F storable C (T, s, now) (T', s', now')"

definition key_slots_distinct :: "FeatureFlagEvaluationContext set \<Rightarrow> (string \<Rightarrow> string) \<Rightarrow> bool" where
  "key_slots_distinct C f \<longleftrightarrow> C \<subseteq> Collect safe_context \<and> inj_on f (buildFeatureFlagCacheKey ` C)"

definition json_law :: "'s flag_service \<Rightarrow> (FeatureFlagEvaluationResult \<Rightarrow> bool) \<Rightarrow> bool" where
  "json_law F storable \<longleftrightarrow> (\<forall>vs. list_all storable vs \<longrightarrow> fs_unmarshal F (fs_marshal F vs) = Some vs)"

context flag_cache_store
begin

definition current :: "FeatureFlagEvaluationContext set \<Rightarrow> 's flag_service \<Rightarrow> flag_tables \<times> 's \<times> gotime \<Rightarrow> bool" where
  "current C F = (\<lambda>(T, s, now). inv now s \<and> wf_flags T
     \<and> (\<forall>ctx t raw. ctx \<in> C \<longrightarrow> now \<le> t \<longrightarrow> may_return s t (slot (buildFeatureFlagCacheKey ctx)) raw \<longrightarrow>
          fs_unmarshal F raw = Some (flag_values (fs_sha256 F) T ctx)))"

lemma currentD:
  assumes "current C F (T, s, now)" "ctx \<in> C" "now \<le> t" "may_return s t (slot (buildFeatureFlagCacheKey ctx)) raw"
  shows "fs_unmarshal F raw = Some (flag_values (fs_sha256 F) T ctx)"
  using assms by (simp add: current_def)

lemma current_mono:
  assumes "current C F (T, s, now)" "now \<le> t" "inv t s'" "\<And>u x raw. may_return s' u x raw \<Longrightarrow> may_return s u x raw"
  shows "current C F (T, s', t)"
proof -
  have "fs_unmarshal F raw = Some (flag_values (fs_sha256 F) T ctx)"
    if "ctx \<in> C" "t \<le> u" "may_return s' u (slot (buildFeatureFlagCacheKey ctx)) raw" for ctx u raw
    by (rule currentD [OF assms(1), where t = u]) (use that assms in auto)
  with assms show ?thesis by (simp add: current_def)
qed

lemma read_current:
  assumes cur: "current C F (T, s, now)" and F: "fs_cache F = S" and le: "now \<le> t" and safe: "ctx \<in> C"
    and rd: "readCachedEvaluation F t (buildFeatureFlagCacheKey ctx) s = (res, s')"
  shows "current C F (T, s', t)" and "res = None \<or> res = Some (flag_values (fs_sha256 F) T ctx)"
proof -
  obtain out s1 where get: "fc_Get S t (buildFeatureFlagCacheKey ctx) s = (out, s1)" by (meson surj_pair)
  have s1: "s1 = s'" using rd get by (auto simp: readCachedEvaluation_def F split: sum.splits option.splits)
  have inv: "inv now s" using cur by (simp add: current_def)
  show "current C F (T, s', t)"
    using get_keeps [OF inv le get] unfolding s1 by (intro current_mono [OF cur le]) blast+
  show "res = None \<or> res = Some (flag_values (fs_sha256 F) T ctx)"
    using rd get get_sound [OF inv le] cur safe le
    by (auto simp: readCachedEvaluation_def F current_def split: sum.splits option.splits)
qed

lemma write_current:
  assumes cur: "current C F (T, s, now)" and F: "fs_cache F = S" and le: "now \<le> t" and safe: "ctx \<in> C"
    and distinct: "key_slots_distinct C slot" and json: "json_law F storable"
    and st: "list_all storable (flag_values (fs_sha256 F) T ctx)"
  shows "current C F (T, snd (writeCachedEvaluation F t (buildFeatureFlagCacheKey ctx) (flag_values (fs_sha256 F) T ctx) s), t)"
proof -
  let ?v = "fs_marshal F (flag_values (fs_sha256 F) T ctx)"
  obtain out s' where set: "fc_Set S t (buildFeatureFlagCacheKey ctx) ?v flag_cacheTTL s = (out, s')" by (meson surj_pair)
  have inv: "inv now s" using cur by (simp add: current_def)
  note keeps = set_keeps [OF inv le set]
  have "fs_unmarshal F raw = Some (flag_values (fs_sha256 F) T c)"
    if c: "c \<in> C" and u: "t \<le> u" and m: "may_return s' u (slot (buildFeatureFlagCacheKey c)) raw" for c u raw
  proof (cases "may_return s u (slot (buildFeatureFlagCacheKey c)) raw")
    case True
    then show ?thesis using currentD [OF cur c, of u raw] u le by simp
  next
    case False
    with keeps m have same: "slot (buildFeatureFlagCacheKey c) = slot (buildFeatureFlagCacheKey ctx)" "raw = ?v" by blast+
    with distinct c safe have "buildFeatureFlagCacheKey c = buildFeatureFlagCacheKey ctx"
      by (auto simp: key_slots_distinct_def inj_on_def)
    with c safe distinct have "flag_values (fs_sha256 F) T c = flag_values (fs_sha256 F) T ctx"
      by (intro flag_values_context cache_key_determines) (auto simp: key_slots_distinct_def)
    with same st json show ?thesis by (simp add: json_law_def)
  qed
  with keeps cur show ?thesis by (simp add: current_def writeCachedEvaluation_def F set)
qed

lemma evaluate_current:
  assumes cur: "current C F (T, s, now)" and F: "fs_cache F = S" and db: "flag_database D" and clk: "now \<le> clk 0" "mono clk"
    and safe: "ctx \<in> C" and run: "FlagService_EvaluateAll F D clk ctx T s = (res, s')"
  shows "res = Inr (flag_values (fs_sha256 F) T ctx) \<or> (\<exists>e. FlagRepository_ListFlags D T = Inl e \<and> res = Inl e)"
    and "key_slots_distinct C slot \<Longrightarrow> json_law F storable \<Longrightarrow> list_all storable (flag_values (fs_sha256 F) T ctx) \<Longrightarrow>
      current C F (T, s', clk 1)"
proof -
  obtain c s1 where rd: "readCachedEvaluation F (clk 0) (buildFeatureFlagCacheKey ctx) s = (c, s1)" by (meson surj_pair)
  note r = read_current [OF cur F clk(1) safe rd]
  have mono: "clk 0 \<le> clk 1" using clk(2) by (simp add: mono_def)
  have later: "current C F (T, s1, clk 1)"
    using r(1) wait [OF _ mono, of s1] by (intro current_mono [OF r(1) mono]) (auto simp: current_def)
  have wf: "wf_flags T" using cur by (simp add: current_def)
  note step = run [unfolded FlagService_EvaluateAll_def Let_def rd prod.case]
  show "res = Inr (flag_values (fs_sha256 F) T ctx) \<or> (\<exists>e. FlagRepository_ListFlags D T = Inl e \<and> res = Inl e)"
    using step r(2) flag_database.ListFlags_values [OF db _ wf] by (auto split: option.splits sum.splits)
  show "current C F (T, s', clk 1)"
    if d: "key_slots_distinct C slot" and j: "json_law F storable" and st: "list_all storable (flag_values (fs_sha256 F) T ctx)"
    using step later write_current [OF r(1) F mono safe d j st] flag_database.ListFlags_values [OF db _ wf]
    by (auto split: option.splits sum.splits)
qed

lemma change_current:
  assumes cur: "current C F (T, s, now)" and F: "fs_cache F = S" and db: "flag_database D" and le: "now \<le> t"
    and run: "change_flags F D t ch T s = (out, T', s')" and ok: "out = Inr () \<or> T' = T"
  shows "current C F (T', s', t)"
proof -
  have wf: "wf_flags T'"
    using flag_database.change_flags_wf [OF db run] cur by (simp add: current_def)
  have inv: "inv now s" using cur by (simp add: current_def)
  from flag_database.change_flags_result [OF db run] consider
      (failed) "T' = T" "s' = s" | (told) "fc_InvalidateAll S t s = (out, s')"
    by (auto simp: F)
  then show ?thesis
  proof cases
    case failed
    with current_mono [OF cur le wait [OF inv le]] show ?thesis by simp
  next
    case told
    note after = invalidate [OF inv le told]
    show ?thesis
    proof (cases "out = Inr ()")
      case True
      with after wf show ?thesis by (simp add: current_def)
    next
      case False
      with ok have "T' = T" by simp
      with after current_mono [OF cur le, of s'] show ?thesis by blast
    qed
  qed
qed

lemma run_current:
  assumes "(flag_step F storable C)\<^sup>*\<^sup>* X Y" "current C F X" "fs_cache F = S" "key_slots_distinct C slot" "json_law F storable"
  shows "current C F Y"
  using assms(1,2)
proof (induction rule: rtranclp_induct)
  case (step Y Z)
  from step.hyps(2) step.IH [OF step.prems] show ?case
  proof (induction rule: flag_step.induct)
    case (Evaluate D now clk ctx T s res s')
    then show ?case
      by (intro evaluate_current(2) [OF Evaluate(7) assms(3) Evaluate(1,2,3,4,6) assms(4,5) Evaluate(5)])
  next
    case (Change D now now' ch T s res T' s')
    then show ?case using change_current [OF _ assms(3)] by blast
  qed
qed

end

subsection \<open>The cache in memory\<close>

definition flag_mem_returns :: "flag_mem \<Rightarrow> gotime \<Rightarrow> string \<Rightarrow> string \<Rightarrow> bool" where
  "flag_mem_returns s t key raw \<longleftrightarrow> (\<exists>entry. s key = Some entry \<and> fe_payload entry = raw)"

interpretation mem_flag_cache:
  flag_cache_store InMemoryFeatureFlagEvaluationCacheStore "\<lambda>_ _. True" flag_mem_returns "\<lambda>k. k"
  by unfold_locales
    (auto simp: InMemoryFeatureFlagEvaluationCacheStore_def InMemoryFlagCache_Get_def InMemoryFlagCache_Set_def
      InMemoryFlagCache_InvalidateAll_def flag_mem_returns_def split: option.splits if_splits)

lemma key_slots_distinct_id: "key_slots_distinct (Collect safe_context) (\<lambda>k. k)"
  by (simp add: key_slots_distinct_def)

subsection \<open>What the service answers\<close>

definition no_flags :: flag_tables where
  "no_flags = \<lparr>ft_flags = [], ft_rules = []\<rparr>"

lemma wf_no_flags [simp]: "wf_flags no_flags"
  by (simp add: wf_flags_def no_flags_def unique_rows_def)

text \<open>A flag is created, evaluated, and given a rule for an organisation.\<close>

definition demo_flag :: feature_flag where
  "demo_flag = \<lparr>ff_ID = 0, ff_Key = ''beta'', ff_Description = [], ff_Enabled = False, ff_Rules = [], ff_CreatedAt = 0\<rparr>"

definition demo_result :: FeatureFlagEvaluationResult where
  "demo_result = \<lparr>er_Key = ''beta'', er_Enabled = False, er_Source = ''default'', er_Description = []\<rparr>"

definition demo_storable :: "FeatureFlagEvaluationResult \<Rightarrow> bool" where
  "demo_storable r \<longleftrightarrow> r = demo_result"

definition demo_flag_service :: "'s flag_cache \<Rightarrow> 's flag_service" where
  "demo_flag_service S = \<lparr>fs_cache = S, fs_sha256 = (\<lambda>x. x), fs_marshal = map (\<lambda>_. CHR ''r''),
     fs_unmarshal = (\<lambda>raw. Some (map (\<lambda>_. demo_result) raw))\<rparr>"

definition demo_flag_ctx :: FeatureFlagEvaluationContext where
  "demo_flag_ctx = \<lparr>ec_UserID = 7, ec_Roles = [''admin''], ec_Org = ''A'', ec_Environment = ''prod''\<rparr>"

definition demo_clk :: "gotime \<Rightarrow> clock" where
  "demo_clk t i = t"

definition demo1 :: "'s flag_cache \<Rightarrow> 's \<Rightarrow> unit result \<times> flag_tables \<times> 's" where
  "demo1 S s = change_flags (demo_flag_service S) (mem_flag_db 0) 1 (CreateFlag demo_flag) no_flags s"

definition demo2 :: "'s flag_cache \<Rightarrow> 's \<Rightarrow> FeatureFlagEvaluationResult list result \<times> 's" where
  "demo2 S s = (case demo1 S s of (_, T, s1) \<Rightarrow>
     FlagService_EvaluateAll (demo_flag_service S) (mem_flag_db 0) (demo_clk 2) demo_flag_ctx T s1)"

definition demo3 :: "'s flag_cache \<Rightarrow> 's \<Rightarrow> unit result \<times> flag_tables \<times> 's" where
  "demo3 S s = (case demo1 S s of (_, T, _) \<Rightarrow> (case demo2 S s of (_, s2) \<Rightarrow>
     change_flags (demo_flag_service S) (mem_flag_db 0) 3 (CreateRule org_rule) T s2))"

lemma demo_safe: "safe_context demo_flag_ctx"
  by code_simp

lemma demo_run:
  assumes "fst (demo1 S s) = Inr ()" "fst (demo3 S s) = Inr ()" and C: "demo_flag_ctx \<in> C"
    and "list_all demo_storable (flag_values (\<lambda>x. x) (fst (snd (demo1 S s))) demo_flag_ctx)"
  shows "(flag_step (demo_flag_service S) demo_storable C)\<^sup>*\<^sup>* (no_flags, s, 0) (fst (snd (demo3 S s)), snd (snd (demo3 S s)), 3)"
proof -
  let ?st = "flag_step (demo_flag_service S) demo_storable C"
  obtain T1 s1 where 1: "demo1 S s = (Inr (), T1, s1)" using assms(1) by (metis prod.collapse)
  obtain r2 s2 where 2: "demo2 S s = (r2, s2)" by (meson surj_pair)
  obtain T3 s3 where 3: "demo3 S s = (Inr (), T3, s3)" using assms(2) by (metis prod.collapse)
  note db = mem_flag_db.flag_database_axioms [of 0]
  have "?st (no_flags, s, 0) (T1, s1, 1)"
    using 1 by (intro flag_step.Change [OF db, where ch = "CreateFlag demo_flag" and res = "Inr ()"]) (simp_all add: demo1_def)
  moreover have "?st (T1, s1, 1) (T1, s2, demo_clk 2 1)"
    using 1 2 assms(4) C
    by (intro flag_step.Evaluate [OF db, where ctx = demo_flag_ctx and clk = "demo_clk 2" and res = r2])
      (simp_all add: demo2_def demo_clk_def demo_safe monoI demo_flag_service_def)
  moreover have "?st (T1, s2, demo_clk 2 1) (T3, s3, 3)"
    using 1 2 3 by (intro flag_step.Change [OF db, where ch = "CreateRule org_rule" and res = "Inr ()"]) (simp_all add: demo3_def demo_clk_def)
  ultimately show ?thesis by (simp add: 3)
qed

lemma demo_json: "json_law (demo_flag_service S) demo_storable"
proof -
  have "map (\<lambda>_. demo_result) vs = vs" if "list_all demo_storable vs" for vs
    using that by (induction vs) (simp_all add: demo_storable_def)
  then show ?thesis by (simp add: json_law_def demo_flag_service_def comp_def)
qed

text \<open>
  C21: The evaluation of a flag, which sorts the rules and then searches them once for each type, gives
  the verdict of a single pass: among the rules that match, the least one in the order user, role,
  organisation, environment, percentage and then by priority and identity decides, and the flag's own
  setting if there is none.  This holds for any list of rules, also with rules of unknown type.
\<close>

theorem evaluateFeatureFlag_verdict:
  "evaluateFeatureFlag sha256 flag ctx = flag_verdict sha256 flag ctx"
  by (rule evaluate_is_verdict)

text \<open>
  After any sequence of calls of the service, successful or not, starting with empty tables, every
  stored rule is valid: its type is one of the five, a rule that compares has a non-empty folded value
  and no percentage, a percentage rule has a percentage from 0 to 100 and no value, and the priority is
  set; every flag has a non-empty folded key of its own and every rule an identity of its own.
\<close>

theorem stored_flags_are_valid:
  assumes "(\<lambda>T T'. \<exists>D now ch s out s'. flag_database D \<and> change_flags F D now ch T s = (out, T', s'))\<^sup>*\<^sup>* no_flags T"
  shows "wf_flags T"
  using assms
proof (induction rule: rtranclp_induct)
  case (step T1 T2)
  then obtain D now ch s out s' where "flag_database D" "change_flags F D now ch T1 s = (out, T2, s')" by blast
  then show ?case by (rule flag_database.change_flags_wf) (rule step.IH)
qed simp

theorem stored_flags_are_valid_witness:
  "\<exists>T. T \<noteq> no_flags \<and> wf_flags T"
proof -
  let ?F = "demo_flag_service NoopFeatureFlagEvaluationCacheStore :: unit flag_service"
  let ?run = "change_flags ?F (mem_flag_db 0) 1 (CreateRule org_rule) no_flags ()"
  have "(\<lambda>T T'. \<exists>D now ch s out s'. flag_database D \<and> change_flags ?F D now ch T s = (out, T', s'))\<^sup>*\<^sup>*
      no_flags (fst (snd ?run))"
    by (rule r_into_rtranclp) (use mem_flag_db.flag_database_axioms prod.collapse in metis)
  then have "wf_flags (fst (snd ?run))" by (rule stored_flags_are_valid)
  moreover have "length (ft_rules (fst (snd ?run))) = 1" by code_simp
  ultimately show ?thesis by (intro exI [of _ "fst (snd ?run)"]) (auto simp: no_flags_def)
qed

text \<open>
  C22: The service with the cache in memory implements the service without one.  Along any sequence of
  evaluations and changes from the empty tables and the empty cache, \<open>EvaluateAll\<close> answers with
  the verdicts on the flags as they are in the tables at that time, or with the error of the
  database.  This holds for calls one after the other with clock readings in order, for contexts whose
  roles are not blank and have neither comma nor bar and whose organisation has no bar (with a bar two
  contexts can share a key: \<open>cache_key_collision\<close>), for results that JSON can represent, and while no
  change reports an error after its rows were written.
\<close>

theorem memory_evaluations_are_current:
  assumes "(flag_step F storable (Collect safe_context))\<^sup>*\<^sup>* (no_flags, \<lambda>_. None, t0) (T, s, now)"
    and "fs_cache F = InMemoryFeatureFlagEvaluationCacheStore" and "json_law F storable"
    and "flag_database D" and "now \<le> clk 0" and "mono clk" and "safe_context ctx"
    and "FlagService_EvaluateAll F D clk ctx T s = (res, s')"
  shows "res = Inr (flag_values (fs_sha256 F) T ctx) \<or> (\<exists>e. FlagRepository_ListFlags D T = Inl e \<and> res = Inl e)"
proof -
  have "mem_flag_cache.current (Collect safe_context) F (no_flags, \<lambda>_. None, t0)"
    by (simp add: mem_flag_cache.current_def flag_mem_returns_def)
  from mem_flag_cache.run_current [OF assms(1) this assms(2) key_slots_distinct_id assms(3)]
  show ?thesis by (rule mem_flag_cache.evaluate_current(1) [OF _ assms(2,4-6) _ assms(8)]) (simp add: assms(7))
qed

theorem memory_evaluations_are_current_witness:
  "\<exists>T. fst (snd (demo3 InMemoryFeatureFlagEvaluationCacheStore (\<lambda>_. None))) = T
     \<and> fst (FlagService_EvaluateAll (demo_flag_service InMemoryFeatureFlagEvaluationCacheStore) (mem_flag_db 0) (demo_clk 4) demo_flag_ctx T
          (snd (snd (demo3 InMemoryFeatureFlagEvaluationCacheStore (\<lambda>_. None)))))
       = Inr (flag_values (\<lambda>x. x) T demo_flag_ctx)
     \<and> flag_values (\<lambda>x. x) T demo_flag_ctx = [demo_result\<lparr>er_Enabled := True, er_Source := ''rule:org''\<rparr>]"
proof -
  let ?S = "InMemoryFeatureFlagEvaluationCacheStore" and ?s0 = "\<lambda>_. None :: featureFlagCacheEntry option"
  have run: "(flag_step (demo_flag_service ?S) demo_storable (Collect safe_context))\<^sup>*\<^sup>* (no_flags, ?s0, 0)
      (fst (snd (demo3 ?S ?s0)), snd (snd (demo3 ?S ?s0)), 3)"
    by (rule demo_run) (code_simp, code_simp, simp add: demo_safe, code_simp)
  have ok: "case FlagRepository_ListFlags (mem_flag_db 0) (fst (snd (demo3 ?S ?s0))) of Inl _ \<Rightarrow> False | Inr _ \<Rightarrow> True"
    by code_simp
  have vals: "flag_values (\<lambda>x. x) (fst (snd (demo3 ?S ?s0))) demo_flag_ctx = [demo_result\<lparr>er_Enabled := True, er_Source := ''rule:org''\<rparr>]"
    by code_simp
  note demo = demo_flag_service_def [of ?S]
  from memory_evaluations_are_current [OF run _ demo_json mem_flag_db.flag_database_axioms _ _ _ prod.collapse [symmetric],
      of "demo_clk 4" demo_flag_ctx 0] ok vals
  show ?thesis by (auto simp: demo demo_clk_def demo_safe monoI)
qed

end
