(* ===== verification/Flag_Redis.thy ===== *)
theory Flag_Redis
  imports Flag_Consistency
begin

section \<open>Cached evaluations in Redis\<close>

text \<open>
  The contract of the cache of evaluations, discharged for the implementation over Redis, for any server
  that keeps the laws of \<open>redis_server\<close> and any failures of the connection; and what follows for the
  service.
\<close>

subsection \<open>The cache in Redis\<close>

text \<open>
  Every entry that is alive is listed in the index of all entries, which lives at least as long as the
  entry because the time to live is the same for all entries and the clock of the server does not run
  backwards.
\<close>

definition flag_view_inv :: "(string \<Rightarrow> string) \<Rightarrow> string \<Rightarrow> int \<Rightarrow> rview \<Rightarrow> bool" where
  "flag_view_inv sha256 pfx t V \<longleftrightarrow>
     (\<forall>k v e. alive t V (flag_dataKey sha256 pfx k) = Some (v, e) \<longrightarrow>
        (\<exists>ks e1 e2. e = Some e1 \<and> alive t V (flag_allIndexKey pfx) = Some (RSet ks, Some e2)
           \<and> flag_dataKey sha256 pfx k \<in> set ks \<and> e1 \<le> t + 30000 \<and> e1 \<le> e2))
     \<and> (\<forall>v e. V (flag_allIndexKey pfx) = Some (v, e) \<longrightarrow> (\<exists>ks. v = RSet ks))"

definition flag_view_returns :: "int \<Rightarrow> rview \<Rightarrow> string \<Rightarrow> string \<Rightarrow> bool" where
  "flag_view_returns t V x raw \<longleftrightarrow> v_GET t x V = Some raw"

lemma index_key_neq [simp]:
  "flag_dataKey sha256 pfx k \<noteq> flag_allIndexKey pfx" "flag_allIndexKey pfx \<noteq> flag_dataKey sha256 pfx k"
  by (simp_all add: flag_dataKey_def flag_allIndexKey_def)

lemma user_index_neq:
  "userIndexKeyFromCacheKey pfx k \<noteq> [] \<Longrightarrow> flag_allIndexKey pfx \<noteq> userIndexKeyFromCacheKey pfx k"
  "userIndexKeyFromCacheKey pfx k \<noteq> [] \<Longrightarrow> flag_dataKey sha256 pfx j \<noteq> userIndexKeyFromCacheKey pfx k"
  by (auto simp: flag_dataKey_def flag_allIndexKey_def userIndexKeyFromCacheKey_def Let_def split: if_splits)

lemma ttl_values [simp]: "redis_ttl flag_cacheTTL = 30000" "redis_ttl (flag_cacheTTL + minutes 1) = 90000" "\<not> flag_cacheTTL \<le> 0"
  by (simp_all add: redis_ttl_def flag_cacheTTL_def)

lemma alive_Some: "alive t V k = Some (v, Some e) \<longleftrightarrow> V k = Some (v, Some e) \<and> t < e"
  by (auto simp: alive_def split: option.splits if_splits prod.splits)

lemma alive_None: "alive t V k = Some (v, None) \<longleftrightarrow> V k = Some (v, None)"
  by (auto simp: alive_def split: option.splits if_splits prod.splits)

lemma flag_view_wait: "flag_view_inv sha256 pfx t V \<Longrightarrow> t \<le> t' \<Longrightarrow> flag_view_inv sha256 pfx t' V"
  unfolding flag_view_inv_def
proof (elim conjE, intro conjI allI impI)
  fix k v e
  assume inv: "\<forall>k v e. alive t V (flag_dataKey sha256 pfx k) = Some (v, e) \<longrightarrow>
        (\<exists>ks e1 e2. e = Some e1 \<and> alive t V (flag_allIndexKey pfx) = Some (RSet ks, Some e2)
           \<and> flag_dataKey sha256 pfx k \<in> set ks \<and> e1 \<le> t + 30000 \<and> e1 \<le> e2)"
    and le: "t \<le> t'" and al: "alive t' V (flag_dataKey sha256 pfx k) = Some (v, e)"
  have "alive t V (flag_dataKey sha256 pfx k) = Some (v, e)"
    using alive_later [of t' V "flag_dataKey sha256 pfx k" t] al le by simp
  with inv obtain ks e1 e2 where w: "e = Some e1" "alive t V (flag_allIndexKey pfx) = Some (RSet ks, Some e2)"
    "flag_dataKey sha256 pfx k \<in> set ks" "e1 \<le> t + 30000" "e1 \<le> e2" by blast
  have "t' < e1" using al w(1) by (simp add: alive_Some)
  with w le show "\<exists>ks e1 e2. e = Some e1 \<and> alive t' V (flag_allIndexKey pfx) = Some (RSet ks, Some e2)
      \<and> flag_dataKey sha256 pfx k \<in> set ks \<and> e1 \<le> t' + 30000 \<and> e1 \<le> e2"
    by (intro exI [of _ ks] exI [of _ e1] exI [of _ e2]) (simp add: alive_Some)
qed blast

text \<open>Adding to an index touches the key of the index only.\<close>

definition v_index_add :: "int \<Rightarrow> string \<Rightarrow> string \<Rightarrow> rview \<Rightarrow> rview" where
  "v_index_add t idx m V = v_PEXPIRE t idx 90000 (v_SADD t idx m V)"

lemma v_index_add_other: "k \<noteq> idx \<Longrightarrow> v_index_add t idx m V k = V k"
  by (auto simp: v_index_add_def v_PEXPIRE_def v_SADD_def split: option.splits prod.splits rvalue.splits)

lemma v_index_add_here:
  assumes "\<forall>v e. V idx = Some (v, e) \<longrightarrow> (\<exists>ks. v = RSet ks)"
  shows "\<exists>ks. v_index_add t idx m V idx = Some (RSet ks, Some (t + 90000)) \<and> m \<in> set ks
    \<and> (\<forall>js e. alive t V idx = Some (RSet js, e) \<longrightarrow> set js \<subseteq> set ks)"
proof (cases "alive t V idx")
  case None
  then show ?thesis by (simp add: v_index_add_def v_PEXPIRE_def v_SADD_def)
next
  case (Some ve)
  then obtain v e where ve: "alive t V idx = Some (v, e)" by (cases ve) auto
  then have "V idx = Some (v, e)" by (auto simp: alive_def split: option.splits if_splits prod.splits)
  with assms obtain js where js: "v = RSet js" by blast
  from ve have ok: "case e of None \<Rightarrow> True | Some u \<Rightarrow> t < u" by (auto simp: alive_def split: option.splits if_splits prod.splits)
  then have "v_index_add t idx m V idx = Some (RSet (List.insert m js), Some (t + 90000))"
    using ve js by (cases e) (simp_all add: v_index_add_def v_PEXPIRE_def v_SADD_def)
  with ve js show ?thesis by auto
qed

definition v_flag_set :: "(string \<Rightarrow> string) \<Rightarrow> string \<Rightarrow> int \<Rightarrow> string \<Rightarrow> string \<Rightarrow> rview \<Rightarrow> rview" where
  "v_flag_set sha256 pfx t key v V =
     (let dk = flag_dataKey sha256 pfx key; ui = userIndexKeyFromCacheKey pfx key;
          V2 = v_index_add t (flag_allIndexKey pfx) dk (v_SET t dk v (Some 30000) V)
      in if ui \<noteq> [] then v_index_add t ui dk V2 else V2)"

lemma v_flag_set_data:
  "v_flag_set sha256 pfx t key v V (flag_dataKey sha256 pfx k) =
     (if flag_dataKey sha256 pfx k = flag_dataKey sha256 pfx key then Some (RStr v, Some (t + 30000))
      else V (flag_dataKey sha256 pfx k))"
  by (simp add: v_flag_set_def Let_def v_index_add_other v_SET_def user_index_neq)

lemma v_flag_set_index:
  "v_flag_set sha256 pfx t key v V (flag_allIndexKey pfx) =
     v_index_add t (flag_allIndexKey pfx) (flag_dataKey sha256 pfx key) (v_SET t (flag_dataKey sha256 pfx key) v (Some 30000) V) (flag_allIndexKey pfx)"
  by (simp add: v_flag_set_def Let_def v_index_add_other user_index_neq)

lemma flag_set_keeps:
  assumes inv: "flag_view_inv sha256 pfx t V"
  shows "flag_view_inv sha256 pfx t (v_flag_set sha256 pfx t key v V)"
proof -
  let ?dk = "flag_dataKey sha256 pfx" and ?ix = "flag_allIndexKey pfx"
  let ?V1 = "v_SET t (?dk key) v (Some 30000) V" and ?W = "v_flag_set sha256 pfx t key v V"
  have ix1: "?V1 ?ix = V ?ix" "alive t ?V1 ?ix = alive t V ?ix" by (simp_all add: v_SET_def)
  have "\<forall>v e. ?V1 ?ix = Some (v, e) \<longrightarrow> (\<exists>ks. v = RSet ks)"
    using inv ix1 by (simp add: flag_view_inv_def)
  from v_index_add_here [of ?V1 ?ix t "?dk key", OF this] obtain ks where
    W: "?W ?ix = Some (RSet ks, Some (t + 90000))" "?dk key \<in> set ks"
    and sub: "\<And>js e. alive t V ?ix = Some (RSet js, e) \<Longrightarrow> set js \<subseteq> set ks"
    unfolding v_flag_set_index [symmetric] ix1 by blast
  have alW: "alive t ?W ?ix = Some (RSet ks, Some (t + 90000))" using W by (simp add: alive_Some)
  have "\<exists>ks e1 e2. e = Some e1 \<and> alive t ?W ?ix = Some (RSet ks, Some e2) \<and> ?dk k \<in> set ks \<and> e1 \<le> t + 30000 \<and> e1 \<le> e2"
    if al: "alive t ?W (?dk k) = Some (w, e)" for k w e
  proof (cases "?dk k = ?dk key")
    case True
    have "?W (?dk k) = Some (RStr v, Some (t + 30000))" by (simp add: v_flag_set_data True)
    with al have "e = Some (t + 30000)" by (simp add: alive_def split: if_splits)
    with alW W(2) True show ?thesis by simp
  next
    case False
    then have "alive t V (?dk k) = Some (w, e)"
      using al unfolding alive_def by (simp add: v_flag_set_data)
    with inv obtain js e1 e2 where "e = Some e1" "alive t V ?ix = Some (RSet js, Some e2)" "?dk k \<in> set js" "e1 \<le> t + 30000"
      unfolding flag_view_inv_def by blast
    with sub alW show ?thesis by fastforce
  qed
  then show ?thesis unfolding flag_view_inv_def using W(1) by (intro conjI allI impI) auto
qed

lemma flag_set_returns:
  "flag_view_returns u (v_flag_set sha256 pfx t key v V) (flag_dataKey sha256 pfx k) raw \<Longrightarrow>
   flag_view_returns u V (flag_dataKey sha256 pfx k) raw \<or> flag_dataKey sha256 pfx k = flag_dataKey sha256 pfx key \<and> raw = v"
  by (auto simp: flag_view_returns_def v_GET_def alive_def v_flag_set_data split: if_splits option.splits prod.splits rvalue.splits)

text \<open>Deleting what the index lists leaves no entry that is alive, now or later.\<close>

lemma flag_drop:
  assumes inv: "flag_view_inv sha256 pfx t V"
    and ks: "set ks = set (v_SMEMBERS t (flag_allIndexKey pfx) V)"
  defines "W \<equiv> v_DEL [flag_allIndexKey pfx] (v_DEL ks V)"
  shows "t \<le> u \<Longrightarrow> alive u W (flag_dataKey sha256 pfx k) = None" and "flag_view_inv sha256 pfx t W"
proof -
  have dead: "alive u W (flag_dataKey sha256 pfx k) = None" if "t \<le> u" for u k
  proof (rule ccontr)
    assume "alive u W (flag_dataKey sha256 pfx k) \<noteq> None"
    then have al: "alive u V (flag_dataKey sha256 pfx k) \<noteq> None" and out: "flag_dataKey sha256 pfx k \<notin> set ks"
      by (auto simp: W_def v_DEL_def alive_def split: if_splits)
    then have "alive t V (flag_dataKey sha256 pfx k) \<noteq> None" using alive_later [OF al \<open>t \<le> u\<close>] by simp
    then obtain v e where "alive t V (flag_dataKey sha256 pfx k) = Some (v, e)" by force
    with inv obtain js e2 where "alive t V (flag_allIndexKey pfx) = Some (RSet js, Some e2)" "flag_dataKey sha256 pfx k \<in> set js"
      unfolding flag_view_inv_def by blast
    with out ks show False by (simp add: v_SMEMBERS_def)
  qed
  then show "t \<le> u \<Longrightarrow> alive u W (flag_dataKey sha256 pfx k) = None" .
  show "flag_view_inv sha256 pfx t W" using dead by (simp add: flag_view_inv_def W_def v_DEL_def)
qed

lemma v_DEL_returns: "flag_view_returns u (v_DEL ks V) x raw \<Longrightarrow> flag_view_returns u V x raw"
  by (auto simp: flag_view_returns_def v_GET_def alive_def v_DEL_def split: if_splits)

definition redis_flag_returns ::
    "('r \<Rightarrow> rview) \<Rightarrow> (gotime \<Rightarrow> int) \<Rightarrow> (string \<Rightarrow> string) \<Rightarrow> string \<Rightarrow> 'r \<times> net list \<Rightarrow> gotime \<Rightarrow> string \<Rightarrow> string \<Rightarrow> bool" where
  "redis_flag_returns view tick sha256 pfx s t x raw \<longleftrightarrow>
     (\<exists>k. x = flag_dataKey sha256 pfx k) \<and> flag_view_returns (tick t) (view (fst s)) x raw"

context redis_server
begin

lemma flag_cache_set_view:
  "view (let r1 = rd_SET R t (flag_dataKey sha256 pfx key) v (Some (redis_ttl flag_cacheTTL)) r;
             r2 = index_add R t (flag_allIndexKey pfx) (flag_dataKey sha256 pfx key) flag_cacheTTL r1
         in if userIndexKeyFromCacheKey pfx key \<noteq> [] then index_add R t (userIndexKeyFromCacheKey pfx key) (flag_dataKey sha256 pfx key) flag_cacheTTL r2 else r2)
   = v_flag_set sha256 pfx t key v (view r)"
  by (simp add: v_flag_set_def Let_def index_add_def v_index_add_def ttl_values [simplified])

lemma drop_index_result:
  assumes inv: "flag_view_inv sha256 pfx (tick now) (view (fst s))"
    and run: "drop_index R tick (flag_allIndexKey pfx) now s = (res, s')"
  shows "flag_view_inv sha256 pfx (tick now) (view (fst s'))"
    and "flag_view_returns u (view (fst s')) x raw \<Longrightarrow> flag_view_returns u (view (fst s)) x raw"
    and "res = Inr () \<Longrightarrow> tick now \<le> u \<Longrightarrow> \<not> flag_view_returns u (view (fst s')) (flag_dataKey sha256 pfx k) raw"
proof -
  let ?ix = "flag_allIndexKey pfx"
  obtain out s1 where io1: "redis_io (\<lambda>r. (rd_SMEMBERS R (tick now) ?ix r, r)) s = (out, s1)" by (meson surj_pair)
  from io1 have s1: "fst s1 = fst s" by (cases rule: redis_io_cases) auto
  have "flag_view_inv sha256 pfx (tick now) (view (fst s'))
    \<and> (flag_view_returns u (view (fst s')) x raw \<longrightarrow> flag_view_returns u (view (fst s)) x raw)
    \<and> (res = Inr () \<longrightarrow> tick now \<le> u \<longrightarrow> \<not> flag_view_returns u (view (fst s')) (flag_dataKey sha256 pfx k) raw)"
  proof (cases out)
    case (Inl e)
    with run io1 s1 inv show ?thesis by (auto simp: drop_index_def)
  next
    case (Inr keys)
    from io1 have ks: "set keys = set (v_SMEMBERS (tick now) ?ix (view (fst s)))"
      by (cases rule: redis_io_cases) (use Inr in auto)
    let ?del = "\<lambda>r. ((), rd_DEL R [?ix] (if keys \<noteq> [] then rd_DEL R keys r else r))"
    have io2: "redis_io ?del s1 = (res, s')" using run [unfolded drop_index_def io1 Inr prod.case sum.case] .
    define W where "W = view (snd (?del (fst s)))"
    have W: "W = v_DEL [?ix] (v_DEL keys (view (fst s)))"
      by (cases keys) (simp_all add: W_def, simp add: v_DEL_def)
    note after = flag_drop [OF inv ks, folded W]
    from io2 have s': "fst s' = snd (?del (fst s)) \<or> fst s' = fst s \<and> res \<noteq> Inr ()"
      by (cases rule: redis_io_cases) (auto simp: s1)
    then show ?thesis
    proof
      assume "fst s' = snd (?del (fst s))"
      then have "view (fst s') = W" by (simp add: W_def)
      with after show ?thesis
        by (auto simp: W dest: v_DEL_returns) (auto simp: flag_view_returns_def v_GET_def W [symmetric])
    next
      assume "fst s' = fst s \<and> res \<noteq> Inr ()"
      with inv show ?thesis by simp
    qed
  qed
  then show "flag_view_inv sha256 pfx (tick now) (view (fst s'))"
    "flag_view_returns u (view (fst s')) x raw \<Longrightarrow> flag_view_returns u (view (fst s)) x raw"
    "res = Inr () \<Longrightarrow> tick now \<le> u \<Longrightarrow> \<not> flag_view_returns u (view (fst s')) (flag_dataKey sha256 pfx k) raw"
    by auto
qed

lemma redis_flag_cache:
  assumes pfx: "pfx \<noteq> []" and tick: "mono tick"
  shows "flag_cache_store (RedisFeatureFlagEvaluationCacheStore R tick sha256 pfx)
     (\<lambda>t s. flag_view_inv sha256 pfx (tick t) (view (fst s))) (redis_flag_returns view tick sha256 pfx) (flag_dataKey sha256 pfx)"
proof (unfold_locales, goal_cases)
  case (1 t s now)
  then show ?case using flag_view_wait tick by (simp add: mono_def)
next
  case (2 t s now k raw s')
  then have "redis_io (\<lambda>r. (rd_GET R (tick now) (flag_dataKey sha256 pfx k) r, r)) s = (Inr (Some raw), s')"
    using pfx by (simp add: RedisFeatureFlagEvaluationCacheStore_def RedisFlagCache_Get_def Let_def)
  then show ?case
    by (cases rule: redis_io_cases) (auto simp: redis_flag_returns_def flag_view_returns_def)
next
  case (3 t s now k res s' t' x raw)
  then have "redis_io (\<lambda>r. (rd_GET R (tick now) (flag_dataKey sha256 pfx k) r, r)) s = (res, s')"
    using pfx by (simp add: RedisFeatureFlagEvaluationCacheStore_def RedisFlagCache_Get_def Let_def)
  then have "fst s' = fst s" by (cases rule: redis_io_cases) auto
  with 3 tick show ?case
    using flag_view_wait [of sha256 pfx "tick t" "view (fst s)" "tick now"] by (simp add: redis_flag_returns_def mono_def)
next
  case (4 t s now k v res s' t' x raw)
  have inv: "flag_view_inv sha256 pfx (tick now) (view (fst s))"
    using 4 tick flag_view_wait by (simp add: mono_def)
  from 4 have io: "redis_io (\<lambda>r. ((), let r1 = rd_SET R (tick now) (flag_dataKey sha256 pfx k) v (Some (redis_ttl flag_cacheTTL)) r;
             r2 = index_add R (tick now) (flag_allIndexKey pfx) (flag_dataKey sha256 pfx k) flag_cacheTTL r1
         in if userIndexKeyFromCacheKey pfx k \<noteq> [] then index_add R (tick now) (userIndexKeyFromCacheKey pfx k) (flag_dataKey sha256 pfx k) flag_cacheTTL r2 else r2)) s
      = (res, s')"
    using pfx ttl_values(3)
    by (simp only: RedisFeatureFlagEvaluationCacheStore_def RedisFlagCache_Set_def Let_def if_False flag_cache.simps)
  then have "view (fst s') = view (fst s) \<or> view (fst s') = v_flag_set sha256 pfx (tick now) k v (view (fst s))"
    by (cases rule: redis_io_cases) (use flag_cache_set_view in auto)
  with inv flag_set_keeps [OF inv] show ?case
    by (auto simp: redis_flag_returns_def dest: flag_set_returns)
next
  case (5 t s now res s' t' x raw)
  have inv: "flag_view_inv sha256 pfx (tick now) (view (fst s))"
    using 5 tick flag_view_wait by (simp add: mono_def)
  from 5 have "drop_index R tick (flag_allIndexKey pfx) now s = (res, s')"
    using pfx by (simp add: RedisFeatureFlagEvaluationCacheStore_def RedisFlagCache_InvalidateAll_def Let_def)
  from drop_index_result [OF inv this] tick show ?case
    by (auto simp: redis_flag_returns_def mono_def)
qed

end

abbreviation milli :: "gotime \<Rightarrow> int" where
  "milli t \<equiv> t div 1000000"

lemma mono_milli: "mono milli"
  by (rule monoI) (simp add: zdiv_mono1)

interpretation redis_flag_cache: flag_cache_store
    "RedisFeatureFlagEvaluationCacheStore mem_redis milli sha256 ''feature_flag_eval_cache''"
    "\<lambda>t s. flag_view_inv sha256 ''feature_flag_eval_cache'' (milli t) (id (fst s))"
    "redis_flag_returns id milli sha256 ''feature_flag_eval_cache''" "flag_dataKey sha256 ''feature_flag_eval_cache''" for sha256
  by (rule mem_redis.redis_flag_cache) (simp_all add: mono_milli)

lemma hexEncode_inj: "hexEncode a = hexEncode b \<Longrightarrow> a = b"
proof (induction a arbitrary: b)
  case Nil
  then show ?case by (cases b) (simp_all add: hexEncode_def)
next
  case (Cons x a)
  then obtain y c where b: "b = y # c" by (cases b) (simp_all add: hexEncode_def)
  have hex: "m = n" if "hex_digit m = hex_digit n" "m < 16" "n < 16" for m n
    using that by (auto simp: hex_digit_def split: if_splits)
  have lt: "(of_char z :: nat) div 16 < 16" "(of_char z :: nat) mod 16 < 16" for z :: char
    using less_mult_imp_div_less [of "of_char z" 16 16] nat_of_char_less_256 [of z] by simp_all
  from Cons.prems b have "hex_digit (of_char x div 16) = hex_digit (of_char y div 16)"
    "hex_digit (of_char x mod 16) = hex_digit (of_char y mod 16)" "hexEncode a = hexEncode c"
    by (simp_all add: hexEncode_def)
  with hex lt have "(of_char x :: nat) div 16 = of_char y div 16" "(of_char x :: nat) mod 16 = of_char y mod 16" "a = c"
    using Cons.IH by blast+
  then have "(of_char x :: nat) = of_char y" by (metis div_mult_mod_eq)
  with \<open>a = c\<close> b show ?case by simp
qed

lemma flag_slots_distinct:
  "C \<subseteq> Collect safe_context \<Longrightarrow> inj_on sha256 (buildFeatureFlagCacheKey ` C) \<Longrightarrow> key_slots_distinct C (flag_dataKey sha256 pfx)"
  by (auto simp: key_slots_distinct_def inj_on_def flag_dataKey_def hashToken_def dest!: hexEncode_inj)

text \<open>
  C23: The service with the cache in Redis answers \<open>EvaluateAll\<close> with the verdicts on the flags as they
  are in the tables, or with the error of the database, along any sequence of evaluations and changes
  and whatever calls to Redis fail or lose their reply, as long as no change ends with an error of the
  cache after its rows were written.  The contexts asked about have no blank role, no comma or bar in
  roles and no bar in the organisation; results are such that JSON can represent them.  The server starts
  without entries of the cache, its clock does not run backwards, and SHA-256 has no collision among the
  keys of the contexts that are asked about.
\<close>

theorem redis_evaluations_are_current:
  assumes "redis_server R view" and "pfx \<noteq> []" and "mono tick"
    and "fs_cache F = RedisFeatureFlagEvaluationCacheStore R tick (fs_sha256 F) pfx" and "json_law F storable"
    and "C \<subseteq> Collect safe_context" and "inj_on (fs_sha256 F) (buildFeatureFlagCacheKey ` C)"
    and "\<And>k. view r0 k = None"
    and "(flag_step F storable C)\<^sup>*\<^sup>* (no_flags, (r0, ns), t0) (T, s, now)"
    and "flag_database D" and "now \<le> clk 0" and "mono clk" and "ctx \<in> C"
    and "FlagService_EvaluateAll F D clk ctx T s = (res, s')"
  shows "res = Inr (flag_values (fs_sha256 F) T ctx) \<or> (\<exists>e. FlagRepository_ListFlags D T = Inl e \<and> res = Inl e)"
proof -
  note cache = redis_server.redis_flag_cache [OF assms(1-3), of "fs_sha256 F"]
  have "flag_cache_store.current (\<lambda>t s. flag_view_inv (fs_sha256 F) pfx (tick t) (view (fst s)))
      (redis_flag_returns view tick (fs_sha256 F) pfx) (flag_dataKey (fs_sha256 F) pfx) C F (no_flags, (r0, ns), t0)"
    unfolding flag_cache_store.current_def [OF cache]
    using assms(8) by (simp add: flag_view_inv_def redis_flag_returns_def flag_view_returns_def v_GET_def alive_def)
  from flag_cache_store.run_current [OF cache assms(9) this assms(4) flag_slots_distinct [OF assms(6,7)] assms(5)]
  show ?thesis by (rule flag_cache_store.evaluate_current(1) [OF cache _ assms(4,10-14)])
qed

definition demo_redis_store :: "(rview \<times> net list) flag_cache" where
  "demo_redis_store = RedisFeatureFlagEvaluationCacheStore mem_redis milli (\<lambda>x. x) ''flags''"

definition demo_redis0 :: "rview \<times> net list" where
  "demo_redis0 = (\<lambda>_. None, [Up, Up, Refused (External ''timeout'')])"

theorem redis_evaluations_are_current_witness:
  "\<exists>T. fst (snd (demo3 demo_redis_store demo_redis0)) = T
     \<and> fst (FlagService_EvaluateAll (demo_flag_service demo_redis_store) (mem_flag_db 0) (demo_clk 4) demo_flag_ctx T
          (snd (snd (demo3 demo_redis_store demo_redis0))))
       = Inr (flag_values (\<lambda>x. x) T demo_flag_ctx)"
proof -
  have run: "(flag_step (demo_flag_service demo_redis_store) demo_storable {demo_flag_ctx})\<^sup>*\<^sup>* (no_flags, demo_redis0, 0)
      (fst (snd (demo3 demo_redis_store demo_redis0)), snd (snd (demo3 demo_redis_store demo_redis0)), 3)"
    by (rule demo_run) (code_simp, code_simp, simp, code_simp)
  have ok: "case FlagRepository_ListFlags (mem_flag_db 0) (fst (snd (demo3 demo_redis_store demo_redis0))) of Inl _ \<Rightarrow> False | Inr _ \<Rightarrow> True"
    by code_simp
  have F: "fs_cache (demo_flag_service demo_redis_store) = RedisFeatureFlagEvaluationCacheStore mem_redis milli
      (fs_sha256 (demo_flag_service demo_redis_store)) ''flags''" "fs_sha256 (demo_flag_service demo_redis_store) = (\<lambda>x. x)"
    by (simp_all add: demo_flag_service_def demo_redis_store_def)
  from redis_evaluations_are_current [OF mem_redis.redis_server_axioms _ mono_milli F(1) demo_json _ _ _ run [unfolded demo_redis0_def]
      mem_flag_db.flag_database_axioms _ _ _ prod.collapse [symmetric], of "demo_clk 4" demo_flag_ctx 0] ok
  show ?thesis
    by (auto simp: F(2) demo_redis0_def demo_clk_def demo_safe monoI)
qed

end
