(* ===== verification/Handler_Util.thy ===== *)
theory Handler_Util
  imports Http Identity_Repo
begin

section \<open>What the handlers share: \<open>admin_handler.go\<close>, \<open>user_handler.go\<close>\<close>

text \<open>
  Helpers of the HTTP handlers.  A handler takes, besides the request, the request id of chi's
  middleware and the decoder of its JSON body (the result of \<open>json.NewDecoder(r.Body).Decode\<close> on a fresh
  struct, \<open>None\<close> for an error), and works on the state of the components behind it.
  \<open>rq_Query\<close> is \<open>r.URL.Query()\<close> and \<open>rq_Params\<close> holds the parameters of the route that
  \<open>chi.URLParam\<close> returns.
\<close>

definition Query_Get :: "request \<Rightarrow> string \<Rightarrow> string" where
  "Query_Get r k = (case map_of (rq_Query r) k of Some (v # _) \<Rightarrow> v | _ \<Rightarrow> [])"

definition URLParam :: "request \<Rightarrow> string \<Rightarrow> string" where
  "URLParam r k = (case map_of (rq_Params r) k of Some v \<Rightarrow> v | None \<Rightarrow> [])"

definition authUserIDAndClaims :: "request \<Rightarrow> (uint \<times> claims) option" where
  "authUserIDAndClaims r =
     (case ClaimsFromContext r of
        None \<Rightarrow> None
      | Some claims \<Rightarrow> (case ParseUint (cl_Subject claims) of None \<Rightarrow> None | Some i \<Rightarrow> Some (i, claims)))"

definition actorIDFromRequest :: "request \<Rightarrow> uint option" where
  "actorIDFromRequest r =
     (case ClaimsFromContext r of None \<Rightarrow> None | Some claims \<Rightarrow> ParseUint (cl_Subject claims))"

definition parsePathID :: "string \<Rightarrow> uint option" where
  "parsePathID s = ParseUint (TrimSpace s)"

definition isConflictError :: "goerr \<Rightarrow> bool" where
  "isConflictError e =
     (let msg = ToLower (Error_text e) in Contains msg ''duplicate'' \<or> Contains msg ''unique'')"

definition parse_positive :: "string \<Rightarrow> int option" where
  "parse_positive raw = (case Atoi raw of None \<Rightarrow> None | Some v \<Rightarrow> if v < 1 then None else Some v)"

definition parsePageRequest :: "request \<Rightarrow> PageRequest result" where
  "parsePageRequest r =
     (let rawPage = TrimSpace (Query_Get r ''page''); rawSize = TrimSpace (Query_Get r ''page_size'') in
      case (if rawPage = [] then Some DefaultPage else parse_positive rawPage) of
        None \<Rightarrow> Inl (Errorf ''page must be a positive integer'')
      | Some page \<Rightarrow>
          (case (if rawSize = [] then Some DefaultPageSize else parse_positive rawSize) of
             None \<Rightarrow> Inl (Errorf ''page_size must be a positive integer'')
           | Some pageSize \<Rightarrow>
               if pageSize > MaxPageSize then Inl (Errorf (''page_size must be <= '' @ FormatInt MaxPageSize))
               else Inr \<lparr>pq_Page = page, pq_PageSize = pageSize\<rparr>))"

definition parseSortParams :: "request \<Rightarrow> string \<Rightarrow> string list \<Rightarrow> (string \<times> string) result" where
  "parseSortParams r defaultField allowed =
     (let raw = ToLower (TrimSpace (Query_Get r ''sort_by''));
          sortBy = (if raw = [] then defaultField else raw) in
      if sortBy \<notin> set allowed then Inl (Errorf (''invalid sort_by: '' @ sortBy))
      else (let rawOrder = ToLower (TrimSpace (Query_Get r ''sort_order''));
                sortOrder = (if rawOrder = [] then ''desc'' else rawOrder) in
            if sortOrder \<noteq> ''asc'' \<and> sortOrder \<noteq> ''desc'' then Inl (Errorf ''sort_order must be asc or desc'')
            else Inr (sortBy, sortOrder)))"

definition paginatedData :: "('a \<Rightarrow> json) \<Rightarrow> 'a PageResult \<Rightarrow> json" where
  "paginatedData enc res =
     JObj [(''items'', JArr (map enc (pg_Items res))),
           (''pagination'', JObj [(''page'', JInt (pg_Page res)), (''page_size'', JInt (pg_PageSize res)),
              (''total'', JInt (pg_Total res)), (''total_pages'', JInt (pg_TotalPages res))])]"

text \<open>The rows as the encoder sees them, with the names and omissions of their tags.\<close>

definition permission_json :: "permission \<Rightarrow> json" where
  "permission_json p = JObj [(''id'', JInt (int (p_ID p))), (''resource'', JStr (p_Resource p)), (''action'', JStr (p_Action p)),
     (''created_at'', JTime (p_CreatedAt p))]"

definition role_json :: "role \<Rightarrow> json" where
  "role_json r = JObj ([(''id'', JInt (int (r_ID r))), (''name'', JStr (r_Name r)), (''description'', JStr (r_Description r))]
     @ (if r_Permissions r = [] then [] else [(''permissions'', JArr (map permission_json (r_Permissions r)))])
     @ [(''created_at'', JTime (r_CreatedAt r))])"

definition user_json :: "user \<Rightarrow> json" where
  "user_json u = JObj ([(''id'', JInt (int (u_ID u))), (''email'', JStr (u_Email u)), (''name'', JStr (u_Name u)),
     (''avatar_url'', JStr (u_AvatarURL u)), (''status'', JStr (u_Status u)), (''last_login_at'', JTime (u_LastLoginAt u)),
     (''created_at'', JTime (u_CreatedAt u))]
     @ (if u_Roles u = [] then [] else [(''roles'', JArr (map role_json (u_Roles u)))]))"

end
