(* ===== verification/Products.thy ===== *)
theory Products
  imports Handler_Util
begin

section \<open>Products: \<open>product_repository.go\<close>, \<open>product_service.go\<close>, \<open>product_handler.go\<close>\<close>

text \<open>
  The table of products, the service that validates them and the handlers of \<open>/api/v1/products\<close>, and
  that a stored product is valid whatever requests are made.  \<open>float64\<close> is a rational number; JSON has
  no not-a-number.  The column \<open>updated_at\<close> is left out.
\<close>

subsection \<open>\<open>GormProductRepository\<close>\<close>

definition ProductRepository_Create :: "product gorm \<Rightarrow> product \<Rightarrow> product list \<Rightarrow> product result \<times> product list" where
  "ProductRepository_Create G p t =
     (case gorm_Create G p t of Inl e \<Rightarrow> (Inl e, t) | Inr (p', t') \<Rightarrow> (Inr p', t'))"

definition ProductRepository_FindByID :: "product gorm \<Rightarrow> uint \<Rightarrow> product list \<Rightarrow> product result" where
  "ProductRepository_FindByID G i t =
     (case gorm_First G (\<lambda>p. pr_ID p = i) t of Inl e \<Rightarrow> Inl (not_found ErrProductNotFound e) | Inr p \<Rightarrow> Inr p)"

definition ProductRepository_ListPaged :: "product gorm \<Rightarrow> PageRequest \<Rightarrow> product list \<Rightarrow> product PageResult result" where
  "ProductRepository_ListPaged G req t = list_page G (\<lambda>_. True) (\<lambda>a b. pr_ID b \<le> pr_ID a) Inr req t"

text \<open>The map of column updates is the function on rows that it stands for.\<close>

definition ProductRepository_Update :: "product gorm \<Rightarrow> uint \<Rightarrow> (product \<Rightarrow> product) \<Rightarrow> product list \<Rightarrow> unit result \<times> product list" where
  "ProductRepository_Update G i updates t =
     (case gorm_Updates G (\<lambda>p. pr_ID p = i) updates t of
        Inl e \<Rightarrow> (Inl e, t)
      | Inr (n, t') \<Rightarrow> if n = 0 then (Inl ErrProductNotFound, t') else (Inr (), t'))"

definition ProductRepository_DeleteByID :: "product gorm \<Rightarrow> uint \<Rightarrow> product list \<Rightarrow> unit result \<times> product list" where
  "ProductRepository_DeleteByID G i t =
     (case gorm_Delete G (\<lambda>p. pr_ID p = i) t of
        Inl e \<Rightarrow> (Inl e, t)
      | Inr (n, t') \<Rightarrow> if n = 0 then (Inl ErrProductNotFound, t') else (Inr (), t'))"

subsection \<open>\<open>ProductServiceImpl\<close>\<close>

record CreateProductInput =
  ci_Name :: string
  ci_Description :: string
  ci_Price :: rat

record UpdateProductInput =
  ui_Name :: "string option"
  ui_Description :: "string option"
  ui_Price :: "rat option"

definition ProductService_Create :: "product gorm \<Rightarrow> CreateProductInput \<Rightarrow> product list \<Rightarrow> product result \<times> product list" where
  "ProductService_Create G input t =
     (let name = TrimSpace (ci_Name input); description = TrimSpace (ci_Description input) in
      if length name < 3 \<or> length name > 120 then (Inl ErrProductInvalidName, t)
      else if length description > 500 then (Inl ErrProductInvalidDescription, t)
      else if ci_Price input \<le> 0 then (Inl ErrProductInvalidPrice, t)
      else ProductRepository_Create G
             \<lparr>pr_ID = 0, pr_Name = name, pr_Description = description, pr_Price = ci_Price input, pr_CreatedAt = zero_time\<rparr> t)"

definition ProductService_ListPaged :: "product gorm \<Rightarrow> PageRequest \<Rightarrow> product list \<Rightarrow> product PageResult result" where
  "ProductService_ListPaged G req t = ProductRepository_ListPaged G req t"

definition ProductService_GetByID :: "product gorm \<Rightarrow> uint \<Rightarrow> product list \<Rightarrow> product result" where
  "ProductService_GetByID G i t = ProductRepository_FindByID G i t"

definition ProductService_Update ::
    "product gorm \<Rightarrow> uint \<Rightarrow> UpdateProductInput \<Rightarrow> product list \<Rightarrow> product result \<times> product list" where
  "ProductService_Update G i input t =
     (let name = map_option TrimSpace (ui_Name input);
          description = map_option TrimSpace (ui_Description input);
          price = ui_Price input in
      if (case name of None \<Rightarrow> False | Some s \<Rightarrow> length s < 3 \<or> length s > 120) then (Inl ErrProductInvalidName, t)
      else if (case description of None \<Rightarrow> False | Some s \<Rightarrow> length s > 500) then (Inl ErrProductInvalidDescription, t)
      else if (case price of None \<Rightarrow> False | Some x \<Rightarrow> x \<le> 0) then (Inl ErrProductInvalidPrice, t)
      else if name = None \<and> description = None \<and> price = None then (Inl ErrProductNoUpdates, t)
      else
        (case ProductRepository_Update G i
                (\<lambda>p. p\<lparr>pr_Name := (case name of None \<Rightarrow> pr_Name p | Some s \<Rightarrow> s),
                       pr_Description := (case description of None \<Rightarrow> pr_Description p | Some s \<Rightarrow> s),
                       pr_Price := (case price of None \<Rightarrow> pr_Price p | Some x \<Rightarrow> x)\<rparr>) t of
           (Inl e, t') \<Rightarrow> (Inl e, t')
         | (Inr _, t') \<Rightarrow> (ProductRepository_FindByID G i t', t')))"

definition ProductService_DeleteByID :: "product gorm \<Rightarrow> uint \<Rightarrow> product list \<Rightarrow> unit result \<times> product list" where
  "ProductService_DeleteByID G i t = ProductRepository_DeleteByID G i t"

subsection \<open>\<open>ProductHandler\<close>\<close>

definition product_json :: "product \<Rightarrow> json" where
  "product_json p = JObj [(''id'', JInt (int (pr_ID p))), (''name'', JStr (pr_Name p)),
     (''description'', JStr (pr_Description p)), (''price'', JNum (pr_Price p)), (''created_at'', JTime (pr_CreatedAt p))]"

definition ProductHandler_Create ::
    "product gorm \<Rightarrow> (request \<Rightarrow> CreateProductInput option) \<Rightarrow> string \<Rightarrow> product list handler" where
  "ProductHandler_Create G decode reqID = (\<lambda>r hs t.
     case decode r of
       None \<Rightarrow> (response_Error reqID r hs 400 ''BAD_REQUEST'' ''invalid payload'' [], t)
     | Some input \<Rightarrow>
         (case ProductService_Create G input t of
            (Inl e, t') \<Rightarrow>
              (if e \<in> {ErrProductInvalidName, ErrProductInvalidDescription, ErrProductInvalidPrice} then
                 response_Error reqID r hs 400 ''BAD_REQUEST'' (Error_text e) []
               else if isConflictError e then response_Error reqID r hs 409 ''CONFLICT'' ''product already exists'' []
               else response_Error reqID r hs 500 ''INTERNAL'' ''failed to create product'' [], t')
          | (Inr created, t') \<Rightarrow> (response_JSON reqID r hs 201 (product_json created), t')))"

definition ProductHandler_List :: "product gorm \<Rightarrow> string \<Rightarrow> product list handler" where
  "ProductHandler_List G reqID = (\<lambda>r hs t.
     case parsePageRequest r of
       Inl e \<Rightarrow> (response_Error reqID r hs 400 ''BAD_REQUEST'' (Error_text e) [], t)
     | Inr pageReq \<Rightarrow>
         (case ProductService_ListPaged G pageReq t of
            Inl e \<Rightarrow> (response_Error reqID r hs 500 ''INTERNAL'' ''failed to list products'' [], t)
          | Inr res \<Rightarrow> (response_JSON reqID r hs 200 (paginatedData product_json res), t)))"

definition ProductHandler_GetByID :: "product gorm \<Rightarrow> string \<Rightarrow> product list handler" where
  "ProductHandler_GetByID G reqID = (\<lambda>r hs t.
     case parsePathID (URLParam r ''id'') of
       None \<Rightarrow> (response_Error reqID r hs 400 ''BAD_REQUEST'' ''invalid product id'' [], t)
     | Some productID \<Rightarrow>
         (case ProductService_GetByID G productID t of
            Inl e \<Rightarrow>
              (if e = ErrProductNotFound then response_Error reqID r hs 404 ''NOT_FOUND'' ''product not found'' []
               else response_Error reqID r hs 500 ''INTERNAL'' ''failed to load product'' [], t)
          | Inr p \<Rightarrow> (response_JSON reqID r hs 200 (product_json p), t)))"

definition ProductHandler_Update ::
    "product gorm \<Rightarrow> (request \<Rightarrow> UpdateProductInput option) \<Rightarrow> string \<Rightarrow> product list handler" where
  "ProductHandler_Update G decode reqID = (\<lambda>r hs t.
     case parsePathID (URLParam r ''id'') of
       None \<Rightarrow> (response_Error reqID r hs 400 ''BAD_REQUEST'' ''invalid product id'' [], t)
     | Some productID \<Rightarrow>
         (case decode r of
            None \<Rightarrow> (response_Error reqID r hs 400 ''BAD_REQUEST'' ''invalid payload'' [], t)
          | Some input \<Rightarrow>
              (case ProductService_Update G productID input t of
                 (Inl e, t') \<Rightarrow>
                   (if e = ErrProductNotFound then response_Error reqID r hs 404 ''NOT_FOUND'' ''product not found'' []
                    else if e \<in> {ErrProductInvalidName, ErrProductInvalidDescription, ErrProductInvalidPrice, ErrProductNoUpdates} then
                      response_Error reqID r hs 400 ''BAD_REQUEST'' (Error_text e) []
                    else response_Error reqID r hs 500 ''INTERNAL'' ''failed to update product'' [], t')
               | (Inr updated, t') \<Rightarrow> (response_JSON reqID r hs 200 (product_json updated), t'))))"

definition ProductHandler_Delete :: "product gorm \<Rightarrow> string \<Rightarrow> product list handler" where
  "ProductHandler_Delete G reqID = (\<lambda>r hs t.
     case parsePathID (URLParam r ''id'') of
       None \<Rightarrow> (response_Error reqID r hs 400 ''BAD_REQUEST'' ''invalid product id'' [], t)
     | Some productID \<Rightarrow>
         (case ProductService_DeleteByID G productID t of
            (Inl e, t') \<Rightarrow>
              (if e = ErrProductNotFound then response_Error reqID r hs 404 ''NOT_FOUND'' ''product not found'' []
               else response_Error reqID r hs 500 ''INTERNAL'' ''failed to delete product'' [], t')
          | (Inr _, t') \<Rightarrow> (response_JSON reqID r hs 200 (JObj [(''deleted'', JBool True)]), t')))"

subsection \<open>Stored products are valid\<close>

definition valid_product :: "product \<Rightarrow> bool" where
  "valid_product p \<longleftrightarrow> 3 \<le> length (pr_Name p) \<and> length (pr_Name p) \<le> 120 \<and> TrimSpace (pr_Name p) = pr_Name p
     \<and> length (pr_Description p) \<le> 500 \<and> TrimSpace (pr_Description p) = pr_Description p \<and> pr_Price p > 0"

definition wf_products :: "product list \<Rightarrow> bool" where
  "wf_products t \<longleftrightarrow> distinct (map pr_ID t) \<and> (\<forall>p \<in> set t. valid_product p)"

text \<open>One request to the products API, with its answer.\<close>

inductive product_request :: "product list \<Rightarrow> response \<Rightarrow> product list \<Rightarrow> bool" where
    POST: "product_table G \<Longrightarrow> ProductHandler_Create G decode reqID r hs t = (resp, t') \<Longrightarrow> product_request t resp t'"
  | GET_list: "product_table G \<Longrightarrow> ProductHandler_List G reqID r hs t = (resp, t') \<Longrightarrow> product_request t resp t'"
  | GET: "product_table G \<Longrightarrow> ProductHandler_GetByID G reqID r hs t = (resp, t') \<Longrightarrow> product_request t resp t'"
  | PUT: "product_table G \<Longrightarrow> ProductHandler_Update G decode' reqID r hs t = (resp, t') \<Longrightarrow> product_request t resp t'"
  | DELETE: "product_table G \<Longrightarrow> ProductHandler_Delete G reqID r hs t = (resp, t') \<Longrightarrow> product_request t resp t'"

lemma Create_product:
  assumes "product_table G" "ProductService_Create G input t = (out, t')"
  shows "(\<exists>e. out = Inl e \<and> t' = t)
    \<or> (\<exists>p. out = Inr p \<and> t' = t @ [p] \<and> valid_product p \<and> pr_ID p \<notin> pr_ID ` set t)"
proof -
  let ?p = "\<lparr>pr_ID = 0, pr_Name = TrimSpace (ci_Name input), pr_Description = TrimSpace (ci_Description input),
             pr_Price = ci_Price input, pr_CreatedAt = zero_time\<rparr>"
  have "(\<exists>i c. p = stamp_product i c ?p \<and> i \<notin> pr_ID ` set t) \<and> t1 = t @ [p]" if "gorm_Create G ?p t = Inr (p, t1)" for p t1
    using gorm_table.create_row [OF assms(1) that] .
  with assms(2) show ?thesis
    by (auto simp: ProductService_Create_def ProductRepository_Create_def Let_def valid_product_def stamp_product_def
        split: if_splits sum.splits prod.splits)
qed

lemma Update_product:
  assumes "product_table G" "ProductService_Update G i input t = (out, t')"
  shows "t' = t \<or> (\<exists>f. t' = upd_where (\<lambda>p. pr_ID p = i) f t \<and> (\<forall>p. pr_ID (f p) = pr_ID p \<and> (valid_product p \<longrightarrow> valid_product (f p))))"
proof -
  define f where "f p = p\<lparr>pr_Name := (case map_option TrimSpace (ui_Name input) of None \<Rightarrow> pr_Name p | Some s \<Rightarrow> s),
      pr_Description := (case map_option TrimSpace (ui_Description input) of None \<Rightarrow> pr_Description p | Some s \<Rightarrow> s),
      pr_Price := (case ui_Price input of None \<Rightarrow> pr_Price p | Some x \<Rightarrow> x)\<rparr>" for p :: product
  consider "t' = t" | n where "gorm_Updates G (\<lambda>p. pr_ID p = i) f t = Inr (n, t')" "\<forall>p. valid_product p \<longrightarrow> valid_product (f p)"
    using assms(2) unfolding f_def [abs_def] ProductService_Update_def ProductRepository_Update_def Let_def
    by (auto simp: valid_product_def split: if_splits sum.splits prod.splits option.splits)
  then show ?thesis
  proof cases
    case (2 n)
    with gorm_table.updates_rows [OF assms(1) 2(1)] show ?thesis by (auto simp: f_def)
  qed simp
qed

lemma wf_products_upd:
  "wf_products t \<Longrightarrow> (\<And>p. pr_ID (f p) = pr_ID p) \<Longrightarrow> (\<And>p. valid_product p \<Longrightarrow> valid_product (f p)) \<Longrightarrow> wf_products (upd_where q f t)"
  by (auto simp: wf_products_def map_upd_where set_upd_where)

lemma product_request_wf:
  assumes "product_request t resp t'" "wf_products t"
  shows "wf_products t'"
  using assms
proof cases
  case (POST G decode reqID r hs)
  then show ?thesis
    using Create_product [OF POST(1)] assms(2)
    by (fastforce simp: ProductHandler_Create_def wf_products_def split: option.splits prod.splits sum.splits)
next
  case (PUT G decode' reqID r hs)
  then consider "t' = t" | i input out where "ProductService_Update G i input t = (out, t')"
    by (auto simp: ProductHandler_Update_def split: option.splits prod.splits sum.splits)
  then show ?thesis
  proof cases
    case (2 i input out)
    then show ?thesis using Update_product [OF PUT(1) 2] assms(2) wf_products_upd by metis
  qed (simp add: assms(2))
next
  case (DELETE G reqID r hs)
  then show ?thesis
    using assms(2) gorm_table.delete_rows [OF DELETE(1)]
    by (fastforce simp: ProductHandler_Delete_def ProductService_DeleteByID_def ProductRepository_DeleteByID_def wf_products_def
        distinct_map_filter split: option.splits prod.splits sum.splits if_splits)
qed (auto simp: ProductHandler_List_def ProductHandler_GetByID_def split: option.splits sum.splits)

text \<open>
  C28: Whatever requests are made to the products API, starting from an empty table, every stored
  product has a trimmed name of 3 to 120 bytes, a trimmed description of at most 500 bytes, a positive
  price and an identity of its own.
\<close>

theorem stored_products_are_valid:
  assumes "(\<lambda>t t'. \<exists>resp. product_request t resp t')\<^sup>*\<^sup>* [] t"
  shows "distinct (map pr_ID t) \<and> (\<forall>p \<in> set t. valid_product p)"
proof -
  have "wf_products t"
    using assms
  proof (induction rule: rtranclp_induct)
    case base
    show ?case by (simp add: wf_products_def)
  next
    case (step t1 t2)
    then show ?case using product_request_wf by blast
  qed
  then show ?thesis by (simp add: wf_products_def)
qed

text \<open>
  A product that was created is found: when a request to create a product is answered with 201,
  the answer describes a valid product that is the one row added to the table, and a request for it
  under its identity is then answered with 200 and the same description, or with 500 if the database
  fails, but never with 404.
\<close>

theorem created_product_is_found:
  assumes "product_table G" and "wf_products t"
    and "ProductHandler_Create G decode reqID r hs t = (resp, t')" and "rs_Status resp = 201"
    and "parsePathID (URLParam r2 ''id'') = Some i"
  shows "\<exists>p. rs_Body resp = Success (product_json p) (buildMeta reqID r) \<and> t' = t @ [p] \<and> valid_product p
    \<and> (pr_ID p = i \<longrightarrow> fst (ProductHandler_GetByID G reqID2 r2 hs2 t') \<in>
         {response_JSON reqID2 r2 hs2 200 (product_json p),
          response_Error reqID2 r2 hs2 500 ''INTERNAL'' ''failed to load product'' []})"
proof -
  obtain input out where svc: "ProductService_Create G input t = (out, t')" and resp: "out = Inr p \<longrightarrow> resp = response_JSON reqID r hs 201 (product_json p)"
      "(\<exists>q. out = Inr q)" for p
    using assms(3,4)
    by (auto simp: ProductHandler_Create_def response_JSON_def split: option.splits prod.splits sum.splits if_splits)
  then obtain p where p: "out = Inr p" by blast
  with Create_product [OF assms(1) svc] have t': "t' = t @ [p]" "valid_product p" "pr_ID p \<notin> pr_ID ` set t" by auto
  have "fst (ProductHandler_GetByID G reqID2 r2 hs2 t') \<in>
         {response_JSON reqID2 r2 hs2 200 (product_json p),
          response_Error reqID2 r2 hs2 500 ''INTERNAL'' ''failed to load product'' []}" if i: "pr_ID p = i"
  proof (cases "gorm_First G (\<lambda>p. pr_ID p = i) t'")
    case (Inl e)
    then have "\<exists>msg. e = External msg"
      using gorm_table.first_exists [OF assms(1) Inl, of p] gorm_table.first_error [OF assms(1) Inl] t'(1) i by auto
    with Inl assms(5) show ?thesis
      by (auto simp: ProductHandler_GetByID_def ProductService_GetByID_def ProductRepository_FindByID_def not_found_def)
  next
    case (Inr q)
    have "q \<in> set t'" "pr_ID q = pr_ID p" using gorm_table.first_found [OF assms(1) Inr] i by auto
    moreover have "q \<notin> set t" using t'(3) \<open>pr_ID q = pr_ID p\<close> by (metis imageI)
    ultimately have "q = p" using t'(1) by simp
    with Inr assms(5) show ?thesis
      by (simp add: ProductHandler_GetByID_def ProductService_GetByID_def ProductRepository_FindByID_def)
  qed
  with p resp(1) t' show ?thesis by (intro exI [of _ p]) (auto simp: response_JSON_def)
qed

definition demo_product_input :: CreateProductInput where
  "demo_product_input = \<lparr>ci_Name = '' lamp '', ci_Description = [], ci_Price = 5\<rparr>"

definition product_demo_request :: request where
  "product_demo_request = \<lparr>rq_Method = ''GET'', rq_Path = ''/api/v1/products/1'', rq_Headers = [], rq_Cookies = [],
     rq_RemoteAddr = [], rq_TLS = False, rq_Body = Inr [], rq_Claims = None, rq_RoutePattern = ''/'', rq_Query = [],
     rq_Params = [(''id'', ''1'')]\<rparr>"

definition demo_created :: "response \<times> product list" where
  "demo_created = ProductHandler_Create (mem_products 0) (\<lambda>_. Some demo_product_input) [] product_demo_request [] []"

definition demo_product :: product where
  "demo_product = \<lparr>pr_ID = 1, pr_Name = ''lamp'', pr_Description = [], pr_Price = 5, pr_CreatedAt = 0\<rparr>"

lemma demo_created_eq: "demo_created = (response_JSON [] product_demo_request [] 201 (product_json demo_product), [demo_product])"
proof -
  have "TrimSpace '' lamp '' = ''lamp''" "TrimSpace [] = []" by code_simp+
  then show ?thesis
    by (simp add: demo_created_def ProductHandler_Create_def ProductService_Create_def demo_product_input_def
        ProductRepository_Create_def mem_table_defs Let_def stamp_product_def demo_product_def)
qed

lemma demo_path_id: "parsePathID (URLParam product_demo_request ''id'') = Some 1"
proof -
  have "TrimSpace ''1'' = FormatUint 1" by code_simp
  then show ?thesis by (simp add: parsePathID_def URLParam_def product_demo_request_def go_simps)
qed

theorem created_product_is_found_witness:
  "valid_product demo_product
     \<and> fst (ProductHandler_GetByID (mem_products 0) [] product_demo_request [] [demo_product]) \<in>
         {response_JSON [] product_demo_request [] 200 (product_json demo_product),
          response_Error [] product_demo_request [] 500 ''INTERNAL'' ''failed to load product'' []}"
proof -
  have "wf_products []" by (simp add: wf_products_def)
  from created_product_is_found [OF mem_products_table.gorm_table_axioms [of 0] this demo_created_eq [unfolded demo_created_def] _ demo_path_id]
  show ?thesis by (auto simp: demo_product_def)
qed

theorem stored_products_are_valid_witness:
  "valid_product demo_product"
proof -
  have "product_request [] (fst demo_created) [demo_product]"
    by (rule product_request.POST [OF mem_products_table.gorm_table_axioms [of 0]])
      (use demo_created_eq in \<open>simp add: demo_created_def\<close>)
  then have "(\<lambda>t t'. \<exists>resp. product_request t resp t')\<^sup>*\<^sup>* [] [demo_product]" by blast
  from stored_products_are_valid [OF this] show ?thesis by simp
qed

end
