(* ===== verification/Lookup_Caches.thy ===== *)
theory Lookup_Caches
  imports Feature_Flags
begin

section \<open>The caches of the admin API: \<open>admin_list_cache*.go\<close>, \<open>negative_lookup_cache*.go\<close>\<close>

text \<open>
  A cache of encoded answers and a cache of identities that were not found, each by namespace, in memory
  and in Redis.  The map of maps in memory is a map on pairs (an empty inner map is no entry); Redis is
  modelled as in \<open>Feature_Flags\<close>.  \<open>clk\<close> gives the readings of the clock within one call.
\<close>

subsection \<open>\<open>AdminListCacheStore\<close>\<close>

text \<open>\<open>al_Get\<close> is \<open>GetWithAge\<close>, of which \<open>Get\<close> is the part without the age.\<close>

record 's admin_list_cache =
  al_Get :: "clock \<Rightarrow> string \<Rightarrow> string \<Rightarrow> 's \<Rightarrow> (string \<times> duration) option result \<times> 's"
  al_Set :: "clock \<Rightarrow> string \<Rightarrow> string \<Rightarrow> string \<Rightarrow> duration \<Rightarrow> 's \<Rightarrow> unit result \<times> 's"
  al_InvalidateNamespace :: "clock \<Rightarrow> string \<Rightarrow> 's \<Rightarrow> unit result \<times> 's"

definition NoopAdminListCacheStore :: "'s admin_list_cache" where
  "NoopAdminListCacheStore =
     \<lparr>al_Get = (\<lambda>_ _ _ s. (Inr None, s)), al_Set = (\<lambda>_ _ _ _ _ s. (Inr (), s)),
      al_InvalidateNamespace = (\<lambda>_ _ s. (Inr (), s))\<rparr>"

record memoryCacheEntry =
  mc_payload :: string
  mc_createdAt :: gotime
  mc_expiresAt :: gotime

type_synonym admin_list_mem = "string \<times> string \<Rightarrow> memoryCacheEntry option"

definition InMemoryAdminList_GetWithAge ::
    "clock \<Rightarrow> string \<Rightarrow> string \<Rightarrow> admin_list_mem \<Rightarrow> (string \<times> duration) option result \<times> admin_list_mem" where
  "InMemoryAdminList_GetWithAge clk namespace key s =
     (case s (namespace, key) of
        None \<Rightarrow> (Inr None, s)
      | Some entry \<Rightarrow>
          if clk 0 > mc_expiresAt entry then (Inr None, s((namespace, key) := None))
          else (Inr (Some (mc_payload entry, max 0 (clk 0 - mc_createdAt entry))), s))"

definition InMemoryAdminList_Set ::
    "clock \<Rightarrow> string \<Rightarrow> string \<Rightarrow> string \<Rightarrow> duration \<Rightarrow> admin_list_mem \<Rightarrow> unit result \<times> admin_list_mem" where
  "InMemoryAdminList_Set clk namespace key v ttl s =
     (if ttl \<le> 0 then (Inr (), s)
      else (Inr (), s((namespace, key) \<mapsto>
              \<lparr>mc_payload = v, mc_createdAt = clk 0, mc_expiresAt = clk 1 + ttl\<rparr>)))"

definition InMemoryAdminList_InvalidateNamespace ::
    "clock \<Rightarrow> string \<Rightarrow> admin_list_mem \<Rightarrow> unit result \<times> admin_list_mem" where
  "InMemoryAdminList_InvalidateNamespace clk namespace s =
     (Inr (), \<lambda>(ns, key). if ns = namespace then None else s (ns, key))"

definition InMemoryAdminListCacheStore :: "admin_list_mem admin_list_cache" where
  "InMemoryAdminListCacheStore =
     \<lparr>al_Get = InMemoryAdminList_GetWithAge, al_Set = InMemoryAdminList_Set,
      al_InvalidateNamespace = InMemoryAdminList_InvalidateNamespace\<rparr>"

definition normalizeToken :: "string \<Rightarrow> string" where
  "normalizeToken v = (if v = [] then ''default'' else v)"

definition cache_dataKey :: "(string \<Rightarrow> string) \<Rightarrow> string \<Rightarrow> string \<Rightarrow> string \<Rightarrow> string" where
  "cache_dataKey sha256 pfx namespace key =
     pfx @ '':data:'' @ normalizeToken namespace @ '':'' @ hashToken sha256 key"

definition namespaceIndexKey :: "string \<Rightarrow> string \<Rightarrow> string" where
  "namespaceIndexKey pfx namespace = pfx @ '':index:'' @ normalizeToken namespace"

definition cache_metaKey :: "(string \<Rightarrow> string) \<Rightarrow> string \<Rightarrow> string \<Rightarrow> string \<Rightarrow> string" where
  "cache_metaKey sha256 pfx namespace key =
     pfx @ '':meta:'' @ normalizeToken namespace @ '':'' @ hashToken sha256 key"

text \<open>
  The age of an entry: nothing is known when the second read fails or finds no number.  \<open>clk 1\<close> is the
  reading of \<open>time.Since\<close>; the first command is executed at \<open>clk 0\<close>.
\<close>

definition RedisAdminList_GetWithAge ::
    "'r redis \<Rightarrow> (gotime \<Rightarrow> int) \<Rightarrow> (string \<Rightarrow> string) \<Rightarrow> string \<Rightarrow> clock \<Rightarrow> string \<Rightarrow> string \<Rightarrow> 'r \<times> net list
     \<Rightarrow> (string \<times> duration) option result \<times> 'r \<times> net list" where
  "RedisAdminList_GetWithAge R tick sha256 pfx clk namespace key s =
     (case redis_io (\<lambda>r. (rd_GET R (tick (clk 0)) (cache_dataKey sha256 pfx namespace key) r, r)) s of
        (Inl e, s1) \<Rightarrow> (Inl e, s1)
      | (Inr None, s1) \<Rightarrow> (Inr None, s1)
      | (Inr (Some v), s1) \<Rightarrow>
          (case redis_io (\<lambda>r. (rd_GET R (tick (clk 0)) (cache_metaKey sha256 pfx namespace key) r, r)) s1 of
             (Inr (Some raw), s2) \<Rightarrow>
               (Inr (Some (v, case Atoi raw of None \<Rightarrow> 0 | Some nanos \<Rightarrow> max 0 (clk 1 - nanos))), s2)
           | (_, s2) \<Rightarrow> (Inr (Some (v, 0)), s2)))"

definition RedisAdminList_Set ::
    "'r redis \<Rightarrow> (gotime \<Rightarrow> int) \<Rightarrow> (string \<Rightarrow> string) \<Rightarrow> string \<Rightarrow> clock \<Rightarrow> string \<Rightarrow> string \<Rightarrow> string \<Rightarrow> duration
     \<Rightarrow> 'r \<times> net list \<Rightarrow> unit result \<times> 'r \<times> net list" where
  "RedisAdminList_Set R tick sha256 pfx clk namespace key v ttl s =
     (if ttl \<le> 0 then (Inr (), s)
      else (let dataKey = cache_dataKey sha256 pfx namespace key; metaKey = cache_metaKey sha256 pfx namespace key;
                index = namespaceIndexKey pfx namespace; t = tick (clk 0) in
            redis_io (\<lambda>r. ((),
              let r1 = rd_SET R t dataKey v (Some (redis_ttl ttl)) r;
                  r2 = rd_SET R t metaKey (FormatInt (clk 0)) (Some (redis_ttl ttl)) r1;
                  r3 = rd_SADD R t index dataKey r2;
                  r4 = rd_SADD R t index metaKey r3
              in rd_PEXPIRE R t index (redis_ttl (ttl + minutes 1)) r4)) s))"

definition RedisAdminList_InvalidateNamespace ::
    "'r redis \<Rightarrow> (gotime \<Rightarrow> int) \<Rightarrow> string \<Rightarrow> clock \<Rightarrow> string \<Rightarrow> 'r \<times> net list \<Rightarrow> unit result \<times> 'r \<times> net list" where
  "RedisAdminList_InvalidateNamespace R tick pfx clk namespace s =
     drop_index R tick (namespaceIndexKey pfx namespace) (clk 0) s"

definition RedisAdminListCacheStore ::
    "'r redis \<Rightarrow> (gotime \<Rightarrow> int) \<Rightarrow> (string \<Rightarrow> string) \<Rightarrow> string \<Rightarrow> ('r \<times> net list) admin_list_cache" where
  "RedisAdminListCacheStore R tick sha256 prefix0 =
     (let pfx = (if prefix0 = [] then ''admin_list_cache'' else prefix0) in
      \<lparr>al_Get = RedisAdminList_GetWithAge R tick sha256 pfx, al_Set = RedisAdminList_Set R tick sha256 pfx,
       al_InvalidateNamespace = RedisAdminList_InvalidateNamespace R tick pfx\<rparr>)"

subsection \<open>\<open>NegativeLookupCacheStore\<close>\<close>

record 's negative_lookup_cache =
  nl_Get :: "clock \<Rightarrow> string \<Rightarrow> string \<Rightarrow> 's \<Rightarrow> bool result \<times> 's"
  nl_Set :: "clock \<Rightarrow> string \<Rightarrow> string \<Rightarrow> duration \<Rightarrow> 's \<Rightarrow> unit result \<times> 's"
  nl_InvalidateNamespace :: "clock \<Rightarrow> string \<Rightarrow> 's \<Rightarrow> unit result \<times> 's"

definition NoopNegativeLookupCacheStore :: "'s negative_lookup_cache" where
  "NoopNegativeLookupCacheStore =
     \<lparr>nl_Get = (\<lambda>_ _ _ s. (Inr False, s)), nl_Set = (\<lambda>_ _ _ _ s. (Inr (), s)),
      nl_InvalidateNamespace = (\<lambda>_ _ s. (Inr (), s))\<rparr>"

type_synonym negative_mem = "string \<times> string \<Rightarrow> gotime option"

definition InMemoryNegative_Get :: "clock \<Rightarrow> string \<Rightarrow> string \<Rightarrow> negative_mem \<Rightarrow> bool result \<times> negative_mem" where
  "InMemoryNegative_Get clk namespace key s =
     (case s (namespace, key) of
        None \<Rightarrow> (Inr False, s)
      | Some expiresAt \<Rightarrow> if clk 0 > expiresAt then (Inr False, s((namespace, key) := None)) else (Inr True, s))"

definition InMemoryNegative_Set :: "clock \<Rightarrow> string \<Rightarrow> string \<Rightarrow> duration \<Rightarrow> negative_mem \<Rightarrow> unit result \<times> negative_mem" where
  "InMemoryNegative_Set clk namespace key ttl s =
     (if ttl \<le> 0 then (Inr (), s) else (Inr (), s((namespace, key) \<mapsto> clk 0 + ttl)))"

definition InMemoryNegative_InvalidateNamespace :: "clock \<Rightarrow> string \<Rightarrow> negative_mem \<Rightarrow> unit result \<times> negative_mem" where
  "InMemoryNegative_InvalidateNamespace clk namespace s =
     (Inr (), \<lambda>(ns, key). if ns = namespace then None else s (ns, key))"

definition InMemoryNegativeLookupCacheStore :: "negative_mem negative_lookup_cache" where
  "InMemoryNegativeLookupCacheStore =
     \<lparr>nl_Get = InMemoryNegative_Get, nl_Set = InMemoryNegative_Set,
      nl_InvalidateNamespace = InMemoryNegative_InvalidateNamespace\<rparr>"

definition RedisNegative_Get ::
    "'r redis \<Rightarrow> (gotime \<Rightarrow> int) \<Rightarrow> (string \<Rightarrow> string) \<Rightarrow> string \<Rightarrow> clock \<Rightarrow> string \<Rightarrow> string \<Rightarrow> 'r \<times> net list
     \<Rightarrow> bool result \<times> 'r \<times> net list" where
  "RedisNegative_Get R tick sha256 pfx clk namespace key s =
     redis_io (\<lambda>r. (rd_GET R (tick (clk 0)) (cache_dataKey sha256 pfx namespace key) r \<noteq> None, r)) s"

definition RedisNegative_Set ::
    "'r redis \<Rightarrow> (gotime \<Rightarrow> int) \<Rightarrow> (string \<Rightarrow> string) \<Rightarrow> string \<Rightarrow> clock \<Rightarrow> string \<Rightarrow> string \<Rightarrow> duration
     \<Rightarrow> 'r \<times> net list \<Rightarrow> unit result \<times> 'r \<times> net list" where
  "RedisNegative_Set R tick sha256 pfx clk namespace key ttl s =
     (if ttl \<le> 0 then (Inr (), s)
      else (let dataKey = cache_dataKey sha256 pfx namespace key; t = tick (clk 0) in
            redis_io (\<lambda>r. ((), index_add R t (namespaceIndexKey pfx namespace) dataKey ttl
              (rd_SET R t dataKey ''1'' (Some (redis_ttl ttl)) r))) s))"

definition RedisNegative_InvalidateNamespace ::
    "'r redis \<Rightarrow> (gotime \<Rightarrow> int) \<Rightarrow> string \<Rightarrow> clock \<Rightarrow> string \<Rightarrow> 'r \<times> net list \<Rightarrow> unit result \<times> 'r \<times> net list" where
  "RedisNegative_InvalidateNamespace R tick pfx clk namespace s =
     drop_index R tick (namespaceIndexKey pfx namespace) (clk 0) s"

definition RedisNegativeLookupCacheStore ::
    "'r redis \<Rightarrow> (gotime \<Rightarrow> int) \<Rightarrow> (string \<Rightarrow> string) \<Rightarrow> string \<Rightarrow> ('r \<times> net list) negative_lookup_cache" where
  "RedisNegativeLookupCacheStore R tick sha256 prefix0 =
     (let pfx = (if prefix0 = [] then ''negative_lookup_cache'' else prefix0) in
      \<lparr>nl_Get = RedisNegative_Get R tick sha256 pfx, nl_Set = RedisNegative_Set R tick sha256 pfx,
       nl_InvalidateNamespace = RedisNegative_InvalidateNamespace R tick pfx\<rparr>)"

end
