(* ===== verification/Rbac_Seed.thy ===== *)
theory Rbac_Seed
  imports Identity_Repo
begin

section \<open>The default roles and permissions: \<open>seed.go\<close>\<close>

text \<open>
  \<open>SeedSync\<close> runs at start-up and behind \<open>POST /admin/rbac/sync\<close>.  It is not a transaction: what was
  written before an error stays.  \<open>FirstOrCreate\<close> of GORM finds a row or inserts one, and says whether it
  inserted (\<open>RowsAffected\<close>).  The count of the pairs in \<open>user_roles\<close> is read from the roles of the user.
\<close>

definition defaultPermissions :: "(string \<times> string) list" where
  "defaultPermissions =
     [(''users'', ''read''), (''users'', ''write''), (''roles'', ''read''), (''roles'', ''write''),
      (''permissions'', ''read''), (''permissions'', ''write''), (''feature_flags'', ''read''), (''feature_flags'', ''write''),
      (''products'', ''read''), (''products'', ''write''), (''products'', ''delete'')]"

record RBACSyncReport =
  sr_CreatedPermissions :: nat
  sr_CreatedRoles :: nat
  sr_BoundPermissions :: nat
  sr_Noop :: bool

definition FirstOrCreate :: "'r gorm \<Rightarrow> ('r \<Rightarrow> bool) \<Rightarrow> 'r \<Rightarrow> 'r list \<Rightarrow> ('r \<times> bool) result \<times> 'r list" where
  "FirstOrCreate G p r t =
     (case gorm_First G p t of
        Inr x \<Rightarrow> (Inr (x, False), t)
      | Inl e \<Rightarrow>
          if e = ErrRecordNotFound then
            (case gorm_Create G r t of Inl e' \<Rightarrow> (Inl e', t) | Inr (x, t') \<Rightarrow> (Inr (x, True), t'))
          else (Inl e, t))"

definition new_permission :: "string \<times> string \<Rightarrow> permission" where
  "new_permission ra = \<lparr>p_ID = 0, p_Resource = fst ra, p_Action = snd ra, p_CreatedAt = zero_time\<rparr>"

fun seed_permissions :: "dbconn \<Rightarrow> (string \<times> string) list \<Rightarrow> nat \<Rightarrow> tables \<Rightarrow> nat result \<times> tables" where
  "seed_permissions D [] n T = (Inr n, T)"
| "seed_permissions D (ra # ras) n T =
     (case FirstOrCreate (g_perms D) (\<lambda>p. p_Resource p = fst ra \<and> p_Action p = snd ra) (new_permission ra) (tb_perms T) of
        (Inl e, t) \<Rightarrow> (Inl e, T\<lparr>tb_perms := t\<rparr>)
      | (Inr (_, created), t) \<Rightarrow> seed_permissions D ras (if created then n + 1 else n) (T\<lparr>tb_perms := t\<rparr>))"

definition seed_role :: "dbconn \<Rightarrow> string \<Rightarrow> string \<Rightarrow> tables \<Rightarrow> (role \<times> bool) result \<times> tables" where
  "seed_role D name description T =
     (case FirstOrCreate (g_roles D) (\<lambda>r. r_Name r = name)
             \<lparr>r_ID = 0, r_Name = name, r_Description = description, r_Permissions = [], r_CreatedAt = zero_time\<rparr> (tb_roles T) of
        (out, t) \<Rightarrow> (out, T\<lparr>tb_roles := t\<rparr>))"

text \<open>The permissions of the administrator role are replaced by those of the five resources.\<close>

definition seed_bindings :: "dbconn \<Rightarrow> uint \<Rightarrow> tables \<Rightarrow> nat result \<times> tables" where
  "seed_bindings D adminID T =
     (case gorm_Find (g_perms D)
             (\<lambda>p. p_Resource p \<in> {''users'', ''roles'', ''permissions'', ''feature_flags'', ''products''}) (tb_perms T) of
        Inl e \<Rightarrow> (Inl e, T)
      | Inr perms \<Rightarrow>
          if perms = [] then (Inr 0, T)
          else (case gorm_First (g_roles D) (\<lambda>r. r_ID r = adminID) (tb_roles T) of
                  Inl e \<Rightarrow> (Inl e, T)
                | Inr role0 \<Rightarrow>
                    (case preload_permissions D T role0 of
                       Inl e \<Rightarrow> (Inl e, T)
                     | Inr before \<Rightarrow>
                         (case lk_Replace (g_role_perms D) adminID (map p_ID perms) (tb_role_perms T) of
                            Inl e \<Rightarrow> (Inl e, T)
                          | Inr l \<Rightarrow>
                              (Inr (length (filter (\<lambda>p. p_ID p \<notin> p_ID ` set (r_Permissions before)) perms)),
                               T\<lparr>tb_role_perms := l\<rparr>)))))"

definition seed_bootstrap :: "dbconn \<Rightarrow> uint \<Rightarrow> string \<Rightarrow> tables \<Rightarrow> nat result \<times> tables" where
  "seed_bootstrap D adminID bootstrapAdminEmail T =
     (let email = TrimSpace (ToLower bootstrapAdminEmail) in
      if email = [] then (Inr 0, T)
      else (case gorm_First (g_users D) (\<lambda>u. u_Email u = email) (tb_users T) of
              Inl e \<Rightarrow> if e = ErrRecordNotFound then (Inr 0, T) else (Inl e, T)
            | Inr u \<Rightarrow>
                (case lk_Refs (g_user_roles D) (u_ID u) (tb_user_roles T) of
                   Inl e \<Rightarrow> (Inl e, T)
                 | Inr rids \<Rightarrow>
                     if adminID \<in> set rids then (Inr 0, T)
                     else (case lk_Append (g_user_roles D) (u_ID u) adminID (tb_user_roles T) of
                             Inl e \<Rightarrow> (Inl (Errorf (''assign bootstrap admin role: '' @ Error_text e)), T)
                           | Inr l \<Rightarrow> (Inr 1, T\<lparr>tb_user_roles := l\<rparr>)))))"

definition SeedSync :: "dbconn \<Rightarrow> string \<Rightarrow> tables \<Rightarrow> RBACSyncReport result \<times> tables" where
  "SeedSync D bootstrapAdminEmail T =
     (case seed_permissions D defaultPermissions 0 T of
        (Inl e, T1) \<Rightarrow> (Inl e, T1)
      | (Inr createdPermissions, T1) \<Rightarrow>
     (case seed_role D ''user'' ''Default user role'' T1 of
        (Inl e, T2) \<Rightarrow> (Inl e, T2)
      | (Inr (_, createdUser), T2) \<Rightarrow>
     (case seed_role D ''admin'' ''Administrator role'' T2 of
        (Inl e, T3) \<Rightarrow> (Inl e, T3)
      | (Inr (adminRole, createdAdmin), T3) \<Rightarrow>
     (case seed_bindings D (r_ID adminRole) T3 of
        (Inl e, T4) \<Rightarrow> (Inl e, T4)
      | (Inr bound, T4) \<Rightarrow>
     (case seed_bootstrap D (r_ID adminRole) bootstrapAdminEmail T4 of
        (Inl e, T5) \<Rightarrow> (Inl e, T5)
      | (Inr assigned, T5) \<Rightarrow>
          (let createdRoles = of_bool createdUser + of_bool createdAdmin; boundPermissions = bound + assigned in
           (Inr \<lparr>sr_CreatedPermissions = createdPermissions, sr_CreatedRoles = createdRoles,
                 sr_BoundPermissions = boundPermissions,
                 sr_Noop = (createdPermissions = 0 \<and> createdRoles = 0 \<and> boundPermissions = 0)\<rparr>, T5)))))))"

definition Seed :: "dbconn \<Rightarrow> string \<Rightarrow> tables \<Rightarrow> unit result \<times> tables" where
  "Seed D bootstrapAdminEmail T =
     (case SeedSync D bootstrapAdminEmail T of (Inl e, T') \<Rightarrow> (Inl e, T') | (Inr _, T') \<Rightarrow> (Inr (), T'))"

definition VerifyLocalEmail :: "dbconn \<Rightarrow> gotime \<Rightarrow> string \<Rightarrow> tables \<Rightarrow> unit result \<times> tables" where
  "VerifyLocalEmail D now email T =
     (let normalized = TrimSpace (ToLower email) in
      if normalized = [] then (Inl (Errorf ''email is required''), T)
      else (case gorm_First (g_users D) (\<lambda>u. u_Email u = normalized) (tb_users T) of
              Inl e \<Rightarrow> (Inl e, T)
            | Inr u \<Rightarrow>
                (case gorm_Updates (g_creds D) (\<lambda>c. lc_UserID c = u_ID u)
                        (\<lambda>c. c\<lparr>lc_EmailVerified := True, lc_EmailVerifiedAt := Some now\<rparr>) (tb_creds T) of
                   Inl e \<Rightarrow> (Inl e, T)
                 | Inr (n, t) \<Rightarrow>
                     if n = 0 then (Inl ErrRecordNotFound, T\<lparr>tb_creds := t\<rparr>) else (Inr (), T\<lparr>tb_creds := t\<rparr>))))"

end
