(* ===== verification/Admin_Handler.thy ===== *)
theory Admin_Handler
  imports Handler_Util Rbac Lookup_Caches Rbac_Seed
begin

section \<open>The admin API: \<open>admin_handler.go\<close>\<close>

text \<open>
  The handlers under \<open>/api/v1/admin\<close> for users, roles and permissions.  \<open>AdminHandler\<close> is the handler's
  configuration and the stores it was built with (\<open>None\<close> for nil), and the state behind it is the database,
  the cache of resolved permissions, the cache of lists and the cache of identities that were not found.
  The JSON encoder is the parameter \<open>ah_marshal\<close>.  \<open>clk\<close> gives the clock readings of the calls to the
  caches in the order of the source.  A panic is answered by the router's \<open>Recoverer\<close> with 500.
\<close>

record ('s, 'l, 'n) AdminHandler =
  ah_resolver :: "'s CachedPermissionResolver option"
  ah_adminListCache :: "'l admin_list_cache option"
  ah_negativeLookupCache :: "'n negative_lookup_cache option"
  ah_adminListCacheTTL :: duration
  ah_negativeLookupTTL :: duration
  ah_BootstrapAdminEmail :: string
  ah_protectedRoles :: "string list"
  ah_protectedPermissions :: "string list"
  ah_marshal :: "json \<Rightarrow> string"
  ah_sha256 :: "string \<Rightarrow> string"

record ('s, 'l, 'n) admin_world =
  aw_T :: tables
  aw_rbac :: 's
  aw_list :: 'l
  aw_neg :: 'n

definition protected_names :: "string list \<Rightarrow> string list" where
  "protected_names names = filter (\<lambda>n. n \<noteq> []) (map (\<lambda>n. ToLower (TrimSpace n)) names)"

definition panic_response :: "headers \<Rightarrow> response" where
  "panic_response hs = \<lparr>rs_Status = 500, rs_Headers = hs, rs_Body = NoBody\<rparr>"

subsection \<open>Permission names\<close>

definition permissionPartRe :: "string \<Rightarrow> bool" where
  "permissionPartRe s \<longleftrightarrow> s \<noteq> [] \<and> list_all (\<lambda>c. alphanumeric c \<or> c = CHR ''_'' \<or> c = CHR ''-'') s"

definition validatePermissionParts :: "string \<Rightarrow> string \<Rightarrow> (string \<times> string) result" where
  "validatePermissionParts resource0 action0 =
     (let resource = ToLower (TrimSpace resource0); action = ToLower (TrimSpace action0) in
      if \<not> permissionPartRe resource \<or> \<not> permissionPartRe action
      then Inl (Errorf ''permission format must be resource:action'') else Inr (resource, action))"

fun permission_pairs :: "string list \<Rightarrow> (string \<times> string) list \<Rightarrow> (string \<times> string) list result" where
  "permission_pairs [] pairs = Inr pairs"
| "permission_pairs (p # ps) pairs =
     (case split_colon (TrimSpace p) of
        None \<Rightarrow> Inl (Errorf ''permission format must be resource:action'')
      | Some (a, b) \<Rightarrow>
          (case validatePermissionParts a b of
             Inl e \<Rightarrow> Inl e
           | Inr (resource, action) \<Rightarrow>
               if resource @ '':'' @ action \<in> set (map (\<lambda>(x, y). x @ '':'' @ y) pairs) then permission_pairs ps pairs
               else permission_pairs ps (pairs @ [(resource, action)])))"

definition parsePermissionPairs :: "string list \<Rightarrow> (string \<times> string) list result" where
  "parsePermissionPairs perms = permission_pairs perms []"

definition permission_token :: "permission \<Rightarrow> string" where
  "permission_token p = p_Resource p @ '':'' @ p_Action p"

definition permissionsToStrings :: "permission list \<Rightarrow> string list" where
  "permissionsToStrings perms = map permission_token perms"

definition requiredPermissionForPath :: "string \<Rightarrow> string" where
  "requiredPermissionForPath path =
     (if Contains path ''/permissions'' then ''permissions:write''
      else if Contains path ''/roles'' \<or> Contains path ''/rbac/sync'' then ''roles:write''
      else [])"

definition isProtectedRole :: "('s, 'l, 'n) AdminHandler \<Rightarrow> string \<Rightarrow> bool" where
  "isProtectedRole H name \<longleftrightarrow> ToLower (TrimSpace name) \<in> set (ah_protectedRoles H)"

definition isProtectedPermission :: "('s, 'l, 'n) AdminHandler \<Rightarrow> string \<Rightarrow> bool" where
  "isProtectedPermission H token \<longleftrightarrow> ToLower (TrimSpace token) \<in> set (ah_protectedPermissions H)"

subsection \<open>Would the caller lose the permission to call?\<close>

definition wouldLockOutRoleMutation :: "dbconn \<Rightarrow> uint \<Rightarrow> uint \<Rightarrow> string \<Rightarrow> string list \<Rightarrow> tables \<Rightarrow> bool" where
  "wouldLockOutRoleMutation D actorID roleID requiredPerm newRolePermissions T =
     (if requiredPerm = [] then False
      else (case UserService_GetByID D actorID T of
              Inl e \<Rightarrow> False
            | Inr (actor, perms) \<Rightarrow>
                if \<not> HasPermission perms requiredPerm then False
                else (let next = concat (map (\<lambda>role. if r_ID role = roleID then map (\<lambda>p. ToLower (TrimSpace p)) newRolePermissions
                                                     else map (\<lambda>p. ToLower (permission_token p)) (r_Permissions role)) (u_Roles actor))
                      in ToLower requiredPerm \<notin> set next)))"

definition wouldLockOutRoleDeletion :: "dbconn \<Rightarrow> uint \<Rightarrow> uint \<Rightarrow> string \<Rightarrow> tables \<Rightarrow> bool" where
  "wouldLockOutRoleDeletion D actorID roleID requiredPerm T =
     (if requiredPerm = [] then False
      else (case UserService_GetByID D actorID T of
              Inl e \<Rightarrow> False
            | Inr (actor, perms) \<Rightarrow>
                if \<not> HasPermission perms requiredPerm then False
                else (let next = concat (map (\<lambda>role. if r_ID role = roleID then []
                                                     else map (\<lambda>p. ToLower (permission_token p)) (r_Permissions role)) (u_Roles actor))
                      in ToLower requiredPerm \<notin> set next)))"

definition wouldLockOutPermissionMutation :: "dbconn \<Rightarrow> uint \<Rightarrow> string \<Rightarrow> string \<Rightarrow> string \<Rightarrow> tables \<Rightarrow> bool" where
  "wouldLockOutPermissionMutation D actorID before after requiredPerm T =
     (if requiredPerm = [] then False
      else (case UserService_GetByID D actorID T of
              Inl e \<Rightarrow> False
            | Inr (_, perms) \<Rightarrow>
                ToLower requiredPerm \<notin> insert (ToLower after) (set (map ToLower perms) - {ToLower before})))"

definition wouldLockOutPermissionDeletion :: "dbconn \<Rightarrow> uint \<Rightarrow> string \<Rightarrow> string \<Rightarrow> tables \<Rightarrow> bool" where
  "wouldLockOutPermissionDeletion D actorID permToken requiredPerm T =
     (if requiredPerm = [] then False
      else (case UserService_GetByID D actorID T of
              Inl e \<Rightarrow> False
            | Inr (_, perms) \<Rightarrow> ToLower requiredPerm \<notin> set (map ToLower perms) - {ToLower permToken}))"

subsection \<open>The caches\<close>

definition adminActorID :: "request \<Rightarrow> string" where
  "adminActorID r = (case actorIDFromRequest r of None \<Rightarrow> ''anonymous'' | Some i \<Rightarrow> if i = 0 then ''anonymous'' else FormatUint i)"

text \<open>\<open>url.QueryEscape\<close> and \<open>url.Values.Encode\<close>: by key, every value as \<open>key=value\<close>.\<close>

definition hex_upper :: "nat \<Rightarrow> char" where
  "hex_upper n = char_of (if n < 10 then 48 + n else 55 + n)"

definition QueryEscape :: "string \<Rightarrow> string" where
  "QueryEscape s = concat (map (\<lambda>c.
     if alphanumeric c \<or> c \<in> {CHR ''-'', CHR ''_'', CHR ''.'', CHR ''~''} then [c]
     else if c = CHR '' '' then ''+''
     else [CHR ''%'', hex_upper (of_char c div 16), hex_upper (of_char c mod 16)]) s)"

definition normalizeQueryValues :: "(string \<times> string list) list \<Rightarrow> string" where
  "normalizeQueryValues values =
     Join (concat (map (\<lambda>(k, vs). map (\<lambda>v. QueryEscape k @ ''='' @ QueryEscape v) vs) (sort_key fst values))) ''&''"

definition adminListCacheKey :: "request \<Rightarrow> string \<Rightarrow> string" where
  "adminListCacheKey r namespace =
     namespace @ ''|actor='' @ adminActorID r @ ''|query='' @ normalizeQueryValues (rq_Query r)"

definition readAdminListCache ::
    "('s, 'l, 'n) AdminHandler \<Rightarrow> clock \<Rightarrow> string \<Rightarrow> string \<Rightarrow> ('s, 'l, 'n) admin_world \<Rightarrow> string option \<times> ('s, 'l, 'n) admin_world" where
  "readAdminListCache H clk namespace key W =
     (case ah_adminListCache H of
        None \<Rightarrow> (None, W)
      | Some S \<Rightarrow>
          if ah_adminListCacheTTL H \<le> 0 then (None, W)
          else (case al_Get S clk namespace key (aw_list W) of
                  (Inr (Some (v, _)), l) \<Rightarrow> (Some v, W\<lparr>aw_list := l\<rparr>) | (_, l) \<Rightarrow> (None, W\<lparr>aw_list := l\<rparr>)))"

definition writeAdminListCache ::
    "('s, 'l, 'n) AdminHandler \<Rightarrow> clock \<Rightarrow> string \<Rightarrow> string \<Rightarrow> json \<Rightarrow> ('s, 'l, 'n) admin_world \<Rightarrow> ('s, 'l, 'n) admin_world" where
  "writeAdminListCache H clk namespace key payload W =
     (case ah_adminListCache H of
        None \<Rightarrow> W
      | Some S \<Rightarrow>
          if ah_adminListCacheTTL H \<le> 0 then W
          else W\<lparr>aw_list := snd (al_Set S clk namespace key (ah_marshal H payload) (ah_adminListCacheTTL H) (aw_list W))\<rparr>)"

definition invalidateAdminListCaches ::
    "('s, 'l, 'n) AdminHandler \<Rightarrow> clock \<Rightarrow> string list \<Rightarrow> ('s, 'l, 'n) admin_world \<Rightarrow> ('s, 'l, 'n) admin_world" where
  "invalidateAdminListCaches H clk namespaces W =
     (case ah_adminListCache H of
        None \<Rightarrow> W
      | Some S \<Rightarrow>
          fold (\<lambda>namespace W. if namespace = [] then W
                  else W\<lparr>aw_list := snd (al_InvalidateNamespace S clk namespace (aw_list W))\<rparr>) namespaces W)"

definition readNegativeLookupCache ::
    "('s, 'l, 'n) AdminHandler \<Rightarrow> clock \<Rightarrow> string \<Rightarrow> string \<Rightarrow> ('s, 'l, 'n) admin_world \<Rightarrow> bool \<times> ('s, 'l, 'n) admin_world" where
  "readNegativeLookupCache H clk namespace key W =
     (case ah_negativeLookupCache H of
        None \<Rightarrow> (False, W)
      | Some S \<Rightarrow>
          if ah_negativeLookupTTL H \<le> 0 then (False, W)
          else (case nl_Get S clk namespace key (aw_neg W) of
                  (Inr True, n) \<Rightarrow> (True, W\<lparr>aw_neg := n\<rparr>) | (_, n) \<Rightarrow> (False, W\<lparr>aw_neg := n\<rparr>)))"

definition writeNegativeLookupCache ::
    "('s, 'l, 'n) AdminHandler \<Rightarrow> clock \<Rightarrow> string \<Rightarrow> string \<Rightarrow> ('s, 'l, 'n) admin_world \<Rightarrow> ('s, 'l, 'n) admin_world" where
  "writeNegativeLookupCache H clk namespace key W =
     (case ah_negativeLookupCache H of
        None \<Rightarrow> W
      | Some S \<Rightarrow>
          if ah_negativeLookupTTL H \<le> 0 then W
          else W\<lparr>aw_neg := snd (nl_Set S clk namespace key (ah_negativeLookupTTL H) (aw_neg W))\<rparr>)"

definition invalidateNegativeLookupCaches ::
    "('s, 'l, 'n) AdminHandler \<Rightarrow> clock \<Rightarrow> string list \<Rightarrow> ('s, 'l, 'n) admin_world \<Rightarrow> ('s, 'l, 'n) admin_world" where
  "invalidateNegativeLookupCaches H clk namespaces W =
     (case ah_negativeLookupCache H of
        None \<Rightarrow> W
      | Some S \<Rightarrow>
          fold (\<lambda>namespace W. if namespace = [] then W
                  else W\<lparr>aw_neg := snd (nl_InvalidateNamespace S clk namespace (aw_neg W))\<rparr>) namespaces W)"

definition invalidateRBACPermissionCacheUser ::
    "('s, 'l, 'n) AdminHandler \<Rightarrow> gotime \<Rightarrow> uint \<Rightarrow> ('s, 'l, 'n) admin_world \<Rightarrow> ('s, 'l, 'n) admin_world" where
  "invalidateRBACPermissionCacheUser H now userID W =
     (case ah_resolver H of
        None \<Rightarrow> W | Some c \<Rightarrow> W\<lparr>aw_rbac := snd (Resolver_InvalidateUser c now userID (aw_rbac W))\<rparr>)"

definition invalidateRBACPermissionCacheAll ::
    "('s, 'l, 'n) AdminHandler \<Rightarrow> gotime \<Rightarrow> ('s, 'l, 'n) admin_world \<Rightarrow> ('s, 'l, 'n) admin_world" where
  "invalidateRBACPermissionCacheAll H now W =
     (case ah_resolver H of
        None \<Rightarrow> W | Some c \<Rightarrow> W\<lparr>aw_rbac := snd (Resolver_InvalidateAll c now (aw_rbac W))\<rparr>)"

subsection \<open>Lists\<close>

definition buildStrongETag :: "(string \<Rightarrow> string) \<Rightarrow> string \<Rightarrow> string" where
  "buildStrongETag sha256 payload = [CHR 0x22] @ hexEncode (sha256 payload) @ [CHR 0x22]"

definition etag_candidate :: "string \<Rightarrow> string \<Rightarrow> bool" where
  "etag_candidate currentETag token =
     (let candidate = TrimSpace token in
      if candidate = [] then False
      else if candidate = ''*'' then True
      else TrimSpace (if HasPrefix candidate ''W/'' then drop 2 candidate else candidate) = currentETag)"

definition matchesIfNoneMatch :: "string \<Rightarrow> string \<Rightarrow> bool" where
  "matchesIfNoneMatch rawHeader currentETag =
     (if TrimSpace rawHeader = [] then False
      else list_ex (etag_candidate currentETag) (Split rawHeader (CHR '','')))"

definition respondAdminListWithConditionalETag ::
    "('s, 'l, 'n) AdminHandler \<Rightarrow> string \<Rightarrow> request \<Rightarrow> headers \<Rightarrow> json option \<Rightarrow> string \<Rightarrow> response" where
  "respondAdminListWithConditionalETag H reqID r hs payload encodedPayload =
     (let encoded = (if encodedPayload = [] then ah_marshal H (case payload of None \<Rightarrow> JNull | Some p \<Rightarrow> p) else encodedPayload);
          etag = buildStrongETag (ah_sha256 H) encoded;
          hs = header_set ''ETag'' etag (header_set ''Cache-Control'' ''private, no-cache'' hs)
      in if matchesIfNoneMatch (header_get ''If-None-Match'' (rq_Headers r)) etag
         then \<lparr>rs_Status = 304, rs_Headers = hs, rs_Body = NoBody\<rparr>
         else (case payload of
                 Some p \<Rightarrow> response_JSON reqID r hs 200 p
               | None \<Rightarrow> response_JSON reqID r hs 200 (JRaw encoded)))"

text \<open>
  The common course of the three lists: \<open>query\<close> reads the page, \<open>columns\<close> are those that may be sorted by,
  and \<open>hit\<close> and \<open>fresh\<close> answer with the cached bytes and with a fresh payload.
\<close>

definition admin_list ::
    "('s, 'l, 'n) AdminHandler \<Rightarrow> clock \<Rightarrow> string \<Rightarrow> string \<Rightarrow> string list \<Rightarrow> string
     \<Rightarrow> (PageRequest \<Rightarrow> string \<Rightarrow> string \<Rightarrow> tables \<Rightarrow> json result)
     \<Rightarrow> (request \<Rightarrow> headers \<Rightarrow> string \<Rightarrow> response) \<Rightarrow> (request \<Rightarrow> headers \<Rightarrow> json \<Rightarrow> response) \<Rightarrow> ('s, 'l, 'n) admin_world handler" where
  "admin_list H clk reqID namespace columns what query hit fresh = (\<lambda>r hs W.
     let cacheKey = adminListCacheKey r namespace in
     case readAdminListCache H clk namespace cacheKey W of
       (Some cached, W1) \<Rightarrow> (hit r hs cached, W1)
     | (None, W1) \<Rightarrow>
         (case parsePageRequest r of
            Inl e \<Rightarrow> (response_Error reqID r hs 400 ''BAD_REQUEST'' (Error_text e) [], W1)
          | Inr pageReq \<Rightarrow>
              (case parseSortParams r ''created_at'' columns of
                 Inl e \<Rightarrow> (response_Error reqID r hs 400 ''BAD_REQUEST'' (Error_text e) [], W1)
               | Inr (sortBy, sortOrder) \<Rightarrow>
                   (case query pageReq sortBy sortOrder (aw_T W1) of
                      Inl e \<Rightarrow> (response_Error reqID r hs 500 ''INTERNAL'' (''failed to list '' @ what) [], W1)
                    | Inr payload \<Rightarrow> (fresh r hs payload, writeAdminListCache H (later 2 clk) namespace cacheKey payload W1)))))"

definition page_json :: "('a \<Rightarrow> json) \<Rightarrow> 'a PageResult result \<Rightarrow> json result" where
  "page_json enc res = (case res of Inl e \<Rightarrow> Inl e | Inr page \<Rightarrow> Inr (paginatedData enc page))"

definition AdminHandler_ListUsers ::
    "('s, 'l, 'n) AdminHandler \<Rightarrow> dbconn \<Rightarrow> clock \<Rightarrow> string \<Rightarrow> ('s, 'l, 'n) admin_world handler" where
  "AdminHandler_ListUsers H D clk reqID = (\<lambda>r hs W.
     admin_list H clk reqID ''admin.users.list''
       [''id'', ''created_at'', ''updated_at'', ''email'', ''name'', ''status'', ''last_login_at''] ''users''
       (\<lambda>pageReq sortBy sortOrder T. page_json user_json (UserRepository_ListPaged D
          \<lparr>uq_Page = pageReq, uq_SortBy = sortBy, uq_SortOrder = sortOrder, uq_Email = TrimSpace (Query_Get r ''email''),
           uq_Status = ToLower (TrimSpace (Query_Get r ''status'')), uq_Role = ToLower (TrimSpace (Query_Get r ''role''))\<rparr> T))
       (\<lambda>r hs cached. response_JSON reqID r hs 200 (JRaw cached)) (\<lambda>r hs payload. response_JSON reqID r hs 200 payload) r hs W)"

definition AdminHandler_ListRoles ::
    "('s, 'l, 'n) AdminHandler \<Rightarrow> dbconn \<Rightarrow> clock \<Rightarrow> string \<Rightarrow> ('s, 'l, 'n) admin_world handler" where
  "AdminHandler_ListRoles H D clk reqID = (\<lambda>r hs W.
     admin_list H clk reqID ''admin.roles.list'' [''id'', ''created_at'', ''updated_at'', ''name''] ''roles''
       (\<lambda>pageReq sortBy sortOrder T. page_json role_json
          (RoleRepository_ListPaged D pageReq sortBy sortOrder (TrimSpace (Query_Get r ''name'')) T))
       (\<lambda>r hs cached. respondAdminListWithConditionalETag H reqID r hs None cached)
       (\<lambda>r hs payload. respondAdminListWithConditionalETag H reqID r hs (Some payload) []) r hs W)"

definition AdminHandler_ListPermissions ::
    "('s, 'l, 'n) AdminHandler \<Rightarrow> dbconn \<Rightarrow> clock \<Rightarrow> string \<Rightarrow> ('s, 'l, 'n) admin_world handler" where
  "AdminHandler_ListPermissions H D clk reqID = (\<lambda>r hs W.
     admin_list H clk reqID ''admin.permissions.list'' [''id'', ''created_at'', ''updated_at'', ''resource'', ''action''] ''permissions''
       (\<lambda>pageReq sortBy sortOrder T. page_json permission_json
          (PermissionRepository_ListPaged D pageReq sortBy sortOrder (TrimSpace (Query_Get r ''resource''))
             (TrimSpace (Query_Get r ''action'')) T))
       (\<lambda>r hs cached. respondAdminListWithConditionalETag H reqID r hs None cached)
       (\<lambda>r hs payload. respondAdminListWithConditionalETag H reqID r hs (Some payload) []) r hs W)"

subsection \<open>Changes of roles\<close>

definition roleNegativeLookupNamespace :: string where
  "roleNegativeLookupNamespace = ''admin.role.not_found''"

definition permissionNegativeLookupNamespace :: string where
  "permissionNegativeLookupNamespace = ''admin.permission.not_found''"

definition role_changed ::
    "('s, 'l, 'n) AdminHandler \<Rightarrow> clock \<Rightarrow> ('s, 'l, 'n) admin_world \<Rightarrow> ('s, 'l, 'n) admin_world" where
  "role_changed H clk W =
     invalidateNegativeLookupCaches H (later 7 clk) [roleNegativeLookupNamespace]
       (invalidateAdminListCaches H (later 6 clk) [''admin.roles.list'', ''admin.users.list'']
         (invalidateRBACPermissionCacheAll H (clk 5) W))"

definition permission_changed ::
    "('s, 'l, 'n) AdminHandler \<Rightarrow> clock \<Rightarrow> ('s, 'l, 'n) admin_world \<Rightarrow> ('s, 'l, 'n) admin_world" where
  "permission_changed H clk W =
     invalidateNegativeLookupCaches H (later 7 clk) [permissionNegativeLookupNamespace]
       (invalidateAdminListCaches H (later 6 clk) [''admin.permissions.list'', ''admin.roles.list'']
         (invalidateRBACPermissionCacheAll H (clk 5) W))"

definition AdminHandler_SetUserRoles ::
    "('s, 'l, 'n) AdminHandler \<Rightarrow> dbconn \<Rightarrow> clock \<Rightarrow> (request \<Rightarrow> uint list option) \<Rightarrow> string \<Rightarrow> ('s, 'l, 'n) admin_world handler" where
  "AdminHandler_SetUserRoles H D clk decode reqID = (\<lambda>r hs W.
     case parsePathID (URLParam r ''id'') of
       None \<Rightarrow> (response_Error reqID r hs 400 ''BAD_REQUEST'' ''invalid user id'' [], W)
     | Some userID \<Rightarrow>
         (case decode r of
            None \<Rightarrow> (response_Error reqID r hs 400 ''BAD_REQUEST'' ''invalid payload'' [], W)
          | Some roleIDs \<Rightarrow>
              (case UserService_SetRoles D userID roleIDs (aw_T W) of
                 (Inl e, T) \<Rightarrow> (response_Error reqID r hs 500 ''INTERNAL'' ''failed to set roles'' [], W\<lparr>aw_T := T\<rparr>)
               | (Inr _, T) \<Rightarrow>
                   (response_JSON reqID r hs 200
                      (JObj [(''user_id'', JInt (int userID)), (''role_ids'', JArr (map (\<lambda>i. JInt (int i)) roleIDs))]),
                    invalidateAdminListCaches H (later 6 clk) [''admin.users.list'']
                      (invalidateRBACPermissionCacheUser H (clk 5) userID (W\<lparr>aw_T := T\<rparr>))))))"

record role_body =
  rb_Name :: "string option"
  rb_Description :: "string option"
  rb_Permissions :: "string list option"

text \<open>For \<open>CreateRole\<close> absent fields are empty; a null list of permissions is the empty list.\<close>

definition AdminHandler_CreateRole ::
    "('s, 'l, 'n) AdminHandler \<Rightarrow> dbconn \<Rightarrow> clock \<Rightarrow> (request \<Rightarrow> (string \<times> string \<times> string list) option) \<Rightarrow> string
     \<Rightarrow> ('s, 'l, 'n) admin_world handler" where
  "AdminHandler_CreateRole H D clk decode reqID = (\<lambda>r hs W.
     case decode r of
       None \<Rightarrow> (response_Error reqID r hs 400 ''BAD_REQUEST'' ''invalid payload'' [], W)
     | Some (name, description, permissions) \<Rightarrow>
         (case parsePermissionPairs permissions of
            Inl e \<Rightarrow> (response_Error reqID r hs 400 ''BAD_REQUEST'' (Error_text e) [], W)
          | Inr pairs \<Rightarrow>
              (case PermissionRepository_FindByPairs D pairs (aw_T W) of
                 Inl e \<Rightarrow> (response_Error reqID r hs 500 ''INTERNAL'' ''failed to load permissions'' [], W)
               | Inr perms \<Rightarrow>
                   if length perms \<noteq> length pairs then
                     (response_Error reqID r hs 400 ''BAD_REQUEST'' ''one or more permissions do not exist'' [], W)
                   else
                     (case RoleRepository_Create D \<lparr>r_ID = 0, r_Name = TrimSpace name, r_Description = TrimSpace description,
                             r_Permissions = [], r_CreatedAt = zero_time\<rparr> (map p_ID perms) (aw_T W) of
                        (Inl e, T) \<Rightarrow>
                          (if isConflictError e then response_Error reqID r hs 409 ''CONFLICT'' ''role already exists'' []
                           else response_Error reqID r hs 400 ''BAD_REQUEST'' ''failed to create role'' [], W\<lparr>aw_T := T\<rparr>)
                      | (Inr role, T) \<Rightarrow>
                          (response_JSON reqID r hs 201 (role_json role), role_changed H clk (W\<lparr>aw_T := T\<rparr>))))))"

text \<open>
  The search for the row to change, which the four handlers share: \<open>fetch\<close> reads it, \<open>sentinel\<close> is the
  error when there is none.  On a hit of the negative cache the row is read all the same, and what comes
  back decides.  The answer \<open>Inl\<close> ends the request.
\<close>

definition admin_lookup ::
    "('s, 'l, 'n) AdminHandler \<Rightarrow> clock \<Rightarrow> string \<Rightarrow> string \<Rightarrow> uint \<Rightarrow> goerr \<Rightarrow> string \<Rightarrow> (tables \<Rightarrow> 'a result)
     \<Rightarrow> request \<Rightarrow> headers \<Rightarrow> ('s, 'l, 'n) admin_world \<Rightarrow> (response + 'a) \<times> ('s, 'l, 'n) admin_world" where
  "admin_lookup H clk reqID namespace i sentinel what fetch r hs W =
     (case readNegativeLookupCache H clk namespace (FormatUint i) W of (known_missing, W1) \<Rightarrow>
        if known_missing then
          (case fetch (aw_T W1) of
             Inl findErr \<Rightarrow>
               if findErr = sentinel then (Inl (response_Error reqID r hs 404 ''NOT_FOUND'' (what @ '' not found'') []), W1)
               else (Inl (response_Error reqID r hs 500 ''INTERNAL'' (''failed to load '' @ what) []), W1)
           | Inr cached \<Rightarrow> (Inr cached, W1))
        else
          (case fetch (aw_T W1) of
             Inl err \<Rightarrow>
               if err = sentinel then
                 (Inl (response_Error reqID r hs 404 ''NOT_FOUND'' (what @ '' not found'') []),
                  writeNegativeLookupCache H (later 1 clk) namespace (FormatUint i) W1)
               else (Inl (response_Error reqID r hs 500 ''INTERNAL'' (''failed to load '' @ what) []), W1)
           | Inr before \<Rightarrow> (Inr before, W1)))"

definition role_target_permissions ::
    "dbconn \<Rightarrow> role \<Rightarrow> string list option \<Rightarrow> tables \<Rightarrow> (int \<times> string \<times> string) + (string list \<times> uint list)" where
  "role_target_permissions D before permissions T =
     (case permissions of
        None \<Rightarrow> Inr (permissionsToStrings (r_Permissions before), map p_ID (r_Permissions before))
      | Some ps \<Rightarrow>
          (case parsePermissionPairs ps of
             Inl e \<Rightarrow> Inl (400, ''BAD_REQUEST'', Error_text e)
           | Inr pairs \<Rightarrow>
               (case PermissionRepository_FindByPairs D pairs T of
                  Inl e \<Rightarrow> Inl (500, ''INTERNAL'', ''failed to load permissions'')
                | Inr perms \<Rightarrow>
                    if length perms \<noteq> length pairs then Inl (400, ''BAD_REQUEST'', ''one or more permissions do not exist'')
                    else Inr (ps, map p_ID perms))))"

definition AdminHandler_UpdateRole ::
    "('s, 'l, 'n) AdminHandler \<Rightarrow> dbconn \<Rightarrow> clock \<Rightarrow> (request \<Rightarrow> role_body option) \<Rightarrow> string \<Rightarrow> ('s, 'l, 'n) admin_world handler" where
  "AdminHandler_UpdateRole H D clk decode reqID = (\<lambda>r hs W0.
     case parsePathID (URLParam r ''id'') of
       None \<Rightarrow> (response_Error reqID r hs 400 ''BAD_REQUEST'' ''invalid role id'' [], W0)
     | Some roleID \<Rightarrow>
     (case admin_lookup H clk reqID roleNegativeLookupNamespace roleID ErrRoleNotFound ''role'' (RoleRepository_FindByID D roleID) r hs W0 of
       (Inl resp, W) \<Rightarrow> (resp, W)
     | (Inr before, W) \<Rightarrow>
         if isProtectedRole H (r_Name before) then
           (response_Error reqID r hs 403 ''FORBIDDEN'' ''protected role cannot be modified'' [], W)
         else
     (case decode r of
       None \<Rightarrow> (response_Error reqID r hs 400 ''BAD_REQUEST'' ''invalid payload'' [], W)
     | Some body \<Rightarrow>
     (case role_target_permissions D before (rb_Permissions body) (aw_T W) of
       Inl (status, code, msg) \<Rightarrow> (response_Error reqID r hs status code msg [], W)
     | Inr (newPermissions, permIDs) \<Rightarrow>
     (case actorIDFromRequest r of
       None \<Rightarrow> (response_Error reqID r hs 401 ''UNAUTHORIZED'' ''invalid actor'' [], W)
     | Some actorID \<Rightarrow>
         if wouldLockOutRoleMutation D actorID roleID (requiredPermissionForPath (rq_Path r)) newPermissions (aw_T W) then
           (response_Error reqID r hs 403 ''FORBIDDEN'' ''mutation would remove caller required permission'' [], W)
         else
     (case RoleRepository_Update D
             \<lparr>r_ID = roleID, r_Name = (case rb_Name body of None \<Rightarrow> r_Name before | Some n \<Rightarrow> TrimSpace n),
              r_Description = (case rb_Description body of None \<Rightarrow> r_Description before | Some d \<Rightarrow> TrimSpace d),
              r_Permissions = [], r_CreatedAt = zero_time\<rparr> permIDs (aw_T W) of
       (Inl e, T) \<Rightarrow>
         (if isConflictError e then response_Error reqID r hs 409 ''CONFLICT'' ''role name already exists'' []
          else response_Error reqID r hs 500 ''INTERNAL'' ''failed to update role'' [], W\<lparr>aw_T := T\<rparr>)
     | (Inr _, T) \<Rightarrow>
         (case RoleRepository_FindByID D roleID T of
            Inl e \<Rightarrow> (panic_response hs, W\<lparr>aw_T := T\<rparr>)
          | Inr updated \<Rightarrow> (response_JSON reqID r hs 200 (role_json updated), role_changed H clk (W\<lparr>aw_T := T\<rparr>)))))))))"

definition AdminHandler_DeleteRole ::
    "('s, 'l, 'n) AdminHandler \<Rightarrow> dbconn \<Rightarrow> clock \<Rightarrow> string \<Rightarrow> ('s, 'l, 'n) admin_world handler" where
  "AdminHandler_DeleteRole H D clk reqID = (\<lambda>r hs W0.
     case parsePathID (URLParam r ''id'') of
       None \<Rightarrow> (response_Error reqID r hs 400 ''BAD_REQUEST'' ''invalid role id'' [], W0)
     | Some roleID \<Rightarrow>
     (case admin_lookup H clk reqID roleNegativeLookupNamespace roleID ErrRoleNotFound ''role'' (RoleRepository_FindByID D roleID) r hs W0 of
       (Inl resp, W) \<Rightarrow> (resp, W)
     | (Inr role, W) \<Rightarrow>
         if isProtectedRole H (r_Name role) then
           (response_Error reqID r hs 403 ''FORBIDDEN'' ''protected role cannot be deleted'' [], W)
         else
     (case actorIDFromRequest r of
       None \<Rightarrow> (response_Error reqID r hs 401 ''UNAUTHORIZED'' ''invalid actor'' [], W)
     | Some actorID \<Rightarrow>
         if wouldLockOutRoleDeletion D actorID roleID (requiredPermissionForPath (rq_Path r)) (aw_T W) then
           (response_Error reqID r hs 403 ''FORBIDDEN'' ''mutation would remove caller required permission'' [], W)
         else
     (case RoleRepository_DeleteByID D roleID (aw_T W) of
       (Inl e, T) \<Rightarrow>
         (if e = ErrRoleNotFound then response_Error reqID r hs 404 ''NOT_FOUND'' ''role not found'' []
          else response_Error reqID r hs 500 ''INTERNAL'' ''failed to delete role'' [], W\<lparr>aw_T := T\<rparr>)
     | (Inr _, T) \<Rightarrow>
         (response_JSON reqID r hs 200 (JObj [(''role_id'', JInt (int roleID)), (''status'', JStr ''deleted'')]),
          role_changed H clk (W\<lparr>aw_T := T\<rparr>))))))"

subsection \<open>Changes of permissions\<close>

definition AdminHandler_CreatePermission ::
    "('s, 'l, 'n) AdminHandler \<Rightarrow> dbconn \<Rightarrow> clock \<Rightarrow> (request \<Rightarrow> (string \<times> string) option) \<Rightarrow> string \<Rightarrow> ('s, 'l, 'n) admin_world handler" where
  "AdminHandler_CreatePermission H D clk decode reqID = (\<lambda>r hs W.
     case decode r of
       None \<Rightarrow> (response_Error reqID r hs 400 ''BAD_REQUEST'' ''invalid payload'' [], W)
     | Some (resource0, action0) \<Rightarrow>
         (case validatePermissionParts resource0 action0 of
            Inl e \<Rightarrow> (response_Error reqID r hs 400 ''BAD_REQUEST'' (Error_text e) [], W)
          | Inr ra \<Rightarrow>
              (case PermissionRepository_Create D (new_permission ra) (aw_T W) of
                 (Inl e, T) \<Rightarrow>
                   (if isConflictError e then response_Error reqID r hs 409 ''CONFLICT'' ''permission already exists'' []
                    else response_Error reqID r hs 500 ''INTERNAL'' ''failed to create permission'' [], W\<lparr>aw_T := T\<rparr>)
               | (Inr permission, T) \<Rightarrow>
                   (response_JSON reqID r hs 201 (permission_json permission), permission_changed H clk (W\<lparr>aw_T := T\<rparr>)))))"

definition AdminHandler_UpdatePermission ::
    "('s, 'l, 'n) AdminHandler \<Rightarrow> dbconn \<Rightarrow> clock \<Rightarrow> (request \<Rightarrow> (string \<times> string) option) \<Rightarrow> string \<Rightarrow> ('s, 'l, 'n) admin_world handler" where
  "AdminHandler_UpdatePermission H D clk decode reqID = (\<lambda>r hs W0.
     case parsePathID (URLParam r ''id'') of
       None \<Rightarrow> (response_Error reqID r hs 400 ''BAD_REQUEST'' ''invalid permission id'' [], W0)
     | Some permID \<Rightarrow>
     (case admin_lookup H clk reqID permissionNegativeLookupNamespace permID ErrPermissionNotFound ''permission''
             (PermissionRepository_FindByID D permID) r hs W0 of
       (Inl resp, W) \<Rightarrow> (resp, W)
     | (Inr before, W) \<Rightarrow>
         if isProtectedPermission H (permission_token before) then
           (response_Error reqID r hs 403 ''FORBIDDEN'' ''protected permission cannot be modified'' [], W)
         else
     (case decode r of
       None \<Rightarrow> (response_Error reqID r hs 400 ''BAD_REQUEST'' ''invalid payload'' [], W)
     | Some (resource0, action0) \<Rightarrow>
     (case validatePermissionParts resource0 action0 of
       Inl e \<Rightarrow> (response_Error reqID r hs 400 ''BAD_REQUEST'' (Error_text e) [], W)
     | Inr (resource, action) \<Rightarrow>
     (case actorIDFromRequest r of
       None \<Rightarrow> (response_Error reqID r hs 401 ''UNAUTHORIZED'' ''invalid actor'' [], W)
     | Some actorID \<Rightarrow>
         if wouldLockOutPermissionMutation D actorID (permission_token before) (resource @ '':'' @ action)
              (requiredPermissionForPath (rq_Path r)) (aw_T W) then
           (response_Error reqID r hs 403 ''FORBIDDEN'' ''mutation would remove caller required permission'' [], W)
         else
     (case PermissionRepository_Update D \<lparr>p_ID = permID, p_Resource = resource, p_Action = action, p_CreatedAt = zero_time\<rparr> (aw_T W) of
       (Inl e, T) \<Rightarrow>
         (if isConflictError e then response_Error reqID r hs 409 ''CONFLICT'' ''permission already exists'' []
          else if e = ErrPermissionNotFound then response_Error reqID r hs 404 ''NOT_FOUND'' ''permission not found'' []
          else response_Error reqID r hs 500 ''INTERNAL'' ''failed to update permission'' [], W\<lparr>aw_T := T\<rparr>)
     | (Inr _, T) \<Rightarrow>
         (case PermissionRepository_FindByID D permID T of
            Inl e \<Rightarrow> (panic_response hs, W\<lparr>aw_T := T\<rparr>)
          | Inr updated \<Rightarrow> (response_JSON reqID r hs 200 (permission_json updated), permission_changed H clk (W\<lparr>aw_T := T\<rparr>)))))))))"

definition AdminHandler_DeletePermission ::
    "('s, 'l, 'n) AdminHandler \<Rightarrow> dbconn \<Rightarrow> clock \<Rightarrow> string \<Rightarrow> ('s, 'l, 'n) admin_world handler" where
  "AdminHandler_DeletePermission H D clk reqID = (\<lambda>r hs W0.
     case parsePathID (URLParam r ''id'') of
       None \<Rightarrow> (response_Error reqID r hs 400 ''BAD_REQUEST'' ''invalid permission id'' [], W0)
     | Some permID \<Rightarrow>
     (case admin_lookup H clk reqID permissionNegativeLookupNamespace permID ErrPermissionNotFound ''permission''
             (PermissionRepository_FindByID D permID) r hs W0 of
       (Inl resp, W) \<Rightarrow> (resp, W)
     | (Inr perm, W) \<Rightarrow>
         if isProtectedPermission H (permission_token perm) then
           (response_Error reqID r hs 403 ''FORBIDDEN'' ''protected permission cannot be deleted'' [], W)
         else
     (case actorIDFromRequest r of
       None \<Rightarrow> (response_Error reqID r hs 401 ''UNAUTHORIZED'' ''invalid actor'' [], W)
     | Some actorID \<Rightarrow>
         if wouldLockOutPermissionDeletion D actorID (permission_token perm) (requiredPermissionForPath (rq_Path r)) (aw_T W) then
           (response_Error reqID r hs 403 ''FORBIDDEN'' ''mutation would remove caller required permission'' [], W)
         else
     (case PermissionRepository_DeleteByID D permID (aw_T W) of
       (Inl e, T) \<Rightarrow>
         (if e = ErrPermissionNotFound then response_Error reqID r hs 404 ''NOT_FOUND'' ''permission not found'' []
          else response_Error reqID r hs 500 ''INTERNAL'' ''failed to delete permission'' [], W\<lparr>aw_T := T\<rparr>)
     | (Inr _, T) \<Rightarrow>
         (response_JSON reqID r hs 200 (JObj [(''permission_id'', JInt (int permID)), (''status'', JStr ''deleted'')]),
          permission_changed H clk (W\<lparr>aw_T := T\<rparr>))))))"

definition report_json :: "RBACSyncReport \<Rightarrow> json" where
  "report_json rep = JObj [(''created_permissions'', JInt (int (sr_CreatedPermissions rep))),
     (''created_roles'', JInt (int (sr_CreatedRoles rep))), (''bound_permissions'', JInt (int (sr_BoundPermissions rep))),
     (''noop'', JBool (sr_Noop rep))]"

definition AdminHandler_SyncRBAC ::
    "('s, 'l, 'n) AdminHandler \<Rightarrow> dbconn \<Rightarrow> clock \<Rightarrow> string \<Rightarrow> ('s, 'l, 'n) admin_world handler" where
  "AdminHandler_SyncRBAC H D clk reqID = (\<lambda>r hs W.
     case SeedSync D (ah_BootstrapAdminEmail H) (aw_T W) of
       (Inl e, T) \<Rightarrow> (response_Error reqID r hs 500 ''INTERNAL'' ''rbac sync failed'' [], W\<lparr>aw_T := T\<rparr>)
     | (Inr rep, T) \<Rightarrow>
         (response_JSON reqID r hs 200 (report_json rep),
          invalidateNegativeLookupCaches H (later 7 clk) [roleNegativeLookupNamespace, permissionNegativeLookupNamespace]
            (invalidateAdminListCaches H (later 6 clk) [''admin.users.list'', ''admin.roles.list'', ''admin.permissions.list'']
              (invalidateRBACPermissionCacheAll H (clk 5) (W\<lparr>aw_T := T\<rparr>)))))"

end
