(* ===== verification/Admin_Lockout.thy ===== *)
theory Admin_Lockout
  imports Admin_Safety
begin

section \<open>An administrator keeps the permission a change requires\<close>

text \<open>
  \<open>granted\<close> is what a user may do, read off the tables as a join of the associations.
  The reads of the user service are shown to return it, and the four guarded handlers to keep the
  permission that they themselves require in it.
\<close>

subsection \<open>Effective permissions\<close>

definition role_permission_rows :: "tables \<Rightarrow> uint \<Rightarrow> permission set" where
  "role_permission_rows T rid =
     {p \<in> set (tb_perms T). mk_role_permission rid (p_ID p) \<in> set (tb_role_perms T)}"

definition user_role_ids :: "tables \<Rightarrow> uint \<Rightarrow> uint set" where
  "user_role_ids T uid = {rid \<in> r_ID ` set (tb_roles T). mk_user_role uid rid \<in> set (tb_user_roles T)}"

definition granted :: "uint \<Rightarrow> tables \<Rightarrow> string set" where
  "granted uid T = {permission_token p |rid p. rid \<in> user_role_ids T uid \<and> p \<in> role_permission_rows T rid}"

lemma links_targets:
  assumes "\<And>l. mk (own l) (target l) = l" and "\<And>a b. own (mk a b) = a" and "\<And>a b. target (mk a b) = b"
  shows "target ` {l \<in> set t. own l = a} = {b. mk a b \<in> set t}"
proof (intro equalityI subsetI)
  fix b
  assume "b \<in> target ` {l \<in> set t. own l = a}"
  then obtain l where "l \<in> set t" "own l = a" "target l = b" by auto
  then show "b \<in> {b. mk a b \<in> set t}" using assms(1) [of l] by simp
next
  fix b
  assume "b \<in> {b. mk a b \<in> set t}"
  then show "b \<in> target ` {l \<in> set t. own l = a}" using assms(2,3) [of a b] by (auto intro: image_eqI [of _ _ "mk a b"])
qed

context database
begin

lemma user_refs:
  assumes "lk_Refs (g_user_roles D) a t = Inr rs"
  shows "set rs = {b. mk_user_role a b \<in> set t}"
  unfolding gorm_links.refs_law [OF user_roles assms] by (rule links_targets) (simp_all add: mk_user_role_def)

lemma role_refs:
  assumes "lk_Refs (g_role_perms D) a t = Inr rs"
  shows "set rs = {b. mk_role_permission a b \<in> set t}"
  unfolding gorm_links.refs_law [OF role_perms assms] by (rule links_targets) (simp_all add: mk_role_permission_def)

lemma preload_permissions_rows:
  assumes "preload_permissions D T r = Inr r'"
  shows "r_ID r' = r_ID r \<and> set (r_Permissions r') = role_permission_rows T (r_ID r)"
proof -
  obtain pids ps where pids: "lk_Refs (g_role_perms D) (r_ID r) (tb_role_perms T) = Inr pids"
      and ps: "gorm_Find (g_perms D) (\<lambda>p. p_ID p \<in> set pids) (tb_perms T) = Inr ps" and r': "r' = r\<lparr>r_Permissions := ps\<rparr>"
    using assms by (auto simp: preload_permissions_def split: sum.splits)
  show ?thesis using gorm_table.find_set [OF perms ps] by (auto simp: r' role_refs [OF pids] role_permission_rows_def)
qed

lemma preload_roles_ids:
  assumes "preload_roles D T u = Inr u'"
  shows "u_ID u' = u_ID u \<and> r_ID ` set (u_Roles u') = user_role_ids T (u_ID u)"
proof -
  obtain rids rs where rids: "lk_Refs (g_user_roles D) (u_ID u) (tb_user_roles T) = Inr rids"
      and rs: "gorm_Find (g_roles D) (\<lambda>r. r_ID r \<in> set rids) (tb_roles T) = Inr rs" and u': "u' = u\<lparr>u_Roles := rs\<rparr>"
    using assms by (auto simp: preload_roles_def split: sum.splits)
  show ?thesis using gorm_table.find_set [OF roles rs] by (auto simp: u' user_refs [OF rids] user_role_ids_def)
qed

lemma user_roles_rows:
  assumes "UserRepository_FindByID D uid T = Inr u"
  shows "(\<lambda>r. (r_ID r, set (r_Permissions r))) ` set (u_Roles u) = (\<lambda>i. (i, role_permission_rows T i)) ` user_role_ids T uid"
proof -
  obtain u0 u1 rs where first: "gorm_First (g_users D) (\<lambda>u. u_ID u = uid) (tb_users T) = Inr u0"
      and u1: "preload_roles D T u0 = Inr u1" and rs: "map_result (preload_permissions D T) (u_Roles u1) = Inr rs"
      and u: "u = u1\<lparr>u_Roles := rs\<rparr>"
    using assms by (auto simp: UserRepository_FindByID_def preload_roles_permissions_def split: sum.splits)
  have "u_ID u0 = uid" using gorm_table.first_found [OF users first] by simp
  then have ids: "r_ID ` set (u_Roles u1) = user_role_ids T uid" using preload_roles_ids [OF u1] by simp
  have "list_all2 (\<lambda>r r'. r_ID r' = r_ID r \<and> set (r_Permissions r') = role_permission_rows T (r_ID r)) (u_Roles u1) rs"
    using map_result_ok [OF rs] preload_permissions_rows by (auto elim: list_all2_mono)
  then have "(\<lambda>r. (r_ID r, set (r_Permissions r))) ` set rs = (\<lambda>r. (r_ID r, role_permission_rows T (r_ID r))) ` set (u_Roles u1)"
    by (induction rule: list_all2_induct) auto
  then show ?thesis by (simp add: u ids [symmetric] image_image)
qed

lemma permissions_are_granted:
  assumes "UserService_GetByID D uid T = Inr (u, ps)"
  shows "set ps = granted uid T"
proof -
  have f: "UserRepository_FindByID D uid T = Inr u" and ps: "ps = PermissionsFromRoles (u_Roles u)"
    using assms by (auto simp: UserService_GetByID_def split: sum.splits)
  have "set ps = \<Union>((\<lambda>x. permission_token ` snd x) ` (\<lambda>r. (r_ID r, set (r_Permissions r))) ` set (u_Roles u))"
    by (auto simp: ps PermissionsFromRoles_def permission_token_def)
  also have "\<dots> = granted uid T" unfolding user_roles_rows [OF f] by (auto simp: granted_def)
  finally show ?thesis .
qed

end

subsection \<open>Names of permissions\<close>

text \<open>
  The canonical form of a stored permission, written out: each part is a non-empty string of lower-case
  letters, digits, underscores and hyphens; keys and names are unique.
\<close>

definition canonical_part :: "string \<Rightarrow> bool" where
  "canonical_part s \<longleftrightarrow> s \<noteq> [] \<and>
     (\<forall>c \<in> set s. (CHR ''a'' \<le> c \<and> c \<le> CHR ''z'') \<or> (CHR ''0'' \<le> c \<and> c \<le> CHR ''9'') \<or> c = CHR ''_'' \<or> c = CHR ''-'')"

definition perms_wf :: "permission list \<Rightarrow> bool" where
  "perms_wf t \<longleftrightarrow> distinct (map p_ID t) \<and> unique_rows clash_permission t
     \<and> list_all (\<lambda>p. canonical_part (p_Resource p) \<and> canonical_part (p_Action p)) t"

definition normal_pair :: "string \<times> string \<Rightarrow> bool" where
  "normal_pair ra \<longleftrightarrow> canonical_part (fst ra) \<and> canonical_part (snd ra)"

lemma TrimSpace_id: "list_all (\<lambda>c. \<not> is_space c) s \<Longrightarrow> TrimSpace s = s"
proof -
  have d: "list_all (\<lambda>c. \<not> is_space c) xs \<Longrightarrow> dropWhile is_space xs = xs" for xs by (cases xs) simp_all
  show "list_all (\<lambda>c. \<not> is_space c) s \<Longrightarrow> TrimSpace s = s" by (simp add: TrimSpace_def d list_all_rev)
qed

lemma part_char:
  assumes "canonical_part s" "c \<in> set s"
  shows "c \<noteq> CHR '':'' \<and> \<not> is_space c \<and> lower_char c = c"
  using assms by (auto simp: canonical_part_def is_space_def lower_char_def less_eq_char_def)

lemma normal_pairD:
  assumes "normal_pair (a, b)"
  shows "CHR '':'' \<notin> set a" "TrimSpace (a @ '':'' @ b) = a @ '':'' @ b" "ToLower (a @ '':'' @ b) = a @ '':'' @ b"
proof -
  have r: "canonical_part a" "canonical_part b" using assms by (simp_all add: normal_pair_def)
  show "CHR '':'' \<notin> set a" using part_char [OF r(1)] by blast
  show "TrimSpace (a @ '':'' @ b) = a @ '':'' @ b"
    by (rule TrimSpace_id) (use part_char [OF r(1)] part_char [OF r(2)] in \<open>auto simp: list_all_iff is_space_def less_eq_char_def\<close>)
  have "ToLower a = a" "ToLower b = b"
    using part_char [OF r(1)] part_char [OF r(2)] by (simp_all add: ToLower_def map_idI)
  then show "ToLower (a @ '':'' @ b) = a @ '':'' @ b" by (simp add: ToLower_def lower_char_def less_eq_char_def)
qed

lemma colon_inj:
  "a @ '':'' @ b = a' @ '':'' @ b' \<Longrightarrow> CHR '':'' \<notin> set a \<Longrightarrow> CHR '':'' \<notin> set a' \<Longrightarrow> a = a' \<and> b = b'"
  by (induction a arbitrary: a') (auto simp: Cons_eq_append_conv append_eq_Cons_conv)

lemma lower_char_not_upper: "\<not> (CHR ''A'' \<le> lower_char c \<and> lower_char c \<le> CHR ''Z'')"
  using is_upper_of_char [of c] by (auto simp: lower_char_def less_eq_char_def)

lemma digit_range: "is_digit c \<longleftrightarrow> CHR ''0'' \<le> c \<and> c \<le> CHR ''9''"
  by (simp add: is_digit_def less_eq_char_def)

lemma lower_part: "permissionPartRe (ToLower s) \<Longrightarrow> canonical_part (ToLower s)"
  using lower_char_not_upper
  by (auto simp: permissionPartRe_def canonical_part_def ToLower_def list_all_iff alphanumeric_def char_between_def digit_range)

lemma validate_normal: "validatePermissionParts a b = Inr ra \<Longrightarrow> normal_pair ra"
  by (auto simp: validatePermissionParts_def normal_pair_def Let_def lower_part split: if_splits)

lemma split_colon_parts: "split_colon s = Some (a, b) \<Longrightarrow> s = a @ '':'' @ b \<and> CHR '':'' \<notin> set a"
proof -
  assume "split_colon s = Some (a, b)"
  then have c: "CHR '':'' \<in> set s" and a: "a = takeWhile (\<lambda>c. c \<noteq> CHR '':'') s" and b: "b = tl (dropWhile (\<lambda>c. c \<noteq> CHR '':'') s)"
    by (auto simp: split_colon_def split: if_splits)
  have "dropWhile (\<lambda>c. c \<noteq> CHR '':'') s \<noteq> []" using c by (auto simp: dropWhile_eq_Nil_conv)
  then have "dropWhile (\<lambda>c. c \<noteq> CHR '':'') s = CHR '':'' # b" using hd_dropWhile [of "\<lambda>c. c \<noteq> CHR '':''" s] b by (metis list.collapse)
  then have "s = a @ '':'' @ b" using takeWhile_dropWhile_id [of "\<lambda>c. c \<noteq> CHR '':''" s] a by simp
  moreover have "CHR '':'' \<notin> set a" using a by (auto dest: set_takeWhileD)
  ultimately show ?thesis by simp
qed

lemma pairs_parsed:
  assumes "permission_pairs ps acc = Inr pairs" "list_all normal_pair acc" "distinct acc"
  shows "distinct pairs \<and> list_all normal_pair pairs \<and> set acc \<subseteq> set pairs
    \<and> (\<forall>p \<in> set ps. \<exists>a b ra. split_colon (TrimSpace p) = Some (a, b) \<and> validatePermissionParts a b = Inr ra \<and> ra \<in> set pairs)"
  using assms
proof (induction ps acc rule: permission_pairs.induct)
  case (2 p ps acc)
  obtain a b x y where sp: "split_colon (TrimSpace p) = Some (a, b)" and v: "validatePermissionParts a b = Inr (x, y)"
    using 2(3) by (auto split: option.splits sum.splits)
  have n: "normal_pair (x, y)" by (rule validate_normal [OF v])
  have mem: "x @ '':'' @ y \<in> set (map (\<lambda>(x, y). x @ '':'' @ y) acc) \<longleftrightarrow> (x, y) \<in> set acc"
  proof
    assume "x @ '':'' @ y \<in> set (map (\<lambda>(x, y). x @ '':'' @ y) acc)"
    then obtain x' y' where m: "(x', y') \<in> set acc" and e: "x @ '':'' @ y = x' @ '':'' @ y'" by auto
    have "normal_pair (x', y')" using 2(4) m by (auto simp: list_all_iff)
    with e n have "x = x' \<and> y = y'" by (intro colon_inj) (auto dest: normal_pairD(1))
    with m show "(x, y) \<in> set acc" by simp
  qed force
  show ?case
  proof (cases "(x, y) \<in> set acc")
    case True
    with 2(3) mem have "permission_pairs ps acc = Inr pairs" by (simp add: sp v)
    from 2(1) [OF sp refl v refl _ this 2(4,5)] True mem show ?thesis using sp v by auto
  next
    case False
    with 2(3) mem have "permission_pairs ps (acc @ [(x, y)]) = Inr pairs" by (simp add: sp v)
    from 2(2) [OF sp refl v refl _ this] False mem 2(4,5) n show ?thesis using sp v by auto
  qed
qed simp

lemma wf_token:
  assumes "perms_wf t" "p \<in> set t"
  shows "normal_pair (p_Resource p, p_Action p)" "ToLower (permission_token p) = permission_token p"
    "TrimSpace (permission_token p) = permission_token p"
proof -
  show n: "normal_pair (p_Resource p, p_Action p)" using assms by (auto simp: perms_wf_def list_all_iff normal_pair_def)
  show "ToLower (permission_token p) = permission_token p" "TrimSpace (permission_token p) = permission_token p"
    using normal_pairD [OF n] by (simp_all add: permission_token_def)
qed

lemma wf_token_inj:
  assumes "perms_wf t" "p \<in> set t" "q \<in> set t" "permission_token p = permission_token q"
  shows "p = q"
proof -
  have "p_Resource p = p_Resource q \<and> p_Action p = p_Action q"
    by (rule colon_inj)
      (use assms(4) normal_pairD(1) [OF wf_token(1) [OF assms(1,2)]] normal_pairD(1) [OF wf_token(1) [OF assms(1,3)]] in
        \<open>simp_all add: permission_token_def\<close>)
  then show ?thesis
    using assms(1) unique_rows_eq [of clash_permission t p q] assms(2,3) by (simp add: perms_wf_def clash_permission_def)
qed

lemma wf_key_inj: "perms_wf t \<Longrightarrow> p \<in> set t \<Longrightarrow> q \<in> set t \<Longrightarrow> p_ID p = p_ID q \<Longrightarrow> p = q"
  by (auto simp: perms_wf_def distinct_map inj_on_def)

lemma wf_keys: "perms_wf t \<Longrightarrow> distinct (map (\<lambda>p. (p_Resource p, p_Action p)) t)"
proof -
  have "unique_rows clash_permission t \<Longrightarrow> distinct (map (\<lambda>p. (p_Resource p, p_Action p)) t)"
    by (induction t) (auto simp: unique_rows_def clash_permission_def)
  then show "perms_wf t \<Longrightarrow> distinct (map (\<lambda>p. (p_Resource p, p_Action p)) t)" by (simp add: perms_wf_def)
qed

lemma mset_distinct_image: "mset xs = mset ys \<Longrightarrow> distinct (map f xs) = distinct (map f ys)"
  by (metis mset_eq_imp_distinct_iff mset_map)

lemma required_cases:
  assumes "requiredPermissionForPath path \<noteq> []"
  obtains x where "requiredPermissionForPath path = x @ '':write''" "x = ''permissions'' \<or> x = ''roles''"
  using assms by (auto simp: requiredPermissionForPath_def split: if_splits)

lemma required_lower: "ToLower (requiredPermissionForPath path) = requiredPermissionForPath path"
  by (simp add: requiredPermissionForPath_def ToLower_def lower_char_def less_eq_char_def)

text \<open>A name in a request that folds to the required one is parsed to the pair of the required one.\<close>

lemma parsed_required:
  assumes "split_colon (TrimSpace p) = Some (a, b)" and "validatePermissionParts a b = Inr ra"
    and "ToLower (TrimSpace p) = x @ '':write''" and "x = ''permissions'' \<or> x = ''roles''"
  shows "ra = (x, ''write'')"
proof -
  have s: "TrimSpace p = a @ '':'' @ b" "CHR '':'' \<notin> set a" using split_colon_parts [OF assms(1)] by simp_all
  have "lower_char c \<noteq> CHR '':''" if "c \<noteq> CHR '':''" for c
    using that is_upper_of_char [of c] by (auto simp: lower_char_def of_char_eq_iff [symmetric, where 'a = nat])
  then have na: "CHR '':'' \<notin> set (ToLower a)" using s(2) unfolding ToLower_def set_map by (metis imageE)
  have "ToLower a @ '':'' @ ToLower b = x @ '':'' @ ''write''"
    using assms(3) by (simp add: s ToLower_def lower_char_def less_eq_char_def)
  then have "ToLower a = x \<and> ToLower b = ''write''" by (rule colon_inj [OF _ na]) (use assms(4) in auto)
  moreover have "ra = (TrimSpace (ToLower a), TrimSpace (ToLower b))"
    using assms(2) by (auto simp: validatePermissionParts_def Let_def TrimSpace_ToLower split: if_splits)
  ultimately show ?thesis using assms(4) by (auto simp: TrimSpace_def is_space_def less_eq_char_def)
qed

subsection \<open>What the repositories write\<close>

lemma role_update_writes:
  assumes "RoleRepository_Update D r ids T = (res, T')" and "T' \<noteq> T"
  obtains ex n t ps l where "RoleRepository_FindByID D (r_ID r) T = Inr ex"
    and "gorm_Updates (g_roles D) (\<lambda>x. r_ID x = r_ID ex)
           (\<lambda>x. x\<lparr>r_Name := r_Name r, r_Description := r_Description r\<rparr>) (tb_roles T) = Inr (n, t)"
    and "(if ids \<noteq> [] then gorm_Find (g_perms D) (\<lambda>p. p_ID p \<in> set ids) (tb_perms T) else Inr []) = Inr ps"
    and "lk_Replace (g_role_perms D) (r_ID ex) (map p_ID ps) (tb_role_perms T) = Inr l"
    and "T' = T\<lparr>tb_roles := t, tb_role_perms := l\<rparr>"
  using assms by (auto simp: RoleRepository_Update_def split: sum.splits prod.splits)

context database
begin

lemma role_update_effect:
  assumes "RoleRepository_Update D r ids T = (res, T')"
  shows "T' = T \<or> tb_perms T' = tb_perms T \<and> user_role_ids T' = user_role_ids T
     \<and> role_permission_rows T' = (\<lambda>i. if i = r_ID r then {p \<in> set (tb_perms T). p_ID p \<in> set ids} else role_permission_rows T i)"
proof (cases "T' = T")
  case False
  obtain ex n t ps l where ex: "RoleRepository_FindByID D (r_ID r) T = Inr ex"
      and up: "gorm_Updates (g_roles D) (\<lambda>x. r_ID x = r_ID ex)
                  (\<lambda>x. x\<lparr>r_Name := r_Name r, r_Description := r_Description r\<rparr>) (tb_roles T) = Inr (n, t)"
      and ps: "(if ids \<noteq> [] then gorm_Find (g_perms D) (\<lambda>p. p_ID p \<in> set ids) (tb_perms T) else Inr []) = Inr ps"
      and l: "lk_Replace (g_role_perms D) (r_ID ex) (map p_ID ps) (tb_role_perms T) = Inr l"
      and T': "T' = T\<lparr>tb_roles := t, tb_role_perms := l\<rparr>"
    by (rule role_update_writes [OF assms False])
  have id: "r_ID ex = r_ID r"
    using ex preload_permissions_rows
    by (auto simp: RoleRepository_FindByID_def split: sum.splits dest!: gorm_table.first_found [OF roles])
  have t: "r_ID ` set t = r_ID ` set (tb_roles T)"
    using gorm_table.updates_keys [OF roles up] by (metis (no_types, lifting) list.set_map role.select_convs(1) role.surjective role.update_convs(2,3))
  have "set ps = {p \<in> set (tb_perms T). p_ID p \<in> set ids}"
    using ps gorm_table.find_set [OF perms, of "\<lambda>p. p_ID p \<in> set ids"] by (auto split: if_splits)
  moreover have "mk_role_permission i b \<in> set l \<longleftrightarrow>
      (if i = r_ID r then b \<in> p_ID ` set ps else mk_role_permission i b \<in> set (tb_role_perms T))" for i b
    unfolding gorm_links.replace_law [OF role_perms l] id by (auto simp: mk_role_permission_def)
  ultimately show ?thesis by (auto simp: T' role_permission_rows_def user_role_ids_def t fun_eq_iff)
qed simp

lemma role_delete_effect:
  assumes "RoleRepository_DeleteByID D i T = (res, T')"
  shows "role_permission_rows T' = role_permission_rows T \<and> user_role_ids T u - {i} \<subseteq> user_role_ids T' u"
  using assms
  by (auto simp: RoleRepository_DeleteByID_def role_permission_rows_def user_role_ids_def fun_eq_iff
      dest!: gorm_table.delete_rows [OF roles] split: sum.splits if_splits)

lemma permission_update_effect:
  assumes "PermissionRepository_Update D p T = (res, T')"
  shows "T' = T\<lparr>tb_perms := tb_perms T'\<rparr> \<and> (unique_rows clash_permission (tb_perms T) \<longrightarrow> unique_rows clash_permission (tb_perms T'))
     \<and> (T' = T \<or> tb_perms T' = upd_where (\<lambda>x. p_ID x = p_ID p) (\<lambda>x. x\<lparr>p_Resource := p_Resource p, p_Action := p_Action p\<rparr>) (tb_perms T))"
proof (cases "gorm_Updates (g_perms D) (\<lambda>x. p_ID x = p_ID p) (\<lambda>x. x\<lparr>p_Resource := p_Resource p, p_Action := p_Action p\<rparr>) (tb_perms T)")
  case (Inr nt)
  then obtain n t where up: "gorm_Updates (g_perms D) (\<lambda>x. p_ID x = p_ID p) (\<lambda>x. x\<lparr>p_Resource := p_Resource p, p_Action := p_Action p\<rparr>) (tb_perms T) = Inr (n, t)"
    by (cases nt) simp
  have "T' = T\<lparr>tb_perms := t\<rparr>" using assms by (auto simp: PermissionRepository_Update_def up split: if_splits)
  then show ?thesis using gorm_table.updates_unique [OF perms up] gorm_table.updates_rows [OF perms up] by simp
qed (use assms in \<open>simp add: PermissionRepository_Update_def\<close>)

lemma permission_delete_effect:
  assumes "PermissionRepository_DeleteByID D i T = (res, T')"
  shows "T' = T \<or> T' = T\<lparr>tb_perms := filter (\<lambda>p. p_ID p \<noteq> i) (tb_perms T)\<rparr>"
  using assms
  by (auto simp: PermissionRepository_DeleteByID_def dest!: gorm_table.delete_rows [OF perms] split: sum.splits if_splits)

subsection \<open>What the guards establish\<close>

lemma role_guard:
  assumes get: "UserService_GetByID D a T = Inr (actor, ps)" and "req \<in> set ps" "req \<noteq> []" "ToLower req = req"
    and "\<not> wouldLockOutRoleMutation D a roleID req newPerms T"
  shows "\<exists>i \<in> user_role_ids T a. if i = roleID then req \<in> (\<lambda>p. ToLower (TrimSpace p)) ` set newPerms
    else \<exists>p \<in> role_permission_rows T i. ToLower (permission_token p) = req"
proof -
  have f: "UserRepository_FindByID D a T = Inr actor" using get by (auto simp: UserService_GetByID_def split: sum.splits)
  have "req \<in> set (concat (map (\<lambda>role. if r_ID role = roleID then map (\<lambda>p. ToLower (TrimSpace p)) newPerms
      else map (\<lambda>p. ToLower (permission_token p)) (r_Permissions role)) (u_Roles actor)))"
    using assms by (simp add: wouldLockOutRoleMutation_def HasPermission_def list_ex_iff)
  then obtain role where role: "role \<in> set (u_Roles actor)"
      and m: "req \<in> set (if r_ID role = roleID then map (\<lambda>p. ToLower (TrimSpace p)) newPerms
                        else map (\<lambda>p. ToLower (permission_token p)) (r_Permissions role))"
    unfolding set_concat set_map by blast
  have "(r_ID role, set (r_Permissions role)) \<in> (\<lambda>i. (i, role_permission_rows T i)) ` user_role_ids T a"
    unfolding user_roles_rows [OF f, symmetric] using role by auto
  then have "r_ID role \<in> user_role_ids T a" "set (r_Permissions role) = role_permission_rows T (r_ID role)" by auto
  then show ?thesis using m by (intro bexI [of _ "r_ID role"]) (auto split: if_splits)
qed

lemma role_deletion_is_mutation:
  "wouldLockOutRoleDeletion D a roleID req T = wouldLockOutRoleMutation D a roleID req [] T"
  by (simp add: wouldLockOutRoleDeletion_def wouldLockOutRoleMutation_def cong: if_cong sum.case_cong)

lemma role_targets:
  assumes tg: "role_target_permissions D before permissions T = Inr (newPerms, ids)"
    and b: "set (r_Permissions before) \<subseteq> set (tb_perms T)" and wf: "perms_wf (tb_perms T)"
    and req: "req = x @ '':write''" "x = ''permissions'' \<or> x = ''roles''" "req \<in> (\<lambda>p. ToLower (TrimSpace p)) ` set newPerms"
  shows "\<exists>p \<in> set (tb_perms T). p_ID p \<in> set ids \<and> permission_token p = req"
proof (cases permissions)
  case None
  then obtain p where p: "p \<in> set (r_Permissions before)" "ToLower (TrimSpace (permission_token p)) = req" and "p_ID p \<in> set ids"
    using tg req(3) by (auto simp: role_target_permissions_def permissionsToStrings_def)
  moreover have "p \<in> set (tb_perms T)" using p b by blast
  ultimately show ?thesis using wf_token(2,3) [OF wf] by auto
next
  case (Some names)
  then obtain pairs where pairs: "parsePermissionPairs names = Inr pairs"
      and ps: "\<exists>ps. PermissionRepository_FindByPairs D pairs T = Inr ps \<and> length ps = length pairs \<and> ids = map p_ID ps \<and> newPerms = names"
    using tg by (auto simp: role_target_permissions_def split: sum.splits if_splits)
  then obtain ps where f: "PermissionRepository_FindByPairs D pairs T = Inr ps" and len: "length ps = length pairs"
      and ids: "ids = map p_ID ps" and new: "newPerms = names" by blast
  let ?key = "\<lambda>p. (p_Resource p, p_Action p)"
  have parsed: "distinct pairs" "\<And>p. p \<in> set names \<Longrightarrow> \<exists>a b ra. split_colon (TrimSpace p) = Some (a, b) \<and> validatePermissionParts a b = Inr ra \<and> ra \<in> set pairs"
    using pairs_parsed [of names "[]" pairs] pairs by (auto simp: parsePermissionPairs_def)
  obtain p where p: "p \<in> set names" "ToLower (TrimSpace p) = x @ '':write''" using req(1,3) new by auto
  obtain a b ra where "split_colon (TrimSpace p) = Some (a, b)" "validatePermissionParts a b = Inr ra" "ra \<in> set pairs"
    using parsed(2) [OF p(1)] by blast
  then have inp: "(x, ''write'') \<in> set pairs" using parsed_required [OF _ _ p(2) req(2)] by metis
  then have ms: "mset ps = mset (filter (\<lambda>p. ?key p \<in> set pairs) (tb_perms T))"
    using f gorm_table.find_rows [OF perms] by (auto simp: PermissionRepository_FindByPairs_def split: if_splits)
  have d: "distinct (map ?key ps)"
    using mset_distinct_image [OF ms, of ?key] distinct_map_filter [OF wf_keys [OF wf]] by simp
  have "?key ` set ps \<subseteq> set pairs" using mset_eq_setD [OF ms] by auto
  moreover have "card (?key ` set ps) = card (set pairs)"
    using distinct_card [OF d] distinct_card [OF parsed(1)] len by simp
  ultimately have "?key ` set ps = set pairs" by (simp add: card_subset_eq)
  then have "(x, ''write'') \<in> ?key ` set ps" using inp by (simp only:)
  then obtain q where "q \<in> set ps" "(x, ''write'') = ?key q" by (rule imageE)
  moreover from this(1) have "q \<in> set (tb_perms T)" using mset_eq_setD [OF ms] by auto
  ultimately show ?thesis using ids req(1) by (auto simp: permission_token_def)
qed

end

subsection \<open>What a handler did when the tables changed\<close>

lemma changed_tables [simp]:
  "aw_T (role_changed H clk W) = aw_T W" "aw_T (permission_changed H clk W) = aw_T W"
  by (simp_all add: role_changed_def permission_changed_def invalidateRBACPermissionCacheAll_def split: option.splits)

lemma lookup_result:
  assumes "admin_lookup H clk reqID ns i sentinel what fetch r hs W = (out, W1)"
  shows "aw_T W1 = aw_T W" "out = Inr x \<Longrightarrow> fetch (aw_T W) = Inr x"
proof -
  obtain out' W2 where l: "admin_lookup (without_negative_cache H) clk reqID ns i sentinel what fetch r hs W = (out', W2)"
    by (meson surj_pair)
  have v: "out' = out" "visible W1 = visible W" using lookup_visible [OF assms l] by simp_all
  then show "aw_T W1 = aw_T W" by (simp add: visible_def)
  show "out = Inr x \<Longrightarrow> fetch (aw_T W) = Inr x"
    using l v(1) by (auto simp: admin_lookup_def readNegativeLookupCache_def without_negative_cache_def split: sum.splits if_splits)
qed

lemma lookup_then:
  assumes run: "(case admin_lookup H clk reqID ns i sentinel what fetch r hs W of (Inl resp, V) \<Rightarrow> (resp, V) | (Inr x, V) \<Rightarrow> k x V) = (resp, W')"
    and changed: "aw_T W' \<noteq> aw_T W"
  obtains x V where "fetch (aw_T W) = Inr x" "aw_T V = aw_T W" "k x V = (resp, W')"
proof -
  obtain out W1 where l: "admin_lookup H clk reqID ns i sentinel what fetch r hs W = (out, W1)" by (meson surj_pair)
  show thesis
    using run changed lookup_result [OF l] that by (cases out) (auto simp: l)
qed

lemma UpdateRole_changed:
  assumes run: "AdminHandler_UpdateRole H D clk decode reqID r hs W = (resp, W')" and changed: "aw_T W' \<noteq> aw_T W"
  obtains i before permissions newPerms ids a role res T1 where "RoleRepository_FindByID D i (aw_T W) = Inr before"
    and "\<not> isProtectedRole H (r_Name before)" and "role_target_permissions D before permissions (aw_T W) = Inr (newPerms, ids)"
    and "\<not> wouldLockOutRoleMutation D a i (requiredPermissionForPath (rq_Path r)) newPerms (aw_T W)"
    and "RoleRepository_Update D role ids (aw_T W) = (res, T1)"
    and "actorIDFromRequest r = Some a" and "r_ID role = i" and "aw_T W' = T1"
proof (cases "parsePathID (URLParam r ''id'')")
  case None
  with run changed show ?thesis by (simp add: AdminHandler_UpdateRole_def)
next
  case (Some i)
  note run' = run [unfolded AdminHandler_UpdateRole_def Some option.case]
  show ?thesis
    by (rule lookup_then [OF run' changed])
      (insert changed, auto split: if_splits option.splits sum.splits prod.splits;
         (rule that, assumption, assumption, assumption, assumption, assumption, simp_all))
qed

lemma DeleteRole_changed:
  assumes run: "AdminHandler_DeleteRole H D clk reqID r hs W = (resp, W')" and changed: "aw_T W' \<noteq> aw_T W"
  obtains i role a res T1 where "RoleRepository_FindByID D i (aw_T W) = Inr role"
    and "\<not> isProtectedRole H (r_Name role)"
    and "\<not> wouldLockOutRoleDeletion D a i (requiredPermissionForPath (rq_Path r)) (aw_T W)"
    and "RoleRepository_DeleteByID D i (aw_T W) = (res, T1)" and "actorIDFromRequest r = Some a" and "aw_T W' = T1"
proof (cases "parsePathID (URLParam r ''id'')")
  case None
  with run changed show ?thesis by (simp add: AdminHandler_DeleteRole_def)
next
  case (Some i)
  note run' = run [unfolded AdminHandler_DeleteRole_def Some option.case]
  show ?thesis
    by (rule lookup_then [OF run' changed])
      (insert changed, auto split: if_splits option.splits sum.splits prod.splits;
         (rule that, assumption, assumption, assumption, assumption, simp_all))
qed

lemma UpdatePermission_changed:
  assumes run: "AdminHandler_UpdatePermission H D clk decode reqID r hs W = (resp, W')" and changed: "aw_T W' \<noteq> aw_T W"
  obtains i before res0 act0 x y a res T1 where "PermissionRepository_FindByID D i (aw_T W) = Inr before"
    and "\<not> isProtectedPermission H (permission_token before)" and "validatePermissionParts res0 act0 = Inr (x, y)"
    and "\<not> wouldLockOutPermissionMutation D a (permission_token before) (x @ '':'' @ y) (requiredPermissionForPath (rq_Path r)) (aw_T W)"
    and "PermissionRepository_Update D \<lparr>p_ID = i, p_Resource = x, p_Action = y, p_CreatedAt = zero_time\<rparr> (aw_T W) = (res, T1)"
    and "actorIDFromRequest r = Some a" and "aw_T W' = T1"
proof (cases "parsePathID (URLParam r ''id'')")
  case None
  with run changed show ?thesis by (simp add: AdminHandler_UpdatePermission_def)
next
  case (Some i)
  note run' = run [unfolded AdminHandler_UpdatePermission_def Some option.case]
  show ?thesis
    by (rule lookup_then [OF run' changed])
      (insert changed, auto split: if_splits option.splits sum.splits prod.splits;
         (rule that, assumption, assumption, assumption, simp_all))
qed

lemma DeletePermission_changed:
  assumes run: "AdminHandler_DeletePermission H D clk reqID r hs W = (resp, W')" and changed: "aw_T W' \<noteq> aw_T W"
  obtains i perm a res T1 where "PermissionRepository_FindByID D i (aw_T W) = Inr perm"
    and "\<not> isProtectedPermission H (permission_token perm)"
    and "\<not> wouldLockOutPermissionDeletion D a (permission_token perm) (requiredPermissionForPath (rq_Path r)) (aw_T W)"
    and "PermissionRepository_DeleteByID D i (aw_T W) = (res, T1)" and "actorIDFromRequest r = Some a" and "aw_T W' = T1"
proof (cases "parsePathID (URLParam r ''id'')")
  case None
  with run changed show ?thesis by (simp add: AdminHandler_DeletePermission_def)
next
  case (Some i)
  note run' = run [unfolded AdminHandler_DeletePermission_def Some option.case]
  show ?thesis
    by (rule lookup_then [OF run' changed])
      (insert changed, auto split: if_splits option.splits sum.splits prod.splits;
         (rule that, assumption, assumption, assumption, assumption, simp_all))
qed

subsection \<open>Each guarded handler keeps the permission of its caller\<close>

context database
begin

lemma find_role_rows: "RoleRepository_FindByID D i T = Inr role \<Longrightarrow> r_ID role = i \<and> set (r_Permissions role) = role_permission_rows T i"
  by (auto simp: RoleRepository_FindByID_def split: sum.splits dest!: gorm_table.first_found [OF roles] preload_permissions_rows)

lemma find_permission_row: "PermissionRepository_FindByID D i T = Inr p \<Longrightarrow> p \<in> set (tb_perms T) \<and> p_ID p = i"
  by (auto simp: PermissionRepository_FindByID_def split: sum.splits dest!: gorm_table.first_found [OF perms])

lemma keeps_by_role:
  assumes get: "UserService_GetByID D a T = Inr (actor, ps)" and req: "req \<in> set ps" "req \<noteq> []" "ToLower req = req"
    and guard: "\<not> wouldLockOutRoleMutation D a i req newPerms T" and wf: "perms_wf (tb_perms T)"
    and same: "user_role_ids T a - {i} \<subseteq> user_role_ids T' a" "\<And>j. j \<noteq> i \<Longrightarrow> role_permission_rows T' j = role_permission_rows T j"
    and own: "i \<in> user_role_ids T a \<Longrightarrow> req \<in> (\<lambda>p. ToLower (TrimSpace p)) ` set newPerms \<Longrightarrow>
      i \<in> user_role_ids T' a \<and> req \<in> permission_token ` role_permission_rows T' i"
  shows "req \<in> granted a T'"
proof -
  obtain j where j: "j \<in> user_role_ids T a" and "if j = i then req \<in> (\<lambda>p. ToLower (TrimSpace p)) ` set newPerms
      else \<exists>p \<in> role_permission_rows T j. ToLower (permission_token p) = req"
    using role_guard [OF get req guard] by blast
  moreover have "ToLower (permission_token p) = permission_token p" if "p \<in> role_permission_rows T j" for p
    using wf_token(2) [OF wf] that by (simp add: role_permission_rows_def)
  ultimately have "j \<in> user_role_ids T' a \<and> req \<in> permission_token ` role_permission_rows T' j"
    using own same by (cases "j = i") auto
  then show ?thesis by (auto simp: granted_def)
qed

lemma UpdateRole_keeps:
  assumes run: "AdminHandler_UpdateRole H D clk decode reqID r hs W = (resp, W')" and wf: "perms_wf (tb_perms (aw_T W))"
    and a: "actorIDFromRequest r = Some a" and get: "UserService_GetByID D a (aw_T W) = Inr (actor, ps)"
    and req: "requiredPermissionForPath (rq_Path r) \<in> set ps" "requiredPermissionForPath (rq_Path r) \<noteq> []"
  shows "requiredPermissionForPath (rq_Path r) \<in> granted a (aw_T W')"
proof (cases "aw_T W' = aw_T W")
  case True
  then show ?thesis using permissions_are_granted [OF get] req by simp
next
  case False
  let ?T = "aw_T W" and ?req = "requiredPermissionForPath (rq_Path r)"
  from UpdateRole_changed [OF run False] a obtain i before permissions newPerms ids role res where
      f: "RoleRepository_FindByID D i ?T = Inr before" and tg: "role_target_permissions D before permissions ?T = Inr (newPerms, ids)"
      and g: "\<not> wouldLockOutRoleMutation D a i ?req newPerms ?T"
      and up: "RoleRepository_Update D role ids ?T = (res, aw_T W')" and id: "r_ID role = i" by (metis option.inject)
  have eff: "user_role_ids (aw_T W') = user_role_ids ?T"
      "role_permission_rows (aw_T W') = (\<lambda>j. if j = i then {p \<in> set (tb_perms ?T). p_ID p \<in> set ids} else role_permission_rows ?T j)"
    using role_update_effect [OF up] False id by auto
  obtain x where x: "?req = x @ '':write''" "x = ''permissions'' \<or> x = ''roles''" using req(2) by (rule required_cases)
  have b: "set (r_Permissions before) \<subseteq> set (tb_perms ?T)" using find_role_rows [OF f] by (auto simp: role_permission_rows_def)
  show ?thesis
    by (rule keeps_by_role [OF get req required_lower g wf])
      (use role_targets [OF tg b wf x] in \<open>auto simp: eff intro: rev_image_eqI\<close>)
qed

lemma DeleteRole_keeps:
  assumes run: "AdminHandler_DeleteRole H D clk reqID r hs W = (resp, W')" and wf: "perms_wf (tb_perms (aw_T W))"
    and a: "actorIDFromRequest r = Some a" and get: "UserService_GetByID D a (aw_T W) = Inr (actor, ps)"
    and req: "requiredPermissionForPath (rq_Path r) \<in> set ps" "requiredPermissionForPath (rq_Path r) \<noteq> []"
  shows "requiredPermissionForPath (rq_Path r) \<in> granted a (aw_T W')"
proof (cases "aw_T W' = aw_T W")
  case True
  then show ?thesis using permissions_are_granted [OF get] req by simp
next
  case False
  let ?T = "aw_T W" and ?req = "requiredPermissionForPath (rq_Path r)"
  from DeleteRole_changed [OF run False] a obtain i res where
      g: "\<not> wouldLockOutRoleDeletion D a i ?req ?T" and del: "RoleRepository_DeleteByID D i ?T = (res, aw_T W')"
    by (metis option.inject)
  note eff = role_delete_effect [OF del]
  show ?thesis
    by (rule keeps_by_role [OF get req required_lower g [unfolded role_deletion_is_mutation] wf]) (use eff in auto)
qed

text \<open>A row keeps its name in a renaming, unless it is the row renamed.\<close>

lemma renamed_row:
  fixes t x y i
  defines "u \<equiv> upd_where (\<lambda>p. p_ID p = i) (\<lambda>p. p\<lparr>p_Resource := x, p_Action := y\<rparr>) t"
  assumes wf: "perms_wf t" and b: "before \<in> set t" "p_ID before = i"
    and q: "q \<in> set t"
    and tok: "permission_token q = x @ '':'' @ y \<or> permission_token q \<noteq> permission_token before"
  shows "\<exists>q' \<in> set u. p_ID q' = p_ID q \<and> permission_token q' = permission_token q"
proof (cases "q = before")
  case True
  then have "permission_token q = x @ '':'' @ y" using tok by simp
  moreover have "q\<lparr>p_Resource := x, p_Action := y\<rparr> \<in> set u" using q b True by (auto simp: u_def set_upd_where)
  ultimately show ?thesis by (intro bexI [of _ "q\<lparr>p_Resource := x, p_Action := y\<rparr>"]) (simp_all add: permission_token_def)
next
  case False
  then have "p_ID q \<noteq> i" using wf_key_inj [OF wf q b(1)] b(2) by auto
  then have "q \<in> set u" using q by (auto simp: u_def set_upd_where)
  then show ?thesis by blast
qed

text \<open>A row of the permissions that is still there, under its key and name, still grants what it granted.\<close>

lemma keeps_by_row:
  assumes get: "UserService_GetByID D a T = Inr (actor, ps)" and req: "req \<in> set ps"
    and T': "T' = T\<lparr>tb_perms := t\<rparr>"
    and kept: "\<And>q. q \<in> set (tb_perms T) \<Longrightarrow> permission_token q = req \<Longrightarrow>
      \<exists>q' \<in> set t. p_ID q' = p_ID q \<and> permission_token q' = req"
  shows "req \<in> granted a T'"
proof -
  obtain i q where i: "i \<in> user_role_ids T a" and q: "q \<in> role_permission_rows T i" "permission_token q = req"
    using req permissions_are_granted [OF get] by (auto simp: granted_def)
  then obtain q' where "q' \<in> set t" "p_ID q' = p_ID q" "permission_token q' = req"
    using kept by (auto simp: role_permission_rows_def)
  then show ?thesis
    using i q by (auto simp: T' granted_def role_permission_rows_def user_role_ids_def intro!: exI [of _ q'])
qed

lemma DeletePermission_keeps:
  assumes run: "AdminHandler_DeletePermission H D clk reqID r hs W = (resp, W')" and wf: "perms_wf (tb_perms (aw_T W))"
    and a: "actorIDFromRequest r = Some a" and get: "UserService_GetByID D a (aw_T W) = Inr (actor, ps)"
    and req: "requiredPermissionForPath (rq_Path r) \<in> set ps" "requiredPermissionForPath (rq_Path r) \<noteq> []"
  shows "requiredPermissionForPath (rq_Path r) \<in> granted a (aw_T W')"
proof (cases "aw_T W' = aw_T W")
  case True
  then show ?thesis using permissions_are_granted [OF get] req by simp
next
  case False
  let ?T = "aw_T W" and ?req = "requiredPermissionForPath (rq_Path r)"
  from DeletePermission_changed [OF run False] a obtain i perm res where
      f: "PermissionRepository_FindByID D i ?T = Inr perm"
      and g: "\<not> wouldLockOutPermissionDeletion D a (permission_token perm) ?req ?T"
      and del: "PermissionRepository_DeleteByID D i ?T = (res, aw_T W')"
    by (metis option.inject)
  have "?req \<noteq> permission_token perm"
    using g get req find_permission_row [OF f] wf_token(2) [OF wf]
    by (auto simp: wouldLockOutPermissionDeletion_def required_lower)
  then have "q \<in> set (filter (\<lambda>p. p_ID p \<noteq> i) (tb_perms ?T))" if "q \<in> set (tb_perms ?T)" "permission_token q = ?req" for q
    using that find_permission_row [OF f] wf_key_inj [OF wf, of q perm] by auto
  moreover have "aw_T W' = ?T\<lparr>tb_perms := filter (\<lambda>p. p_ID p \<noteq> i) (tb_perms ?T)\<rparr>"
    using permission_delete_effect [OF del] False by blast
  ultimately show ?thesis by (intro keeps_by_row [OF get req(1)]) blast+
qed

lemma UpdatePermission_keeps:
  assumes run: "AdminHandler_UpdatePermission H D clk decode reqID r hs W = (resp, W')" and wf: "perms_wf (tb_perms (aw_T W))"
    and a: "actorIDFromRequest r = Some a" and get: "UserService_GetByID D a (aw_T W) = Inr (actor, ps)"
    and req: "requiredPermissionForPath (rq_Path r) \<in> set ps" "requiredPermissionForPath (rq_Path r) \<noteq> []"
  shows "requiredPermissionForPath (rq_Path r) \<in> granted a (aw_T W')"
proof (cases "aw_T W' = aw_T W")
  case True
  then show ?thesis using permissions_are_granted [OF get] req by simp
next
  case False
  let ?T = "aw_T W" and ?req = "requiredPermissionForPath (rq_Path r)"
  from UpdatePermission_changed [OF run False] a obtain i before res0 act0 x y res where
      f: "PermissionRepository_FindByID D i ?T = Inr before" and v: "validatePermissionParts res0 act0 = Inr (x, y)"
      and g: "\<not> wouldLockOutPermissionMutation D a (permission_token before) (x @ '':'' @ y) ?req ?T"
      and up: "PermissionRepository_Update D \<lparr>p_ID = i, p_Resource = x, p_Action = y, p_CreatedAt = zero_time\<rparr> ?T = (res, aw_T W')"
    by (metis option.inject)
  let ?t = "upd_where (\<lambda>p. p_ID p = i) (\<lambda>p. p\<lparr>p_Resource := x, p_Action := y\<rparr>) (tb_perms ?T)"
  have T': "aw_T W' = ?T\<lparr>tb_perms := ?t\<rparr>" using permission_update_effect [OF up] False by auto
  have b: "before \<in> set (tb_perms ?T)" "p_ID before = i" using find_permission_row [OF f] by simp_all
  have "?req = x @ '':'' @ y \<or> ?req \<noteq> permission_token before"
    using g get req wf_token(2) [OF wf b(1)] normal_pairD(3) [OF validate_normal [OF v]]
    by (auto simp: wouldLockOutPermissionMutation_def required_lower)
  then have "\<exists>q' \<in> set ?t. p_ID q' = p_ID q \<and> permission_token q' = ?req"
    if q: "q \<in> set (tb_perms ?T)" "permission_token q = ?req" for q
    using renamed_row [OF wf b q(1), of x y] q by auto
  then show ?thesis by (intro keeps_by_row [OF get req(1) T']) 
qed

lemma role_update_frame:
  assumes "RoleRepository_Update D r ids T = (res, T')" and "q \<in> set (tb_roles T)" and "r_ID q \<noteq> r_ID r"
  shows "q \<in> set (tb_roles T') \<and> tb_perms T' = tb_perms T
    \<and> (mk_role_permission (r_ID q) b \<in> set (tb_role_perms T') \<longleftrightarrow> mk_role_permission (r_ID q) b \<in> set (tb_role_perms T))"
proof (cases "T' = T")
  case False
  obtain ex n t ps l where ex: "RoleRepository_FindByID D (r_ID r) T = Inr ex"
      and up: "gorm_Updates (g_roles D) (\<lambda>x. r_ID x = r_ID ex)
                  (\<lambda>x. x\<lparr>r_Name := r_Name r, r_Description := r_Description r\<rparr>) (tb_roles T) = Inr (n, t)"
      and ps: "(if ids \<noteq> [] then gorm_Find (g_perms D) (\<lambda>p. p_ID p \<in> set ids) (tb_perms T) else Inr []) = Inr ps"
      and l: "lk_Replace (g_role_perms D) (r_ID ex) (map p_ID ps) (tb_role_perms T) = Inr l"
      and T': "T' = T\<lparr>tb_roles := t, tb_role_perms := l\<rparr>"
    by (rule role_update_writes [OF assms(1) False])
  have id: "r_ID ex = r_ID r" using find_role_rows [OF ex] by simp
  have "t = upd_where (\<lambda>x. r_ID x = r_ID ex) (\<lambda>x. x\<lparr>r_Name := r_Name r, r_Description := r_Description r\<rparr>) (tb_roles T)"
    using gorm_table.updates_rows [OF roles up] by simp
  then have "q \<in> set t" using assms(2,3) id by (auto simp: set_upd_where)
  moreover have "mk_role_permission (r_ID q) b \<in> set l \<longleftrightarrow> mk_role_permission (r_ID q) b \<in> set (tb_role_perms T)"
    unfolding gorm_links.replace_law [OF role_perms l] id using assms(3) by (auto simp: mk_role_permission_def)
  ultimately show ?thesis by (simp add: T')
qed (use assms in simp)

lemma found_role_name:
  assumes "RoleRepository_FindByID D i T = Inr before" "q \<in> set (tb_roles T)" "r_ID q = i" "distinct (map r_ID (tb_roles T))"
  shows "r_Name before = r_Name q"
proof -
  obtain r0 where first: "gorm_First (g_roles D) (\<lambda>r. r_ID r = i) (tb_roles T) = Inr r0" and pre: "preload_permissions D T r0 = Inr before"
    using assms(1) by (auto simp: RoleRepository_FindByID_def split: sum.splits)
  have "r0 = q" using gorm_table.first_found [OF roles first] assms(2-4) by (auto simp: distinct_map inj_on_def)
  then show ?thesis using pre by (auto simp: preload_permissions_def split: sum.splits)
qed

end

subsection \<open>Permissions are stored in canonical form\<close>

text \<open>A change through the admin API, with the bodies that its requests decode to.\<close>

inductive admin_step :: "('s, 'l, 'n) AdminHandler \<Rightarrow> ('s, 'l, 'n) admin_world \<Rightarrow> ('s, 'l, 'n) admin_world \<Rightarrow> bool" for H where
  SetUserRoles: "database D \<Longrightarrow> AdminHandler_SetUserRoles H D clk roleIDs reqID r hs W = (resp, W') \<Longrightarrow> admin_step H W W'"
| CreateRole: "database D \<Longrightarrow> AdminHandler_CreateRole H D clk newRole reqID r hs W = (resp, W') \<Longrightarrow> admin_step H W W'"
| CreatePermission: "database D \<Longrightarrow> AdminHandler_CreatePermission H D clk decodePermission reqID r hs W = (resp, W') \<Longrightarrow> admin_step H W W'"
| Guarded: "database D \<Longrightarrow> h \<in> set (guarded_handlers H D clk decodeRole decodePermission reqID) \<Longrightarrow> h r hs W = (resp, W') \<Longrightarrow> admin_step H W W'"
| SyncRBAC: "database D \<Longrightarrow> AdminHandler_SyncRBAC H D clk reqID r hs W = (resp, W') \<Longrightarrow> admin_step H W W'"

lemma perms_wf_filter: "perms_wf t \<Longrightarrow> perms_wf (filter P t)"
  by (auto simp: perms_wf_def distinct_map_filter unique_rows_filter list_all_iff)

context database
begin

lemma create_wf:
  assumes "gorm_Create (g_perms D) p t = Inr (p', t')" and "normal_pair (p_Resource p, p_Action p)" and "perms_wf t"
  shows "perms_wf t'"
  using gorm_table.create_row [OF perms assms(1)] gorm_table.create_unique [OF perms assms(1)] assms(2,3)
  by (auto simp: perms_wf_def normal_pair_def stamp_permission_def)

lemma update_wf:
  assumes "PermissionRepository_Update D p T = (res, T')" and n: "normal_pair (p_Resource p, p_Action p)" and wf: "perms_wf (tb_perms T)"
  shows "perms_wf (tb_perms T')"
proof -
  let ?f = "\<lambda>x. x\<lparr>p_Resource := p_Resource p, p_Action := p_Action p\<rparr>"
  have uq: "unique_rows clash_permission (tb_perms T')" and "tb_perms T' = tb_perms T \<or> tb_perms T' = upd_where (\<lambda>x. p_ID x = p_ID p) ?f (tb_perms T)"
    using permission_update_effect [OF assms(1)] wf by (auto simp: perms_wf_def)
  moreover have "map p_ID (upd_where (\<lambda>x. p_ID x = p_ID p) ?f (tb_perms T)) = map p_ID (tb_perms T)"
    by (rule map_upd_where) simp
  ultimately show ?thesis using wf n by (auto simp: perms_wf_def normal_pair_def set_upd_where list_all_iff)
qed

lemma seed_permissions_wf:
  assumes "seed_permissions D ras n T = (res, T')" "list_all normal_pair ras" "perms_wf (tb_perms T)"
  shows "perms_wf (tb_perms T')"
  using assms
proof (induction ras arbitrary: n T)
  case (Cons ra ras)
  let ?fc = "FirstOrCreate (g_perms D) (\<lambda>p. p_Resource p = fst ra \<and> p_Action p = snd ra) (new_permission ra) (tb_perms T)"
  obtain out t where fc: "?fc = (out, t)" by (meson surj_pair)
  have "perms_wf t"
    using fc Cons.prems create_wf [of "new_permission ra" "tb_perms T"]
    by (auto simp: FirstOrCreate_def new_permission_def split: sum.splits if_splits prod.splits)
  then show ?case using Cons.IH Cons.prems fc by (auto split: sum.splits prod.splits)
qed simp

lemma seed_role_perms: "seed_role D name description T = (res, T') \<Longrightarrow> tb_perms T' = tb_perms T"
  by (auto simp: seed_role_def split: prod.splits)

lemma seed_bindings_perms: "seed_bindings D i T = (res, T') \<Longrightarrow> tb_perms T' = tb_perms T"
  by (auto simp: seed_bindings_def split: sum.splits if_splits)

lemma seed_bootstrap_perms: "seed_bootstrap D i email T = (res, T') \<Longrightarrow> tb_perms T' = tb_perms T"
  by (auto simp: seed_bootstrap_def Let_def split: sum.splits if_splits)

lemma SeedSync_wf:
  assumes "SeedSync D email T = (res, T')" "perms_wf (tb_perms T)"
  shows "perms_wf (tb_perms T')"
proof -
  have "list_all normal_pair defaultPermissions" by code_simp
  then have p: "perms_wf (tb_perms T1)" if "seed_permissions D defaultPermissions 0 T = (out, T1)" for out T1
    using seed_permissions_wf that assms(2) by blast
  show ?thesis
    using assms(1) by (auto simp: SeedSync_def Let_def p seed_role_perms seed_bindings_perms seed_bootstrap_perms
        split: sum.splits prod.splits)
qed

lemma role_delete_perms: "RoleRepository_DeleteByID D i T = (res, T') \<Longrightarrow> tb_perms T' = tb_perms T"
  by (auto simp: RoleRepository_DeleteByID_def split: sum.splits if_splits)

lemma guarded_wf:
  assumes h: "h \<in> set (guarded_handlers H D clk decodeRole decodePermission reqID)" and run: "h r hs W = (resp, W')"
    and wf: "perms_wf (tb_perms (aw_T W))"
  shows "perms_wf (tb_perms (aw_T W'))"
proof (cases "aw_T W' = aw_T W")
  case False
  from h consider (ur) "h = AdminHandler_UpdateRole H D clk decodeRole reqID" | (dr) "h = AdminHandler_DeleteRole H D clk reqID"
    | (up) "h = AdminHandler_UpdatePermission H D clk decodePermission reqID" | (dp) "h = AdminHandler_DeletePermission H D clk reqID"
    by (auto simp: guarded_handlers_def)
  then show ?thesis
  proof cases
    case ur
    from UpdateRole_changed [OF run [unfolded ur] False] role_update_effect wf show ?thesis by metis
  next
    case dr
    show ?thesis
      by (rule DeleteRole_changed [OF run [unfolded dr] False])
        (use wf in \<open>auto dest!: role_delete_perms\<close>)
  next
    case up
    show ?thesis
      by (rule UpdatePermission_changed [OF run [unfolded up] False]) (use wf in \<open>auto intro: update_wf dest!: validate_normal\<close>)
  next
    case dp
    show ?thesis
      by (rule DeletePermission_changed [OF run [unfolded dp] False])
        (use wf in \<open>auto intro: perms_wf_filter dest!: permission_delete_effect\<close>)
  qed
qed (use wf in simp)

end

subsection \<open>The properties\<close>

text \<open>
  C24: No administrator locks himself out.  If the caller holds the permission that the route requires
  (\<open>roles:write\<close> or \<open>permissions:write\<close>) then after a change or deletion of any role or permission
  through the four guarded handlers the tables still grant it to him, whatever the handler answered.
  Besides the laws of the database this rests on permissions being stored in their canonical form, which
  \<open>stored_permissions_are_canonical\<close> shows of every history.
\<close>

theorem no_self_lockout:
  assumes "database D" and "h \<in> set (guarded_handlers H D clk decodeRole decodePermission reqID)"
    and "h r hs W = (resp, W')" and "perms_wf (tb_perms (aw_T W))"
    and "actorIDFromRequest r = Some a" and "UserService_GetByID D a (aw_T W) = Inr (actor, ps)"
    and "requiredPermissionForPath (rq_Path r) \<in> set ps" and "requiredPermissionForPath (rq_Path r) \<noteq> []"
  shows "requiredPermissionForPath (rq_Path r) \<in> granted a (aw_T W')"
  using assms
  by (auto simp: guarded_handlers_def intro: database.UpdateRole_keeps database.DeleteRole_keeps
      database.UpdatePermission_keeps database.DeletePermission_keeps)

text \<open>
  C26: Protected rows stay.  None of the four handlers changes or deletes the row of a role whose name is
  protected, adds or removes a row that links it to a permission, or changes or deletes the row of a
  permission whose name is protected.  What a protected role grants may still change: a permission linked
  to it whose own name is not protected can be renamed or deleted.
\<close>

theorem protected_rows_are_kept:
  assumes D: "database D" and h: "h \<in> set (guarded_handlers H D clk decodeRole decodePermission reqID)"
    and run: "h r hs W = (resp, W')" and keys: "distinct (map r_ID (tb_roles (aw_T W)))" "distinct (map p_ID (tb_perms (aw_T W)))"
  shows "(\<forall>q \<in> set (tb_roles (aw_T W)). isProtectedRole H (r_Name q) \<longrightarrow> q \<in> set (tb_roles (aw_T W'))
       \<and> (\<forall>b. mk_role_permission (r_ID q) b \<in> set (tb_role_perms (aw_T W')) \<longleftrightarrow> mk_role_permission (r_ID q) b \<in> set (tb_role_perms (aw_T W))))
     \<and> (\<forall>p \<in> set (tb_perms (aw_T W)). isProtectedPermission H (permission_token p) \<longrightarrow> p \<in> set (tb_perms (aw_T W')))"
    (is "?P (aw_T W')")
proof (cases "aw_T W' = aw_T W")
  case False
  let ?T = "aw_T W"
  from h consider (ur) "h = AdminHandler_UpdateRole H D clk decodeRole reqID" | (dr) "h = AdminHandler_DeleteRole H D clk reqID"
    | (up) "h = AdminHandler_UpdatePermission H D clk decodePermission reqID" | (dp) "h = AdminHandler_DeletePermission H D clk reqID"
    by (auto simp: guarded_handlers_def)
  then show ?thesis
  proof cases
    case ur
    show ?thesis
    proof (rule UpdateRole_changed [OF run [unfolded ur] False])
      fix i before role ids res T1
      assume f: "RoleRepository_FindByID D i ?T = Inr before" and np: "\<not> isProtectedRole H (r_Name before)"
        and up: "RoleRepository_Update D role ids ?T = (res, T1)" and "r_ID role = i" and T1: "aw_T W' = T1"
      have "r_ID q \<noteq> r_ID role" if "q \<in> set (tb_roles ?T)" "isProtectedRole H (r_Name q)" for q
        using database.found_role_name [OF D f that(1) _ keys(1)] np that(2) \<open>r_ID role = i\<close> by auto
      moreover have "tb_perms T1 = tb_perms ?T" using database.role_update_effect [OF D up] by auto
      ultimately show ?thesis using database.role_update_frame [OF D up] by (simp add: T1)
    qed
  next
    case dr
    show ?thesis
    proof (rule DeleteRole_changed [OF run [unfolded dr] False])
      fix i role res T1
      assume f: "RoleRepository_FindByID D i ?T = Inr role" and np: "\<not> isProtectedRole H (r_Name role)"
        and del: "RoleRepository_DeleteByID D i ?T = (res, T1)" and T1: "aw_T W' = T1"
      have "r_ID q \<noteq> i" if "q \<in> set (tb_roles ?T)" "isProtectedRole H (r_Name q)" for q
        using database.found_role_name [OF D f that(1) _ keys(1)] np that(2) by auto
      then show ?thesis using del database.roles [OF D]
        by (auto simp: T1 RoleRepository_DeleteByID_def dest!: gorm_table.delete_rows split: sum.splits if_splits)
    qed
  next
    case up
    show ?thesis
    proof (rule UpdatePermission_changed [OF run [unfolded up] False])
      fix i before x y res T1
      assume f: "PermissionRepository_FindByID D i ?T = Inr before" and np: "\<not> isProtectedPermission H (permission_token before)"
        and up: "PermissionRepository_Update D \<lparr>p_ID = i, p_Resource = x, p_Action = y, p_CreatedAt = zero_time\<rparr> ?T = (res, T1)"
        and T1: "aw_T W' = T1"
      have "p_ID p \<noteq> i" if "p \<in> set (tb_perms ?T)" "isProtectedPermission H (permission_token p)" for p
        using database.find_permission_row [OF D f] np that keys(2) by (auto simp: distinct_map inj_on_def)
      then show ?thesis using database.permission_update_effect [OF D up] False T1 by (auto simp: set_upd_where)
    qed
  next
    case dp
    show ?thesis
    proof (rule DeletePermission_changed [OF run [unfolded dp] False])
      fix i perm res T1
      assume f: "PermissionRepository_FindByID D i ?T = Inr perm" and np: "\<not> isProtectedPermission H (permission_token perm)"
        and del: "PermissionRepository_DeleteByID D i ?T = (res, T1)" and T1: "aw_T W' = T1"
      have "p_ID p \<noteq> i" if "p \<in> set (tb_perms ?T)" "isProtectedPermission H (permission_token p)" for p
        using database.find_permission_row [OF D f] np that keys(2) by (auto simp: distinct_map inj_on_def)
      then show ?thesis using database.permission_delete_effect [OF D del] T1 by auto
    qed
  qed
qed simp

text \<open>
  C25: Permissions are stored in canonical form.  Through any sequence of changes by the admin API, the
  synchronisation of the defaults included, keys and names of permissions stay unique and each part of a
  name stays a non-empty string of lower-case letters, digits, hyphens and underscores.
\<close>

theorem stored_permissions_are_canonical:
  assumes "(admin_step H)\<^sup>*\<^sup>* W W'" and "perms_wf (tb_perms (aw_T W))"
  shows "perms_wf (tb_perms (aw_T W'))"
  using assms
proof (induction rule: rtranclp_induct)
  case (step V U)
  then have wf: "perms_wf (tb_perms (aw_T V))" by blast
  from step(2) show ?case
  proof cases
    case (SetUserRoles D clk roleIDs reqID r hs resp)
    then show ?thesis
      using wf by (auto simp: AdminHandler_SetUserRoles_def UserService_SetRoles_def UserRepository_SetRoles_def
          invalidateRBACPermissionCacheUser_def split: option.splits sum.splits prod.splits if_splits)
  next
    case (CreateRole D clk newRole reqID r hs resp)
    then show ?thesis
      using wf by (auto simp: AdminHandler_CreateRole_def RoleRepository_Create_def Let_def
          split: option.splits sum.splits prod.splits if_splits)
  next
    case (CreatePermission D clk decodePermission reqID r hs resp)
    have "perms_wf t" if "validatePermissionParts x y = Inr ra" "gorm_Create (g_perms D) (new_permission ra) (tb_perms (aw_T V)) = Inr (p, t)"
      for x y ra p t
      using database.create_wf [OF CreatePermission(1) that(2) _ wf] validate_normal [OF that(1)] by (simp add: new_permission_def)
    then show ?thesis
      using CreatePermission(2) wf
      by (auto simp: AdminHandler_CreatePermission_def PermissionRepository_Create_def split: option.splits sum.splits prod.splits)
  next
    case (Guarded D h clk decodeRole decodePermission reqID r hs resp)
    then show ?thesis using database.guarded_wf wf by blast
  next
    case (SyncRBAC D clk reqID r hs resp)
    then show ?thesis
      using wf by (auto simp: AdminHandler_SyncRBAC_def invalidateRBACPermissionCacheAll_def
          split: option.splits sum.splits prod.splits dest: database.SeedSync_wf)
  qed
qed

subsection \<open>Witnesses\<close>

definition lock_demo_handler :: "(unit, unit, unit) AdminHandler" where
  "lock_demo_handler = \<lparr>ah_resolver = None, ah_adminListCache = None, ah_negativeLookupCache = None, ah_adminListCacheTTL = 0,
     ah_negativeLookupTTL = 0, ah_BootstrapAdminEmail = [], ah_protectedRoles = [''admin''], ah_protectedPermissions = [],
     ah_marshal = (\<lambda>_. []), ah_sha256 = (\<lambda>s. s)\<rparr>"

definition lock_demo_role :: "uint \<Rightarrow> string \<Rightarrow> role" where
  "lock_demo_role i name = \<lparr>r_ID = i, r_Name = name, r_Description = [], r_Permissions = [], r_CreatedAt = 0\<rparr>"

definition lock_demo_permission :: permission where
  "lock_demo_permission = \<lparr>p_ID = 4, p_Resource = ''roles'', p_Action = ''write'', p_CreatedAt = 0\<rparr>"

definition lock_demo_world :: "(unit, unit, unit) admin_world" where
  "lock_demo_world = \<lparr>aw_T = \<lparr>tb_users = [rbac_demo_user], tb_roles = [lock_demo_role 1 ''ops'', lock_demo_role 2 ''tmp'', lock_demo_role 3 ''Admin''],
     tb_perms = [lock_demo_permission], tb_user_roles = [mk_user_role 7 1, mk_user_role 7 2],
     tb_role_perms = [mk_role_permission 1 4, mk_role_permission 2 4], tb_creds = [], tb_vtokens = [], tb_oauth = [], tb_sessions = []\<rparr>,
     aw_rbac = (), aw_list = (), aw_neg = ()\<rparr>"

definition lock_demo_request :: request where
  "lock_demo_request = (demo_request ''DELETE'')\<lparr>rq_Path := ''/api/v1/admin/roles/2'', rq_Claims := Some demo_claims, rq_Params := [(''id'', ''2'')]\<rparr>"

definition lock_demo_delete :: "response \<times> (unit, unit, unit) admin_world" where
  "lock_demo_delete = AdminHandler_DeleteRole lock_demo_handler (mem_db 0) (\<lambda>_. 0) [] lock_demo_request [] lock_demo_world"

lemma lock_demo_wf: "perms_wf (tb_perms (aw_T lock_demo_world))"
  by (simp add: perms_wf_def lock_demo_world_def lock_demo_permission_def unique_rows_def) code_simp

lemma lock_demo_guarded: "AdminHandler_DeleteRole H D clk reqID \<in> set (guarded_handlers H D clk decodeRole decodePermission reqID)"
  by (simp add: guarded_handlers_def)

theorem no_self_lockout_witness: "''roles:write'' \<in> granted 7 (aw_T (snd lock_demo_delete))"
proof -
  have a: "actorIDFromRequest lock_demo_request = Some 7"
    by (simp add: actorIDFromRequest_def ClaimsFromContext_def lock_demo_request_def demo_request_def demo_subject)
  have req: "requiredPermissionForPath (rq_Path lock_demo_request) = ''roles:write''" by code_simp
  obtain u where "UserService_GetByID (mem_db 0) 7 (aw_T lock_demo_world) = Inr (u, [''roles:write''])"
  proof -
    have "map_sum id snd (UserService_GetByID (mem_db 0) 7 (aw_T lock_demo_world)) = Inr [''roles:write'']" by code_simp
    then show thesis using that by (cases "UserService_GetByID (mem_db 0) 7 (aw_T lock_demo_world)") auto
  qed
  from no_self_lockout [OF mem_db.database_axioms [of 0] lock_demo_guarded _ lock_demo_wf a this] req
  show ?thesis unfolding lock_demo_delete_def by (metis list.set_intros(1) list.distinct(1) prod.collapse)
qed

theorem protected_rows_are_kept_witness: "lock_demo_role 3 ''Admin'' \<in> set (tb_roles (aw_T (snd lock_demo_delete)))"
proof -
  have "isProtectedRole lock_demo_handler (r_Name (lock_demo_role 3 ''Admin''))" by code_simp
  moreover have "lock_demo_role 3 ''Admin'' \<in> set (tb_roles (aw_T lock_demo_world))" by (simp add: lock_demo_world_def)
  moreover have "distinct (map r_ID (tb_roles (aw_T lock_demo_world)))" "distinct (map p_ID (tb_perms (aw_T lock_demo_world)))" by code_simp+
  ultimately show ?thesis
    using protected_rows_are_kept [OF mem_db.database_axioms [of 0] lock_demo_guarded prod.collapse [symmetric]]
    unfolding lock_demo_delete_def by blast
qed

theorem stored_permissions_are_canonical_witness:
  "perms_wf (tb_perms (aw_T (snd (AdminHandler_SyncRBAC lock_demo_handler (mem_db 0) (\<lambda>_. 0) [] lock_demo_request [] lock_demo_world))))"
proof -
  have "admin_step lock_demo_handler lock_demo_world
      (snd (AdminHandler_SyncRBAC lock_demo_handler (mem_db 0) (\<lambda>_. 0) [] lock_demo_request [] lock_demo_world))"
    by (rule admin_step.SyncRBAC [OF mem_db.database_axioms prod.collapse [symmetric]])
  then show ?thesis by (intro stored_permissions_are_canonical [OF _ lock_demo_wf]) blast
qed

end
