(* ===== verification/Auth_Handler.thy ===== *)
theory Auth_Handler
  imports Handler_Util Account_Security Abuse_Guard
begin

section \<open>The auth API: \<open>auth_handler.go\<close>\<close>

text \<open>
  The handlers under \<open>/api/v1/auth\<close>.  A reply is the response together with the cookies that were set
  on it.  The guard against abuse is the record \<open>abuse_guard\<close> of its three operations over its own state;
  the guards in memory and in Redis and the empty one are its instances.  A guard that fails returns no
  cooldown, as both implementations do.  The body of a redirect is left out, and so are metrics and audit
  records.
\<close>

record 'g abuse_guard =
  ag_Check :: "gotime \<Rightarrow> string \<Rightarrow> string \<Rightarrow> string \<Rightarrow> 'g \<Rightarrow> duration result \<times> 'g"
  ag_RegisterFailure :: "gotime \<Rightarrow> string \<Rightarrow> string \<Rightarrow> string \<Rightarrow> 'g \<Rightarrow> duration result \<times> 'g"
  ag_Reset :: "gotime \<Rightarrow> string \<Rightarrow> string \<Rightarrow> string \<Rightarrow> 'g \<Rightarrow> unit result \<times> 'g"

definition NoopAuthAbuseGuard :: "'g abuse_guard" where
  "NoopAuthAbuseGuard = \<lparr>ag_Check = (\<lambda>_ _ _ _ g. (Inr 0, g)), ag_RegisterFailure = (\<lambda>_ _ _ _ g. (Inr 0, g)),
     ag_Reset = (\<lambda>_ _ _ _ g. (Inr (), g))\<rparr>"

definition InMemoryAuthAbuseGuard :: "(rat \<Rightarrow> duration) \<Rightarrow> AuthAbusePolicy \<Rightarrow> abuse_data abuse_guard" where
  "InMemoryAuthAbuseGuard conv policy =
     (let p = normalizeAuthAbusePolicy policy in
      \<lparr>ag_Check = (\<lambda>now scope identity ip g. map_prod Inr id (InMemoryAuthAbuseGuard_Check p now scope identity ip g)),
       ag_RegisterFailure = (\<lambda>now scope identity ip g. map_prod Inr id (InMemoryAuthAbuseGuard_RegisterFailure conv p now scope identity ip g)),
       ag_Reset = (\<lambda>_ scope identity ip g. (Inr (), InMemoryAuthAbuseGuard_Reset scope identity ip g))\<rparr>)"

record 'g AuthHandler =
  th_guard :: "'g abuse_guard"
  th_cookieMgr :: cookie_manager
  th_abuseBypass :: "(request \<Rightarrow> bool \<times> string) option"
  th_stateKey :: string
  th_refreshTTL :: duration
  th_hmac :: "string \<Rightarrow> string \<Rightarrow> string"

definition NewAuthHandler ::
    "'g abuse_guard option \<Rightarrow> cookie_manager \<Rightarrow> (request \<Rightarrow> bool \<times> string) option \<Rightarrow> string \<Rightarrow> duration \<Rightarrow> (string \<Rightarrow> string \<Rightarrow> string)
     \<Rightarrow> 'g AuthHandler" where
  "NewAuthHandler abuseGuard cookieMgr abuseBypass stateKey refreshTTL hmac =
     \<lparr>th_guard = (case abuseGuard of None \<Rightarrow> NoopAuthAbuseGuard | Some g \<Rightarrow> g), th_cookieMgr = cookieMgr,
      th_abuseBypass = abuseBypass, th_stateKey = stateKey, th_refreshTTL = refreshTTL, th_hmac = hmac\<rparr>"

record 'g auth_world =
  tw_T :: tables
  tw_guard :: 'g

type_synonym 'g auth_handler = "request \<Rightarrow> headers \<Rightarrow> 'g auth_world \<Rightarrow> (response \<times> cookie list) \<times> 'g auth_world"

subsection \<open>Helpers\<close>

definition clientIP :: "request \<Rightarrow> string" where
  "clientIP r =
     (let xff = header_get ''X-Forwarded-For'' (rq_Headers r) in
      if xff \<noteq> [] then TrimSpace (hd (Split xff (CHR '',''))) else rq_RemoteAddr r)"

definition UserAgent :: "request \<Rightarrow> string" where
  "UserAgent r = header_get ''User-Agent'' (rq_Headers r)"

text \<open>\<open>Duration.Round(time.Second).Seconds()\<close>: halves are rounded away from zero.\<close>

definition rounded_seconds :: "duration \<Rightarrow> int" where
  "rounded_seconds d = sgn d * ((\<bar>d\<bar> + 500000000) div 1000000000)"

definition writeAbuseCooldownHeaders :: "gotime \<Rightarrow> duration \<Rightarrow> headers \<Rightarrow> headers" where
  "writeAbuseCooldownHeaders now retryAfter hs =
     (let secs = (if rounded_seconds retryAfter \<le> 0 then 1 else rounded_seconds retryAfter);
          resetAt = (now + seconds secs) div 1000000000 in
      header_set ''X-RateLimit-Reset'' (FormatInt resetAt)
        (header_set ''X-RateLimit-Remaining'' ''0''
          (header_set ''X-RateLimit-Limit'' ''0'' (header_set ''Retry-After'' (FormatInt secs) hs))))"

definition shouldBypassAuthAbuse :: "'g AuthHandler \<Rightarrow> request \<Rightarrow> bool \<times> string" where
  "shouldBypassAuthAbuse H r = (case th_abuseBypass H of None \<Rightarrow> (False, []) | Some f \<Rightarrow> f r)"

definition oauth_state_cookie :: "'g AuthHandler \<Rightarrow> string \<Rightarrow> int \<Rightarrow> cookie" where
  "oauth_state_cookie H v maxAge = cookie_of (th_cookieMgr H) ''oauth_state'' v ''/api/v1/auth/google'' True maxAge"

definition login_json :: "LoginResult \<Rightarrow> json" where
  "login_json l = JObj [(''user'', user_json (lr_User l)), (''csrf_token'', JStr (lr_CSRFToken l)), (''expires_at'', JTime (lr_ExpiresAt l))]"

definition status_json :: "string \<Rightarrow> json" where
  "status_json s = JObj [(''status'', JStr s)]"

definition login_cookies :: "'g AuthHandler \<Rightarrow> LoginResult \<Rightarrow> cookie list" where
  "login_cookies H l = SetTokenCookies (th_cookieMgr H) (lr_AccessToken l) (lr_RefreshToken l) (lr_CSRFToken l) (th_refreshTTL H)"

text \<open>An error answer, with no cookie.\<close>

definition refuse :: "string \<Rightarrow> request \<Rightarrow> headers \<Rightarrow> int \<Rightarrow> string \<Rightarrow> string \<Rightarrow> response \<times> cookie list" where
  "refuse reqID r hs status code msg = (response_Error reqID r hs status code msg [], [])"

definition too_many :: "string \<Rightarrow> request \<Rightarrow> headers \<Rightarrow> gotime \<Rightarrow> duration \<Rightarrow> response \<times> cookie list" where
  "too_many reqID r hs now retryAfter =
     refuse reqID r (writeAbuseCooldownHeaders now retryAfter hs) 429 ''RATE_LIMITED'' ''too many requests''"

definition weak_password_message :: string where
  "weak_password_message = ''password must be 12+ chars and include upper, lower, number, and special char''"

subsection \<open>Google\<close>

definition AuthHandler_GoogleLogin :: "'g AuthHandler \<Rightarrow> auth_env \<Rightarrow> string result \<Rightarrow> string \<Rightarrow> 'g auth_handler" where
  "AuthHandler_GoogleLogin H A rnd reqID = (\<lambda>r hs W.
     case NewRandomString rnd of
       Inl e \<Rightarrow> (refuse reqID r hs 500 ''INTERNAL'' ''failed to generate oauth state'', W)
     | Inr state \<Rightarrow>
         (let loginURL = GoogleLoginURL A state in
          if loginURL = [] then (refuse reqID r hs 404 ''NOT_ENABLED'' ''google auth is disabled'', W)
          else ((\<lparr>rs_Status = 302, rs_Headers = header_set ''Location'' loginURL hs, rs_Body = NoBody\<rparr>,
                 [oauth_state_cookie H (SignState (th_hmac H) state (th_stateKey H)) 300]), W)))"

definition AuthHandler_GoogleCallback :: "'g AuthHandler \<Rightarrow> dbconn \<Rightarrow> auth_env \<Rightarrow> string \<Rightarrow> 'g auth_handler" where
  "AuthHandler_GoogleCallback H D A reqID = (\<lambda>r hs W.
     let queryState = Query_Get r ''state''; code = Query_Get r ''code'' in
     if queryState = [] \<or> code = [] then (refuse reqID r hs 400 ''BAD_REQUEST'' ''missing state or code'', W)
     else if VerifySignedState (th_hmac H) (GetCookie r ''oauth_state'') (th_stateKey H) \<noteq> Some queryState then
       (refuse reqID r hs 401 ''UNAUTHORIZED'' ''invalid oauth state'', W)
     else
       (let spent = oauth_state_cookie H [] (-1) in
        case LoginWithGoogleCode D A code (UserAgent r) (clientIP r) (tw_T W) of
          (Inl e, T) \<Rightarrow>
            ((if e = ErrGoogleAuthDisabled then response_Error reqID r hs 404 ''NOT_ENABLED'' ''google auth is disabled'' []
              else response_Error reqID r hs 401 ''OAUTH_FAILED'' (Error_text e) [], [spent]), W\<lparr>tw_T := T\<rparr>)
        | (Inr l, T) \<Rightarrow> ((response_JSON reqID r hs 200 (login_json l), spent # login_cookies H l), W\<lparr>tw_T := T\<rparr>)))"

subsection \<open>Sessions\<close>

definition AuthHandler_Refresh :: "'g AuthHandler \<Rightarrow> dbconn \<Rightarrow> auth_env \<Rightarrow> string \<Rightarrow> 'g auth_handler" where
  "AuthHandler_Refresh H D A reqID = (\<lambda>r hs W.
     let refresh = GetCookie r ''refresh_token'' in
     if refresh = [] then (refuse reqID r hs 401 ''UNAUTHORIZED'' ''missing refresh token'', W)
     else (case Refresh D A refresh (UserAgent r) (clientIP r) (tw_T W) of
             (Inl e, T) \<Rightarrow> (refuse reqID r hs 401 ''UNAUTHORIZED'' ''invalid refresh token'', W\<lparr>tw_T := T\<rparr>)
           | (Inr l, T) \<Rightarrow> ((response_JSON reqID r hs 200 (login_json l), login_cookies H l), W\<lparr>tw_T := T\<rparr>)))"

definition AuthHandler_Logout :: "'g AuthHandler \<Rightarrow> dbconn \<Rightarrow> auth_env \<Rightarrow> string \<Rightarrow> 'g auth_handler" where
  "AuthHandler_Logout H D A reqID = (\<lambda>r hs W.
     case ClaimsFromContext r of
       None \<Rightarrow> (refuse reqID r hs 401 ''UNAUTHORIZED'' ''missing auth context'', W)
     | Some claims \<Rightarrow>
         (case ParseUserID (cl_Subject claims) of
            Inl e \<Rightarrow> (refuse reqID r hs 401 ''UNAUTHORIZED'' ''invalid subject'', W)
          | Inr uid \<Rightarrow>
              (case Logout D A uid (tw_T W) of
                 (Inl e, T) \<Rightarrow> (refuse reqID r hs 500 ''INTERNAL'' ''logout failed'', W\<lparr>tw_T := T\<rparr>)
               | (Inr _, T) \<Rightarrow>
                   ((response_JSON reqID r hs 200 (status_json ''logged_out''), ClearTokenCookies (th_cookieMgr H)), W\<lparr>tw_T := T\<rparr>))))"

subsection \<open>Local accounts\<close>

definition AuthHandler_LocalRegister ::
    "'g AuthHandler \<Rightarrow> dbconn \<Rightarrow> auth_env \<Rightarrow> (request \<Rightarrow> (string \<times> string \<times> string) option) \<Rightarrow> string \<Rightarrow> 'g auth_handler" where
  "AuthHandler_LocalRegister H D A decode reqID = (\<lambda>r hs W.
     case decode r of
       None \<Rightarrow> (refuse reqID r hs 400 ''BAD_REQUEST'' ''invalid payload'', W)
     | Some (email, name, password) \<Rightarrow>
         (case RegisterLocal D A email name password (UserAgent r) (clientIP r) (tw_T W) of
            (Inl e, T) \<Rightarrow>
              (if e = ErrLocalAuthDisabled then refuse reqID r hs 404 ''NOT_ENABLED'' ''local auth is disabled''
               else if e = ErrWeakPassword then refuse reqID r hs 400 ''BAD_REQUEST'' weak_password_message
               else refuse reqID r hs 400 ''BAD_REQUEST'' (Error_text e), W\<lparr>tw_T := T\<rparr>)
          | (Inr l, T) \<Rightarrow>
              (if lr_RequiresVerification l then
                 (response_JSON reqID r hs 201 (JObj [(''user'', user_json (lr_User l)), (''requires_verification'', JBool True)]), [])
               else (response_JSON reqID r hs 201 (login_json l), login_cookies H l), W\<lparr>tw_T := T\<rparr>)))"

text \<open>The answers to a failed login.\<close>

definition login_refused :: "string \<Rightarrow> request \<Rightarrow> headers \<Rightarrow> goerr \<Rightarrow> response \<times> cookie list" where
  "login_refused reqID r hs e =
     (if e = ErrLocalAuthDisabled then refuse reqID r hs 404 ''NOT_ENABLED'' ''local auth is disabled''
      else if e = ErrLocalEmailUnverified then refuse reqID r hs 403 ''EMAIL_UNVERIFIED'' ''email verification required''
      else refuse reqID r hs 401 ''UNAUTHORIZED'' ''invalid credentials'')"

definition AuthHandler_LocalLogin ::
    "'g AuthHandler \<Rightarrow> dbconn \<Rightarrow> auth_env \<Rightarrow> clock \<Rightarrow> (request \<Rightarrow> (string \<times> string) option) \<Rightarrow> string \<Rightarrow> 'g auth_handler" where
  "AuthHandler_LocalLogin H D A clk decode reqID = (\<lambda>r hs W.
     case decode r of
       None \<Rightarrow> (refuse reqID r hs 400 ''BAD_REQUEST'' ''invalid payload'', W)
     | Some (email, password) \<Rightarrow>
         (let bypass = fst (shouldBypassAuthAbuse H r); G = th_guard H in
          case (if bypass then (Inr 0, tw_guard W) else ag_Check G (clk 0) ''login'' email (clientIP r) (tw_guard W)) of
            (Inl e, g) \<Rightarrow> (too_many reqID r hs (clk 1) 0, W\<lparr>tw_guard := g\<rparr>)
          | (Inr retryAfter, g) \<Rightarrow>
              if retryAfter > 0 then (too_many reqID r hs (clk 1) retryAfter, W\<lparr>tw_guard := g\<rparr>)
              else
                (case LoginWithLocalPassword D A email password (UserAgent r) (clientIP r) (tw_T W) of
                   (Inl e, T) \<Rightarrow>
                     (login_refused reqID r hs e,
                      \<lparr>tw_T = T, tw_guard = (if bypass then g else snd (ag_RegisterFailure G (clk 2) ''login'' email (clientIP r) g))\<rparr>)
                 | (Inr l, T) \<Rightarrow>
                     ((response_JSON reqID r hs 200 (login_json l), login_cookies H l),
                      \<lparr>tw_T = T, tw_guard = (if bypass then g else snd (ag_Reset G (clk 2) ''login'' email (clientIP r) g))\<rparr>))))"

definition AuthHandler_LocalVerifyRequest ::
    "dbconn \<Rightarrow> auth_env \<Rightarrow> (request \<Rightarrow> string option) \<Rightarrow> string \<Rightarrow> 'g auth_handler" where
  "AuthHandler_LocalVerifyRequest D A decode reqID = (\<lambda>r hs W.
     case decode r of
       None \<Rightarrow> (refuse reqID r hs 400 ''BAD_REQUEST'' ''invalid payload'', W)
     | Some email \<Rightarrow>
         (case RequestLocalEmailVerification D A email (tw_T W) of
            (Inl e, T) \<Rightarrow>
              (if e = ErrLocalAuthDisabled then refuse reqID r hs 404 ''NOT_ENABLED'' ''local auth is disabled''
               else refuse reqID r hs 400 ''BAD_REQUEST'' (Error_text e), W\<lparr>tw_T := T\<rparr>)
          | (Inr _, T) \<Rightarrow> ((response_JSON reqID r hs 202 (status_json ''verification_requested''), []), W\<lparr>tw_T := T\<rparr>)))"

definition AuthHandler_LocalVerifyConfirm ::
    "dbconn \<Rightarrow> auth_env \<Rightarrow> (request \<Rightarrow> string option) \<Rightarrow> string \<Rightarrow> 'g auth_handler" where
  "AuthHandler_LocalVerifyConfirm D A decode reqID = (\<lambda>r hs W.
     case decode r of
       None \<Rightarrow> (refuse reqID r hs 400 ''BAD_REQUEST'' ''invalid payload'', W)
     | Some token \<Rightarrow>
         (case ConfirmLocalEmailVerification D A token (tw_T W) of
            (Inl e, T) \<Rightarrow>
              (if e = ErrLocalAuthDisabled then refuse reqID r hs 404 ''NOT_ENABLED'' ''local auth is disabled''
               else if e = ErrInvalidVerifyToken then refuse reqID r hs 400 ''INVALID_OR_EXPIRED_TOKEN'' ''invalid or expired token''
               else refuse reqID r hs 400 ''BAD_REQUEST'' (Error_text e), W\<lparr>tw_T := T\<rparr>)
          | (Inr _, T) \<Rightarrow> ((response_JSON reqID r hs 200 (status_json ''email_verified''), []), W\<lparr>tw_T := T\<rparr>)))"

definition AuthHandler_LocalPasswordForgot ::
    "'g AuthHandler \<Rightarrow> dbconn \<Rightarrow> auth_env \<Rightarrow> clock \<Rightarrow> (request \<Rightarrow> string option) \<Rightarrow> string \<Rightarrow> 'g auth_handler" where
  "AuthHandler_LocalPasswordForgot H D A clk decode reqID = (\<lambda>r hs W.
     case decode r of
       None \<Rightarrow> (refuse reqID r hs 400 ''BAD_REQUEST'' ''invalid payload'', W)
     | Some email \<Rightarrow>
         (let bypass = fst (shouldBypassAuthAbuse H r); G = th_guard H in
          case (if bypass then (Inr 0, tw_guard W) else ag_Check G (clk 0) ''forgot'' email (clientIP r) (tw_guard W)) of
            (Inl e, g) \<Rightarrow> (too_many reqID r hs (clk 1) 0, W\<lparr>tw_guard := g\<rparr>)
          | (Inr retryAfter, g) \<Rightarrow>
              if retryAfter > 0 then (too_many reqID r hs (clk 1) retryAfter, W\<lparr>tw_guard := g\<rparr>)
              else
                (case ForgotLocalPassword D A email (tw_T W) of
                   (Inl e, T) \<Rightarrow>
                     (if e = ErrLocalAuthDisabled then refuse reqID r hs 404 ''NOT_ENABLED'' ''local auth is disabled''
                      else refuse reqID r hs 500 ''INTERNAL'' ''password reset request failed'', \<lparr>tw_T = T, tw_guard = g\<rparr>)
                 | (Inr _, T) \<Rightarrow>
                     (case (if bypass then (Inr 0, g) else ag_RegisterFailure G (clk 2) ''forgot'' email (clientIP r) g) of
                        (Inl e, g') \<Rightarrow> (too_many reqID r hs (clk 3) 0, \<lparr>tw_T = T, tw_guard = g'\<rparr>)
                      | (Inr _, g') \<Rightarrow>
                          ((response_JSON reqID r hs 200 (status_json ''if the account exists, reset instructions were sent''), []),
                           \<lparr>tw_T = T, tw_guard = g'\<rparr>)))))"

definition AuthHandler_LocalPasswordReset ::
    "dbconn \<Rightarrow> auth_env \<Rightarrow> (request \<Rightarrow> (string \<times> string) option) \<Rightarrow> string \<Rightarrow> 'g auth_handler" where
  "AuthHandler_LocalPasswordReset D A decode reqID = (\<lambda>r hs W.
     case decode r of
       None \<Rightarrow> (refuse reqID r hs 400 ''BAD_REQUEST'' ''invalid payload'', W)
     | Some (token, newPassword) \<Rightarrow>
         (case ResetLocalPassword D A token newPassword (tw_T W) of
            (Inl e, T) \<Rightarrow>
              (if e = ErrLocalAuthDisabled then refuse reqID r hs 404 ''NOT_ENABLED'' ''local auth is disabled''
               else if e = ErrWeakPassword then refuse reqID r hs 400 ''BAD_REQUEST'' weak_password_message
               else if e = ErrInvalidVerifyToken then refuse reqID r hs 400 ''INVALID_OR_EXPIRED_TOKEN'' ''invalid or expired token''
               else refuse reqID r hs 400 ''BAD_REQUEST'' ''password reset failed'', W\<lparr>tw_T := T\<rparr>)
          | (Inr _, T) \<Rightarrow> ((response_JSON reqID r hs 200 (status_json ''password_reset''), []), W\<lparr>tw_T := T\<rparr>)))"

definition AuthHandler_LocalChangePassword ::
    "'g AuthHandler \<Rightarrow> dbconn \<Rightarrow> auth_env \<Rightarrow> (request \<Rightarrow> (string \<times> string) option) \<Rightarrow> string \<Rightarrow> 'g auth_handler" where
  "AuthHandler_LocalChangePassword H D A decode reqID = (\<lambda>r hs W.
     case ClaimsFromContext r of
       None \<Rightarrow> (refuse reqID r hs 401 ''UNAUTHORIZED'' ''missing auth context'', W)
     | Some claims \<Rightarrow>
         (case ParseUserID (cl_Subject claims) of
            Inl e \<Rightarrow> (refuse reqID r hs 401 ''UNAUTHORIZED'' ''invalid subject'', W)
          | Inr userID \<Rightarrow>
              (case decode r of
                 None \<Rightarrow> (refuse reqID r hs 400 ''BAD_REQUEST'' ''invalid payload'', W)
               | Some (currentPassword, newPassword) \<Rightarrow>
                   (case ChangeLocalPassword D A userID currentPassword newPassword (tw_T W) of
                      (Inl e, T) \<Rightarrow>
                        (if e = ErrLocalAuthDisabled then refuse reqID r hs 404 ''NOT_ENABLED'' ''local auth is disabled''
                         else if e = ErrWeakPassword then refuse reqID r hs 400 ''BAD_REQUEST'' weak_password_message
                         else if e = ErrInvalidCredentials then refuse reqID r hs 401 ''UNAUTHORIZED'' ''invalid credentials''
                         else refuse reqID r hs 400 ''BAD_REQUEST'' (Error_text e), W\<lparr>tw_T := T\<rparr>)
                    | (Inr _, T) \<Rightarrow>
                        ((response_JSON reqID r hs 200 (status_json ''password_changed''), ClearTokenCookies (th_cookieMgr H)),
                         W\<lparr>tw_T := T\<rparr>)))))"

end
