(* ===== verification/Auth_Flow.thy ===== *)
theory Auth_Flow
  imports Auth_Handler
begin

section \<open>Login, lock-out and logout as a client sees them\<close>

text \<open>
  What the auth API guarantees across requests: the OAuth state binds the callback to the browser that
  started the login, an identity that is locked stays locked whatever else is requested, and a logout
  ends every session of the user.
\<close>

subsection \<open>The OAuth state\<close>

definition callback_accepted :: "'g AuthHandler \<Rightarrow> request \<Rightarrow> bool" where
  "callback_accepted H r \<longleftrightarrow>
     (let state = Query_Get r ''state'' in
      state \<noteq> [] \<and> Query_Get r ''code'' \<noteq> [] \<and> CHR ''.'' \<notin> set state
      \<and> GetCookie r ''oauth_state'' = SignState (th_hmac H) state (th_stateKey H))"

lemma login_cookies_keep_state:
  "fold store_cookie (login_cookies H l) j (''oauth_state'', d, p) = j (''oauth_state'', d, p)"
  by (simp add: login_cookies_def SetTokenCookies_def store_cookie_def cookie_of_def cookie_key_def)

lemma spent_state_removed:
  "store_cookie (oauth_state_cookie H [] (-1)) j (''oauth_state'', cm_Domain (th_cookieMgr H), ''/api/v1/auth/google'') = None"
  by (simp add: oauth_state_cookie_def store_cookie_def cookie_of_def cookie_key_def)

text \<open>
  C31: The state binds the callback to a login of the same browser.  The code of a callback is exchanged
  iff the state of its query, signed with the secret of the server, is in its cookie; the answer then
  deletes that cookie.  Any other callback changes nothing, sets no cookie and is answered with 400 or
  401.  What \<open>GoogleLogin\<close> puts into the cookie is such a signature of the state it hands to the provider.
\<close>

theorem oauth_state_guards_callback:
  assumes run: "AuthHandler_GoogleCallback H D A reqID r hs W = ((resp, cookies), W')"
  shows "(if callback_accepted H r then
       tw_T W' = snd (LoginWithGoogleCode D A (Query_Get r ''code'') (UserAgent r) (clientIP r) (tw_T W))
       \<and> fold store_cookie cookies jar (''oauth_state'', cm_Domain (th_cookieMgr H), ''/api/v1/auth/google'') = None
     else W' = W \<and> cookies = [] \<and> rs_Status resp \<in> {400, 401})
   \<and> (\<forall>rnd r0 c cs resp0 W1. AuthHandler_GoogleLogin H A (Inr rnd) reqID r0 hs W = ((resp0, c # cs), W1) \<longrightarrow>
        ck_Value c = SignState (th_hmac H) (RawURLEncode rnd) (th_stateKey H) \<and> CHR ''.'' \<notin> set (RawURLEncode rnd)
        \<and> header_get ''Location'' (rs_Headers resp0) = av_authCodeURL A (RawURLEncode rnd))"
proof
  have acc: "callback_accepted H r \<longleftrightarrow> Query_Get r ''state'' \<noteq> [] \<and> Query_Get r ''code'' \<noteq> []
      \<and> VerifySignedState (th_hmac H) (GetCookie r ''oauth_state'') (th_stateKey H) = Some (Query_Get r ''state'')"
    by (auto simp: callback_accepted_def Let_def VerifySignedState_iff)
  show "if callback_accepted H r then
       tw_T W' = snd (LoginWithGoogleCode D A (Query_Get r ''code'') (UserAgent r) (clientIP r) (tw_T W))
       \<and> fold store_cookie cookies jar (''oauth_state'', cm_Domain (th_cookieMgr H), ''/api/v1/auth/google'') = None
     else W' = W \<and> cookies = [] \<and> rs_Status resp \<in> {400, 401}"
    using run unfolding acc
    by (auto simp: AuthHandler_GoogleCallback_def Let_def refuse_def spent_state_removed login_cookies_keep_state
        split: if_splits sum.splits prod.splits)
  show "\<forall>rnd r0 c cs resp0 W1. AuthHandler_GoogleLogin H A (Inr rnd) reqID r0 hs W = ((resp0, c # cs), W1) \<longrightarrow>
        ck_Value c = SignState (th_hmac H) (RawURLEncode rnd) (th_stateKey H) \<and> CHR ''.'' \<notin> set (RawURLEncode rnd)
        \<and> header_get ''Location'' (rs_Headers resp0) = av_authCodeURL A (RawURLEncode rnd)"
    by (auto simp: AuthHandler_GoogleLogin_def NewRandomString_def Let_def refuse_def GoogleLoginURL_def oauth_state_cookie_def
        cookie_of_def RawURLEncode_no_dot split: if_splits)
qed

subsection \<open>A locked identity\<close>

text \<open>
  \<open>locked\<close> is an entry of the guard for an identity.  A step is any login or reset request whose clock
  readings lie before the end of the cooldown.
\<close>

definition id_key :: "string \<Rightarrow> string" where
  "id_key email = abuse_stateKey ''login'' ''id'' (normalizeAuthIdentity email)"

definition locked :: "string \<Rightarrow> gotime \<Rightarrow> gotime \<Rightarrow> abuse_data \<Rightarrow> bool" where
  "locked email last_at until g \<longleftrightarrow>
     (\<exists>e. g (id_key email) = Some e \<and> ab_LastFailureAt e = last_at \<and> ab_CooldownUntil e = until)"

definition before_end :: "AuthAbusePolicy \<Rightarrow> gotime \<Rightarrow> gotime \<Rightarrow> gotime \<Rightarrow> bool" where
  "before_end p last_at until now \<longleftrightarrow> now < until \<and> now - last_at \<le> ap_ResetWindow p"

lemma active_keeps:
  assumes "locked email l u g" "before_end p l u now"
  shows "locked email l u (snd (activeCooldownLocked p now key g))"
  using assms by (auto simp: locked_def before_end_def activeCooldownLocked_def split: option.splits)

lemma Check_keeps:
  assumes "locked email l u g" "before_end p l u now"
  shows "locked email l u (snd (InMemoryAuthAbuseGuard_Check p now scope identity ip g))"
  using active_keeps [OF active_keeps [OF assms] assms(2)]
  by (simp add: InMemoryAuthAbuseGuard_Check_def maxActiveCooldownLocked_def split_beta)

lemma Check_locked:
  assumes "locked email l u g" "before_end p l u now" "normalizeAuthIdentity identity = normalizeAuthIdentity email"
  shows "0 < fst (InMemoryAuthAbuseGuard_Check p now ''login'' identity ip g)"
proof -
  have "fst (activeCooldownLocked p now (id_key email) g) = u - now"
    using assms(1,2) by (auto simp: locked_def before_end_def activeCooldownLocked_def)
  then show ?thesis using assms(2) unfolding Check_max by (simp add: id_key_def assms(3) before_end_def max_def)
qed

lemma other_keys:
  "scope \<in> {''login'', ''forgot''} \<Longrightarrow> abuse_stateKey scope dm v = id_key email \<Longrightarrow> dm \<in> {''id'', ''ip''} \<Longrightarrow>
     scope = ''login'' \<and> dm = ''id'' \<and> v = normalizeAuthIdentity email"
  by (auto simp: abuse_stateKey_def id_key_def)

lemma bump_keeps:
  assumes "locked email l u g" "key \<noteq> id_key email"
  shows "locked email l u (snd (bumpLocked conv p now key g))"
  using assms bump_other [of "id_key email" key] by (simp add: locked_def)

lemma RegisterFailure_keeps:
  assumes "locked email l u g" "scope \<in> {''login'', ''forgot''}"
    and "scope = ''login'' \<Longrightarrow> normalizeAuthIdentity identity \<noteq> normalizeAuthIdentity email"
  shows "locked email l u (snd (InMemoryAuthAbuseGuard_RegisterFailure conv p now scope identity ip g))"
proof -
  have "abuse_stateKey scope ''id'' (normalizeAuthIdentity identity) \<noteq> id_key email"
      "abuse_stateKey scope ''ip'' (normalizeAuthIP ip) \<noteq> id_key email"
    using assms(2,3) other_keys by (auto dest: other_keys)
  then show ?thesis
    using bump_keeps [OF bump_keeps [OF assms(1)]]
    by (simp add: InMemoryAuthAbuseGuard_RegisterFailure_def split_beta)
qed

lemma Reset_keeps:
  assumes "locked email l u g" "normalizeAuthIdentity identity \<noteq> normalizeAuthIdentity email"
  shows "locked email l u (InMemoryAuthAbuseGuard_Reset ''login'' identity ip g)"
  using assms by (auto simp: locked_def InMemoryAuthAbuseGuard_Reset_def abuse_stateKey_def id_key_def)

inductive guard_request :: "abuse_data AuthHandler \<Rightarrow> AuthAbusePolicy \<Rightarrow> gotime \<Rightarrow> gotime \<Rightarrow> abuse_data auth_world \<Rightarrow> abuse_data auth_world \<Rightarrow> bool"
  for H p last_at until where
  Login: "(\<And>n. before_end p last_at until (clk n)) \<Longrightarrow> AuthHandler_LocalLogin H D A clk decode reqID r hs W = (reply, W') \<Longrightarrow>
    guard_request H p last_at until W W'"
| Forgot: "(\<And>n. before_end p last_at until (clk n)) \<Longrightarrow> AuthHandler_LocalPasswordForgot H D A clk decodeEmail reqID r hs W = (reply, W') \<Longrightarrow>
    guard_request H p last_at until W W'"

lemma guard_simps [simp]:
  "ag_Check (InMemoryAuthAbuseGuard conv policy) now scope identity ip g
     = map_prod Inr id (InMemoryAuthAbuseGuard_Check (normalizeAuthAbusePolicy policy) now scope identity ip g)"
  "ag_RegisterFailure (InMemoryAuthAbuseGuard conv policy) now scope identity ip g
     = map_prod Inr id (InMemoryAuthAbuseGuard_RegisterFailure conv (normalizeAuthAbusePolicy policy) now scope identity ip g)"
  "ag_Reset (InMemoryAuthAbuseGuard conv policy) now scope identity ip g = (Inr (), InMemoryAuthAbuseGuard_Reset scope identity ip g)"
  by (simp_all add: InMemoryAuthAbuseGuard_def Let_def)

lemma locked_login_refused:
  assumes H: "th_guard H = InMemoryAuthAbuseGuard conv policy" and p: "p = normalizeAuthAbusePolicy policy"
    and lk: "locked email l u (tw_guard W)" and "before_end p l u (clk 0)"
    and r: "decode r = Some (email', pw)" "normalizeAuthIdentity email' = normalizeAuthIdentity email" "\<not> fst (shouldBypassAuthAbuse H r)"
    and run: "AuthHandler_LocalLogin H D A clk decode reqID r hs W = (reply, W')"
  shows "rs_Status (fst reply) = 429 \<and> snd reply = [] \<and> tw_T W' = tw_T W \<and> locked email l u (tw_guard W')"
proof -
  obtain x g where c: "InMemoryAuthAbuseGuard_Check p (clk 0) ''login'' email' (clientIP r) (tw_guard W) = (x, g)" by (meson surj_pair)
  have "0 < x" using Check_locked [OF lk assms(4) r(2), of "clientIP r"] c by simp
  moreover have "locked email l u g" using Check_keeps [OF lk assms(4), of "''login''" email' "clientIP r"] c by simp
  ultimately show ?thesis
    using run r c by (auto simp: AuthHandler_LocalLogin_def H Let_def too_many_def refuse_def p)
qed

lemma login_keeps_lock:
  assumes H: "th_guard H = InMemoryAuthAbuseGuard conv policy" and p: "p = normalizeAuthAbusePolicy policy"
    and lk: "locked email l u (tw_guard W)" and t: "\<And>n. before_end p l u (clk n)"
    and run: "AuthHandler_LocalLogin H D A clk decode reqID r hs W = (reply, W')"
  shows "locked email l u (tw_guard W')"
proof (cases "decode r")
  case (Some ep)
  obtain email' pw where ep: "decode r = Some (email', pw)" using Some by (cases ep) simp
  obtain x g where c: "InMemoryAuthAbuseGuard_Check p (clk 0) ''login'' email' (clientIP r) (tw_guard W) = (x, g)" by (meson surj_pair)
  have g: "locked email l u g" using Check_keeps [OF lk t [of 0], of "''login''" email' "clientIP r"] c by simp
  consider (bypass) "fst (shouldBypassAuthAbuse H r)" | (own) "\<not> fst (shouldBypassAuthAbuse H r)" "normalizeAuthIdentity email' = normalizeAuthIdentity email"
    | (other) "\<not> fst (shouldBypassAuthAbuse H r)" "normalizeAuthIdentity email' \<noteq> normalizeAuthIdentity email" by blast
  then show ?thesis
  proof cases
    case bypass
    then show ?thesis using run ep lk by (auto simp: AuthHandler_LocalLogin_def Let_def split: sum.splits prod.splits)
  next
    case own
    then show ?thesis using locked_login_refused [OF H p lk t ep own(2,1) run] by simp
  next
    case other
    then show ?thesis
      using run ep c g RegisterFailure_keeps [OF g, of "''login''" email'] Reset_keeps [OF g other(2)]
      by (auto simp: AuthHandler_LocalLogin_def H Let_def p [symmetric] split: if_splits sum.splits prod.splits)
  qed
qed (use run lk in \<open>simp add: AuthHandler_LocalLogin_def\<close>)

lemma forgot_keeps_lock:
  assumes H: "th_guard H = InMemoryAuthAbuseGuard conv policy" and p: "p = normalizeAuthAbusePolicy policy"
    and lk: "locked email l u (tw_guard W)" and t: "\<And>n. before_end p l u (clk n)"
    and run: "AuthHandler_LocalPasswordForgot H D A clk decode reqID r hs W = (reply, W')"
  shows "locked email l u (tw_guard W')"
proof (cases "decode r")
  case (Some email')
  obtain x g where c: "InMemoryAuthAbuseGuard_Check p (clk 0) ''forgot'' email' (clientIP r) (tw_guard W) = (x, g)" by (meson surj_pair)
  obtain y g' where f: "InMemoryAuthAbuseGuard_RegisterFailure conv p (clk 2) ''forgot'' email' (clientIP r) g = (y, g')" by (meson surj_pair)
  have g: "locked email l u g" using Check_keeps [OF lk t [of 0], of "''forgot''" email' "clientIP r"] c by simp
  have "locked email l u g'" using RegisterFailure_keeps [OF g, of "''forgot''" email' conv p "clk 2" "clientIP r"] f by simp
  then show ?thesis
    using run Some c f g lk
    by (auto simp: AuthHandler_LocalPasswordForgot_def H Let_def p [symmetric] split: if_splits sum.splits prod.splits)
qed (use run lk in \<open>simp add: AuthHandler_LocalPasswordForgot_def\<close>)

lemma requests_keep_lock:
  assumes H: "th_guard H = InMemoryAuthAbuseGuard conv policy" and p: "p = normalizeAuthAbusePolicy policy"
    and "(guard_request H p l u)\<^sup>*\<^sup>* W W'" and "locked email l u (tw_guard W)"
  shows "locked email l u (tw_guard W')"
  using assms(3,4)
proof (induction rule: rtranclp_induct)
  case (step V U)
  from step(2) step(3) [OF step(4)] show ?case
    by cases (blast intro: login_keeps_lock [OF H p] forgot_keeps_lock [OF H p])+
qed

lemma failed_login_locks:
  assumes H: "th_guard H = InMemoryAuthAbuseGuard conv policy" and p: "p = normalizeAuthAbusePolicy policy"
    and r: "decode r = Some (email, pw)" "\<not> fst (shouldBypassAuthAbuse H r)"
    and run: "AuthHandler_LocalLogin H D A clk decode reqID r hs W = (reply, W')" and failed: "rs_Status (fst reply) \<in> {401, 403, 404}"
  shows "\<exists>e. tw_guard W' (id_key email) = Some e \<and> ab_LastFailureAt e = clk 2
    \<and> ab_CooldownUntil e = clk 2 + computeDelay conv p (ab_FailCount e)"
proof -
  obtain x g where c: "InMemoryAuthAbuseGuard_Check p (clk 0) ''login'' email (clientIP r) (tw_guard W) = (x, g)" by (meson surj_pair)
  let ?i = "id_key email" and ?a = "abuse_stateKey ''login'' ''ip'' (normalizeAuthIP (clientIP r))"
  let ?d1 = "snd (bumpLocked conv p (clk 2) ?i g)"
  have "tw_guard W' = snd (InMemoryAuthAbuseGuard_RegisterFailure conv p (clk 2) ''login'' email (clientIP r) g)"
    using run failed r c
    by (auto simp: AuthHandler_LocalLogin_def H Let_def p [symmetric] too_many_def refuse_def split: if_splits sum.splits prod.splits)
  also have "\<dots> = snd (bumpLocked conv p (clk 2) ?a ?d1)"
    by (simp add: InMemoryAuthAbuseGuard_RegisterFailure_def id_key_def split_beta)
  finally have "tw_guard W' ?i = ?d1 ?i" using bump_other [of ?i ?a] by (simp add: id_key_def id_ip_keys)
  then show ?thesis by (simp add: bumpLocked_def Let_def)
qed

text \<open>
  C29: A locked identity stays locked.  With the guard in memory, a login that fails, and is not exempt from
  the guard, locks its identity for the delay that the policy gives for its count of failures.  Until that
  time has passed, and at most for \<open>ResetWindow\<close> after the failure, when the guard forgets it, every login
  for the identity that is not exempt is answered with 429 before the password is looked at: it changes no
  table and sets no cookie.  This holds through any sequence of other login and reset requests in that
  time, by whomever and from wherever, successful ones included.
\<close>

theorem locked_until_cooldown_ends:
  assumes H: "th_guard H = InMemoryAuthAbuseGuard conv policy" and p: "p = normalizeAuthAbusePolicy policy"
    and "decode r = Some (email, pw)" "\<not> fst (shouldBypassAuthAbuse H r)"
    and "AuthHandler_LocalLogin H D A clk decode reqID r hs W = (reply, W1)" and "rs_Status (fst reply) \<in> {401, 403, 404}"
  shows "\<exists>e. tw_guard W1 (id_key email) = Some e \<and> ab_CooldownUntil e = clk 2 + computeDelay conv p (ab_FailCount e)
    \<and> (\<forall>W2 D' A' clk' decode' reqID' r' hs' email' pw' reply' W3.
         (guard_request H p (clk 2) (ab_CooldownUntil e))\<^sup>*\<^sup>* W1 W2 \<longrightarrow> before_end p (clk 2) (ab_CooldownUntil e) (clk' 0) \<longrightarrow>
         decode' r' = Some (email', pw') \<longrightarrow> normalizeAuthIdentity email' = normalizeAuthIdentity email \<longrightarrow>
         \<not> fst (shouldBypassAuthAbuse H r') \<longrightarrow> AuthHandler_LocalLogin H D' A' clk' decode' reqID' r' hs' W2 = (reply', W3) \<longrightarrow>
         rs_Status (fst reply') = 429 \<and> snd reply' = [] \<and> tw_T W3 = tw_T W2)"
proof -
  obtain e where e: "tw_guard W1 (id_key email) = Some e" "ab_LastFailureAt e = clk 2"
      "ab_CooldownUntil e = clk 2 + computeDelay conv p (ab_FailCount e)"
    using failed_login_locks [OF assms] by blast
  then have "locked email (clk 2) (ab_CooldownUntil e) (tw_guard W1)" by (simp add: locked_def)
  note kept = requests_keep_lock [OF H p _ this]
  show ?thesis
    by (rule exI [of _ e], intro conjI allI impI e) (use locked_login_refused [OF H p kept] in blast)+
qed

subsection \<open>Logout\<close>

lemma Logout_success:
  assumes "AuthHandler_Logout H D A reqID r hs W = ((resp, cookies), W')" "rs_Status resp = 200"
    and "ClaimsFromContext r = Some c" "ParseUint (cl_Subject c) = Some uid"
  shows "RevokeAll_sessions D (av_clk A 0) uid ''logout'' (tw_T W) = (Inr (), tw_T W')" "cookies = ClearTokenCookies (th_cookieMgr H)"
  using assms by (auto simp: AuthHandler_Logout_def ParseUserID_def Logout_def refuse_def split: sum.splits prod.splits option.splits)

lemma Refresh_spent:
  assumes D: "database D" and wf: "sessions_wf (tb_sessions (tw_T W))"
    and dead: "Token_Service.spent (token_hash (av_tok A) (av_ts A) (GetCookie r ''refresh_token'')) (tb_sessions (tw_T W))"
  shows "rs_Status (fst (fst (AuthHandler_Refresh H D A reqID r hs W))) = 401 \<and> snd (fst (AuthHandler_Refresh H D A reqID r hs W)) = []"
proof -
  obtain e t where "TokenService_Rotate (g_sessions D) (av_tok A) (av_ts A) (GetCookie r ''refresh_token'')
      (\<lambda>uid. UserService_GetByID D uid (tw_T W)) (UserAgent r) (clientIP r) (tb_sessions (tw_T W)) = (Inl e, t)"
    using Rotate_spent_fails [OF database.sessions [OF D] wf dead] by metis
  then show ?thesis by (simp add: AuthHandler_Refresh_def Refresh_def refuse_def Let_def)
qed

lemma spent_stays:
  assumes G: "session_table G" and steps: "(\<lambda>a b. session_step G a b \<and> h \<in> s_RefreshTokenHash ` set b)\<^sup>*\<^sup>* t1 t2"
    and "sessions_wf t1" "Token_Service.spent h t1"
  shows "sessions_wf t2 \<and> Token_Service.spent h t2"
  using steps assms(3,4)
proof (induction rule: rtranclp_induct)
  case (step a b)
  then show ?case using session_step_spent [OF G] session_changes_wf session_step_changes [OF G] by blast
qed blast

text \<open>
  C30: Logout ends every session.  After a successful logout the browser holds no token cookie, and no
  refresh token that the user had, from whatever device, buys a new session: after any further writes of
  the session repository that do not purge the row, a refresh with it is answered with 401 and no cookie.
\<close>

theorem logout_ends_sessions:
  assumes D: "database D" and wf: "sessions_wf (tb_sessions (tw_T W))"
    and out: "AuthHandler_Logout H D A reqID r hs W = ((resp, cookies), W1)" "rs_Status resp = 200"
    and c: "ClaimsFromContext r = Some c" "ParseUint (cl_Subject c) = Some (s_UserID s)"
    and s: "s \<in> set (tb_sessions (tw_T W))"
    and steps: "(\<lambda>a b. session_step (g_sessions D) a b \<and> s_RefreshTokenHash s \<in> s_RefreshTokenHash ` set b)\<^sup>*\<^sup>*
      (tb_sessions (tw_T W1)) (tb_sessions (tw_T W2))"
    and tok: "token_hash (av_tok A2) (av_ts A2) (GetCookie r2 ''refresh_token'') = s_RefreshTokenHash s"
  shows "rs_Status (fst (fst (AuthHandler_Refresh H D A2 reqID2 r2 hs2 W2))) = 401
    \<and> snd (fst (AuthHandler_Refresh H D A2 reqID2 r2 hs2 W2)) = []
    \<and> (\<forall>k \<in> set (SetTokenCookies (th_cookieMgr H) acc rt cs ttl). fold store_cookie cookies jar (cookie_key k) = None)"
proof -
  let ?h = "s_RefreshTokenHash s" and ?G = "g_sessions D"
  note G = database.sessions [OF D]
  have T1: "tb_sessions (tw_T W1) = upd_where (\<lambda>x. s_UserID x = s_UserID s \<and> live x) (revoke (av_clk A 0) ''logout'') (tb_sessions (tw_T W))"
    using database.RevokeAll_done [OF D Logout_success(1) [OF out c]] by simp
  have "sessions_wf (tb_sessions (tw_T W1))" unfolding T1 by (rule calm_wf [OF calm_revoke wf])
  moreover have "Token_Service.spent ?h (tb_sessions (tw_T W1))"
  proof (cases "live s")
    case True
    then have "revoke (av_clk A 0) ''logout'' s \<in> set (tb_sessions (tw_T W1))" unfolding T1 set_upd_where using s by blast
    then show ?thesis unfolding Token_Service.spent_def by (metis option.distinct(1) revoke_simps(3,8))
  next
    case False
    then have "s \<in> set (tb_sessions (tw_T W1))" unfolding T1 set_upd_where using s by blast
    with False show ?thesis unfolding Token_Service.spent_def by blast
  qed
  ultimately have "sessions_wf (tb_sessions (tw_T W2)) \<and> Token_Service.spent ?h (tb_sessions (tw_T W2))"
    by (rule spent_stays [OF G steps])
  then have "rs_Status (fst (fst (AuthHandler_Refresh H D A2 reqID2 r2 hs2 W2))) = 401
      \<and> snd (fst (AuthHandler_Refresh H D A2 reqID2 r2 hs2 W2)) = []"
    by (intro Refresh_spent [OF D]) (simp_all add: tok)
  moreover have "fold store_cookie cookies jar (cookie_key k) = None" if "k \<in> set (SetTokenCookies (th_cookieMgr H) acc rt cs ttl)" for k
    unfolding Logout_success(2) [OF out c] using clear_undoes_set_cookies that by blast
  ultimately show ?thesis by blast
qed

subsection \<open>Witnesses\<close>

definition auth_demo_handler :: "abuse_data AuthHandler" where
  "auth_demo_handler = NewAuthHandler (Some (InMemoryAuthAbuseGuard floor demo_policy)) (NewCookieManager [] True ''lax'') None
     ''key'' (seconds 600) (\<lambda>k s. k @ s)"

definition auth_demo_world :: "abuse_data auth_world" where
  "auth_demo_world = \<lparr>tw_T = demo_tables\<lparr>tb_sessions := [session_of 5 7 ''41'' ''t1'' ''f1'' None]\<rparr>,
     tw_guard = [id_key ''a'' \<mapsto> \<lparr>ab_FailCount = 3, ab_LastFailureAt = 0, ab_CooldownUntil = 0\<rparr>]\<rparr>"

lemma auth_demo_guard: "th_guard auth_demo_handler = InMemoryAuthAbuseGuard floor demo_policy"
  by (simp add: auth_demo_handler_def NewAuthHandler_def)

theorem oauth_state_guards_callback_witness:
  "snd (AuthHandler_GoogleCallback auth_demo_handler (mem_db 0) (demo_auth False) [] (demo_request ''GET'') [] auth_demo_world) = auth_demo_world"
proof -
  have "\<not> callback_accepted auth_demo_handler (demo_request ''GET'')"
    by (simp add: callback_accepted_def Query_Get_def demo_request_def Let_def)
  then show ?thesis
    using oauth_state_guards_callback [of auth_demo_handler "mem_db 0" "demo_auth False" "[]" "demo_request ''GET''" "[]" auth_demo_world]
    by (metis prod.collapse)
qed

theorem logout_ends_sessions_witness:
  "rs_Status (fst (fst (AuthHandler_Refresh auth_demo_handler (mem_db 0) (demo_auth False) []
     ((demo_request ''POST'')\<lparr>rq_Cookies := [(''refresh_token'', demo_refresh ''t1'')]\<rparr>) []
     (snd (AuthHandler_Logout auth_demo_handler (mem_db 0) (demo_auth False) [] ((demo_request ''POST'')\<lparr>rq_Claims := Some demo_claims\<rparr>) []
       auth_demo_world))))) = 401"
proof -
  let ?s = "session_of 5 7 ''41'' ''t1'' ''f1'' None"
  let ?r = "(demo_request ''POST'')\<lparr>rq_Claims := Some demo_claims\<rparr>"
  let ?out = "AuthHandler_Logout auth_demo_handler (mem_db 0) (demo_auth False) [] ?r [] auth_demo_world"
  obtain resp cookies W1 where run: "?out = ((resp, cookies), W1)" by (metis prod.collapse)
  have "rs_Status (fst (fst ?out)) = 200"
    by (simp add: AuthHandler_Logout_def ClaimsFromContext_def ParseUserID_def demo_subject Logout_def RevokeAll_sessions_def
        TokenService_RevokeAll_def SessionRepository_RevokeByUserID_def auth_demo_world_def demo_defs db_simps mem_table_defs)
  then have ok: "rs_Status resp = 200" by (simp add: run)
  have wf: "sessions_wf (tb_sessions (tw_T auth_demo_world))" and s: "?s \<in> set (tb_sessions (tw_T auth_demo_world))"
    by (simp_all add: auth_demo_world_def sessions_wf_def unique_rows_def)
  have c: "ClaimsFromContext ?r = Some demo_claims" "ParseUint (cl_Subject demo_claims) = Some (s_UserID ?s)"
    by (simp_all add: ClaimsFromContext_def demo_subject)
  have "token_hash (av_tok (demo_auth False)) (av_ts (demo_auth False))
      (GetCookie ((demo_request ''POST'')\<lparr>rq_Cookies := [(''refresh_token'', demo_refresh ''t1'')]\<rparr>) ''refresh_token'') = s_RefreshTokenHash ?s"
    by (simp add: demo_auth_def GetCookie_def demo_hash)
  from logout_ends_sessions [OF mem_db.database_axioms [of 0] wf run ok c s rtranclp.rtrancl_refl this]
  show ?thesis by (simp add: run)
qed

lemma auth_demo_failed:
  "AuthHandler_LocalLogin auth_demo_handler (mem_db 0) (demo_auth False) (\<lambda>_. 1) (\<lambda>_. Some (''a'', ''w'')) [] (demo_request ''POST'') [] auth_demo_world
     = (login_refused [] (demo_request ''POST'') [] ErrInvalidCredentials,
        \<lparr>tw_T = tw_T auth_demo_world,
         tw_guard = snd (InMemoryAuthAbuseGuard_RegisterFailure floor demo_policy 1 ''login'' ''a'' [] (tw_guard auth_demo_world))\<rparr>)"
proof -
  have n: "normalizeAuthIdentity ''a'' = ''a''" "normalizeAuthIP [] = ''unknown''" "clientIP (demo_request ''POST'') = []" by code_simp+
  have ck: "InMemoryAuthAbuseGuard_Check demo_policy 1 ''login'' ''a'' [] (tw_guard auth_demo_world) = (0, tw_guard auth_demo_world)"
    by (simp add: InMemoryAuthAbuseGuard_Check_def maxActiveCooldownLocked_def activeCooldownLocked_def auth_demo_world_def
        id_key_def n abuse_stateKey_def demo_policy_def)
  have "TrimSpace (ToLower ''a'') = ''a''" by code_simp
  then have "LoginWithLocalPassword (mem_db 0) (demo_auth False) ''a'' ''w'' ua ip (tw_T auth_demo_world) = (Inl ErrInvalidCredentials, tw_T auth_demo_world)" for ua ip
    by (simp add: LoginWithLocalPassword_def LocalCredentialRepository_FindByEmail_def auth_demo_world_def demo_defs mem_table_defs Let_def)
  then show ?thesis
    by (simp add: AuthHandler_LocalLogin_def auth_demo_guard shouldBypassAuthAbuse_def demo_policy_normal ck n)
      (simp add: auth_demo_handler_def NewAuthHandler_def demo_policy_normal ck n)
qed

theorem locked_until_cooldown_ends_witness:
  "\<exists>W1. rs_Status (fst (fst (AuthHandler_LocalLogin auth_demo_handler (mem_db 0) (demo_auth False) (\<lambda>_. 1) (\<lambda>_. Some (''a'', ''w'')) []
        (demo_request ''POST'') [] auth_demo_world))) = 401
   \<and> W1 = snd (AuthHandler_LocalLogin auth_demo_handler (mem_db 0) (demo_auth False) (\<lambda>_. 1) (\<lambda>_. Some (''a'', ''w'')) []
        (demo_request ''POST'') [] auth_demo_world)
   \<and> rs_Status (fst (fst (AuthHandler_LocalLogin auth_demo_handler (mem_db 0) (demo_auth False) (\<lambda>_. 2) (\<lambda>_. Some ('' A'', ''x'')) []
        (demo_request ''POST'') [] W1))) = 429"
proof -
  let ?run = "AuthHandler_LocalLogin auth_demo_handler (mem_db 0) (demo_auth False) (\<lambda>_. 1) (\<lambda>_. Some (''a'', ''w'')) [] (demo_request ''POST'') [] auth_demo_world"
  obtain reply W1 where run: "?run = (reply, W1)" by (meson surj_pair)
  have nb: "\<not> fst (shouldBypassAuthAbuse auth_demo_handler r)" for r
    by (simp add: shouldBypassAuthAbuse_def auth_demo_handler_def NewAuthHandler_def)
  have p: "demo_policy = normalizeAuthAbusePolicy demo_policy" by (simp add: demo_policy_normal)
  have "rs_Status (fst (fst ?run)) = 401" unfolding auth_demo_failed by (simp add: login_refused_def refuse_def)
  then have st: "rs_Status (fst reply) = 401" by (simp add: run)
  then have failed: "rs_Status (fst reply) \<in> {401, 403, 404}" by simp
  obtain e where e: "tw_guard W1 (id_key ''a'') = Some e" "ab_CooldownUntil e = 1 + computeDelay floor demo_policy (ab_FailCount e)"
    and blocked: "\<forall>W2 D' A' clk' decode' reqID' r' hs' email' pw' reply' W3.
         (guard_request auth_demo_handler demo_policy 1 (ab_CooldownUntil e))\<^sup>*\<^sup>* W1 W2 \<longrightarrow> before_end demo_policy 1 (ab_CooldownUntil e) (clk' 0) \<longrightarrow>
         decode' r' = Some (email', pw') \<longrightarrow> normalizeAuthIdentity email' = normalizeAuthIdentity ''a'' \<longrightarrow>
         \<not> fst (shouldBypassAuthAbuse auth_demo_handler r') \<longrightarrow>
         AuthHandler_LocalLogin auth_demo_handler D' A' clk' decode' reqID' r' hs' W2 = (reply', W3) \<longrightarrow>
         rs_Status (fst reply') = 429 \<and> snd reply' = [] \<and> tw_T W3 = tw_T W2"
    using locked_until_cooldown_ends [OF auth_demo_guard p refl nb run failed] by (elim exE conjE)
  have "map_option ab_FailCount (tw_guard (snd ?run) (id_key ''a'')) = Some 4" unfolding auth_demo_failed
    by (simp add: InMemoryAuthAbuseGuard_RegisterFailure_def bumpLocked_def auth_demo_world_def id_key_def abuse_stateKey_def
        demo_policy_def Let_def)
  then have "ab_FailCount e = 4" by (simp add: run e(1))
  then have t: "before_end demo_policy 1 (ab_CooldownUntil e) 2"
    by (simp add: e(2) before_end_def computeDelay_def demo_policy_def)
  have same: "normalizeAuthIdentity '' A'' = normalizeAuthIdentity ''a''" by code_simp
  have "rs_Status (fst (fst (AuthHandler_LocalLogin auth_demo_handler (mem_db 0) (demo_auth False) (\<lambda>_. 2) (\<lambda>_. Some ('' A'', ''x'')) []
        (demo_request ''POST'') [] W1))) = 429"
    using blocked [rule_format, where clk' = "\<lambda>_. 2" and decode' = "\<lambda>_. Some ('' A'', ''x'')", OF rtranclp.rtrancl_refl t refl same nb
        prod.collapse [symmetric]] by blast
  then show ?thesis using st by (intro exI [of _ W1]) (simp add: run)
qed

end
