(* ===== verification/Go_Parse.thy ===== *)
theory Go_Parse
  imports Go_Prelude
begin

section \<open>Parsers of the Go library: booleans, durations and floating point\<close>

text \<open>
  \<open>strconv.ParseBool\<close> and \<open>time.ParseDuration\<close>, which the configuration reads its values with, and the
  values of \<open>float64\<close>.  A finite \<open>float64\<close> is its rational value; the two infinities and NaN are kept
  apart, because a range check written with \<open><\<close> and \<open>>\<close> lets NaN through.  The fraction of a duration is
  cut to whole nanoseconds in exact arithmetic.
\<close>

text \<open>A parsed address of the package \<open>net\<close> is its bytes.\<close>

type_synonym ip = string

datatype float64 = Fin rat | PosInf | NegInf | NaN

fun float_less :: "float64 \<Rightarrow> float64 \<Rightarrow> bool" where
  "float_less (Fin x) (Fin y) = (x < y)"
| "float_less NegInf (Fin y) = True"
| "float_less NegInf PosInf = True"
| "float_less (Fin x) PosInf = True"
| "float_less _ _ = False"

definition ParseBool :: "string \<Rightarrow> bool option" where
  "ParseBool s =
     (if s \<in> {''1'', ''t'', ''T'', ''TRUE'', ''true'', ''True''} then Some True
      else if s \<in> {''0'', ''f'', ''F'', ''FALSE'', ''false'', ''False''} then Some False
      else None)"

subsection \<open>Durations\<close>

definition duration_unit :: "string \<Rightarrow> nat option" where
  "duration_unit = map_of
     [(''ns'', 1), (''us'', 1000), ([CHR 0xC2, CHR 0xB5, CHR ''s''], 1000), ([CHR 0xCE, CHR 0xBC, CHR ''s''], 1000),
      (''ms'', 1000000), (''s'', 1000000000), (''m'', 60000000000), (''h'', 3600000000000)]"

definition go_quote :: "string \<Rightarrow> string" where
  "go_quote s = [CHR 0x22] @ concat (map (\<lambda>c.
     if c = CHR 0x22 \<or> c = CHR 0x5C then [CHR 0x5C, c]
     else if c < CHR '' '' \<or> CHR 0x80 \<le> c
       then [CHR 0x5C, CHR ''x'', hex_digit (of_char c div 16), hex_digit (of_char c mod 16)]
     else [c]) s) @ [CHR 0x22]"

abbreviation number_char :: "char \<Rightarrow> bool" where
  "number_char c \<equiv> c = CHR ''.'' \<or> is_digit c"

text \<open>
  One turn of the loop: digits, an optional fraction and a unit.  It gives the value in nanoseconds
  and the rest of the string, or the message of the error.
\<close>

definition duration_term :: "string \<Rightarrow> string \<Rightarrow> string + (nat \<times> string)" where
  "duration_term orig s =
     (let invalid = Inl (''time: invalid duration '' @ go_quote orig);
          ip = takeWhile is_digit s; s1 = dropWhile is_digit s; v = digits_value ip;
          dot = (s1 \<noteq> [] \<and> hd s1 = CHR ''.'');
          fp = (if dot then takeWhile is_digit (tl s1) else []);
          s2 = (if dot then dropWhile is_digit (tl s1) else s1);
          u = takeWhile (\<lambda>c. \<not> number_char c) s2; s3 = dropWhile (\<lambda>c. \<not> number_char c) s2
      in if s = [] \<or> \<not> number_char (hd s) then invalid
         else if v > 2 ^ 63 then invalid
         else if ip = [] \<and> fp = [] then invalid
         else if u = [] then Inl (''time: missing unit in duration '' @ go_quote orig)
         else (case duration_unit u of
             None \<Rightarrow> Inl (''time: unknown unit '' @ go_quote u @ '' in duration '' @ go_quote orig)
           | Some n \<Rightarrow>
               (let w = v * n + digits_value fp * n div 10 ^ length fp
                in if v > 2 ^ 63 div n \<or> w > 2 ^ 63 then invalid else Inr (w, s3))))"

lemma duration_term_shorter: "duration_term orig s = Inr (w, s') \<Longrightarrow> length s' < length s"
proof -
  have shorter: "length (dropWhile P (t :: string)) < length t" if "takeWhile P t \<noteq> []" for P t
    using that takeWhile_dropWhile_id [of P t] by (metis append_self_conv2 length_append less_add_same_cancel2 length_greater_0_conv)
  have le: "length (dropWhile P (t :: string)) \<le> length t" for P t
    by (rule length_dropWhile_le)
  assume "duration_term orig s = Inr (w, s')"
  then obtain t where t: "s' = dropWhile (\<lambda>c. \<not> number_char c) t" "takeWhile (\<lambda>c. \<not> number_char c) t \<noteq> []"
      "t = dropWhile is_digit s \<or> t = dropWhile is_digit (tl (dropWhile is_digit s))"
    by (auto simp: duration_term_def Let_def split: if_splits option.splits)
  have "length t \<le> length s" using t(3) le [of is_digit s] le [of is_digit "tl (dropWhile is_digit s)"]
    by (auto intro: order_trans)
  with shorter [OF t(2)] t(1) show ?thesis by simp
qed

text \<open>The sum is a \<open>uint64\<close>, and it wraps around.\<close>

function duration_terms :: "string \<Rightarrow> string \<Rightarrow> nat \<Rightarrow> string + nat" where
  "duration_terms orig s d =
     (if s = [] then Inr d
      else (case duration_term orig s of
          Inl e \<Rightarrow> Inl e
        | Inr (w, s') \<Rightarrow>
            (let d' = (d + w) mod 2 ^ 64
             in if d' > 2 ^ 63 then Inl (''time: invalid duration '' @ go_quote orig)
                else duration_terms orig s' d')))"
  by auto
termination
  by (relation "measure (\<lambda>(orig, s, d). length s)") (auto dest: duration_term_shorter)

declare duration_terms.simps [simp del]

definition ParseDuration :: "string \<Rightarrow> string + duration" where
  "ParseDuration orig =
     (let neg = (orig \<noteq> [] \<and> hd orig = CHR ''-'');
          s = (if orig \<noteq> [] \<and> (hd orig = CHR ''-'' \<or> hd orig = CHR ''+'') then tl orig else orig)
      in if s = ''0'' then Inr 0
         else if s = [] then Inl (''time: invalid duration '' @ go_quote orig)
         else (case duration_terms orig s 0 of
             Inl e \<Rightarrow> Inl e
           | Inr d \<Rightarrow>
               if neg then Inr (- int d)
               else if d > 2 ^ 63 - 1 then Inl (''time: invalid duration '' @ go_quote orig)
               else Inr (int d)))"

text \<open>What is parsed is a \<open>time.Duration\<close>: it fits 64 bits.\<close>

lemma duration_terms_bound: "duration_terms orig s d = Inr n \<Longrightarrow> d \<le> 2 ^ 63 \<Longrightarrow> n \<le> 2 ^ 63"
proof (induction orig s d rule: duration_terms.induct)
  case (1 orig s d)
  then show ?case
    by (subst (asm) duration_terms.simps [of orig s d])
       (auto simp: Let_def split: if_splits sum.splits prod.splits)
qed

lemma ParseDuration_int64: "ParseDuration s = Inr d \<Longrightarrow> is_int64 d"
  by (auto simp: ParseDuration_def is_int64_def Let_def split: if_splits sum.splits
      dest!: duration_terms_bound)

text \<open>A number followed by a unit is read as that many units, unless it overflows.\<close>

lemma takeWhile_unit:
  assumes "duration_unit u = Some k"
  shows "u \<noteq> []" "\<forall>c \<in> set u. \<not> number_char c"
  using assms by (auto simp: duration_unit_def is_digit_def split: if_splits)

lemma ParseDuration_digits:
  assumes "duration_unit u = Some k" "n * k < 2 ^ 63" and ds: "ds \<noteq> []" "list_all is_digit ds" "digits_value ds = n"
  shows "ParseDuration (ds @ u) = Inr (int (n * k))"
proof -
  note u = takeWhile_unit [OF assms(1)]
  obtain c cs where c: "ds = c # cs" "is_digit c" using ds by (cases ds) auto
  have k: "0 < k" using assms(1) by (auto simp: duration_unit_def split: if_splits)
  then have "n \<le> 2 ^ 63 div k" using assms(2) by (simp add: less_eq_div_iff_mult_less_eq)
  moreover have nle: "n \<le> n * k" using k by simp
  ultimately have bounds: "\<not> 2 ^ 63 < n" "\<not> 2 ^ 63 div k < n" "\<not> 2 ^ 63 < n * k" using assms(2) by linarith+
  have digits: "takeWhile is_digit (ds @ u) = ds" "dropWhile is_digit (ds @ u) = u"
    using ds u by (simp_all add: list_all_iff takeWhile_append dropWhile_append takeWhile_eq_Nil_iff)
  have unit: "takeWhile (\<lambda>c. c \<noteq> CHR ''.'' \<and> \<not> is_digit c) u = u" "dropWhile (\<lambda>c. c \<noteq> CHR ''.'' \<and> \<not> is_digit c) u = []" "hd u \<noteq> CHR ''.''"
    using u by auto
  have whole: "ds \<noteq> []" "is_digit (hd (ds @ u))" "digits_value (ds) = n" "digits_value [] = 0"
    using ds c by (simp_all add: digits_value_def)
  have "duration_term (ds @ u) (ds @ u) = Inr (n * k, [])"
    unfolding duration_term_def digits Let_def
    using whole u(1) bounds assms(1) by (simp add: unit)
  then have "duration_terms (ds @ u) (ds @ u) 0 = Inr (n * k)"
    using c assms(2) by (subst duration_terms.simps) (simp add: duration_terms.simps [of _ "[]"])
  moreover have "c \<noteq> CHR ''-''" "c \<noteq> CHR ''+''" using c(2) by (auto simp: is_digit_def)
  ultimately show ?thesis using c assms(2) u(1) by (simp add: ParseDuration_def Let_def)
qed

lemma ParseDuration_FormatUint:
  "duration_unit u = Some k \<Longrightarrow> n * k < 2 ^ 63 \<Longrightarrow> ParseDuration (FormatUint n @ u) = Inr (int (n * k))"
  using FormatUint_digits [of n] by (intro ParseDuration_digits) simp_all

end
