(* ===== verification/App_Config.thy ===== *)
theory App_Config
  imports Go_Parse
begin

section \<open>The configuration: \<open>config.go\<close>\<close>

text \<open>
  \<open>Load\<close> reads the environment into the record \<open>Config\<close>, parses the durations one after the other and
  returns the first that does not parse, and then validates the whole.  \<open>Validate\<close> collects the
  messages of all checks that fail; it is split here into the groups of its body, in their order.

  The record \<open>go_os\<close> holds what the process gets from outside: the environment, the files, the check of
  PEM data, and the parsers \<open>strconv.ParseFloat\<close> and \<open>net.ParseCIDR\<close>; a parsed network is the set of its
  addresses.  The theorems hold for every choice of them.
\<close>

record go_os =
  os_LookupEnv :: "string \<Rightarrow> string option"
  os_ReadFile :: "string \<Rightarrow> string option"
  os_AppendCertsFromPEM :: "string \<Rightarrow> bool"
  os_ParseFloat :: "string \<Rightarrow> float64 option"
  os_ParseCIDR :: "string \<Rightarrow> (ip \<Rightarrow> bool) option"

record Config =
  cf_Env :: string
  cf_HTTPPort :: string
  cf_DatabaseURL :: string
  cf_JWTIssuer :: string
  cf_JWTAudience :: string
  cf_JWTAccessSecret :: string
  cf_JWTRefreshSecret :: string
  cf_JWTAccessTTL :: duration
  cf_JWTRefreshTTL :: duration
  cf_RefreshTokenPepper :: string
  cf_StateSigningSecret :: string
  cf_CookieDomain :: string
  cf_CookieSecure :: bool
  cf_CookieSameSite :: string
  cf_CORSAllowedOrigins :: "string list"
  cf_GoogleClientID :: string
  cf_GoogleClientSecret :: string
  cf_GoogleRedirectURL :: string
  cf_AuthGoogleEnabled :: bool
  cf_AuthLocalEnabled :: bool
  cf_AuthLocalRequireEmailVerification :: bool
  cf_AuthEmailVerifyTokenTTL :: duration
  cf_AuthEmailVerifyBaseURL :: string
  cf_AuthPasswordResetTokenTTL :: duration
  cf_AuthPasswordResetBaseURL :: string
  cf_AuthPasswordForgotRateLimitPerMin :: int
  cf_RBACProtectedRoles :: "string list"
  cf_RBACProtectedPermissions :: "string list"
  cf_BootstrapAdminEmail :: string
  cf_AuthRateLimitPerMin :: int
  cf_APIRateLimitPerMin :: int
  cf_RateLimitLoginPerMin :: int
  cf_RateLimitRefreshPerMin :: int
  cf_RateLimitAdminWritePerMin :: int
  cf_RateLimitAdminSyncPerMin :: int
  cf_RateLimitBurstMultiplier :: float64
  cf_RateLimitSustainedWindow :: duration
  cf_RateLimitOutagePolicyAPI :: string
  cf_RateLimitOutagePolicyAuth :: string
  cf_RateLimitOutagePolicyForgot :: string
  cf_RateLimitOutagePolicyLogin :: string
  cf_RateLimitOutagePolicyRefresh :: string
  cf_RateLimitOutagePolicyAdminW :: string
  cf_RateLimitOutagePolicyAdminS :: string
  cf_AuthAbuseProtectionEnabled :: bool
  cf_AuthAbuseFreeAttempts :: int
  cf_AuthAbuseBaseDelay :: duration
  cf_AuthAbuseMultiplier :: float64
  cf_AuthAbuseMaxDelay :: duration
  cf_AuthAbuseResetWindow :: duration
  cf_AuthAbuseRedisPrefix :: string
  cf_BypassInternalProbes :: bool
  cf_BypassTrustedActors :: bool
  cf_BypassTrustedActorCIDRs :: "string list"
  cf_BypassTrustedActorSubjects :: "string list"
  cf_AdminListCacheEnabled :: bool
  cf_AdminListCacheTTL :: duration
  cf_AdminListCacheRedisPrefix :: string
  cf_NegativeLookupCacheEnabled :: bool
  cf_NegativeLookupCacheTTL :: duration
  cf_NegativeLookupCacheRedisPref :: string
  cf_RBACPermissionCacheEnabled :: bool
  cf_RBACPermissionCacheTTL :: duration
  cf_RBACPermissionCacheRedisPref :: string
  cf_FeatureFlagEvalCacheRedis :: bool
  cf_RateLimitRedisEnabled :: bool
  cf_IdempotencyEnabled :: bool
  cf_IdempotencyRedisEnabled :: bool
  cf_IdempotencyTTL :: duration
  cf_IdempotencyDBCleanupEnabled :: bool
  cf_IdempotencyDBCleanupInterval :: duration
  cf_IdempotencyDBCleanupBatch :: int
  cf_IdempotencyRedisPrefix :: string
  cf_RedisKeyNamespace :: string
  cf_RedisAddr :: string
  cf_RedisUsername :: string
  cf_RedisPassword :: string
  cf_RedisDB :: int
  cf_RedisTLSEnabled :: bool
  cf_RedisTLSServerName :: string
  cf_RedisTLSCACertFile :: string
  cf_RedisTLSInsecureSkipVerify :: bool
  cf_RedisDialTimeout :: duration
  cf_RedisReadTimeout :: duration
  cf_RedisWriteTimeout :: duration
  cf_RedisMaxRetries :: int
  cf_RedisMinRetryBackoff :: duration
  cf_RedisMaxRetryBackoff :: duration
  cf_RedisPoolSize :: int
  cf_RedisMinIdleConns :: int
  cf_RedisPoolTimeout :: duration
  cf_RateLimitRedisPrefix :: string
  cf_ReadinessProbeTimeout :: duration
  cf_ServerStartGracePeriod :: duration
  cf_ShutdownTimeout :: duration
  cf_ShutdownHTTPDrainTimeout :: duration
  cf_ShutdownObservabilityTimeout :: duration
  cf_OTELServiceName :: string
  cf_OTELEnvironment :: string
  cf_OTELExporterOTLPEndpoint :: string
  cf_OTELExporterOTLPInsecure :: bool
  cf_OTELMetricsExportInterval :: duration
  cf_OTELTraceSamplingRatio :: float64
  cf_OTELMetricsEnabled :: bool
  cf_OTELTracingEnabled :: bool
  cf_OTELLogsEnabled :: bool
  cf_OTELLogLevel :: string
  cf_MinIOEndpoint :: string
  cf_MinIOAccessKey :: string
  cf_MinIOSecretKey :: string
  cf_MinIOBucketName :: string
  cf_MinIOUseSSL :: bool

subsection \<open>Reading the environment\<close>

definition Getenv :: "go_os \<Rightarrow> string \<Rightarrow> string" where
  "Getenv os key = (case os_LookupEnv os key of None \<Rightarrow> [] | Some v \<Rightarrow> v)"

definition getEnv :: "go_os \<Rightarrow> string \<Rightarrow> string \<Rightarrow> string" where
  "getEnv os key dflt = (let v = Getenv os key in if v = [] then dflt else v)"

definition getEnvBool :: "go_os \<Rightarrow> string \<Rightarrow> bool \<Rightarrow> bool" where
  "getEnvBool os key dflt =
     (let v = Getenv os key in
      if v = [] then dflt else (case ParseBool v of None \<Rightarrow> dflt | Some b \<Rightarrow> b))"

definition getEnvInt :: "go_os \<Rightarrow> string \<Rightarrow> int \<Rightarrow> int" where
  "getEnvInt os key dflt =
     (let v = Getenv os key in
      if v = [] then dflt else (case Atoi v of None \<Rightarrow> dflt | Some n \<Rightarrow> n))"

definition getEnvFloat :: "go_os \<Rightarrow> string \<Rightarrow> float64 \<Rightarrow> float64" where
  "getEnvFloat os key dflt =
     (let v = Getenv os key in
      if v = [] then dflt else (case os_ParseFloat os v of None \<Rightarrow> dflt | Some f \<Rightarrow> f))"

definition splitCSV :: "string \<Rightarrow> string list" where
  "splitCSV v = filter (\<lambda>trim. trim \<noteq> []) (map TrimSpace (Split v (CHR '','')))"

subsection \<open>Predicates on values\<close>

definition redisNamespacePattern :: "string \<Rightarrow> bool" where
  "redisNamespacePattern s \<longleftrightarrow>
     (case s of [] \<Rightarrow> False
      | c # cs \<Rightarrow> alphanumeric c \<and> list_all (\<lambda>x. alphanumeric x \<or> x = CHR ''_'' \<or> x = CHR ''-'') cs)"

definition isLocalLikeEnv :: "string \<Rightarrow> bool" where
  "isLocalLikeEnv env \<longleftrightarrow> ToLower (TrimSpace env) \<in> {''development'', ''dev'', ''local'', ''test''}"

definition isValidLogLevel :: "string \<Rightarrow> bool" where
  "isValidLogLevel v \<longleftrightarrow> ToLower v \<in> {''debug'', ''info'', ''warn'', ''error''}"

definition isValidRateLimitOutagePolicy :: "string \<Rightarrow> bool" where
  "isValidRateLimitOutagePolicy v \<longleftrightarrow> ToLower (TrimSpace v) \<in> {[], ''fail_open'', ''fail_closed''}"

definition stringFailOpen :: string where
  "stringFailOpen = ''fail_open''"

definition isProdLike :: "Config \<Rightarrow> bool" where
  "isProdLike c \<longleftrightarrow> ToLower (TrimSpace (cf_Env c)) \<in> {''production'', ''prod'', ''staging'', ''stage'', ''preprod''}"

definition isLoopbackAddr :: "string \<Rightarrow> bool" where
  "isLoopbackAddr addr0 =
     (let addr = TrimSpace (ToLower addr0)
      in HasPrefix addr ''localhost:'' \<or> HasPrefix addr ''127.0.0.1:'' \<or> HasPrefix addr ''0.0.0.0:'')"

definition looksPlaceholder :: "string \<Rightarrow> bool" where
  "looksPlaceholder v0 =
     (let v = ToLower (TrimSpace v0)
      in Contains v ''replace-with'' \<or> Contains v ''changeme'' \<or> Contains v ''example'')"

definition resource_action_token :: "string \<Rightarrow> bool" where
  "resource_action_token token =
     (case split_colon (TrimSpace token) of
        None \<Rightarrow> False
      | Some (resource, action) \<Rightarrow> TrimSpace resource \<noteq> [] \<and> TrimSpace action \<noteq> [])"

definition redisRequired :: "Config \<Rightarrow> bool" where
  "redisRequired c \<longleftrightarrow> cf_RateLimitRedisEnabled c \<or> cf_AuthAbuseProtectionEnabled c \<or>
     (cf_IdempotencyEnabled c \<and> cf_IdempotencyRedisEnabled c) \<or> cf_AdminListCacheEnabled c \<or>
     cf_NegativeLookupCacheEnabled c \<or> cf_RBACPermissionCacheEnabled c \<or> cf_FeatureFlagEvalCacheRedis c"

subsection \<open>\<open>Validate\<close>\<close>

definition check :: "bool \<Rightarrow> string \<Rightarrow> string list" where
  "check failed msg = (if failed then [msg] else [])"

lemma check_Nil [simp]: "check b msg = [] \<longleftrightarrow> \<not> b"
  by (simp add: check_def)

definition Validate_auth :: "Config \<Rightarrow> string list" where
  "Validate_auth c =
     check (cf_DatabaseURL c = []) ''DATABASE_URL is required'' @
     check (length (cf_JWTAccessSecret c) < 32) ''JWT_ACCESS_SECRET must be at least 32 chars'' @
     check (length (cf_JWTRefreshSecret c) < 32) ''JWT_REFRESH_SECRET must be at least 32 chars'' @
     check (cf_JWTAccessSecret c = cf_JWTRefreshSecret c) ''JWT_ACCESS_SECRET and JWT_REFRESH_SECRET must differ'' @
     check (length (cf_RefreshTokenPepper c) < 16) ''REFRESH_TOKEN_PEPPER must be at least 16 chars'' @
     check (length (cf_StateSigningSecret c) < 16) ''OAUTH_STATE_SECRET must be at least 16 chars'' @
     check (\<not> cf_AuthLocalEnabled c \<and> \<not> cf_AuthGoogleEnabled c)
       ''at least one auth provider must be enabled'' @
     check (cf_AuthGoogleEnabled c \<and> cf_GoogleClientID c = [])
       ''GOOGLE_OAUTH_CLIENT_ID is required when AUTH_GOOGLE_ENABLED=true'' @
     check (cf_AuthGoogleEnabled c \<and> cf_GoogleClientSecret c = [])
       ''GOOGLE_OAUTH_CLIENT_SECRET is required when AUTH_GOOGLE_ENABLED=true'' @
     check (cf_AuthLocalRequireEmailVerification c \<and> \<not> cf_AuthLocalEnabled c)
       ''AUTH_LOCAL_REQUIRE_EMAIL_VERIFICATION requires AUTH_LOCAL_ENABLED=true'' @
     check (cf_AuthEmailVerifyTokenTTL c \<le> 0 \<or> cf_AuthEmailVerifyTokenTTL c > minutes 1440)
       ''AUTH_EMAIL_VERIFY_TOKEN_TTL must be between 1s and 24h'' @
     check (cf_AuthPasswordResetTokenTTL c \<le> 0 \<or> cf_AuthPasswordResetTokenTTL c > minutes 1440)
       ''AUTH_PASSWORD_RESET_TOKEN_TTL must be between 1s and 24h'' @
     check (cf_AuthPasswordForgotRateLimitPerMin c \<le> 0)
       ''AUTH_PASSWORD_FORGOT_RATE_LIMIT_PER_MIN must be > 0'' @
     check (\<exists>token \<in> set (cf_RBACProtectedPermissions c). \<not> resource_action_token token)
       ''RBAC_PROTECTED_PERMISSIONS entries must use resource:action format''"

definition Validate_limits :: "Config \<Rightarrow> string list" where
  "Validate_limits c =
     check (cf_JWTAccessTTL c \<le> 0 \<or> cf_JWTAccessTTL c > minutes 60)
       ''JWT_ACCESS_TTL must be between 1s and 1h'' @
     check (cf_JWTRefreshTTL c \<le> 0 \<or> cf_JWTRefreshTTL c > minutes 43200)
       ''JWT_REFRESH_TTL must be between 1s and 30d'' @
     check (cf_AuthRateLimitPerMin c \<le> 0) ''AUTH_RATE_LIMIT_PER_MIN must be > 0'' @
     check (cf_APIRateLimitPerMin c \<le> 0) ''API_RATE_LIMIT_PER_MIN must be > 0'' @
     check (cf_RateLimitLoginPerMin c \<le> 0) ''RATE_LIMIT_LOGIN_PER_MIN must be > 0'' @
     check (cf_RateLimitRefreshPerMin c \<le> 0) ''RATE_LIMIT_REFRESH_PER_MIN must be > 0'' @
     check (cf_RateLimitAdminWritePerMin c \<le> 0) ''RATE_LIMIT_ADMIN_WRITE_PER_MIN must be > 0'' @
     check (cf_RateLimitAdminSyncPerMin c \<le> 0) ''RATE_LIMIT_ADMIN_SYNC_PER_MIN must be > 0'' @
     check (float_less (cf_RateLimitBurstMultiplier c) (Fin 1) \<or> float_less (Fin 10) (cf_RateLimitBurstMultiplier c))
       ''RATE_LIMIT_BURST_MULTIPLIER must be between 1 and 10'' @
     check (cf_RateLimitSustainedWindow c < seconds 1 \<or> cf_RateLimitSustainedWindow c > minutes 15)
       ''RATE_LIMIT_SUSTAINED_WINDOW must be between 1s and 15m'' @
     check (\<not> isValidRateLimitOutagePolicy (cf_RateLimitOutagePolicyAPI c))
       ''RATE_LIMIT_REDIS_OUTAGE_POLICY_API must be fail_open or fail_closed'' @
     check (\<not> isValidRateLimitOutagePolicy (cf_RateLimitOutagePolicyAuth c))
       ''RATE_LIMIT_REDIS_OUTAGE_POLICY_AUTH must be fail_open or fail_closed'' @
     check (\<not> isValidRateLimitOutagePolicy (cf_RateLimitOutagePolicyForgot c))
       ''RATE_LIMIT_REDIS_OUTAGE_POLICY_FORGOT must be fail_open or fail_closed'' @
     check (\<not> isValidRateLimitOutagePolicy (cf_RateLimitOutagePolicyLogin c))
       ''RATE_LIMIT_REDIS_OUTAGE_POLICY_ROUTE_LOGIN must be fail_open or fail_closed'' @
     check (\<not> isValidRateLimitOutagePolicy (cf_RateLimitOutagePolicyRefresh c))
       ''RATE_LIMIT_REDIS_OUTAGE_POLICY_ROUTE_REFRESH must be fail_open or fail_closed'' @
     check (\<not> isValidRateLimitOutagePolicy (cf_RateLimitOutagePolicyAdminW c))
       ''RATE_LIMIT_REDIS_OUTAGE_POLICY_ROUTE_ADMIN_WRITE must be fail_open or fail_closed'' @
     check (\<not> isValidRateLimitOutagePolicy (cf_RateLimitOutagePolicyAdminS c))
       ''RATE_LIMIT_REDIS_OUTAGE_POLICY_ROUTE_ADMIN_SYNC must be fail_open or fail_closed''"

definition Validate_abuse :: "go_os \<Rightarrow> Config \<Rightarrow> string list" where
  "Validate_abuse os c =
     check (cf_AuthAbuseFreeAttempts c < 0 \<or> cf_AuthAbuseFreeAttempts c > 20)
       ''AUTH_ABUSE_FREE_ATTEMPTS must be between 0 and 20'' @
     check (cf_AuthAbuseBaseDelay c < seconds 1 \<or> cf_AuthAbuseBaseDelay c > minutes 1)
       ''AUTH_ABUSE_BASE_DELAY must be between 1s and 1m'' @
     check (float_less (cf_AuthAbuseMultiplier c) (Fin 1) \<or> float_less (Fin 10) (cf_AuthAbuseMultiplier c))
       ''AUTH_ABUSE_MULTIPLIER must be between 1 and 10'' @
     check (cf_AuthAbuseMaxDelay c < cf_AuthAbuseBaseDelay c \<or> cf_AuthAbuseMaxDelay c > minutes 60)
       ''AUTH_ABUSE_MAX_DELAY must be >= AUTH_ABUSE_BASE_DELAY and <= 1h'' @
     check (cf_AuthAbuseResetWindow c < minutes 1 \<or> cf_AuthAbuseResetWindow c > minutes 1440)
       ''AUTH_ABUSE_RESET_WINDOW must be between 1m and 24h'' @
     check (\<exists>cidr \<in> set (cf_BypassTrustedActorCIDRs c). os_ParseCIDR os (TrimSpace cidr) = None)
       ''AUTH_BYPASS_TRUSTED_ACTOR_CIDRS must contain valid CIDR values'' @
     check (cf_BypassTrustedActors c \<and> cf_BypassTrustedActorCIDRs c = [] \<and> cf_BypassTrustedActorSubjects c = [])
       ''AUTH_BYPASS_TRUSTED_ACTORS requires AUTH_BYPASS_TRUSTED_ACTOR_CIDRS or AUTH_BYPASS_TRUSTED_ACTOR_SUBJECTS''"

definition Validate_caches :: "Config \<Rightarrow> string list" where
  "Validate_caches c =
     check (cf_AdminListCacheEnabled c \<and> (cf_AdminListCacheTTL c \<le> 0 \<or> cf_AdminListCacheTTL c > minutes 10))
       ''ADMIN_LIST_CACHE_TTL must be between 1s and 10m when admin list cache is enabled'' @
     check (cf_NegativeLookupCacheEnabled c \<and> (cf_NegativeLookupCacheTTL c \<le> 0 \<or> cf_NegativeLookupCacheTTL c > minutes 1))
       ''NEGATIVE_LOOKUP_CACHE_TTL must be between 1s and 1m when negative lookup cache is enabled'' @
     check (cf_RBACPermissionCacheEnabled c \<and> (cf_RBACPermissionCacheTTL c \<le> 0 \<or> cf_RBACPermissionCacheTTL c > minutes 30))
       ''RBAC_PERMISSION_CACHE_TTL must be between 1s and 30m when rbac permission cache is enabled'' @
     check (cf_IdempotencyTTL c \<le> 0 \<or> cf_IdempotencyTTL c > minutes 10080)
       ''IDEMPOTENCY_TTL must be between 1s and 168h'' @
     (if cf_IdempotencyEnabled c \<and> \<not> cf_IdempotencyRedisEnabled c \<and> cf_IdempotencyDBCleanupEnabled c then
       check (cf_IdempotencyDBCleanupInterval c < seconds 1 \<or> cf_IdempotencyDBCleanupInterval c > minutes 60)
         ''IDEMPOTENCY_DB_CLEANUP_INTERVAL must be between 1s and 1h'' @
       check (cf_IdempotencyDBCleanupBatch c < 1 \<or> cf_IdempotencyDBCleanupBatch c > 10000)
       ''IDEMPOTENCY_DB_CLEANUP_BATCH_SIZE must be between 1 and 10000'' else []) @
     check (TrimSpace (cf_RedisKeyNamespace c) \<noteq> [] \<and> \<not> redisNamespacePattern (TrimSpace (cf_RedisKeyNamespace c)))
       ''REDIS_KEY_NAMESPACE must match ^[a-zA-Z0-9][a-zA-Z0-9_-]*$'' @
     check (redisRequired c \<and> TrimSpace (cf_RedisAddr c) = [])
       ''REDIS_ADDR is required when Redis-backed features are enabled''"

definition Validate_redis :: "go_os \<Rightarrow> Config \<Rightarrow> string list" where
  "Validate_redis os c =
     (if \<not> cf_RedisTLSEnabled c then
       check (cf_RedisTLSServerName c \<noteq> []) ''REDIS_TLS_SERVER_NAME requires REDIS_TLS_ENABLED=true'' @
       check (cf_RedisTLSCACertFile c \<noteq> []) ''REDIS_TLS_CA_CERT_FILE requires REDIS_TLS_ENABLED=true'' @
       check (cf_RedisTLSInsecureSkipVerify c) ''REDIS_TLS_INSECURE_SKIP_VERIFY requires REDIS_TLS_ENABLED=true'' else []) @
     (if cf_RedisTLSCACertFile c \<noteq> [] then
       (case os_ReadFile os (cf_RedisTLSCACertFile c) of
          None \<Rightarrow> [''REDIS_TLS_CA_CERT_FILE must be readable'']
        | Some pemBytes \<Rightarrow> check (\<not> os_AppendCertsFromPEM os pemBytes) ''REDIS_TLS_CA_CERT_FILE must contain valid PEM certificates'')
      else []) @
     check (cf_RedisDialTimeout c < milliseconds 100 \<or> cf_RedisDialTimeout c > seconds 30)
       ''REDIS_DIAL_TIMEOUT must be between 100ms and 30s'' @
     check (cf_RedisReadTimeout c < milliseconds 100 \<or> cf_RedisReadTimeout c > seconds 30)
       ''REDIS_READ_TIMEOUT must be between 100ms and 30s'' @
     check (cf_RedisWriteTimeout c < milliseconds 100 \<or> cf_RedisWriteTimeout c > seconds 30)
       ''REDIS_WRITE_TIMEOUT must be between 100ms and 30s'' @
     check (cf_RedisMaxRetries c < (- 1) \<or> cf_RedisMaxRetries c > 20)
       ''REDIS_MAX_RETRIES must be between -1 and 20'' @
     check (cf_RedisMinRetryBackoff c < 0 \<or> cf_RedisMinRetryBackoff c > seconds 5)
       ''REDIS_MIN_RETRY_BACKOFF must be between 0 and 5s'' @
     check (cf_RedisMaxRetryBackoff c < cf_RedisMinRetryBackoff c \<or> cf_RedisMaxRetryBackoff c > seconds 30)
       ''REDIS_MAX_RETRY_BACKOFF must be >= REDIS_MIN_RETRY_BACKOFF and <= 30s'' @
     check (cf_RedisPoolSize c \<le> 0 \<or> cf_RedisPoolSize c > 1000)
       ''REDIS_POOL_SIZE must be between 1 and 1000'' @
     check (cf_RedisMinIdleConns c < 0 \<or> cf_RedisMinIdleConns c > cf_RedisPoolSize c)
       ''REDIS_MIN_IDLE_CONNS must be between 0 and REDIS_POOL_SIZE'' @
     check (cf_RedisPoolTimeout c < milliseconds 100 \<or> cf_RedisPoolTimeout c > seconds 30)
       ''REDIS_POOL_TIMEOUT must be between 100ms and 30s''"

definition Validate_runtime :: "Config \<Rightarrow> string list" where
  "Validate_runtime c =
     check (cf_ReadinessProbeTimeout c \<le> 0) ''READINESS_PROBE_TIMEOUT must be > 0'' @
     check (cf_ShutdownTimeout c \<le> 0) ''SHUTDOWN_TIMEOUT must be > 0'' @
     check (cf_ShutdownHTTPDrainTimeout c \<le> 0) ''SHUTDOWN_HTTP_DRAIN_TIMEOUT must be > 0'' @
     check (cf_ShutdownObservabilityTimeout c \<le> 0) ''SHUTDOWN_OBSERVABILITY_TIMEOUT must be > 0'' @
     check (cf_ShutdownHTTPDrainTimeout c > cf_ShutdownTimeout c)
       ''SHUTDOWN_HTTP_DRAIN_TIMEOUT must be <= SHUTDOWN_TIMEOUT'' @
     check (cf_ShutdownObservabilityTimeout c > cf_ShutdownTimeout c)
       ''SHUTDOWN_OBSERVABILITY_TIMEOUT must be <= SHUTDOWN_TIMEOUT'' @
     check ((cf_OTELMetricsEnabled c \<or> cf_OTELTracingEnabled c \<or> cf_OTELLogsEnabled c) \<and> cf_OTELExporterOTLPEndpoint c = [])
       ''OTEL_EXPORTER_OTLP_ENDPOINT is required when OTel is enabled'' @
     check (float_less (cf_OTELTraceSamplingRatio c) (Fin 0) \<or> float_less (Fin 1) (cf_OTELTraceSamplingRatio c))
       ''OTEL_TRACE_SAMPLING_RATIO must be between 0 and 1'' @
     check (cf_OTELMetricsExportInterval c \<le> 0) ''OTEL_METRICS_EXPORT_INTERVAL must be > 0'' @
     check (\<not> isValidLogLevel (cf_OTELLogLevel c)) ''OTEL_LOG_LEVEL must be one of debug, info, warn, error''"

text \<open>The constant 0.2 is the \<open>float64\<close> next to it, a little above one fifth.\<close>

definition Validate_production :: "Config \<Rightarrow> string list" where
  "Validate_production c = (if isProdLike c then
     check (\<not> cf_CookieSecure c) ''COOKIE_SECURE must be true in production/staging'' @
     check (cf_CookieSameSite c \<notin> {''lax'', ''strict''})
       ''COOKIE_SAMESITE must be lax or strict in production/staging'' @
     check (\<not> cf_RateLimitRedisEnabled c) ''RATE_LIMIT_REDIS_ENABLED must be true in production/staging'' @
     check (isLoopbackAddr (cf_RedisAddr c)) ''REDIS_ADDR must not be loopback in production/staging'' @
     check (float_less (Fin (3602879701896397 / 18014398509481984)) (cf_OTELTraceSamplingRatio c))
       ''OTEL_TRACE_SAMPLING_RATIO must be <= 0.2 in production/staging'' @
     check (looksPlaceholder (cf_JWTAccessSecret c) \<or> looksPlaceholder (cf_JWTRefreshSecret c) \<or>
            looksPlaceholder (cf_RefreshTokenPepper c) \<or> looksPlaceholder (cf_StateSigningSecret c))
       ''secrets must not use placeholder values in production/staging'' @
     check (EqualFold (cf_RateLimitOutagePolicyAuth c) stringFailOpen)
       ''RATE_LIMIT_REDIS_OUTAGE_POLICY_AUTH must be fail_closed in production/staging'' @
     check (EqualFold (cf_RateLimitOutagePolicyForgot c) stringFailOpen)
       ''RATE_LIMIT_REDIS_OUTAGE_POLICY_FORGOT must be fail_closed in production/staging'' @
     check (EqualFold (cf_RateLimitOutagePolicyLogin c) stringFailOpen)
       ''RATE_LIMIT_REDIS_OUTAGE_POLICY_ROUTE_LOGIN must be fail_closed in production/staging'' @
     check (EqualFold (cf_RateLimitOutagePolicyAdminW c) stringFailOpen)
       ''RATE_LIMIT_REDIS_OUTAGE_POLICY_ROUTE_ADMIN_WRITE must be fail_closed in production/staging'' @
     check (EqualFold (cf_RateLimitOutagePolicyAdminS c) stringFailOpen)
       ''RATE_LIMIT_REDIS_OUTAGE_POLICY_ROUTE_ADMIN_SYNC must be fail_closed in production/staging'' @
     check (TrimSpace (cf_MinIOEndpoint c) = []) ''MINIO_ENDPOINT is required in production/staging'' @
     check (TrimSpace (cf_MinIOBucketName c) = []) ''MINIO_BUCKET_NAME is required in production/staging'' @
     check (TrimSpace (cf_MinIOAccessKey c) = []) ''MINIO_ACCESS_KEY is required in production/staging'' @
     check (TrimSpace (cf_MinIOSecretKey c) = []) ''MINIO_SECRET_KEY is required in production/staging'' @
     check (\<not> cf_MinIOUseSSL c) ''MINIO_USE_SSL must be true in production/staging''
   else [])"

definition Validate_remote_redis :: "Config \<Rightarrow> string list" where
  "Validate_remote_redis c = (if redisRequired c \<and> \<not> isLocalLikeEnv (cf_Env c) then
     check (TrimSpace (cf_RedisUsername c) = [])
       ''REDIS_USERNAME is required in non-local environments when Redis-backed features are enabled'' @
     check (TrimSpace (cf_RedisPassword c) = [])
       ''REDIS_PASSWORD is required in non-local environments when Redis-backed features are enabled'' @
     check (\<not> cf_RedisTLSEnabled c)
       ''REDIS_TLS_ENABLED must be true in non-local environments when Redis-backed features are enabled'' @
     check (TrimSpace (cf_RedisTLSServerName c) = [])
       ''REDIS_TLS_SERVER_NAME is required in non-local environments when REDIS_TLS_ENABLED=true'' @
     check (cf_RedisTLSInsecureSkipVerify c)
       ''REDIS_TLS_INSECURE_SKIP_VERIFY must be false in non-local environments''
   else [])"

definition Validate_errs :: "go_os \<Rightarrow> Config \<Rightarrow> string list" where
  "Validate_errs os c =
     Validate_auth c @ Validate_limits c @ Validate_abuse os c @ Validate_caches c @ Validate_redis os c @
     Validate_runtime c @ Validate_production c @ Validate_remote_redis c"

definition Config_Validate :: "go_os \<Rightarrow> Config \<Rightarrow> unit result" where
  "Config_Validate os c =
     (let errs = Validate_errs os c in if errs \<noteq> [] then Inl (Errorf (Join errs ''; '')) else Inr ())"

subsection \<open>\<open>Load\<close>\<close>

definition Load_googleEnabled :: "go_os \<Rightarrow> string \<Rightarrow> string \<Rightarrow> string \<Rightarrow> bool" where
  "Load_googleEnabled os env googleClientID googleClientSecret =
     (if os_LookupEnv os ''AUTH_GOOGLE_ENABLED'' = None \<and> (googleClientID = [] \<or> googleClientSecret = [])
         \<and> isLocalLikeEnv env
      then False else getEnvBool os ''AUTH_GOOGLE_ENABLED'' True)"

text \<open>The fields that \<open>Load\<close> fills in the literal; the durations have their zero values there.\<close>

definition Load_values :: "go_os \<Rightarrow> Config" where
  "Load_values os =
     (let env = getEnv os ''APP_ENV'' ''development''; googleClientID = Getenv os ''GOOGLE_OAUTH_CLIENT_ID''; googleClientSecret = Getenv os ''GOOGLE_OAUTH_CLIENT_SECRET'';
          googleEnabled = Load_googleEnabled os env googleClientID googleClientSecret
      in \<lparr>cf_Env = env,
          cf_HTTPPort = getEnv os ''HTTP_PORT'' ''8080'',
          cf_DatabaseURL = Getenv os ''DATABASE_URL'',
          cf_JWTIssuer = getEnv os ''JWT_ISSUER'' ''everything-backend-starter-kit'',
          cf_JWTAudience = getEnv os ''JWT_AUDIENCE'' ''everything-backend-starter-kit-api'',
          cf_JWTAccessSecret = Getenv os ''JWT_ACCESS_SECRET'',
          cf_JWTRefreshSecret = Getenv os ''JWT_REFRESH_SECRET'',
          cf_JWTAccessTTL = 0,
          cf_JWTRefreshTTL = 0,
          cf_RefreshTokenPepper = Getenv os ''REFRESH_TOKEN_PEPPER'',
          cf_StateSigningSecret = Getenv os ''OAUTH_STATE_SECRET'',
          cf_CookieDomain = Getenv os ''COOKIE_DOMAIN'',
          cf_CookieSecure = getEnvBool os ''COOKIE_SECURE'' True,
          cf_CookieSameSite = ToLower (getEnv os ''COOKIE_SAMESITE'' ''lax''),
          cf_CORSAllowedOrigins = splitCSV (getEnv os ''CORS_ALLOWED_ORIGINS'' ''http://localhost:3000''),
          cf_GoogleClientID = googleClientID,
          cf_GoogleClientSecret = googleClientSecret,
          cf_GoogleRedirectURL = getEnv os ''GOOGLE_OAUTH_REDIRECT_URL'' ''http://localhost:8080/api/v1/auth/google/callback'',
          cf_AuthGoogleEnabled = googleEnabled,
          cf_AuthLocalEnabled = getEnvBool os ''AUTH_LOCAL_ENABLED'' True,
          cf_AuthLocalRequireEmailVerification = getEnvBool os ''AUTH_LOCAL_REQUIRE_EMAIL_VERIFICATION'' False,
          cf_AuthEmailVerifyTokenTTL = 0,
          cf_AuthEmailVerifyBaseURL = TrimSpace (Getenv os ''AUTH_EMAIL_VERIFY_BASE_URL''),
          cf_AuthPasswordResetTokenTTL = 0,
          cf_AuthPasswordResetBaseURL = TrimSpace (Getenv os ''AUTH_PASSWORD_RESET_BASE_URL''),
          cf_AuthPasswordForgotRateLimitPerMin = getEnvInt os ''AUTH_PASSWORD_FORGOT_RATE_LIMIT_PER_MIN'' 5,
          cf_RBACProtectedRoles = splitCSV (getEnv os ''RBAC_PROTECTED_ROLES'' ''admin,user''),
          cf_RBACProtectedPermissions = splitCSV (getEnv os ''RBAC_PROTECTED_PERMISSIONS'' ''users:read,users:write,roles:read,roles:write,permissions:read,permissions:write''),
          cf_BootstrapAdminEmail = TrimSpace (ToLower (Getenv os ''BOOTSTRAP_ADMIN_EMAIL'')),
          cf_AuthRateLimitPerMin = getEnvInt os ''AUTH_RATE_LIMIT_PER_MIN'' 30,
          cf_APIRateLimitPerMin = getEnvInt os ''API_RATE_LIMIT_PER_MIN'' 120,
          cf_RateLimitLoginPerMin = getEnvInt os ''RATE_LIMIT_LOGIN_PER_MIN'' 20,
          cf_RateLimitRefreshPerMin = getEnvInt os ''RATE_LIMIT_REFRESH_PER_MIN'' 30,
          cf_RateLimitAdminWritePerMin = getEnvInt os ''RATE_LIMIT_ADMIN_WRITE_PER_MIN'' 30,
          cf_RateLimitAdminSyncPerMin = getEnvInt os ''RATE_LIMIT_ADMIN_SYNC_PER_MIN'' 10,
          cf_RateLimitBurstMultiplier = getEnvFloat os ''RATE_LIMIT_BURST_MULTIPLIER'' (Fin (3/2)),
          cf_RateLimitSustainedWindow = 0,
          cf_RateLimitOutagePolicyAPI = ToLower (TrimSpace (getEnv os ''RATE_LIMIT_REDIS_OUTAGE_POLICY_API'' ''fail_open'')),
          cf_RateLimitOutagePolicyAuth = ToLower (TrimSpace (getEnv os ''RATE_LIMIT_REDIS_OUTAGE_POLICY_AUTH'' ''fail_closed'')),
          cf_RateLimitOutagePolicyForgot = ToLower (TrimSpace (getEnv os ''RATE_LIMIT_REDIS_OUTAGE_POLICY_FORGOT'' ''fail_closed'')),
          cf_RateLimitOutagePolicyLogin = ToLower (TrimSpace (getEnv os ''RATE_LIMIT_REDIS_OUTAGE_POLICY_ROUTE_LOGIN'' ''fail_closed'')),
          cf_RateLimitOutagePolicyRefresh = ToLower (TrimSpace (getEnv os ''RATE_LIMIT_REDIS_OUTAGE_POLICY_ROUTE_REFRESH'' ''fail_closed'')),
          cf_RateLimitOutagePolicyAdminW = ToLower (TrimSpace (getEnv os ''RATE_LIMIT_REDIS_OUTAGE_POLICY_ROUTE_ADMIN_WRITE'' ''fail_closed'')),
          cf_RateLimitOutagePolicyAdminS = ToLower (TrimSpace (getEnv os ''RATE_LIMIT_REDIS_OUTAGE_POLICY_ROUTE_ADMIN_SYNC'' ''fail_closed'')),
          cf_AuthAbuseProtectionEnabled = getEnvBool os ''AUTH_ABUSE_PROTECTION_ENABLED'' True,
          cf_AuthAbuseFreeAttempts = getEnvInt os ''AUTH_ABUSE_FREE_ATTEMPTS'' 3,
          cf_AuthAbuseBaseDelay = 0,
          cf_AuthAbuseMultiplier = getEnvFloat os ''AUTH_ABUSE_MULTIPLIER'' (Fin 2),
          cf_AuthAbuseMaxDelay = 0,
          cf_AuthAbuseResetWindow = 0,
          cf_AuthAbuseRedisPrefix = getEnv os ''AUTH_ABUSE_REDIS_PREFIX'' ''auth_abuse'',
          cf_BypassInternalProbes = getEnvBool os ''AUTH_BYPASS_INTERNAL_PROBES'' True,
          cf_BypassTrustedActors = getEnvBool os ''AUTH_BYPASS_TRUSTED_ACTORS'' False,
          cf_BypassTrustedActorCIDRs = splitCSV (getEnv os ''AUTH_BYPASS_TRUSTED_ACTOR_CIDRS'' []),
          cf_BypassTrustedActorSubjects = splitCSV (getEnv os ''AUTH_BYPASS_TRUSTED_ACTOR_SUBJECTS'' []),
          cf_AdminListCacheEnabled = getEnvBool os ''ADMIN_LIST_CACHE_ENABLED'' True,
          cf_AdminListCacheTTL = 0,
          cf_AdminListCacheRedisPrefix = getEnv os ''ADMIN_LIST_CACHE_REDIS_PREFIX'' ''admin_list_cache'',
          cf_NegativeLookupCacheEnabled = getEnvBool os ''NEGATIVE_LOOKUP_CACHE_ENABLED'' True,
          cf_NegativeLookupCacheTTL = 0,
          cf_NegativeLookupCacheRedisPref = getEnv os ''NEGATIVE_LOOKUP_CACHE_REDIS_PREFIX'' ''negative_lookup_cache'',
          cf_RBACPermissionCacheEnabled = getEnvBool os ''RBAC_PERMISSION_CACHE_ENABLED'' True,
          cf_RBACPermissionCacheTTL = 0,
          cf_RBACPermissionCacheRedisPref = getEnv os ''RBAC_PERMISSION_CACHE_REDIS_PREFIX'' ''rbac_perm'',
          cf_FeatureFlagEvalCacheRedis = getEnvBool os ''FEATURE_FLAG_EVAL_CACHE_REDIS_ENABLED'' True,
          cf_RateLimitRedisEnabled = getEnvBool os ''RATE_LIMIT_REDIS_ENABLED'' True,
          cf_IdempotencyEnabled = getEnvBool os ''IDEMPOTENCY_ENABLED'' True,
          cf_IdempotencyRedisEnabled = getEnvBool os ''IDEMPOTENCY_REDIS_ENABLED'' True,
          cf_IdempotencyTTL = 0,
          cf_IdempotencyDBCleanupEnabled = getEnvBool os ''IDEMPOTENCY_DB_CLEANUP_ENABLED'' True,
          cf_IdempotencyDBCleanupInterval = 0,
          cf_IdempotencyDBCleanupBatch = getEnvInt os ''IDEMPOTENCY_DB_CLEANUP_BATCH_SIZE'' 500,
          cf_IdempotencyRedisPrefix = getEnv os ''IDEMPOTENCY_REDIS_PREFIX'' ''idem'',
          cf_RedisKeyNamespace = getEnv os ''REDIS_KEY_NAMESPACE'' ''v1'',
          cf_RedisAddr = getEnv os ''REDIS_ADDR'' ''localhost:6379'',
          cf_RedisUsername = TrimSpace (Getenv os ''REDIS_USERNAME''),
          cf_RedisPassword = Getenv os ''REDIS_PASSWORD'',
          cf_RedisDB = getEnvInt os ''REDIS_DB'' 0,
          cf_RedisTLSEnabled = getEnvBool os ''REDIS_TLS_ENABLED'' False,
          cf_RedisTLSServerName = TrimSpace (Getenv os ''REDIS_TLS_SERVER_NAME''),
          cf_RedisTLSCACertFile = TrimSpace (Getenv os ''REDIS_TLS_CA_CERT_FILE''),
          cf_RedisTLSInsecureSkipVerify = getEnvBool os ''REDIS_TLS_INSECURE_SKIP_VERIFY'' False,
          cf_RedisDialTimeout = 0,
          cf_RedisReadTimeout = 0,
          cf_RedisWriteTimeout = 0,
          cf_RedisMaxRetries = getEnvInt os ''REDIS_MAX_RETRIES'' 3,
          cf_RedisMinRetryBackoff = 0,
          cf_RedisMaxRetryBackoff = 0,
          cf_RedisPoolSize = getEnvInt os ''REDIS_POOL_SIZE'' 10,
          cf_RedisMinIdleConns = getEnvInt os ''REDIS_MIN_IDLE_CONNS'' 2,
          cf_RedisPoolTimeout = 0,
          cf_RateLimitRedisPrefix = getEnv os ''RATE_LIMIT_REDIS_PREFIX'' ''rl'',
          cf_ReadinessProbeTimeout = 0,
          cf_ServerStartGracePeriod = 0,
          cf_ShutdownTimeout = 0,
          cf_ShutdownHTTPDrainTimeout = 0,
          cf_ShutdownObservabilityTimeout = 0,
          cf_OTELServiceName = getEnv os ''OTEL_SERVICE_NAME'' ''everything-backend-starter-kit'',
          cf_OTELEnvironment = getEnv os ''OTEL_ENVIRONMENT'' env,
          cf_OTELExporterOTLPEndpoint = getEnv os ''OTEL_EXPORTER_OTLP_ENDPOINT'' ''localhost:4317'',
          cf_OTELExporterOTLPInsecure = getEnvBool os ''OTEL_EXPORTER_OTLP_INSECURE'' True,
          cf_OTELMetricsExportInterval = 0,
          cf_OTELTraceSamplingRatio = getEnvFloat os ''OTEL_TRACE_SAMPLING_RATIO'' (Fin 1),
          cf_OTELMetricsEnabled = getEnvBool os ''OTEL_METRICS_ENABLED'' True,
          cf_OTELTracingEnabled = getEnvBool os ''OTEL_TRACING_ENABLED'' True,
          cf_OTELLogsEnabled = getEnvBool os ''OTEL_LOGS_ENABLED'' True,
          cf_OTELLogLevel = ToLower (getEnv os ''OTEL_LOG_LEVEL'' ''info''),
          cf_MinIOEndpoint = getEnv os ''MINIO_ENDPOINT'' ''localhost:9000'',
          cf_MinIOAccessKey = Getenv os ''MINIO_ACCESS_KEY'',
          cf_MinIOSecretKey = Getenv os ''MINIO_SECRET_KEY'',
          cf_MinIOBucketName = getEnv os ''MINIO_BUCKET_NAME'' ''avatars'',
          cf_MinIOUseSSL = getEnvBool os ''MINIO_USE_SSL'' False\<rparr>)"

text \<open>The durations, each with its variable, its default and the field it is stored in.\<close>

type_synonym duration_step = "string \<times> string \<times> ((duration \<Rightarrow> duration) \<Rightarrow> Config \<Rightarrow> Config)"

definition Load_steps1 :: "duration_step list" where
  "Load_steps1 =
     [(''JWT_ACCESS_TTL'', ''15m'', cf_JWTAccessTTL_update),
      (''JWT_REFRESH_TTL'', ''168h'', cf_JWTRefreshTTL_update),
      (''AUTH_EMAIL_VERIFY_TOKEN_TTL'', ''30m'', cf_AuthEmailVerifyTokenTTL_update),
      (''AUTH_PASSWORD_RESET_TOKEN_TTL'', ''15m'', cf_AuthPasswordResetTokenTTL_update),
      (''OTEL_METRICS_EXPORT_INTERVAL'', ''10s'', cf_OTELMetricsExportInterval_update),
      (''READINESS_PROBE_TIMEOUT'', ''1s'', cf_ReadinessProbeTimeout_update),
      (''IDEMPOTENCY_TTL'', ''24h'', cf_IdempotencyTTL_update),
      (''IDEMPOTENCY_DB_CLEANUP_INTERVAL'', ''5m'', cf_IdempotencyDBCleanupInterval_update)]"

definition Load_steps2 :: "duration_step list" where
  "Load_steps2 =
     [(''ADMIN_LIST_CACHE_TTL'', ''30s'', cf_AdminListCacheTTL_update),
      (''NEGATIVE_LOOKUP_CACHE_TTL'', ''15s'', cf_NegativeLookupCacheTTL_update),
      (''RBAC_PERMISSION_CACHE_TTL'', ''5m'', cf_RBACPermissionCacheTTL_update),
      (''RATE_LIMIT_SUSTAINED_WINDOW'', ''1m'', cf_RateLimitSustainedWindow_update),
      (''AUTH_ABUSE_BASE_DELAY'', ''2s'', cf_AuthAbuseBaseDelay_update),
      (''AUTH_ABUSE_MAX_DELAY'', ''5m'', cf_AuthAbuseMaxDelay_update),
      (''AUTH_ABUSE_RESET_WINDOW'', ''30m'', cf_AuthAbuseResetWindow_update),
      (''SERVER_START_GRACE_PERIOD'', ''2s'', cf_ServerStartGracePeriod_update)]"

definition Load_steps3 :: "duration_step list" where
  "Load_steps3 =
     [(''REDIS_DIAL_TIMEOUT'', ''5s'', cf_RedisDialTimeout_update),
      (''REDIS_READ_TIMEOUT'', ''3s'', cf_RedisReadTimeout_update),
      (''REDIS_WRITE_TIMEOUT'', ''3s'', cf_RedisWriteTimeout_update),
      (''REDIS_MIN_RETRY_BACKOFF'', ''8ms'', cf_RedisMinRetryBackoff_update),
      (''REDIS_MAX_RETRY_BACKOFF'', ''512ms'', cf_RedisMaxRetryBackoff_update),
      (''REDIS_POOL_TIMEOUT'', ''4s'', cf_RedisPoolTimeout_update),
      (''SHUTDOWN_TIMEOUT'', ''20s'', cf_ShutdownTimeout_update),
      (''SHUTDOWN_HTTP_DRAIN_TIMEOUT'', ''10s'', cf_ShutdownHTTPDrainTimeout_update),
      (''SHUTDOWN_OBSERVABILITY_TIMEOUT'', ''8s'', cf_ShutdownObservabilityTimeout_update)]"

fun Load_durations :: "go_os \<Rightarrow> duration_step list \<Rightarrow> Config \<Rightarrow> Config result" where
  "Load_durations os [] cfg = Inr cfg"
| "Load_durations os ((key, dflt, update) # ss) cfg =
     (case ParseDuration (getEnv os key dflt) of
        Inl msg \<Rightarrow> Inl (Errorf (''parse '' @ key @ '': '' @ msg))
      | Inr d \<Rightarrow> Load_durations os ss (update (\<lambda>_. d) cfg))"

definition Load :: "go_os \<Rightarrow> Config result" where
  "Load os =
     (case Load_durations os (Load_steps1 @ Load_steps2 @ Load_steps3) (Load_values os) of
        Inl e \<Rightarrow> Inl e
      | Inr cfg \<Rightarrow>
          (case Config_Validate os cfg of
             Inl e \<Rightarrow> Inl (Errorf (''validate config: '' @ Error_text e))
           | Inr _ \<Rightarrow> Inr cfg))"

text \<open>\<open>metrics.go\<close> of the package: the labels under which the outcome is counted.\<close>

definition normalizeConfigProfile :: "string \<Rightarrow> string" where
  "normalizeConfigProfile profile = (let v = TrimSpace (ToLower profile) in if v = [] then ''unknown'' else v)"

definition classifyConfigLoadError :: "goerr option \<Rightarrow> string" where
  "classifyConfigLoadError err =
     (case err of None \<Rightarrow> ''none''
      | Some e \<Rightarrow>
          (let msg = ToLower (TrimSpace (Error_text e)) in
           if Contains msg ''validate config:'' then ''validation''
           else if Contains msg ''parse '' then ''parse'' else ''load''))"

end
