(* ===== verification/Request_Bypass.thy ===== *)
theory Request_Bypass
  imports Http Go_Parse
begin

section \<open>Who a request comes from, and who is exempt: \<open>bypass_policy.go\<close>\<close>

text \<open>
  The key a limiter counts a request under, and the requests that limiters and the abuse guard let
  through.  Of the package \<open>net\<close>, \<open>SplitHostPort\<close> is modelled; addresses are parsed by \<open>ParseIP\<close> and
  printed by \<open>IP_String\<close>, and a parsed network is the set of addresses it contains.  \<open>now\<close> is the clock
  reading at which a token is checked.
\<close>

record go_net =
  net_ParseIP :: "string \<Rightarrow> ip option"
  net_IP_String :: "ip \<Rightarrow> string"
  net_ParseCIDR :: "string \<Rightarrow> (ip \<Rightarrow> bool) option"

definition last_colon :: "string \<Rightarrow> nat option" where
  "last_colon s = (if CHR '':'' \<in> set s
     then Some (length s - 1 - length (takeWhile (\<lambda>c. c \<noteq> CHR '':'') (rev s))) else None)"

text \<open>\<open>net.SplitHostPort\<close>; the errors are not told apart, as in the callers.\<close>

definition SplitHostPort :: "string \<Rightarrow> (string \<times> string) option" where
  "SplitHostPort hostport =
     (case last_colon hostport of
        None \<Rightarrow> None
      | Some i \<Rightarrow>
          if hd hostport = CHR ''['' then
            (let end_i = length (takeWhile (\<lambda>c. c \<noteq> CHR '']'') hostport)
             in if CHR '']'' \<notin> set hostport \<or> end_i + 1 \<noteq> i then None
                else if CHR ''['' \<in> set (drop 1 hostport) \<or> CHR '']'' \<in> set (drop (end_i + 1) hostport) then None
                else Some (take (end_i - 1) (drop 1 hostport), drop (i + 1) hostport))
          else
            (let host = take i hostport
             in if CHR '':'' \<in> set host \<or> CHR ''['' \<in> set hostport \<or> CHR '']'' \<in> set hostport then None
                else Some (host, drop (i + 1) hostport)))"

definition parseRequestIP :: "go_net \<Rightarrow> request \<Rightarrow> ip option" where
  "parseRequestIP N r =
     (let addr = TrimSpace (rq_RemoteAddr r);
          host = (case SplitHostPort addr of None \<Rightarrow> addr | Some (h, _) \<Rightarrow> if h = [] then addr else h)
      in if host = [] then None else net_ParseIP N host)"

definition clientIPKey :: "go_net \<Rightarrow> request \<Rightarrow> string" where
  "clientIPKey N r = (case parseRequestIP N r of Some ip \<Rightarrow> net_IP_String N ip | None \<Rightarrow> rq_RemoteAddr r)"

definition bearer_or_cookie :: "request \<Rightarrow> string" where
  "bearer_or_cookie r =
     (let raw = GetCookie r ''access_token'' in
      if raw = [] then
        (let auth = TrimSpace (header_get ''Authorization'' (rq_Headers r))
         in if length auth \<ge> 8 \<and> EqualFold (take 7 auth) ''bearer '' then TrimSpace (drop 7 auth) else [])
      else raw)"

definition requestSubject :: "jwtlib \<Rightarrow> jwt_manager option \<Rightarrow> gotime \<Rightarrow> request \<Rightarrow> string" where
  "requestSubject L jwtMgr now r =
     (case jwtMgr of
        None \<Rightarrow> []
      | Some m \<Rightarrow>
          (let raw = bearer_or_cookie r in
           if raw = [] then []
           else (case ParseAccessToken L m now raw of Inl e \<Rightarrow> [] | Inr claims \<Rightarrow> TrimSpace (cl_Subject claims))))"

definition SubjectOrIPKeyFunc :: "go_net \<Rightarrow> jwtlib \<Rightarrow> jwt_manager option \<Rightarrow> gotime \<Rightarrow> request \<Rightarrow> string" where
  "SubjectOrIPKeyFunc N L jwtMgr now r =
     (if jwtMgr = None then clientIPKey N r
      else (let subject = requestSubject L jwtMgr now r
            in if subject = [] then clientIPKey N r else ''sub:'' @ subject))"

subsection \<open>The evaluator\<close>

record RequestBypassConfig =
  bp_EnableInternalProbeBypass :: bool
  bp_EnableTrustedActorBypass :: bool
  bp_TrustedActorCIDRs :: "string list"
  bp_TrustedActorSubjects :: "string list"

record requestBypassMatcher =
  bm_enableProbeBypass :: bool
  bm_enableTrustedBypass :: bool
  bm_trustedCIDRs :: "(ip \<Rightarrow> bool) list"
  bm_trustedSubjects :: "string set"
  bm_jwtMgr :: "jwt_manager option"

definition Matcher_Match :: "go_net \<Rightarrow> jwtlib \<Rightarrow> gotime \<Rightarrow> requestBypassMatcher \<Rightarrow> request \<Rightarrow> bool \<times> string" where
  "Matcher_Match N L now m r =
     (if bm_enableProbeBypass m \<and> TrimSpace (ToLower (rq_Path r)) \<in> {''/health/live'', ''/health/ready''}
        then (True, ''internal_probe_path'')
      else if \<not> bm_enableTrustedBypass m then (False, [])
      else if (case parseRequestIP N r of None \<Rightarrow> False | Some ip \<Rightarrow> list_ex (\<lambda>network. network ip) (bm_trustedCIDRs m))
        then (True, ''trusted_actor_cidr'')
      else if bm_trustedSubjects m \<noteq> {} \<and> requestSubject L (bm_jwtMgr m) now r \<in> bm_trustedSubjects m
        then (True, ''trusted_actor_subject'')
      else (False, []))"

definition NewRequestBypassEvaluator ::
    "go_net \<Rightarrow> jwtlib \<Rightarrow> gotime \<Rightarrow> RequestBypassConfig \<Rightarrow> jwt_manager option \<Rightarrow> (request \<Rightarrow> bool \<times> string) option" where
  "NewRequestBypassEvaluator N L now cfg jwtMgr =
     (let cidrs = filter (\<lambda>v. v \<noteq> []) (map TrimSpace (bp_TrustedActorCIDRs cfg));
          m = \<lparr>bm_enableProbeBypass = bp_EnableInternalProbeBypass cfg,
               bm_enableTrustedBypass = bp_EnableTrustedActorBypass cfg,
               bm_trustedCIDRs = List.map_filter (net_ParseCIDR N) cidrs,
               bm_trustedSubjects = set (filter (\<lambda>v. v \<noteq> []) (map TrimSpace (bp_TrustedActorSubjects cfg))),
               bm_jwtMgr = jwtMgr\<rparr>
      in if \<not> bm_enableProbeBypass m
            \<and> (\<not> bm_enableTrustedBypass m \<or> (bm_trustedCIDRs m = [] \<and> bm_trustedSubjects m = {}))
         then None else Some (Matcher_Match N L now m))"

subsection \<open>Who is exempt\<close>

text \<open>The requests that the configuration exempts, read off the settings.\<close>

definition probe_request :: "request \<Rightarrow> bool" where
  "probe_request r \<longleftrightarrow> TrimSpace (ToLower (rq_Path r)) \<in> {''/health/live'', ''/health/ready''}"

definition from_trusted_network :: "go_net \<Rightarrow> string list \<Rightarrow> request \<Rightarrow> bool" where
  "from_trusted_network N cidrs r \<longleftrightarrow>
     (\<exists>cidr network ip. cidr \<in> set cidrs \<and> TrimSpace cidr \<noteq> [] \<and> net_ParseCIDR N (TrimSpace cidr) = Some network
        \<and> parseRequestIP N r = Some ip \<and> network ip)"

definition from_trusted_subject :: "jwtlib \<Rightarrow> jwt_manager option \<Rightarrow> gotime \<Rightarrow> string list \<Rightarrow> request \<Rightarrow> bool" where
  "from_trusted_subject L jwtMgr now subjects r \<longleftrightarrow>
     (\<exists>m claims subject. jwtMgr = Some m \<and> ParseAccessToken L m now (bearer_or_cookie r) = Inr claims
        \<and> bearer_or_cookie r \<noteq> [] \<and> subject \<in> set subjects
        \<and> TrimSpace subject \<noteq> [] \<and> TrimSpace subject = TrimSpace (cl_Subject claims))"

lemma requestSubject_nonempty:
  "requestSubject L jwtMgr now r = s \<Longrightarrow> s \<noteq> [] \<Longrightarrow>
     \<exists>m claims. jwtMgr = Some m \<and> bearer_or_cookie r \<noteq> []
       \<and> ParseAccessToken L m now (bearer_or_cookie r) = Inr claims \<and> s = TrimSpace (cl_Subject claims)"
  by (auto simp: requestSubject_def Let_def split: option.splits if_splits sum.splits)

lemma trusted_subject_iff:
  "requestSubject L jwtMgr now r \<in> set (filter (\<lambda>v. v \<noteq> []) (map TrimSpace subjects))
     \<longleftrightarrow> from_trusted_subject L jwtMgr now subjects r"
proof
  assume "requestSubject L jwtMgr now r \<in> set (filter (\<lambda>v. v \<noteq> []) (map TrimSpace subjects))"
  then obtain t where "t \<in> set subjects" "requestSubject L jwtMgr now r = TrimSpace t" "TrimSpace t \<noteq> []" by auto
  with requestSubject_nonempty [of L jwtMgr now r] show "from_trusted_subject L jwtMgr now subjects r"
    by (auto simp: from_trusted_subject_def)
next
  assume "from_trusted_subject L jwtMgr now subjects r"
  then obtain t where "t \<in> set subjects" "TrimSpace t \<noteq> []" "requestSubject L jwtMgr now r = TrimSpace t"
    by (auto simp: from_trusted_subject_def requestSubject_def Let_def)
  then show "requestSubject L jwtMgr now r \<in> set (filter (\<lambda>v. v \<noteq> []) (map TrimSpace subjects))"
    by auto
qed

lemma trusted_network_iff:
  "(case parseRequestIP N r of None \<Rightarrow> False
    | Some ip \<Rightarrow> list_ex (\<lambda>network. network ip)
        (List.map_filter (net_ParseCIDR N) (filter (\<lambda>v. v \<noteq> []) (map TrimSpace cidrs))))
     \<longleftrightarrow> from_trusted_network N cidrs r"
  by (auto simp: from_trusted_network_def list_ex_iff map_filter_def split: option.splits)

text \<open>
  C32: The evaluator exempts a request exactly when probes are exempt and it is for a health path, or
  trusted actors are exempt and it comes from a configured network or carries a valid access token of
  a configured subject.  An entry that is blank, or a network that does not parse, exempts nobody, and
  there is no evaluator at all only if no request could be exempt.
\<close>

theorem bypass_only_for_trusted:
  "(case NewRequestBypassEvaluator N L now cfg jwtMgr of None \<Rightarrow> False | Some f \<Rightarrow> fst (f r)) \<longleftrightarrow>
     bp_EnableInternalProbeBypass cfg \<and> probe_request r
   \<or> bp_EnableTrustedActorBypass cfg
       \<and> (from_trusted_network N (bp_TrustedActorCIDRs cfg) r
          \<or> from_trusted_subject L jwtMgr now (bp_TrustedActorSubjects cfg) r)"
proof -
  let ?cidrs = "List.map_filter (net_ParseCIDR N) (filter (\<lambda>v. v \<noteq> []) (map TrimSpace (bp_TrustedActorCIDRs cfg)))"
  let ?subs = "filter (\<lambda>v. v \<noteq> []) (map TrimSpace (bp_TrustedActorSubjects cfg))"
  have none: "?cidrs = [] \<Longrightarrow> \<not> from_trusted_network N (bp_TrustedActorCIDRs cfg) r"
    using trusted_network_iff [where N = N and r = r and cidrs = "bp_TrustedActorCIDRs cfg"] by (auto split: option.splits)
  have none': "set ?subs = {} \<Longrightarrow> \<not> from_trusted_subject L jwtMgr now (bp_TrustedActorSubjects cfg) r"
    using trusted_subject_iff [of L jwtMgr now r "bp_TrustedActorSubjects cfg"] by auto
  show ?thesis
    unfolding NewRequestBypassEvaluator_def Matcher_Match_def Let_def requestBypassMatcher.simps trusted_network_iff
      trusted_subject_iff probe_request_def [symmetric]
    using none none' by auto
qed

end
