(* ===== verification/Health.thy ===== *)
theory Health
  imports Go_Prelude
begin

section \<open>Readiness: \<open>checker.go\<close>, \<open>dependency.go\<close>\<close>

text \<open>
  A checker asks a dependency once and reports.  What the dependency answers within the timeout is an
  argument: for the database the result of \<open>db.DB()\<close> and of \<open>PingContext\<close>, for Redis that of \<open>Ping\<close>.
  The metrics of a check are left out.
\<close>

record CheckResult =
  hc_Name :: string
  hc_Healthy :: bool
  hc_Error :: string

type_synonym checker = "duration \<Rightarrow> CheckResult"

record ProbeRunner =
  pr_checkers :: "checker list"
  pr_timeout :: duration
  pr_gracePeriod :: duration
  pr_startedAt :: gotime

definition NewProbeRunner :: "gotime \<Rightarrow> duration \<Rightarrow> duration \<Rightarrow> checker list \<Rightarrow> ProbeRunner" where
  "NewProbeRunner now timeout gracePeriod checkers =
     \<lparr>pr_checkers = checkers, pr_timeout = (if timeout \<le> 0 then seconds 1 else timeout),
      pr_gracePeriod = gracePeriod, pr_startedAt = now\<rparr>"

fun run_checks :: "duration \<Rightarrow> checker list \<Rightarrow> bool \<times> CheckResult list" where
  "run_checks timeout [] = (True, [])"
| "run_checks timeout (c # cs) =
     (let res = c timeout
      in case run_checks timeout cs of (allHealthy, results) \<Rightarrow> (hc_Healthy res \<and> allHealthy, res # results))"

definition ProbeRunner_Ready :: "gotime \<Rightarrow> ProbeRunner option \<Rightarrow> bool \<times> CheckResult list" where
  "ProbeRunner_Ready now pr =
     (case pr of
        None \<Rightarrow> (True, [])
      | Some r \<Rightarrow>
          if pr_gracePeriod r > 0 \<and> now - pr_startedAt r < pr_gracePeriod r then
            (False, [\<lparr>hc_Name = ''startup_grace'', hc_Healthy = False, hc_Error = ''startup grace period active''\<rparr>])
          else run_checks (pr_timeout r) (pr_checkers r))"

definition healthOutcome :: "bool \<Rightarrow> CheckResult \<Rightarrow> string" where
  "healthOutcome deadlineExceeded res =
     (if deadlineExceeded then ''timeout'' else if hc_Healthy res then ''healthy'' else ''unhealthy'')"

subsection \<open>The dependencies\<close>

record db_handle =
  dbh_DB :: "unit result"
  dbh_Ping :: "duration \<Rightarrow> unit result"

definition DBChecker_Check :: "db_handle option \<Rightarrow> checker" where
  "DBChecker_Check db timeout =
     (let bad = (\<lambda>msg. \<lparr>hc_Name = ''db'', hc_Healthy = False, hc_Error = msg\<rparr>) in
      case db of
        None \<Rightarrow> bad ''db not configured''
      | Some h \<Rightarrow>
          (case dbh_DB h of
             Inl e \<Rightarrow> bad (Error_text e)
           | Inr _ \<Rightarrow>
               (case dbh_Ping h timeout of
                  Inl e \<Rightarrow> bad (Error_text e)
                | Inr _ \<Rightarrow> \<lparr>hc_Name = ''db'', hc_Healthy = True, hc_Error = []\<rparr>)))"

definition NewDBChecker :: "db_handle option \<Rightarrow> checker option" where
  "NewDBChecker db = (if db = None then None else Some (DBChecker_Check db))"

definition RedisChecker_Check :: "(duration \<Rightarrow> unit result) option \<Rightarrow> checker" where
  "RedisChecker_Check client timeout =
     (case client of
        None \<Rightarrow> \<lparr>hc_Name = ''redis'', hc_Healthy = False, hc_Error = ''redis not configured''\<rparr>
      | Some ping \<Rightarrow>
          (case ping timeout of
             Inl e \<Rightarrow> \<lparr>hc_Name = ''redis'', hc_Healthy = False, hc_Error = Error_text e\<rparr>
           | Inr _ \<Rightarrow> \<lparr>hc_Name = ''redis'', hc_Healthy = True, hc_Error = []\<rparr>))"

definition NewRedisChecker :: "(duration \<Rightarrow> unit result) option \<Rightarrow> checker option" where
  "NewRedisChecker client = (if client = None then None else Some (RedisChecker_Check client))"

subsection \<open>All checks run, and all count\<close>

lemma run_checks_all: "run_checks t cs = (list_all (\<lambda>c. hc_Healthy (c t)) cs, map (\<lambda>c. c t) cs)"
  by (induction cs) (simp_all add: Let_def)

lemma Ready_iff:
  "fst (ProbeRunner_Ready now (Some r)) \<longleftrightarrow>
     pr_gracePeriod r \<le> max 0 (now - pr_startedAt r) \<and> list_all (\<lambda>c. hc_Healthy (c (pr_timeout r))) (pr_checkers r)"
  by (auto simp: ProbeRunner_Ready_def run_checks_all)

end
