(* ===== verification/Providers.thy ===== *)
theory Providers
  imports App_Config Request_Bypass Health Rate_Limiter Auth_Handler
begin

section \<open>From the configuration to the components: \<open>di/providers.go\<close>\<close>

text \<open>
  Each provider picks an implementation and hands it its settings.  A store is described by which
  implementation was picked and the prefix of its keys; a limiter is the record of \<open>Rate_Limiter\<close>,
  over the two ways \<open>lb\<close> to decide a request (Redis under a prefix, or memory).  The Redis client is
  its options, or \<open>None\<close> when no feature needs it.  \<open>conv\<close> is Go's conversion of a \<open>float64\<close> to an \<open>int\<close>.
\<close>

subsection \<open>Redis\<close>

record tls_config =
  tc_ServerName :: string
  tc_InsecureSkipVerify :: bool
  tc_RootCAs :: "string option"

record redis_options =
  ro_Addr :: string
  ro_Username :: string
  ro_Password :: string
  ro_DB :: int
  ro_DialTimeout :: duration
  ro_ReadTimeout :: duration
  ro_WriteTimeout :: duration
  ro_MaxRetries :: int
  ro_MinRetryBackoff :: duration
  ro_MaxRetryBackoff :: duration
  ro_PoolSize :: int
  ro_MinIdleConns :: int
  ro_PoolTimeout :: duration
  ro_TLSConfig :: "tls_config option"

text \<open>\<open>tc_RootCAs\<close> is the PEM data added to the system roots, if any was usable.\<close>

definition redis_tls_config :: "go_os \<Rightarrow> Config \<Rightarrow> tls_config" where
  "redis_tls_config os cfg =
     (let certPath = TrimSpace (cf_RedisTLSCACertFile cfg) in
      \<lparr>tc_ServerName = TrimSpace (cf_RedisTLSServerName cfg),
       tc_InsecureSkipVerify = cf_RedisTLSInsecureSkipVerify cfg,
       tc_RootCAs =
         (if certPath = [] then None
          else (case os_ReadFile os certPath of
                  None \<Rightarrow> None
                | Some pemBytes \<Rightarrow> if os_AppendCertsFromPEM os pemBytes then Some pemBytes else None))\<rparr>)"

definition provideRedisClient :: "go_os \<Rightarrow> Config \<Rightarrow> redis_options option" where
  "provideRedisClient os cfg =
     (if \<not> cf_RateLimitRedisEnabled cfg \<and> \<not> cf_AuthAbuseProtectionEnabled cfg
         \<and> (\<not> cf_IdempotencyEnabled cfg \<or> \<not> cf_IdempotencyRedisEnabled cfg) \<and> \<not> cf_AdminListCacheEnabled cfg
         \<and> \<not> cf_NegativeLookupCacheEnabled cfg \<and> \<not> cf_RBACPermissionCacheEnabled cfg \<and> \<not> cf_FeatureFlagEvalCacheRedis cfg
      then None
      else Some \<lparr>ro_Addr = cf_RedisAddr cfg, ro_Username = cf_RedisUsername cfg, ro_Password = cf_RedisPassword cfg,
        ro_DB = cf_RedisDB cfg, ro_DialTimeout = cf_RedisDialTimeout cfg, ro_ReadTimeout = cf_RedisReadTimeout cfg,
        ro_WriteTimeout = cf_RedisWriteTimeout cfg, ro_MaxRetries = cf_RedisMaxRetries cfg,
        ro_MinRetryBackoff = cf_RedisMinRetryBackoff cfg, ro_MaxRetryBackoff = cf_RedisMaxRetryBackoff cfg,
        ro_PoolSize = cf_RedisPoolSize cfg, ro_MinIdleConns = cf_RedisMinIdleConns cfg,
        ro_PoolTimeout = cf_RedisPoolTimeout cfg,
        ro_TLSConfig = (if cf_RedisTLSEnabled cfg then Some (redis_tls_config os cfg) else None)\<rparr>)"

definition composeRedisPrefix :: "string \<Rightarrow> string \<Rightarrow> string" where
  "composeRedisPrefix namespace pfx =
     (let ns = (if TrimSpace namespace = [] then ''v1'' else TrimSpace namespace); p = TrimSpace pfx
      in if p = [] then ns else ns @ '':'' @ p)"

subsection \<open>Stores\<close>

datatype store_choice = NoopStore | InMemoryStore | DBStore | RedisStore string

definition provideRBACPermissionCacheStore :: "Config \<Rightarrow> redis_options option \<Rightarrow> store_choice" where
  "provideRBACPermissionCacheStore cfg redisClient =
     (if \<not> cf_RBACPermissionCacheEnabled cfg then NoopStore
      else if redisClient = None then NoopStore
      else RedisStore (composeRedisPrefix (cf_RedisKeyNamespace cfg) (cf_RBACPermissionCacheRedisPref cfg)))"

definition provideAdminListCacheStore :: "Config \<Rightarrow> redis_options option \<Rightarrow> store_choice" where
  "provideAdminListCacheStore cfg redisClient =
     (if \<not> cf_AdminListCacheEnabled cfg then NoopStore
      else if redisClient = None then NoopStore
      else RedisStore (composeRedisPrefix (cf_RedisKeyNamespace cfg) (cf_AdminListCacheRedisPrefix cfg)))"

definition provideNegativeLookupCacheStore :: "Config \<Rightarrow> redis_options option \<Rightarrow> store_choice" where
  "provideNegativeLookupCacheStore cfg redisClient =
     (if \<not> cf_NegativeLookupCacheEnabled cfg then NoopStore
      else if redisClient = None then NoopStore
      else RedisStore (composeRedisPrefix (cf_RedisKeyNamespace cfg) (cf_NegativeLookupCacheRedisPref cfg)))"

definition provideFeatureFlagEvaluationCacheStore :: "Config \<Rightarrow> redis_options option \<Rightarrow> store_choice" where
  "provideFeatureFlagEvaluationCacheStore cfg redisClient =
     (if \<not> cf_FeatureFlagEvalCacheRedis cfg \<or> redisClient = None then InMemoryStore
      else RedisStore (composeRedisPrefix (cf_RedisKeyNamespace cfg) ''feature_flag_eval_cache''))"

definition provideIdempotencyStore :: "Config \<Rightarrow> redis_options option \<Rightarrow> store_choice option" where
  "provideIdempotencyStore cfg redisClient =
     (if \<not> cf_IdempotencyEnabled cfg then None
      else if cf_IdempotencyRedisEnabled cfg \<and> redisClient \<noteq> None
        then Some (RedisStore (composeRedisPrefix (cf_RedisKeyNamespace cfg) (cf_IdempotencyRedisPrefix cfg)))
      else Some DBStore)"

text \<open>The middleware is built over the store, with this time to live.\<close>

definition provideIdempotencyMiddlewareFactory :: "Config \<Rightarrow> store_choice option \<Rightarrow> (store_choice \<times> duration) option" where
  "provideIdempotencyMiddlewareFactory cfg store =
     (if \<not> cf_IdempotencyEnabled cfg then None
      else (case store of None \<Rightarrow> None | Some s \<Rightarrow> Some (s, cf_IdempotencyTTL cfg)))"

text \<open>The interval and the batch of the cleanup loop, when it is started.\<close>

definition startDBIdempotencyCleanup :: "Config \<Rightarrow> store_choice option \<Rightarrow> (duration \<times> int) option" where
  "startDBIdempotencyCleanup cfg store =
     (if \<not> cf_IdempotencyEnabled cfg \<or> cf_IdempotencyRedisEnabled cfg \<or> \<not> cf_IdempotencyDBCleanupEnabled cfg then None
      else if store \<noteq> Some DBStore then None
      else Some (cf_IdempotencyDBCleanupInterval cfg, cf_IdempotencyDBCleanupBatch cfg))"

subsection \<open>Security and the guard\<close>

definition provideJWTManager :: "Config \<Rightarrow> jwt_manager" where
  "provideJWTManager cfg = \<lparr>jm_issuer = cf_JWTIssuer cfg, jm_audience = cf_JWTAudience cfg,
     jm_accessSecret = cf_JWTAccessSecret cfg, jm_refreshSecret = cf_JWTRefreshSecret cfg\<rparr>"

definition provideCookieManager :: "Config \<Rightarrow> cookie_manager" where
  "provideCookieManager cfg = NewCookieManager (cf_CookieDomain cfg) (cf_CookieSecure cfg) (cf_CookieSameSite cfg)"

datatype guard_choice = NoopGuard | InMemoryGuard AuthAbusePolicy | RedisGuard string AuthAbusePolicy

text \<open>
  The guards compute with rationals: for a multiplier that is infinite or NaN, which the source passes on
  like any other, this model has no policy and says nothing.
\<close>

definition abuse_policy_of :: "Config \<Rightarrow> AuthAbusePolicy option" where
  "abuse_policy_of cfg =
     (case cf_AuthAbuseMultiplier cfg of
        Fin q \<Rightarrow> Some \<lparr>ap_FreeAttempts = cf_AuthAbuseFreeAttempts cfg, ap_BaseDelay = cf_AuthAbuseBaseDelay cfg,
                   ap_Multiplier = q, ap_MaxDelay = cf_AuthAbuseMaxDelay cfg, ap_ResetWindow = cf_AuthAbuseResetWindow cfg\<rparr>
      | _ \<Rightarrow> None)"

definition provideAuthAbuseGuard :: "Config \<Rightarrow> redis_options option \<Rightarrow> guard_choice option" where
  "provideAuthAbuseGuard cfg redisClient =
     (if \<not> cf_AuthAbuseProtectionEnabled cfg then Some NoopGuard
      else (case abuse_policy_of cfg of
              None \<Rightarrow> None
            | Some policy \<Rightarrow>
                if redisClient \<noteq> None
                then Some (RedisGuard (composeRedisPrefix (cf_RedisKeyNamespace cfg) (cf_AuthAbuseRedisPrefix cfg)) policy)
                else Some (InMemoryGuard policy)))"

definition provideRequestBypassEvaluator ::
    "go_net \<Rightarrow> jwtlib \<Rightarrow> gotime \<Rightarrow> Config \<Rightarrow> jwt_manager \<Rightarrow> (request \<Rightarrow> bool \<times> string) option" where
  "provideRequestBypassEvaluator N L now cfg jwt =
     NewRequestBypassEvaluator N L now
       \<lparr>bp_EnableInternalProbeBypass = cf_BypassInternalProbes cfg, bp_EnableTrustedActorBypass = cf_BypassTrustedActors cfg,
        bp_TrustedActorCIDRs = cf_BypassTrustedActorCIDRs cfg, bp_TrustedActorSubjects = cf_BypassTrustedActorSubjects cfg\<rparr>
       (Some jwt)"

definition provideAuthHandler ::
    "'g abuse_guard \<Rightarrow> cookie_manager \<Rightarrow> (request \<Rightarrow> bool \<times> string) option \<Rightarrow> Config \<Rightarrow> (string \<Rightarrow> string \<Rightarrow> string) \<Rightarrow> 'g AuthHandler" where
  "provideAuthHandler abuseGuard cookieMgr bypassEvaluator cfg hmac =
     NewAuthHandler (Some abuseGuard) cookieMgr bypassEvaluator (cf_StateSigningSecret cfg) (cf_JWTRefreshTTL cfg) hmac"

subsection \<open>Rate limiters\<close>

text \<open>
  \<open>math.Round\<close> rounds halves away from zero; a product with NaN or an infinity stays one.  \<open>conv\<close> is the
  conversion to \<open>int\<close>, which the language leaves open for NaN and out of range.
\<close>

definition math_Round :: "rat \<Rightarrow> rat" where
  "math_Round x = (if x < 0 then - of_int \<lfloor>1/2 - x\<rfloor> else of_int \<lfloor>x + 1/2\<rfloor>)"

fun scaled_up :: "int \<Rightarrow> float64 \<Rightarrow> float64" where
  "scaled_up n (Fin q) = Fin (of_int \<lceil>round64 (round64 (of_int n) * q)\<rceil>)"
| "scaled_up n PosInf = (if n = 0 then NaN else if n > 0 then PosInf else NegInf)"
| "scaled_up n NegInf = (if n = 0 then NaN else if n > 0 then NegInf else PosInf)"
| "scaled_up n NaN = NaN"

definition toRateLimitPolicy :: "(float64 \<Rightarrow> int) \<Rightarrow> int \<Rightarrow> Config \<Rightarrow> RateLimitPolicy" where
  "toRateLimitPolicy conv perMinute cfg =
     (let window = (if cf_RateLimitSustainedWindow cfg \<le> 0 then minutes 1 else cf_RateLimitSustainedWindow cfg);
          multiplier = (if float_less (cf_RateLimitBurstMultiplier cfg) (Fin 1) then Fin 1 else cf_RateLimitBurstMultiplier cfg);
          sustained0 = conv (Fin (math_Round (round64 (round64 (of_int perMinute) * Duration_Minutes window))));
          sustainedLimit = (if sustained0 \<le> 0 then 1 else sustained0);
          burst0 = conv (scaled_up sustainedLimit multiplier);
          burstCapacity = (if burst0 < sustainedLimit then sustainedLimit else burst0);
          refill0 = round64 (round64 (of_int perMinute) / 60);
          refill1 = (if refill0 \<le> 0 then round64 (round64 (of_int sustainedLimit) / Duration_Seconds window) else refill0);
          refill = (if refill1 \<le> 0 then 1 else refill1)
      in \<lparr>rp_SustainedLimit = sustainedLimit, rp_SustainedWindow = window, rp_BurstCapacity = burstCapacity,
          rp_BurstRefillPerSec = refill\<rparr>)"

definition toRateLimitFailureMode :: "string \<Rightarrow> FailureMode \<Rightarrow> FailureMode" where
  "toRateLimitFailureMode raw fallback =
     (let v = ToLower (TrimSpace raw) in
      if v = ''fail_open'' then FailOpen else if v = ''fail_closed'' then FailClosed else fallback)"

record 's limiter_backends =
  lb_redis :: "string \<Rightarrow> string \<Rightarrow> RateLimitPolicy \<Rightarrow> 's \<Rightarrow> Decision result \<times> 's"
  lb_local :: "string \<Rightarrow> RateLimitPolicy \<Rightarrow> 's \<Rightarrow> Decision result \<times> 's"

text \<open>
  The shape shared by the limiters: Redis under the given suffix with the given mode, or else memory,
  with the mode \<open>localMode\<close>.
\<close>

definition limiter_for ::
    "go_net \<Rightarrow> 's limiter_backends \<Rightarrow> (float64 \<Rightarrow> int) \<Rightarrow> Config \<Rightarrow> redis_options option \<Rightarrow> string \<Rightarrow> int \<Rightarrow> FailureMode
     \<Rightarrow> FailureMode \<Rightarrow> (request \<Rightarrow> string) option \<Rightarrow> (request \<Rightarrow> bool \<times> string) option \<Rightarrow> 's RateLimiter" where
  "limiter_for N lb conv cfg redisClient sfx limit mode localMode keyFunc bypassEvaluator =
     (let policy = toRateLimitPolicy conv limit cfg;
          rateLimitPrefix = composeRedisPrefix (cf_RedisKeyNamespace cfg) (cf_RateLimitRedisPrefix cfg)
      in if cf_RateLimitRedisEnabled cfg \<and> redisClient \<noteq> None
         then WithBypassEvaluator bypassEvaluator
                (NewDistributedRateLimiterWithKeyAndPolicy (clientIPKey N) (lb_redis lb (rateLimitPrefix @ '':'' @ sfx))
                   policy mode keyFunc)
         else WithBypassEvaluator bypassEvaluator
                (NewDistributedRateLimiterWithKeyAndPolicy (clientIPKey N) (lb_local lb) policy localMode keyFunc))"

text \<open>\<open>NewRateLimiterWithPolicy\<close>, which the first three use without Redis, is a local limiter that fails closed.\<close>

definition provideGlobalRateLimiter ::
    "go_net \<Rightarrow> jwtlib \<Rightarrow> gotime \<Rightarrow> 's limiter_backends \<Rightarrow> (float64 \<Rightarrow> int) \<Rightarrow> Config \<Rightarrow> redis_options option \<Rightarrow> jwt_manager
     \<Rightarrow> (request \<Rightarrow> bool \<times> string) option \<Rightarrow> 's RateLimiter" where
  "provideGlobalRateLimiter N L now lb conv cfg redisClient jwt bypassEvaluator =
     limiter_for N lb conv cfg redisClient ''api'' (cf_APIRateLimitPerMin cfg)
       (toRateLimitFailureMode (cf_RateLimitOutagePolicyAPI cfg) FailOpen) FailClosed
       (Some (SubjectOrIPKeyFunc N L (Some jwt) now)) bypassEvaluator"

definition provideAuthRateLimiter ::
    "go_net \<Rightarrow> 's limiter_backends \<Rightarrow> (float64 \<Rightarrow> int) \<Rightarrow> Config \<Rightarrow> redis_options option
     \<Rightarrow> (request \<Rightarrow> bool \<times> string) option \<Rightarrow> 's RateLimiter" where
  "provideAuthRateLimiter N lb conv cfg redisClient bypassEvaluator =
     limiter_for N lb conv cfg redisClient ''auth'' (cf_AuthRateLimitPerMin cfg)
       (toRateLimitFailureMode (cf_RateLimitOutagePolicyAuth cfg) FailClosed) FailClosed None bypassEvaluator"

definition provideForgotRateLimiter ::
    "go_net \<Rightarrow> 's limiter_backends \<Rightarrow> (float64 \<Rightarrow> int) \<Rightarrow> Config \<Rightarrow> redis_options option
     \<Rightarrow> (request \<Rightarrow> bool \<times> string) option \<Rightarrow> 's RateLimiter" where
  "provideForgotRateLimiter N lb conv cfg redisClient bypassEvaluator =
     limiter_for N lb conv cfg redisClient ''auth:forgot'' (cf_AuthPasswordForgotRateLimitPerMin cfg)
       (toRateLimitFailureMode (cf_RateLimitOutagePolicyForgot cfg) FailClosed) FailClosed None bypassEvaluator"

definition buildRoutePolicyLimiter ::
    "go_net \<Rightarrow> 's limiter_backends \<Rightarrow> (float64 \<Rightarrow> int) \<Rightarrow> Config \<Rightarrow> redis_options option \<Rightarrow> string \<Rightarrow> int \<Rightarrow> FailureMode
     \<Rightarrow> (request \<Rightarrow> string) option \<Rightarrow> (request \<Rightarrow> bool \<times> string) option \<Rightarrow> 's RateLimiter" where
  "buildRoutePolicyLimiter N lb conv cfg redisClient redisSuffix limit mode keyFunc bypassEvaluator =
     limiter_for N lb conv cfg redisClient redisSuffix limit mode mode keyFunc bypassEvaluator"

definition provideRouteRateLimitPolicies ::
    "go_net \<Rightarrow> jwtlib \<Rightarrow> gotime \<Rightarrow> 's limiter_backends \<Rightarrow> (float64 \<Rightarrow> int) \<Rightarrow> Config \<Rightarrow> redis_options option \<Rightarrow> jwt_manager
     \<Rightarrow> (request \<Rightarrow> bool \<times> string) option \<Rightarrow> string \<Rightarrow> 's RateLimiter option" where
  "provideRouteRateLimitPolicies N L now lb conv cfg redisClient jwt bypassEvaluator =
     (let limiter = (\<lambda>redisSuffix limit raw keyFunc.
            buildRoutePolicyLimiter N lb conv cfg redisClient redisSuffix limit (toRateLimitFailureMode raw FailClosed) keyFunc bypassEvaluator);
          subjectKey = Some (SubjectOrIPKeyFunc N L (Some jwt) now)
      in map_of
        [(''login'', limiter ''route:login'' (cf_RateLimitLoginPerMin cfg) (cf_RateLimitOutagePolicyLogin cfg) None),
         (''refresh'', limiter ''route:refresh'' (cf_RateLimitRefreshPerMin cfg) (cf_RateLimitOutagePolicyRefresh cfg) subjectKey),
         (''admin_write'', limiter ''route:admin:write'' (cf_RateLimitAdminWritePerMin cfg) (cf_RateLimitOutagePolicyAdminW cfg) subjectKey),
         (''admin_sync'', limiter ''route:admin:sync'' (cf_RateLimitAdminSyncPerMin cfg) (cf_RateLimitOutagePolicyAdminS cfg) subjectKey)])"

definition provideReadinessProbeRunner ::
    "gotime \<Rightarrow> Config \<Rightarrow> db_handle option \<Rightarrow> (duration \<Rightarrow> unit result) option \<Rightarrow> ProbeRunner" where
  "provideReadinessProbeRunner now cfg db redisClient =
     NewProbeRunner now (cf_ReadinessProbeTimeout cfg) (cf_ServerStartGracePeriod cfg)
       ((case NewDBChecker db of None \<Rightarrow> [] | Some c \<Rightarrow> [c]) @
        (if cf_RateLimitRedisEnabled cfg \<or> (cf_IdempotencyEnabled cfg \<and> cf_IdempotencyRedisEnabled cfg)
         then (case NewRedisChecker redisClient of None \<Rightarrow> [] | Some c \<Rightarrow> [c]) else []))"

end
