(* ===== verification/Production_Env.thy ===== *)
theory Production_Env
  imports Providers
begin

section \<open>What \<open>Load\<close> checked, and an environment that it accepts\<close>

text \<open>
  A configuration that \<open>Load\<close> returned has passed every group of checks, and the fields that are not
  durations are those read at first.  \<open>prod_os\<close> is an environment for production that \<open>Load\<close> accepts, and
  \<open>prod_cfg\<close> the configuration it gives.
\<close>

subsection \<open>What \<open>Load\<close> checked\<close>

lemma Load_Inr:
  "Load os = Inr cfg \<longleftrightarrow>
     Load_durations os (Load_steps1 @ Load_steps2 @ Load_steps3) (Load_values os) = Inr cfg \<and> Validate_errs os cfg = []"
  by (auto simp: Load_def Config_Validate_def Let_def split: sum.splits)

lemma Load_durations_keep:
  "Load_durations os ss cfg = Inr cfg' \<Longrightarrow> \<forall>(k, d, u) \<in> set ss. \<forall>g c. f (u g c) = f c \<Longrightarrow> f cfg' = f cfg"
  by (induction os ss cfg rule: Load_durations.induct) (auto split: sum.splits)

lemma Load_keeps:
  assumes "Load os = Inr cfg"
    and "\<forall>(k, d, u) \<in> set (Load_steps1 @ Load_steps2 @ Load_steps3). \<forall>g c. f (u g c) = f c"
  shows "f cfg = f (Load_values os)"
  using assms Load_durations_keep [of os "Load_steps1 @ Load_steps2 @ Load_steps3" "Load_values os" cfg f] by (simp only: Load_Inr)

lemmas load_steps = Load_steps1_def Load_steps2_def Load_steps3_def

lemma Load_outage_policies:
  assumes "Load os = Inr cfg"
  shows "cf_RateLimitOutagePolicyAuth cfg = cf_RateLimitOutagePolicyAuth (Load_values os)"
    "cf_RateLimitOutagePolicyForgot cfg = cf_RateLimitOutagePolicyForgot (Load_values os)"
    "cf_RateLimitOutagePolicyLogin cfg = cf_RateLimitOutagePolicyLogin (Load_values os)"
    "cf_RateLimitOutagePolicyAdminW cfg = cf_RateLimitOutagePolicyAdminW (Load_values os)"
    "cf_RateLimitOutagePolicyAdminS cfg = cf_RateLimitOutagePolicyAdminS (Load_values os)"
  by (rule Load_keeps [OF assms]; simp add: load_steps)+

lemma Load_valid:
  assumes "Load os = Inr cfg"
  shows "Validate_auth cfg = []" "Validate_limits cfg = []" "Validate_abuse os cfg = []" "Validate_caches cfg = []"
    "Validate_redis os cfg = []" "Validate_runtime cfg = []" "Validate_production cfg = []" "Validate_remote_redis cfg = []"
  using assms by (simp_all add: Load_Inr Validate_errs_def)

lemma prod_not_local: "isProdLike c \<Longrightarrow> \<not> isLocalLikeEnv (cf_Env c)"
  by (auto simp: isProdLike_def isLocalLikeEnv_def)


subsection \<open>A production environment\<close>

definition prod_os :: go_os where
  "prod_os = \<lparr>os_LookupEnv = map_of
     [(''APP_ENV'', ''production''), (''DATABASE_URL'', ''postgres://db/app''),
      (''JWT_ACCESS_SECRET'', ''aaaaaaaaaaaaaaaaaaaaaaaaaaaaaaaa''), (''JWT_REFRESH_SECRET'', ''bbbbbbbbbbbbbbbbbbbbbbbbbbbbbbbb''),
      (''REFRESH_TOKEN_PEPPER'', ''pppppppppppppppp''), (''OAUTH_STATE_SECRET'', ''ssssssssssssssss''),
      (''AUTH_GOOGLE_ENABLED'', ''false''), (''REDIS_ADDR'', ''redis:6379''), (''REDIS_USERNAME'', ''app''),
      (''REDIS_PASSWORD'', ''secret''), (''REDIS_TLS_ENABLED'', ''true''), (''REDIS_TLS_SERVER_NAME'', ''redis''),
      (''OTEL_TRACE_SAMPLING_RATIO'', ''0.1''), (''MINIO_ACCESS_KEY'', ''key''), (''MINIO_SECRET_KEY'', ''key''),
      (''MINIO_USE_SSL'', ''true'')],
     os_ReadFile = (\<lambda>_. None), os_AppendCertsFromPEM = (\<lambda>_. False),
     os_ParseFloat = (\<lambda>s. if s = ''0.1'' then Some (Fin (3602879701896397 / 36028797018963968)) else None), os_ParseCIDR = (\<lambda>_. None)\<rparr>"

lemma parse_literal:
  assumes "duration_unit u \<noteq> None" "ds \<noteq> []" "list_all is_digit ds" "digits_value ds * the (duration_unit u) < 2 ^ 63"
  shows "ParseDuration (ds @ u) = Inr (int (digits_value ds * the (duration_unit u)))"
  using assms ParseDuration_digits [of u "the (duration_unit u)" "digits_value ds" ds] by auto

lemma parse_defaults:
  shows "ParseDuration ''15m'' = Inr (minutes 15) \<and>
     ParseDuration ''168h'' = Inr (minutes 10080) \<and>
     ParseDuration ''30m'' = Inr (minutes 30) \<and>
     ParseDuration ''10s'' = Inr (seconds 10) \<and>
     ParseDuration ''1s'' = Inr (seconds 1) \<and>
     ParseDuration ''24h'' = Inr (minutes 1440) \<and>
     ParseDuration ''5m'' = Inr (minutes 5) \<and>
     ParseDuration ''30s'' = Inr (seconds 30) \<and>
     ParseDuration ''15s'' = Inr (seconds 15) \<and>
     ParseDuration ''1m'' = Inr (minutes 1) \<and>
     ParseDuration ''2s'' = Inr (seconds 2) \<and>
     ParseDuration ''5s'' = Inr (seconds 5) \<and>
     ParseDuration ''3s'' = Inr (seconds 3) \<and>
     ParseDuration ''8ms'' = Inr (milliseconds 8) \<and>
     ParseDuration ''512ms'' = Inr (milliseconds 512) \<and>
     ParseDuration ''4s'' = Inr (seconds 4) \<and>
     ParseDuration ''20s'' = Inr (seconds 20) \<and>
     ParseDuration ''8s'' = Inr (seconds 8)"
  using parse_literal [of "''m''" "''15''"] parse_literal [of "''h''" "''168''"] parse_literal [of "''m''" "''30''"] parse_literal [of "''s''" "''10''"]
    parse_literal [of "''s''" "''1''"] parse_literal [of "''h''" "''24''"] parse_literal [of "''m''" "''5''"] parse_literal [of "''s''" "''30''"]
    parse_literal [of "''s''" "''15''"] parse_literal [of "''m''" "''1''"] parse_literal [of "''s''" "''2''"] parse_literal [of "''s''" "''5''"]
    parse_literal [of "''s''" "''3''"] parse_literal [of "''ms''" "''8''"] parse_literal [of "''ms''" "''512''"] parse_literal [of "''s''" "''4''"]
    parse_literal [of "''s''" "''20''"] parse_literal [of "''s''" "''8''"]
  by (simp add: duration_unit_def is_digit_def digits_value_def)

definition prod_cfg :: Config where
  "prod_cfg = fold (\<lambda>(key, dflt, update). update (\<lambda>_. projr (ParseDuration dflt)))
     (Load_steps1 @ Load_steps2 @ Load_steps3) (Load_values prod_os)"

lemma prod_durations: "Load_durations prod_os (Load_steps1 @ Load_steps2 @ Load_steps3) (Load_values prod_os) = Inr prod_cfg"
  by (simp add: prod_cfg_def load_steps getEnv_def Getenv_def prod_os_def parse_defaults)

lemma prod_settings:
  shows "cf_Env prod_cfg = cf_Env (Load_values prod_os)"
    "cf_DatabaseURL prod_cfg = cf_DatabaseURL (Load_values prod_os)"
    "cf_JWTAccessSecret prod_cfg = cf_JWTAccessSecret (Load_values prod_os)"
    "cf_JWTRefreshSecret prod_cfg = cf_JWTRefreshSecret (Load_values prod_os)"
    "cf_RefreshTokenPepper prod_cfg = cf_RefreshTokenPepper (Load_values prod_os)"
    "cf_StateSigningSecret prod_cfg = cf_StateSigningSecret (Load_values prod_os)"
    "cf_CookieSecure prod_cfg = cf_CookieSecure (Load_values prod_os)"
    "cf_CookieSameSite prod_cfg = cf_CookieSameSite (Load_values prod_os)"
    "cf_GoogleClientID prod_cfg = cf_GoogleClientID (Load_values prod_os)"
    "cf_GoogleClientSecret prod_cfg = cf_GoogleClientSecret (Load_values prod_os)"
    "cf_AuthGoogleEnabled prod_cfg = cf_AuthGoogleEnabled (Load_values prod_os)"
    "cf_AuthLocalEnabled prod_cfg = cf_AuthLocalEnabled (Load_values prod_os)"
    "cf_AuthLocalRequireEmailVerification prod_cfg = cf_AuthLocalRequireEmailVerification (Load_values prod_os)"
    "cf_AuthPasswordForgotRateLimitPerMin prod_cfg = cf_AuthPasswordForgotRateLimitPerMin (Load_values prod_os)"
    "cf_RBACProtectedPermissions prod_cfg = cf_RBACProtectedPermissions (Load_values prod_os)"
    "cf_AuthRateLimitPerMin prod_cfg = cf_AuthRateLimitPerMin (Load_values prod_os)"
    "cf_APIRateLimitPerMin prod_cfg = cf_APIRateLimitPerMin (Load_values prod_os)"
    "cf_RateLimitLoginPerMin prod_cfg = cf_RateLimitLoginPerMin (Load_values prod_os)"
    "cf_RateLimitRefreshPerMin prod_cfg = cf_RateLimitRefreshPerMin (Load_values prod_os)"
    "cf_RateLimitAdminWritePerMin prod_cfg = cf_RateLimitAdminWritePerMin (Load_values prod_os)"
    "cf_RateLimitAdminSyncPerMin prod_cfg = cf_RateLimitAdminSyncPerMin (Load_values prod_os)"
    "cf_RateLimitBurstMultiplier prod_cfg = cf_RateLimitBurstMultiplier (Load_values prod_os)"
    "cf_RateLimitOutagePolicyAPI prod_cfg = cf_RateLimitOutagePolicyAPI (Load_values prod_os)"
    "cf_RateLimitOutagePolicyAuth prod_cfg = cf_RateLimitOutagePolicyAuth (Load_values prod_os)"
    "cf_RateLimitOutagePolicyForgot prod_cfg = cf_RateLimitOutagePolicyForgot (Load_values prod_os)"
    "cf_RateLimitOutagePolicyLogin prod_cfg = cf_RateLimitOutagePolicyLogin (Load_values prod_os)"
    "cf_RateLimitOutagePolicyRefresh prod_cfg = cf_RateLimitOutagePolicyRefresh (Load_values prod_os)"
    "cf_RateLimitOutagePolicyAdminW prod_cfg = cf_RateLimitOutagePolicyAdminW (Load_values prod_os)"
    "cf_RateLimitOutagePolicyAdminS prod_cfg = cf_RateLimitOutagePolicyAdminS (Load_values prod_os)"
    "cf_AuthAbuseProtectionEnabled prod_cfg = cf_AuthAbuseProtectionEnabled (Load_values prod_os)"
    "cf_AuthAbuseFreeAttempts prod_cfg = cf_AuthAbuseFreeAttempts (Load_values prod_os)"
    "cf_AuthAbuseMultiplier prod_cfg = cf_AuthAbuseMultiplier (Load_values prod_os)"
    "cf_BypassTrustedActors prod_cfg = cf_BypassTrustedActors (Load_values prod_os)"
    "cf_BypassTrustedActorCIDRs prod_cfg = cf_BypassTrustedActorCIDRs (Load_values prod_os)"
    "cf_BypassTrustedActorSubjects prod_cfg = cf_BypassTrustedActorSubjects (Load_values prod_os)"
    "cf_AdminListCacheEnabled prod_cfg = cf_AdminListCacheEnabled (Load_values prod_os)"
    "cf_NegativeLookupCacheEnabled prod_cfg = cf_NegativeLookupCacheEnabled (Load_values prod_os)"
    "cf_RBACPermissionCacheEnabled prod_cfg = cf_RBACPermissionCacheEnabled (Load_values prod_os)"
    "cf_FeatureFlagEvalCacheRedis prod_cfg = cf_FeatureFlagEvalCacheRedis (Load_values prod_os)"
    "cf_RateLimitRedisEnabled prod_cfg = cf_RateLimitRedisEnabled (Load_values prod_os)"
    "cf_IdempotencyEnabled prod_cfg = cf_IdempotencyEnabled (Load_values prod_os)"
    "cf_IdempotencyRedisEnabled prod_cfg = cf_IdempotencyRedisEnabled (Load_values prod_os)"
    "cf_IdempotencyDBCleanupEnabled prod_cfg = cf_IdempotencyDBCleanupEnabled (Load_values prod_os)"
    "cf_IdempotencyDBCleanupBatch prod_cfg = cf_IdempotencyDBCleanupBatch (Load_values prod_os)"
    "cf_RedisKeyNamespace prod_cfg = cf_RedisKeyNamespace (Load_values prod_os)"
    "cf_RedisAddr prod_cfg = cf_RedisAddr (Load_values prod_os)"
    "cf_RedisUsername prod_cfg = cf_RedisUsername (Load_values prod_os)"
    "cf_RedisPassword prod_cfg = cf_RedisPassword (Load_values prod_os)"
    "cf_RedisTLSEnabled prod_cfg = cf_RedisTLSEnabled (Load_values prod_os)"
    "cf_RedisTLSServerName prod_cfg = cf_RedisTLSServerName (Load_values prod_os)"
    "cf_RedisTLSCACertFile prod_cfg = cf_RedisTLSCACertFile (Load_values prod_os)"
    "cf_RedisTLSInsecureSkipVerify prod_cfg = cf_RedisTLSInsecureSkipVerify (Load_values prod_os)"
    "cf_RedisMaxRetries prod_cfg = cf_RedisMaxRetries (Load_values prod_os)"
    "cf_RedisPoolSize prod_cfg = cf_RedisPoolSize (Load_values prod_os)"
    "cf_RedisMinIdleConns prod_cfg = cf_RedisMinIdleConns (Load_values prod_os)"
    "cf_OTELExporterOTLPEndpoint prod_cfg = cf_OTELExporterOTLPEndpoint (Load_values prod_os)"
    "cf_OTELTraceSamplingRatio prod_cfg = cf_OTELTraceSamplingRatio (Load_values prod_os)"
    "cf_OTELMetricsEnabled prod_cfg = cf_OTELMetricsEnabled (Load_values prod_os)"
    "cf_OTELTracingEnabled prod_cfg = cf_OTELTracingEnabled (Load_values prod_os)"
    "cf_OTELLogsEnabled prod_cfg = cf_OTELLogsEnabled (Load_values prod_os)"
    "cf_OTELLogLevel prod_cfg = cf_OTELLogLevel (Load_values prod_os)"
    "cf_MinIOEndpoint prod_cfg = cf_MinIOEndpoint (Load_values prod_os)"
    "cf_MinIOAccessKey prod_cfg = cf_MinIOAccessKey (Load_values prod_os)"
    "cf_MinIOSecretKey prod_cfg = cf_MinIOSecretKey (Load_values prod_os)"
    "cf_MinIOBucketName prod_cfg = cf_MinIOBucketName (Load_values prod_os)"
    "cf_MinIOUseSSL prod_cfg = cf_MinIOUseSSL (Load_values prod_os)"
  by (simp_all add: prod_cfg_def load_steps)

lemma Load_values_settings:
  shows "cf_Env (Load_values os) = getEnv os ''APP_ENV'' ''development''"
    "cf_DatabaseURL (Load_values os) = Getenv os ''DATABASE_URL''"
    "cf_JWTAccessSecret (Load_values os) = Getenv os ''JWT_ACCESS_SECRET''"
    "cf_JWTRefreshSecret (Load_values os) = Getenv os ''JWT_REFRESH_SECRET''"
    "cf_RefreshTokenPepper (Load_values os) = Getenv os ''REFRESH_TOKEN_PEPPER''"
    "cf_StateSigningSecret (Load_values os) = Getenv os ''OAUTH_STATE_SECRET''"
    "cf_CookieSecure (Load_values os) = getEnvBool os ''COOKIE_SECURE'' True"
    "cf_CookieSameSite (Load_values os) = ToLower (getEnv os ''COOKIE_SAMESITE'' ''lax'')"
    "cf_GoogleClientID (Load_values os) = Getenv os ''GOOGLE_OAUTH_CLIENT_ID''"
    "cf_GoogleClientSecret (Load_values os) = Getenv os ''GOOGLE_OAUTH_CLIENT_SECRET''"
    "cf_AuthGoogleEnabled (Load_values os) = Load_googleEnabled os (getEnv os ''APP_ENV'' ''development'') (Getenv os ''GOOGLE_OAUTH_CLIENT_ID'') (Getenv os ''GOOGLE_OAUTH_CLIENT_SECRET'')"
    "cf_AuthLocalEnabled (Load_values os) = getEnvBool os ''AUTH_LOCAL_ENABLED'' True"
    "cf_AuthLocalRequireEmailVerification (Load_values os) = getEnvBool os ''AUTH_LOCAL_REQUIRE_EMAIL_VERIFICATION'' False"
    "cf_AuthPasswordForgotRateLimitPerMin (Load_values os) = getEnvInt os ''AUTH_PASSWORD_FORGOT_RATE_LIMIT_PER_MIN'' 5"
    "cf_RBACProtectedPermissions (Load_values os) = splitCSV (getEnv os ''RBAC_PROTECTED_PERMISSIONS'' ''users:read,users:write,roles:read,roles:write,permissions:read,permissions:write'')"
    "cf_AuthRateLimitPerMin (Load_values os) = getEnvInt os ''AUTH_RATE_LIMIT_PER_MIN'' 30"
    "cf_APIRateLimitPerMin (Load_values os) = getEnvInt os ''API_RATE_LIMIT_PER_MIN'' 120"
    "cf_RateLimitLoginPerMin (Load_values os) = getEnvInt os ''RATE_LIMIT_LOGIN_PER_MIN'' 20"
    "cf_RateLimitRefreshPerMin (Load_values os) = getEnvInt os ''RATE_LIMIT_REFRESH_PER_MIN'' 30"
    "cf_RateLimitAdminWritePerMin (Load_values os) = getEnvInt os ''RATE_LIMIT_ADMIN_WRITE_PER_MIN'' 30"
    "cf_RateLimitAdminSyncPerMin (Load_values os) = getEnvInt os ''RATE_LIMIT_ADMIN_SYNC_PER_MIN'' 10"
    "cf_RateLimitBurstMultiplier (Load_values os) = getEnvFloat os ''RATE_LIMIT_BURST_MULTIPLIER'' (Fin (3/2))"
    "cf_RateLimitOutagePolicyAPI (Load_values os) = ToLower (TrimSpace (getEnv os ''RATE_LIMIT_REDIS_OUTAGE_POLICY_API'' ''fail_open''))"
    "cf_RateLimitOutagePolicyAuth (Load_values os) = ToLower (TrimSpace (getEnv os ''RATE_LIMIT_REDIS_OUTAGE_POLICY_AUTH'' ''fail_closed''))"
    "cf_RateLimitOutagePolicyForgot (Load_values os) = ToLower (TrimSpace (getEnv os ''RATE_LIMIT_REDIS_OUTAGE_POLICY_FORGOT'' ''fail_closed''))"
    "cf_RateLimitOutagePolicyLogin (Load_values os) = ToLower (TrimSpace (getEnv os ''RATE_LIMIT_REDIS_OUTAGE_POLICY_ROUTE_LOGIN'' ''fail_closed''))"
    "cf_RateLimitOutagePolicyRefresh (Load_values os) = ToLower (TrimSpace (getEnv os ''RATE_LIMIT_REDIS_OUTAGE_POLICY_ROUTE_REFRESH'' ''fail_closed''))"
    "cf_RateLimitOutagePolicyAdminW (Load_values os) = ToLower (TrimSpace (getEnv os ''RATE_LIMIT_REDIS_OUTAGE_POLICY_ROUTE_ADMIN_WRITE'' ''fail_closed''))"
    "cf_RateLimitOutagePolicyAdminS (Load_values os) = ToLower (TrimSpace (getEnv os ''RATE_LIMIT_REDIS_OUTAGE_POLICY_ROUTE_ADMIN_SYNC'' ''fail_closed''))"
    "cf_AuthAbuseProtectionEnabled (Load_values os) = getEnvBool os ''AUTH_ABUSE_PROTECTION_ENABLED'' True"
    "cf_AuthAbuseFreeAttempts (Load_values os) = getEnvInt os ''AUTH_ABUSE_FREE_ATTEMPTS'' 3"
    "cf_AuthAbuseMultiplier (Load_values os) = getEnvFloat os ''AUTH_ABUSE_MULTIPLIER'' (Fin 2)"
    "cf_BypassTrustedActors (Load_values os) = getEnvBool os ''AUTH_BYPASS_TRUSTED_ACTORS'' False"
    "cf_BypassTrustedActorCIDRs (Load_values os) = splitCSV (getEnv os ''AUTH_BYPASS_TRUSTED_ACTOR_CIDRS'' [])"
    "cf_BypassTrustedActorSubjects (Load_values os) = splitCSV (getEnv os ''AUTH_BYPASS_TRUSTED_ACTOR_SUBJECTS'' [])"
    "cf_AdminListCacheEnabled (Load_values os) = getEnvBool os ''ADMIN_LIST_CACHE_ENABLED'' True"
    "cf_NegativeLookupCacheEnabled (Load_values os) = getEnvBool os ''NEGATIVE_LOOKUP_CACHE_ENABLED'' True"
    "cf_RBACPermissionCacheEnabled (Load_values os) = getEnvBool os ''RBAC_PERMISSION_CACHE_ENABLED'' True"
    "cf_FeatureFlagEvalCacheRedis (Load_values os) = getEnvBool os ''FEATURE_FLAG_EVAL_CACHE_REDIS_ENABLED'' True"
    "cf_RateLimitRedisEnabled (Load_values os) = getEnvBool os ''RATE_LIMIT_REDIS_ENABLED'' True"
    "cf_IdempotencyEnabled (Load_values os) = getEnvBool os ''IDEMPOTENCY_ENABLED'' True"
    "cf_IdempotencyRedisEnabled (Load_values os) = getEnvBool os ''IDEMPOTENCY_REDIS_ENABLED'' True"
    "cf_IdempotencyDBCleanupEnabled (Load_values os) = getEnvBool os ''IDEMPOTENCY_DB_CLEANUP_ENABLED'' True"
    "cf_IdempotencyDBCleanupBatch (Load_values os) = getEnvInt os ''IDEMPOTENCY_DB_CLEANUP_BATCH_SIZE'' 500"
    "cf_RedisKeyNamespace (Load_values os) = getEnv os ''REDIS_KEY_NAMESPACE'' ''v1''"
    "cf_RedisAddr (Load_values os) = getEnv os ''REDIS_ADDR'' ''localhost:6379''"
    "cf_RedisUsername (Load_values os) = TrimSpace (Getenv os ''REDIS_USERNAME'')"
    "cf_RedisPassword (Load_values os) = Getenv os ''REDIS_PASSWORD''"
    "cf_RedisTLSEnabled (Load_values os) = getEnvBool os ''REDIS_TLS_ENABLED'' False"
    "cf_RedisTLSServerName (Load_values os) = TrimSpace (Getenv os ''REDIS_TLS_SERVER_NAME'')"
    "cf_RedisTLSCACertFile (Load_values os) = TrimSpace (Getenv os ''REDIS_TLS_CA_CERT_FILE'')"
    "cf_RedisTLSInsecureSkipVerify (Load_values os) = getEnvBool os ''REDIS_TLS_INSECURE_SKIP_VERIFY'' False"
    "cf_RedisMaxRetries (Load_values os) = getEnvInt os ''REDIS_MAX_RETRIES'' 3"
    "cf_RedisPoolSize (Load_values os) = getEnvInt os ''REDIS_POOL_SIZE'' 10"
    "cf_RedisMinIdleConns (Load_values os) = getEnvInt os ''REDIS_MIN_IDLE_CONNS'' 2"
    "cf_OTELExporterOTLPEndpoint (Load_values os) = getEnv os ''OTEL_EXPORTER_OTLP_ENDPOINT'' ''localhost:4317''"
    "cf_OTELTraceSamplingRatio (Load_values os) = getEnvFloat os ''OTEL_TRACE_SAMPLING_RATIO'' (Fin 1)"
    "cf_OTELMetricsEnabled (Load_values os) = getEnvBool os ''OTEL_METRICS_ENABLED'' True"
    "cf_OTELTracingEnabled (Load_values os) = getEnvBool os ''OTEL_TRACING_ENABLED'' True"
    "cf_OTELLogsEnabled (Load_values os) = getEnvBool os ''OTEL_LOGS_ENABLED'' True"
    "cf_OTELLogLevel (Load_values os) = ToLower (getEnv os ''OTEL_LOG_LEVEL'' ''info'')"
    "cf_MinIOEndpoint (Load_values os) = getEnv os ''MINIO_ENDPOINT'' ''localhost:9000''"
    "cf_MinIOAccessKey (Load_values os) = Getenv os ''MINIO_ACCESS_KEY''"
    "cf_MinIOSecretKey (Load_values os) = Getenv os ''MINIO_SECRET_KEY''"
    "cf_MinIOBucketName (Load_values os) = getEnv os ''MINIO_BUCKET_NAME'' ''avatars''"
    "cf_MinIOUseSSL (Load_values os) = getEnvBool os ''MINIO_USE_SSL'' False"
  by (simp_all only: Load_values_def Let_def Config.select_convs)

lemma prod_durations_read:
  shows "cf_JWTAccessTTL prod_cfg = minutes 15"
    "cf_JWTRefreshTTL prod_cfg = minutes 10080"
    "cf_AuthEmailVerifyTokenTTL prod_cfg = minutes 30"
    "cf_AuthPasswordResetTokenTTL prod_cfg = minutes 15"
    "cf_OTELMetricsExportInterval prod_cfg = seconds 10"
    "cf_ReadinessProbeTimeout prod_cfg = seconds 1"
    "cf_IdempotencyTTL prod_cfg = minutes 1440"
    "cf_IdempotencyDBCleanupInterval prod_cfg = minutes 5"
    "cf_AdminListCacheTTL prod_cfg = seconds 30"
    "cf_NegativeLookupCacheTTL prod_cfg = seconds 15"
    "cf_RBACPermissionCacheTTL prod_cfg = minutes 5"
    "cf_RateLimitSustainedWindow prod_cfg = minutes 1"
    "cf_AuthAbuseBaseDelay prod_cfg = seconds 2"
    "cf_AuthAbuseMaxDelay prod_cfg = minutes 5"
    "cf_AuthAbuseResetWindow prod_cfg = minutes 30"
    "cf_RedisDialTimeout prod_cfg = seconds 5"
    "cf_RedisReadTimeout prod_cfg = seconds 3"
    "cf_RedisWriteTimeout prod_cfg = seconds 3"
    "cf_RedisMinRetryBackoff prod_cfg = milliseconds 8"
    "cf_RedisMaxRetryBackoff prod_cfg = milliseconds 512"
    "cf_RedisPoolTimeout prod_cfg = seconds 4"
    "cf_ShutdownTimeout prod_cfg = seconds 20"
    "cf_ShutdownHTTPDrainTimeout prod_cfg = seconds 10"
    "cf_ShutdownObservabilityTimeout prod_cfg = seconds 8"
  by (simp_all add: prod_cfg_def load_steps parse_defaults)

lemmas prod_eval = prod_settings prod_durations_read Load_values_settings getEnv_def Getenv_def prod_os_def Let_def
  getEnvBool_def getEnvInt_def getEnvFloat_def ParseBool_def TrimSpace_def is_space_def ToLower_def lower_char_def

lemma prod_valid_auth: "Validate_auth prod_cfg = []"
  by (simp add: Validate_auth_def prod_eval Load_googleEnabled_def splitCSV_def resource_action_token_def split_colon_def)

lemma prod_valid_limits: "Validate_limits prod_cfg = []"
  by (simp add: Validate_limits_def prod_eval isValidRateLimitOutagePolicy_def)

lemma prod_valid_abuse: "Validate_abuse prod_os prod_cfg = []"
  by (simp add: Validate_abuse_def prod_eval splitCSV_def)

lemma prod_valid_caches: "Validate_caches prod_cfg = []"
  by (simp add: Validate_caches_def prod_eval redisNamespacePattern_def alphanumeric_def char_between_def is_digit_def)

lemma prod_valid_redis: "Validate_redis prod_os prod_cfg = []"
  by (simp add: Validate_redis_def prod_eval)

lemma prod_valid_runtime: "Validate_runtime prod_cfg = []"
  by (simp add: Validate_runtime_def prod_eval isValidLogLevel_def)

lemma prod_valid_remote: "Validate_remote_redis prod_cfg = []"
  by (simp add: Validate_remote_redis_def prod_eval)

lemma prod_like: "isProdLike prod_cfg"
  by (simp add: isProdLike_def prod_eval)

lemma prod_placeholders:
  "\<not> looksPlaceholder (cf_JWTAccessSecret prod_cfg)" "\<not> looksPlaceholder (cf_JWTRefreshSecret prod_cfg)"
  "\<not> looksPlaceholder (cf_RefreshTokenPepper prod_cfg)" "\<not> looksPlaceholder (cf_StateSigningSecret prod_cfg)"
  by (simp_all add: looksPlaceholder_def prod_eval Contains_def sublist_code)

lemma prod_valid_production: "Validate_production prod_cfg = []"
  by (simp add: Validate_production_def prod_like prod_placeholders)
    (simp add: prod_eval isLoopbackAddr_def HasPrefix_def EqualFold_def stringFailOpen_def)

lemma Load_prod: "Load prod_os = Inr prod_cfg"
  by (simp add: Load_Inr prod_durations Validate_errs_def prod_valid_auth prod_valid_limits prod_valid_abuse prod_valid_caches
      prod_valid_redis prod_valid_runtime prod_valid_production prod_valid_remote)

end
