(* ===== verification/Production.thy ===== *)
theory Production
  imports Production_Env
begin

section \<open>What a loaded configuration guarantees\<close>

text \<open>
  \<open>Load\<close> and the providers together: the settings that a production environment cannot switch off, the
  limiters during an outage of Redis, and the ranges of the policies.
\<close>

subsection \<open>Production\<close>

text \<open>
  C33: In a production-like environment nothing starts with weak settings.  If \<open>Load\<close> succeeds, then the
  session cookies are \<open>Secure\<close> and never \<open>SameSite=None\<close>; the tokens are signed with two different
  secrets of at least 32 bytes that are no placeholders; and the Redis client exists, has a password, is
  not on a loopback address and speaks TLS with a verified server name.
\<close>

theorem production_is_hardened:
  assumes "Load os = Inr cfg" "isProdLike cfg"
  shows "(\<forall>k \<in> set (SetTokenCookies (provideCookieManager cfg) access refresh csrf ttl).
            ck_Secure k \<and> ck_SameSite k \<noteq> SameSiteNoneMode)
     \<and> (let jm = provideJWTManager cfg in
          32 \<le> length (jm_accessSecret jm) \<and> 32 \<le> length (jm_refreshSecret jm) \<and> jm_accessSecret jm \<noteq> jm_refreshSecret jm
          \<and> \<not> looksPlaceholder (jm_accessSecret jm) \<and> \<not> looksPlaceholder (jm_refreshSecret jm))
     \<and> (\<exists>opts tls. provideRedisClient os cfg = Some opts \<and> ro_TLSConfig opts = Some tls
          \<and> \<not> tc_InsecureSkipVerify tls \<and> tc_ServerName tls \<noteq> [] \<and> TrimSpace (ro_Password opts) \<noteq> []
          \<and> \<not> isLoopbackAddr (ro_Addr opts))"
proof -
  note valid = Load_valid [OF assms(1)] and remote = prod_not_local [OF assms(2)]
  have prod: "cf_CookieSecure cfg" "cf_CookieSameSite cfg \<in> {''lax'', ''strict''}" "cf_RateLimitRedisEnabled cfg"
      "\<not> isLoopbackAddr (cf_RedisAddr cfg)" "\<not> looksPlaceholder (cf_JWTAccessSecret cfg)" "\<not> looksPlaceholder (cf_JWTRefreshSecret cfg)"
    using valid(7) assms(2) by (simp_all add: Validate_production_def)
  have secrets: "32 \<le> length (cf_JWTAccessSecret cfg)" "32 \<le> length (cf_JWTRefreshSecret cfg)" "cf_JWTAccessSecret cfg \<noteq> cf_JWTRefreshSecret cfg"
    using valid(1) by (simp_all add: Validate_auth_def)
  have redis: "TrimSpace (cf_RedisPassword cfg) \<noteq> []" "cf_RedisTLSEnabled cfg" "TrimSpace (cf_RedisTLSServerName cfg) \<noteq> []"
      "\<not> cf_RedisTLSInsecureSkipVerify cfg"
    using valid(8) remote prod(3) by (simp_all add: Validate_remote_redis_def redisRequired_def)
  have "ck_Secure k \<and> ck_SameSite k \<noteq> SameSiteNoneMode"
    if "k \<in> set (SetTokenCookies (provideCookieManager cfg) access refresh csrf ttl)" for k
    using that prod(1,2)
    by (auto simp: provideCookieManager_def NewCookieManager_def SetTokenCookies_def cookie_of_def ToLower_def lower_char_def Let_def)
  then show ?thesis
    using prod secrets redis
    by (auto simp: provideJWTManager_def provideRedisClient_def redis_tls_config_def Let_def)
qed

theorem production_is_hardened_witness:
  "Load prod_os = Inr prod_cfg \<and> isProdLike prod_cfg
   \<and> (\<exists>opts tls. provideRedisClient prod_os prod_cfg = Some opts \<and> ro_TLSConfig opts = Some tls
        \<and> \<not> tc_InsecureSkipVerify tls \<and> tc_ServerName tls \<noteq> [])"
  using production_is_hardened [OF Load_prod prod_like] Load_prod prod_like by blast

subsection \<open>Outages\<close>

lemma FailClosed_refuses:
  assumes "rl_mode rl = FailClosed" "case rl_bypass rl of None \<Rightarrow> True | Some f \<Rightarrow> \<not> fst (f r)"
    and "rl_allow rl (rl_key rl ipKey r) (rl_policy rl) s = (Inl e, s')"
  shows "\<exists>resp. RateLimiter_Middleware rl ipKey now reqID next_h r hs (s, w) = (resp, (s', w)) \<and> rs_Status resp = 429"
  using assms by (auto simp: RateLimiter_Middleware_def rl_key_def Let_def response_Error_def split: option.splits if_splits)

lemma limiter_for_simps [simp]:
  "rl_mode (limiter_for N lb conv cfg rc sfx limit mode localMode keyFunc byp)
     = (if cf_RateLimitRedisEnabled cfg \<and> rc \<noteq> None then mode else localMode)"
  "rl_bypass (limiter_for N lb conv cfg rc sfx limit mode localMode keyFunc byp) = byp"
  "rl_policy (limiter_for N lb conv cfg rc sfx limit mode localMode keyFunc byp)
     = normalizePolicy (toRateLimitPolicy conv limit cfg)"
  by (auto simp: limiter_for_def WithBypassEvaluator_def NewDistributedRateLimiterWithKeyAndPolicy_def Let_def)

text \<open>The strings of \<open>Load\<close> are trimmed and in lower case, so that refusing \<open>fail_open\<close> leaves \<open>FailClosed\<close>.\<close>

lemma not_fail_open:
  "\<not> EqualFold (ToLower (TrimSpace v)) stringFailOpen \<Longrightarrow>
   toRateLimitFailureMode (ToLower (TrimSpace v)) FailClosed = FailClosed"
proof -
  have "ToLower ''fail_open'' = ''fail_open''" by (simp add: ToLower_def lower_char_def)
  then show "\<not> EqualFold (ToLower (TrimSpace v)) stringFailOpen \<Longrightarrow> ?thesis"
    by (simp add: EqualFold_def stringFailOpen_def toRateLimitFailureMode_def Let_def TrimSpace_ToLower)
qed

lemma production_modes:
  assumes "Load os = Inr cfg" "isProdLike cfg"
  shows "toRateLimitFailureMode (cf_RateLimitOutagePolicyAuth cfg) FailClosed = FailClosed"
    "toRateLimitFailureMode (cf_RateLimitOutagePolicyForgot cfg) FailClosed = FailClosed"
    "toRateLimitFailureMode (cf_RateLimitOutagePolicyLogin cfg) FailClosed = FailClosed"
    "toRateLimitFailureMode (cf_RateLimitOutagePolicyAdminW cfg) FailClosed = FailClosed"
    "toRateLimitFailureMode (cf_RateLimitOutagePolicyAdminS cfg) FailClosed = FailClosed"
  using Load_valid(7) [OF assms(1)] assms(2) Load_outage_policies [OF assms(1)]
  by (simp_all add: Validate_production_def Load_values_settings not_fail_open)

text \<open>
  C34: In production five of the limiters stay shut when Redis is out: a request that is not exempt and
  whose limiter cannot be asked is answered 429 and does not reach the handler, for the general limiter of
  the authentication routes, the one of forgotten passwords, and those of login, of administrative writes
  and of the synchronisation of roles.  The limiter of \<open>/auth/refresh\<close> is not among them, nor the global
  one: their outage policies may be \<open>fail_open\<close> in production, too.
\<close>

theorem production_limiters_fail_closed:
  assumes "Load os = Inr cfg" "isProdLike cfg"
    and "rl = provideAuthRateLimiter N lb conv cfg rc byp \<or> rl = provideForgotRateLimiter N lb conv cfg rc byp
       \<or> (\<exists>name \<in> {''login'', ''admin_write'', ''admin_sync''}.
            provideRouteRateLimitPolicies N L at_t lb conv cfg rc jwt byp name = Some rl)"
    and "case byp of None \<Rightarrow> True | Some f \<Rightarrow> \<not> fst (f r)"
    and "rl_allow rl (rl_key rl (clientIPKey N) r) (rl_policy rl) s = (Inl e, s')"
  shows "\<exists>resp. RateLimiter_Middleware rl (clientIPKey N) now reqID next_h r hs (s, w) = (resp, (s', w)) \<and> rs_Status resp = 429"
proof -
  have "rl_mode rl = FailClosed \<and> rl_bypass rl = byp"
    using assms(3) production_modes [OF assms(1,2)]
    by (auto simp: provideAuthRateLimiter_def provideForgotRateLimiter_def provideRouteRateLimitPolicies_def
        buildRoutePolicyLimiter_def Let_def)
  then show ?thesis using FailClosed_refuses assms(4,5) by metis
qed

definition down_backends :: "unit limiter_backends" where
  "down_backends = \<lparr>lb_redis = (\<lambda>_ _ _ s. (Inl (External ''redis: connection refused''), s)),
     lb_local = (\<lambda>_ _ s. (Inl (External ''redis: connection refused''), s))\<rparr>"

theorem production_limiters_fail_closed_witness:
  "\<exists>resp. RateLimiter_Middleware
      (provideAuthRateLimiter \<lparr>net_ParseIP = (\<lambda>_. None), net_IP_String = id, net_ParseCIDR = (\<lambda>_. None)\<rparr> down_backends (\<lambda>_. 1) prod_cfg
         (provideRedisClient prod_os prod_cfg) None)
      (clientIPKey \<lparr>net_ParseIP = (\<lambda>_. None), net_IP_String = id, net_ParseCIDR = (\<lambda>_. None)\<rparr>) 0 []
      (\<lambda>_ _ n. (\<lparr>rs_Status = 200, rs_Headers = [], rs_Body = NoBody\<rparr>, n + 1)) (demo_request ''POST'') [] ((), 0 :: nat)
    = (resp, ((), 0)) \<and> rs_Status resp = 429"
  by (rule production_limiters_fail_closed [OF Load_prod prod_like disjI1 [OF refl], where e = "External ''redis: connection refused''"])
    (simp_all add: provideAuthRateLimiter_def limiter_for_def WithBypassEvaluator_def
      NewDistributedRateLimiterWithKeyAndPolicy_def down_backends_def Let_def)

subsection \<open>Policies\<close>










text \<open>
  The finiteness matters: every comparison with NaN is false, so the checks of the two multipliers let
  it through.
\<close>

lemma NaN_multiplier_is_accepted:
  assumes "Validate_errs os cfg = []"
  shows "Validate_errs os (cfg\<lparr>cf_AuthAbuseMultiplier := NaN, cf_RateLimitBurstMultiplier := NaN\<rparr>) = []"
proof -
  let ?c = "cfg\<lparr>cf_AuthAbuseMultiplier := NaN, cf_RateLimitBurstMultiplier := NaN\<rparr>"
  have "Validate_auth ?c = Validate_auth cfg" by (simp add: Validate_auth_def)
  moreover have "Validate_caches ?c = Validate_caches cfg" by (simp add: Validate_caches_def redisRequired_def)
  moreover have "Validate_redis os ?c = Validate_redis os cfg" by (simp add: Validate_redis_def)
  moreover have "Validate_runtime ?c = Validate_runtime cfg" by (simp add: Validate_runtime_def)
  moreover have "Validate_production ?c = Validate_production cfg" by (simp add: Validate_production_def isProdLike_def)
  moreover have "Validate_remote_redis ?c = Validate_remote_redis cfg" by (simp add: Validate_remote_redis_def redisRequired_def)
  moreover have "Validate_limits cfg = [] \<Longrightarrow> Validate_limits ?c = []" by (simp add: Validate_limits_def)
  moreover have "Validate_abuse os cfg = [] \<Longrightarrow> Validate_abuse os ?c = []" by (simp add: Validate_abuse_def)
  ultimately show ?thesis using assms unfolding Validate_errs_def append_is_Nil_conv by simp
qed

end
