(* ===== verification/Router.thy ===== *)
theory Router
  imports Rbac Health
begin

section \<open>The routes: \<open>router.go\<close>\<close>

text \<open>
  \<open>NewRouter\<close> registers every endpoint with the middleware in front of it.  The registration is kept as
  data: a tree with the calls \<open>Route\<close>, \<open>Group\<close>, \<open>Use\<close> and \<open>With\<close> of the source, flattened to a list of routes
  with the guards of each from the outside in, and \<open>run_guard\<close> gives each guard its middleware.

  The chi library and what is configured from outside are the record \<open>chi\<close> and the fields of
  \<open>Dependencies\<close>, which are functions there as they are in the source: the middleware \<open>RealIP\<close>, \<open>Recoverer\<close>
  and \<open>RequestID\<close>, the request logger, the tracing wrapper, and the matching of a path, which gives the
  number of the matched route and the values of its parameters.  \<open>newLimiter name n\<close> is a limiter of its own of \<open>n\<close>
  requests a minute, used where no limiter is configured.
\<close>

type_synonym 'w mw = "'w handler \<Rightarrow> 'w handler"

datatype endpoint =
    HealthLive | HealthReady
  | GoogleLogin | GoogleCallback | LocalRegister | LocalLogin | LocalVerifyRequest | LocalVerifyConfirm
  | LocalPasswordForgot | LocalPasswordReset | Refresh | Logout | LocalChangePassword
  | Me | EvaluateAll | EvaluateOne
  | ProductList | ProductGetByID | ProductCreate | ProductUpdate | ProductDelete
  | Sessions | RevokeSession | RevokeOtherSessions | UploadAvatar | DeleteAvatar
  | ListUsers | SetUserRoles | ListRoles | CreateRole | UpdateRole | DeleteRole
  | ListPermissions | CreatePermission | UpdatePermission | DeletePermission | SyncRBAC
  | ListFlags | GetFlag | CreateFlag | UpdateFlag | DeleteFlag | ListRules | CreateRule | UpdateRule | DeleteRule

record 'w Dependencies =
  dep_handler :: "endpoint \<Rightarrow> 'w handler"
  dep_JWTManager :: jwt_manager
  dep_PermissionResolver :: "(claims option \<Rightarrow> 'w \<Rightarrow> string list result \<times> 'w) option"
  dep_CORSOrigins :: "string list"
  dep_AuthRateLimitRPM :: int
  dep_PasswordForgotRateLimitRPM :: int
  dep_APIRateLimitRPM :: int
  dep_GlobalRateLimiter :: "'w mw option"
  dep_AuthRateLimiter :: "'w mw option"
  dep_ForgotRateLimiter :: "'w mw option"
  dep_RouteRateLimitPolicies :: "string \<Rightarrow> 'w mw option"
  dep_Idempotency :: "(string \<Rightarrow> 'w mw) option"
  dep_Readiness :: "ProbeRunner option"
  dep_EnableOTelHTTP :: bool

record 'w chi =
  chi_RealIP :: "'w mw"
  chi_Recoverer :: "'w mw"
  chi_RequestID :: "'w mw"
  chi_Logger :: "'w mw"
  chi_OTel :: "'w mw"
  chi_match :: "(string \<times> string) list \<Rightarrow> string \<Rightarrow> string \<Rightarrow> (nat \<times> (string \<times> string) list) option"
  chi_NotFound :: "'w handler"
  newLimiter :: "string \<Rightarrow> int \<Rightarrow> 'w mw"
  jwt_lib :: jwtlib
  req_now :: gotime
  req_id :: string
  json_text :: "json \<Rightarrow> string"

subsection \<open>The tree of routes\<close>

datatype guard =
    AuthLimiter
  | ForgotLimiter
  | RoutePolicy string "guard option"
  | Idem string
  | CSRF
  | Authn
  | Perm string
  | Body nat

datatype node =
    Handle "guard list" string string endpoint
  | Group "guard list" "node list"
  | Route string "guard list" "node list"

record route =
  rt_Method :: string
  rt_Pattern :: string
  rt_Guards :: "guard list"
  rt_Endpoint :: endpoint

fun routes_of :: "string \<Rightarrow> guard list \<Rightarrow> node \<Rightarrow> route list" where
  "routes_of pfx gs (Handle own meth pattern e) =
     [\<lparr>rt_Method = meth, rt_Pattern = pfx @ pattern, rt_Guards = gs @ own, rt_Endpoint = e\<rparr>]"
| "routes_of pfx gs (Group use ns) = concat (map (routes_of pfx (gs @ use)) ns)"
| "routes_of pfx gs (Route path use ns) = concat (map (routes_of (pfx @ path) (gs @ use)) ns)"

definition idem_chain :: "'w Dependencies \<Rightarrow> string \<Rightarrow> guard list" where
  "idem_chain dep scope = (if dep_Idempotency dep = None then [] else [Idem scope])"

definition health_routes :: "node list" where
  "health_routes = [Handle [] ''GET'' ''/health/live'' HealthLive, Handle [] ''GET'' ''/health/ready'' HealthReady]"

definition auth_routes :: "'w Dependencies \<Rightarrow> node" where
  "auth_routes dep = Route ''/auth'' []
     [Handle [AuthLimiter] ''GET'' ''/google/login'' GoogleLogin,
      Handle [AuthLimiter] ''GET'' ''/google/callback'' GoogleCallback,
      Handle (AuthLimiter # idem_chain dep ''auth.local.register'') ''POST'' ''/local/register'' LocalRegister,
      Handle [RoutePolicy ''login'' (Some AuthLimiter)] ''POST'' ''/local/login'' LocalLogin,
      Handle [AuthLimiter] ''POST'' ''/local/verify/request'' LocalVerifyRequest,
      Handle [AuthLimiter] ''POST'' ''/local/verify/confirm'' LocalVerifyConfirm,
      Handle (ForgotLimiter # idem_chain dep ''auth.local.password.forgot'') ''POST'' ''/local/password/forgot'' LocalPasswordForgot,
      Handle [AuthLimiter] ''POST'' ''/local/password/reset'' LocalPasswordReset,
      Group [CSRF]
        [Handle [RoutePolicy ''refresh'' (Some AuthLimiter)] ''POST'' ''/refresh'' Refresh,
         Handle [Authn] ''POST'' ''/logout'' Logout,
         Handle [Authn, AuthLimiter] ''POST'' ''/local/change-password'' LocalChangePassword]]"

definition product_routes :: node where
  "product_routes = Route ''/products'' [Authn]
     [Group [Perm ''products:read'']
        [Handle [] ''GET'' ''/'' ProductList, Handle [] ''GET'' ''/{id}'' ProductGetByID],
      Group [Perm ''products:write'']
        [Handle [] ''POST'' ''/'' ProductCreate, Handle [] ''PUT'' ''/{id}'' ProductUpdate],
      Group [Perm ''products:delete'']
        [Handle [] ''DELETE'' ''/{id}'' ProductDelete]]"

definition me_routes :: "node list" where
  "me_routes =
     [Handle [Authn] ''GET'' ''/me/sessions'' Sessions,
      Group [Authn, CSRF]
        [Handle [] ''DELETE'' ''/me/sessions/{session_id}'' RevokeSession,
         Handle [] ''POST'' ''/me/sessions/revoke-others'' RevokeOtherSessions,
         Handle [Body 6291456] ''POST'' ''/me/avatar'' UploadAvatar,
         Handle [] ''DELETE'' ''/me/avatar'' DeleteAvatar]]"

abbreviation admin_write :: guard where
  "admin_write \<equiv> RoutePolicy ''admin_write'' None"

definition admin_routes :: "'w Dependencies \<Rightarrow> node" where
  "admin_routes dep = Route ''/admin'' [Authn]
     [Handle [Perm ''users:read''] ''GET'' ''/users'' ListUsers,
      Handle ([Perm ''users:write'', admin_write] @ idem_chain dep ''admin.users.roles.patch'') ''PATCH'' ''/users/{id}/roles'' SetUserRoles,
      Handle [Perm ''roles:read''] ''GET'' ''/roles'' ListRoles,
      Handle ([Perm ''roles:write'', admin_write] @ idem_chain dep ''admin.roles.create'') ''POST'' ''/roles'' CreateRole,
      Handle [Perm ''roles:write'', admin_write] ''PATCH'' ''/roles/{id}'' UpdateRole,
      Handle [Perm ''roles:write'', admin_write] ''DELETE'' ''/roles/{id}'' DeleteRole,
      Handle [Perm ''permissions:read''] ''GET'' ''/permissions'' ListPermissions,
      Handle [Perm ''permissions:write'', admin_write] ''POST'' ''/permissions'' CreatePermission,
      Handle [Perm ''permissions:write'', admin_write] ''PATCH'' ''/permissions/{id}'' UpdatePermission,
      Handle [Perm ''permissions:write'', admin_write] ''DELETE'' ''/permissions/{id}'' DeletePermission,
      Handle [Perm ''roles:write'', RoutePolicy ''admin_sync'' (Some admin_write)] ''POST'' ''/rbac/sync'' SyncRBAC,
      Handle [Perm ''feature_flags:read''] ''GET'' ''/feature-flags'' ListFlags,
      Handle [Perm ''feature_flags:read''] ''GET'' ''/feature-flags/{id}'' GetFlag,
      Handle [Perm ''feature_flags:write'', admin_write] ''POST'' ''/feature-flags'' CreateFlag,
      Handle [Perm ''feature_flags:write'', admin_write] ''PATCH'' ''/feature-flags/{id}'' UpdateFlag,
      Handle [Perm ''feature_flags:write'', admin_write] ''DELETE'' ''/feature-flags/{id}'' DeleteFlag,
      Handle [Perm ''feature_flags:read''] ''GET'' ''/feature-flags/{id}/rules'' ListRules,
      Handle [Perm ''feature_flags:write'', admin_write] ''POST'' ''/feature-flags/{id}/rules'' CreateRule,
      Handle [Perm ''feature_flags:write'', admin_write] ''PATCH'' ''/feature-flags/{id}/rules/{rule_id}'' UpdateRule,
      Handle [Perm ''feature_flags:write'', admin_write] ''DELETE'' ''/feature-flags/{id}/rules/{rule_id}'' DeleteRule]"

definition api_routes :: "'w Dependencies \<Rightarrow> node" where
  "api_routes dep = Route ''/api/v1'' []
     ([auth_routes dep,
       Handle [Authn] ''GET'' ''/me'' Me,
       Handle [Authn] ''GET'' ''/feature-flags'' EvaluateAll,
       Handle [Authn] ''GET'' ''/feature-flags/{key}'' EvaluateOne,
       product_routes] @ me_routes @ [admin_routes dep])"

definition all_routes :: "'w Dependencies \<Rightarrow> route list" where
  "all_routes dep = concat (map (routes_of [] []) (health_routes @ [api_routes dep]))"

subsection \<open>The handler of a request\<close>

fun run_guard :: "'w chi \<Rightarrow> 'w Dependencies \<Rightarrow> guard \<Rightarrow> 'w mw" where
  "run_guard C dep AuthLimiter =
     (case dep_AuthRateLimiter dep of Some m \<Rightarrow> m | None \<Rightarrow> newLimiter C ''auth'' (dep_AuthRateLimitRPM dep))"
| "run_guard C dep ForgotLimiter =
     (case dep_ForgotRateLimiter dep of Some m \<Rightarrow> m | None \<Rightarrow> newLimiter C ''forgot'' (dep_PasswordForgotRateLimitRPM dep))"
| "run_guard C dep (RoutePolicy name fallback) =
     (case dep_RouteRateLimitPolicies dep name of
        Some m \<Rightarrow> m
      | None \<Rightarrow> (case fallback of None \<Rightarrow> (\<lambda>next_h. next_h) | Some g \<Rightarrow> run_guard C dep g))"
| "run_guard C dep (Idem scope) = (case dep_Idempotency dep of None \<Rightarrow> (\<lambda>next_h. next_h) | Some f \<Rightarrow> f scope)"
| "run_guard C dep CSRF = CSRFMiddleware (req_id C)"
| "run_guard C dep Authn = AuthMiddleware (jwt_lib C) (dep_JWTManager dep) (req_now C) (req_id C)"
| "run_guard C dep (Perm p) = RequirePermission (dep_PermissionResolver dep) p (req_id C)"
| "run_guard C dep (Body n) = BodyLimit n"

definition chain :: "'w mw list \<Rightarrow> 'w mw" where
  "chain ms = (\<lambda>h. foldr (\<lambda>m next_h. m next_h) ms h)"

definition check_json :: "CheckResult \<Rightarrow> json" where
  "check_json c = JObj ([(''name'', JStr (hc_Name c)), (''healthy'', JBool (hc_Healthy c))]
     @ (if hc_Error c = [] then [] else [(''error'', JStr (hc_Error c))]))"

definition health_live :: "'w chi \<Rightarrow> 'w handler" where
  "health_live C r hs w = (response_JSON (req_id C) r hs 200 (JObj [(''status'', JStr ''ok'')]), w)"

definition health_ready :: "'w chi \<Rightarrow> 'w Dependencies \<Rightarrow> 'w handler" where
  "health_ready C dep r hs w =
     (case ProbeRunner_Ready (req_now C) (dep_Readiness dep) of (ready, results) \<Rightarrow>
        (if ready
         then response_JSON (req_id C) r hs 200
                (JObj [(''status'', JStr ''ready''), (''checks'', JArr (map check_json results))])
         else response_Error (req_id C) r hs 503 ''DEPENDENCY_UNREADY'' ''dependencies are not ready''
                [(''checks'', json_text C (JArr (map check_json results)))], w))"

definition endpoint_handler :: "'w chi \<Rightarrow> 'w Dependencies \<Rightarrow> endpoint \<Rightarrow> 'w handler" where
  "endpoint_handler C dep e =
     (if e = HealthLive then health_live C else if e = HealthReady then health_ready C dep else dep_handler dep e)"

definition dispatch :: "'w chi \<Rightarrow> 'w Dependencies \<Rightarrow> 'w handler" where
  "dispatch C dep r hs w =
     (let routes = all_routes dep in
      case chi_match C (map (\<lambda>rt. (rt_Method rt, rt_Pattern rt)) routes) (rq_Method r) (rq_Path r) of
        Some (k, params) \<Rightarrow>
          if k < length routes then
            (let rt = routes ! k in
             chain (map (run_guard C dep) (rt_Guards rt)) (endpoint_handler C dep (rt_Endpoint rt))
               (r\<lparr>rq_Params := params, rq_RoutePattern := rt_Pattern rt\<rparr>) hs w)
          else chi_NotFound C r hs w
      | None \<Rightarrow> chi_NotFound C r hs w)"

definition global_chain :: "'w chi \<Rightarrow> 'w Dependencies \<Rightarrow> 'w mw list" where
  "global_chain C dep =
     [chi_RealIP C, chi_Recoverer C, chi_RequestID C, chi_Logger C, SecurityHeaders, CORS (dep_CORSOrigins dep), BodyLimit 1048576,
      (case dep_GlobalRateLimiter dep of Some m \<Rightarrow> m | None \<Rightarrow> newLimiter C ''api'' (dep_APIRateLimitRPM dep))]"

definition NewRouter :: "'w chi \<Rightarrow> 'w Dependencies \<Rightarrow> 'w handler" where
  "NewRouter C dep =
     (let h = chain (global_chain C dep) (dispatch C dep)
      in if dep_EnableOTelHTTP dep then chi_OTel C h else h)"

end
