(* ===== verification/Route_Access.thy ===== *)
theory Route_Access
  imports Router Rate_Limiter Idempotency_Http
begin

section \<open>Who reaches which handler\<close>

text \<open>
  The policy of the service as a table, and the proof that the routes enforce it.  That a handler is out
  of reach is stated without looking inside it: the answer and the state are the same whatever the
  handler would do.  A middleware that only passes a request on, possibly with another address or
  body, and in a state in which the same permissions are granted, is \<open>passing\<close>; the repository's own
  middleware is proved to be so, and for chi's and the configured ones it is a hypothesis.
\<close>

subsection \<open>The policy\<close>

record access =
  need_token :: bool
  need_csrf :: bool
  need_perm :: "string option"

abbreviation open_access :: access where
  "open_access \<equiv> \<lparr>need_token = False, need_csrf = False, need_perm = None\<rparr>"

abbreviation with_token :: access where
  "with_token \<equiv> \<lparr>need_token = True, need_csrf = False, need_perm = None\<rparr>"

abbreviation with_csrf :: access where
  "with_csrf \<equiv> \<lparr>need_token = True, need_csrf = True, need_perm = None\<rparr>"

abbreviation with_perm :: "string \<Rightarrow> access" where
  "with_perm p \<equiv> \<lparr>need_token = True, need_csrf = False, need_perm = Some p\<rparr>"

fun access_of :: "endpoint \<Rightarrow> access" where
  "access_of Refresh = \<lparr>need_token = False, need_csrf = True, need_perm = None\<rparr>"
| "access_of Logout = with_csrf"
| "access_of LocalChangePassword = with_csrf"
| "access_of RevokeSession = with_csrf"
| "access_of RevokeOtherSessions = with_csrf"
| "access_of UploadAvatar = with_csrf"
| "access_of DeleteAvatar = with_csrf"
| "access_of Me = with_token"
| "access_of EvaluateAll = with_token"
| "access_of EvaluateOne = with_token"
| "access_of Sessions = with_token"
| "access_of ProductList = with_perm ''products:read''"
| "access_of ProductGetByID = with_perm ''products:read''"
| "access_of ProductCreate = with_perm ''products:write''"
| "access_of ProductUpdate = with_perm ''products:write''"
| "access_of ProductDelete = with_perm ''products:delete''"
| "access_of ListUsers = with_perm ''users:read''"
| "access_of SetUserRoles = with_perm ''users:write''"
| "access_of ListRoles = with_perm ''roles:read''"
| "access_of CreateRole = with_perm ''roles:write''"
| "access_of UpdateRole = with_perm ''roles:write''"
| "access_of DeleteRole = with_perm ''roles:write''"
| "access_of SyncRBAC = with_perm ''roles:write''"
| "access_of ListPermissions = with_perm ''permissions:read''"
| "access_of CreatePermission = with_perm ''permissions:write''"
| "access_of UpdatePermission = with_perm ''permissions:write''"
| "access_of DeletePermission = with_perm ''permissions:write''"
| "access_of ListFlags = with_perm ''feature_flags:read''"
| "access_of GetFlag = with_perm ''feature_flags:read''"
| "access_of ListRules = with_perm ''feature_flags:read''"
| "access_of CreateFlag = with_perm ''feature_flags:write''"
| "access_of UpdateFlag = with_perm ''feature_flags:write''"
| "access_of DeleteFlag = with_perm ''feature_flags:write''"
| "access_of CreateRule = with_perm ''feature_flags:write''"
| "access_of UpdateRule = with_perm ''feature_flags:write''"
| "access_of DeleteRule = with_perm ''feature_flags:write''"
| "access_of _ = open_access"

text \<open>
  The claims of the token that a request carries, and whether the resolver, asked in the state \<open>w\<close>, finds
  a permission among those of their owner.
\<close>

definition token_claims :: "'w chi \<Rightarrow> 'w Dependencies \<Rightarrow> request \<Rightarrow> claims option" where
  "token_claims C dep r =
     (if access_token_of r = [] then None
      else (case ParseAccessToken (jwt_lib C) (dep_JWTManager dep) (req_now C) (access_token_of r) of
              Inl e \<Rightarrow> None | Inr c \<Rightarrow> Some c))"

definition is_granted :: "'w Dependencies \<Rightarrow> 'w \<Rightarrow> claims \<Rightarrow> string \<Rightarrow> bool" where
  "is_granted dep w c p \<longleftrightarrow>
     (case fst (case dep_PermissionResolver dep of None \<Rightarrow> (Inr (cl_Permissions c), w) | Some f \<Rightarrow> f (Some c) w) of
        Inl e \<Rightarrow> False | Inr ps \<Rightarrow> p \<in> set ps)"

definition authorised :: "'w chi \<Rightarrow> 'w Dependencies \<Rightarrow> 'w \<Rightarrow> request \<Rightarrow> endpoint \<Rightarrow> bool" where
  "authorised C dep w r e \<longleftrightarrow>
     (need_token (access_of e) \<longrightarrow> token_claims C dep r \<noteq> None)
   \<and> (need_csrf (access_of e) \<longrightarrow> safe_method r \<or> csrf_ok r)
   \<and> (\<forall>p c. need_perm (access_of e) = Some p \<and> token_claims C dep r = Some c \<longrightarrow> is_granted dep w c p)"

subsection \<open>Passing a request on\<close>

definition same_caller :: "request \<Rightarrow> request \<Rightarrow> bool" where
  "same_caller r r' \<longleftrightarrow> rq_Method r' = rq_Method r \<and> rq_Path r' = rq_Path r \<and> rq_Headers r' = rq_Headers r
     \<and> rq_Cookies r' = rq_Cookies r"

definition same_claims :: "request \<Rightarrow> request \<Rightarrow> bool" where
  "same_claims r r' \<longleftrightarrow> same_caller r r' \<and> rq_Claims r' = rq_Claims r"

definition same_grants :: "'w Dependencies \<Rightarrow> 'w \<Rightarrow> 'w \<Rightarrow> bool" where
  "same_grants dep w w' \<longleftrightarrow> is_granted dep w' = is_granted dep w"

definition passing :: "(request \<Rightarrow> request \<Rightarrow> bool) \<Rightarrow> ('w \<Rightarrow> 'w \<Rightarrow> bool) \<Rightarrow> 'w mw \<Rightarrow> bool" where
  "passing R E m \<longleftrightarrow> (\<forall>r w h h'. (\<forall>r' hs w'. R r r' \<longrightarrow> E w w' \<longrightarrow> h r' hs w' = h' r' hs w') \<longrightarrow> (\<forall>hs. m h r hs w = m h' r hs w))"

definition blocking :: "request \<Rightarrow> 'w \<Rightarrow> 'w mw \<Rightarrow> bool" where
  "blocking r w m \<longleftrightarrow> (\<forall>h h' hs. m h r hs w = m h' r hs w)"

lemma passingD:
  "passing R E m \<Longrightarrow> (\<And>r' hs w'. R r r' \<Longrightarrow> E w w' \<Longrightarrow> h r' hs w' = h' r' hs w') \<Longrightarrow> m h r hs w = m h' r hs w"
  unfolding passing_def by blast

lemma same_grants_refl [simp]: "same_grants dep w w"
  by (simp add: same_grants_def)

lemma same_grants_trans: "same_grants dep u v \<Longrightarrow> same_grants dep v w \<Longrightarrow> same_grants dep u w"
  by (simp add: same_grants_def)

lemma same_caller_refl [simp]: "same_caller r r" and same_claims_refl [simp]: "same_claims r r"
  by (simp_all add: same_caller_def same_claims_def)

lemma same_caller_trans: "same_caller r s \<Longrightarrow> same_caller s t \<Longrightarrow> same_caller r t"
  by (simp add: same_caller_def)

lemma same_claims_trans: "same_claims r s \<Longrightarrow> same_claims s t \<Longrightarrow> same_claims r t"
  by (simp add: same_claims_def same_caller_def)

lemma passing_caller: "passing same_claims E m \<Longrightarrow> passing same_caller E m"
  unfolding passing_def same_claims_def by blast

lemma passing_any_state: "passing R E m \<Longrightarrow> passing R (\<lambda>_ _. True) m"
  unfolding passing_def by blast

lemma chain_simps [simp]: "chain [] h = h" "chain (m # ms) h = m (chain ms h)" "chain (ms @ ns) h = chain ms (chain ns h)"
  by (simp_all add: chain_def)

lemma passing_chain:
  assumes "\<And>r s t. R r s \<Longrightarrow> R s t \<Longrightarrow> R r t" "\<And>r. R r r" "\<And>u v w. E u v \<Longrightarrow> E v w \<Longrightarrow> E u w" "\<And>w. E w w"
    and "\<And>m. m \<in> set ms \<Longrightarrow> passing R E m"
  shows "passing R E (chain (ms :: 'a mw list))"
  using assms(5)
proof (induction ms)
  case Nil
  then show ?case using assms(2,4) by (auto simp: passing_def)
next
  case (Cons m ms)
  then have m: "passing R E m" and ms: "passing R E (chain ms)" by auto
  show ?case
    unfolding passing_def
  proof (intro allI impI)
    fix r w and h h' :: "'a handler" and hs
    assume eq: "\<forall>r' hs w'. R r r' \<longrightarrow> E w w' \<longrightarrow> h r' hs w' = h' r' hs w'"
    show "chain (m # ms) h r hs w = chain (m # ms) h' r hs w"
      unfolding chain_simps by (rule passingD [OF m], rule passingD [OF ms]) (use eq assms(1,3) in blast)
  qed
qed

text \<open>A chain whose first members pass requests on is blocked as soon as the next member blocks them.\<close>

lemma blocking_chain:
  assumes "\<And>r s t. R r s \<Longrightarrow> R s t \<Longrightarrow> R r t" "\<And>r. R r r" "\<And>u v w. E u v \<Longrightarrow> E v w \<Longrightarrow> E u w" "\<And>w. E w w"
    and "\<And>m. m \<in> set pre \<Longrightarrow> passing R E m" "\<And>r' w'. R r r' \<Longrightarrow> E w w' \<Longrightarrow> blocking r' w' m"
  shows "blocking r w (chain (pre @ m # post))"
  unfolding blocking_def chain_simps
  by (intro allI passingD [OF passing_chain [where ms = pre, OF assms(1-5)]]) (use assms(6) in \<open>auto simp: blocking_def\<close>)

subsection \<open>The middleware passes, and blocks\<close>

lemma own_middleware_passing:
  assumes "\<And>w. E w w"
  shows "passing same_claims E SecurityHeaders" "passing same_claims E (CORS origins)" "passing same_claims E (BodyLimit n)"
    "passing same_claims E (CSRFMiddleware q)" "passing same_caller E (AuthMiddleware L jm now q)" "passing same_claims E (\<lambda>h. h)"
  using assms
  by (auto simp: passing_def same_claims_def same_caller_def SecurityHeaders_def CORS_def BodyLimit_def CSRFMiddleware_def
      AuthMiddleware_def Let_def split: option.splits sum.splits prod.splits)

lemma RequirePermission_passing: "passing same_claims (\<lambda>_ _. True) (RequirePermission f p q)"
  by (auto simp: passing_def RequirePermission_def split: option.splits sum.splits prod.splits)

text \<open>The guards that leave the claims of a request alone, and those that ask for no permission.\<close>

fun plain :: "guard \<Rightarrow> bool" where
  "plain Authn = False"
| "plain (Perm p) = False"
| "plain (RoutePolicy name (Some g)) = plain g"
| "plain _ = True"

fun no_perm :: "guard \<Rightarrow> bool" where
  "no_perm (Perm p) = False"
| "no_perm (RoutePolicy name (Some g)) = no_perm g"
| "no_perm _ = True"

definition outside_ok :: "'w chi \<Rightarrow> 'w Dependencies \<Rightarrow> bool" where
  "outside_ok C dep \<longleftrightarrow>
     (let ok = passing same_claims (same_grants dep) in
      ok (chi_RealIP C) \<and> ok (chi_Recoverer C) \<and> ok (chi_RequestID C) \<and> ok (chi_Logger C) \<and> ok (chi_OTel C)
    \<and> (\<forall>name n. ok (newLimiter C name n))
    \<and> (\<forall>m \<in> set_option (dep_GlobalRateLimiter dep) \<union> set_option (dep_AuthRateLimiter dep)
           \<union> set_option (dep_ForgotRateLimiter dep). ok m)
    \<and> (\<forall>name m. dep_RouteRateLimitPolicies dep name = Some m \<longrightarrow> ok m)
    \<and> (\<forall>f scope. dep_Idempotency dep = Some f \<longrightarrow> ok (f scope)))"

lemma run_guard_plain: "outside_ok C dep \<Longrightarrow> plain g \<Longrightarrow> passing same_claims (same_grants dep) (run_guard C dep g)"
  by (induction g rule: plain.induct) (auto simp: outside_ok_def Let_def own_middleware_passing split: option.splits)

lemma run_guard_no_perm: "outside_ok C dep \<Longrightarrow> no_perm g \<Longrightarrow> passing same_caller (same_grants dep) (run_guard C dep g)"
  by (induction g rule: no_perm.induct)
    (auto simp: outside_ok_def Let_def own_middleware_passing passing_caller split: option.splits)

lemma run_guard_passing: "outside_ok C dep \<Longrightarrow> passing same_caller (\<lambda>_ _. True) (run_guard C dep g)"
proof (induction g rule: no_perm.induct)
  case (1 p)
  then show ?case by (simp add: RequirePermission_passing passing_caller)
next
  case (2 name g)
  have "passing same_caller (\<lambda>_ _. True) m" if "dep_RouteRateLimitPolicies dep name = Some m" for m
    using 2(2) that by (intro passing_any_state [where E = "same_grants dep"] passing_caller) (simp add: outside_ok_def Let_def)
  with 2 show ?case by (auto split: option.splits)
qed (rule passing_any_state, rule run_guard_no_perm, assumption, simp)+

lemma authn_blocks: "token_claims C dep r = None \<Longrightarrow> blocking r w (run_guard C dep Authn)"
  by (auto simp: token_claims_def blocking_def AuthMiddleware_def Let_def split: if_splits sum.splits)

lemma authn_claims:
  "token_claims C dep r = Some c \<Longrightarrow> run_guard C dep Authn h r hs w = h (r\<lparr>rq_Claims := Some c\<rparr>) hs w"
  by (auto simp: token_claims_def AuthMiddleware_def Let_def split: if_splits sum.splits)

lemma csrf_blocks: "\<not> (safe_method r \<or> csrf_ok r) \<Longrightarrow> blocking r w (run_guard C dep CSRF)"
  by (auto simp: blocking_def CSRFMiddleware_def csrf_ok_def safe_method_def Let_def split: option.splits)

lemma perm_blocks:
  assumes "rq_Claims r = Some c" "\<not> is_granted dep w c p"
  shows "blocking r w (run_guard C dep (Perm p))"
  using assms
  by (auto simp: blocking_def is_granted_def RequirePermission_def ClaimsFromContext_def HasPermission_def list_ex_iff
      split: option.splits sum.splits prod.splits)

lemma same_caller_token: "same_caller r r' \<Longrightarrow> token_claims C dep r' = token_claims C dep r"
  by (simp add: same_caller_def token_claims_def access_token_of_def GetCookie_def Let_def)

lemma same_caller_csrf: "same_caller r r' \<Longrightarrow> (safe_method r' \<or> csrf_ok r') = (safe_method r \<or> csrf_ok r)"
  by (simp add: same_caller_def safe_method_def csrf_ok_def)

lemma same_authorised:
  assumes "same_caller r r'" "same_grants dep w w'"
  shows "authorised C dep w' r' e = authorised C dep w r e"
  using assms(2) by (simp only: authorised_def same_caller_token [OF assms(1)] same_caller_csrf [OF assms(1)] same_grants_def)

subsection \<open>The routes enforce the policy\<close>

definition enforces :: "access \<Rightarrow> guard list \<Rightarrow> bool" where
  "enforces a gs \<longleftrightarrow> (need_csrf a \<longrightarrow> CSRF \<in> set gs) \<and> (need_token a \<longrightarrow> Authn \<in> set gs)
     \<and> (case need_perm a of None \<Rightarrow> True
        | Some p \<Rightarrow> (case dropWhile (\<lambda>g. g \<noteq> Authn) gs of [] \<Rightarrow> False
                     | _ # post \<Rightarrow> list_all no_perm (takeWhile (\<lambda>g. g \<noteq> Authn) gs) \<and> Perm p \<in> set post
                                  \<and> list_all plain (takeWhile (\<lambda>g. g \<noteq> Perm p) post)))"

lemma routes_enforce: "\<forall>rt \<in> set (all_routes dep). enforces (access_of (rt_Endpoint rt)) (rt_Guards rt)"
  by (simp add: all_routes_def health_routes_def api_routes_def auth_routes_def product_routes_def me_routes_def admin_routes_def
      idem_chain_def enforces_def)

lemma split_at: "x \<in> set xs \<Longrightarrow> \<exists>post. xs = takeWhile (\<lambda>y. y \<noteq> x) xs @ x # post"
  by (induction xs) auto

lemma permission_blocks:
  assumes ok: "outside_ok C dep" and "list_all plain pre" "rq_Claims r = Some c" "\<not> is_granted dep w c p"
  shows "blocking r w (chain (map (run_guard C dep) (pre @ Perm p # post)))"
  unfolding map_append list.map
proof (rule blocking_chain [where R = same_claims and E = "same_grants dep"])
  show "passing same_claims (same_grants dep) m" if "m \<in> set (map (run_guard C dep) pre)" for m
    using that assms(2) run_guard_plain [OF ok] by (auto simp: list_all_iff)
  show "blocking r' w' (run_guard C dep (Perm p))" if "same_claims r r'" "same_grants dep w w'" for r' w'
    using that assms(3,4) by (intro perm_blocks) (simp_all add: same_claims_def same_grants_def)
qed (auto intro: same_claims_trans same_grants_trans)

lemma unauthorised_chain_blocks:
  assumes ok: "outside_ok C dep" and enf: "enforces (access_of e) gs" and un: "\<not> authorised C dep w r e"
  shows "blocking r w (chain (map (run_guard C dep) gs))"
proof -
  let ?m = "run_guard C dep"
  have block: "blocking r w (chain (map ?m gs))" if g: "g \<in> set gs" and b: "\<And>r' w'. same_caller r r' \<Longrightarrow> blocking r' w' (?m g)" for g
  proof -
    obtain post where gs: "gs = takeWhile (\<lambda>y. y \<noteq> g) gs @ g # post" using split_at [OF g] by blast
    show ?thesis
      by (subst gs, unfold map_append list.map, rule blocking_chain [where R = same_caller and E = "\<lambda>_ _. True"])
        (use b run_guard_passing [OF ok] in \<open>auto intro: same_caller_trans\<close>)
  qed
  consider (token) "need_token (access_of e)" "token_claims C dep r = None"
    | (csrf) "need_csrf (access_of e)" "\<not> (safe_method r \<or> csrf_ok r)"
    | (perm) p c where "need_perm (access_of e) = Some p" "token_claims C dep r = Some c" "\<not> is_granted dep w c p"
    using un unfolding authorised_def by blast
  then show ?thesis
  proof cases
    case token
    then show ?thesis using enf by (intro block [of Authn] authn_blocks) (auto simp: enforces_def same_caller_token)
  next
    case csrf
    then show ?thesis using enf by (intro block [of CSRF] csrf_blocks) (auto simp: enforces_def dest: same_caller_csrf)
  next
    case perm
    define pre where "pre = takeWhile (\<lambda>g. g \<noteq> Authn) gs"
    obtain post where post: "dropWhile (\<lambda>g. g \<noteq> Authn) gs = Authn # post" "list_all no_perm pre" "Perm p \<in> set post"
        "list_all plain (takeWhile (\<lambda>g. g \<noteq> Perm p) post)"
      using enf perm(1) by (auto simp: enforces_def pre_def dropWhile_eq_Cons_conv split: list.splits)
    have gs: "gs = pre @ Authn # post" using takeWhile_dropWhile_id [of "\<lambda>g. g \<noteq> Authn" gs] post(1) by (simp add: pre_def)
    obtain rest where rest: "post = takeWhile (\<lambda>g. g \<noteq> Perm p) post @ Perm p # rest" using split_at [OF post(3)] by blast
    have behind: "blocking r' w' (chain (map ?m post))" if "rq_Claims r' = Some c" "same_grants dep w w'" for r' w'
      by (subst rest, rule permission_blocks [OF ok post(4) that(1)]) (use that(2) perm(3) in \<open>simp add: same_grants_def\<close>)
    have "blocking r' w' (?m Authn \<circ> chain (map ?m post))" if "same_caller r r'" "same_grants dep w w'" for r' w'
      using authn_claims [of C dep r' c] perm(2) same_caller_token [OF that(1), of C dep]
        behind [of "r'\<lparr>rq_Claims := Some c\<rparr>" w'] that(2) unfolding blocking_def by simp
    then have "blocking r w (chain (map ?m pre @ (?m Authn \<circ> chain (map ?m post)) # []))"
      by (intro blocking_chain [where R = same_caller and E = "same_grants dep"])
        (use run_guard_no_perm [OF ok] post(2) in \<open>auto simp: list_all_iff intro: same_caller_trans same_grants_trans\<close>)
    then show ?thesis by (simp add: gs blocking_def del: run_guard.simps)
  qed
qed

text \<open>The handlers have no part in the guards.\<close>

lemma handlers_apart [simp]:
  "all_routes (dep\<lparr>dep_handler := H\<rparr>) = all_routes dep" "global_chain C (dep\<lparr>dep_handler := H\<rparr>) = global_chain C dep"
  by (simp_all add: all_routes_def api_routes_def auth_routes_def admin_routes_def idem_chain_def global_chain_def split: option.split)

lemma run_guard_apart [simp]: "run_guard C (dep\<lparr>dep_handler := H\<rparr>) = run_guard C dep"
proof
  show "run_guard C (dep\<lparr>dep_handler := H\<rparr>) g = run_guard C dep g" for g
    by (induction g rule: plain.induct) (auto split: option.splits)
qed

lemma dispatch_independent:
  assumes "outside_ok C dep" "\<forall>e. authorised C dep w r e \<longrightarrow> H e = H' e" "same_caller r r'" "same_grants dep w w'"
  shows "dispatch C (dep\<lparr>dep_handler := H\<rparr>) r' hs w' = dispatch C (dep\<lparr>dep_handler := H'\<rparr>) r' hs w'"
proof -
  have "chain (map (run_guard C dep) (rt_Guards rt)) (endpoint_handler C (dep\<lparr>dep_handler := H\<rparr>) (rt_Endpoint rt)) r'' hs w'
      = chain (map (run_guard C dep) (rt_Guards rt)) (endpoint_handler C (dep\<lparr>dep_handler := H'\<rparr>) (rt_Endpoint rt)) r'' hs w'"
    if "rt \<in> set (all_routes dep)" "same_caller r r''" for rt r''
  proof (cases "authorised C dep w r (rt_Endpoint rt)")
    case True
    then have "endpoint_handler C (dep\<lparr>dep_handler := H\<rparr>) (rt_Endpoint rt) = endpoint_handler C (dep\<lparr>dep_handler := H'\<rparr>) (rt_Endpoint rt)"
      using assms(2) by (simp add: endpoint_handler_def health_ready_def fun_eq_iff)
    then show ?thesis by simp
  next
    case False
    then have "\<not> authorised C dep w' r'' (rt_Endpoint rt)" by (simp add: same_authorised [OF that(2) assms(4)])
    then have "blocking r'' w' (chain (map (run_guard C dep) (rt_Guards rt)))"
      by (rule unauthorised_chain_blocks [OF assms(1) routes_enforce [rule_format, OF that(1)]])
    then show ?thesis unfolding blocking_def by blast
  qed
  moreover have "same_caller r (r'\<lparr>rq_Params := ps, rq_RoutePattern := q\<rparr>)" for ps q
    using assms(3) by (simp add: same_caller_def)
  ultimately show ?thesis by (simp add: dispatch_def Let_def split: option.split)
qed

lemma global_chain_passing: "outside_ok C dep \<Longrightarrow> passing same_caller (same_grants dep) (chain (global_chain C dep))"
  by (rule passing_chain)
    (auto intro: same_caller_trans same_grants_trans passing_caller
      simp: global_chain_def outside_ok_def Let_def own_middleware_passing split: option.splits)

text \<open>
  C36: The routes enforce the access policy.  The answer to a request, and the state after it, are the
  same whatever the handlers do for which the request is not authorised: those that need a valid access
  token the request does not carry, a CSRF token that does not match, or a permission that the resolver,
  in the state in which the request arrives, does not find for the owner of the token.  The limiters, the
  idempotency middleware and chi's middleware are only assumed to pass requests on with method, path,
  headers, cookies and claims as they are, in a state in which the same permissions are granted.
\<close>

theorem routes_enforce_access:
  assumes "outside_ok C dep" "\<forall>e. authorised C dep w r e \<longrightarrow> H e = H' e"
  shows "NewRouter C (dep\<lparr>dep_handler := H\<rparr>) r hs w = NewRouter C (dep\<lparr>dep_handler := H'\<rparr>) r hs w"
proof -
  have "chain (global_chain C dep) (dispatch C (dep\<lparr>dep_handler := H\<rparr>)) r' hs w'
      = chain (global_chain C dep) (dispatch C (dep\<lparr>dep_handler := H'\<rparr>)) r' hs w'"
    if "same_caller r r'" "same_grants dep w w'" for r' hs w'
    by (rule passingD [OF global_chain_passing [OF assms(1)]])
      (use that assms in \<open>blast intro: dispatch_independent same_caller_trans same_grants_trans\<close>)
  moreover have "passing same_caller (same_grants dep) (chi_OTel C)" using assms(1) by (simp add: outside_ok_def Let_def passing_caller)
  ultimately show ?thesis by (auto simp: NewRouter_def Let_def intro: passingD)
qed

text \<open>
  In the witness the state is the list of the permissions in the tables and the resolver reads it: with a
  valid token but only \<open>products:read\<close> granted, the handler that creates products is out of reach.
\<close>

definition route_demo_chi :: "string list chi" where
  "route_demo_chi = \<lparr>chi_RealIP = (\<lambda>h. h), chi_Recoverer = (\<lambda>h. h), chi_RequestID = (\<lambda>h. h), chi_Logger = (\<lambda>h. h), chi_OTel = (\<lambda>h. h),
     chi_match = (\<lambda>routes _ _. Some (length (takeWhile (\<lambda>x. x \<noteq> (''POST'', ''/api/v1/products/'')) routes), [])),
     chi_NotFound = (\<lambda>r hs w. (response_Error [] r hs 404 ''NOT_FOUND'' [] [], w)), newLimiter = (\<lambda>_ _ h. h),
     jwt_lib = \<lparr>jl_NumericDate = (\<lambda>t. t), jl_SignedString = (\<lambda>_ _. Inr ''tok''),
                jl_ParseWithClaims = (\<lambda>raw _ _ _ _. if raw = ''tok'' then Inr (demo_claims, True) else Inl (Errorf ''bad token''))\<rparr>,
     req_now = 0, req_id = [], json_text = (\<lambda>_. [])\<rparr>"

definition route_demo_dep :: "string list Dependencies" where
  "route_demo_dep = \<lparr>dep_handler = (\<lambda>_ r hs w. (response_JSON [] r hs 200 JNull, w)), dep_JWTManager = demo_manager,
     dep_PermissionResolver = Some (\<lambda>_ w. (Inr w, w)), dep_CORSOrigins = [], dep_AuthRateLimitRPM = 1, dep_PasswordForgotRateLimitRPM = 1,
     dep_APIRateLimitRPM = 1, dep_GlobalRateLimiter = None, dep_AuthRateLimiter = None, dep_ForgotRateLimiter = None,
     dep_RouteRateLimitPolicies = (\<lambda>_. None), dep_Idempotency = None, dep_Readiness = None, dep_EnableOTelHTTP = False\<rparr>"

definition route_demo_request :: request where
  "route_demo_request = (demo_request ''POST'')\<lparr>rq_Path := ''/api/v1/products/'', rq_Cookies := [(''access_token'', ''tok'')]\<rparr>"

theorem routes_enforce_access_witness:
  "NewRouter route_demo_chi (route_demo_dep\<lparr>dep_handler := dep_handler route_demo_dep\<rparr>) route_demo_request [] [''products:read'']
   = NewRouter route_demo_chi (route_demo_dep\<lparr>dep_handler := (dep_handler route_demo_dep)
         (ProductCreate := \<lambda>r hs w. (response_JSON [] r hs 201 JNull, ''products:write'' # w))\<rparr>)
       route_demo_request [] [''products:read'']
   \<and> token_claims route_demo_chi route_demo_dep route_demo_request = Some demo_claims"
proof
  show claims: "token_claims route_demo_chi route_demo_dep route_demo_request = Some demo_claims"
    by (simp add: token_claims_def route_demo_chi_def route_demo_dep_def route_demo_request_def demo_request_def access_token_of_def
        GetCookie_def ParseAccessToken_def jwt_parse_def demo_claims_def)
  have "\<not> is_granted route_demo_dep [''products:read''] demo_claims ''products:write''"
    by (simp add: is_granted_def route_demo_dep_def)
  then have "\<not> authorised route_demo_chi route_demo_dep [''products:read''] route_demo_request ProductCreate"
    using claims by (auto simp: authorised_def)
  then show "NewRouter route_demo_chi (route_demo_dep\<lparr>dep_handler := dep_handler route_demo_dep\<rparr>) route_demo_request [] [''products:read'']
   = NewRouter route_demo_chi (route_demo_dep\<lparr>dep_handler := (dep_handler route_demo_dep)
         (ProductCreate := \<lambda>r hs w. (response_JSON [] r hs 201 JNull, ''products:write'' # w))\<rparr>)
       route_demo_request [] [''products:read'']"
    by (intro routes_enforce_access)
      (auto simp: outside_ok_def Let_def route_demo_chi_def [unfolded demo_claims_def] route_demo_dep_def own_middleware_passing)
qed

subsection \<open>The repository's limiters and idempotency keys pass requests on\<close>

text \<open>
  A limiter, or the idempotency middleware, as a middleware on the whole state \<open>'w\<close>: it keeps its own part
  of the state, which no handler touches.
\<close>

definition in_world :: "('w \<Rightarrow> 's) \<Rightarrow> ('s \<Rightarrow> 'w \<Rightarrow> 'w) \<Rightarrow> ('w handler \<Rightarrow> ('s \<times> 'w) handler) \<Rightarrow> 'w mw" where
  "in_world get put m = (\<lambda>h r hs w. case m h r hs (get w, w) of (resp, (s', w')) \<Rightarrow> (resp, put s' w'))"

lemma limiter_passing: "(\<And>w. E w w) \<Longrightarrow> passing same_claims E (in_world get put (RateLimiter_Middleware rl ipKey now q))"
proof -
  have "RateLimiter_Middleware rl ipKey now q h r hs x = RateLimiter_Middleware rl ipKey now q h' r hs x"
    if "\<forall>hs. h r hs (snd x) = h' r hs (snd x)" for h h' r hs x
    using that by (cases x) (simp add: RateLimiter_Middleware_def Let_def split: sum.split prod.split)
  then show "(\<And>w. E w w) \<Longrightarrow> ?thesis" unfolding passing_def in_world_def by (metis (no_types, lifting) same_claims_refl snd_conv)
qed

lemma idempotency_passing: "(\<And>w. E w w) \<Longrightarrow> passing same_claims E (in_world get put (IdempotencyMiddleware store wire sha256 ttl q scope))"
proof -
  have "IdempotencyMiddleware store wire sha256 ttl q scope h r hs x = IdempotencyMiddleware store wire sha256 ttl q scope h' r hs x"
    if "\<forall>hs. h r hs (snd x) = h' r hs (snd x)" for h h' r hs x
    using that by (cases x) (simp add: IdempotencyMiddleware_def Let_def split: sum.split prod.split IdempotencyState.split)
  then show "(\<And>w. E w w) \<Longrightarrow> ?thesis" unfolding passing_def in_world_def by (metis (no_types, lifting) same_claims_refl snd_conv)
qed

subsection \<open>What the policy leaves out\<close>

text \<open>
  The routes that change products, roles, permissions and flags take the access token from a cookie,
  but no CSRF token; and the larger limit for avatars lies behind the global one, which prevails.
\<close>

lemma writes_without_csrf:
  "\<forall>rt \<in> set (all_routes dep). rt_Endpoint rt \<in> {ProductCreate, ProductUpdate, ProductDelete, SetUserRoles, CreateRole, UpdateRole, DeleteRole,
       CreatePermission, UpdatePermission, DeletePermission, SyncRBAC, CreateFlag, UpdateFlag, DeleteFlag, CreateRule, UpdateRule, DeleteRule}
     \<longrightarrow> Authn \<in> set (rt_Guards rt) \<and> CSRF \<notin> set (rt_Guards rt)"
  by (simp add: all_routes_def health_routes_def api_routes_def auth_routes_def product_routes_def me_routes_def admin_routes_def
      idem_chain_def)

lemma avatar_limit_has_no_effect: "BodyLimit 1048576 (BodyLimit 6291456 h) = BodyLimit 1048576 h"
  by (simp add: BodyLimit_BodyLimit)

end
