(* ===== verification/Storage.thy ===== *)
theory Storage
  imports Go_Prelude
begin

section \<open>Avatars in the object store: \<open>storage_service.go\<close>\<close>

text \<open>
  The MinIO client is the record \<open>minio\<close>, a parameter; its state is \<open>'o\<close>.  \<open>detect\<close> is \<open>http.DetectContentType\<close>,
  \<open>uuid\<close> what \<open>uuid.New\<close> returned, and a file is what reading it gives, with the number of bytes that were
  read before an error.  \<open>initOnce\<close> with \<open>initErr\<close> is the result of the first initialisation, once there was one.
\<close>

record object =
  ob_Content :: string
  ob_Size :: int
  ob_ContentType :: string
  ob_Metadata :: "(string \<times> string) list"

record 'o minio =
  mo_BucketExists :: "string \<Rightarrow> 'o \<Rightarrow> bool result \<times> 'o"
  mo_MakeBucket :: "string \<Rightarrow> 'o \<Rightarrow> unit result \<times> 'o"
  mo_PutObject :: "string \<Rightarrow> string \<Rightarrow> object \<Rightarrow> 'o \<Rightarrow> unit result \<times> 'o"
  mo_RemoveObject :: "string \<Rightarrow> string \<Rightarrow> 'o \<Rightarrow> unit result \<times> 'o"
  mo_PresignedGetObject :: "string \<Rightarrow> string \<Rightarrow> duration \<Rightarrow> 'o \<Rightarrow> string result \<times> 'o"

record 'o MinIOStorageService =
  ms_bucketName :: string
  ms_init :: "unit result option"
  ms_objects :: 'o

definition NewMinIOStorageService :: "string \<Rightarrow> 'o \<Rightarrow> 'o MinIOStorageService" where
  "NewMinIOStorageService bucketName os = \<lparr>ms_bucketName = bucketName, ms_init = None, ms_objects = os\<rparr>"

definition maxAvatarSize :: int where "maxAvatarSize = 5 * 1024 * 1024"
definition presignedURLTTL :: duration where "presignedURLTTL = minutes 15"
definition avatarPathPrefix :: string where "avatarPathPrefix = ''avatars''"

definition allowedContentTypes :: "string set" where
  "allowedContentTypes = {''image/jpeg'', ''image/png''}"

definition ErrFileTooBig :: goerr where "ErrFileTooBig = Errorf ''file size exceeds 5MB limit''"
definition ErrInvalidFileType :: goerr where
  "ErrInvalidFileType = Errorf ''invalid file type, only JPEG and PNG images are allowed''"
definition ErrUnauthorizedAccess :: goerr where "ErrUnauthorizedAccess = Errorf ''unauthorized access to resource''"

definition wrapf :: "string \<Rightarrow> string \<Rightarrow> goerr \<Rightarrow> goerr" where
  "wrapf sentinel what e = Errorf (sentinel @ '': '' @ what @ Error_text e)"

definition contentTypeToExtension :: "string \<Rightarrow> string" where
  "contentTypeToExtension contentType =
     (if contentType = ''image/jpeg'' then ''.jpg'' else if contentType = ''image/png'' then ''.png'' else [])"

definition ensureBucketExists :: "'o minio \<Rightarrow> string \<Rightarrow> 'o \<Rightarrow> unit result \<times> 'o" where
  "ensureBucketExists M bucket os =
     (case mo_BucketExists M bucket os of
        (Inl e, os1) \<Rightarrow> (Inl (wrapf ''failed to create storage bucket'' ''check bucket existence: '' e), os1)
      | (Inr exists, os1) \<Rightarrow>
          if exists then (Inr (), os1)
          else (case mo_MakeBucket M bucket os1 of
                  (Inl e, os2) \<Rightarrow> (Inl (wrapf ''failed to create storage bucket'' ''create bucket: '' e), os2)
                | (Inr _, os2) \<Rightarrow> (Inr (), os2)))"

definition lazyInit :: "'o minio \<Rightarrow> 'o MinIOStorageService \<Rightarrow> unit result \<times> 'o MinIOStorageService" where
  "lazyInit M s =
     (case ms_init s of
        Some res \<Rightarrow> (res, s)
      | None \<Rightarrow>
          (case ensureBucketExists M (ms_bucketName s) (ms_objects s) of
             (res, os) \<Rightarrow> (res, s\<lparr>ms_init := Some res, ms_objects := os\<rparr>)))"

definition user_prefix :: "uint \<Rightarrow> string" where
  "user_prefix userID = avatarPathPrefix @ ''/user-'' @ FormatUint userID @ ''/''"

definition UploadAvatar ::
    "'o minio \<Rightarrow> (string \<Rightarrow> string) \<Rightarrow> string \<Rightarrow> string \<Rightarrow> uint \<Rightarrow> string \<times> goerr option \<Rightarrow> int
     \<Rightarrow> 'o MinIOStorageService \<Rightarrow> string result \<times> 'o MinIOStorageService" where
  "UploadAvatar M detect uuid uploadedAt userID file fileSize s =
     (if fileSize > maxAvatarSize then (Inl ErrFileTooBig, s)
      else
        (let (bytes, readErr) = file; buf = take 512 bytes in
         if length buf < 512 \<and> readErr \<noteq> None
         then (Inl (wrapf ''failed to upload file'' ''read file for content detection: '' (the readErr)), s)
         else
           (let detected = ToLower (TrimSpace (detect buf)) in
            if detected \<notin> allowedContentTypes then (Inl ErrInvalidFileType, s)
            else
              (case lazyInit M s of
                 (Inl e, s1) \<Rightarrow> (Inl e, s1)
               | (Inr _, s1) \<Rightarrow>
                   (let objectKey = user_prefix userID @ uuid @ contentTypeToExtension detected;
                        obj = \<lparr>ob_Content = bytes, ob_Size = fileSize, ob_ContentType = detected,
                               ob_Metadata = [(''Detected-Content-Type'', detected), (''User-ID'', FormatUint userID),
                                              (''Uploaded-At'', uploadedAt)]\<rparr>
                    in case mo_PutObject M (ms_bucketName s1) objectKey obj (ms_objects s1) of
                         (Inl e, os) \<Rightarrow> (Inl (wrapf ''failed to upload file'' [] e), s1\<lparr>ms_objects := os\<rparr>)
                       | (Inr _, os) \<Rightarrow> (Inr objectKey, s1\<lparr>ms_objects := os\<rparr>))))))"

definition DeleteAvatar :: "'o minio \<Rightarrow> uint \<Rightarrow> string \<Rightarrow> 'o MinIOStorageService \<Rightarrow> unit result \<times> 'o MinIOStorageService" where
  "DeleteAvatar M userID objectKey s =
     (if TrimSpace objectKey = [] then (Inr (), s)
      else if Contains objectKey ''..'' then (Inl ErrUnauthorizedAccess, s)
      else if \<not> HasPrefix objectKey (user_prefix userID) then (Inl ErrUnauthorizedAccess, s)
      else
        (case lazyInit M s of
           (Inl e, s1) \<Rightarrow> (Inl e, s1)
         | (Inr _, s1) \<Rightarrow>
             (case mo_RemoveObject M (ms_bucketName s1) objectKey (ms_objects s1) of
                (Inl e, os) \<Rightarrow> (Inl (wrapf ''failed to delete file'' [] e), s1\<lparr>ms_objects := os\<rparr>)
              | (Inr _, os) \<Rightarrow> (Inr (), s1\<lparr>ms_objects := os\<rparr>))))"

definition GenerateAvatarURL :: "'o minio \<Rightarrow> string \<Rightarrow> 'o MinIOStorageService \<Rightarrow> string result \<times> 'o MinIOStorageService" where
  "GenerateAvatarURL M objectKey s =
     (if TrimSpace objectKey = [] then (Inl (Errorf ''failed to generate presigned URL: empty object key''), s)
      else
        (case lazyInit M s of
           (Inl e, s1) \<Rightarrow> (Inl e, s1)
         | (Inr _, s1) \<Rightarrow>
             (case mo_PresignedGetObject M (ms_bucketName s1) objectKey presignedURLTTL (ms_objects s1) of
                (Inl e, os) \<Rightarrow> (Inl (wrapf ''failed to generate presigned URL'' [] e), s1\<lparr>ms_objects := os\<rparr>)
              | (Inr u, os) \<Rightarrow> (Inr u, s1\<lparr>ms_objects := os\<rparr>))))"

subsection \<open>What the object store promises\<close>

text \<open>
  \<open>view\<close> shows the objects of a bucket.  A call that succeeds has its effect on the key, one that fails may
  have had it, and no call touches another key or another bucket's objects.
\<close>

definition object_store :: "'o minio \<Rightarrow> ('o \<Rightarrow> string \<Rightarrow> string \<Rightarrow> object option) \<Rightarrow> bool" where
  "object_store M view \<longleftrightarrow>
     (\<forall>b os res os'. mo_BucketExists M b os = (res, os') \<longrightarrow> view os' = view os)
   \<and> (\<forall>b os res os'. mo_MakeBucket M b os = (res, os') \<longrightarrow> view os' = view os)
   \<and> (\<forall>b k obj os res os'. mo_PutObject M b k obj os = (res, os') \<longrightarrow>
        (\<forall>b' k'. (b', k') \<noteq> (b, k) \<longrightarrow> view os' b' k' = view os b' k') \<and> view os' b k \<in> {view os b k, Some obj}
        \<and> (res = Inr () \<longrightarrow> view os' b k = Some obj))
   \<and> (\<forall>b k os res os'. mo_RemoveObject M b k os = (res, os') \<longrightarrow>
        (\<forall>b' k'. (b', k') \<noteq> (b, k) \<longrightarrow> view os' b' k' = view os b' k') \<and> view os' b k \<in> {view os b k, None}
        \<and> (res = Inr () \<longrightarrow> view os' b k = None))
   \<and> (\<forall>b k ttl os res os'. mo_PresignedGetObject M b k ttl os = (res, os') \<longrightarrow> view os' = view os)"

abbreviation stored :: "('o \<Rightarrow> string \<Rightarrow> string \<Rightarrow> object option) \<Rightarrow> 'o MinIOStorageService \<Rightarrow> string \<Rightarrow> object option" where
  "stored view s k \<equiv> view (ms_objects s) (ms_bucketName s) k"

lemma lazyInit_frame:
  assumes "object_store M view" "lazyInit M s = (res, s')"
  shows "view (ms_objects s') = view (ms_objects s) \<and> ms_bucketName s' = ms_bucketName s \<and> ms_init s' = Some res"
  using assms
  by (auto simp: lazyInit_def ensureBucketExists_def object_store_def split: option.splits prod.splits sum.splits if_splits)

lemma lazyInit_again: "lazyInit M s = (res, s') \<Longrightarrow> lazyInit N s' = (res, s')"
  by (auto simp: lazyInit_def split: option.splits prod.splits)

subsection \<open>An avatar belongs to its user\<close>

lemma user_prefix_inj:
  assumes "HasPrefix k (user_prefix u)" "HasPrefix k (user_prefix v)"
  shows "u = v"
proof -
  obtain a b where "k = user_prefix u @ a" "k = user_prefix v @ b" using assms unfolding HasPrefix_def prefix_def by blast
  then have "FormatUint u @ ''/'' @ a = FormatUint v @ ''/'' @ b" by (simp add: user_prefix_def avatarPathPrefix_def)
  moreover have "takeWhile is_digit (FormatUint n @ ''/'' @ t) = FormatUint n" for n t
    using FormatUint_digits [of n] by (subst takeWhile_append2) (auto simp: list_all_iff is_digit_def)
  ultimately have "FormatUint u = FormatUint v" by metis
  then show ?thesis by (rule FormatUint_inj)
qed

datatype avatar_op =
    Upload uint string string "string \<times> goerr option" int
  | Delete uint string
  | Link string

fun op_user :: "avatar_op \<Rightarrow> uint option" where
  "op_user (Upload u _ _ _ _) = Some u"
| "op_user (Delete u _) = Some u"
| "op_user (Link _) = None"

fun avatar_step :: "'o minio \<Rightarrow> (string \<Rightarrow> string) \<Rightarrow> avatar_op \<Rightarrow> 'o MinIOStorageService \<Rightarrow> 'o MinIOStorageService" where
  "avatar_step M detect (Upload u uuid uploadedAt file fileSize) s = snd (UploadAvatar M detect uuid uploadedAt u file fileSize s)"
| "avatar_step M detect (Delete u key) s = snd (DeleteAvatar M u key s)"
| "avatar_step M detect (Link key) s = snd (GenerateAvatarURL M key s)"

text \<open>
  A stored avatar: the type it is served with is the one detected in the first 512 of its own bytes, and is
  JPEG or PNG; its key is in the directory of the user it is tagged with and ends as its type demands.
\<close>

definition good_avatar :: "(string \<Rightarrow> string) \<Rightarrow> string \<Rightarrow> object \<Rightarrow> bool" where
  "good_avatar detect k obj \<longleftrightarrow>
     ob_ContentType obj = ToLower (TrimSpace (detect (take 512 (ob_Content obj))))
   \<and> ob_ContentType obj \<in> {''image/jpeg'', ''image/png''} \<and> ob_Size obj \<le> 5242880
   \<and> (\<exists>u name. k = ''avatars/user-'' @ FormatUint u @ ''/'' @ name @ (if ob_ContentType obj = ''image/png'' then ''.png'' else ''.jpg'')
        \<and> map_of (ob_Metadata obj) ''User-ID'' = Some (FormatUint u))"

text \<open>What one operation does to one key: nothing, or what its user may do there.\<close>

lemma avatar_step_frame:
  assumes "object_store M view"
  shows "ms_bucketName (avatar_step M detect op s) = ms_bucketName s
     \<and> (stored view (avatar_step M detect op s) k = stored view s k
        \<or> (\<exists>u. op_user op = Some u \<and> HasPrefix k (user_prefix u)
             \<and> (case stored view (avatar_step M detect op s) k of None \<Rightarrow> True | Some obj \<Rightarrow> good_avatar detect k obj)))"
proof (cases op)
  case (Upload u uuid uploadedAt f n)
  obtain r s1 where init: "lazyInit M s = (r, s1)" by (meson surj_pair)
  note frame = lazyInit_frame [OF assms init]
  let ?key = "\<lambda>d. user_prefix u @ uuid @ contentTypeToExtension d"
  have put: "view os' b k = view os b k \<or> k = k' \<and> view os' b k = Some obj"
    if "mo_PutObject M b k' obj os = (res, os')" for b k' obj os res os'
    using assms that unfolding object_store_def by (metis insertE prod.inject singletonD)
  have good: "good_avatar detect (?key d) \<lparr>ob_Content = bytes, ob_Size = n, ob_ContentType = d, ob_Metadata = [(''Detected-Content-Type'', d),
      (''User-ID'', FormatUint u), (''Uploaded-At'', uploadedAt)]\<rparr>"
    if "d = ToLower (TrimSpace (detect (take 512 bytes)))" "d \<in> allowedContentTypes" "\<not> maxAvatarSize < n" for d bytes
    using that unfolding good_avatar_def
    by (auto simp: allowedContentTypes_def maxAvatarSize_def user_prefix_def avatarPathPrefix_def contentTypeToExtension_def)
  show ?thesis
    using frame
    by (auto simp: Upload UploadAvatar_def init Let_def HasPrefix_def split: prod.splits sum.splits if_splits dest!: put intro!: good)
next
  case (Delete u key)
  obtain r s1 where init: "lazyInit M s = (r, s1)" by (meson surj_pair)
  note frame = lazyInit_frame [OF assms init]
  have remove: "view os' b k = view os b k \<or> k = k' \<and> view os' b k = None"
    if "mo_RemoveObject M b k' os = (res, os')" for b k' os res os'
    using assms that unfolding object_store_def by (metis insertE prod.inject singletonD)
  show ?thesis
    using frame by (auto simp: Delete DeleteAvatar_def init split: prod.splits sum.splits if_splits dest!: remove)
next
  case (Link key)
  obtain r s1 where init: "lazyInit M s = (r, s1)" by (meson surj_pair)
  note frame = lazyInit_frame [OF assms init]
  have link: "view os' = view os" if "mo_PresignedGetObject M b k' ttl os = (res, os')" for b k' ttl os res os'
    using assms that unfolding object_store_def by metis
  show ?thesis
    using frame by (auto simp: Link GenerateAvatarURL_def init split: prod.splits sum.splits if_splits dest!: link)
qed

lemma avatar_run_frame:
  assumes "object_store M view"
  shows "ms_bucketName (fold (avatar_step M detect) ops s) = ms_bucketName s"
    and "(\<forall>k obj. stored view s k = Some obj \<longrightarrow> good_avatar detect k obj) \<Longrightarrow>
         stored view (fold (avatar_step M detect) ops s) k = Some obj \<Longrightarrow> good_avatar detect k obj"
    and "HasPrefix k (user_prefix v) \<Longrightarrow> Some v \<notin> op_user ` set ops \<Longrightarrow>
         stored view (fold (avatar_step M detect) ops s) k = stored view s k"
proof (induction ops arbitrary: s)
  case (Cons op ops)
  note step = avatar_step_frame [OF assms, of detect op]
  {
    case 1
    then show ?case using Cons.IH(1) conjunct1 [OF step] by simp
  next
    case 2
    have "\<forall>k obj. stored view (avatar_step M detect op s) k = Some obj \<longrightarrow> good_avatar detect k obj"
    proof (intro allI impI)
      fix k obj assume "stored view (avatar_step M detect op s) k = Some obj"
      with 2(1) step [of s k] show "good_avatar detect k obj" by auto
    qed
    from Cons.IH(2) [OF this] 2(2) show ?case by simp
  next
    case 3
    have "stored view (avatar_step M detect op s) k = stored view s k"
      using step [of s k] 3 user_prefix_inj by fastforce
    with Cons.IH(3) [of "avatar_step M detect op s"] 3 show ?case by auto
  }
qed auto

text \<open>
  C37: Avatars belong to their users.  Over any sequence of uploads, deletions and links, by any users
  and with failures of the store at any point, every object in the bucket stays one of at most 5 MB (as
  declared) whose type, JPEG or PNG, is the one detected in its own first 512 bytes, under a key of the user
  it is tagged with; and the objects under a user's prefix stay as they are unless that user acts.
\<close>

theorem avatars_belong_to_users:
  assumes "object_store M view" "\<forall>k obj. stored view s k = Some obj \<longrightarrow> good_avatar detect k obj"
    and "s' = fold (avatar_step M detect) ops s"
  shows "(\<forall>k obj. stored view s' k = Some obj \<longrightarrow> good_avatar detect k obj)
     \<and> (\<forall>v k. Some v \<notin> op_user ` set ops \<and> HasPrefix k (user_prefix v) \<longrightarrow> stored view s' k = stored view s k)"
  using avatar_run_frame [OF assms(1)] assms(2,3) by blast

definition map_minio :: "(string \<times> string \<Rightarrow> object option) minio" where
  "map_minio = \<lparr>mo_BucketExists = (\<lambda>b m. (Inr True, m)), mo_MakeBucket = (\<lambda>b m. (Inr (), m)),
     mo_PutObject = (\<lambda>b k obj m. (Inr (), m((b, k) \<mapsto> obj))), mo_RemoveObject = (\<lambda>b k m. (Inr (), m((b, k) := None))),
     mo_PresignedGetObject = (\<lambda>b k ttl m. (Inr k, m))\<rparr>"

definition png_only :: "string \<Rightarrow> string" where
  "png_only bytes = (if HasPrefix bytes ''PNG'' then ''image/png'' else ''text/plain; charset=utf-8'')"

theorem avatars_belong_to_users_witness:
  "let s' = fold (avatar_step map_minio png_only)
       [Upload 1 ''x'' [] (''PNG..'', None) 5, Upload 1 ''y'' [] (''<html>'', None) 6, Delete 12 ''avatars/user-1/x.png'']
       (NewMinIOStorageService ''b'' (\<lambda>_. None))
   in (\<forall>k obj. stored (\<lambda>m b k. m (b, k)) s' k = Some obj \<longrightarrow> good_avatar png_only k obj)
     \<and> (\<forall>k. HasPrefix k (user_prefix 2) \<longrightarrow> stored (\<lambda>m b k. m (b, k)) s' k = None)"
proof -
  let ?s = "NewMinIOStorageService ''b'' (\<lambda>_. None)" and ?view = "\<lambda>m b k. m (b, k)"
  let ?ops = "[Upload 1 ''x'' [] (''PNG..'', None) 5, Upload 1 ''y'' [] (''<html>'', None) 6, Delete 12 ''avatars/user-1/x.png'']"
  have store: "object_store map_minio ?view" by (simp add: object_store_def map_minio_def)
  have init: "stored ?view ?s k = None" for k by (simp add: NewMinIOStorageService_def)
  then have "\<forall>k obj. stored ?view ?s k = Some obj \<longrightarrow> good_avatar png_only k obj" by simp
  note both = avatars_belong_to_users [OF store, of ?s png_only, OF this refl, of ?ops]
  have "stored ?view (fold (avatar_step map_minio png_only) ?ops ?s) k = None" if "HasPrefix k (user_prefix 2)" for k
    using both [THEN conjunct2, rule_format, of 2 k] that init by simp
  with both [THEN conjunct1] show ?thesis unfolding Let_def by blast
qed

subsection \<open>A failed initialisation is final\<close>

text \<open>
  The first attempt to reach the bucket decides for the life of the process: once it failed, every
  later call fails with the same error, however healthy the store is by then.
\<close>

lemma init_failure_is_final:
  assumes "ms_init s = Some (Inl e)"
  shows "\<exists>e'. UploadAvatar M detect uuid uploadedAt u f n s = (Inl e', s)"
    and "TrimSpace key \<noteq> [] \<Longrightarrow> \<exists>e'. DeleteAvatar M u key s = (Inl e', s)"
    and "\<exists>e'. GenerateAvatarURL M key s = (Inl e', s)"
  using assms
  by (auto simp: UploadAvatar_def DeleteAvatar_def GenerateAvatarURL_def lazyInit_def Let_def split: prod.splits)

end
