(* ===== verification/User_Handler.thy ===== *)
theory User_Handler
  imports Storage Handler_Util Rbac Session_Repo
begin

section \<open>The account of the caller: \<open>user_handler.go\<close>\<close>

text \<open>
  The state behind these handlers is the database and the object store.  The multipart form is parsed
  outside: \<open>parseForm\<close> is \<open>ParseMultipartForm\<close>, and \<open>formFile\<close> gives the file, its declared size and its content type
  as \<open>FormFile("avatar")\<close> does; both see the request with its body cut at 6 MB.  \<open>decode\<close> is the JSON decoder.
\<close>

record 'o user_world =
  uw_T :: tables
  uw_S :: "'o MinIOStorageService"

record user_env =
  ue_sha256 :: "string \<Rightarrow> string"
  ue_pepper :: string
  ue_clk :: clock

definition session_view_json :: "session_view \<Rightarrow> json" where
  "session_view_json v = JObj ([(''id'', JInt (int (sv_ID v))), (''created_at'', JTime (sv_CreatedAt v)), (''expires_at'', JTime (sv_ExpiresAt v))]
     @ (case sv_RevokedAt v of None \<Rightarrow> [] | Some t \<Rightarrow> [(''revoked_at'', JTime t)])
     @ [(''user_agent'', JStr (sv_UserAgent v)), (''ip'', JStr (sv_IP v)), (''is_current'', JBool (sv_IsCurrent v))])"

definition UserHandler_Me :: "dbconn \<Rightarrow> string \<Rightarrow> 'o user_world handler" where
  "UserHandler_Me D reqID = (\<lambda>r hs W.
     case authUserIDAndClaims r of
       None \<Rightarrow> (response_Error reqID r hs 401 ''UNAUTHORIZED'' ''invalid user'' [], W)
     | Some (userID, claims) \<Rightarrow>
         (case UserService_GetByID D userID (uw_T W) of
            Inl e \<Rightarrow> (response_Error reqID r hs 404 ''NOT_FOUND'' ''user not found'' [], W)
          | Inr (u, _) \<Rightarrow> (response_JSON reqID r hs 200 (user_json u), W)))"

definition UserHandler_Sessions :: "dbconn \<Rightarrow> user_env \<Rightarrow> string \<Rightarrow> 'o user_world handler" where
  "UserHandler_Sessions D E reqID = (\<lambda>r hs W.
     case authUserIDAndClaims r of
       None \<Rightarrow> (response_Error reqID r hs 401 ''UNAUTHORIZED'' ''invalid user'' [], W)
     | Some (userID, claims) \<Rightarrow>
         (let current = SessionService_ResolveCurrentSessionID (g_sessions D) (ue_sha256 E) (ue_pepper E) (ue_clk E) r (Some claims) userID
                          (tb_sessions (uw_T W)) in
          case (case current of Inl e \<Rightarrow> if e = ErrSessionNotFound then Some 0 else None | Inr i \<Rightarrow> Some i) of
            None \<Rightarrow> (response_Error reqID r hs 500 ''INTERNAL'' ''failed to resolve current session'' [], W)
          | Some currentSessionID \<Rightarrow>
              (case SessionService_ListActiveSessions (g_sessions D) (ue_clk E 2) userID currentSessionID (tb_sessions (uw_T W)) of
                 Inl e \<Rightarrow> (response_Error reqID r hs 500 ''INTERNAL'' ''failed to list sessions'' [], W)
               | Inr views \<Rightarrow> (response_JSON reqID r hs 200 (JArr (map session_view_json views)), W))))"

definition UserHandler_RevokeSession :: "dbconn \<Rightarrow> user_env \<Rightarrow> string \<Rightarrow> 'o user_world handler" where
  "UserHandler_RevokeSession D E reqID = (\<lambda>r hs W.
     case authUserIDAndClaims r of
       None \<Rightarrow> (response_Error reqID r hs 401 ''UNAUTHORIZED'' ''invalid user'' [], W)
     | Some (userID, claims) \<Rightarrow>
         (case ParseUint (URLParam r ''session_id'') of
            None \<Rightarrow> (response_Error reqID r hs 400 ''BAD_REQUEST'' ''invalid session id'' [], W)
          | Some sessionID \<Rightarrow>
              (case SessionService_RevokeSession (g_sessions D) (ue_clk E 0) userID sessionID (tb_sessions (uw_T W)) of
                 (Inl e, t) \<Rightarrow>
                   (if e = ErrSessionNotFound then response_Error reqID r hs 404 ''NOT_FOUND'' ''session not found'' []
                    else response_Error reqID r hs 500 ''INTERNAL'' ''failed to revoke session'' [],
                    W\<lparr>uw_T := (uw_T W)\<lparr>tb_sessions := t\<rparr>\<rparr>)
               | (Inr status, t) \<Rightarrow>
                   (response_JSON reqID r hs 200 (JObj [(''session_id'', JInt (int sessionID)), (''status'', JStr status)]),
                    W\<lparr>uw_T := (uw_T W)\<lparr>tb_sessions := t\<rparr>\<rparr>))))"

definition UserHandler_RevokeOtherSessions :: "dbconn \<Rightarrow> user_env \<Rightarrow> string \<Rightarrow> 'o user_world handler" where
  "UserHandler_RevokeOtherSessions D E reqID = (\<lambda>r hs W.
     case authUserIDAndClaims r of
       None \<Rightarrow> (response_Error reqID r hs 401 ''UNAUTHORIZED'' ''invalid user'' [], W)
     | Some (userID, claims) \<Rightarrow>
         (case SessionService_ResolveCurrentSessionID (g_sessions D) (ue_sha256 E) (ue_pepper E) (ue_clk E) r (Some claims) userID
                 (tb_sessions (uw_T W)) of
            Inl e \<Rightarrow> (response_Error reqID r hs 401 ''UNAUTHORIZED'' ''unable to determine current session'' [], W)
          | Inr currentSessionID \<Rightarrow>
              (case SessionService_RevokeOtherSessions (g_sessions D) (ue_clk E 2) userID currentSessionID (tb_sessions (uw_T W)) of
                 (Inl e, t) \<Rightarrow>
                   (response_Error reqID r hs 500 ''INTERNAL'' ''failed to revoke other sessions'' [], W\<lparr>uw_T := (uw_T W)\<lparr>tb_sessions := t\<rparr>\<rparr>)
               | (Inr revokedCount, t) \<Rightarrow>
                   (response_JSON reqID r hs 200
                      (JObj [(''current_session_id'', JInt (int currentSessionID)), (''revoked_count'', JInt (int revokedCount))]),
                    W\<lparr>uw_T := (uw_T W)\<lparr>tb_sessions := t\<rparr>\<rparr>))))"

definition limit_body :: "nat \<Rightarrow> request \<Rightarrow> request" where
  "limit_body n r = r\<lparr>rq_Body := (case rq_Body r of
       Inl e \<Rightarrow> Inl e
     | Inr b \<Rightarrow> if length b > n then Inl (External ''http: request body too large'') else Inr b)\<rparr>"

definition UserHandler_UploadAvatar ::
    "'o minio \<Rightarrow> (string \<Rightarrow> string) \<Rightarrow> string \<Rightarrow> string \<Rightarrow> (request \<Rightarrow> unit result)
     \<Rightarrow> (request \<Rightarrow> ((string \<times> goerr option) \<times> int \<times> string) result) \<Rightarrow> string \<Rightarrow> 'o user_world handler" where
  "UserHandler_UploadAvatar M detect uuid uploadedAt parseForm formFile reqID = (\<lambda>r hs W.
     case authUserIDAndClaims r of
       None \<Rightarrow> (response_Error reqID r hs 401 ''UNAUTHORIZED'' ''invalid user'' [], W)
     | Some (userID, claims) \<Rightarrow>
         (let r = limit_body 6291456 r in
          case parseForm r of
            Inl e \<Rightarrow> (response_Error reqID r hs 400 ''BAD_REQUEST'' ''failed to parse multipart form'' [], W)
          | Inr _ \<Rightarrow>
              (case formFile r of
                 Inl e \<Rightarrow> (response_Error reqID r hs 400 ''BAD_REQUEST'' ''avatar file is required'' [], W)
               | Inr (f, fsize, ctype) \<Rightarrow>
                   (case UploadAvatar M detect uuid uploadedAt userID f fsize (uw_S W) of
                      (Inl e, S) \<Rightarrow>
                        (if e = ErrFileTooBig then response_Error reqID r hs 400 ''FILE_TOO_LARGE'' ''file size exceeds 5MB limit'' []
                         else if e = ErrInvalidFileType
                           then response_Error reqID r hs 400 ''INVALID_FILE_TYPE'' ''only JPEG and PNG images are allowed'' []
                         else response_Error reqID r hs 500 ''INTERNAL'' ''failed to upload avatar'' [], W\<lparr>uw_S := S\<rparr>)
                    | (Inr objectKey, S) \<Rightarrow>
                        (case GenerateAvatarURL M objectKey S of
                           (Inl e, S') \<Rightarrow> (response_Error reqID r hs 500 ''INTERNAL'' ''failed to generate avatar URL'' [], W\<lparr>uw_S := S'\<rparr>)
                         | (Inr avatarURL, S') \<Rightarrow>
                             (response_JSON reqID r hs 200
                                (JObj [(''object_key'', JStr objectKey), (''avatar_url'', JStr avatarURL), (''file_size'', JInt fsize),
                                       (''uploaded_at'', JStr ''now'')]), W\<lparr>uw_S := S'\<rparr>))))))"

definition UserHandler_DeleteAvatar ::
    "'o minio \<Rightarrow> (request \<Rightarrow> string option) \<Rightarrow> string \<Rightarrow> 'o user_world handler" where
  "UserHandler_DeleteAvatar M decode reqID = (\<lambda>r hs W.
     case authUserIDAndClaims r of
       None \<Rightarrow> (response_Error reqID r hs 401 ''UNAUTHORIZED'' ''invalid user'' [], W)
     | Some (userID, claims) \<Rightarrow>
         (case decode r of
            None \<Rightarrow> (response_Error reqID r hs 400 ''BAD_REQUEST'' ''invalid request body'' [], W)
          | Some objectKey \<Rightarrow>
              if objectKey = [] then (response_Error reqID r hs 400 ''BAD_REQUEST'' ''object_key is required'' [], W)
              else (case DeleteAvatar M userID objectKey (uw_S W) of
                      (Inl e, S) \<Rightarrow>
                        (if e = ErrUnauthorizedAccess
                         then response_Error reqID r hs 403 ''FORBIDDEN'' ''you do not have permission to delete this avatar'' []
                         else response_Error reqID r hs 500 ''INTERNAL'' ''failed to delete avatar'' [], W\<lparr>uw_S := S\<rparr>)
                    | (Inr _, S) \<Rightarrow>
                        (response_JSON reqID r hs 200 (JObj [(''object_key'', JStr objectKey), (''deleted'', JBool True)]), W\<lparr>uw_S := S\<rparr>))))"

subsection \<open>A caller acts on the own account only\<close>

lemma filter_other_rows:
  "(\<And>r. P r \<Longrightarrow> \<not> Q r \<and> \<not> Q (f r)) \<Longrightarrow> filter Q (upd_where P f t) = filter Q t"
  by (induction t) (auto simp: upd_where_def)

lemma revoke_own_sessions:
  assumes "session_table G"
  shows "SessionService_RevokeSession G now u i t = (res, t') \<Longrightarrow> filter (\<lambda>s. s_UserID s \<noteq> u) t' = filter (\<lambda>s. s_UserID s \<noteq> u) t"
    and "SessionService_RevokeOtherSessions G now u i t = (res', t') \<Longrightarrow> filter (\<lambda>s. s_UserID s \<noteq> u) t' = filter (\<lambda>s. s_UserID s \<noteq> u) t"
proof -
  have upd: "filter (\<lambda>s. s_UserID s \<noteq> u) t' = filter (\<lambda>s. s_UserID s \<noteq> u) t"
    if "gorm_Updates G p (revoke now reason) t = Inr (n, t')" "\<And>s. p s \<Longrightarrow> s_UserID s = u" for p reason n t'
    using gorm_table.updates_rows [OF assms that(1)] that(2) by (simp add: filter_other_rows)
  show "SessionService_RevokeSession G now u i t = (res, t') \<Longrightarrow> filter (\<lambda>s. s_UserID s \<noteq> u) t' = filter (\<lambda>s. s_UserID s \<noteq> u) t"
    by (auto simp: SessionService_RevokeSession_def SessionRepository_RevokeByIDForUser_def
        split: sum.splits prod.splits if_splits dest: upd)
  show "SessionService_RevokeOtherSessions G now u i t = (res', t') \<Longrightarrow> filter (\<lambda>s. s_UserID s \<noteq> u) t' = filter (\<lambda>s. s_UserID s \<noteq> u) t"
    by (auto simp: SessionService_RevokeOtherSessions_def SessionRepository_RevokeOthersByUser_def
        split: sum.splits prod.splits if_splits dest: upd)
qed

lemma own_avatars:
  assumes "object_store M view" "op_user op = Some u \<or> op_user op = None" "v \<noteq> u" "HasPrefix k (user_prefix v)"
  shows "stored view (avatar_step M detect op s) k = stored view s k"
  using avatar_step_frame [OF assms(1), of detect op s k] user_prefix_inj assms by fastforce

text \<open>What the user \<open>u\<close> may change of the state.\<close>

definition own_change :: "('o \<Rightarrow> string \<Rightarrow> string \<Rightarrow> object option) \<Rightarrow> uint \<Rightarrow> 'o user_world \<Rightarrow> 'o user_world \<Rightarrow> bool" where
  "own_change view u W W' \<longleftrightarrow>
     (\<exists>t. uw_T W' = (uw_T W)\<lparr>tb_sessions := t\<rparr>
        \<and> filter (\<lambda>s. s_UserID s \<noteq> u) t = filter (\<lambda>s. s_UserID s \<noteq> u) (tb_sessions (uw_T W)))
   \<and> (\<forall>v k. v \<noteq> u \<and> HasPrefix k (user_prefix v) \<longrightarrow> stored view (uw_S W') k = stored view (uw_S W) k)"

lemma own_change_refl [simp]: "own_change view u W W"
  by (auto simp: own_change_def intro: exI [of _ "tb_sessions (uw_T W)"])

lemma own_change_sessions:
  "filter (\<lambda>s. s_UserID s \<noteq> u) t = filter (\<lambda>s. s_UserID s \<noteq> u) (tb_sessions (uw_T W)) \<Longrightarrow>
   own_change view u W (W\<lparr>uw_T := (uw_T W)\<lparr>tb_sessions := t\<rparr>\<rparr>)"
  by (auto simp: own_change_def)

lemma own_change_objects:
  assumes "object_store M view"
  shows "UploadAvatar M detect uuid uploadedAt u f n (uw_S W) = (res, S) \<Longrightarrow> own_change view u W (W\<lparr>uw_S := S\<rparr>)"
    and "DeleteAvatar M u key (uw_S W) = (res', S) \<Longrightarrow> own_change view u W (W\<lparr>uw_S := S\<rparr>)"
    and "UploadAvatar M detect uuid uploadedAt u f n (uw_S W) = (res, S) \<Longrightarrow> GenerateAvatarURL M key S = (res2, S')
         \<Longrightarrow> own_change view u W (W\<lparr>uw_S := S'\<rparr>)"
proof -
  have step: "stored view (avatar_step M detect op s) k = stored view s k"
    if "op_user op = Some u \<or> op_user op = None" "v \<noteq> u" "HasPrefix k (user_prefix v)" for op s v k
    by (rule own_avatars [OF assms that])
  have tables: "\<exists>t. uw_T W = (uw_T W)\<lparr>tb_sessions := t\<rparr> \<and> filter (\<lambda>s. s_UserID s \<noteq> u) t = filter (\<lambda>s. s_UserID s \<noteq> u) (tb_sessions (uw_T W))"
    by (auto intro: exI [of _ "tb_sessions (uw_T W)"])
  show "UploadAvatar M detect uuid uploadedAt u f n (uw_S W) = (res, S) \<Longrightarrow> own_change view u W (W\<lparr>uw_S := S\<rparr>)"
    using step [of "Upload u uuid uploadedAt f n" _ _ "uw_S W"] tables by (auto simp: own_change_def)
  show "DeleteAvatar M u key (uw_S W) = (res', S) \<Longrightarrow> own_change view u W (W\<lparr>uw_S := S\<rparr>)"
    using step [of "Delete u key" _ _ "uw_S W"] tables by (auto simp: own_change_def)
  show "UploadAvatar M detect uuid uploadedAt u f n (uw_S W) = (res, S) \<Longrightarrow> GenerateAvatarURL M key S = (res2, S')
         \<Longrightarrow> own_change view u W (W\<lparr>uw_S := S'\<rparr>)"
    using step [of "Upload u uuid uploadedAt f n" _ _ "uw_S W"] step [of "Link key" _ _ S] tables by (auto simp: own_change_def)
qed

lemmas user_handler_defs = UserHandler_Me_def UserHandler_Sessions_def UserHandler_RevokeSession_def
  UserHandler_RevokeOtherSessions_def UserHandler_UploadAvatar_def UserHandler_DeleteAvatar_def

lemma session_handlers_own:
  assumes "session_table (g_sessions D)" "authUserIDAndClaims r = Some (u, c)"
  shows "UserHandler_Me D q r hs W = (resp, W') \<Longrightarrow> own_change view u W W'"
    and "UserHandler_Sessions D E q r hs W = (resp, W') \<Longrightarrow> own_change view u W W'"
    and "UserHandler_RevokeSession D E q r hs W = (resp, W') \<Longrightarrow> own_change view u W W'"
    and "UserHandler_RevokeOtherSessions D E q r hs W = (resp, W') \<Longrightarrow> own_change view u W W'"
  using assms(2)
  by (auto simp: user_handler_defs Let_def intro!: own_change_sessions dest: revoke_own_sessions [OF assms(1)]
      split: option.splits sum.splits prod.splits if_splits)

lemma avatar_handlers_own:
  assumes "object_store M view" "authUserIDAndClaims r = Some (u, c)"
  shows "UserHandler_UploadAvatar M detect uuid uploadedAt parseForm formFile q r hs W = (resp, W') \<Longrightarrow> own_change view u W W'"
    and "UserHandler_DeleteAvatar M decode q r hs W = (resp, W') \<Longrightarrow> own_change view u W W'"
  using assms(2)
  by (auto simp: user_handler_defs Let_def dest: own_change_objects [OF assms(1)]
      split: option.splits sum.splits prod.splits if_splits)

text \<open>
  C38: A caller acts on the own account only.  Every handler of \<open>user_handler.go\<close> answers 401 and changes
  nothing for a request without a valid user; for the user \<open>u\<close> it leaves every table but the sessions alone,
  the sessions of every other user as they are, and the avatars of every other user as they are,
  whatever session or object the request names.
\<close>

theorem account_handlers_stay_in_account:
  assumes "session_table (g_sessions D)" "object_store M view"
    and "h = UserHandler_Me D reqID \<or> h = UserHandler_Sessions D E reqID \<or> h = UserHandler_RevokeSession D E reqID
       \<or> h = UserHandler_RevokeOtherSessions D E reqID
       \<or> h = UserHandler_UploadAvatar M detect uuid uploadedAt parseForm formFile reqID \<or> h = UserHandler_DeleteAvatar M decode reqID"
    and "h r hs W = (resp, W')"
  shows "case authUserIDAndClaims r of
      None \<Rightarrow> rs_Status resp = 401 \<and> W' = W
    | Some (u, c) \<Rightarrow>
        (\<exists>t. uw_T W' = (uw_T W)\<lparr>tb_sessions := t\<rparr>
           \<and> filter (\<lambda>s. s_UserID s \<noteq> u) t = filter (\<lambda>s. s_UserID s \<noteq> u) (tb_sessions (uw_T W)))
      \<and> (\<forall>v k. v \<noteq> u \<and> HasPrefix k (user_prefix v) \<longrightarrow> stored view (uw_S W') k = stored view (uw_S W) k)"
proof (cases "authUserIDAndClaims r")
  case None
  then show ?thesis using assms(3,4) by (auto simp: user_handler_defs response_Error_def)
next
  case (Some p)
  then obtain u c where p: "authUserIDAndClaims r = Some (u, c)" by (cases p) auto
  have "own_change view u W W'"
    using assms(3,4) session_handlers_own [OF assms(1) p] avatar_handlers_own [OF assms(2) p] by (elim disjE) simp_all
  then show ?thesis by (simp add: p own_change_def)
qed

definition account_demo_world :: "(string \<times> string \<Rightarrow> object option) user_world" where
  "account_demo_world = \<lparr>uw_T = \<lparr>tb_users = [], tb_roles = [], tb_perms = [], tb_user_roles = [], tb_role_perms = [], tb_creds = [],
       tb_vtokens = [], tb_oauth = [], tb_sessions = [session_of 1 7 ''h1'' ''t1'' ''f1'' None, session_of 2 8 ''h2'' ''t2'' ''f2'' None]\<rparr>,
     uw_S = NewMinIOStorageService ''b'' (\<lambda>_. None)\<rparr>"

definition account_demo_request :: request where
  "account_demo_request = (demo_request ''DELETE'')\<lparr>rq_Claims := Some demo_claims, rq_Params := [(''session_id'', ''2'')]\<rparr>"

theorem account_handlers_stay_in_account_witness:
  "\<exists>t. uw_T (snd (UserHandler_RevokeSession (mem_db 0) \<lparr>ue_sha256 = id, ue_pepper = [], ue_clk = (\<lambda>_. 5)\<rparr> [] account_demo_request []
        account_demo_world)) = (uw_T account_demo_world)\<lparr>tb_sessions := t\<rparr>
     \<and> filter (\<lambda>s. s_UserID s \<noteq> 7) t = [session_of 2 8 ''h2'' ''t2'' ''f2'' None]"
proof -
  have store: "object_store map_minio (\<lambda>m b k. m (b, k))" by (simp add: object_store_def map_minio_def)
  have tab: "session_table (g_sessions (mem_db 0))"
    using mem_sessions_table.gorm_table_axioms [of 0] by (simp add: mem_db_def)
  obtain c where u: "authUserIDAndClaims account_demo_request = Some (7, c)"
    by (simp add: authUserIDAndClaims_def ClaimsFromContext_def account_demo_request_def demo_subject)
  show ?thesis
    using account_handlers_stay_in_account [OF tab store disjI2 [OF disjI2 [OF disjI1 [OF refl]]] prod.collapse [symmetric],
        of "\<lparr>ue_sha256 = id, ue_pepper = [], ue_clk = (\<lambda>_. 5)\<rparr>" "[]" account_demo_request "[]" account_demo_world]
    by (auto simp: u account_demo_world_def session_of_def)
qed

end
