(* ===== verification/Flag_Handler.thy ===== *)
theory Flag_Handler
  imports Flag_Consistency Handler_Util
begin

section \<open>Feature flags over HTTP: \<open>feature_flag_handler.go\<close>\<close>

text \<open>
  The state behind these handlers is the tables of flags and rules and the evaluation cache.  \<open>decode\<close> is
  the JSON decoder of the body, \<open>None\<close> for an error.  The service fills in the struct it is given: the
  identity and creation time of a new row, and the normal form of a rule.  The handlers answer with
  that struct.
\<close>

record 's flag_world =
  fw_T :: flag_tables
  fw_cache :: 's

record flag_body =
  fb_Key :: string
  fb_Description :: string
  fb_Enabled :: bool

record rule_body =
  rb_Type :: string
  rb_MatchValue :: string
  rb_Percentage :: int
  rb_Enabled :: bool
  rb_Priority :: int

definition featureFlagKeyRe :: "string \<Rightarrow> bool" where
  "featureFlagKeyRe s =
     (case s of
        [] \<Rightarrow> False
      | c # cs \<Rightarrow>
          (is_digit c \<or> char_between (CHR ''a'') (CHR ''z'') c) \<and> length cs \<le> 127
          \<and> list_all (\<lambda>d. is_digit d \<or> char_between (CHR ''a'') (CHR ''z'') d \<or> d = CHR ''_'' \<or> d = CHR ''-'') cs)"

definition rule_json :: "feature_flag_rule \<Rightarrow> json" where
  "rule_json q = JObj [(''id'', JInt (int (fr_ID q))), (''feature_flag_id'', JInt (int (fr_FeatureFlagID q))), (''type'', JStr (fr_Type q)),
     (''match_value'', JStr (fr_MatchValue q)), (''percentage'', JInt (fr_Percentage q)), (''enabled'', JBool (fr_Enabled q)),
     (''priority'', JInt (fr_Priority q)), (''created_at'', JTime (fr_CreatedAt q))]"

definition flag_json :: "feature_flag \<Rightarrow> json" where
  "flag_json f = JObj ([(''id'', JInt (int (ff_ID f))), (''key'', JStr (ff_Key f)), (''description'', JStr (ff_Description f)),
     (''enabled'', JBool (ff_Enabled f))]
     @ (if ff_Rules f = [] then [] else [(''rules'', JArr (map rule_json (ff_Rules f)))])
     @ [(''created_at'', JTime (ff_CreatedAt f))])"

definition evaluation_json :: "FeatureFlagEvaluationResult \<Rightarrow> json" where
  "evaluation_json v = JObj [(''key'', JStr (er_Key v)), (''enabled'', JBool (er_Enabled v)), (''source'', JStr (er_Source v)),
     (''description'', JStr (er_Description v))]"

definition flag_toDomain :: "uint \<Rightarrow> string \<Rightarrow> flag_body \<Rightarrow> feature_flag" where
  "flag_toDomain i key body = \<lparr>ff_ID = i, ff_Key = key, ff_Description = TrimSpace (fb_Description body),
     ff_Enabled = fb_Enabled body, ff_Rules = [], ff_CreatedAt = zero_time\<rparr>"

definition rule_toDomain :: "uint \<Rightarrow> uint \<Rightarrow> rule_body \<Rightarrow> feature_flag_rule" where
  "rule_toDomain i flagID body = \<lparr>fr_ID = i, fr_FeatureFlagID = flagID, fr_Type = rb_Type body, fr_MatchValue = rb_MatchValue body,
     fr_Percentage = rb_Percentage body, fr_Enabled = rb_Enabled body, fr_Priority = rb_Priority body, fr_CreatedAt = zero_time\<rparr>"

definition request_context :: "uint \<Rightarrow> claims \<Rightarrow> request \<Rightarrow> FeatureFlagEvaluationContext" where
  "request_context userID claims r = \<lparr>ec_UserID = userID, ec_Roles = cl_Roles claims,
     ec_Org = TrimSpace (Query_Get r ''org''), ec_Environment = TrimSpace (Query_Get r ''environment'')\<rparr>"

subsection \<open>Evaluation\<close>

definition FlagHandler_EvaluateAll :: "'s flag_service \<Rightarrow> flag_db \<Rightarrow> clock \<Rightarrow> string \<Rightarrow> 's flag_world handler" where
  "FlagHandler_EvaluateAll F D clk reqID = (\<lambda>r hs W.
     case authUserIDAndClaims r of
       None \<Rightarrow> (response_Error reqID r hs 401 ''UNAUTHORIZED'' ''invalid user'' [], W)
     | Some (userID, claims) \<Rightarrow>
         (case FlagService_EvaluateAll F D clk (request_context userID claims r) (fw_T W) (fw_cache W) of
            (Inl e, s) \<Rightarrow> (response_Error reqID r hs 500 ''INTERNAL'' ''failed to evaluate feature flags'' [], W\<lparr>fw_cache := s\<rparr>)
          | (Inr results, s) \<Rightarrow>
              (response_JSON reqID r hs 200 (JObj [(''items'', JArr (map evaluation_json results))]), W\<lparr>fw_cache := s\<rparr>)))"

definition FlagHandler_EvaluateOne :: "'s flag_service \<Rightarrow> flag_db \<Rightarrow> string \<Rightarrow> 's flag_world handler" where
  "FlagHandler_EvaluateOne F D reqID = (\<lambda>r hs W.
     case authUserIDAndClaims r of
       None \<Rightarrow> (response_Error reqID r hs 401 ''UNAUTHORIZED'' ''invalid user'' [], W)
     | Some (userID, claims) \<Rightarrow>
         (let key = TrimSpace (ToLower (URLParam r ''key'')) in
          if \<not> featureFlagKeyRe key then (response_Error reqID r hs 400 ''BAD_REQUEST'' ''invalid feature flag key'' [], W)
          else
            (case FlagService_EvaluateByKey F D key (request_context userID claims r) (fw_T W) of
               Inl e \<Rightarrow>
                 (if e = ErrFeatureFlagNotFound then response_Error reqID r hs 404 ''NOT_FOUND'' ''feature flag not found'' []
                  else response_Error reqID r hs 500 ''INTERNAL'' ''failed to evaluate feature flag'' [], W)
             | Inr v \<Rightarrow> (response_JSON reqID r hs 200 (evaluation_json v), W))))"

subsection \<open>Reading flags and rules\<close>

definition FlagHandler_ListFlags :: "flag_db \<Rightarrow> string \<Rightarrow> 's flag_world handler" where
  "FlagHandler_ListFlags D reqID = (\<lambda>r hs W.
     case FlagService_ListFlags D (fw_T W) of
       Inl e \<Rightarrow> (response_Error reqID r hs 500 ''INTERNAL'' ''failed to list feature flags'' [], W)
     | Inr flags \<Rightarrow> (response_JSON reqID r hs 200 (JObj [(''items'', JArr (map flag_json flags))]), W))"

definition FlagHandler_GetFlag :: "flag_db \<Rightarrow> string \<Rightarrow> 's flag_world handler" where
  "FlagHandler_GetFlag D reqID = (\<lambda>r hs W.
     case parsePathID (URLParam r ''id'') of
       None \<Rightarrow> (response_Error reqID r hs 400 ''BAD_REQUEST'' ''invalid flag id'' [], W)
     | Some flagID \<Rightarrow>
         (case FlagService_GetFlagByID D flagID (fw_T W) of
            Inl e \<Rightarrow>
              (if e = ErrFeatureFlagNotFound then response_Error reqID r hs 404 ''NOT_FOUND'' ''feature flag not found'' []
               else response_Error reqID r hs 500 ''INTERNAL'' ''failed to load feature flag'' [], W)
          | Inr flag \<Rightarrow> (response_JSON reqID r hs 200 (flag_json flag), W)))"

definition FlagHandler_ListRules :: "flag_db \<Rightarrow> string \<Rightarrow> 's flag_world handler" where
  "FlagHandler_ListRules D reqID = (\<lambda>r hs W.
     case parsePathID (URLParam r ''id'') of
       None \<Rightarrow> (response_Error reqID r hs 400 ''BAD_REQUEST'' ''invalid flag id'' [], W)
     | Some flagID \<Rightarrow>
         (case FlagService_ListRules D flagID (fw_T W) of
            Inl e \<Rightarrow> (response_Error reqID r hs 500 ''INTERNAL'' ''failed to list rules'' [], W)
          | Inr rules \<Rightarrow> (response_JSON reqID r hs 200 (JObj [(''items'', JArr (map rule_json rules))]), W)))"

subsection \<open>Writing flags\<close>

definition FlagHandler_CreateFlag ::
    "'s flag_service \<Rightarrow> flag_db \<Rightarrow> gotime \<Rightarrow> (request \<Rightarrow> flag_body option) \<Rightarrow> string \<Rightarrow> 's flag_world handler" where
  "FlagHandler_CreateFlag F D now decode reqID = (\<lambda>r hs W.
     case decode r of
       None \<Rightarrow> (response_Error reqID r hs 400 ''BAD_REQUEST'' ''invalid payload'' [], W)
     | Some body \<Rightarrow>
         (let key = TrimSpace (ToLower (fb_Key body)) in
          if \<not> featureFlagKeyRe key then (response_Error reqID r hs 400 ''BAD_REQUEST'' ''invalid feature flag key'' [], W)
          else
            (let flag = flag_toDomain 0 key body in
             case FlagService_CreateFlag F D now flag (fw_T W) (fw_cache W) of
               (Inl e, T, s) \<Rightarrow>
                 (if isConflictError e then response_Error reqID r hs 409 ''CONFLICT'' ''feature flag already exists'' []
                  else response_Error reqID r hs 400 ''BAD_REQUEST'' ''failed to create feature flag'' [], W\<lparr>fw_T := T, fw_cache := s\<rparr>)
             | (Inr _, T, s) \<Rightarrow>
                 (case fst (FlagRepository_CreateFlag D (flag\<lparr>ff_Key := TrimSpace (ToLower key)\<rparr>) (fw_T W)) of
                    Inr stored \<Rightarrow> response_JSON reqID r hs 201 (flag_json stored)
                  | Inl _ \<Rightarrow> response_JSON reqID r hs 201 (flag_json flag), W\<lparr>fw_T := T, fw_cache := s\<rparr>))))"

definition FlagHandler_UpdateFlag ::
    "'s flag_service \<Rightarrow> flag_db \<Rightarrow> gotime \<Rightarrow> (request \<Rightarrow> flag_body option) \<Rightarrow> string \<Rightarrow> 's flag_world handler" where
  "FlagHandler_UpdateFlag F D now decode reqID = (\<lambda>r hs W.
     case parsePathID (URLParam r ''id'') of
       None \<Rightarrow> (response_Error reqID r hs 400 ''BAD_REQUEST'' ''invalid flag id'' [], W)
     | Some flagID \<Rightarrow>
         (case decode r of
            None \<Rightarrow> (response_Error reqID r hs 400 ''BAD_REQUEST'' ''invalid payload'' [], W)
          | Some body \<Rightarrow>
              (let key = TrimSpace (ToLower (fb_Key body)) in
               if \<not> featureFlagKeyRe key then (response_Error reqID r hs 400 ''BAD_REQUEST'' ''invalid feature flag key'' [], W)
               else
                 (let flag = flag_toDomain flagID key body in
                  case FlagService_UpdateFlag F D now flag (fw_T W) (fw_cache W) of
                    (Inl e, T, s) \<Rightarrow>
                      (if e = ErrFeatureFlagNotFound then response_Error reqID r hs 404 ''NOT_FOUND'' ''feature flag not found'' []
                       else if isConflictError e then response_Error reqID r hs 409 ''CONFLICT'' ''feature flag already exists'' []
                       else response_Error reqID r hs 400 ''BAD_REQUEST'' ''failed to update feature flag'' [],
                       W\<lparr>fw_T := T, fw_cache := s\<rparr>)
                  | (Inr _, T, s) \<Rightarrow> (response_JSON reqID r hs 200 (flag_json flag), W\<lparr>fw_T := T, fw_cache := s\<rparr>)))))"

definition FlagHandler_DeleteFlag :: "'s flag_service \<Rightarrow> flag_db \<Rightarrow> gotime \<Rightarrow> string \<Rightarrow> 's flag_world handler" where
  "FlagHandler_DeleteFlag F D now reqID = (\<lambda>r hs W.
     case parsePathID (URLParam r ''id'') of
       None \<Rightarrow> (response_Error reqID r hs 400 ''BAD_REQUEST'' ''invalid flag id'' [], W)
     | Some flagID \<Rightarrow>
         (case FlagService_DeleteFlag F D now flagID (fw_T W) (fw_cache W) of
            (Inl e, T, s) \<Rightarrow>
              (if e = ErrFeatureFlagNotFound then response_Error reqID r hs 404 ''NOT_FOUND'' ''feature flag not found'' []
               else response_Error reqID r hs 500 ''INTERNAL'' ''failed to delete feature flag'' [], W\<lparr>fw_T := T, fw_cache := s\<rparr>)
          | (Inr _, T, s) \<Rightarrow> (response_JSON reqID r hs 200 (JObj [(''deleted'', JBool True)]), W\<lparr>fw_T := T, fw_cache := s\<rparr>)))"

subsection \<open>Writing rules\<close>

definition FlagHandler_CreateRule ::
    "'s flag_service \<Rightarrow> flag_db \<Rightarrow> gotime \<Rightarrow> (request \<Rightarrow> rule_body option) \<Rightarrow> string \<Rightarrow> 's flag_world handler" where
  "FlagHandler_CreateRule F D now decode reqID = (\<lambda>r hs W.
     case parsePathID (URLParam r ''id'') of
       None \<Rightarrow> (response_Error reqID r hs 400 ''BAD_REQUEST'' ''invalid flag id'' [], W)
     | Some flagID \<Rightarrow>
         (case decode r of
            None \<Rightarrow> (response_Error reqID r hs 400 ''BAD_REQUEST'' ''invalid payload'' [], W)
          | Some body \<Rightarrow>
              (let rule = rule_toDomain 0 flagID body in
               case FlagService_CreateRule F D now rule (fw_T W) (fw_cache W) of
                 (Inl e, T, s) \<Rightarrow>
                   (if e = ErrFeatureFlagInvalidRuleType \<or> e = ErrFeatureFlagInvalidRuleValue
                    then response_Error reqID r hs 400 ''BAD_REQUEST'' (Error_text e) []
                    else if isConflictError e then response_Error reqID r hs 409 ''CONFLICT'' ''feature flag rule already exists'' []
                    else response_Error reqID r hs 400 ''BAD_REQUEST'' ''failed to create rule'' [], W\<lparr>fw_T := T, fw_cache := s\<rparr>)
               | (Inr _, T, s) \<Rightarrow>
                   (case fst (FlagRepository_CreateRule D (snd (normalizeAndValidateRule rule)) (fw_T W)) of
                      Inr stored \<Rightarrow> response_JSON reqID r hs 201 (rule_json stored)
                    | Inl _ \<Rightarrow> response_JSON reqID r hs 201 (rule_json rule), W\<lparr>fw_T := T, fw_cache := s\<rparr>))))"

definition FlagHandler_UpdateRule ::
    "'s flag_service \<Rightarrow> flag_db \<Rightarrow> gotime \<Rightarrow> (request \<Rightarrow> rule_body option) \<Rightarrow> string \<Rightarrow> 's flag_world handler" where
  "FlagHandler_UpdateRule F D now decode reqID = (\<lambda>r hs W.
     case parsePathID (URLParam r ''id'') of
       None \<Rightarrow> (response_Error reqID r hs 400 ''BAD_REQUEST'' ''invalid flag id'' [], W)
     | Some flagID \<Rightarrow>
         (case parsePathID (URLParam r ''rule_id'') of
            None \<Rightarrow> (response_Error reqID r hs 400 ''BAD_REQUEST'' ''invalid rule id'' [], W)
          | Some ruleID \<Rightarrow>
              (case decode r of
                 None \<Rightarrow> (response_Error reqID r hs 400 ''BAD_REQUEST'' ''invalid payload'' [], W)
               | Some body \<Rightarrow>
                   (let rule = rule_toDomain ruleID flagID body in
                    case FlagService_UpdateRule F D now rule (fw_T W) (fw_cache W) of
                      (Inl e, T, s) \<Rightarrow>
                        (if e = ErrFeatureFlagRuleNotFound then response_Error reqID r hs 404 ''NOT_FOUND'' ''feature flag rule not found'' []
                         else if e = ErrFeatureFlagInvalidRuleType \<or> e = ErrFeatureFlagInvalidRuleValue
                           then response_Error reqID r hs 400 ''BAD_REQUEST'' (Error_text e) []
                         else response_Error reqID r hs 400 ''BAD_REQUEST'' ''failed to update rule'' [], W\<lparr>fw_T := T, fw_cache := s\<rparr>)
                    | (Inr _, T, s) \<Rightarrow>
                        (response_JSON reqID r hs 200 (rule_json (snd (normalizeAndValidateRule rule))), W\<lparr>fw_T := T, fw_cache := s\<rparr>)))))"

definition FlagHandler_DeleteRule :: "'s flag_service \<Rightarrow> flag_db \<Rightarrow> gotime \<Rightarrow> string \<Rightarrow> 's flag_world handler" where
  "FlagHandler_DeleteRule F D now reqID = (\<lambda>r hs W.
     case parsePathID (URLParam r ''id'') of
       None \<Rightarrow> (response_Error reqID r hs 400 ''BAD_REQUEST'' ''invalid flag id'' [], W)
     | Some flagID \<Rightarrow>
         (case parsePathID (URLParam r ''rule_id'') of
            None \<Rightarrow> (response_Error reqID r hs 400 ''BAD_REQUEST'' ''invalid rule id'' [], W)
          | Some ruleID \<Rightarrow>
              (case FlagService_DeleteRule F D now flagID ruleID (fw_T W) (fw_cache W) of
                 (Inl e, T, s) \<Rightarrow>
                   (if e = ErrFeatureFlagRuleNotFound then response_Error reqID r hs 404 ''NOT_FOUND'' ''feature flag rule not found'' []
                    else response_Error reqID r hs 500 ''INTERNAL'' ''failed to delete rule'' [], W\<lparr>fw_T := T, fw_cache := s\<rparr>)
               | (Inr _, T, s) \<Rightarrow> (response_JSON reqID r hs 200 (JObj [(''deleted'', JBool True)]), W\<lparr>fw_T := T, fw_cache := s\<rparr>))))"

lemma flag_toDomain_key [simp]: "ff_Key (flag_toDomain i key body) = key"
  by (simp add: flag_toDomain_def)

subsection \<open>Requests in sequence\<close>

text \<open>Every request is a change of the service, with a key the handlers accept, or leaves the tables alone.\<close>

definition flag_handlers ::
    "'s flag_service \<Rightarrow> flag_db \<Rightarrow> clock \<Rightarrow> (request \<Rightarrow> flag_body option) \<Rightarrow> (request \<Rightarrow> rule_body option) \<Rightarrow> string
     \<Rightarrow> 's flag_world handler set" where
  "flag_handlers F D clk decF decR reqID =
     {FlagHandler_EvaluateAll F D clk reqID, FlagHandler_EvaluateOne F D reqID, FlagHandler_ListFlags D reqID,
      FlagHandler_GetFlag D reqID, FlagHandler_ListRules D reqID, FlagHandler_CreateFlag F D (clk 0) decF reqID,
      FlagHandler_UpdateFlag F D (clk 0) decF reqID, FlagHandler_DeleteFlag F D (clk 0) reqID,
      FlagHandler_CreateRule F D (clk 0) decR reqID, FlagHandler_UpdateRule F D (clk 0) decR reqID,
      FlagHandler_DeleteRule F D (clk 0) reqID}"

inductive flag_request :: "'s flag_service \<Rightarrow> 's flag_world \<Rightarrow> 's flag_world \<Rightarrow> bool" for F where
  request: "flag_database D \<Longrightarrow> h \<in> flag_handlers F D clk decF decR reqID \<Longrightarrow> h r hs W = (resp, W') \<Longrightarrow> flag_request F W W'"

fun change_keys :: "flag_change \<Rightarrow> string set" where
  "change_keys (CreateFlag f) = {folded (ff_Key f)}"
| "change_keys (UpdateFlag f) = {folded (ff_Key f)}"
| "change_keys _ = {}"

abbreviation stored_keys :: "flag_tables \<Rightarrow> string set" where
  "stored_keys T \<equiv> ff_Key ` set (ft_flags T)"

lemmas flag_reads = FlagHandler_EvaluateAll_def FlagHandler_EvaluateOne_def FlagHandler_ListFlags_def FlagHandler_GetFlag_def
  FlagHandler_ListRules_def

lemma reads_keep_tables:
  assumes "h \<in> {FlagHandler_EvaluateAll F D clk reqID, FlagHandler_EvaluateOne F D reqID, FlagHandler_ListFlags D reqID,
      FlagHandler_GetFlag D reqID, FlagHandler_ListRules D reqID}" "h r hs W = (resp, W')"
  shows "fw_T W' = fw_T W"
  using assms by (auto simp: flag_reads Let_def split: option.splits prod.splits sum.splits if_splits)

lemma CreateFlag_changes:
  assumes "FlagHandler_CreateFlag F D now dec reqID r hs W = (resp, W')" "W' \<noteq> W"
  obtains f out where "change_flags F D now (CreateFlag f) (fw_T W) (fw_cache W) = (out, fw_T W', fw_cache W')"
    "featureFlagKeyRe (folded (ff_Key f))"
proof -
  obtain body where "dec r = Some body" and ok: "featureFlagKeyRe (folded (fb_Key body))"
    using assms by (auto simp: FlagHandler_CreateFlag_def Let_def split: option.splits if_splits)
  with assms have "\<exists>out. change_flags F D now (CreateFlag (flag_toDomain 0 (folded (fb_Key body)) body)) (fw_T W) (fw_cache W)
      = (out, fw_T W', fw_cache W')"
    by (auto simp: FlagHandler_CreateFlag_def Let_def split: prod.splits sum.splits)
  then show ?thesis using ok that by (elim exE) (simp only: flag_toDomain_key folded_idem)
qed

lemma UpdateFlag_changes:
  assumes "FlagHandler_UpdateFlag F D now dec reqID r hs W = (resp, W')" "W' \<noteq> W"
  obtains f out where "change_flags F D now (UpdateFlag f) (fw_T W) (fw_cache W) = (out, fw_T W', fw_cache W')"
    "featureFlagKeyRe (folded (ff_Key f))"
proof -
  obtain i body where "parsePathID (URLParam r ''id'') = Some i" "dec r = Some body" and ok: "featureFlagKeyRe (folded (fb_Key body))"
    using assms by (auto simp: FlagHandler_UpdateFlag_def Let_def split: option.splits if_splits)
  with assms have "\<exists>out. change_flags F D now (UpdateFlag (flag_toDomain i (folded (fb_Key body)) body)) (fw_T W) (fw_cache W)
      = (out, fw_T W', fw_cache W')"
    by (auto simp: FlagHandler_UpdateFlag_def Let_def split: prod.splits sum.splits)
  then show ?thesis using ok that by (elim exE) (simp only: flag_toDomain_key folded_idem)
qed

lemma other_writes_change:
  assumes "h \<in> {FlagHandler_DeleteFlag F D now reqID, FlagHandler_CreateRule F D now dec reqID, FlagHandler_UpdateRule F D now dec reqID,
      FlagHandler_DeleteRule F D now reqID}" "h r hs W = (resp, W')" "W' \<noteq> W"
  shows "\<exists>ch out. change_flags F D now ch (fw_T W) (fw_cache W) = (out, fw_T W', fw_cache W') \<and> change_keys ch = {}"
proof -
  have "\<exists>i out. change_flags F D now (DeleteFlag i) (fw_T W) (fw_cache W) = (out, fw_T W', fw_cache W')"
    if "FlagHandler_DeleteFlag F D now reqID r hs W = (resp, W')"
    using that assms(3) by (auto simp: FlagHandler_DeleteFlag_def split: option.splits prod.splits sum.splits) (intro exI, assumption)+
  moreover have "\<exists>q out. change_flags F D now (CreateRule q) (fw_T W) (fw_cache W) = (out, fw_T W', fw_cache W')"
    if "FlagHandler_CreateRule F D now dec reqID r hs W = (resp, W')"
    using that assms(3) by (auto simp: FlagHandler_CreateRule_def Let_def split: option.splits prod.splits sum.splits) (intro exI, assumption)+
  moreover have "\<exists>q out. change_flags F D now (UpdateRule q) (fw_T W) (fw_cache W) = (out, fw_T W', fw_cache W')"
    if "FlagHandler_UpdateRule F D now dec reqID r hs W = (resp, W')"
    using that assms(3) by (auto simp: FlagHandler_UpdateRule_def Let_def split: option.splits prod.splits sum.splits) (intro exI, assumption)+
  moreover have "\<exists>i j out. change_flags F D now (DeleteRule i j) (fw_T W) (fw_cache W) = (out, fw_T W', fw_cache W')"
    if "FlagHandler_DeleteRule F D now reqID r hs W = (resp, W')"
    using that assms(3) by (auto simp: FlagHandler_DeleteRule_def split: option.splits prod.splits sum.splits) (intro exI, assumption)+
  ultimately show ?thesis using assms(1,2) change_keys.simps(3-6) by fast
qed

lemma flag_request_changes:
  assumes "h \<in> flag_handlers F D clk decF decR reqID" "h r hs W = (resp, W')"
  shows "fw_T W' = fw_T W \<or> (\<exists>ch out. change_flags F D (clk 0) ch (fw_T W) (fw_cache W) = (out, fw_T W', fw_cache W')
    \<and> (\<forall>k \<in> change_keys ch. featureFlagKeyRe k))"
proof (cases "W' = W")
  case False
  consider (create) "h = FlagHandler_CreateFlag F D (clk 0) decF reqID" | (update) "h = FlagHandler_UpdateFlag F D (clk 0) decF reqID"
    | (other) "h \<in> {FlagHandler_DeleteFlag F D (clk 0) reqID, FlagHandler_CreateRule F D (clk 0) decR reqID,
        FlagHandler_UpdateRule F D (clk 0) decR reqID, FlagHandler_DeleteRule F D (clk 0) reqID}"
    | (read) "fw_T W' = fw_T W"
    using assms reads_keep_tables [of h F D clk reqID r hs W resp W'] unfolding flag_handlers_def by blast
  then show ?thesis
  proof cases
    case create
    with assms(2) obtain f out where "change_flags F D (clk 0) (CreateFlag f) (fw_T W) (fw_cache W) = (out, fw_T W', fw_cache W')"
        "featureFlagKeyRe (folded (ff_Key f))" using CreateFlag_changes [OF _ False] by metis
    then show ?thesis by (intro disjI2 exI [of _ "CreateFlag f"] exI [of _ out]) simp
  next
    case update
    with assms(2) obtain f out where "change_flags F D (clk 0) (UpdateFlag f) (fw_T W) (fw_cache W) = (out, fw_T W', fw_cache W')"
        "featureFlagKeyRe (folded (ff_Key f))" using UpdateFlag_changes [OF _ False] by metis
    then show ?thesis by (intro disjI2 exI [of _ "UpdateFlag f"] exI [of _ out]) simp
  next
    case other
    from other_writes_change [OF this assms(2) False] show ?thesis by auto
  qed simp
qed simp

context flag_database
begin

lemma change_flags_keys:
  assumes "change_flags F D now ch T s = (out, T', s')"
  shows "stored_keys T' \<subseteq> stored_keys T \<union> change_keys ch"
proof (cases ch)
  case (CreateFlag f)
  with assms show ?thesis
    by (auto simp: FlagService_CreateFlag_def FlagRepository_CreateFlag_def Let_def stamp_flag_def split: if_splits sum.splits prod.splits
        dest!: then_invalidate_tables gorm_table.create_row [OF flags])
next
  case (UpdateFlag f)
  with assms show ?thesis
    by (auto simp: FlagService_UpdateFlag_def FlagRepository_UpdateFlag_def Let_def set_upd_where split: if_splits sum.splits prod.splits
        dest!: then_invalidate_tables gorm_table.updates_rows [OF flags])
next
  case (DeleteFlag i)
  with assms show ?thesis
    by (auto simp: FlagService_DeleteFlag_def FlagRepository_DeleteFlag_def split: if_splits sum.splits prod.splits
        dest!: then_invalidate_tables gorm_table.delete_rows [OF flags])
next
  case (CreateRule q)
  with assms show ?thesis
    by (auto simp: FlagService_CreateRule_def FlagRepository_CreateRule_def split: sum.splits prod.splits dest!: then_invalidate_tables)
next
  case (UpdateRule q)
  with assms show ?thesis
    by (auto simp: FlagService_UpdateRule_def FlagRepository_UpdateRule_def split: sum.splits prod.splits if_splits
        dest!: then_invalidate_tables)
next
  case (DeleteRule i j)
  with assms show ?thesis
    by (auto simp: FlagService_DeleteRule_def FlagRepository_DeleteRule_def split: sum.splits prod.splits if_splits
        dest!: then_invalidate_tables)
qed

lemma EvaluateByKey_stored:
  assumes "wf_flags T" "f \<in> set (ft_flags T)"
  shows "FlagService_EvaluateByKey F D (ff_Key f) ctx T = Inr (evaluation_of (fs_sha256 F) ctx (with_rules T f))
    \<or> (\<exists>msg. gorm_First (fd_flags D) (\<lambda>g. ff_Key g = ff_Key f) (ft_flags T) = Inl (External msg)
         \<and> FlagService_EvaluateByKey F D (ff_Key f) ctx T = Inl (External msg))
    \<or> (\<exists>e. gorm_FindOrder (fd_rules D) (\<lambda>q. fr_FeatureFlagID q = ff_ID f) rule_le (ft_rules T) = Inl e)"
proof -
  let ?p = "\<lambda>g. ff_Key g = ff_Key f"
  have key: "folded (ff_Key f) = ff_Key f" using assms by (simp add: wf_flags_def)
  then have ev: "FlagService_EvaluateByKey F D (ff_Key f) ctx T =
      (case first_flag D ?p T of Inl e \<Rightarrow> Inl e | Inr g \<Rightarrow> Inr (evaluation_of (fs_sha256 F) ctx g))"
    by (simp add: FlagService_EvaluateByKey_def FlagRepository_FindFlagByKey_def)
  show ?thesis
  proof (cases "gorm_First (fd_flags D) ?p (ft_flags T)")
    case (Inl e)
    then have "e \<noteq> ErrRecordNotFound" using gorm_table.first_exists [OF flags] assms(2) by blast
    with Inl gorm_table.first_error [OF flags Inl] show ?thesis by (auto simp: ev first_flag_def not_found_def)
  next
    case (Inr g)
    then have g: "g = f"
      using gorm_table.first_found [OF flags Inr] assms unique_rows_eq [of clash_flag "ft_flags T" g f] by (simp add: wf_flags_def clash_flag_def)
    show ?thesis
    proof (cases "preload_rules D T f")
      case (Inl e)
      then show ?thesis by (auto simp: preload_rules_def split: sum.splits)
    next
      case pre: (Inr h)
      with preload_evaluation [OF pre assms(1)] Inr g show ?thesis by (simp add: ev first_flag_def)
    qed
  qed
qed

end

lemma flag_request_keeps:
  assumes "flag_request F W W'" "wf_flags (fw_T W)" "\<forall>k \<in> stored_keys (fw_T W). featureFlagKeyRe k"
  shows "wf_flags (fw_T W') \<and> (\<forall>k \<in> stored_keys (fw_T W'). featureFlagKeyRe k)"
  using assms(1)
proof cases
  case (request D h clk decF decR reqID r hs resp)
  from flag_request_changes [OF request(2,3)] show ?thesis
  proof
    assume "\<exists>ch out. change_flags F D (clk 0) ch (fw_T W) (fw_cache W) = (out, fw_T W', fw_cache W') \<and> (\<forall>k \<in> change_keys ch. featureFlagKeyRe k)"
    then obtain ch out where ch: "change_flags F D (clk 0) ch (fw_T W) (fw_cache W) = (out, fw_T W', fw_cache W')"
        "\<forall>k \<in> change_keys ch. featureFlagKeyRe k" by blast
    from flag_database.change_flags_wf [OF request(1) ch(1) assms(2)] flag_database.change_flags_keys [OF request(1) ch(1)] ch(2) assms(3)
    show ?thesis by blast
  qed (use assms in simp)
qed

lemma flag_requests_keep:
  assumes "(flag_request F)\<^sup>*\<^sup>* W W'" "fw_T W = no_flags"
  shows "wf_flags (fw_T W') \<and> (\<forall>k \<in> stored_keys (fw_T W'). featureFlagKeyRe k)"
  using assms
proof (induction rule: rtranclp_induct)
  case base
  then show ?case by (simp add: no_flags_def wf_flags_def unique_rows_def)
next
  case (step V W')
  then show ?case using flag_request_keeps by blast
qed

text \<open>
  C39: Whatever sequence of requests to the flag handlers leads from empty tables to the present ones,
  the tables are well formed (every rule is valid, every flag has a folded key of its own) and every
  stored flag can be asked for: its key is one that the handlers accept, and a request for that
  key, in any letter case and with blanks around it, by a caller with valid claims is answered with 200 and the
  verdict for this caller on this flag and its stored rules, unless one of the two reads fails: a driver
  error of the first gives 500.  The request changes nothing.
\<close>

theorem stored_flags_are_addressable:
  assumes "(flag_request F)\<^sup>*\<^sup>* W0 W" "fw_T W0 = no_flags" "flag_database D" "f \<in> set (ft_flags (fw_T W))"
    and "authUserIDAndClaims r = Some (u, c)" "TrimSpace (ToLower (URLParam r ''key'')) = ff_Key f"
    and "FlagHandler_EvaluateOne F D reqID r hs W = (resp, W')"
  shows "W' = W \<and> wf_flags (fw_T W) \<and> featureFlagKeyRe (ff_Key f)
    \<and> (resp = response_JSON reqID r hs 200
          (evaluation_json (evaluation_of (fs_sha256 F) (request_context u c r) (with_rules (fw_T W) f)))
       \<or> (\<exists>msg. gorm_First (fd_flags D) (\<lambda>g. ff_Key g = ff_Key f) (ft_flags (fw_T W)) = Inl (External msg)) \<and> rs_Status resp = 500
       \<or> (\<exists>e. gorm_FindOrder (fd_rules D) (\<lambda>q. fr_FeatureFlagID q = ff_ID f) rule_le (ft_rules (fw_T W)) = Inl e))"
proof -
  from flag_requests_keep [OF assms(1,2)] have wf: "wf_flags (fw_T W)" and re: "featureFlagKeyRe (ff_Key f)" using assms(4) by auto
  show ?thesis
    using flag_database.EvaluateByKey_stored [OF assms(3) wf assms(4), of F "request_context u c r"] assms(5-7) wf re
    by (auto simp: FlagHandler_EvaluateOne_def split: sum.splits)
qed

text \<open>A flag is created over HTTP under the key \<open>Beta\<close> and asked for as \<open>BETA\<close>.\<close>

definition flag_demo_create :: request where
  "flag_demo_create = demo_request ''POST''"

definition flag_demo_body :: "request \<Rightarrow> flag_body option" where
  "flag_demo_body r = Some \<lparr>fb_Key = ''Beta'', fb_Description = [], fb_Enabled = False\<rparr>"

definition flag_demo_get :: request where
  "flag_demo_get = (demo_request ''GET'')\<lparr>rq_Claims := Some demo_claims, rq_Params := [(''key'', '' BETA'')]\<rparr>"

definition flag_demo_world :: "unit flag_world" where
  "flag_demo_world = snd (FlagHandler_CreateFlag (demo_flag_service NoopFeatureFlagEvaluationCacheStore) (mem_flag_db 0) 1 flag_demo_body []
     flag_demo_create [] \<lparr>fw_T = no_flags, fw_cache = ()\<rparr>)"

lemma flag_demo_key: "TrimSpace (ToLower ''Beta'') = ''beta''" "TrimSpace (ToLower ''beta'') = ''beta''" "featureFlagKeyRe ''beta''"
    "TrimSpace (ToLower '' BETA'') = ''beta''" "TrimSpace [] = []"
  by code_simp+

lemma flag_demo_facts:
  "ft_flags (fw_T flag_demo_world) = [stamp_flag 1 0 (flag_toDomain 0 ''beta'' (the (flag_demo_body flag_demo_create)))]"
  "ft_rules (fw_T flag_demo_world) = []"
  by (simp_all add: flag_demo_world_def FlagHandler_CreateFlag_def flag_demo_body_def flag_demo_key FlagService_CreateFlag_def
      then_invalidate_def FlagRepository_CreateFlag_def mem_flag_db_def mem_table_defs no_flags_def demo_flag_service_def
      NoopFeatureFlagEvaluationCacheStore_def Let_def flag_toDomain_def)

lemma flag_demo_caller:
  "authUserIDAndClaims flag_demo_get = Some (7, demo_claims)" "TrimSpace (ToLower (URLParam flag_demo_get ''key'')) = ''beta''"
  by (simp_all add: flag_demo_get_def authUserIDAndClaims_def ClaimsFromContext_def demo_subject URLParam_def flag_demo_key)

theorem stored_flags_are_addressable_witness:
  "fst (FlagHandler_EvaluateOne (demo_flag_service NoopFeatureFlagEvaluationCacheStore) (mem_flag_db 0) [] flag_demo_get [] flag_demo_world) =
   response_JSON [] flag_demo_get [] 200 (evaluation_json demo_result)"
proof -
  let ?F = "demo_flag_service NoopFeatureFlagEvaluationCacheStore :: unit flag_service"
  let ?f = "ft_flags (fw_T flag_demo_world) ! 0"
  let ?W = flag_demo_world
  have "flag_request ?F \<lparr>fw_T = no_flags, fw_cache = ()\<rparr> ?W"
    by (rule flag_request.request [OF mem_flag_db.flag_database_axioms [of 0], where clk = "\<lambda>_. 1" and decF = flag_demo_body and reqID = "[]"
          and h = "FlagHandler_CreateFlag ?F (mem_flag_db 0) 1 flag_demo_body []" and r = flag_demo_create and hs = "[]"])
      (simp_all add: flag_handlers_def flag_demo_world_def prod_eq_iff)
  then have run: "(flag_request ?F)\<^sup>*\<^sup>* \<lparr>fw_T = no_flags, fw_cache = ()\<rparr> ?W" by (rule r_into_rtranclp)
  have reads: "gorm_First (fd_flags (mem_flag_db 0)) p t \<noteq> Inl (External msg)" "gorm_FindOrder (fd_rules (mem_flag_db 0)) q le rs \<noteq> Inl e"
    for p t msg q le rs e by (simp_all add: mem_flag_db_def mem_table_defs split: option.splits)
  have "evaluation_of (fs_sha256 ?F) (request_context 7 demo_claims flag_demo_get) (with_rules (fw_T ?W) ?f) = demo_result"
    by (simp add: flag_demo_facts with_rules_def evaluation_of_def evaluateFeatureFlag_def demo_result_def SliceStable_def stamp_flag_def
        flag_toDomain_def flag_demo_body_def flag_demo_key Let_def sort_by_def)
  with stored_flags_are_addressable [OF run _ mem_flag_db.flag_database_axioms [of 0], of ?f flag_demo_get 7 demo_claims "[]" "[]"] reads
  show ?thesis by (auto simp: flag_demo_facts flag_demo_caller stamp_flag_def prod_eq_iff)
qed

text \<open>
  A change that is stored and whose invalidation of the cache fails is answered as a failure of the
  request: the caller of \<open>CreateFlag\<close> is told that the flag was not created.
\<close>

definition broken_cache :: "unit flag_cache" where
  "broken_cache = NoopFeatureFlagEvaluationCacheStore\<lparr>fc_InvalidateAll := (\<lambda>_ s. (Inl (External ''redis down''), s))\<rparr>"

lemma stored_but_refused:
  "case FlagHandler_CreateFlag (demo_flag_service broken_cache) (mem_flag_db 0) 1 flag_demo_body [] flag_demo_create []
      \<lparr>fw_T = no_flags, fw_cache = ()\<rparr> of
     (resp, W) \<Rightarrow> rs_Status resp = 400 \<and> map ff_Key (ft_flags (fw_T W)) = [''beta'']"
  by code_simp

end
