(* ===== verification/Audit_Log.thy ===== *)
theory Audit_Log
  imports Http
begin

section \<open>Audit events and log handlers: \<open>audit.go\<close>, \<open>logging.go\<close>, \<open>request_logging_middleware.go\<close>\<close>

text \<open>
  What a request leaves in the logs.  \<open>format\<close> and \<open>parse\<close> are \<open>Format\<close> and \<open>Parse\<close> of Go's package \<open>time\<close> with the layout
  \<open>RFC3339\<close>, \<open>sc\<close> the trace and span identity of the request's context if it has a valid one, and \<open>reqID\<close>
  the request id of chi.  A line of the log is its level, message and attributes.
\<close>

datatype slog_level = LevelDebug | LevelInfo | LevelWarn | LevelError

record log_line =
  ll_Level :: slog_level
  ll_Message :: string
  ll_Attrs :: "(string \<times> string) list"

definition parseLogLevel :: "string \<Rightarrow> slog_level" where
  "parseLogLevel v = (if v = ''debug'' then LevelDebug else if v = ''warn'' then LevelWarn
     else if v = ''error'' then LevelError else LevelInfo)"

subsection \<open>The event of an audited action\<close>

record AuditInput =
  ai_EventName :: string
  ai_ActorUserID :: string
  ai_TargetType :: string
  ai_TargetID :: string
  ai_Action :: string
  ai_Outcome :: string
  ai_Reason :: string

record AuditEvent =
  ae_EventName :: string
  ae_EventVersion :: int
  ae_ActorUserID :: string
  ae_ActorIP :: string
  ae_TargetType :: string
  ae_TargetID :: string
  ae_Action :: string
  ae_Outcome :: string
  ae_Reason :: string
  ae_RequestID :: string
  ae_TraceID :: string
  ae_SpanID :: string
  ae_TS :: string

definition auditEventVersion :: int where
  "auditEventVersion = 1"

definition ActorUserID :: "uint \<Rightarrow> string" where
  "ActorUserID userID = (if userID = 0 then ''anonymous'' else FormatUint userID)"

definition defaultString :: "string \<Rightarrow> string \<Rightarrow> string" where
  "defaultString v fallback = (if TrimSpace v = [] then fallback else v)"

definition actorIP :: "request \<Rightarrow> string" where
  "actorIP r =
     (let xff = TrimSpace (header_get ''X-Forwarded-For'' (rq_Headers r)) in
      if xff \<noteq> [] then TrimSpace (hd (Split xff (CHR '','')))
      else (let host = TrimSpace (rq_RemoteAddr r) in if host = [] then ''unknown'' else host))"

definition audit_requestID :: "string \<Rightarrow> request \<Rightarrow> string" where
  "audit_requestID reqID r = (if reqID \<noteq> [] then reqID else header_get ''X-Request-Id'' (rq_Headers r))"

definition traceAndSpanFromContext :: "(string \<times> string) option \<Rightarrow> string \<times> string" where
  "traceAndSpanFromContext sc = (case sc of None \<Rightarrow> ([], []) | Some ts \<Rightarrow> ts)"

definition BuildAuditEvent ::
    "(gotime \<Rightarrow> string) \<Rightarrow> gotime \<Rightarrow> string \<Rightarrow> (string \<times> string) option \<Rightarrow> request \<Rightarrow> AuditInput \<Rightarrow> AuditEvent" where
  "BuildAuditEvent format now reqID sc r inp =
     (case traceAndSpanFromContext sc of (traceID, spanID) \<Rightarrow>
        \<lparr>ae_EventName = TrimSpace (ai_EventName inp),
         ae_EventVersion = auditEventVersion,
         ae_ActorUserID = defaultString (TrimSpace (ai_ActorUserID inp)) ''anonymous'',
         ae_ActorIP = actorIP r,
         ae_TargetType = defaultString (TrimSpace (ai_TargetType inp)) ''none'',
         ae_TargetID = defaultString (TrimSpace (ai_TargetID inp)) ''none'',
         ae_Action = defaultString (TrimSpace (ai_Action inp)) ''unknown'',
         ae_Outcome = defaultString (TrimSpace (ai_Outcome inp)) ''unknown'',
         ae_Reason = defaultString (TrimSpace (ai_Reason inp)) ''none'',
         ae_RequestID = audit_requestID reqID r,
         ae_TraceID = traceID,
         ae_SpanID = spanID,
         ae_TS = format now\<rparr>)"

definition AuditEvent_Validate :: "(string \<Rightarrow> gotime option) \<Rightarrow> AuditEvent \<Rightarrow> unit result" where
  "AuditEvent_Validate parse e =
     (if TrimSpace (ae_EventName e) = [] then Inl (Errorf ''event_name is required'')
      else if ae_EventVersion e \<le> 0 then Inl (Errorf ''event_version must be > 0'')
      else if TrimSpace (ae_ActorUserID e) = [] then Inl (Errorf ''actor_user_id is required'')
      else if TrimSpace (ae_ActorIP e) = [] then Inl (Errorf ''actor_ip is required'')
      else if TrimSpace (ae_TargetType e) = [] then Inl (Errorf ''target_type is required'')
      else if TrimSpace (ae_TargetID e) = [] then Inl (Errorf ''target_id is required'')
      else if TrimSpace (ae_Action e) = [] then Inl (Errorf ''action is required'')
      else if TrimSpace (ae_Outcome e) = [] then Inl (Errorf ''outcome is required'')
      else if TrimSpace (ae_Reason e) = [] then Inl (Errorf ''reason is required'')
      else if TrimSpace (ae_RequestID e) = [] then Inl (Errorf ''request_id is required'')
      else if TrimSpace (ae_TS e) = [] then Inl (Errorf ''ts is required'')
      else if parse (ae_TS e) = None then Inl (Errorf ''ts must be RFC3339 UTC'')
      else Inr ())"

definition audit_attrs :: "AuditEvent \<Rightarrow> (string \<times> string) list" where
  "audit_attrs e =
     [(''event_name'', ae_EventName e), (''event_version'', FormatInt (ae_EventVersion e)), (''actor_user_id'', ae_ActorUserID e),
      (''actor_ip'', ae_ActorIP e), (''target_type'', ae_TargetType e), (''target_id'', ae_TargetID e), (''action'', ae_Action e),
      (''outcome'', ae_Outcome e), (''reason'', ae_Reason e), (''request_id'', ae_RequestID e), (''trace_id'', ae_TraceID e),
      (''span_id'', ae_SpanID e), (''ts'', ae_TS e)]"

definition EmitAudit ::
    "(gotime \<Rightarrow> string) \<Rightarrow> (string \<Rightarrow> gotime option) \<Rightarrow> gotime \<Rightarrow> string \<Rightarrow> (string \<times> string) option \<Rightarrow> request \<Rightarrow> AuditInput
     \<Rightarrow> (string \<times> string) list \<Rightarrow> log_line" where
  "EmitAudit format parse now reqID sc r inp attrs =
     (let ev = BuildAuditEvent format now reqID sc r inp in
      case AuditEvent_Validate parse ev of
        Inl e \<Rightarrow> \<lparr>ll_Level = LevelError, ll_Message = ''audit.schema.invalid'',
                  ll_Attrs = [(''error'', Error_text e), (''event_name'', ae_EventName ev), (''request_id'', ae_RequestID ev)]\<rparr>
      | Inr _ \<Rightarrow> \<lparr>ll_Level = LevelInfo, ll_Message = ''audit.event'', ll_Attrs = audit_attrs ev @ attrs\<rparr>)"

text \<open>The line of a request in the log of \<open>StructuredRequestLogger\<close>; \<open>millis\<close> prints the duration.\<close>

definition request_line :: "(duration \<Rightarrow> string) \<Rightarrow> string \<Rightarrow> gotime \<Rightarrow> gotime \<Rightarrow> request \<Rightarrow> int \<Rightarrow> nat \<Rightarrow> log_line" where
  "request_line millis reqID start fin r written bytes =
     (let status = (if written = 0 then 200 else written) in
      \<lparr>ll_Level = (if status \<ge> 500 then LevelError else LevelInfo), ll_Message = ''http.request'',
       ll_Attrs = [(''method'', rq_Method r), (''path'', rq_Path r), (''route'', rq_RoutePattern r), (''status'', FormatInt status),
         (''bytes'', FormatUint bytes), (''duration_ms'', millis (fin - start)), (''request_id'', reqID), (''client_ip'', rq_RemoteAddr r),
         (''user_agent'', header_get ''User-Agent'' (rq_Headers r))]\<rparr>)"

subsection \<open>Handlers\<close>

text \<open>
  A handler of \<open>slog\<close> is a sink outside the program with the attributes and groups it was derived with, several
  handlers, or a handler that adds the identity of the trace.  A sink has a threshold, may fail, and
  keeps its lines in the state \<open>'l\<close>.
\<close>

datatype slog_handler =
    Sink nat "(string \<times> string) list" "string list"
  | MultiHandler "slog_handler list"
  | TraceContextHandler slog_handler

record 'l slog_sinks =
  sk_Enabled :: "nat \<Rightarrow> slog_level \<Rightarrow> bool"
  sk_Handle :: "nat \<Rightarrow> (string \<times> string) list \<Rightarrow> string list \<Rightarrow> log_line \<Rightarrow> 'l \<Rightarrow> unit result \<times> 'l"

fun Handler_Enabled :: "'l slog_sinks \<Rightarrow> slog_handler \<Rightarrow> slog_level \<Rightarrow> bool" where
  "Handler_Enabled K (Sink i as gs) level = sk_Enabled K i level"
| "Handler_Enabled K (MultiHandler hs) level = list_ex (\<lambda>h. Handler_Enabled K h level) hs"
| "Handler_Enabled K (TraceContextHandler h) level = Handler_Enabled K h level"

fun Handler_Handle :: "'l slog_sinks \<Rightarrow> (string \<times> string) option \<Rightarrow> slog_handler \<Rightarrow> log_line \<Rightarrow> 'l \<Rightarrow> unit result \<times> 'l" where
  "Handler_Handle K sc (Sink i as gs) line s = sk_Handle K i as gs line s"
| "Handler_Handle K sc (MultiHandler []) line s = (Inr (), s)"
| "Handler_Handle K sc (MultiHandler (h # hs)) line s =
     (case Handler_Handle K sc h line s of
        (Inl e, s') \<Rightarrow> (Inl e, s')
      | (Inr _, s') \<Rightarrow> Handler_Handle K sc (MultiHandler hs) line s')"
| "Handler_Handle K sc (TraceContextHandler h) line s =
     (case traceAndSpanFromContext sc of (traceID, spanID) \<Rightarrow>
        Handler_Handle K sc h (line\<lparr>ll_Attrs := ll_Attrs line @ [(''trace_id'', traceID), (''span_id'', spanID)]\<rparr>) s)"

fun WithAttrs :: "(string \<times> string) list \<Rightarrow> slog_handler \<Rightarrow> slog_handler" where
  "WithAttrs as (Sink i as0 gs) = Sink i (as0 @ as) gs"
| "WithAttrs as (MultiHandler hs) = MultiHandler (map (WithAttrs as) hs)"
| "WithAttrs as (TraceContextHandler h) = TraceContextHandler (WithAttrs as h)"

fun WithGroup :: "string \<Rightarrow> slog_handler \<Rightarrow> slog_handler" where
  "WithGroup g (Sink i as gs) = Sink i as (gs @ [g])"
| "WithGroup g (MultiHandler hs) = MultiHandler (map (WithGroup g) hs)"
| "WithGroup g (TraceContextHandler h) = TraceContextHandler (WithGroup g h)"

text \<open>\<open>InitLogger\<close>: sink 0 is the standard output, sink 1 the exporter of logs.\<close>

definition InitLogger :: "bool \<Rightarrow> bool \<Rightarrow> slog_handler" where
  "InitLogger logsEnabled provider =
     (if \<not> logsEnabled \<or> \<not> provider then TraceContextHandler (Sink 0 [] [])
      else TraceContextHandler (MultiHandler [Sink 0 [] [], Sink 1 [] []]))"

text \<open>A call of the logger: \<open>slog.InfoContext\<close> and \<open>slog.ErrorContext\<close> ignore the error of the handler.\<close>

definition slog_Log :: "'l slog_sinks \<Rightarrow> (string \<times> string) option \<Rightarrow> slog_handler \<Rightarrow> log_line \<Rightarrow> 'l \<Rightarrow> 'l" where
  "slog_Log K sc h line s =
     (if Handler_Enabled K h (ll_Level line) then snd (Handler_Handle K sc h line s) else s)"

subsection \<open>Which actions are recorded\<close>

text \<open>The layout RFC 3339 has four digits for the year: times of the years 0 to 9999 can be read back.\<close>

definition four_digit_year :: "gotime \<Rightarrow> bool" where
  "four_digit_year t \<longleftrightarrow> seconds (- 62167219200) \<le> t \<and> t < seconds 253402300800"

definition rfc3339_law :: "(gotime \<Rightarrow> string) \<Rightarrow> (string \<Rightarrow> gotime option) \<Rightarrow> bool" where
  "rfc3339_law format parse \<longleftrightarrow>
     (\<forall>t. four_digit_year t \<longrightarrow> parse (format t) \<noteq> None) \<and> (\<forall>s. TrimSpace s = [] \<longrightarrow> parse s = None)"

definition audit_required :: "string list" where
  "audit_required = [''event_name'', ''event_version'', ''actor_user_id'', ''actor_ip'', ''target_type'', ''target_id'', ''action'',
     ''outcome'', ''reason'', ''request_id'', ''ts'']"

lemma defaultString_nonblank: "TrimSpace d \<noteq> [] \<Longrightarrow> TrimSpace (defaultString v d) \<noteq> []"
  by (simp add: defaultString_def)

lemma audit_defaults:
  "TrimSpace ''anonymous'' \<noteq> []" "TrimSpace ''none'' \<noteq> []" "TrimSpace ''unknown'' \<noteq> []" "TrimSpace (FormatInt auditEventVersion) \<noteq> []"
  by code_simp+

lemma actorIP_nonblank:
  "TrimSpace (actorIP r) \<noteq> [] \<longleftrightarrow>
     (let xff = TrimSpace (header_get ''X-Forwarded-For'' (rq_Headers r)) in xff = [] \<or> TrimSpace (hd (Split xff (CHR '',''))) \<noteq> [])"
proof -
  have "TrimSpace ''unknown'' \<noteq> []" by code_simp
  then show ?thesis by (simp add: actorIP_def Let_def)
qed

lemma event_fields:
  "ae_EventVersion (BuildAuditEvent format now reqID sc r inp) = auditEventVersion"
  "TrimSpace (ae_ActorUserID (BuildAuditEvent format now reqID sc r inp)) \<noteq> []"
  "TrimSpace (ae_TargetType (BuildAuditEvent format now reqID sc r inp)) \<noteq> []"
  "TrimSpace (ae_TargetID (BuildAuditEvent format now reqID sc r inp)) \<noteq> []"
  "TrimSpace (ae_Action (BuildAuditEvent format now reqID sc r inp)) \<noteq> []"
  "TrimSpace (ae_Outcome (BuildAuditEvent format now reqID sc r inp)) \<noteq> []"
  "TrimSpace (ae_Reason (BuildAuditEvent format now reqID sc r inp)) \<noteq> []"
  "ae_EventName (BuildAuditEvent format now reqID sc r inp) = TrimSpace (ai_EventName inp)"
  "ae_ActorIP (BuildAuditEvent format now reqID sc r inp) = actorIP r"
  "ae_RequestID (BuildAuditEvent format now reqID sc r inp) = audit_requestID reqID r"
  "ae_TS (BuildAuditEvent format now reqID sc r inp) = format now"
  by (simp_all add: BuildAuditEvent_def defaultString_nonblank audit_defaults split: prod.splits)

lemma format_nonblank: "rfc3339_law format parse \<Longrightarrow> four_digit_year t \<Longrightarrow> TrimSpace (format t) \<noteq> [] \<and> parse (format t) \<noteq> None"
  unfolding rfc3339_law_def by metis

lemma Validate_built:
  assumes "rfc3339_law format parse" "four_digit_year now"
  shows "AuditEvent_Validate parse (BuildAuditEvent format now reqID sc r inp) = Inr () \<longleftrightarrow>
    TrimSpace (ai_EventName inp) \<noteq> [] \<and> TrimSpace (audit_requestID reqID r) \<noteq> [] \<and> TrimSpace (actorIP r) \<noteq> []"
  using format_nonblank [OF assms] by (auto simp: AuditEvent_Validate_def event_fields auditEventVersion_def)

text \<open>
  C40: With sinks that do not fail, an audited action is recorded exactly when it has a name, the request has
  an id, its header \<open>X-Forwarded-For\<close>, if it is not blank, has a first entry that is not blank, and one of the
  sinks of the logger (the standard output, and the exporter if it is on) takes lines of the level Info.  Each line that
  is written is then the event with a value for each required field and with the actor it was given, or \<open>anonymous\<close>;
  for an action that is not valid only a complaint about the schema can be written.
\<close>

theorem audit_event_recorded_iff:
  assumes "rfc3339_law format parse" "four_digit_year now"
    and "K = \<lparr>sk_Enabled = on, sk_Handle = (\<lambda>i as gs l s. (Inr (), s @ [(i, l)]))\<rparr>"
    and "lines = slog_Log K sc (InitLogger logs provider) (EmitAudit format parse now reqID sc r inp attrs) []"
    and "xff = TrimSpace (header_get ''X-Forwarded-For'' (rq_Headers r))"
    and "valid \<longleftrightarrow> TrimSpace (ai_EventName inp) \<noteq> [] \<and> TrimSpace (audit_requestID reqID r) \<noteq> []
       \<and> (xff = [] \<or> TrimSpace (hd (Split xff (CHR '',''))) \<noteq> [])"
  shows "((\<exists>(i, l) \<in> set lines. ll_Message l = ''audit.event'') \<longleftrightarrow>
        valid \<and> (on 0 LevelInfo \<or> logs \<and> provider \<and> on 1 LevelInfo))
     \<and> (\<forall>(i, l) \<in> set lines.
          if valid then ll_Level l = LevelInfo \<and> ll_Message l = ''audit.event''
           \<and> (\<forall>k \<in> set audit_required. \<exists>v. map_of (ll_Attrs l) k = Some v \<and> TrimSpace v \<noteq> [])
           \<and> map_of (ll_Attrs l) ''actor_user_id'' =
               Some (if TrimSpace (ai_ActorUserID inp) = [] then ''anonymous'' else TrimSpace (ai_ActorUserID inp))
          else ll_Message l = ''audit.schema.invalid'')"
proof -
  let ?ev = "BuildAuditEvent format now reqID sc r inp" and ?line = "EmitAudit format parse now reqID sc r inp attrs"
  let ?on = "\<lambda>level. on 0 level \<or> logs \<and> provider \<and> on 1 level"
  obtain tr sp where sc: "traceAndSpanFromContext sc = (tr, sp)" by (cases "traceAndSpanFromContext sc")
  have sent: "\<exists>is. (is \<noteq> [] \<longleftrightarrow> ?on (ll_Level ?line)) \<and>
      lines = map (\<lambda>i. (i, ?line\<lparr>ll_Attrs := ll_Attrs ?line @ [(''trace_id'', tr), (''span_id'', sp)]\<rparr>)) is"
    by (auto simp: assms(3,4) slog_Log_def InitLogger_def sc intro: exI [of _ "[]"] exI [of _ "[0]"] exI [of _ "[0, 1]"])
  have ok: "AuditEvent_Validate parse ?ev = Inr () \<longleftrightarrow> valid"
    unfolding Validate_built [OF assms(1,2)] using actorIP_nonblank [of r] by (simp add: assms(5,6) Let_def)
  show ?thesis
  proof (cases valid)
    case True
    then have line: "?line = \<lparr>ll_Level = LevelInfo, ll_Message = ''audit.event'', ll_Attrs = audit_attrs ?ev @ attrs\<rparr>"
      using ok by (simp add: EmitAudit_def Let_def)
    have "TrimSpace (ae_ActorIP ?ev) \<noteq> []" using True ok Validate_built [OF assms(1,2), of reqID sc r inp] by (simp add: event_fields)
    with format_nonblank [OF assms(1,2)] have "\<forall>k \<in> set audit_required. \<exists>v. map_of (audit_attrs ?ev) k = Some v \<and> TrimSpace v \<noteq> []"
      using True assms(6) audit_defaults(4) by (simp add: audit_required_def audit_attrs_def event_fields)
    moreover have "map_of (audit_attrs ?ev) ''actor_user_id'' =
        Some (if TrimSpace (ai_ActorUserID inp) = [] then ''anonymous'' else TrimSpace (ai_ActorUserID inp))"
      by (simp add: audit_attrs_def BuildAuditEvent_def defaultString_def split: prod.splits)
    ultimately show ?thesis using sent True by (fastforce simp: line map_add_def neq_Nil_conv)
  next
    case False
    then have "ll_Message ?line = ''audit.schema.invalid''" using ok by (auto simp: EmitAudit_def Let_def split: sum.splits)
    with sent False show ?thesis by auto
  qed
qed

definition audit_demo_input :: AuditInput where
  "audit_demo_input = \<lparr>ai_EventName = ''auth.login'', ai_ActorUserID = ''7'', ai_TargetType = [], ai_TargetID = [], ai_Action = ''login'',
     ai_Outcome = ''success'', ai_Reason = []\<rparr>"

definition audit_demo_parse :: "string \<Rightarrow> gotime option" where
  "audit_demo_parse s = (if TrimSpace s = [] then None else Some 0)"

theorem audit_event_recorded_iff_witness:
  "let K = \<lparr>sk_Enabled = (\<lambda>_ _. True), sk_Handle = (\<lambda>i as gs l s. (Inr (), s @ [(i, l)]))\<rparr>;
       lines = slog_Log K None (InitLogger True True)
         (EmitAudit (\<lambda>_. ''t'') audit_demo_parse 0 ''r1'' None (demo_request ''POST'') audit_demo_input []) []
   in lines \<noteq> [] \<and> (\<forall>(i, l) \<in> set lines. map_of (ll_Attrs l) ''actor_user_id'' = Some ''7'')"
proof -
  have nonblank: "TrimSpace ''t'' \<noteq> []" "TrimSpace ''r1'' \<noteq> []" "TrimSpace ''auth.login'' \<noteq> []" "TrimSpace ''7'' = ''7''" "TrimSpace [] = []"
    by code_simp+
  then have law: "rfc3339_law (\<lambda>_. ''t'') audit_demo_parse" by (simp add: rfc3339_law_def audit_demo_parse_def)
  have year: "four_digit_year 0" by (simp add: four_digit_year_def)
  show ?thesis
    using audit_event_recorded_iff [OF law year refl refl refl refl, of "\<lambda>_ _. True" None True True "''r1''" "demo_request ''POST''" audit_demo_input "[]"] nonblank
    by (auto simp: audit_demo_input_def audit_requestID_def demo_request_def header_get_def Let_def)
qed

text \<open>
  The header is the caller's: with the header \<open>X-Forwarded-For: ,\<close> no action of the request is recorded.
\<close>

lemma audit_suppressed_by_header:
  assumes "header_get ''X-Forwarded-For'' (rq_Headers r) = '',''"
  shows "ll_Message (EmitAudit format parse now reqID sc r inp attrs) = ''audit.schema.invalid''"
proof -
  have "TrimSpace '','' = '',''" "TrimSpace [] = []" by code_simp+
  then have "actorIP r = []" using assms by (simp add: actorIP_def)
  then have "AuditEvent_Validate parse (BuildAuditEvent format now reqID sc r inp) \<noteq> Inr ()"
    using \<open>TrimSpace [] = []\<close> by (simp add: AuditEvent_Validate_def event_fields)
  then show ?thesis by (auto simp: EmitAudit_def Let_def split: sum.splits)
qed

text \<open>
  \<open>MultiHandler\<close> asks whether one of its handlers is enabled and then calls all of them: a sink whose threshold is
  above the level of a line receives it because another sink is below.
\<close>

lemma multi_handler_ignores_thresholds:
  "slog_Log \<lparr>sk_Enabled = (\<lambda>i level. i = 1 \<or> level = LevelError), sk_Handle = (\<lambda>i as gs l s. (Inr (), s @ [i]))\<rparr> None
     (InitLogger True True) \<lparr>ll_Level = LevelInfo, ll_Message = m, ll_Attrs = []\<rparr> [] = [0, 1]"
  by (simp add: slog_Log_def InitLogger_def traceAndSpanFromContext_def)

text \<open>A sink that fails keeps the line from the sinks behind it.\<close>

lemma failing_sink_hides_line:
  assumes "sk_Handle K 0 [] [] (line\<lparr>ll_Attrs := ll_Attrs line @ [(''trace_id'', []), (''span_id'', [])]\<rparr>) s = (Inl e, s')"
    and "sk_Enabled K 0 (ll_Level line)"
  shows "slog_Log K None (InitLogger True True) line s = s'"
  using assms by (simp add: slog_Log_def InitLogger_def traceAndSpanFromContext_def)

end
