(* ===== verification/Google_Provider.thy ===== *)
theory Google_Provider
  imports Auth_Service App_Config
begin

section \<open>The Google provider: \<open>GoogleOAuthProvider\<close> of \<open>oauth_service.go\<close>\<close>

text \<open>
  The provider asks Google over HTTP.  Outside are the client of the package \<open>oauth2\<close>, with \<open>getURL token url\<close> the
  status and body of its answer, and the JSON decoder.
\<close>

record oauth2_Config =
  oc2_ClientID :: string
  oc2_ClientSecret :: string
  oc2_RedirectURL :: string
  oc2_Scopes :: "string list"

definition NewGoogleOAuthProvider :: "Config \<Rightarrow> oauth2_Config" where
  "NewGoogleOAuthProvider cfg = \<lparr>oc2_ClientID = cf_GoogleClientID cfg, oc2_ClientSecret = cf_GoogleClientSecret cfg,
     oc2_RedirectURL = cf_GoogleRedirectURL cfg, oc2_Scopes = [''openid'', ''email'', ''profile'']\<rparr>"

record userinfo_body =
  ub_Sub :: string
  ub_Email :: string
  ub_Name :: string
  ub_Picture :: string
  ub_EmailVerified :: bool

definition GoogleProvider_FetchUserInfo ::
    "(string \<Rightarrow> string \<Rightarrow> (int \<times> string) result) \<Rightarrow> (string \<Rightarrow> userinfo_body result) \<Rightarrow> string \<Rightarrow> OAuthUserInfo option result" where
  "GoogleProvider_FetchUserInfo getURL decode token =
     (case getURL token ''https://openidconnect.googleapis.com/v1/userinfo'' of
        Inl e \<Rightarrow> Inl e
      | Inr (status, raw) \<Rightarrow>
          if status \<noteq> 200 then Inl (Errorf (''userinfo status: '' @ FormatInt status))
          else (case decode raw of
                  Inl e \<Rightarrow> Inl e
                | Inr body \<Rightarrow>
                    if ub_Sub body = [] \<or> ub_Email body = [] then Inl (Errorf ''missing required userinfo fields'')
                    else Inr (Some \<lparr>oi_ProviderUserID = ub_Sub body, oi_Email = ToLower (ub_Email body), oi_Name = ub_Name body,
                                    oi_Picture = ub_Picture body, oi_EmailVerified = ub_EmailVerified body\<rparr>)))"

definition oauthStatus :: "goerr option \<Rightarrow> string" where
  "oauthStatus err = (if err \<noteq> None then ''error'' else ''success'')"

text \<open>\<open>canceled\<close>, \<open>deadline\<close> and \<open>timeout\<close> recognise the errors of the packages \<open>context\<close> and \<open>net\<close>.\<close>

definition classifyOAuthError :: "(goerr \<Rightarrow> bool) \<Rightarrow> (goerr \<Rightarrow> bool) \<Rightarrow> (goerr \<Rightarrow> bool) \<Rightarrow> goerr option \<Rightarrow> string" where
  "classifyOAuthError canceled deadline timeout err =
     (case err of
        None \<Rightarrow> ''none''
      | Some e \<Rightarrow>
          if canceled e then ''context_canceled''
          else if deadline e then ''timeout''
          else if timeout e then ''timeout''
          else (let msg = ToLower (Error_text e) in
                if Contains msg ''userinfo status:'' then ''userinfo_status''
                else if Contains msg ''missing required userinfo fields'' then ''invalid_userinfo''
                else if Contains msg ''oauth2'' then ''oauth2_exchange'' else ''other''))"

text \<open>
  A login through this provider succeeds only when Google answered the request for the user's data with 200, an
  identity, an address and the statement that the address is verified.
\<close>

lemma google_vouches_for_login:
  assumes "av_fetchUserInfo A = GoogleProvider_FetchUserInfo getURL decode"
    and "LoginWithGoogleCode D A code ua ip T = (Inr l, T')"
  obtains token raw body where "av_exchange A code = Inr token"
    "getURL token ''https://openidconnect.googleapis.com/v1/userinfo'' = Inr (200, raw)" "decode raw = Inr body"
    "ub_Sub body \<noteq> []" "ub_Email body \<noteq> []" "ub_EmailVerified body"
proof -
  have "\<exists>token info. av_exchange A code = Inr token \<and> av_fetchUserInfo A token = Inr (Some info) \<and> oi_EmailVerified info"
    using assms(2) by (auto simp: LoginWithGoogleCode_def HandleGoogleCallback_def split: if_splits sum.splits option.splits prod.splits)
  then obtain token info where t: "av_exchange A code = Inr token" and i: "GoogleProvider_FetchUserInfo getURL decode token = Inr (Some info)"
    and v: "oi_EmailVerified info" by (auto simp: assms(1))
  obtain raw body where "getURL token ''https://openidconnect.googleapis.com/v1/userinfo'' = Inr (200, raw)" "decode raw = Inr body"
    "ub_Sub body \<noteq> []" "ub_Email body \<noteq> []" "ub_EmailVerified body"
    using i v unfolding GoogleProvider_FetchUserInfo_def by (auto split: sum.splits prod.splits if_splits)
  with t show ?thesis by (rule that)
qed

end
