(* ===== verification/Load_Tools.thy ===== *)
theory Load_Tools
  imports Http
begin

section \<open>Load generation and the check of the telemetry: \<open>tools/loadgen\<close>, \<open>tools/obscheck\<close>\<close>

text \<open>
  \<open>loadgen\<close> sends requests from several goroutines that count their outcomes in shared atomic counters;
  the counters are bumped one at a time, so a run is an interleaving of the increments of its requests.
  \<open>obscheck\<close> asks Grafana; what the server answers, the resolution of URLs and the JSON decoder are parameters.
\<close>

subsection \<open>\<open>loadgen\<close>\<close>

record loadgen_config =
  lg_BaseURL :: string
  lg_Profile :: string
  lg_Duration :: duration
  lg_RPS :: int
  lg_Concurrency :: int

record loadgen_result =
  lo_TotalRequests :: int
  lo_Failures :: int
  lo_Status2xx :: int
  lo_Status4xx :: int
  lo_Status5xx :: int

definition loadgen_defaults :: "loadgen_config \<Rightarrow> loadgen_config" where
  "loadgen_defaults cfg = cfg\<lparr>
     lg_BaseURL := (if lg_BaseURL cfg = [] then ''http://localhost:8080'' else lg_BaseURL cfg),
     lg_Duration := (if lg_Duration cfg \<le> 0 then seconds 10 else lg_Duration cfg),
     lg_RPS := (if lg_RPS cfg \<le> 0 then 15 else lg_RPS cfg),
     lg_Concurrency := (if lg_Concurrency cfg \<le> 0 then 5 else lg_Concurrency cfg)\<rparr>"

definition endpointsForProfile :: "string \<Rightarrow> string list" where
  "endpointsForProfile profile =
     (let p = ToLower profile in
      if p = [] \<or> p = ''mixed'' \<or> p = ''auth''
      then [''/api/v1/auth/google/login'', ''/api/v1/auth/google/callback?state=bad&code=x'', ''/api/v1/auth/refresh'']
      else if p = ''error-heavy'' then [''/api/v1/auth/google/callback?state=bad&code=x'', ''/api/v1/auth/refresh'']
      else [])"

definition normalizeProfile :: "string \<Rightarrow> string" where
  "normalizeProfile profile = (let p = ToLower (TrimSpace profile) in if p = [] then ''mixed'' else p)"

definition classifyStatusClass :: "int \<Rightarrow> string" where
  "classifyStatusClass code =
     (if code \<ge> 200 \<and> code < 300 then ''2xx'' else if code \<ge> 300 \<and> code < 400 then ''3xx''
      else if code \<ge> 400 \<and> code < 500 then ''4xx'' else if code \<ge> 500 then ''5xx'' else ''other'')"

definition job_method :: "string \<Rightarrow> string" where
  "job_method path = (if Contains path ''/refresh'' then ''POST'' else ''GET'')"

datatype job_outcome = JobError | JobStatus int

datatype counter = CTotal | CFailures | C2xx | C4xx | C5xx

definition job_increments :: "job_outcome \<Rightarrow> counter list" where
  "job_increments job =
     (case job of
        JobError \<Rightarrow> [CFailures]
      | JobStatus code \<Rightarrow>
          CTotal # (if code \<ge> 200 \<and> code < 300 then [C2xx] else if code \<ge> 400 \<and> code < 500 then [C4xx]
                    else if code \<ge> 500 then [C5xx] else []))"

definition AddInt64 :: "counter \<Rightarrow> loadgen_result \<Rightarrow> loadgen_result" where
  "AddInt64 c res =
     (case c of
        CTotal \<Rightarrow> res\<lparr>lo_TotalRequests := lo_TotalRequests res + 1\<rparr>
      | CFailures \<Rightarrow> res\<lparr>lo_Failures := lo_Failures res + 1\<rparr>
      | C2xx \<Rightarrow> res\<lparr>lo_Status2xx := lo_Status2xx res + 1\<rparr>
      | C4xx \<Rightarrow> res\<lparr>lo_Status4xx := lo_Status4xx res + 1\<rparr>
      | C5xx \<Rightarrow> res\<lparr>lo_Status5xx := lo_Status5xx res + 1\<rparr>)"

definition no_requests :: loadgen_result where
  "no_requests = \<lparr>lo_TotalRequests = 0, lo_Failures = 0, lo_Status2xx = 0, lo_Status4xx = 0, lo_Status5xx = 0\<rparr>"

text \<open>The jobs of the first \<open>n\<close> ticks, and what one of them asks for.\<close>

definition loadgen_jobs :: "loadgen_config \<Rightarrow> nat \<Rightarrow> (string \<times> string) list" where
  "loadgen_jobs cfg n =
     (let eps = endpointsForProfile (lg_Profile cfg) in
      map (\<lambda>i. let path = eps ! (i mod length eps) in (job_method path, lg_BaseURL (loadgen_defaults cfg) @ path)) [0..<n])"

text \<open>
  One run: \<open>n\<close> ticks passed before the deadline, \<open>send i\<close> is the outcome of the \<open>i\<close>-th request, and \<open>trace\<close> the order in which
  the counters were bumped.  A ticker needs a positive interval; the constructor panics otherwise.
\<close>

inductive loadgen_Run :: "loadgen_config \<Rightarrow> nat \<Rightarrow> (nat \<Rightarrow> string \<times> string \<Rightarrow> job_outcome) \<Rightarrow> loadgen_result result \<Rightarrow> bool" where
  unknown: "endpointsForProfile (lg_Profile cfg) = [] \<Longrightarrow>
    loadgen_Run cfg n send (Inl (Errorf (''unknown profile: '' @ lg_Profile cfg)))"
| panic: "endpointsForProfile (lg_Profile cfg) \<noteq> [] \<Longrightarrow> seconds 1 div lg_RPS (loadgen_defaults cfg) \<le> 0 \<Longrightarrow>
    loadgen_Run cfg n send (Inl (External ''non-positive interval for NewTicker''))"
| finished: "endpointsForProfile (lg_Profile cfg) \<noteq> [] \<Longrightarrow> seconds 1 div lg_RPS (loadgen_defaults cfg) > 0 \<Longrightarrow>
    mset trace = mset (concat (map job_increments (map (\<lambda>(i, job). send i job) (enumerate 0 (loadgen_jobs cfg n))))) \<Longrightarrow>
    loadgen_Run cfg n send (Inr (fold AddInt64 trace no_requests))"

lemma tally:
  "lo_TotalRequests (fold AddInt64 t res) = lo_TotalRequests res + int (count (mset t) CTotal)"
  "lo_Failures (fold AddInt64 t res) = lo_Failures res + int (count (mset t) CFailures)"
  "lo_Status2xx (fold AddInt64 t res) = lo_Status2xx res + int (count (mset t) C2xx)"
  "lo_Status4xx (fold AddInt64 t res) = lo_Status4xx res + int (count (mset t) C4xx)"
  "lo_Status5xx (fold AddInt64 t res) = lo_Status5xx res + int (count (mset t) C5xx)"
  by (induction t arbitrary: res) (simp_all add: AddInt64_def split: counter.splits)

definition answered :: "(int \<Rightarrow> bool) \<Rightarrow> job_outcome \<Rightarrow> bool" where
  "answered p job = (case job of JobError \<Rightarrow> False | JobStatus code \<Rightarrow> p code)"

lemma count_increments:
  "count (mset (concat (map job_increments jobs))) CTotal = length (filter (answered (\<lambda>_. True)) jobs)"
  "count (mset (concat (map job_increments jobs))) CFailures = length (filter (\<lambda>j. j = JobError) jobs)"
  "count (mset (concat (map job_increments jobs))) C2xx = length (filter (answered (\<lambda>c. 200 \<le> c \<and> c < 300)) jobs)"
  "count (mset (concat (map job_increments jobs))) C4xx = length (filter (answered (\<lambda>c. 400 \<le> c \<and> c < 500)) jobs)"
  "count (mset (concat (map job_increments jobs))) C5xx = length (filter (answered (\<lambda>c. 500 \<le> c)) jobs)"
  by (induction jobs) (simp_all add: job_increments_def answered_def split: job_outcome.splits)

text \<open>
  However the goroutines interleave, a run reports exactly what happened: the number of requests that were answered,
  of those that failed, and of those answered with a success, a client error and a server error.
\<close>

lemma loadgen_accounts_for_every_request:
  assumes "loadgen_Run cfg n send (Inr res)"
  defines "jobs \<equiv> map (\<lambda>(i, job). send i job) (enumerate 0 (loadgen_jobs cfg n))"
  shows "lo_TotalRequests res + lo_Failures res = int n"
    "lo_Failures res = int (length (filter (\<lambda>j. j = JobError) jobs))"
    "lo_Status2xx res = int (length (filter (answered (\<lambda>c. 200 \<le> c \<and> c < 300)) jobs))"
    "lo_Status4xx res = int (length (filter (answered (\<lambda>c. 400 \<le> c \<and> c < 500)) jobs))"
    "lo_Status5xx res = int (length (filter (answered (\<lambda>c. 500 \<le> c)) jobs))"
proof -
  obtain trace where tr: "mset trace = mset (concat (map job_increments jobs))" and res: "res = fold AddInt64 trace no_requests"
    using assms(1) by (cases rule: loadgen_Run.cases) (simp_all add: jobs_def)
  have split: "length (filter (answered (\<lambda>_. True)) js) + length (filter (\<lambda>j. j = JobError) js) = length js" for js
    by (induction js) (auto simp: answered_def split: job_outcome.splits)
  have len: "length jobs = n" by (simp add: jobs_def loadgen_jobs_def Let_def)
  show "lo_TotalRequests res + lo_Failures res = int n"
    using split [of jobs] by (simp add: res tally tr count_increments no_requests_def len flip: of_nat_add)
  show "lo_Failures res = int (length (filter (\<lambda>j. j = JobError) jobs))"
    "lo_Status2xx res = int (length (filter (answered (\<lambda>c. 200 \<le> c \<and> c < 300)) jobs))"
    "lo_Status4xx res = int (length (filter (answered (\<lambda>c. 400 \<le> c \<and> c < 500)) jobs))"
    "lo_Status5xx res = int (length (filter (answered (\<lambda>c. 500 \<le> c)) jobs))"
    by (simp_all add: res tally tr count_increments no_requests_def)
qed

subsection \<open>\<open>obscheck\<close>\<close>

record obscheck_env =
  oc_resolve :: "string \<Rightarrow> string result"
  oc_Do :: "nat \<Rightarrow> string \<Rightarrow> (int \<times> string \<times> string result) result"
  oc_Unmarshal :: "string \<Rightarrow> json result"
  oc_QueryEscape :: "string \<Rightarrow> string"

text \<open>\<open>oc_Do E i url\<close> is the answer to the \<open>i\<close>-th call of the client: status, status text and what reading the body gives.\<close>

definition grafanaGET :: "obscheck_env \<Rightarrow> nat \<Rightarrow> string \<Rightarrow> string result" where
  "grafanaGET E i path =
     (case oc_resolve E path of
        Inl e \<Rightarrow> Inl e
      | Inr u \<Rightarrow>
          (case oc_Do E i u of
             Inl e \<Rightarrow> Inl e
           | Inr (code, status, body) \<Rightarrow>
               if code \<ge> 400 then Inl (Errorf (''grafana request failed: '' @ status)) else body))"

text \<open>Reading a decoded value with the type assertions of the source, which give the zero value on another type.\<close>

definition jfield :: "string \<Rightarrow> json \<Rightarrow> json" where
  "jfield k v = (case v of JObj fs \<Rightarrow> (case map_of fs k of Some x \<Rightarrow> x | None \<Rightarrow> JNull) | _ \<Rightarrow> JNull)"

definition as_array :: "json \<Rightarrow> json list" where
  "as_array v = (case v of JArr xs \<Rightarrow> xs | _ \<Rightarrow> [])"

definition as_float :: "json \<Rightarrow> rat" where
  "as_float v = (case v of JNum q \<Rightarrow> q | JInt i \<Rightarrow> of_int i | _ \<Rightarrow> 0)"

definition exemplars_of :: "json \<Rightarrow> json list" where
  "exemplars_of payload = concat (map (\<lambda>series. as_array (jfield ''exemplars'' series)) (as_array (jfield ''data'' payload)))"

definition candidate :: "int \<Rightarrow> json \<Rightarrow> (string \<times> rat) option" where
  "candidate notBefore e =
     (let ts = as_float (jfield ''timestamp'' e) in
      if ts \<le> 0 then None
      else if notBefore > 0 \<and> \<lfloor>ts\<rfloor> < notBefore then None
      else (case jfield ''trace_id'' (jfield ''labels'' e) of
              JStr tid \<Rightarrow> if length tid = 32 then Some (tid, ts) else None
            | _ \<Rightarrow> None))"

fun best_exemplar :: "int \<Rightarrow> json list \<Rightarrow> string \<times> rat \<Rightarrow> string \<times> rat" where
  "best_exemplar notBefore [] best = best"
| "best_exemplar notBefore (e # es) best =
     best_exemplar notBefore es
       (case candidate notBefore e of Some (tid, ts) \<Rightarrow> if ts > snd best then (tid, ts) else best | None \<Rightarrow> best)"

definition exemplar_query :: "int \<Rightarrow> int \<Rightarrow> string" where
  "exemplar_query start fin =
     ''/api/datasources/proxy/uid/mimir/api/v1/query_exemplars?query=auth_request_duration_seconds_bucket&start=''
     @ FormatInt start @ ''&end='' @ FormatInt fin"

definition fetchTraceIDFromExemplar :: "obscheck_env \<Rightarrow> int \<Rightarrow> int \<Rightarrow> int \<Rightarrow> string result" where
  "fetchTraceIDFromExemplar E start fin notBefore =
     (case grafanaGET E 0 (exemplar_query start fin) of
        Inl e \<Rightarrow> Inl e
      | Inr body \<Rightarrow>
          (case oc_Unmarshal E body of
             Inl e \<Rightarrow> Inl e
           | Inr payload \<Rightarrow>
               (let (tid, _) = best_exemplar notBefore (exemplars_of payload) ([], 0) in
                if tid \<noteq> [] then Inr tid else Inl (Errorf ''no recent trace_id exemplar found''))))"

text \<open>The loop of \<open>verifyTempoTrace\<close>: \<open>n\<close> attempts are left, the next one is call \<open>i\<close>.\<close>

fun tempo_loop :: "obscheck_env \<Rightarrow> string \<Rightarrow> nat \<Rightarrow> nat \<Rightarrow> goerr option \<Rightarrow> unit result" where
  "tempo_loop E path i 0 lastErr =
     (case lastErr of Some e \<Rightarrow> Inl e | None \<Rightarrow> Inl (Errorf ''tempo trace lookup failed''))"
| "tempo_loop E path i (Suc n) lastErr =
     (case grafanaGET E i path of
        Inl e \<Rightarrow> tempo_loop E path (Suc i) n (Some e)
      | Inr body \<Rightarrow>
          (case oc_Unmarshal E body of
             Inl e \<Rightarrow> Inl e
           | Inr payload \<Rightarrow>
               if as_array (jfield ''batches'' payload) \<noteq> [] then Inr ()
               else tempo_loop E path (Suc i) n (Some (Errorf ''tempo trace has no batches yet''))))"

definition verifyTempoTrace :: "obscheck_env \<Rightarrow> string \<Rightarrow> unit result" where
  "verifyTempoTrace E traceID = tempo_loop E (''/api/datasources/proxy/uid/tempo/api/traces/'' @ traceID) 1 5 None"

fun loki_loop :: "obscheck_env \<Rightarrow> string \<Rightarrow> int \<Rightarrow> nat \<Rightarrow> string list \<Rightarrow> unit result" where
  "loki_loop E traceID nowNS i [] = Inl (Errorf (''no correlated loki logs found for trace_id '' @ traceID))"
| "loki_loop E traceID nowNS i (raw # rest) =
     (case grafanaGET E i (''/api/datasources/proxy/uid/loki/loki/api/v1/query_range?query='' @ oc_QueryEscape E raw
             @ ''&start='' @ FormatInt (nowNS - minutes 30) @ ''&end='' @ FormatInt nowNS @ ''&limit=1&direction=backward'') of
        Inl e \<Rightarrow> Inl e
      | Inr body \<Rightarrow>
          (case oc_Unmarshal E body of
             Inl e \<Rightarrow> Inl e
           | Inr payload \<Rightarrow>
               if as_array (jfield ''result'' (jfield ''data'' payload)) \<noteq> [] then Inr ()
               else loki_loop E traceID nowNS (Suc i) rest))"

definition loki_queries :: "string \<Rightarrow> string \<Rightarrow> string list" where
  "loki_queries serviceName traceID =
     (let q = [CHR 0x22] in
      [''{service_name='' @ q @ serviceName @ q @ ''} | json | trace_id='' @ q @ traceID @ q,
       ''{service_name=~'' @ q @ ''.+'' @ q @ ''} | json | trace_id='' @ q @ traceID @ q])"

definition verifyLokiTraceLogs :: "obscheck_env \<Rightarrow> string \<Rightarrow> int \<Rightarrow> string \<Rightarrow> unit result" where
  "verifyLokiTraceLogs E serviceName nowNS traceID = loki_loop E traceID nowNS 6 (loki_queries serviceName traceID)"

text \<open>The stages of a run; \<open>traffic\<close> is the result of the load generator.\<close>

definition obscheck_run ::
    "obscheck_env \<Rightarrow> string \<Rightarrow> int \<Rightarrow> int \<Rightarrow> int \<Rightarrow> int \<Rightarrow> loadgen_result result \<Rightarrow> string list \<times> goerr option" where
  "obscheck_run E serviceName start fin cutoff nowNS traffic =
     (case traffic of
        Inl e \<Rightarrow> ([], Some e)
      | Inr lg \<Rightarrow>
          (let d1 = [''traffic generated total='' @ FormatInt (lo_TotalRequests lg) @ '' failures='' @ FormatInt (lo_Failures lg)] in
           case fetchTraceIDFromExemplar E start fin cutoff of
             Inl e \<Rightarrow> (d1, Some e)
           | Inr traceID \<Rightarrow>
               (let d2 = d1 @ [''exemplar trace_id='' @ traceID] in
                case verifyTempoTrace E traceID of
                  Inl e \<Rightarrow> (d2, Some e)
                | Inr _ \<Rightarrow>
                    (let d3 = d2 @ [''tempo trace lookup: ok''] in
                     case verifyLokiTraceLogs E serviceName nowNS traceID of
                       Inl e \<Rightarrow> (d3, Some e)
                     | Inr _ \<Rightarrow> (d3 @ [''loki trace correlation: ok''], None)))))"

lemma best_exemplar_spec:
  assumes "best_exemplar nb es best = (tid, ts)"
  shows "((tid, ts) = best \<or> (\<exists>e \<in> set es. candidate nb e = Some (tid, ts))) \<and> snd best \<le> ts
    \<and> (\<forall>e \<in> set es. \<forall>t u. candidate nb e = Some (t, u) \<longrightarrow> u \<le> ts)"
  using assms
proof (induction es arbitrary: best)
  case (Cons e es)
  let ?b = "case candidate nb e of Some (tid, ts) \<Rightarrow> if ts > snd best then (tid, ts) else best | None \<Rightarrow> best"
  have "best_exemplar nb es ?b = (tid, ts)" using Cons.prems by simp
  note IH = Cons.IH [OF this]
  have b: "snd best \<le> snd ?b" "?b = best \<or> candidate nb e = Some ?b" "\<forall>t u. candidate nb e = Some (t, u) \<longrightarrow> u \<le> snd ?b"
    by (auto split: option.splits prod.splits)
  have "snd best \<le> ts" "\<forall>t u. candidate nb e = Some (t, u) \<longrightarrow> u \<le> ts" using IH b(1,3) by (blast intro: order_trans)+
  moreover have "(tid, ts) = best \<or> (\<exists>d \<in> set (e # es). candidate nb d = Some (tid, ts))" using IH b(2) by auto
  ultimately show ?case using IH by auto
qed simp

text \<open>
  The trace that is checked is the newest of the admissible exemplars, those with an identity of 32 characters and a
  positive time not before the cutoff; an error is reported only when there is none.
\<close>

lemma newest_exemplar_is_checked:
  assumes "grafanaGET E 0 (exemplar_query start fin) = Inr body" "oc_Unmarshal E body = Inr payload"
  shows "case fetchTraceIDFromExemplar E start fin cutoff of
      Inr tid \<Rightarrow> \<exists>ts. (\<exists>e \<in> set (exemplars_of payload). candidate cutoff e = Some (tid, ts))
        \<and> (\<forall>e \<in> set (exemplars_of payload). \<forall>t u. candidate cutoff e = Some (t, u) \<longrightarrow> u \<le> ts)
    | Inl _ \<Rightarrow> \<forall>e \<in> set (exemplars_of payload). candidate cutoff e = None"
proof -
  obtain tid ts where best: "best_exemplar cutoff (exemplars_of payload) ([], 0) = (tid, ts)" by fastforce
  note spec = best_exemplar_spec [OF best]
  have pos: "0 < u" "t \<noteq> []" if "candidate cutoff e = Some (t, u)" for e t u
    using that by (auto simp: candidate_def Let_def split: if_splits json.splits)
  show ?thesis
  proof (cases "tid = []")
    case True
    then have "ts = 0" using spec pos(2) by auto
    then have "candidate cutoff e = None" if "e \<in> set (exemplars_of payload)" for e
      using spec pos(1) that by (metis linorder_not_le not_Some_eq surj_pair)
    then show ?thesis using True by (simp add: fetchTraceIDFromExemplar_def assms best)
  next
    case False
    then show ?thesis using spec by (auto simp: fetchTraceIDFromExemplar_def assms best)
  qed
qed

text \<open>A trace that Tempo shows at one of the five attempts is found, if the earlier answers were errors or empty.\<close>

lemma tempo_eventually_found:
  assumes "k < n" "grafanaGET E (i + k) path = Inr body" "oc_Unmarshal E body = Inr payload" "as_array (jfield ''batches'' payload) \<noteq> []"
    and "\<And>j. j < k \<Longrightarrow> case grafanaGET E (i + j) path of Inl _ \<Rightarrow> True | Inr b \<Rightarrow> \<exists>p. oc_Unmarshal E b = Inr p \<and> as_array (jfield ''batches'' p) = []"
  shows "tempo_loop E path i n lastErr = Inr ()"
  using assms
proof (induction n arbitrary: i k lastErr)
  case (Suc n)
  show ?case
  proof (cases k)
    case 0
    then show ?thesis using Suc.prems by simp
  next
    case (Suc m)
    have "tempo_loop E path (Suc i) n err = Inr ()" for err
      using Suc.IH [of m "Suc i" err] Suc.prems Suc.prems(5) [of "Suc _"] unfolding \<open>k = Suc m\<close> by (simp del: tempo_loop.simps)
    then show ?thesis using Suc.prems(5) [of 0] \<open>k = Suc m\<close> by (auto split: sum.splits)
  qed
qed simp

end
