(* ===== verification/Tool_Commands.thy ===== *)
theory Tool_Commands
  imports App_Config Rbac_Seed
begin

section \<open>The seed and migration tools: \<open>tools/common\<close>, \<open>tools/ui\<close>, \<open>tools/seed\<close>, \<open>tools/migrate\<close>, \<open>database/migrate.go\<close>\<close>

text \<open>
  A tool reads an environment file, loads the configuration, opens the database and works on it.  Outside
  are the file, as the outcome of opening and scanning it (the path cleaned by \<open>filepath.Clean\<close>), the connection
  \<open>openDB cfg\<close>, and \<open>AutoMigrate\<close> and \<open>Ping\<close> of the driver.  A command returns the details it reports beside the
  error, as in the source.
\<close>

subsection \<open>\<open>LoadEnvFile\<close>\<close>

datatype env_file =
    FileMissing
  | FileRefused goerr
  | FileLines "string list" "goerr option"

type_synonym environ = "string \<Rightarrow> string option"

text \<open>\<open>os.Setenv\<close> refuses an empty key, a key with an equals sign and NUL bytes.\<close>

definition Setenv :: "string \<Rightarrow> string \<Rightarrow> environ \<Rightarrow> environ" where
  "Setenv k v env =
     (if k = [] \<or> CHR ''='' \<in> set k \<or> CHR 0x00 \<in> set k \<or> CHR 0x00 \<in> set v then env else env(k \<mapsto> v))"

definition trim_quotes :: "string \<Rightarrow> string" where
  "trim_quotes v = rev (dropWhile (\<lambda>c. c = CHR 0x22) (rev (dropWhile (\<lambda>c. c = CHR 0x22) v)))"

definition env_entry :: "string \<Rightarrow> (string \<times> string) option" where
  "env_entry text =
     (let line = TrimSpace text in
      if line = [] \<or> HasPrefix line ''#'' \<or> CHR ''='' \<notin> set line then None
      else Some (TrimSpace (takeWhile (\<lambda>c. c \<noteq> CHR ''='') line),
                 trim_quotes (TrimSpace (tl (dropWhile (\<lambda>c. c \<noteq> CHR ''='') line)))))"

fun load_lines :: "string list \<Rightarrow> environ \<Rightarrow> environ" where
  "load_lines [] env = env"
| "load_lines (text # rest) env =
     load_lines rest
       (case env_entry text of
          None \<Rightarrow> env
        | Some (k, v) \<Rightarrow> if env k = None then Setenv k v env else env)"

definition LoadEnvFile :: "(string \<Rightarrow> env_file) \<Rightarrow> string \<Rightarrow> environ \<Rightarrow> unit result \<times> environ" where
  "LoadEnvFile openFile path env =
     (if path = [] then (Inr (), env)
      else (case openFile path of
              FileMissing \<Rightarrow> (Inr (), env)
            | FileRefused e \<Rightarrow> (Inl (Errorf (''open env file: '' @ Error_text e)), env)
            | FileLines ls readErr \<Rightarrow>
                (case readErr of None \<Rightarrow> Inr () | Some e \<Rightarrow> Inl (Errorf (''read env file: '' @ Error_text e)), load_lines ls env)))"

subsection \<open>Running a command\<close>

record CIResult =
  ci_OK :: bool
  ci_Title :: string
  ci_Details :: "string list"
  ci_Error :: string

definition PrintCIResult :: "bool \<Rightarrow> string \<Rightarrow> string list \<Rightarrow> goerr option \<Rightarrow> CIResult" where
  "PrintCIResult ok title details err =
     \<lparr>ci_OK = ok, ci_Title = title, ci_Details = details, ci_Error = (case err of None \<Rightarrow> [] | Some e \<Rightarrow> Error_text e)\<rparr>"

text \<open>The terminal interface: the messages of the program loop up to the one that quits.\<close>

record ui_model =
  um_title :: string
  um_details :: "string list"
  um_err :: "goerr option"
  um_done :: bool

datatype tea_msg = KeyMsg string | ActionMsg "string list" "goerr option"

definition ui_Update :: "tea_msg \<Rightarrow> ui_model \<Rightarrow> ui_model \<times> bool" where
  "ui_Update msg m =
     (case msg of
        KeyMsg k \<Rightarrow> (m, k = ''ctrl+c'')
      | ActionMsg details err \<Rightarrow> (m\<lparr>um_details := details, um_err := err, um_done := True\<rparr>, True))"

definition ui_View :: "(string \<Rightarrow> string) \<Rightarrow> ui_model \<Rightarrow> string" where
  "ui_View render m =
     (if \<not> um_done m then render (um_title m) @ [CHR 0x0A, CHR 0x0A] @ ''Running...'' @ [CHR 0x0A]
      else
        (case um_err m of
           Some e \<Rightarrow> render (um_title m) @ [CHR 0x0A] @ render ''FAILED'' @ '': '' @ Error_text e @ [CHR 0x0A]
         | None \<Rightarrow> render (um_title m) @ [CHR 0x0A] @ render ''OK'' @ [CHR 0x0A])
        @ concat (map (\<lambda>d. ''- '' @ d @ [CHR 0x0A]) (um_details m)))"

fun tea_loop :: "tea_msg list \<Rightarrow> ui_model \<Rightarrow> ui_model" where
  "tea_loop [] m = m"
| "tea_loop (msg # rest) m = (case ui_Update msg m of (m', quit) \<Rightarrow> if quit then m' else tea_loop rest m')"

definition ui_Run :: "string \<Rightarrow> string list \<Rightarrow> tea_msg \<Rightarrow> string list \<times> goerr option" where
  "ui_Run title keys act =
     (let res = tea_loop (map KeyMsg keys @ [act]) \<lparr>um_title = title, um_details = [], um_err = None, um_done = False\<rparr>
      in (um_details res, um_err res))"

text \<open>
  \<open>keys\<close> are the keys pressed before the action ends, and \<open>outcome\<close> is what it returns: in CI mode that is the result,
  and it is printed.  The exit status is 0 or the tool's own.
\<close>

definition run_command :: "nat \<Rightarrow> string \<Rightarrow> bool \<Rightarrow> string list \<Rightarrow> string list \<times> goerr option \<Rightarrow> CIResult option \<times> nat" where
  "run_command failed title ci keys outcome =
     (let (details, err) = (if ci then outcome else ui_Run title keys (ActionMsg (fst outcome) (snd outcome))) in
      (if ci then Some (PrintCIResult (err = None) title details err) else None,
       if err \<noteq> None then failed else 0))"

subsection \<open>The commands\<close>

record tool_world =
  tw_env :: environ
  tw_T :: tables

record tool_outside =
  to_openFile :: "string \<Rightarrow> env_file"
  to_os :: go_os
  to_openDB :: "Config \<Rightarrow> dbconn result"
  to_AutoMigrate :: "string list \<Rightarrow> unit result"
  to_Ping :: "unit result"
  to_now :: gotime

definition loadConfigDB :: "tool_outside \<Rightarrow> string \<Rightarrow> tool_world \<Rightarrow> (Config \<times> dbconn) result \<times> tool_world" where
  "loadConfigDB X envFile W =
     (case LoadEnvFile (to_openFile X) envFile (tw_env W) of
        (Inl e, env) \<Rightarrow> (Inl e, W\<lparr>tw_env := env\<rparr>)
      | (Inr _, env) \<Rightarrow>
          (case Load ((to_os X)\<lparr>os_LookupEnv := env\<rparr>) of
             Inl e \<Rightarrow> (Inl e, W\<lparr>tw_env := env\<rparr>)
           | Inr cfg \<Rightarrow>
               (case to_openDB X cfg of
                  Inl e \<Rightarrow> (Inl e, W\<lparr>tw_env := env\<rparr>)
                | Inr db \<Rightarrow> (Inr (cfg, db), W\<lparr>tw_env := env\<rparr>))))"

definition seed_email :: "string \<Rightarrow> Config \<Rightarrow> string" where
  "seed_email override cfg = (if override \<noteq> [] then override else cf_BootstrapAdminEmail cfg)"

definition seed_apply :: "tool_outside \<Rightarrow> string \<Rightarrow> string \<Rightarrow> tool_world \<Rightarrow> (string list \<times> goerr option) \<times> tool_world" where
  "seed_apply X envFile override W =
     (case loadConfigDB X envFile W of
        (Inl e, W1) \<Rightarrow> (([], Some e), W1)
      | (Inr (cfg, D), W1) \<Rightarrow>
          (let email = seed_email override cfg in
           case Seed D email (tw_T W1) of
             (Inl e, T) \<Rightarrow> (([], Some e), W1\<lparr>tw_T := T\<rparr>)
           | (Inr _, T) \<Rightarrow>
               (([''seeded default roles and permissions'']
                 @ (if email \<noteq> [] then [''bootstrap admin role assignment attempted for: '' @ email] else []), None), W1\<lparr>tw_T := T\<rparr>)))"

definition seed_dry_run :: "tool_outside \<Rightarrow> string \<Rightarrow> string \<Rightarrow> tool_world \<Rightarrow> (string list \<times> goerr option) \<times> tool_world" where
  "seed_dry_run X envFile override W =
     (case loadConfigDB X envFile W of
        (Inl e, W1) \<Rightarrow> (([], Some e), W1)
      | (Inr (cfg, _), W1) \<Rightarrow>
          (let email = seed_email override cfg in
           (([''would ensure permissions: users:read, users:write, roles:read, roles:write, permissions:read'',
              ''would ensure roles: user, admin'',
              ''would map admin role to all default permissions'']
             @ (if email \<noteq> [] then [''would assign admin role to user if present: '' @ email] else []), None), W1)))"

definition seed_verify_local_email :: "tool_outside \<Rightarrow> string \<Rightarrow> string \<Rightarrow> tool_world \<Rightarrow> (string list \<times> goerr option) \<times> tool_world" where
  "seed_verify_local_email X envFile email W =
     (if TrimSpace email = [] then (([], Some (Errorf ''email is required'')), W)
      else
        (case loadConfigDB X envFile W of
           (Inl e, W1) \<Rightarrow> (([], Some e), W1)
         | (Inr (_, D), W1) \<Rightarrow>
             (case VerifyLocalEmail D (to_now X) email (tw_T W1) of
                (Inl e, T) \<Rightarrow> (([], Some e), W1\<lparr>tw_T := T\<rparr>)
              | (Inr _, T) \<Rightarrow> (([''marked local email verified: '' @ TrimSpace (ToLower email)], None), W1\<lparr>tw_T := T\<rparr>))))"

definition migrated_models :: "string list" where
  "migrated_models = [''User'', ''LocalCredential'', ''Role'', ''Permission'', ''UserRole'', ''RolePermission'', ''OAuthAccount'', ''Session'',
     ''VerificationToken'', ''IdempotencyRecord'', ''FeatureFlag'', ''FeatureFlagRule'', ''Product'']"

definition Migrate :: "tool_outside \<Rightarrow> unit result" where
  "Migrate X = to_AutoMigrate X migrated_models"

definition migrate_up :: "tool_outside \<Rightarrow> string \<Rightarrow> tool_world \<Rightarrow> (string list \<times> goerr option) \<times> tool_world" where
  "migrate_up X envFile W =
     (case loadConfigDB X envFile W of
        (Inl e, W1) \<Rightarrow> (([], Some e), W1)
      | (Inr (cfg, _), W1) \<Rightarrow>
          (case Migrate X of
             Inl e \<Rightarrow> (([], Some e), W1)
           | Inr _ \<Rightarrow> (([''schema migration applied'', ''database: connected'', ''service: '' @ cf_OTELServiceName cfg], None), W1)))"

definition migrate_status :: "tool_outside \<Rightarrow> string \<Rightarrow> tool_world \<Rightarrow> (string list \<times> goerr option) \<times> tool_world" where
  "migrate_status X envFile W =
     (case loadConfigDB X envFile W of
        (Inl e, W1) \<Rightarrow> (([], Some e), W1)
      | (Inr (cfg, _), W1) \<Rightarrow>
          (case to_Ping X of
             Inl e \<Rightarrow> (([], Some (Errorf (''db ping: '' @ Error_text e))), W1)
           | Inr _ \<Rightarrow> (([''database reachable'', ''service: '' @ cf_OTELServiceName cfg, ''migrations: ready''], None), W1)))"

definition migrate_plan :: "tool_outside \<Rightarrow> string \<Rightarrow> tool_world \<Rightarrow> (string list \<times> goerr option) \<times> tool_world" where
  "migrate_plan X envFile W =
     (case loadConfigDB X envFile W of
        (Inl e, W1) \<Rightarrow> (([], Some e), W1)
      | (Inr (cfg, _), W1) \<Rightarrow>
          (case to_Ping X of
             Inl e \<Rightarrow> (([], Some (Errorf (''db ping: '' @ Error_text e))), W1)
           | Inr _ \<Rightarrow>
               (([''would apply AutoMigrate for domain models'',
                  ''user, role, permission, user_role, role_permission, oauth_account, session'',
                  ''no mutation executed in plan mode''], None), W1)))"

subsection \<open>What the environment file can change\<close>

definition settable :: "string \<times> string \<Rightarrow> bool" where
  "settable kv \<longleftrightarrow> fst kv \<noteq> [] \<and> CHR ''='' \<notin> set (fst kv) \<and> CHR 0x00 \<notin> set (fst kv) \<and> CHR 0x00 \<notin> set (snd kv)"

definition env_entries :: "string list \<Rightarrow> (string \<times> string) list" where
  "env_entries ls = filter settable (List.map_filter env_entry ls)"

definition file_lines :: "env_file \<Rightarrow> string list" where
  "file_lines f = (case f of FileLines ls _ \<Rightarrow> ls | _ \<Rightarrow> [])"

lemma env_entries_Nil [simp]: "env_entries [] = []"
  by (simp add: env_entries_def)

lemma env_entries_Cons [simp]:
  "env_entries (l # ls) = (case env_entry l of Some kv \<Rightarrow> if settable kv then kv # env_entries ls else env_entries ls | None \<Rightarrow> env_entries ls)"
  by (simp add: env_entries_def List.map_filter_simps split: option.splits)

lemma Setenv_settable: "Setenv k v env = (if settable (k, v) then env(k \<mapsto> v) else env)"
  by (simp add: Setenv_def settable_def)

lemma load_lines_eq: "load_lines ls env = map_of (env_entries ls) ++ env"
proof (induction ls arbitrary: env)
  case (Cons l ls)
  show ?case
  proof (cases "env_entry l")
    case (Some kv)
    obtain k v where kv: "kv = (k, v)" by (cases kv)
    show ?thesis
    proof (cases "env k")
      case None
      then show ?thesis by (auto simp: Cons.IH Some kv Setenv_settable map_add_def fun_eq_iff split: option.splits)
    next
      case set: (Some w)
      then show ?thesis by (auto simp: Cons.IH Some kv map_add_def fun_eq_iff split: option.splits)
    qed
  qed (simp add: Cons.IH)
qed simp

text \<open>
  After reading the environment file a variable that was set keeps its value, and one that was not
  has the value of the first line that can set it: a line that is not blank and no comment, with a name
  before its first equals sign, the value without blanks and quotes around it.  Without a file nothing
  changes, and an error in the middle of the file keeps what was read before.
\<close>

theorem environment_file_never_overrides:
  assumes "LoadEnvFile openFile path env = (res, env')"
  shows "env' = (\<lambda>k. case env k of
      Some v \<Rightarrow> Some v
    | None \<Rightarrow> map_of (env_entries (if path = [] then [] else file_lines (openFile path))) k)"
proof -
  have "env' = map_of (env_entries (if path = [] then [] else file_lines (openFile path))) ++ env"
    using assms by (auto simp: LoadEnvFile_def load_lines_eq file_lines_def split: if_splits env_file.splits)
  then show ?thesis by (simp add: map_add_def fun_eq_iff)
qed

definition demo_env_file :: "string \<Rightarrow> env_file" where
  "demo_env_file _ = FileLines [''# local'', '' A = 1'', ''A=2'', ''B=x'', ''broken''] None"

theorem environment_file_never_overrides_witness:
  "\<exists>env'. LoadEnvFile demo_env_file ''.env'' [''B'' \<mapsto> ''kept''] = (Inr (), env') \<and> env' ''A'' = Some ''1'' \<and> env' ''B'' = Some ''kept''"
proof -
  let ?r = "LoadEnvFile demo_env_file ''.env'' [''B'' \<mapsto> ''kept'']"
  have fst: "fst ?r = Inr ()" by (simp add: LoadEnvFile_def demo_env_file_def)
  have "env_entries (file_lines (demo_env_file ''.env'')) = [(''A'', ''1''), (''A'', ''2''), (''B'', ''x'')]" by code_simp
  with environment_file_never_overrides [of demo_env_file "''.env''" "[''B'' \<mapsto> ''kept'']" "fst ?r" "snd ?r"] fst
  show ?thesis by (intro exI [of _ "snd ?r"]) (simp add: prod_eq_iff)
qed

subsection \<open>Reports\<close>

text \<open>Commands that only show what would be done leave the tables alone.\<close>

lemma loadConfigDB_tables: "loadConfigDB X envFile W = (res, W') \<Longrightarrow> tw_T W' = tw_T W"
  by (auto simp: loadConfigDB_def split: prod.splits sum.splits)

lemma dry_commands_keep_tables:
  "tw_T (snd (seed_dry_run X envFile override W)) = tw_T W"
  "tw_T (snd (migrate_up X envFile W)) = tw_T W"
  "tw_T (snd (migrate_status X envFile W)) = tw_T W"
  "tw_T (snd (migrate_plan X envFile W)) = tw_T W"
  by (auto simp: seed_dry_run_def migrate_up_def migrate_status_def migrate_plan_def Let_def split: prod.splits sum.splits
      dest: loadConfigDB_tables)

text \<open>In CI mode the report, the exit status and the outcome of the action agree.\<close>

lemma ci_report: "run_command failed title True keys (details, err) =
    (Some (PrintCIResult (err = None) title details err), if err = None then 0 else failed)"
  by (simp add: run_command_def)

lemma tea_loop_keys: "''ctrl+c'' \<notin> set keys \<Longrightarrow> tea_loop (map KeyMsg keys @ msgs) m = tea_loop msgs m"
  by (induction keys) (auto simp: ui_Update_def)

lemma ui_report: "''ctrl+c'' \<notin> set keys \<Longrightarrow> snd (run_command failed title False keys (details, err)) = (if err = None then 0 else failed)"
  by (simp add: run_command_def ui_Run_def tea_loop_keys ui_Update_def Let_def)

text \<open>A command that is interrupted in the terminal ends with status 0, whatever its action would have returned.\<close>

lemma interrupted_command_succeeds: "snd (run_command failed title False [''ctrl+c''] outcome) = 0"
  by (simp add: run_command_def ui_Run_def ui_Update_def Let_def)

text \<open>The dry run names five of the eleven permissions that \<open>apply\<close> ensures.\<close>

lemma dry_run_is_incomplete:
  "length defaultPermissions = 11"
  "(''products'', ''write'') \<in> set defaultPermissions"
  "\<not> Contains ''would ensure permissions: users:read, users:write, roles:read, roles:write, permissions:read'' ''products''"
  by (simp_all add: defaultPermissions_def Contains_def sublist_code)

end
