(* ===== verification/Spec2Isabelle.thy ===== *)
theory Spec2Isabelle
  imports Pagination Token_Service Idempotency_Http Abuse_Guard Rate_Limiter Account_Security Flag_Redis
    Products Admin_Lockout Auth_Flow Production Route_Access User_Handler Flag_Handler
    Audit_Log Google_Provider Load_Tools Tool_Commands
begin

text \<open>
  \<^bold>\<open>A verification of the everything-backend starter kit.\<close>

  The repository is a Go server for accounts: login with a password or Google, sessions in cookies,
  roles and permissions, feature flags and a product catalogue, guarded by rate limits, idempotency
  keys and a brake on password guessing.  A request passes the middleware (\<open>src/internal/http/middleware\<close>),
  reaches a handler (\<open>src/internal/http/handler\<close>), which calls services (\<open>src/internal/service\<close>), which call
  repositories (\<open>src/internal/repository\<close>) over GORM, and stores over Redis or memory.  The theories follow
  these layers, with one group of definitions per source file, named as in the source: the method
  \<open>Rotate\<close> of \<open>TokenService\<close> is \<open>TokenService_Rotate\<close>.

  \<^bold>\<open>How code becomes definitions.\<close>  Go functions are total HOL functions with explicit state; \<open>(value, error)\<close>
  is the sum \<open>'a result\<close> with the errors of the sources as constructors of \<open>goerr\<close>.  A table is the list of
  its rows, a struct a \<open>record\<close>, a Go map a map or an association list.  A handler takes the request, the
  headers already set and the state behind it, and gives the response and the new state; a middleware
  is a function on handlers.  Readings of the clock are a function \<open>nat \<Rightarrow> gotime\<close> in the order of the
  source, so that nothing is assumed of the time between two of them.  \<open>uint\<close> is a natural number with the
  bound \<open>2 ^ 64\<close> written out where it is parsed or incremented; durations are integers of nanoseconds.  A
  finite \<open>float64\<close> is its rational value.  In the limiters and their policies every operation is rounded to 53
  bits, to nearest and even (\<open>round64\<close>), with an unbounded exponent and without fused multiply-add, and
  the conversion to an integer is that of amd64; the delays of the abuse guard are computed exactly, with
  the conversion to a duration as a parameter, and prices are only compared.

  \<^bold>\<open>What is a parameter.\<close>  Code that is not in the repository is an argument of the definitions, with what
  its documentation promises as the assumptions of a locale that is interpreted on a reference
  implementation, which the witnesses run on:
  \<^item> GORM: \<open>gorm\<close> with the locales \<open>gorm_table\<close>, \<open>gorm_available\<close>, \<open>gorm_links\<close>, \<open>database\<close>; reference \<open>mem_gorm\<close>, \<open>mem_db\<close>;
  \<^item> Redis: \<open>redis\<close> with the locale \<open>redis_server\<close>; reference \<open>mem_redis\<close>.  Every call may fail before or after it
    took effect (\<open>net\<close>);
  \<^item> the JWT library: \<open>jwtlib\<close> with the locale \<open>jwt_library\<close>; reference \<open>mem_jwt\<close>;
  \<^item> the MinIO client (\<open>minio\<close>, with \<open>object_store\<close>), chi (\<open>chi\<close>, with \<open>outside_ok\<close>), the environment and files (\<open>go_os\<close>);
  \<^item> SHA-256, HMAC, Argon2, randomness, the JSON decoder and encoder, \<open>mail.ParseAddress\<close>, HTTP to Google and Grafana,
    the notifiers: plain function arguments.

  \<^bold>\<open>The theories.\<close>
  \<^item> \<open>Go_Prelude\<close>, \<open>Go_Base64\<close>: strings, numbers, errors, clocks, base64 of the standard library.
  \<^item> \<open>Go_Float\<close>: rounded arithmetic of \<open>float64\<close>; the locale \<open>rounding\<close> of the laws that error bounds rest on, which
    \<open>round64\<close> satisfies.
  \<^item> \<open>Gorm_Table\<close>, \<open>Redis\<close>: the two interfaces to storage and their laws.
  \<^item> \<open>Domain\<close>: the rows of \<open>src/internal/domain\<close>, their keys and unique indexes.
  \<^item> \<open>Pagination\<close>: \<open>pagination.go\<close>; the pages of a list concatenated are the list.
  \<^item> \<open>Security\<close>: \<open>src/internal/security\<close>; round trips of password hashes and tokens, signed states, cookies.
  \<^item> \<open>Session_Repo\<close>, \<open>Token_Service\<close>: \<open>session_repository.go\<close>, \<open>session_service.go\<close>, \<open>token_service.go\<close>; every
    write as a step, from which revocation is permanent, refresh tokens are single use, reuse revokes the
    family, and a family never has two live sessions.
  \<^item> \<open>Http\<close>: \<open>response.go\<close>, \<open>auth_middleware.go\<close>, \<open>security_middleware.go\<close>; what reaches a guarded handler.
  \<^item> \<open>Idempotency\<close>, \<open>Idempotency_Http\<close>: both stores and the middleware behind the locale of their contract; a key
    is handed out once, a repeated request is replayed, and \<open>Begin\<close> returns.
  \<^item> \<open>Abuse_Guard\<close>: \<open>auth_abuse_guard.go\<close> and its Redis form with the Lua script; the delay is bounded and monotone.
  \<^item> \<open>Rate_Limiter\<close>: \<open>rate_limit_middleware.go\<close>, \<open>rate_limit_redis.go\<close>; bounds on the requests let through in
    any window, and that a refused client can retry, up to the rounding of \<open>float64\<close>; two examples show
    that the order of the clock readings and the slack for the rounding matter.
  \<^item> \<open>Identity_Repo\<close>: the repositories of users, roles, permissions, credentials, tokens.
  \<^item> \<open>Rbac\<close>: \<open>rbac_*.go\<close>, \<open>user_service.go\<close>; the locale \<open>rbac_cache\<close> of a permission cache, interpreted on the caches in
    memory and Redis; the resolver never answers stale permissions when changes invalidate.
  \<^item> \<open>Auth_Service\<close>, \<open>Account_Security\<close>: \<open>auth_service.go\<close>, \<open>oauth_service.go\<close>; what login, registration,
    verification and reset check and write, and that tokens by mail are single use.
  \<^item> \<open>Feature_Flags\<close>, \<open>Flag_Consistency\<close>, \<open>Flag_Redis\<close>: repository, service and caches of flags; evaluation equals a
    declarative verdict, stored rules are valid, and cached evaluations refine uncached ones.
  \<^item> \<open>Handler_Util\<close>, \<open>Products\<close>: shared helpers of handlers; the product catalogue from handler to table.
  \<^item> \<open>Lookup_Caches\<close>, \<open>Rbac_Seed\<close>, \<open>Admin_Handler\<close>, \<open>Admin_Safety\<close>, \<open>Admin_Lockout\<close>: the caches of the admin API, \<open>seed.go\<close>
    and \<open>admin_handler.go\<close>; protected rows stay, names are canonical, the negative cache has no effect, and an
    administrator cannot remove the permission his own request requires.
  \<^item> \<open>Auth_Handler\<close>, \<open>Auth_Flow\<close>: \<open>auth_handler.go\<close> over the account service and the abuse guard; a locked identity
    stays locked, logout ends every session, the OAuth state guards the callback.

  \<^item> \<open>Go_Parse\<close>, \<open>App_Config\<close>: durations, booleans and floats of the standard library; \<open>config.go\<close>, the loading of the
    configuration and every check of it.
  \<^item> \<open>Request_Bypass\<close>, \<open>Health\<close>, \<open>Providers\<close>: \<open>bypass_policy.go\<close>, \<open>src/internal/health\<close> and \<open>di/providers.go\<close>; only trusted
    subjects and networks pass by the limits.
  \<^item> \<open>Production_Env\<close>, \<open>Production\<close>: what follows from a configuration that was loaded: in production cookies are secure,
    secrets are real, the limiters of login, forgotten passwords and administration refuse when Redis is down, and
    the configured policies are the ones in force.
  \<^item> \<open>Router\<close>, \<open>Route_Access\<close>: \<open>router.go\<close> as a tree of routes with their guards; a table says which token, permission
    and CSRF check each endpoint needs, and the router enforces it: the handlers a caller is not
    authorised for, in the state in which the request arrives, have no influence on the answer or the state.
  \<^item> \<open>Storage\<close>, \<open>User_Handler\<close>: \<open>storage_service.go\<close> and \<open>user_handler.go\<close>; avatars are what
    their bytes say and, like sessions, out of the reach of other users.
  \<^item> \<open>Flag_Handler\<close>: \<open>feature_flag_handler.go\<close>; after any requests every stored flag can be asked for by its key.
  \<^item> \<open>Google_Provider\<close>: the request for the user's data in \<open>oauth_service.go\<close>; no login without Google's word.
  \<^item> \<open>Audit_Log\<close>: \<open>audit.go\<close>, \<open>logging.go\<close>, \<open>request_logging_middleware.go\<close>; exactly when an audited action is recorded.
  \<^item> \<open>Tool_Commands\<close>, \<open>Load_Tools\<close>: \<open>src/internal/tools\<close>; the environment file never overrides, reports agree with exit
    status, the load generator accounts for every request in every interleaving, the newest trace is checked.

  \<^bold>\<open>Termination and fuel.\<close>  Every definition is total but one: \<open>Begin\<close> of the idempotency table retries without
  bound on read conflicts, and is the \<open>partial_function\<close> \<open>idem_begin_from\<close>; \<open>Begin_returns\<close> shows that it
  returns with the first attempt that meets no conflict, if there is one.  No fuel is used.

  \<^bold>\<open>Concurrency.\<close>  A step of a run is a whole call (of a store, a limiter, a repository, a handler).  Interleavings of
  calls are arbitrary sequences of steps; a race inside a call is outside these runs and recorded as a finding
  where the code has one (the resolver's read before its store, the limiter's clock before its lock).

  \<^bold>\<open>Not modelled.\<close>  Metrics and traces (the rest of \<open>src/internal/observability\<close>) are instruments of OpenTelemetry that no
  answer and no table depends on; the handlers are modelled without their calls of \<open>EmitAudit\<close>.  The start and
  stop of the process (\<open>app.go\<close>, \<open>cmd\<close>, the wire sets and generated wiring of \<open>di\<close>), the connection to the database and
  \<open>AutoMigrate\<close> are calls of libraries.  \<open>gomock\<close> directories are generated for the tests, \<open>service/interfaces.go\<close> has
  no code.
\<close>

end
